(* ===== verification/Prelude.thy ===== *)
theory Prelude
  imports Main "HOL-Library.AList" "HOL-Library.Char_ord" "HOL-Library.List_Lexorder"
begin

text \<open>
  What every component of the development shares: identifiers and instants, the shape of a
  fallible operation over a store (an error or a value, and the store it leaves behind), Go maps
  as association lists, and the collections of rules the component proofs use.

  A Go map is an association list with distinct keys. Go visits a map in an order it does not
  specify; the list's order is one such order, and because every statement of the development
  ranges over all lists it covers every order the runtime may choose.
\<close>

section \<open>Rule collections\<close>

named_theorems prog_simps \<open>equations and inversion rules of the operation combinators\<close>
named_theorems keeps_intros \<open>rules that an operation keeps a predicate of the store\<close>
named_theorems amap_simps \<open>lookups and membership in association lists after an update\<close>

section \<open>Identifiers and instants\<close>

text \<open>
  \<open>uuid.UUID\<close> is an array of sixteen bytes; it is represented by the number the bytes spell
  (most significant first), so that comparing two canonical string forms is comparing the
  numbers. \<open>uuid.Nil\<close> is the identifier of zeros. Identifiers are drawn by \<open>uuid.NewV7\<close>,
  which is not part of this repository: an operation that draws one takes it from its
  caller's environment.
\<close>

datatype uuid = UUID nat

instantiation uuid :: linorder
begin

fun less_eq_uuid :: "uuid \<Rightarrow> uuid \<Rightarrow> bool" where
  "less_eq_uuid (UUID a) (UUID b) = (a \<le> b)"

fun less_uuid :: "uuid \<Rightarrow> uuid \<Rightarrow> bool" where
  "less_uuid (UUID a) (UUID b) = (a < b)"

instance
proof
  fix x y z :: uuid
  show "(x < y) = (x \<le> y \<and> \<not> y \<le> x)" by (cases x; cases y) auto
  show "x \<le> x" by (cases x) simp
  show "x \<le> y \<Longrightarrow> y \<le> z \<Longrightarrow> x \<le> z" by (cases x; cases y; cases z) simp
  show "x \<le> y \<Longrightarrow> y \<le> x \<Longrightarrow> x = y" by (cases x; cases y) simp
  show "x \<le> y \<or> y \<le> x" by (cases x; cases y) auto
qed

end

abbreviation uuid_Nil :: uuid where
  "uuid_Nil \<equiv> UUID 0"

text \<open>
  \<open>time.Time\<close> is an instant in nanoseconds since the zero time, which is the one
  \<open>IsZero\<close> recognises. \<open>t.After(u)\<close> is \<open>u < t\<close>; \<open>UTC()\<close> changes the
  location of an instant and not the instant.
\<close>

type_synonym time = int

abbreviation (input) zero_time :: time where
  "zero_time \<equiv> 0"

definition minutes :: "int \<Rightarrow> int" where
  "minutes n = n * 60 * 1000000000"

definition hours :: "int \<Rightarrow> int" where
  "hours n = n * 60 * 60 * 1000000000"

lemma durations_pos [simp]: "0 < minutes n \<longleftrightarrow> 0 < n" "0 < hours n \<longleftrightarrow> 0 < n"
  by (auto simp: minutes_def hours_def)

section \<open>Fallible operations over a store\<close>

text \<open>
  An operation takes the store and returns an error or a value together with the store it
  leaves. A failing operation still returns a store: Go rolls nothing back, so whatever an
  operation wrote before it failed stays written.
\<close>

type_synonym ('s, 'e, 'a) prog = "'s \<Rightarrow> ('e + 'a) \<times> 's"

definition ok :: "'a \<Rightarrow> ('s, 'e, 'a) prog" where
  "ok x s = (Inr x, s)"

definition refuse :: "'e \<Rightarrow> ('s, 'e, 'a) prog" where
  "refuse e s = (Inl e, s)"

text \<open>A read returns an error or a value and leaves the store alone.\<close>

definition query :: "('s \<Rightarrow> 'e + 'a) \<Rightarrow> ('s, 'e, 'a) prog" where
  "query f s = (f s, s)"

text \<open>\<open>if err != nil { return err }\<close> after a call.\<close>

definition bindp :: "('s, 'e, 'a) prog \<Rightarrow> ('a \<Rightarrow> ('s, 'e, 'b) prog) \<Rightarrow> ('s, 'e, 'b) prog" where
  "bindp m f s = (case m s of (Inl e, s') \<Rightarrow> (Inl e, s') | (Inr x, s') \<Rightarrow> f x s')"

text \<open>A pure check that returns an error or nothing, lifted to an operation.\<close>

definition ensure :: "'e + unit \<Rightarrow> ('s, 'e, unit) prog" where
  "ensure r s = (r, s)"

text \<open>A call whose error the caller inspects instead of passing it on.\<close>

definition attempt :: "('s, 'e, 'a) prog \<Rightarrow> ('e + 'a \<Rightarrow> ('s, 'f, 'b) prog) \<Rightarrow> ('s, 'f, 'b) prog" where
  "attempt m f s = (case m s of (r, s') \<Rightarrow> f r s')"

lemma ok_eq [prog_simps]: "ok x s = (r, s') \<longleftrightarrow> r = Inr x \<and> s' = s"
  by (auto simp: ok_def)

lemma refuse_eq [prog_simps]: "refuse e s = (r, s') \<longleftrightarrow> r = Inl e \<and> s' = s"
  by (auto simp: refuse_def)

lemma query_eq [prog_simps]: "query f s = (r, s') \<longleftrightarrow> f s = r \<and> s' = s"
  by (auto simp: query_def)

lemma ensure_eq [prog_simps]: "ensure c s = (r, s') \<longleftrightarrow> c = r \<and> s' = s"
  by (auto simp: ensure_def)

lemma bindp_Inr [prog_simps]:
  "bindp m f s = (Inr y, t) \<longleftrightarrow> (\<exists>x s'. m s = (Inr x, s') \<and> f x s' = (Inr y, t))"
  by (auto simp: bindp_def split: prod.splits sum.splits)

lemma bindp_Inl [prog_simps]:
  "bindp m f s = (Inl e, t) \<longleftrightarrow>
     m s = (Inl e, t) \<or> (\<exists>x s'. m s = (Inr x, s') \<and> f x s' = (Inl e, t))"
  by (auto simp: bindp_def split: prod.splits sum.splits)

lemma attempt_eq [prog_simps]:
  "attempt m f s = (r, t) \<longleftrightarrow> (\<exists>q s'. m s = (q, s') \<and> f q s' = (r, t))"
  by (auto simp: attempt_def split: prod.splits)

lemmas prog_defs = ok_def refuse_def query_def bindp_def ensure_def attempt_def

text \<open>
  An operation keeps a predicate when it holds of the store it leaves, whatever it returns,
  provided it held of the store it was given.
\<close>

definition keeps :: "('s \<Rightarrow> bool) \<Rightarrow> ('s, 'e, 'a) prog \<Rightarrow> bool" where
  "keeps P m \<longleftrightarrow> (\<forall>s. P s \<longrightarrow> P (snd (m s)))"

lemma keepsI: "(\<And>s. P s \<Longrightarrow> P (snd (m s))) \<Longrightarrow> keeps P m"
  by (simp add: keeps_def)

lemma keepsD: "keeps P m \<Longrightarrow> m s = (r, t) \<Longrightarrow> P s \<Longrightarrow> P t"
  by (metis keeps_def snd_conv)

lemma keeps_ok [keeps_intros]: "keeps P (ok x)"
  by (simp add: keeps_def ok_def)

lemma keeps_refuse [keeps_intros]: "keeps P (refuse e)"
  by (simp add: keeps_def refuse_def)

lemma keeps_query [keeps_intros]: "keeps P (query f)"
  by (simp add: keeps_def query_def)

lemma keeps_ensure [keeps_intros]: "keeps P (ensure c)"
  by (simp add: keeps_def ensure_def)

lemma keeps_bindp [keeps_intros]: "keeps P m \<Longrightarrow> (\<And>x. keeps P (f x)) \<Longrightarrow> keeps P (bindp m f)"
  unfolding keeps_def bindp_def by (auto split: prod.splits sum.splits)

lemma keeps_attempt [keeps_intros]: "keeps P m \<Longrightarrow> (\<And>r. keeps P (f r)) \<Longrightarrow> keeps P (attempt m f)"
  by (auto simp: keeps_def attempt_def split: prod.splits)

lemma keeps_if [keeps_intros]: "keeps P m \<Longrightarrow> keeps P n \<Longrightarrow> keeps P (if b then m else n)"
  by simp

section \<open>Go maps as association lists\<close>

type_synonym ('k, 'v) amap = "('k \<times> 'v) list"

abbreviation akeys :: "('k, 'v) amap \<Rightarrow> 'k list" where
  "akeys m \<equiv> map fst m"

abbreviation avals :: "('k, 'v) amap \<Rightarrow> 'v list" where
  "avals m \<equiv> map snd m"

abbreviation adistinct :: "('k, 'v) amap \<Rightarrow> bool" where
  "adistinct m \<equiv> distinct (map fst m)"

text \<open>\<open>m[k]\<close> of a map whose values are slices: a missing key reads as the nil slice.\<close>

definition alist_at :: "('k, 'v list) amap \<Rightarrow> 'k \<Rightarrow> 'v list" where
  "alist_at m k = (case map_of m k of None \<Rightarrow> [] | Some xs \<Rightarrow> xs)"

declare map_of_eq_Some_iff [simp del]

lemma adistinct_in: "adistinct m \<Longrightarrow> (k, v) \<in> set m \<longleftrightarrow> map_of m k = Some v"
  by (simp add: map_of_eq_Some_iff)

lemma adistinct_aval: "adistinct m \<Longrightarrow> v \<in> snd ` set m \<longleftrightarrow> (\<exists>k. map_of m k = Some v)"
  by (force simp: image_iff adistinct_in[symmetric])

lemma map_of_aupdate [amap_simps]: "map_of (AList.update k v m) = (map_of m)(k \<mapsto> v)"
  by (simp add: update_conv')

lemma map_of_adelete [amap_simps]: "map_of (AList.delete k m) = (map_of m)(k := None)"
  by (simp add: delete_conv')

lemma adistinct_update [simp, intro]: "adistinct m \<Longrightarrow> adistinct (AList.update k v m)"
  by (rule distinct_update)

lemma adistinct_delete [simp, intro]: "adistinct m \<Longrightarrow> adistinct (AList.delete k m)"
  by (rule distinct_delete)

lemma alist_at_update [amap_simps]:
  "alist_at (AList.update k v m) j = (if j = k then v else alist_at m j)"
  by (simp add: alist_at_def update_conv')

lemma alist_at_delete [amap_simps]:
  "alist_at (AList.delete k m) j = (if j = k then [] else alist_at m j)"
  by (simp add: alist_at_def delete_conv')

lemma alist_at_Nil [simp]: "alist_at [] k = []"
  by (simp add: alist_at_def)

text \<open>Deleting from a map, in a loop over it, the rows of some kind.\<close>

lemma map_of_filter_rows [amap_simps]:
  "adistinct m \<Longrightarrow> map_of (filter (\<lambda>(_, v). P v) m) k =
     (case map_of m k of None \<Rightarrow> None | Some v \<Rightarrow> if P v then Some v else None)"
proof (induction m)
  case (Cons kv m)
  obtain j v where kv: "kv = (j, v)" by (cases kv)
  have "map_of m j = None" using Cons.prems kv by (auto simp: map_of_eq_None_iff)
  then show ?case using Cons kv by (auto split: option.splits)
qed simp

lemma adistinct_filter [simp, intro]: "adistinct m \<Longrightarrow> adistinct (filter P m)"
  by (simp add: distinct_map_filter)

text \<open>Go's first match in a \<open>range\<close> loop.\<close>

lemma find_Some_in: "List.find P xs = Some x \<Longrightarrow> x \<in> set xs \<and> P x"
  by (induction xs) (auto split: if_splits)

lemma find_Some_unique:
  assumes x: "x \<in> set xs" "P x" and unique: "\<And>y. y \<in> set xs \<Longrightarrow> P y \<Longrightarrow> y = x"
  shows "List.find P xs = Some x"
proof (cases "List.find P xs")
  case None
  then show ?thesis using x by (simp add: find_None_iff)
next
  case (Some y)
  then show ?thesis using find_Some_in[OF Some] unique by auto
qed

section \<open>Lists\<close>

text \<open>
  The loop that appends what it has not seen yet, as \<open>dedupe\<close>, \<open>uniqueIDs\<close> and the
  permission queries write it: the first occurrence of each element, in order.
\<close>

fun keep_first :: "'a list \<Rightarrow> 'a list \<Rightarrow> 'a list" where
  "keep_first out [] = out"
| "keep_first out (x # xs) = (if x \<in> set out then keep_first out xs else keep_first (out @ [x]) xs)"

lemma set_keep_first [simp]: "set (keep_first out xs) = set out \<union> set xs"
  by (induction out xs rule: keep_first.induct) auto

lemma distinct_keep_first [simp]: "distinct out \<Longrightarrow> distinct (keep_first out xs)"
  by (induction out xs rule: keep_first.induct) auto

lemma keep_first_distinct: "distinct (out @ xs) \<Longrightarrow> keep_first out xs = out @ xs"
  by (induction out xs rule: keep_first.induct) auto

lemma two_in_filter:
  assumes "1 < length (filter P xs)" "distinct xs" "x \<in> set xs"
  obtains y where "y \<in> set xs" "P y" "y \<noteq> x"
proof -
  have "distinct (filter P xs)" using assms(2) by simp
  then have "card (set (filter P xs)) = length (filter P xs)" by (rule distinct_card)
  then have "1 < card (set (filter P xs))" using assms(1) by simp
  then have "\<not> set (filter P xs) \<subseteq> {x}"
    using card_mono[of "{x}" "set (filter P xs)"] by auto
  then show thesis using that by auto
qed

section \<open>Tables of rows keyed by their identifier\<close>

text \<open>
  A Go map from identifiers to rows, each stored under its own identifier.
\<close>

definition rows_ok :: "('v \<Rightarrow> 'k) \<Rightarrow> ('k, 'v) amap \<Rightarrow> bool" where
  "rows_ok idf m \<longleftrightarrow> adistinct m \<and> (\<forall>k v. map_of m k = Some v \<longrightarrow> idf v = k)"

lemma rows_ok_Nil [simp]: "rows_ok idf []"
  by (simp add: rows_ok_def)

lemma rows_ok_adistinct: "rows_ok idf m \<Longrightarrow> adistinct m"
  by (simp add: rows_ok_def)

lemma rows_ok_id: "rows_ok idf m \<Longrightarrow> map_of m k = Some v \<Longrightarrow> idf v = k"
  by (simp add: rows_ok_def)

lemma rows_ok_update [intro]: "rows_ok idf m \<Longrightarrow> idf v = k \<Longrightarrow> rows_ok idf (AList.update k v m)"
  by (simp add: rows_ok_def map_of_aupdate distinct_update)

lemma rows_ok_delete [intro]: "rows_ok idf m \<Longrightarrow> rows_ok idf (AList.delete k m)"
  by (simp add: rows_ok_def map_of_adelete distinct_delete)

lemma rows_ok_filter [intro]: "rows_ok idf m \<Longrightarrow> rows_ok idf (filter (\<lambda>(_, v). P v) m)"
  by (auto simp: rows_ok_def map_of_filter_rows split: option.splits if_splits)

lemma rows_ok_map [intro]:
  "rows_ok idf m \<Longrightarrow> (\<And>v. idf (f v) = idf v) \<Longrightarrow> rows_ok idf (map (\<lambda>(k, v). (k, f v)) m)"
  by (fastforce simp: rows_ok_def map_of_map comp_def split_beta)

lemma rows_ok_vals: "rows_ok idf m \<Longrightarrow> v \<in> snd ` set m \<longleftrightarrow> map_of m (idf v) = Some v"
  by (auto simp: rows_ok_def adistinct_aval)

lemma rows_ok_val_iff: "rows_ok idf m \<Longrightarrow> v \<in> snd ` set m \<longleftrightarrow> (\<exists>k. map_of m k = Some v)"
  by (auto simp: rows_ok_def adistinct_aval)

lemma rows_ball: "rows_ok idf m \<Longrightarrow> (\<forall>v \<in> snd ` set m. P v) \<longleftrightarrow> (\<forall>k v. map_of m k = Some v \<longrightarrow> P v)"
  using rows_ok_val_iff[of idf m] by blast

lemma rows_bex: "rows_ok idf m \<Longrightarrow> (\<exists>v \<in> snd ` set m. P v) \<longleftrightarrow> (\<exists>k v. map_of m k = Some v \<and> P v)"
  using rows_ok_val_iff[of idf m] by blast

lemma rows_ok_distinct:
  assumes "rows_ok idf m"
  shows "distinct (avals m)"
proof -
  have "map idf (avals m) = akeys m"
    using assms by (auto simp: rows_ok_def adistinct_in[symmetric])
  then show ?thesis using assms by (metis rows_ok_def distinct_map)
qed

text \<open>The first row a scan of the map finds is determined when at most one row qualifies.\<close>

lemma rows_find:
  assumes "rows_ok idf m" "map_of m k = Some v" "P v"
    "\<And>k' v'. map_of m k' = Some v' \<Longrightarrow> P v' \<Longrightarrow> k' = k"
  shows "List.find P (avals m) = Some v"
proof (rule find_Some_unique)
  show "v \<in> set (avals m)" using assms(1,2) by (auto simp: rows_ok_val_iff)
  show "P v" by fact
  show "y = v" if "y \<in> set (avals m)" "P y" for y
  proof -
    from that(1) obtain k' where "map_of m k' = Some y" using assms(1) by (auto simp: rows_ok_val_iff)
    then show ?thesis using assms(2,4) that(2) by force
  qed
qed

lemma rows_find_None:
  assumes "rows_ok idf m"
  shows "List.find P (avals m) = None \<longleftrightarrow> (\<forall>k v. map_of m k = Some v \<longrightarrow> \<not> P v)"
proof -
  have "List.find P (avals m) = None \<longleftrightarrow> (\<forall>v \<in> snd ` set m. \<not> P v)"
    by (auto simp: find_None_iff)
  then show ?thesis using rows_ok_val_iff[OF assms] by blast
qed

lemma rows_find_Some:
  "rows_ok idf m \<Longrightarrow> List.find P (avals m) = Some v \<Longrightarrow> map_of m (idf v) = Some v \<and> P v"
  using find_Some_in[of P "avals m" v] by (simp add: rows_ok_vals)

lemma map_filter_set: "set (List.map_filter f xs) = {y. \<exists>x \<in> set xs. f x = Some y}"
  by (force simp: List.map_filter_def image_iff)

end
