(* ===== verification/Errors.thy ===== *)
theory Errors
  imports Prelude
begin

text \<open>
  The sentinel errors of the domain packages and of the entity rules, one datatype per
  \<open>var\<close> block, and their sum. \<open>errors.Is\<close> on a sentinel is equality with it. Further
  summands cover what is not a sentinel of this repository: an error built in place by
  \<open>fmt.Errorf\<close>, the error of a context that has ended, a failure of a driver or of a random
  source, and a run-time panic (a slice bound out of range).
\<close>

datatype authz_error =
    ErrForbidden
  | ErrNotMember
  | ErrUnknownPermission
  | ErrWrongScope
  | ErrInsufficientRank
  | ErrScopeMismatch
  | ErrPrivilegeEscalation

datatype orgs_error =
    OrgsErrNotFound
  | ErrLastOwner
  | ErrRoleProtected
  | ErrRoleInUse
  | ErrRoleKeyTaken
  | ErrAlreadyMember
  | ErrSlugTaken
  | ErrInvalidName
  | ErrInvalidStatus
  | ErrInvitationExpired
  | ErrInvitationAddressMismatch
  | ErrInvalidEmail
  | ErrInvalidSystemRole
  | ErrInvalidInvitationBatch
  | ErrCannotRevokeOwnLastSystemRole

datatype user_error =
    UserErrNotFound
  | ErrEmailTaken
  | ErrPasswordTooLong
  | ErrPasswordTooShort
  | ErrNameEmpty
  | ErrNameTooLong
  | ErrInvalidCredentials
  | ErrUnauthorized
  | ErrPasswordMismatch
  | ErrInvalidResetCode
  | ErrInvalidEmailCode
  | ErrEmailInvalid
  | ErrLocaleUnsupported
  | ErrSameEmail
  | UserErrDeviceRevoked
  | ErrInvalidTwoFactorCode
  | ErrSuspended
  | ErrCannotSuspendSelf
  | ErrCannotDeleteSelf

datatype ent_error =
    ErrProtected
  | ErrBatchDeleteUnsupported
  | EntErrDeviceRevoked
  | ErrRoleIsSystem
  | ErrRoleBatchDeleteUnsupported

datatype files_error =
    FilesErrNotFound
  | ErrEmpty
  | ErrTooLarge
  | ErrNameInvalid
  | ErrTypeNotAllowed
  | ErrTypeMismatch
  | ErrExecutable
  | ErrInfected
  | ErrScanUnavailable
  | ErrCorrupt

datatype err =
    AuthzErr authz_error
  | OrgsErr orgs_error
  | UserErr user_error
  | EntErr ent_error
  | FilesErr files_error
  | InvalidErr string
  | CtxErr
  | DriverErr string
  | GoPanic

text \<open>The sentinel most lookups answer with.\<close>

abbreviation orgs_not_found :: err where
  "orgs_not_found \<equiv> OrgsErr OrgsErrNotFound"

abbreviation user_not_found :: err where
  "user_not_found \<equiv> UserErr UserErrNotFound"

abbreviation files_not_found :: err where
  "files_not_found \<equiv> FilesErr FilesErrNotFound"

end
