(* ===== verification/Go_Strings.thy ===== *)
theory Go_Strings
  imports Prelude
begin

text \<open>
  The functions of Go's \<open>strings\<close> and \<open>unicode/utf8\<close> packages that the program calls. A
  Go string is a sequence of bytes, so it is a list of \<^typ>\<open>char\<close> here, and \<open>length\<close> is
  \<open>len\<close>. The case table of Unicode is not reproduced: where \<open>strings.ToLower\<close> leaves its
  ASCII path it is the parameter \<open>lu\<close> (\<open>strings.Map(unicode.ToLower, s)\<close>).
\<close>

section \<open>UTF-8\<close>

definition byte_in :: "nat \<Rightarrow> nat \<Rightarrow> char \<Rightarrow> bool" where
  "byte_in lo hi c \<longleftrightarrow> lo \<le> of_char c \<and> of_char c \<le> hi"

text \<open>
  The bytes the first rune of a non-empty string takes: the well-formed sequences of the UTF-8
  table, and one byte for anything else (\<open>RuneError\<close>, width 1).
\<close>

fun rune_width :: "string \<Rightarrow> nat" where
  "rune_width (a # b # c # d # _) =
     (if byte_in 0xC2 0xDF a \<and> byte_in 0x80 0xBF b then 2
      else if (byte_in 0xE0 0xE0 a \<and> byte_in 0xA0 0xBF b \<or>
               (byte_in 0xE1 0xEC a \<or> byte_in 0xEE 0xEF a) \<and> byte_in 0x80 0xBF b \<or>
               byte_in 0xED 0xED a \<and> byte_in 0x80 0x9F b) \<and> byte_in 0x80 0xBF c then 3
      else if (byte_in 0xF0 0xF0 a \<and> byte_in 0x90 0xBF b \<or>
               byte_in 0xF1 0xF3 a \<and> byte_in 0x80 0xBF b \<or>
               byte_in 0xF4 0xF4 a \<and> byte_in 0x80 0x8F b) \<and>
              byte_in 0x80 0xBF c \<and> byte_in 0x80 0xBF d then 4
      else 1)"
| "rune_width [a, b, c] =
     (if byte_in 0xC2 0xDF a \<and> byte_in 0x80 0xBF b then 2
      else if (byte_in 0xE0 0xE0 a \<and> byte_in 0xA0 0xBF b \<or>
               (byte_in 0xE1 0xEC a \<or> byte_in 0xEE 0xEF a) \<and> byte_in 0x80 0xBF b \<or>
               byte_in 0xED 0xED a \<and> byte_in 0x80 0x9F b) \<and> byte_in 0x80 0xBF c then 3
      else 1)"
| "rune_width [a, b] = (if byte_in 0xC2 0xDF a \<and> byte_in 0x80 0xBF b then 2 else 1)"
| "rune_width [a] = 1"
| "rune_width [] = 0"

lemma rune_width_pos: "s \<noteq> [] \<Longrightarrow> 0 < rune_width s"
  by (induction s rule: rune_width.induct) auto

lemma rune_width_le: "rune_width s \<le> length s"
  by (induction s rule: rune_width.induct) auto

text \<open>\<open>utf8.RuneCountInString\<close>.\<close>

function rune_count :: "string \<Rightarrow> nat" where
  "rune_count s = (if s = [] then 0 else Suc (rune_count (drop (rune_width s) s)))"
  by pat_completeness auto
termination
  by (relation "measure length") (use rune_width_pos in \<open>auto\<close>)

declare rune_count.simps [simp del]

lemma rune_count_Nil [simp]: "rune_count [] = 0"
  by (simp add: rune_count.simps)

lemma rune_count_le: "rune_count s \<le> length s"
proof (induction s rule: rune_count.induct)
  case (1 s)
  show ?case
  proof (cases "s = []")
    case False
    with 1 have "rune_count (drop (rune_width s) s) \<le> length s - rune_width s" by simp
    moreover have "0 < rune_width s" "rune_width s \<le> length s"
      using rune_width_pos[OF False] rune_width_le by auto
    ultimately show ?thesis using False by (subst rune_count.simps) simp
  qed simp
qed

definition is_ascii :: "char \<Rightarrow> bool" where
  "is_ascii c \<longleftrightarrow> of_char c < (128 :: nat)"

lemma rune_width_ascii: "is_ascii c \<Longrightarrow> rune_width (c # s) = 1"
  by (cases "c # s" rule: rune_width.cases) (auto simp: is_ascii_def byte_in_def)

lemma rune_count_ascii: "list_all is_ascii s \<Longrightarrow> rune_count s = length s"
  by (induction s) (simp_all add: rune_count.simps rune_width_ascii)

section \<open>\<open>strings.TrimSpace\<close>\<close>

text \<open>
  The encodings of the runes \<open>unicode.IsSpace\<close> accepts: the six ASCII ones, U+0085, U+00A0,
  U+1680, U+2000 to U+200A, U+2028, U+2029, U+202F, U+205F and U+3000. \<open>space_width\<close> is
  the number of bytes of the space a string begins with, 0 when it begins with none.
\<close>

definition ascii_space :: "char \<Rightarrow> bool" where
  "ascii_space c \<longleftrightarrow> byte_in 9 13 c \<or> byte_in 32 32 c"

definition space2 :: "char \<Rightarrow> char \<Rightarrow> bool" where
  "space2 a b \<longleftrightarrow> byte_in 0xC2 0xC2 a \<and> (byte_in 0x85 0x85 b \<or> byte_in 0xA0 0xA0 b)"

definition space3 :: "char \<Rightarrow> char \<Rightarrow> char \<Rightarrow> bool" where
  "space3 a b c \<longleftrightarrow>
     byte_in 0xE1 0xE1 a \<and> byte_in 0x9A 0x9A b \<and> byte_in 0x80 0x80 c \<or>
     byte_in 0xE2 0xE2 a \<and> byte_in 0x80 0x80 b \<and>
       (byte_in 0x80 0x8A c \<or> byte_in 0xA8 0xA9 c \<or> byte_in 0xAF 0xAF c) \<or>
     byte_in 0xE2 0xE2 a \<and> byte_in 0x81 0x81 b \<and> byte_in 0x9F 0x9F c \<or>
     byte_in 0xE3 0xE3 a \<and> byte_in 0x80 0x80 b \<and> byte_in 0x80 0x80 c"

fun trim_left :: "string \<Rightarrow> string" where
  "trim_left (a # b # c # s) =
     (if ascii_space a then trim_left (b # c # s)
      else if space2 a b then trim_left (c # s)
      else if space3 a b c then trim_left s
      else a # b # c # s)"
| "trim_left [a, b] =
     (if ascii_space a then trim_left [b] else if space2 a b then [] else [a, b])"
| "trim_left [a] = (if ascii_space a then [] else [a])"
| "trim_left [] = []"

text \<open>The right end, on the reversed string: the last rune's bytes arrive in reverse order.\<close>

fun trim_left_rev :: "string \<Rightarrow> string" where
  "trim_left_rev (c # b # a # s) =
     (if ascii_space c then trim_left_rev (b # a # s)
      else if space2 b c then trim_left_rev (a # s)
      else if space3 a b c then trim_left_rev s
      else c # b # a # s)"
| "trim_left_rev [b, a] =
     (if ascii_space b then trim_left_rev [a] else if space2 a b then [] else [b, a])"
| "trim_left_rev [a] = (if ascii_space a then [] else [a])"
| "trim_left_rev [] = []"

definition trim_space :: "string \<Rightarrow> string" where
  "trim_space s = rev (trim_left_rev (rev (trim_left s)))"

lemma trim_left_length: "length (trim_left s) \<le> length s"
  by (induction s rule: trim_left.induct) auto

lemma trim_left_rev_length: "length (trim_left_rev s) \<le> length s"
  by (induction s rule: trim_left_rev.induct) auto

lemma trim_space_length: "length (trim_space s) \<le> length s"
  unfolding trim_space_def
  using trim_left_length[of s] trim_left_rev_length[of "rev (trim_left s)"] by simp

lemma trim_left_suffix: "\<exists>p. s = p @ trim_left s"
proof (induction s rule: trim_left.induct)
  case (1 a b c s)
  show ?case
  proof (cases "ascii_space a")
    case True
    then obtain p where "b # c # s = p @ trim_left (b # c # s)" using 1(1) by blast
    then have "a # b # c # s = (a # p) @ trim_left (a # b # c # s)" using True by simp
    then show ?thesis by blast
  next
    case a: False
    show ?thesis
    proof (cases "space2 a b")
      case True
      then obtain p where "c # s = p @ trim_left (c # s)" using a 1(2) by blast
      then have "a # b # c # s = (a # b # p) @ trim_left (a # b # c # s)" using a True by simp
      then show ?thesis by blast
    next
      case b: False
      show ?thesis
      proof (cases "space3 a b c")
        case True
        then obtain p where "s = p @ trim_left s" using a b 1(3) by blast
        then have "a # b # c # s = (a # b # c # p) @ trim_left (a # b # c # s)" using a b True by simp
        then show ?thesis by blast
      qed (use a b in simp)
    qed
  qed
qed auto

text \<open>Text without a space and without a byte above ASCII is left as it is.\<close>

definition plain_char :: "char \<Rightarrow> bool" where
  "plain_char c \<longleftrightarrow> is_ascii c \<and> \<not> ascii_space c"

lemma plain_not_space: "plain_char a \<Longrightarrow> \<not> ascii_space a \<and> \<not> space2 a b \<and> \<not> space2 b a \<and> \<not> space3 a b c \<and> \<not> space3 b c a"
  by (auto simp: plain_char_def is_ascii_def space2_def space3_def byte_in_def)

lemma trim_left_plain: "list_all plain_char s \<Longrightarrow> trim_left s = s"
  by (cases s rule: trim_left.cases) (simp_all add: plain_not_space)

lemma trim_left_rev_plain: "list_all plain_char s \<Longrightarrow> trim_left_rev s = s"
  by (cases s rule: trim_left_rev.cases) (simp_all add: plain_not_space)

lemma trim_space_plain: "list_all plain_char s \<Longrightarrow> trim_space s = s"
  by (simp add: trim_space_def trim_left_plain trim_left_rev_plain)

section \<open>\<open>strings.ToLower\<close>, \<open>strings.Split\<close>\<close>

definition ascii_lower :: "char \<Rightarrow> char" where
  "ascii_lower c = (if byte_in 65 90 c then char_of (of_char c + (32 :: nat)) else c)"

definition to_lower :: "(string \<Rightarrow> string) \<Rightarrow> string \<Rightarrow> string" where
  "to_lower lu s = (if list_all is_ascii s then map ascii_lower s else lu s)"

lemma ascii_lower_idem: "is_ascii c \<Longrightarrow> ascii_lower (ascii_lower c) = ascii_lower c"
  by (auto simp: ascii_lower_def byte_in_def is_ascii_def)

lemma ascii_lower_ascii: "is_ascii c \<Longrightarrow> is_ascii (ascii_lower c)"
  by (auto simp: ascii_lower_def byte_in_def is_ascii_def)

lemma to_lower_idem:
  "list_all is_ascii s \<Longrightarrow> to_lower lu (to_lower lu s) = to_lower lu s"
proof -
  assume s: "list_all is_ascii s"
  then have "list_all is_ascii (map ascii_lower s)"
    by (induction s) (auto simp: ascii_lower_ascii)
  moreover have "map ascii_lower (map ascii_lower s) = map ascii_lower s"
    using s by (induction s) (auto simp: ascii_lower_idem)
  ultimately show ?thesis using s by (simp add: to_lower_def)
qed

text \<open>\<open>strings.Split\<close> at a single byte: one part more than there are separators.\<close>

fun split_at :: "char \<Rightarrow> string \<Rightarrow> string list" where
  "split_at c [] = [[]]"
| "split_at c (x # xs) =
     (if x = c then [] # split_at c xs
      else (case split_at c xs of [] \<Rightarrow> [[x]] | p # ps \<Rightarrow> (x # p) # ps))"

lemma split_at_nonempty [simp]: "split_at c s \<noteq> []"
  by (induction s) (auto split: list.splits)

end
