(* ===== verification/Entities.thy ===== *)
theory Entities
  imports Errors Go_Strings
begin

text \<open>
  The rows of the store and the rules that live on them: the entity structs of
  \<open>internal/store/ent\<close> and the hand-written \<open>*_rules.go\<close> beside them. A pointer field that may
  be nil is an option. \<open>created_at\<close> and \<open>updated_at\<close> are kept only where the program reads or
  writes them itself; \<open>time.Now()\<close> is an argument of the rules that read the clock.
\<close>

section \<open>Rows\<close>

record User =
  u_ID :: uuid
  u_CreatedAt :: time
  u_DeletedAt :: "time option"
  u_IsProtected :: bool
  u_Name :: string
  u_Email :: string
  u_PasswordHash :: string
  u_Locale :: string
  u_SessionEpoch :: int
  u_TwoFactorEnabled :: bool
  u_SuspendedAt :: "time option"
  u_AvatarID :: "uuid option"

record Organization =
  org_ID :: uuid
  org_DeletedAt :: "time option"
  org_IsProtected :: bool
  org_Slug :: string
  org_Name :: string

text \<open>\<open>membership.Status\<close> is a string type with two constants; any other value is possible.\<close>

datatype MembershipStatus = MembershipActive | MembershipSuspended | MembershipOther string

record Membership =
  ms_ID :: uuid
  ms_UserID :: uuid
  ms_OrganizationID :: uuid
  ms_Status :: MembershipStatus
  ms_InvitedBy :: "uuid option"
  ms_JoinedAt :: "time option"

record Role =
  r_ID :: uuid
  r_OrganizationID :: uuid
  r_Key :: string
  r_Name :: string
  r_Description :: string
  r_IsSystem :: bool

record Invitation =
  inv_ID :: uuid
  inv_CreatedAt :: time
  inv_OrganizationID :: uuid
  inv_Email :: string
  inv_TokenHash :: string
  inv_InvitedBy :: "uuid option"
  inv_ExpiresAt :: time
  inv_AcceptedAt :: "time option"

record Device =
  dv_ID :: uuid
  dv_CreatedAt :: time
  dv_UserID :: uuid
  dv_Fingerprint :: string
  dv_UserAgent :: string
  dv_LastSeenAt :: "time option"
  dv_LastIP :: "string option"
  dv_TrustedAt :: "time option"
  dv_RevokedAt :: "time option"

datatype LoginOutcome = OutcomeSuccess | OutcomeBadPassword | OutcomeMFAFailed | OutcomeLocked

record LoginEvent =
  le_ID :: uuid
  le_CreatedAt :: time
  le_UserID :: uuid
  le_DeviceID :: "uuid option"
  le_IP :: string
  le_UserAgent :: string
  le_Outcome :: LoginOutcome

record PasswordReset =
  pr_ID :: uuid
  pr_UserID :: uuid
  pr_CodeHash :: string
  pr_ExpiresAt :: time
  pr_Attempts :: int
  pr_ConsumedAt :: "time option"

record EmailChange =
  ec_ID :: uuid
  ec_UserID :: uuid
  ec_NewEmail :: string
  ec_CodeHash :: string
  ec_ExpiresAt :: time
  ec_Attempts :: int
  ec_ConsumedAt :: "time option"

record TwoFactorChallenge =
  tc_ID :: uuid
  tc_UserID :: uuid
  tc_DeviceID :: uuid
  tc_CodeHash :: string
  tc_ExpiresAt :: time
  tc_Attempts :: int
  tc_ConsumedAt :: "time option"

record AuthzEvent =
  ev_ID :: uuid
  ev_CreatedAt :: time
  ev_OrganizationID :: "uuid option"
  ev_ActorID :: uuid
  ev_SubjectID :: "uuid option"
  ev_Action :: string
  ev_RoleID :: "uuid option"
  ev_IP :: string
  ev_UserAgent :: string
  ev_Detail :: string

section \<open>Rules on accounts and organizations\<close>

definition UserIsSuspended :: "User \<Rightarrow> bool" where
  "UserIsSuspended u \<longleftrightarrow> u_SuspendedAt u \<noteq> None"

definition UserIsDeleted :: "User \<Rightarrow> bool" where
  "UserIsDeleted u \<longleftrightarrow> u_DeletedAt u \<noteq> None"

definition UserRefuseIfProtected :: "User \<Rightarrow> err + unit" where
  "UserRefuseIfProtected u = (if u_IsProtected u then Inl (EntErr ErrProtected) else Inr ())"

definition UserRefuseDelete :: "User \<Rightarrow> err + unit" where
  "UserRefuseDelete u =
     (case UserRefuseIfProtected u of
        Inl e \<Rightarrow> Inl e
      | Inr _ \<Rightarrow> if u_ID u = uuid_Nil then Inl (EntErr ErrBatchDeleteUnsupported) else Inr ())"

definition UserDelete :: "time \<Rightarrow> User \<Rightarrow> err + User" where
  "UserDelete now u =
     (case UserRefuseIfProtected u of
        Inl e \<Rightarrow> Inl e
      | Inr _ \<Rightarrow> Inr (u\<lparr>u_DeletedAt := Some now\<rparr>))"

definition UserRestore :: "User \<Rightarrow> User" where
  "UserRestore u = u\<lparr>u_DeletedAt := None\<rparr>"

definition DefaultOrganizationSlug :: string where
  "DefaultOrganizationSlug = ''default''"

definition MaxSlugLength :: nat where
  "MaxSlugLength = 63"

definition OrganizationIsDeleted :: "Organization \<Rightarrow> bool" where
  "OrganizationIsDeleted o' \<longleftrightarrow> org_DeletedAt o' \<noteq> None"

definition OrganizationRefuseIfProtected :: "Organization \<Rightarrow> err + unit" where
  "OrganizationRefuseIfProtected o' = (if org_IsProtected o' then Inl (EntErr ErrProtected) else Inr ())"

definition OrganizationDelete :: "time \<Rightarrow> Organization \<Rightarrow> err + Organization" where
  "OrganizationDelete now o' =
     (case OrganizationRefuseIfProtected o' of
        Inl e \<Rightarrow> Inl e
      | Inr _ \<Rightarrow> Inr (o'\<lparr>org_DeletedAt := Some now\<rparr>))"

definition OrganizationRestore :: "Organization \<Rightarrow> Organization" where
  "OrganizationRestore o' = o'\<lparr>org_DeletedAt := None\<rparr>"

text \<open>
  The byte loop \<open>validSlug\<close> and \<open>validRoleKey\<close> share but for the separator. \<open>prev\<close> is the
  byte before the current one; the first byte is not a separator when the loop starts, so it is
  its own \<open>prev\<close>.
\<close>

definition label_char :: "char \<Rightarrow> bool" where
  "label_char c \<longleftrightarrow> byte_in 97 122 c \<or> byte_in 48 57 c"

fun label_loop :: "char \<Rightarrow> char \<Rightarrow> string \<Rightarrow> bool" where
  "label_loop sep prev [] = True"
| "label_loop sep prev (c # cs) =
     (if label_char c then label_loop sep c cs
      else if c = sep then (if prev = sep then False else label_loop sep c cs)
      else False)"

definition validSlug :: "string \<Rightarrow> bool" where
  "validSlug slug =
     (if slug = [] \<or> MaxSlugLength < length slug then False
      else if hd slug = CHR ''-'' \<or> last slug = CHR ''-'' then False
      else label_loop (CHR ''-'') (hd slug) slug)"

definition OrganizationValidate :: "Organization \<Rightarrow> err + unit" where
  "OrganizationValidate o' =
     (if \<not> validSlug (org_Slug o') then Inl (InvalidErr ''organization slug'')
      else if org_Name o' = [] \<or> 100 < rune_count (org_Name o') then Inl (InvalidErr ''organization name'')
      else Inr ())"

section \<open>Rules on memberships, roles and invitations\<close>

definition GrantsPermissions :: "MembershipStatus \<Rightarrow> bool" where
  "GrantsPermissions s \<longleftrightarrow> s = MembershipActive"

definition MembershipActivate :: "time \<Rightarrow> Membership \<Rightarrow> Membership" where
  "MembershipActivate at m =
     (let m = m\<lparr>ms_Status := MembershipActive\<rparr>
      in if ms_JoinedAt m = None then m\<lparr>ms_JoinedAt := Some at\<rparr> else m)"

definition MembershipSuspend :: "Membership \<Rightarrow> Membership" where
  "MembershipSuspend m = m\<lparr>ms_Status := MembershipSuspended\<rparr>"

definition MembershipIsActive :: "Membership \<Rightarrow> bool" where
  "MembershipIsActive m \<longleftrightarrow> GrantsPermissions (ms_Status m)"

definition MembershipValidate :: "Membership \<Rightarrow> err + unit" where
  "MembershipValidate m =
     (if \<not> (ms_Status m = MembershipActive \<or> ms_Status m = MembershipSuspended)
      then Inl (InvalidErr ''membership status'')
      else if ms_UserID m = uuid_Nil then Inl (InvalidErr ''membership account'')
      else Inr ())"

definition InvitationValidate :: "Invitation \<Rightarrow> err + unit" where
  "InvitationValidate i =
     (if trim_space (inv_Email i) = [] then Inl (InvalidErr ''invitation email'')
      else if trim_space (inv_TokenHash i) = [] then Inl (InvalidErr ''invitation token'')
      else Inr ())"

definition InvitationPending :: "time \<Rightarrow> Invitation \<Rightarrow> bool" where
  "InvitationPending now i \<longleftrightarrow> inv_AcceptedAt i = None \<and> now < inv_ExpiresAt i"

definition MaxRoleKeyLength :: nat where
  "MaxRoleKeyLength = 64"

definition validRoleKey :: "string \<Rightarrow> bool" where
  "validRoleKey key =
     (if key = [] \<or> MaxRoleKeyLength < length key then False
      else if hd key = CHR ''_'' \<or> last key = CHR ''_'' then False
      else label_loop (CHR ''_'') (hd key) key)"

definition RoleValidate :: "Role \<Rightarrow> err + unit" where
  "RoleValidate r =
     (if \<not> validRoleKey (r_Key r) then Inl (InvalidErr ''role key'')
      else if r_Name r = [] \<or> 100 < rune_count (r_Name r) then Inl (InvalidErr ''role name'')
      else Inr ())"

definition RoleRefuseDelete :: "Role \<Rightarrow> err + unit" where
  "RoleRefuseDelete r =
     (if r_ID r = uuid_Nil then Inl (EntErr ErrRoleBatchDeleteUnsupported)
      else if r_IsSystem r then Inl (EntErr ErrRoleIsSystem)
      else Inr ())"

definition UserSystemRoleValidate :: "string \<Rightarrow> err + unit" where
  "UserSystemRoleValidate roleKey =
     (if \<not> validRoleKey roleKey then Inl (InvalidErr ''system role key'') else Inr ())"

section \<open>Rules on devices\<close>

definition DeviceIsTrusted :: "Device \<Rightarrow> bool" where
  "DeviceIsTrusted d \<longleftrightarrow> dv_TrustedAt d \<noteq> None \<and> dv_RevokedAt d = None"

definition DeviceIsRevoked :: "Device \<Rightarrow> bool" where
  "DeviceIsRevoked d \<longleftrightarrow> dv_RevokedAt d \<noteq> None"

definition DeviceTrust :: "time \<Rightarrow> Device \<Rightarrow> err + Device" where
  "DeviceTrust now d =
     (if DeviceIsRevoked d then Inl (EntErr EntErrDeviceRevoked)
      else Inr (d\<lparr>dv_TrustedAt := Some now\<rparr>))"

definition DeviceRevoke :: "time \<Rightarrow> Device \<Rightarrow> err + Device" where
  "DeviceRevoke now d =
     (if DeviceIsRevoked d then Inl (EntErr EntErrDeviceRevoked)
      else Inr (d\<lparr>dv_RevokedAt := Some now, dv_TrustedAt := None\<rparr>))"

definition DeviceUnrevoke :: "Device \<Rightarrow> Device" where
  "DeviceUnrevoke d = d\<lparr>dv_RevokedAt := None\<rparr>"

section \<open>Audited actions\<close>

definition ActionOrganizationCreated :: string where "ActionOrganizationCreated = ''organization.created''"
definition ActionOrganizationUpdated :: string where "ActionOrganizationUpdated = ''organization.updated''"
definition ActionOrganizationDeleted :: string where "ActionOrganizationDeleted = ''organization.deleted''"
definition ActionMemberInvited :: string where "ActionMemberInvited = ''member.invited''"
definition ActionMemberAccepted :: string where "ActionMemberAccepted = ''member.accepted''"
definition ActionMemberJoined :: string where "ActionMemberJoined = ''member.joined''"
definition ActionMemberInvitationDeclined :: string where
  "ActionMemberInvitationDeclined = ''member.invitation_declined''"
definition ActionMemberInvitationWithdrawn :: string where
  "ActionMemberInvitationWithdrawn = ''member.invitation_withdrawn''"
definition ActionMemberRemoved :: string where "ActionMemberRemoved = ''member.removed''"
definition ActionMemberLeft :: string where "ActionMemberLeft = ''member.left''"
definition ActionMemberSuspended :: string where "ActionMemberSuspended = ''member.suspended''"
definition ActionMemberReinstated :: string where "ActionMemberReinstated = ''member.reinstated''"
definition ActionMemberRolesChanged :: string where "ActionMemberRolesChanged = ''member.roles_changed''"
definition ActionRoleCreated :: string where "ActionRoleCreated = ''role.created''"
definition ActionRoleUpdated :: string where "ActionRoleUpdated = ''role.updated''"
definition ActionRoleDeleted :: string where "ActionRoleDeleted = ''role.deleted''"
definition ActionRolePermissionsChanged :: string where
  "ActionRolePermissionsChanged = ''role.permissions_changed''"
definition ActionSystemRoleGranted :: string where "ActionSystemRoleGranted = ''system_role.granted''"
definition ActionSystemRoleRevoked :: string where "ActionSystemRoleRevoked = ''system_role.revoked''"
definition ActionFileUploaded :: string where "ActionFileUploaded = ''file.uploaded''"
definition ActionFileDeleted :: string where "ActionFileDeleted = ''file.deleted''"

definition AuthzActionValid :: "string \<Rightarrow> bool" where
  "AuthzActionValid a \<longleftrightarrow> a \<in> set
    [ActionOrganizationCreated, ActionOrganizationUpdated, ActionOrganizationDeleted,
     ActionMemberInvited, ActionMemberAccepted, ActionMemberJoined,
     ActionMemberInvitationDeclined, ActionMemberInvitationWithdrawn,
     ActionMemberRemoved, ActionMemberLeft, ActionMemberSuspended,
     ActionMemberReinstated, ActionMemberRolesChanged,
     ActionRoleCreated, ActionRoleUpdated, ActionRoleDeleted, ActionRolePermissionsChanged,
     ActionSystemRoleGranted, ActionSystemRoleRevoked,
     ActionFileUploaded, ActionFileDeleted]"

definition AuthzEventValidate :: "AuthzEvent \<Rightarrow> err + unit" where
  "AuthzEventValidate e =
     (if \<not> AuthzActionValid (ev_Action e) then Inl (InvalidErr ''authz action'')
      else if ev_ActorID e = uuid_Nil then Inl (InvalidErr ''authz event actor'')
      else Inr ())"

section \<open>Lemmas\<close>

lemma MembershipActivate_sel [simp]:
  "ms_ID (MembershipActivate at m) = ms_ID m"
  "ms_UserID (MembershipActivate at m) = ms_UserID m"
  "ms_OrganizationID (MembershipActivate at m) = ms_OrganizationID m"
  "ms_Status (MembershipActivate at m) = MembershipActive"
  "ms_InvitedBy (MembershipActivate at m) = ms_InvitedBy m"
  by (simp_all add: MembershipActivate_def Let_def)

lemma DeviceTrust_sel:
  "DeviceTrust now d = Inr d' \<Longrightarrow>
     dv_ID d' = dv_ID d \<and> dv_UserID d' = dv_UserID d \<and> dv_Fingerprint d' = dv_Fingerprint d \<and>
     DeviceIsTrusted d' \<and> \<not> DeviceIsRevoked d'"
  by (auto simp: DeviceTrust_def DeviceIsTrusted_def DeviceIsRevoked_def split: if_splits)

lemma DeviceRevoke_sel:
  "DeviceRevoke now d = Inr d' \<Longrightarrow>
     dv_ID d' = dv_ID d \<and> dv_UserID d' = dv_UserID d \<and> dv_Fingerprint d' = dv_Fingerprint d \<and>
     DeviceIsRevoked d' \<and> \<not> DeviceIsTrusted d'"
  by (auto simp: DeviceRevoke_def DeviceIsTrusted_def DeviceIsRevoked_def split: if_splits)

text \<open>
  The loop is the grammar: non-empty runs of lower-case letters and digits, separated by single
  separators.
\<close>

lemma split_at_Cons_sep: "split_at c (c # xs) = [] # split_at c xs"
  by simp

lemma label_loop_parts:
  "\<not> label_char sep \<Longrightarrow>
     label_loop sep prev s \<and> (s = [] \<longrightarrow> prev \<noteq> sep) \<and> (s \<noteq> [] \<longrightarrow> last s \<noteq> sep) \<longleftrightarrow>
     list_all label_char (hd (split_at sep s)) \<and>
     (hd (split_at sep s) = [] \<longrightarrow> prev \<noteq> sep) \<and>
     (\<forall>p \<in> set (tl (split_at sep s)). p \<noteq> [] \<and> list_all label_char p)"
proof (induction s arbitrary: prev)
  case Nil
  then show ?case by simp
next
  case (Cons c cs)
  obtain p ps where ps: "split_at sep cs = p # ps" by (cases "split_at sep cs") auto
  have IH: "label_loop sep c cs \<and> (cs = [] \<longrightarrow> c \<noteq> sep) \<and> (cs \<noteq> [] \<longrightarrow> last cs \<noteq> sep) \<longleftrightarrow>
     list_all label_char p \<and> (p = [] \<longrightarrow> c \<noteq> sep) \<and> (\<forall>q \<in> set ps. q \<noteq> [] \<and> list_all label_char q)"
    using Cons.IH[OF Cons.prems, of c] ps by simp
  consider (sep) "c = sep" | (char) "c \<noteq> sep" "label_char c" | (bad) "c \<noteq> sep" "\<not> label_char c"
    by blast
  then show ?case
  proof cases
    case sep
    then show ?thesis using IH ps Cons.prems by (cases cs) auto
  next
    case char
    then show ?thesis using IH ps by (cases cs) auto
  next
    case bad
    then show ?thesis using ps by simp
  qed
qed

end
