(* ===== verification/Go_Crypto.thy ===== *)
theory Go_Crypto
  imports Prelude "HOL-Library.Word"
begin

text \<open>
  What the program uses of Go's \<open>crypto/sha256\<close>, \<open>crypto/hmac\<close>, \<open>encoding/hex\<close> and
  \<open>encoding/base64\<close>: SHA-256 as FIPS 180-4 defines it, HMAC over it as RFC 2104 does, the
  lower-case hexadecimal encoding and the unpadded URL alphabet of base64. Strings are
  lists of bytes. No statement of the development rests on a property of SHA-256 beyond its
  being a function, so its equations are kept out of evaluation.
\<close>

unbundle bit_operations_syntax

section \<open>SHA-256\<close>

definition ror32 :: "nat \<Rightarrow> 32 word \<Rightarrow> 32 word" where
  "ror32 n x = drop_bit n x OR push_bit (32 - n) x"

text \<open>
  The constants are what the standard says they are: the first 32 bits of the fractional parts of
  the cube roots of the first 64 primes, and of the square roots of the first eight.
  \<open>root_bits k b n r\<close> adds to \<open>r\<close> the bits below \<open>b\<close> of the largest \<open>r\<close> with \<open>r ^ k \<le> n\<close>.
\<close>

fun root_bits :: "nat \<Rightarrow> nat \<Rightarrow> int \<Rightarrow> int \<Rightarrow> int" where
  "root_bits k 0 n r = r"
| "root_bits k (Suc b) n r = root_bits k b n (if (r + 2 ^ b) ^ k \<le> n then r + 2 ^ b else r)"

definition small_primes :: "nat \<Rightarrow> int list" where
  "small_primes k = take k (filter (\<lambda>n. \<forall>d \<in> set [2..n - 1]. n mod d \<noteq> 0) [2..311])"

definition fraction_word :: "nat \<Rightarrow> int \<Rightarrow> 32 word" where
  "fraction_word k p = word_of_int (root_bits k 37 (p * (2 ^ 32) ^ k) 0)"

definition K256 :: "32 word list" where
  "K256 = map (fraction_word 3) (small_primes 64)"

definition H256 :: "32 word list" where
  "H256 = map (fraction_word 2) [2, 3, 5, 7, 11, 13, 17, 19]"

lemma length_H256: "length H256 = 8"
  by (simp add: H256_def)

text \<open>The message schedule, its newest word first.\<close>

fun extend_schedule :: "nat \<Rightarrow> 32 word list \<Rightarrow> 32 word list" where
  "extend_schedule 0 w = w"
| "extend_schedule (Suc n) w =
    (let x = w ! 1; y = w ! 14;
         s1 = ror32 17 x XOR ror32 19 x XOR drop_bit 10 x;
         s0 = ror32 7 y XOR ror32 18 y XOR drop_bit 3 y
     in extend_schedule n ((s1 + w ! 6 + s0 + w ! 15) # w))"

fun sha_round :: "32 word list \<Rightarrow> 32 word \<times> 32 word \<Rightarrow> 32 word list" where
  "sha_round [a, b, c, d, e, f, g, h] (k, w) =
    (let s1 = ror32 6 e XOR ror32 11 e XOR ror32 25 e;
         ch = (e AND f) XOR (NOT e AND g);
         t1 = h + s1 + ch + k + w;
         s0 = ror32 2 a XOR ror32 13 a XOR ror32 22 a;
         maj = (a AND b) XOR (a AND c) XOR (b AND c);
         t2 = s0 + maj
     in [t1 + t2, a, b, c, d + t1, e, f, g])"
| "sha_round st _ = st"

definition word_of_bytes :: "char list \<Rightarrow> 32 word" where
  "word_of_bytes bs = foldl (\<lambda>acc b. push_bit 8 acc OR of_char b) 0 bs"

fun chunks :: "nat \<Rightarrow> nat \<Rightarrow> 'a list \<Rightarrow> 'a list list" where
  "chunks n 0 xs = []"
| "chunks n (Suc k) xs = take n xs # chunks n k (drop n xs)"

definition sha_block :: "32 word list \<Rightarrow> char list \<Rightarrow> 32 word list" where
  "sha_block st block =
    (let w = rev (extend_schedule 48 (rev (map word_of_bytes (chunks 4 16 block))))
     in map2 (+) st (foldl sha_round st (zip K256 w)))"

definition word_bytes :: "32 word \<Rightarrow> char list" where
  "word_bytes w = map (\<lambda>n. char_of (uint (drop_bit n w) :: int)) [24, 16, 8, 0]"

definition be_bytes :: "int \<Rightarrow> char list" where
  "be_bytes x = map (\<lambda>n. char_of (drop_bit n x)) [56, 48, 40, 32, 24, 16, 8, 0]"

definition sha_pad :: "char list \<Rightarrow> char list" where
  "sha_pad m = m @ [char_of (128::nat)] @ replicate ((119 - length m mod 64) mod 64) (char_of (0::nat)) @ be_bytes (8 * int (length m))"

definition sha256 :: "char list \<Rightarrow> char list" where
  "sha256 m = concat (map (\<lambda>w. word_bytes w)
     (foldl sha_block H256 (chunks 64 (length (sha_pad m) div 64) (sha_pad m))))"


text \<open>\<open>hmac.New(sha256.New, key)\<close>, the message written in any number of pieces.\<close>

definition hmac_key :: "string \<Rightarrow> string" where
  "hmac_key key =
     (let k = (if 64 < length key then sha256 key else key)
      in k @ replicate (64 - length k) (char_of (0 :: nat)))"

definition xor_pad :: "nat \<Rightarrow> string \<Rightarrow> string" where
  "xor_pad p s = map (\<lambda>c. char_of (of_char c XOR p)) s"

definition hmac_sha256 :: "string \<Rightarrow> string \<Rightarrow> string" where
  "hmac_sha256 key m =
     sha256 (xor_pad 0x5C (hmac_key key) @ sha256 (xor_pad 0x36 (hmac_key key) @ m))"

declare sha256_def [code del] hmac_sha256_def [code del]

section \<open>Encodings\<close>

definition hex_digit :: "nat \<Rightarrow> char" where
  "hex_digit n = ''0123456789abcdef'' ! n"

definition hex_encode :: "string \<Rightarrow> string" where
  "hex_encode s = concat (map (\<lambda>c. [hex_digit (of_char c div 16), hex_digit (of_char c mod 16)]) s)"

text \<open>\<open>base64.RawURLEncoding\<close>: three bytes make four characters, and nothing is padded.\<close>

definition url_char :: "nat \<Rightarrow> char" where
  "url_char n = ''ABCDEFGHIJKLMNOPQRSTUVWXYZabcdefghijklmnopqrstuvwxyz0123456789-_'' ! n"

fun raw_url_encode :: "string \<Rightarrow> string" where
  "raw_url_encode (a # b # c # s) =
     (let x = of_char a; y = of_char b; z = of_char c
      in [url_char (x div 4), url_char (x mod 4 * 16 + y div 16),
          url_char (y mod 16 * 4 + z div 64), url_char (z mod 64)] @ raw_url_encode s)"
| "raw_url_encode [a, b] =
     (let x = of_char a; y = of_char b
      in [url_char (x div 4), url_char (x mod 4 * 16 + y div 16), url_char (y mod 16 * 4)])"
| "raw_url_encode [a] = (let x = of_char a in [url_char (x div 4), url_char (x mod 4 * 16)])"
| "raw_url_encode [] = []"

section \<open>Lengths\<close>

lemma length_hex_encode [simp]: "length (hex_encode s) = 2 * length s"
  by (induction s) (simp_all add: hex_encode_def)

lemma length_sha_block: "length st = 8 \<Longrightarrow> length (sha_block st b) = 8"
proof -
  have round: "length (sha_round s kw) = length s" for s kw
    by (cases "(s, kw)" rule: sha_round.cases) (simp_all add: Let_def)
  have "length (foldl sha_round s kws) = length s" for s kws
    by (induction kws arbitrary: s) (simp_all add: round)
  then show "length st = 8 \<Longrightarrow> length (sha_block st b) = 8"
    by (simp add: sha_block_def Let_def)
qed

lemma length_sha256 [simp]: "length (sha256 m) = 32"
proof -
  have "length (foldl sha_block st bs) = 8" if "length st = 8" for st bs
    using that by (induction bs arbitrary: st) (simp_all add: length_sha_block)
  then have "length (foldl sha_block H256 bs) = 8" for bs
    by (simp add: length_H256)
  moreover have "length (concat (map word_bytes ws)) = 4 * length ws" for ws
    by (induction ws) (simp_all add: word_bytes_def)
  ultimately show ?thesis by (simp add: sha256_def)
qed

lemma length_hmac_sha256 [simp]: "length (hmac_sha256 key m) = 32"
  by (simp add: hmac_sha256_def)

end
