(* ===== verification/Calls.thy ===== *)
theory Calls
  imports Entities Go_Crypto
begin

text \<open>
  What an operation takes from its surroundings: the actor on the context
  (\<open>internal/domain/audit\<close>), whether the context has ended, the clock, the identifiers
  \<open>uuid.NewV7\<close> draws and the bytes \<open>crypto/rand\<close> draws. A label says which reading or draw of
  an operation is meant, so that two readings in one operation may differ.
\<close>

section \<open>The actor on the context\<close>

record AuditActor =
  ac_ID :: uuid
  ac_IP :: string
  ac_UserAgent :: string

definition ActorIsZero :: "AuditActor \<Rightarrow> bool" where
  "ActorIsZero a \<longleftrightarrow> ac_ID a = uuid_Nil"

definition ActorFrom :: "AuditActor option \<Rightarrow> AuditActor" where
  "ActorFrom v =
     (case v of None \<Rightarrow> \<lparr>ac_ID = uuid_Nil, ac_IP = [], ac_UserAgent = []\<rparr> | Some actor \<Rightarrow> actor)"

section \<open>The environment of one call\<close>

datatype clock = ClockService | ClockService2 | ClockRow | ClockEvent | ClockDevice

datatype draw =
    DrawUser | DrawCode | DrawDevice | DrawLogin
  | DrawOrganization | DrawMembership | DrawRole nat | DrawInvitation | DrawEvent
  | DrawFile

text \<open>
  \<open>c_ended c k\<close> says whether the context has ended by the operation's \<open>k\<close>-th look at it; a
  context that has ended stays ended. \<open>c_token\<close> is what \<open>rand.Read\<close> fills a token's or a nonce's
  buffer with (nothing when the source fails), \<open>c_digit c k\<close> the \<open>k\<close>-th number \<open>rand.Int\<close> draws for a code,
  \<open>c_salt\<close> the salt bcrypt draws. \<open>c_uuidString\<close> is \<open>uuid.UUID.String\<close>, which belongs to a
  library outside the repository.
\<close>

record Call =
  c_actor :: "AuditActor option"
  c_ended :: "nat \<Rightarrow> bool"
  c_now :: "clock \<Rightarrow> time"
  c_newID :: "draw \<Rightarrow> uuid"
  c_token :: "string option"
  c_digit :: "nat \<Rightarrow> nat option"
  c_salt :: string
  c_uuidString :: "uuid \<Rightarrow> string"

definition ctx_done :: "Call \<Rightarrow> nat \<Rightarrow> bool" where
  "ctx_done c k \<longleftrightarrow> (\<exists>j \<in> set [0..<Suc k]. c_ended c j)"

lemma ctx_done_mono: "ctx_done c j \<Longrightarrow> j \<le> k \<Longrightarrow> ctx_done c k"
  by (force simp: ctx_done_def less_Suc_eq_le simp del: upt_Suc)

section \<open>Paging\<close>

text \<open>
  \<open>page\<close> of \<open>internal/store/repositories/memory/authz.go\<close>. A negative offset or limit is a
  slice bound out of range, which panics.
\<close>

definition page :: "'a list \<Rightarrow> int \<Rightarrow> int \<Rightarrow> err + 'a list" where
  "page rows limit offset =
     (if int (length rows) \<le> offset then Inr []
      else if offset < 0 then Inl GoPanic
      else let rows = drop (nat offset) rows in
        if limit < int (length rows)
        then (if limit < 0 then Inl GoPanic else Inr (take (nat limit) rows))
        else Inr rows)"

lemma page_ok:
  "0 \<le> limit \<Longrightarrow> 0 \<le> offset \<Longrightarrow>
     page rows limit offset = Inr (take (nat limit) (drop (nat offset) rows))"
  by (auto simp: page_def Let_def)

end
