(* ===== verification/Memory_Users.thy ===== *)
theory Memory_Users
  imports Calls
begin

text \<open>
  The account store, \<open>internal/store/repositories/memory/users.go\<close>: every method of \<open>Users\<close>,
  each run under the mutex and so one atomic step on the record below. A method that fills in
  the row its caller passed by pointer returns the row.
\<close>

section \<open>The store\<close>

record Users =
  us_users :: "(uuid, User) amap"
  us_byEmail :: "(string, uuid) amap"
  us_resets :: "(uuid, PasswordReset) amap"
  us_emailChg :: "(uuid, EmailChange) amap"
  us_devices :: "(uuid, Device) amap"
  us_challenges :: "(uuid, TwoFactorChallenge) amap"
  us_events :: "LoginEvent list"

definition NewUsers :: Users where
  "NewUsers = \<lparr>us_users = [], us_byEmail = [], us_resets = [], us_emailChg = [], us_devices = [],
     us_challenges = [], us_events = []\<rparr>"

type_synonym 'a uprog = "(Users, err, 'a) prog"

section \<open>Accounts\<close>

definition UsersCreate :: "Call \<Rightarrow> User \<Rightarrow> User uprog" where
  "UsersCreate c u m =
     (if map_of (us_byEmail m) (u_Email u) \<noteq> None then refuse (UserErr ErrEmailTaken) m
      else
        let u = (if u_ID u = uuid_Nil then u\<lparr>u_ID := c_newID c DrawUser\<rparr> else u);
            u = (if u_CreatedAt u = zero_time then u\<lparr>u_CreatedAt := c_now c ClockRow\<rparr> else u)
        in ok u (m\<lparr>us_users := AList.update (u_ID u) u (us_users m),
                   us_byEmail := AList.update (u_Email u) (u_ID u) (us_byEmail m)\<rparr>))"

definition UsersByID :: "uuid \<Rightarrow> Users \<Rightarrow> err + User" where
  "UsersByID userID m =
     (case map_of (us_users m) userID of
        None \<Rightarrow> Inl user_not_found
      | Some u \<Rightarrow> if UserIsDeleted u then Inl user_not_found else Inr u)"

definition UsersAll :: "int \<Rightarrow> int \<Rightarrow> Users \<Rightarrow> err + User list" where
  "UsersAll limit offset m =
     (let out = rev (sort_key u_ID (filter (\<lambda>u. \<not> UserIsDeleted u) (avals (us_users m)))) in
      if int (length out) \<le> offset then Inr []
      else if offset < 0 then Inl GoPanic
      else let out = drop (nat offset) out in
        if 0 < limit \<and> limit < int (length out) then Inr (take (nat limit) out) else Inr out)"

text \<open>
  The device loop of \<open>Delete\<close>: revoke what belongs to the account and is not revoked yet. Its
  error is dropped; a device that is not revoked does not refuse.
\<close>

definition revoke_all_of :: "time \<Rightarrow> uuid \<Rightarrow> (uuid, Device) amap \<Rightarrow> (uuid, Device) amap" where
  "revoke_all_of now userID devices =
     map (\<lambda>(k, d).
       (k, if dv_UserID d = userID \<and> \<not> DeviceIsRevoked d
           then (case DeviceRevoke now d of Inl _ \<Rightarrow> d | Inr d' \<Rightarrow> d') else d)) devices"

definition UsersDelete :: "Call \<Rightarrow> uuid \<Rightarrow> unit uprog" where
  "UsersDelete c userID m =
     (case map_of (us_users m) userID of
        None \<Rightarrow> refuse user_not_found m
      | Some u \<Rightarrow>
          (case UserDelete (c_now c ClockRow) u of
             Inl e \<Rightarrow> refuse e m
           | Inr u' \<Rightarrow> ok () (m\<lparr>us_users := AList.update userID u' (us_users m),
                us_byEmail := AList.delete (u_Email u) (us_byEmail m),
                us_devices := revoke_all_of (c_now c ClockDevice) userID (us_devices m)\<rparr>)))"

text \<open>The shape the account updates share: look the account up, refuse a missing one, write it.\<close>

definition with_user :: "(User \<Rightarrow> bool) \<Rightarrow> (User \<Rightarrow> User) \<Rightarrow> uuid \<Rightarrow> unit uprog" where
  "with_user hidden f userID m =
     (case map_of (us_users m) userID of
        None \<Rightarrow> refuse user_not_found m
      | Some u \<Rightarrow>
          if hidden u then refuse user_not_found m
          else ok () (m\<lparr>us_users := AList.update userID (f u) (us_users m)\<rparr>))"

definition UsersUpdateProfile :: "uuid \<Rightarrow> string \<Rightarrow> string \<Rightarrow> unit uprog" where
  "UsersUpdateProfile userID name locale =
     with_user UserIsDeleted (\<lambda>u. u\<lparr>u_Name := name, u_Locale := locale\<rparr>) userID"

definition UsersSetPassword :: "uuid \<Rightarrow> string \<Rightarrow> unit uprog" where
  "UsersSetPassword userID passwordHash =
     with_user UserIsDeleted
       (\<lambda>u. u\<lparr>u_PasswordHash := passwordHash, u_SessionEpoch := u_SessionEpoch u + 1\<rparr>) userID"

definition UsersBumpSessionEpoch :: "uuid \<Rightarrow> unit uprog" where
  "UsersBumpSessionEpoch userID =
     with_user UserIsDeleted (\<lambda>u. u\<lparr>u_SessionEpoch := u_SessionEpoch u + 1\<rparr>) userID"

definition UsersIsSoftDeleted :: "uuid \<Rightarrow> Users \<Rightarrow> bool" where
  "UsersIsSoftDeleted userID m =
     (case map_of (us_users m) userID of None \<Rightarrow> False | Some u \<Rightarrow> UserIsDeleted u)"

definition UsersSetSuspended :: "uuid \<Rightarrow> time option \<Rightarrow> unit uprog" where
  "UsersSetSuspended userID at =
     with_user (\<lambda>_. False)
       (\<lambda>u. let u = u\<lparr>u_SuspendedAt := at\<rparr>
            in if at \<noteq> None then u\<lparr>u_SessionEpoch := u_SessionEpoch u + 1\<rparr> else u) userID"

definition UsersByEmail :: "string \<Rightarrow> Users \<Rightarrow> err + User" where
  "UsersByEmail email m =
     (case map_of (us_byEmail m) email of
        None \<Rightarrow> Inl user_not_found
      | Some userID \<Rightarrow>
          (case map_of (us_users m) userID of
             None \<Rightarrow> Inl user_not_found
           | Some u \<Rightarrow> if UserIsDeleted u then Inl user_not_found else Inr u))"

definition UsersSetTwoFactorEnabled :: "uuid \<Rightarrow> bool \<Rightarrow> unit uprog" where
  "UsersSetTwoFactorEnabled userID enabled =
     with_user (\<lambda>_. False) (\<lambda>u. u\<lparr>u_TwoFactorEnabled := enabled\<rparr>) userID"

section \<open>Password resets\<close>

definition UsersReplacePasswordReset :: "Call \<Rightarrow> PasswordReset \<Rightarrow> PasswordReset uprog" where
  "UsersReplacePasswordReset c reset m =
     (let resets = filter (\<lambda>(_, existing).
            \<not> (pr_UserID existing = pr_UserID reset \<and> pr_ConsumedAt existing = None)) (us_resets m);
          reset = (if pr_ID reset = uuid_Nil then reset\<lparr>pr_ID := c_newID c DrawCode\<rparr> else reset)
      in ok reset (m\<lparr>us_resets := AList.update (pr_ID reset) reset resets\<rparr>))"

definition active_reset :: "uuid \<Rightarrow> time \<Rightarrow> PasswordReset \<Rightarrow> bool" where
  "active_reset userID now reset \<longleftrightarrow>
     pr_UserID reset = userID \<and> pr_ConsumedAt reset = None \<and> now < pr_ExpiresAt reset"

definition UsersActivePasswordReset :: "uuid \<Rightarrow> time \<Rightarrow> Users \<Rightarrow> err + PasswordReset" where
  "UsersActivePasswordReset userID now m =
     (case List.find (active_reset userID now) (avals (us_resets m)) of
        None \<Rightarrow> Inl user_not_found
      | Some reset \<Rightarrow> Inr reset)"

definition fail_reset :: "int \<Rightarrow> time \<Rightarrow> PasswordReset \<Rightarrow> PasswordReset" where
  "fail_reset maxAttempts now reset =
     (let reset = reset\<lparr>pr_Attempts := pr_Attempts reset + 1\<rparr>
      in if maxAttempts \<le> pr_Attempts reset then reset\<lparr>pr_ConsumedAt := Some now\<rparr> else reset)"

definition UsersFailPasswordReset :: "uuid \<Rightarrow> int \<Rightarrow> time \<Rightarrow> unit uprog" where
  "UsersFailPasswordReset resetID maxAttempts now m =
     (case map_of (us_resets m) resetID of
        None \<Rightarrow> ok () m
      | Some reset \<Rightarrow>
          if pr_ConsumedAt reset \<noteq> None then ok () m
          else ok () (m\<lparr>us_resets := AList.update resetID (fail_reset maxAttempts now reset) (us_resets m)\<rparr>))"

definition UsersConsumePasswordReset :: "PasswordReset \<Rightarrow> string \<Rightarrow> unit uprog" where
  "UsersConsumePasswordReset reset passwordHash m =
     (case map_of (us_users m) (pr_UserID reset) of
        None \<Rightarrow> refuse user_not_found m
      | Some u \<Rightarrow>
          let u = u\<lparr>u_PasswordHash := passwordHash, u_SessionEpoch := u_SessionEpoch u + 1\<rparr>;
              resets = (case map_of (us_resets m) (pr_ID reset) of
                 None \<Rightarrow> us_resets m
               | Some stored \<Rightarrow> AList.update (pr_ID reset)
                   (stored\<lparr>pr_ConsumedAt := pr_ConsumedAt reset, pr_Attempts := pr_Attempts reset\<rparr>)
                   (us_resets m))
          in ok () (m\<lparr>us_users := AList.update (pr_UserID reset) u (us_users m), us_resets := resets\<rparr>))"

section \<open>Email changes\<close>

definition UsersReplaceEmailChange :: "Call \<Rightarrow> EmailChange \<Rightarrow> EmailChange uprog" where
  "UsersReplaceEmailChange c change m =
     (let changes = filter (\<lambda>(_, existing).
            \<not> (ec_UserID existing = ec_UserID change \<and> ec_ConsumedAt existing = None)) (us_emailChg m);
          change = (if ec_ID change = uuid_Nil then change\<lparr>ec_ID := c_newID c DrawCode\<rparr> else change)
      in ok change (m\<lparr>us_emailChg := AList.update (ec_ID change) change changes\<rparr>))"

definition active_change :: "uuid \<Rightarrow> time \<Rightarrow> EmailChange \<Rightarrow> bool" where
  "active_change userID now change \<longleftrightarrow>
     ec_UserID change = userID \<and> ec_ConsumedAt change = None \<and> now < ec_ExpiresAt change"

definition UsersActiveEmailChange :: "uuid \<Rightarrow> time \<Rightarrow> Users \<Rightarrow> err + EmailChange" where
  "UsersActiveEmailChange userID now m =
     (case List.find (active_change userID now) (avals (us_emailChg m)) of
        None \<Rightarrow> Inl user_not_found
      | Some change \<Rightarrow> Inr change)"

definition fail_change :: "int \<Rightarrow> time \<Rightarrow> EmailChange \<Rightarrow> EmailChange" where
  "fail_change maxAttempts now change =
     (let change = change\<lparr>ec_Attempts := ec_Attempts change + 1\<rparr>
      in if maxAttempts \<le> ec_Attempts change then change\<lparr>ec_ConsumedAt := Some now\<rparr> else change)"

definition UsersFailEmailChange :: "uuid \<Rightarrow> int \<Rightarrow> time \<Rightarrow> unit uprog" where
  "UsersFailEmailChange changeID maxAttempts now m =
     (case map_of (us_emailChg m) changeID of
        None \<Rightarrow> ok () m
      | Some change \<Rightarrow>
          if ec_ConsumedAt change \<noteq> None then ok () m
          else ok () (m\<lparr>us_emailChg :=
                 AList.update changeID (fail_change maxAttempts now change) (us_emailChg m)\<rparr>))"

definition UsersConsumeEmailChange :: "EmailChange \<Rightarrow> string \<Rightarrow> unit uprog" where
  "UsersConsumeEmailChange change email m =
     (case map_of (us_users m) (ec_UserID change) of
        None \<Rightarrow> refuse user_not_found m
      | Some u \<Rightarrow>
          if (case map_of (us_byEmail m) email of None \<Rightarrow> False | Some owner \<Rightarrow> owner \<noteq> u_ID u)
          then refuse (UserErr ErrEmailTaken) m
          else
            let byEmail = AList.update email (u_ID u) (AList.delete (u_Email u) (us_byEmail m));
                changes = (case map_of (us_emailChg m) (ec_ID change) of
                   None \<Rightarrow> us_emailChg m
                 | Some stored \<Rightarrow> AList.update (ec_ID change)
                     (stored\<lparr>ec_ConsumedAt := ec_ConsumedAt change, ec_Attempts := ec_Attempts change\<rparr>)
                     (us_emailChg m))
            in ok () (m\<lparr>us_users := AList.update (ec_UserID change) (u\<lparr>u_Email := email\<rparr>) (us_users m),
                        us_byEmail := byEmail, us_emailChg := changes\<rparr>))"

section \<open>Devices and the login history\<close>

definition UsersDeviceByFingerprint :: "uuid \<Rightarrow> string \<Rightarrow> Users \<Rightarrow> err + Device" where
  "UsersDeviceByFingerprint userID fingerprint m =
     (case List.find (\<lambda>d. dv_UserID d = userID \<and> dv_Fingerprint d = fingerprint) (avals (us_devices m)) of
        None \<Rightarrow> Inl user_not_found
      | Some d \<Rightarrow> Inr d)"

definition UsersActiveDevice :: "uuid \<Rightarrow> uuid \<Rightarrow> Users \<Rightarrow> err + Device" where
  "UsersActiveDevice userID deviceID m =
     (case map_of (us_devices m) deviceID of
        None \<Rightarrow> Inl user_not_found
      | Some d \<Rightarrow> if dv_UserID d \<noteq> userID \<or> DeviceIsRevoked d then Inl user_not_found else Inr d)"

definition UsersCreateDevice :: "Call \<Rightarrow> Device \<Rightarrow> Device uprog" where
  "UsersCreateDevice c d m =
     (let d = (if dv_ID d = uuid_Nil then d\<lparr>dv_ID := c_newID c DrawDevice\<rparr> else d);
          d = (if dv_CreatedAt d = zero_time then d\<lparr>dv_CreatedAt := c_now c ClockDevice\<rparr> else d)
      in ok d (m\<lparr>us_devices := AList.update (dv_ID d) d (us_devices m)\<rparr>))"

definition UsersTouchDevice :: "uuid \<Rightarrow> time \<Rightarrow> string \<Rightarrow> string \<Rightarrow> unit uprog" where
  "UsersTouchDevice deviceID seenAt ip userAgent m =
     (case map_of (us_devices m) deviceID of
        None \<Rightarrow> refuse user_not_found m
      | Some d \<Rightarrow> ok () (m\<lparr>us_devices := AList.update deviceID
           (d\<lparr>dv_LastSeenAt := Some seenAt, dv_LastIP := Some ip, dv_UserAgent := userAgent\<rparr>)
           (us_devices m)\<rparr>))"

definition UsersTrustDevice :: "Call \<Rightarrow> uuid \<Rightarrow> unit uprog" where
  "UsersTrustDevice c deviceID m =
     (case map_of (us_devices m) deviceID of
        None \<Rightarrow> refuse user_not_found m
      | Some d \<Rightarrow>
          (case DeviceTrust (c_now c ClockDevice) d of
             Inl _ \<Rightarrow> refuse (UserErr UserErrDeviceRevoked) m
           | Inr d' \<Rightarrow> ok () (m\<lparr>us_devices := AList.update deviceID d' (us_devices m)\<rparr>)))"

definition UsersRevokeDevice :: "Call \<Rightarrow> uuid \<Rightarrow> uuid \<Rightarrow> unit uprog" where
  "UsersRevokeDevice c userID deviceID m =
     (case map_of (us_devices m) deviceID of
        None \<Rightarrow> refuse user_not_found m
      | Some d \<Rightarrow>
          if dv_UserID d \<noteq> userID then refuse user_not_found m
          else (case DeviceRevoke (c_now c ClockDevice) d of
             Inl _ \<Rightarrow> ok () m
           | Inr d' \<Rightarrow> ok () (m\<lparr>us_devices := AList.update deviceID d' (us_devices m)\<rparr>)))"

definition lastSeen :: "Device \<Rightarrow> time" where
  "lastSeen d = (case dv_LastSeenAt d of None \<Rightarrow> zero_time | Some t \<Rightarrow> t)"

definition UsersDevices :: "uuid \<Rightarrow> Users \<Rightarrow> err + Device list" where
  "UsersDevices userID m =
     Inr (sort_key (\<lambda>d. - lastSeen d) (filter (\<lambda>d. dv_UserID d = userID) (avals (us_devices m))))"

definition UsersRecordLoginEvent :: "Call \<Rightarrow> LoginEvent \<Rightarrow> unit uprog" where
  "UsersRecordLoginEvent c event m =
     (let event = (if le_ID event = uuid_Nil then event\<lparr>le_ID := c_newID c DrawLogin\<rparr> else event);
          event = (if le_CreatedAt event = zero_time then event\<lparr>le_CreatedAt := c_now c ClockEvent\<rparr> else event)
      in ok () (m\<lparr>us_events := us_events m @ [event]\<rparr>))"

definition UsersLoginEvents :: "uuid \<Rightarrow> int \<Rightarrow> Users \<Rightarrow> err + LoginEvent list" where
  "UsersLoginEvents userID limit m =
     (let out = filter (\<lambda>e. le_UserID e = userID) (rev (us_events m))
      in Inr (if 0 < limit then take (nat limit) out else out))"

section \<open>Two-factor challenges\<close>

definition UsersReplaceTwoFactorChallenge :: "Call \<Rightarrow> TwoFactorChallenge \<Rightarrow> TwoFactorChallenge uprog" where
  "UsersReplaceTwoFactorChallenge c challenge m =
     (let challenges = filter (\<lambda>(_, existing).
            \<not> (tc_UserID existing = tc_UserID challenge \<and> tc_ConsumedAt existing = None)) (us_challenges m);
          challenge = (if tc_ID challenge = uuid_Nil
                       then challenge\<lparr>tc_ID := c_newID c DrawCode\<rparr> else challenge)
      in ok challenge (m\<lparr>us_challenges := AList.update (tc_ID challenge) challenge challenges\<rparr>))"

definition active_challenge :: "uuid \<Rightarrow> time \<Rightarrow> TwoFactorChallenge \<Rightarrow> bool" where
  "active_challenge userID now challenge \<longleftrightarrow>
     tc_UserID challenge = userID \<and> tc_ConsumedAt challenge = None \<and> now < tc_ExpiresAt challenge"

definition UsersActiveTwoFactorChallenge :: "uuid \<Rightarrow> time \<Rightarrow> Users \<Rightarrow> err + TwoFactorChallenge" where
  "UsersActiveTwoFactorChallenge userID now m =
     (case List.find (active_challenge userID now) (avals (us_challenges m)) of
        None \<Rightarrow> Inl user_not_found
      | Some challenge \<Rightarrow> Inr challenge)"

definition fail_challenge :: "int \<Rightarrow> time \<Rightarrow> TwoFactorChallenge \<Rightarrow> TwoFactorChallenge" where
  "fail_challenge maxAttempts now challenge =
     (let challenge = challenge\<lparr>tc_Attempts := tc_Attempts challenge + 1\<rparr>
      in if maxAttempts \<le> tc_Attempts challenge then challenge\<lparr>tc_ConsumedAt := Some now\<rparr> else challenge)"

definition UsersFailTwoFactorChallenge :: "uuid \<Rightarrow> int \<Rightarrow> time \<Rightarrow> unit uprog" where
  "UsersFailTwoFactorChallenge challengeID maxAttempts now m =
     (case map_of (us_challenges m) challengeID of
        None \<Rightarrow> ok () m
      | Some challenge \<Rightarrow>
          if tc_ConsumedAt challenge \<noteq> None then ok () m
          else ok () (m\<lparr>us_challenges :=
                 AList.update challengeID (fail_challenge maxAttempts now challenge) (us_challenges m)\<rparr>))"

definition UsersConsumeTwoFactorChallenge :: "Call \<Rightarrow> uuid \<Rightarrow> uuid \<Rightarrow> time \<Rightarrow> unit uprog" where
  "UsersConsumeTwoFactorChallenge c challengeID deviceID at m =
     (case map_of (us_challenges m) challengeID of
        None \<Rightarrow> refuse (UserErr ErrInvalidTwoFactorCode) m
      | Some challenge \<Rightarrow>
          if tc_ConsumedAt challenge \<noteq> None then refuse (UserErr ErrInvalidTwoFactorCode) m
          else (case map_of (us_devices m) deviceID of
             None \<Rightarrow> refuse user_not_found m
           | Some d \<Rightarrow>
               (case DeviceTrust (c_now c ClockDevice) d of
                  Inl _ \<Rightarrow> refuse (UserErr UserErrDeviceRevoked) m
                | Inr d' \<Rightarrow> ok () (m\<lparr>us_devices := AList.update deviceID d' (us_devices m),
                     us_challenges := AList.update challengeID
                       (challenge\<lparr>tc_ConsumedAt := Some at\<rparr>) (us_challenges m)\<rparr>))))"

end
