(* ===== verification/Permissions.thy ===== *)
theory Permissions
  imports Go_Strings
begin

text \<open>
  The permission catalog, \<open>internal/domain/authz/permission.go\<close>: which permissions exist, what
  each is measured against, and how keys read from storage are filtered.
\<close>

section \<open>Scopes and keys\<close>

type_synonym permission = string

datatype Scope = ScopeOrganization | ScopeSystem

definition PermOrganizationRead :: permission where "PermOrganizationRead = ''organization.read''"
definition PermOrganizationUpdate :: permission where "PermOrganizationUpdate = ''organization.update''"
definition PermOrganizationDelete :: permission where "PermOrganizationDelete = ''organization.delete''"

definition PermMembersRead :: permission where "PermMembersRead = ''members.read''"
definition PermMembersInvite :: permission where "PermMembersInvite = ''members.invite''"
definition PermMembersRemove :: permission where "PermMembersRemove = ''members.remove''"
definition PermMembersSuspend :: permission where "PermMembersSuspend = ''members.suspend''"
definition PermMembersRolesAssign :: permission where "PermMembersRolesAssign = ''members.roles.assign''"

definition PermRolesRead :: permission where "PermRolesRead = ''roles.read''"
definition PermRolesCreate :: permission where "PermRolesCreate = ''roles.create''"
definition PermRolesUpdate :: permission where "PermRolesUpdate = ''roles.update''"
definition PermRolesDelete :: permission where "PermRolesDelete = ''roles.delete''"

definition PermAuditRead :: permission where "PermAuditRead = ''audit.read''"

definition PermFilesRead :: permission where "PermFilesRead = ''files.read''"
definition PermFilesCreate :: permission where "PermFilesCreate = ''files.create''"
definition PermFilesDelete :: permission where "PermFilesDelete = ''files.delete''"

definition PermPlatformOrganizationsRead :: permission where
  "PermPlatformOrganizationsRead = ''platform.organizations.read''"
definition PermPlatformOrganizationsCreate :: permission where
  "PermPlatformOrganizationsCreate = ''platform.organizations.create''"
definition PermPlatformOrganizationsDelete :: permission where
  "PermPlatformOrganizationsDelete = ''platform.organizations.delete''"
definition PermPlatformOwnersAssign :: permission where
  "PermPlatformOwnersAssign = ''platform.organizations.owners.assign''"

definition PermPlatformUsersRead :: permission where "PermPlatformUsersRead = ''platform.users.read''"
definition PermPlatformUsersSuspend :: permission where "PermPlatformUsersSuspend = ''platform.users.suspend''"
definition PermPlatformUsersDelete :: permission where "PermPlatformUsersDelete = ''platform.users.delete''"

definition PermPlatformSystemRolesRead :: permission where
  "PermPlatformSystemRolesRead = ''platform.system_roles.read''"
definition PermPlatformSystemRolesAssign :: permission where
  "PermPlatformSystemRolesAssign = ''platform.system_roles.assign''"
definition PermPlatformSystemRolesRemove :: permission where
  "PermPlatformSystemRolesRemove = ''platform.system_roles.remove''"

definition PermPlatformAuditRead :: permission where "PermPlatformAuditRead = ''platform.audit.read''"

lemmas perm_defs =
  PermOrganizationRead_def PermOrganizationUpdate_def PermOrganizationDelete_def
  PermMembersRead_def PermMembersInvite_def PermMembersRemove_def PermMembersSuspend_def
  PermMembersRolesAssign_def PermRolesRead_def PermRolesCreate_def PermRolesUpdate_def
  PermRolesDelete_def PermAuditRead_def PermFilesRead_def PermFilesCreate_def PermFilesDelete_def
  PermPlatformOrganizationsRead_def PermPlatformOrganizationsCreate_def
  PermPlatformOrganizationsDelete_def PermPlatformOwnersAssign_def PermPlatformUsersRead_def
  PermPlatformUsersSuspend_def PermPlatformUsersDelete_def PermPlatformSystemRolesRead_def
  PermPlatformSystemRolesAssign_def PermPlatformSystemRolesRemove_def PermPlatformAuditRead_def

section \<open>The catalog\<close>

record Definition =
  d_Key :: permission
  d_Scope :: Scope
  d_Group :: string

abbreviation entry :: "permission \<Rightarrow> Scope \<Rightarrow> string \<Rightarrow> Definition" where
  "entry k s g \<equiv> \<lparr>d_Key = k, d_Scope = s, d_Group = g\<rparr>"

definition catalog :: "Definition list" where
  "catalog =
    [entry PermOrganizationRead ScopeOrganization ''organization'',
     entry PermOrganizationUpdate ScopeOrganization ''organization'',
     entry PermOrganizationDelete ScopeOrganization ''organization'',
     entry PermMembersRead ScopeOrganization ''members'',
     entry PermMembersInvite ScopeOrganization ''members'',
     entry PermMembersRemove ScopeOrganization ''members'',
     entry PermMembersSuspend ScopeOrganization ''members'',
     entry PermMembersRolesAssign ScopeOrganization ''members'',
     entry PermRolesRead ScopeOrganization ''roles'',
     entry PermRolesCreate ScopeOrganization ''roles'',
     entry PermRolesUpdate ScopeOrganization ''roles'',
     entry PermRolesDelete ScopeOrganization ''roles'',
     entry PermAuditRead ScopeOrganization ''audit'',
     entry PermFilesRead ScopeOrganization ''files'',
     entry PermFilesCreate ScopeOrganization ''files'',
     entry PermFilesDelete ScopeOrganization ''files'',
     entry PermPlatformOrganizationsRead ScopeSystem ''platform.organizations'',
     entry PermPlatformOrganizationsCreate ScopeSystem ''platform.organizations'',
     entry PermPlatformOrganizationsDelete ScopeSystem ''platform.organizations'',
     entry PermPlatformOwnersAssign ScopeSystem ''platform.organizations'',
     entry PermPlatformUsersRead ScopeSystem ''platform.users'',
     entry PermPlatformUsersSuspend ScopeSystem ''platform.users'',
     entry PermPlatformUsersDelete ScopeSystem ''platform.users'',
     entry PermPlatformSystemRolesRead ScopeSystem ''platform.system_roles'',
     entry PermPlatformSystemRolesAssign ScopeSystem ''platform.system_roles'',
     entry PermPlatformSystemRolesRemove ScopeSystem ''platform.system_roles'',
     entry PermPlatformAuditRead ScopeSystem ''platform.audit'']"

text \<open>\<open>byKey\<close>: the loop that fills the index; a later entry with the same key would win.\<close>

definition byKey :: "(permission, Definition) amap" where
  "byKey = foldl (\<lambda>index def. AList.update (d_Key def) def index) [] catalog"

definition validActions :: "string list" where
  "validActions = [''read'', ''create'', ''update'', ''delete'',
                   ''assign'', ''invite'', ''remove'', ''suspend'']"

definition Catalog :: "Definition list" where
  "Catalog = catalog"

definition Lookup :: "permission \<Rightarrow> Definition option" where
  "Lookup key = map_of byKey key"

definition Known :: "permission \<Rightarrow> bool" where
  "Known key \<longleftrightarrow> map_of byKey key \<noteq> None"

definition InScope :: "Scope \<Rightarrow> permission list" where
  "InScope scope = map d_Key (filter (\<lambda>def. d_Scope def = scope) catalog)"

fun sanitize_loop :: "permission list \<Rightarrow> string list \<Rightarrow> permission list" where
  "sanitize_loop out [] = out"
| "sanitize_loop out (key # keys) =
     (if \<not> Known key \<or> key \<in> set out then sanitize_loop out keys
      else sanitize_loop (out @ [key]) keys)"

definition Sanitize :: "string list \<Rightarrow> permission list" where
  "Sanitize keys = sanitize_loop [] keys"

definition UnknownKeys :: "string list \<Rightarrow> string list" where
  "UnknownKeys keys = filter (\<lambda>key. \<not> Known key) keys"

text \<open>\<open>parts[len(parts)-1]\<close> is only reached with at least two parts.\<close>

definition ValidKey :: "(string \<Rightarrow> string) \<Rightarrow> permission \<Rightarrow> bool" where
  "ValidKey lu key =
     (let parts = split_at (CHR ''.'') key
      in if length parts < 2 \<or> 4 < length parts then False
         else if \<exists>part \<in> set parts. part = [] \<or> to_lower lu part \<noteq> part then False
         else last parts \<in> set validActions)"

section \<open>Lemmas\<close>

lemma catalog_keys_distinct: "distinct (map d_Key catalog)"
  by code_simp

lemma byKey_aux:
  "distinct (map d_Key ds) \<Longrightarrow> d_Key ` set ds \<inter> fst ` set acc = {} \<Longrightarrow>
     foldl (\<lambda>index def. AList.update (d_Key def) def index) acc ds =
       acc @ map (\<lambda>def. (d_Key def, def)) ds"
proof (induction ds arbitrary: acc)
  case Nil
  show ?case by simp
next
  case (Cons d ds)
  have "AList.update (d_Key d) d acc = acc @ [(d_Key d, d)]"
    using Cons.prems(2) by (induction acc) auto
  then show ?case using Cons by auto
qed

lemma byKey_eq: "byKey = map (\<lambda>def. (d_Key def, def)) catalog"
  unfolding byKey_def using byKey_aux[OF catalog_keys_distinct, of "[]"] by simp

lemma Known_iff: "Known key \<longleftrightarrow> key \<in> d_Key ` set catalog"
  by (force simp: Known_def byKey_eq map_of_eq_None_iff)

lemma Lookup_Some_iff: "Lookup key = Some def \<longleftrightarrow> def \<in> set catalog \<and> d_Key def = key"
proof -
  have "adistinct (map (\<lambda>def. (d_Key def, def)) catalog)"
    using catalog_keys_distinct by (simp add: comp_def)
  then show ?thesis by (auto simp: Lookup_def byKey_eq map_of_eq_Some_iff)
qed

lemma Known_Lookup: "Known key \<longleftrightarrow> Lookup key \<noteq> None"
  by (simp add: Known_def Lookup_def)

lemma InScope_iff: "key \<in> set (InScope scope) \<longleftrightarrow> (\<exists>def. Lookup key = Some def \<and> d_Scope def = scope)"
  by (auto simp: InScope_def Lookup_Some_iff)

lemma InScope_Known: "key \<in> set (InScope scope) \<Longrightarrow> Known key"
  by (auto simp: InScope_iff Known_Lookup)

lemma Known_InScope: "Known key \<longleftrightarrow> key \<in> set (InScope ScopeOrganization) \<or> key \<in> set (InScope ScopeSystem)"
  by (auto simp: InScope_iff Known_Lookup) (metis Scope.exhaust)

lemma sanitize_loop_eq: "sanitize_loop out keys = keep_first out (filter Known keys)"
  by (induction out keys rule: sanitize_loop.induct) auto

lemma Sanitize_eq: "Sanitize keys = keep_first [] (filter Known keys)"
  by (simp add: Sanitize_def sanitize_loop_eq)

lemma set_Sanitize [simp]: "set (Sanitize keys) = {k \<in> set keys. Known k}"
  by (auto simp: Sanitize_eq)

lemma distinct_Sanitize [simp]: "distinct (Sanitize keys)"
  by (simp add: Sanitize_eq)

end
