(* ===== verification/Shipped_Roles.thy ===== *)
theory Shipped_Roles
  imports Permissions
begin

text \<open>
  The roles the code ships with, \<open>internal/domain/authz/role.go\<close>. A role definition is a value,
  so the copies \<open>cloneRole\<close> and \<open>cloneRoles\<close> make to protect the package's slices are the
  definitions themselves.
\<close>

section \<open>Definitions\<close>

type_synonym role_key = string

definition RolePlatformAdmin :: role_key where "RolePlatformAdmin = ''platform_admin''"
definition RoleOwner :: role_key where "RoleOwner = ''owner''"
definition RoleAdmin :: role_key where "RoleAdmin = ''admin''"
definition RoleMember :: role_key where "RoleMember = ''member''"
definition RoleViewer :: role_key where "RoleViewer = ''viewer''"

lemmas role_key_defs =
  RolePlatformAdmin_def RoleOwner_def RoleAdmin_def RoleMember_def RoleViewer_def

record RoleDefinition =
  rd_Key :: role_key
  rd_Scope :: Scope
  rd_Name :: string
  rd_Description :: string
  rd_Permissions :: "permission list"

definition ownerPermissions :: "permission list" where
  "ownerPermissions = InScope ScopeOrganization"

definition systemRoles :: "RoleDefinition list" where
  "systemRoles =
    [\<lparr>rd_Key = RolePlatformAdmin, rd_Scope = ScopeSystem,
      rd_Name = ''Platform administrator'',
      rd_Description = ''Manages organizations and accounts across the whole installation.'',
      rd_Permissions = InScope ScopeSystem\<rparr>]"

definition organizationRoles :: "RoleDefinition list" where
  "organizationRoles =
    [\<lparr>rd_Key = RoleOwner, rd_Scope = ScopeOrganization,
      rd_Name = ''Owner'',
      rd_Description = ''Full control of the organization, including deleting it.'',
      rd_Permissions = ownerPermissions\<rparr>,
     \<lparr>rd_Key = RoleAdmin, rd_Scope = ScopeOrganization,
      rd_Name = ''Administrator'',
      rd_Description = ''Manages members and roles, but cannot delete the organization.'',
      rd_Permissions =
        [PermOrganizationRead, PermOrganizationUpdate, PermMembersRead, PermMembersInvite,
         PermMembersRemove, PermMembersSuspend, PermMembersRolesAssign, PermRolesRead,
         PermRolesCreate, PermRolesUpdate, PermRolesDelete, PermAuditRead, PermFilesRead,
         PermFilesCreate, PermFilesDelete]\<rparr>,
     \<lparr>rd_Key = RoleMember, rd_Scope = ScopeOrganization,
      rd_Name = ''Member'',
      rd_Description = ''Sees the organization and who belongs to it.'',
      rd_Permissions = [PermOrganizationRead, PermMembersRead, PermFilesRead, PermFilesCreate]\<rparr>,
     \<lparr>rd_Key = RoleViewer, rd_Scope = ScopeOrganization,
      rd_Name = ''Viewer'',
      rd_Description = ''Read-only access to the organization itself.'',
      rd_Permissions = [PermOrganizationRead, PermFilesRead]\<rparr>]"

definition cloneRole :: "RoleDefinition \<Rightarrow> RoleDefinition" where
  "cloneRole def = def\<lparr>rd_Permissions := rd_Permissions def\<rparr>"

definition cloneRoles :: "RoleDefinition list \<Rightarrow> RoleDefinition list" where
  "cloneRoles defs = map cloneRole defs"

definition OrganizationRoles :: "RoleDefinition list" where
  "OrganizationRoles = cloneRoles organizationRoles"

definition SystemRoles :: "RoleDefinition list" where
  "SystemRoles = cloneRoles systemRoles"

definition LookupRole :: "role_key \<Rightarrow> RoleDefinition option" where
  "LookupRole key =
     (case List.find (\<lambda>def. rd_Key def = key) organizationRoles of
        Some def \<Rightarrow> Some (cloneRole def)
      | None \<Rightarrow>
          (case List.find (\<lambda>def. rd_Key def = key) systemRoles of
             Some def \<Rightarrow> Some (cloneRole def)
           | None \<Rightarrow> None))"

definition IsSystemScopeRole :: "role_key \<Rightarrow> bool" where
  "IsSystemScopeRole key \<longleftrightarrow> (\<exists>def \<in> set systemRoles. rd_Key def = key)"

definition IsShippedRole :: "role_key \<Rightarrow> bool" where
  "IsShippedRole key \<longleftrightarrow> LookupRole key \<noteq> None"

section \<open>Lemmas\<close>

lemma cloneRole_id [simp]: "cloneRole def = def"
  by (simp add: cloneRole_def)

lemma cloneRoles_id [simp]: "cloneRoles defs = defs"
  by (simp add: cloneRoles_def comp_def map_idI)

lemma shipped_keys_distinct:
  "distinct (map rd_Key (OrganizationRoles @ SystemRoles))"
  by code_simp

lemma organization_role_keys:
  "map rd_Key OrganizationRoles = [RoleOwner, RoleAdmin, RoleMember, RoleViewer]"
  by (simp add: OrganizationRoles_def organizationRoles_def)

lemma find_key_distinct:
  "distinct (map rd_Key ds) \<Longrightarrow> def \<in> set ds \<Longrightarrow> List.find (\<lambda>d. rd_Key d = rd_Key def) ds = Some def"
  by (rule find_Some_unique) (auto dest: distinct_map[THEN iffD1] simp: inj_on_def distinct_map)

lemma LookupRole_Some_iff:
  "LookupRole key = Some def \<longleftrightarrow> def \<in> set (OrganizationRoles @ SystemRoles) \<and> rd_Key def = key"
  (is "?l \<longleftrightarrow> ?r")
proof
  assume ?l
  then show ?r
    by (auto simp: LookupRole_def OrganizationRoles_def SystemRoles_def
        split: option.splits dest!: find_Some_in)
next
  assume r: ?r
  have dist: "distinct (map rd_Key organizationRoles)" "distinct (map rd_Key systemRoles)"
    "rd_Key ` set organizationRoles \<inter> rd_Key ` set systemRoles = {}"
    using shipped_keys_distinct by (simp_all add: OrganizationRoles_def SystemRoles_def)
  from r consider (o) "def \<in> set organizationRoles" | (s) "def \<in> set systemRoles"
    by (auto simp: OrganizationRoles_def SystemRoles_def)
  then show ?l
  proof cases
    case o
    then show ?thesis using find_key_distinct[OF dist(1) o] r by (auto simp: LookupRole_def)
  next
    case s
    then have "List.find (\<lambda>d. rd_Key d = rd_Key def) organizationRoles = None"
      using dist(3) by (auto simp: find_None_iff)
    then show ?thesis using find_key_distinct[OF dist(2) s] r by (auto simp: LookupRole_def)
  qed
qed

lemma organization_role_scope: "def \<in> set OrganizationRoles \<Longrightarrow> rd_Scope def = ScopeOrganization"
  by (auto simp: OrganizationRoles_def organizationRoles_def)

lemma system_role_scope: "def \<in> set SystemRoles \<Longrightarrow> rd_Scope def = ScopeSystem"
  by (auto simp: SystemRoles_def systemRoles_def)

lemma in_SystemRoles: "def \<in> set SystemRoles \<longleftrightarrow> def = hd systemRoles"
  by (simp add: SystemRoles_def systemRoles_def)

lemma platform_admin_role [simp]:
  "rd_Key (hd systemRoles) = RolePlatformAdmin" "rd_Scope (hd systemRoles) = ScopeSystem"
  "rd_Permissions (hd systemRoles) = InScope ScopeSystem"
  by (simp_all add: systemRoles_def)

lemma LookupRole_system:
  "LookupRole key = Some def \<and> rd_Scope def = ScopeSystem \<longleftrightarrow>
     def = hd systemRoles \<and> key = RolePlatformAdmin"
  using organization_role_scope[of def] by (auto simp: LookupRole_Some_iff in_SystemRoles)

lemma LookupRole_system_iff:
  "(\<exists>def. LookupRole key = Some def \<and> rd_Scope def = ScopeSystem) \<longleftrightarrow> key = RolePlatformAdmin"
  by (simp add: LookupRole_system)

lemma platform_admin_permissions:
  "LookupRole key = Some def \<Longrightarrow> rd_Scope def = ScopeSystem \<Longrightarrow> rd_Permissions def = InScope ScopeSystem"
  using LookupRole_system[of key def] by simp

end
