(* ===== verification/Authz.thy ===== *)
theory Authz
  imports Shipped_Roles Errors
begin

text \<open>
  How an authorization decision is made, \<open>internal/domain/authz/authz.go\<close>. The package reads
  storage through the interface \<open>Repository\<close>, here the record \<open>authz_repo\<close> of its three
  methods over a store; \<open>Service\<close> holds one, so its methods take the record.
\<close>

section \<open>Requests and grants\<close>

record Request =
  rq_Actor :: uuid
  rq_Org :: uuid
  rq_Permission :: permission

text \<open>
  \<open>permissions\<close> is a \<open>map[Permission]struct{}\<close>: the list of its keys, each once. A
  \<open>*Grant\<close> may be nil, so the methods take an option.
\<close>

record Grant =
  g_actor :: uuid
  g_org :: uuid
  g_permissions :: "permission list"

type_synonym grant_ptr = "Grant option"

definition NewGrant :: "uuid \<Rightarrow> uuid \<Rightarrow> permission list \<Rightarrow> Grant" where
  "NewGrant actor org permissions =
     \<lparr>g_actor = actor, g_org = org, g_permissions = keep_first [] (filter Known permissions)\<rparr>"

definition Actor :: "grant_ptr \<Rightarrow> uuid" where
  "Actor g = (case g of None \<Rightarrow> uuid_Nil | Some g \<Rightarrow> g_actor g)"

definition OrganizationID :: "grant_ptr \<Rightarrow> uuid" where
  "OrganizationID g = (case g of None \<Rightarrow> uuid_Nil | Some g \<Rightarrow> g_org g)"

definition Has :: "grant_ptr \<Rightarrow> permission \<Rightarrow> bool" where
  "Has g perm = (case g of None \<Rightarrow> False | Some g \<Rightarrow> perm \<in> set (g_permissions g))"

fun Covers :: "grant_ptr \<Rightarrow> permission list \<Rightarrow> bool" where
  "Covers g [] = True"
| "Covers g (perm # perms) = (if \<not> Has g perm then False else Covers g perms)"

definition Permissions :: "grant_ptr \<Rightarrow> permission list" where
  "Permissions g = (case g of None \<Rightarrow> [] | Some g \<Rightarrow> sort (g_permissions g))"

section \<open>The two rules about handing power out and taking it away\<close>

fun EnsureCanAffect :: "grant_ptr \<Rightarrow> permission list \<Rightarrow> err + unit" where
  "EnsureCanAffect g [] = Inr ()"
| "EnsureCanAffect g (perm # perms) =
     (if \<not> Known perm then EnsureCanAffect g perms
      else if \<not> Has g perm then Inl (AuthzErr ErrInsufficientRank)
      else EnsureCanAffect g perms)"

fun EnsureCanGrant :: "grant_ptr \<Rightarrow> permission list \<Rightarrow> err + unit" where
  "EnsureCanGrant g [] = Inr ()"
| "EnsureCanGrant g (perm # perms) =
     (if \<not> Known perm then Inl (AuthzErr ErrUnknownPermission)
      else if \<not> Has g perm then Inl (AuthzErr ErrPrivilegeEscalation)
      else EnsureCanGrant g perms)"

section \<open>The repository and the service\<close>

record 's authz_repo =
  ar_OrganizationPermissionKeys :: "uuid \<Rightarrow> uuid \<Rightarrow> 's \<Rightarrow> err + string list"
  ar_PermissionKeysByOrganization :: "uuid \<Rightarrow> 's \<Rightarrow> err + (uuid, string list) amap"
  ar_SystemRoleKeys :: "uuid \<Rightarrow> 's \<Rightarrow> err + string list"

record Snapshot =
  sn_Actor :: uuid
  sn_SystemRoles :: "role_key list"
  sn_SystemPermissions :: "permission list"
  sn_ByOrganization :: "(uuid, permission list) amap"

definition SnapshotPermissions :: "Snapshot option \<Rightarrow> uuid \<Rightarrow> permission list" where
  "SnapshotPermissions s orgID =
     (case s of None \<Rightarrow> [] | Some s \<Rightarrow> alist_at (sn_ByOrganization s) orgID)"

text \<open>The loop over the caller's system role keys in \<open>Snapshot\<close>.\<close>

fun snapshot_system :: "role_key list \<Rightarrow> permission list \<Rightarrow> string list \<Rightarrow> role_key list \<times> permission list" where
  "snapshot_system roles perms [] = (roles, perms)"
| "snapshot_system roles perms (key # keys) =
     (case LookupRole key of
        None \<Rightarrow> snapshot_system roles perms keys
      | Some def \<Rightarrow>
          if rd_Scope def \<noteq> ScopeSystem then snapshot_system roles perms keys
          else snapshot_system (roles @ [rd_Key def]) (keep_first perms (rd_Permissions def)) keys)"

definition ServiceSnapshot :: "'s authz_repo \<Rightarrow> uuid \<Rightarrow> 's \<Rightarrow> err + Snapshot" where
  "ServiceSnapshot R userID s =
     (case ar_PermissionKeysByOrganization R userID s of
        Inl e \<Rightarrow> Inl e
      | Inr byOrg \<Rightarrow>
          let byOrganization = map (\<lambda>(orgID, keys). (orgID, sort (Sanitize keys))) byOrg in
          (case ar_SystemRoleKeys R userID s of
             Inl e \<Rightarrow> Inl e
           | Inr systemKeys \<Rightarrow>
               let (roles, perms) = snapshot_system [] [] systemKeys in
               Inr \<lparr>sn_Actor = userID, sn_SystemRoles = sort roles,
                    sn_SystemPermissions = sort perms, sn_ByOrganization = byOrganization\<rparr>))"

definition authorizeOrganization :: "'s authz_repo \<Rightarrow> Request \<Rightarrow> 's \<Rightarrow> err + Grant" where
  "authorizeOrganization R req s =
     (case ar_OrganizationPermissionKeys R (rq_Actor req) (rq_Org req) s of
        Inl e \<Rightarrow> Inl e
      | Inr keys \<Rightarrow>
          let grant = NewGrant (rq_Actor req) (rq_Org req) (Sanitize keys) in
          if \<not> Has (Some grant) (rq_Permission req) then Inl (AuthzErr ErrForbidden)
          else Inr grant)"

fun held_system :: "permission list \<Rightarrow> string list \<Rightarrow> permission list" where
  "held_system held [] = held"
| "held_system held (key # keys) =
     (case LookupRole key of
        None \<Rightarrow> held_system held keys
      | Some def \<Rightarrow>
          if rd_Scope def \<noteq> ScopeSystem then held_system held keys
          else held_system (held @ rd_Permissions def) keys)"

definition authorizeSystem :: "'s authz_repo \<Rightarrow> Request \<Rightarrow> 's \<Rightarrow> err + Grant" where
  "authorizeSystem R req s =
     (case ar_SystemRoleKeys R (rq_Actor req) s of
        Inl e \<Rightarrow> Inl e
      | Inr keys \<Rightarrow>
          let grant = NewGrant (rq_Actor req) uuid_Nil (held_system [] keys) in
          if \<not> Has (Some grant) (rq_Permission req) then Inl (AuthzErr ErrForbidden)
          else Inr grant)"

definition Authorize :: "'s authz_repo \<Rightarrow> Request \<Rightarrow> 's \<Rightarrow> err + Grant" where
  "Authorize R req s =
     (case Lookup (rq_Permission req) of
        None \<Rightarrow> Inl (AuthzErr ErrUnknownPermission)
      | Some def \<Rightarrow>
          if d_Scope def = ScopeSystem then
            (if rq_Org req \<noteq> uuid_Nil then Inl (AuthzErr ErrScopeMismatch)
             else authorizeSystem R req s)
          else if rq_Org req = uuid_Nil then Inl (AuthzErr ErrScopeMismatch)
          else authorizeOrganization R req s)"

text \<open>
  \<open>ctx.Value(grantKey).(*Grant)\<close>: absent, nil, or a grant. The result is the grant when the
  second result of the source is true.
\<close>

definition GrantFrom :: "grant_ptr option \<Rightarrow> Grant option" where
  "GrantFrom v =
     (case v of
        None \<Rightarrow> None
      | Some g \<Rightarrow>
          (case g of
             None \<Rightarrow> None
           | Some g \<Rightarrow> if g_actor g = uuid_Nil then None else Some g))"

section \<open>Lemmas\<close>

lemma Has_NewGrant [simp]: "Has (Some (NewGrant a o' ps)) p \<longleftrightarrow> p \<in> set ps \<and> Known p"
  by (auto simp: Has_def NewGrant_def)

lemma NewGrant_sel [simp]: "g_actor (NewGrant a o' ps) = a" "g_org (NewGrant a o' ps) = o'"
  by (simp_all add: NewGrant_def)

lemma Has_None [simp]: "\<not> Has None p"
  by (simp add: Has_def)

lemma Covers_iff: "Covers g perms \<longleftrightarrow> (\<forall>p \<in> set perms. Has g p)"
  by (induction g perms rule: Covers.induct) auto

lemma EnsureCanAffect_ok:
  "EnsureCanAffect g perms = Inr u \<longleftrightarrow> (\<forall>p \<in> set perms. Known p \<longrightarrow> Has g p)"
  by (induction g perms rule: EnsureCanAffect.induct) auto

lemma EnsureCanAffect_error:
  "EnsureCanAffect g perms = Inl e \<longleftrightarrow>
     e = AuthzErr ErrInsufficientRank \<and> (\<exists>p \<in> set perms. Known p \<and> \<not> Has g p)"
  by (induction g perms rule: EnsureCanAffect.induct) auto

lemma EnsureCanGrant_ok:
  "EnsureCanGrant g perms = Inr u \<longleftrightarrow> (\<forall>p \<in> set perms. Known p \<and> Has g p)"
  by (induction g perms rule: EnsureCanGrant.induct) auto

lemma EnsureCanGrant_error:
  "EnsureCanGrant g perms = Inl e \<Longrightarrow>
     e = AuthzErr ErrUnknownPermission \<or> e = AuthzErr ErrPrivilegeEscalation"
  by (induction g perms rule: EnsureCanGrant.induct) (auto split: if_splits)

definition is_system_key :: "string \<Rightarrow> bool" where
  "is_system_key key \<longleftrightarrow> (\<exists>def. LookupRole key = Some def \<and> rd_Scope def = ScopeSystem)"

lemma set_held_system:
  "set (held_system held keys) =
     set held \<union> (if \<exists>key \<in> set keys. is_system_key key then set (InScope ScopeSystem) else {})"
  by (induction held keys rule: held_system.induct)
    (auto simp: is_system_key_def platform_admin_permissions split: option.splits)

lemma set_snapshot_system:
  "set (snd (snapshot_system roles perms keys)) =
     set perms \<union> (if \<exists>key \<in> set keys. is_system_key key then set (InScope ScopeSystem) else {})"
  by (induction roles perms keys rule: snapshot_system.induct)
    (auto simp: is_system_key_def platform_admin_permissions split: option.splits)

lemma GrantFrom_Some: "GrantFrom v = Some g \<longleftrightarrow> v = Some (Some g) \<and> g_actor g \<noteq> uuid_Nil"
  by (auto simp: GrantFrom_def split: option.splits)

lemma Authorize_organization:
  "rq_Permission req \<in> set (InScope ScopeOrganization) \<Longrightarrow> rq_Org req \<noteq> uuid_Nil \<Longrightarrow>
     Authorize R req s = authorizeOrganization R req s"
  by (auto simp: Authorize_def InScope_iff)

lemma Authorize_system:
  "rq_Permission req \<in> set (InScope ScopeSystem) \<Longrightarrow> rq_Org req = uuid_Nil \<Longrightarrow>
     Authorize R req s = authorizeSystem R req s"
  by (auto simp: Authorize_def InScope_iff)

lemma authorizeOrganization_ok:
  "ar_OrganizationPermissionKeys R (rq_Actor req) (rq_Org req) s = Inr keys \<Longrightarrow>
     (\<exists>g. authorizeOrganization R req s = Inr g) \<longleftrightarrow>
       rq_Permission req \<in> set keys \<and> Known (rq_Permission req)"
  by (simp add: authorizeOrganization_def Let_def)

lemma authorizeSystem_ok:
  "ar_SystemRoleKeys R (rq_Actor req) s = Inr keys \<Longrightarrow> rq_Permission req \<in> set (InScope ScopeSystem) \<Longrightarrow>
     (\<exists>g. authorizeSystem R req s = Inr g) \<longleftrightarrow> (\<exists>key \<in> set keys. is_system_key key)"
  by (simp add: authorizeSystem_def Let_def set_held_system InScope_Known)

section \<open>What the interface promises\<close>

text \<open>
  The contract of \<open>authz.Repository\<close> over an abstract view of the store: who is an active
  member of what, and which raw keys that membership's roles carry.
\<close>

locale authz_repository =
  fixes R :: "'s authz_repo"
    and wf :: "'s \<Rightarrow> bool"
    and active_in :: "'s \<Rightarrow> uuid \<Rightarrow> uuid \<Rightarrow> bool"
    and keys_in :: "'s \<Rightarrow> uuid \<Rightarrow> uuid \<Rightarrow> string set"
    and system_keys :: "'s \<Rightarrow> uuid \<Rightarrow> string set"
  assumes not_member: "wf s \<Longrightarrow> \<not> active_in s u org \<Longrightarrow>
      ar_OrganizationPermissionKeys R u org s = Inl (AuthzErr ErrNotMember)"
    and member: "wf s \<Longrightarrow> active_in s u org \<Longrightarrow>
      \<exists>keys. ar_OrganizationPermissionKeys R u org s = Inr keys \<and> set keys = keys_in s u org"
    and by_organization: "wf s \<Longrightarrow>
      \<exists>m. ar_PermissionKeysByOrganization R u s = Inr m \<and> adistinct m \<and>
        (\<forall>org. set (alist_at m org) = (if active_in s u org then keys_in s u org else {}))"
    and system_roles: "wf s \<Longrightarrow>
      \<exists>keys. ar_SystemRoleKeys R u s = Inr keys \<and> set keys = system_keys s u"
begin

lemma authorize_not_member:
  assumes "wf s" "rq_Permission req \<in> set (InScope ScopeOrganization)" "rq_Org req \<noteq> uuid_Nil"
    "\<not> active_in s (rq_Actor req) (rq_Org req)"
  shows "Authorize R req s = Inl (AuthzErr ErrNotMember)"
  using not_member[OF assms(1,4)] assms(2,3)
  by (simp add: Authorize_organization authorizeOrganization_def)

lemma authorize_granted:
  assumes "wf s" "rq_Permission req \<in> set (InScope ScopeOrganization)" "rq_Org req \<noteq> uuid_Nil"
  shows "(\<exists>g. Authorize R req s = Inr g) \<longleftrightarrow>
       active_in s (rq_Actor req) (rq_Org req) \<and> rq_Permission req \<in> keys_in s (rq_Actor req) (rq_Org req)"
proof (cases "active_in s (rq_Actor req) (rq_Org req)")
  case True
  obtain keys where "ar_OrganizationPermissionKeys R (rq_Actor req) (rq_Org req) s = Inr keys"
    "set keys = keys_in s (rq_Actor req) (rq_Org req)"
    using member[OF assms(1) True] by blast
  then show ?thesis using True assms(2,3)
    by (simp add: Authorize_organization authorizeOrganization_ok InScope_Known)
next
  case False
  then show ?thesis using authorize_not_member[OF assms False] by simp
qed

lemma authorize_forbidden:
  assumes "wf s" "rq_Permission req \<in> set (InScope ScopeOrganization)" "rq_Org req \<noteq> uuid_Nil"
    "active_in s (rq_Actor req) (rq_Org req)"
    "rq_Permission req \<notin> keys_in s (rq_Actor req) (rq_Org req)"
  shows "Authorize R req s = Inl (AuthzErr ErrForbidden)"
proof -
  obtain keys where "ar_OrganizationPermissionKeys R (rq_Actor req) (rq_Org req) s = Inr keys"
    "set keys = keys_in s (rq_Actor req) (rq_Org req)"
    using member[OF assms(1,4)] by blast
  then show ?thesis using assms(2,3,5)
    by (simp add: Authorize_organization authorizeOrganization_def Let_def)
qed

lemma snapshot_ok:
  assumes "wf s"
  obtains sn where "ServiceSnapshot R u s = Inr sn" "sn_Actor sn = u"
    "\<And>org. set (SnapshotPermissions (Some sn) org) =
       (if active_in s u org then {k \<in> keys_in s u org. Known k} else {})"
    "set (sn_SystemPermissions sn) =
       (if \<exists>key \<in> system_keys s u. is_system_key key then set (InScope ScopeSystem) else {})"
proof -
  obtain m where m: "ar_PermissionKeysByOrganization R u s = Inr m" "adistinct m"
    "\<And>org. set (alist_at m org) = (if active_in s u org then keys_in s u org else {})"
    using by_organization[OF assms] by blast
  obtain keys where keys: "ar_SystemRoleKeys R u s = Inr keys" "set keys = system_keys s u"
    using system_roles[OF assms] by blast
  obtain roles perms where rp: "snapshot_system [] [] keys = (roles, perms)" by force
  define sn where "sn = \<lparr>sn_Actor = u, sn_SystemRoles = sort roles, sn_SystemPermissions = sort perms,
    sn_ByOrganization = map (\<lambda>(orgID, keys). (orgID, sort (Sanitize keys))) m\<rparr>"
  have lookup: "map_of (map (\<lambda>(orgID, keys). (orgID, sort (Sanitize keys))) m) org =
    map_option (\<lambda>keys. sort (Sanitize keys)) (map_of m org)" for org
    by (induction m) auto
  have "set (SnapshotPermissions (Some sn) org) = {k \<in> set (alist_at m org). Known k}" for org
    by (auto simp: SnapshotPermissions_def sn_def alist_at_def lookup split: option.splits)
  then have "set (SnapshotPermissions (Some sn) org) =
       (if active_in s u org then {k \<in> keys_in s u org. Known k} else {})" for org
    using m(3)[of org] by simp
  moreover have "set (sn_SystemPermissions sn) =
       (if \<exists>key \<in> system_keys s u. is_system_key key then set (InScope ScopeSystem) else {})"
    using set_snapshot_system[of "[]" "[]" keys] rp keys(2) by (simp add: sn_def)
  moreover have "ServiceSnapshot R u s = Inr sn"
    using m(1) keys(1) rp by (simp add: ServiceSnapshot_def sn_def Let_def)
  ultimately show thesis using that[of sn] by (simp add: sn_def)
qed

text \<open>The snapshot a client renders from and the decision the server makes are one view.\<close>

lemma snapshot_agrees_organization:
  assumes "wf s" "org \<noteq> uuid_Nil" "p \<in> set (InScope ScopeOrganization)"
    "ServiceSnapshot R u s = Inr sn"
  shows "p \<in> set (SnapshotPermissions (Some sn) org) \<longleftrightarrow>
    (\<exists>g. Authorize R \<lparr>rq_Actor = u, rq_Org = org, rq_Permission = p\<rparr> s = Inr g)"
proof -
  let ?req = "\<lparr>rq_Actor = u, rq_Org = org, rq_Permission = p\<rparr>"
  have "(\<exists>g. Authorize R ?req s = Inr g) \<longleftrightarrow> active_in s u org \<and> p \<in> keys_in s u org"
    using authorize_granted[OF assms(1), of ?req] assms(2,3) by simp
  moreover have "Known p" using assms(3) by (rule InScope_Known)
  moreover have "set (SnapshotPermissions (Some sn) org) =
       (if active_in s u org then {k \<in> keys_in s u org. Known k} else {})"
    by (rule snapshot_ok[OF assms(1), of u]) (use assms(4) in simp)
  ultimately show ?thesis by simp
qed

lemma snapshot_agrees_system:
  assumes "wf s" "p \<in> set (InScope ScopeSystem)" "ServiceSnapshot R u s = Inr sn"
  shows "p \<in> set (sn_SystemPermissions sn) \<longleftrightarrow>
    (\<exists>g. Authorize R \<lparr>rq_Actor = u, rq_Org = uuid_Nil, rq_Permission = p\<rparr> s = Inr g)"
proof -
  let ?req = "\<lparr>rq_Actor = u, rq_Org = uuid_Nil, rq_Permission = p\<rparr>"
  obtain keys where keys: "ar_SystemRoleKeys R u s = Inr keys" "set keys = system_keys s u"
    using system_roles[OF assms(1)] by blast
  have "(\<exists>g. Authorize R ?req s = Inr g) \<longleftrightarrow> (\<exists>key \<in> system_keys s u. is_system_key key)"
    using assms(2) keys by (simp add: Authorize_system authorizeSystem_ok)
  moreover have "set (sn_SystemPermissions sn) =
       (if \<exists>key \<in> system_keys s u. is_system_key key then set (InScope ScopeSystem) else {})"
    by (rule snapshot_ok[OF assms(1), of u]) (use assms(3) in simp)
  ultimately show ?thesis using assms(2) by simp
qed

text \<open>Both scopes at once.\<close>

lemma authorized_iff:
  assumes "wf s"
  shows "(\<exists>g. Authorize R req s = Inr g) \<longleftrightarrow>
    (rq_Permission req \<in> set (InScope ScopeOrganization) \<and> rq_Org req \<noteq> uuid_Nil \<and>
       active_in s (rq_Actor req) (rq_Org req) \<and>
       rq_Permission req \<in> keys_in s (rq_Actor req) (rq_Org req)) \<or>
    (rq_Permission req \<in> set (InScope ScopeSystem) \<and> rq_Org req = uuid_Nil \<and>
       RolePlatformAdmin \<in> system_keys s (rq_Actor req))"
proof (cases "Lookup (rq_Permission req)")
  case None
  then show ?thesis by (auto simp: Authorize_def InScope_iff)
next
  case (Some d)
  obtain keys where keys: "ar_SystemRoleKeys R (rq_Actor req) s = Inr keys"
    "set keys = system_keys s (rq_Actor req)"
    using system_roles[OF assms] by blast
  show ?thesis
  proof (cases "d_Scope d")
    case ScopeSystem
    then have sys: "rq_Permission req \<in> set (InScope ScopeSystem)" and
      not_org: "rq_Permission req \<notin> set (InScope ScopeOrganization)"
      using Some by (auto simp: InScope_iff)
    show ?thesis
    proof (cases "rq_Org req = uuid_Nil")
      case True
      then show ?thesis using sys not_org keys
        by (simp add: Authorize_system authorizeSystem_ok is_system_key_def LookupRole_system_iff)
    qed (use Some ScopeSystem not_org in \<open>simp add: Authorize_def\<close>)
  next
    case ScopeOrganization
    then have org: "rq_Permission req \<in> set (InScope ScopeOrganization)" and
      not_sys: "rq_Permission req \<notin> set (InScope ScopeSystem)"
      using Some by (auto simp: InScope_iff)
    show ?thesis
    proof (cases "rq_Org req = uuid_Nil")
      case False
      then show ?thesis using org not_sys authorize_granted[OF assms org] by simp
    qed (use Some ScopeOrganization not_sys in \<open>simp add: Authorize_def\<close>)
  qed
qed

lemma grant_within_keys:
  assumes "wf s" "Authorize R req s = Inr g" "rq_Org req \<noteq> uuid_Nil"
  shows "g_actor g = rq_Actor req \<and> g_org g = rq_Org req \<and>
    set (g_permissions g) = {k \<in> keys_in s (rq_Actor req) (rq_Org req). Known k} \<and>
    rq_Permission req \<in> set (g_permissions g)"
proof -
  have auth: "authorizeOrganization R req s = Inr g"
    using assms(2,3) by (simp add: Authorize_def split: option.splits if_splits)
  have "active_in s (rq_Actor req) (rq_Org req)"
  proof (rule ccontr)
    assume "\<not> active_in s (rq_Actor req) (rq_Org req)"
    from not_member[OF assms(1) this] auth show False by (simp add: authorizeOrganization_def)
  qed
  from member[OF assms(1) this] obtain keys
    where keys: "ar_OrganizationPermissionKeys R (rq_Actor req) (rq_Org req) s = Inr keys"
      "set keys = keys_in s (rq_Actor req) (rq_Org req)" by blast
  have "g = NewGrant (rq_Actor req) (rq_Org req) (Sanitize keys)" "Has (Some g) (rq_Permission req)"
    using auth keys(1) by (auto simp: authorizeOrganization_def Let_def split: if_splits)
  then show ?thesis by (auto simp: NewGrant_def Has_def keys(2)[symmetric])
qed

end

end
