(* ===== verification/Orgs_Types.thy ===== *)
theory Orgs_Types
  imports Calls Authz
begin

text \<open>
  The types of \<open>internal/domain/orgs\<close>: what its interfaces hand out, the facts the last-owner
  rule decides from, and the two rules the repository runs inside its own step
  (\<open>internal/domain/orgs/repository.go\<close>, \<open>provision.go\<close> and the rules of \<open>service.go\<close>).
\<close>

section \<open>Views\<close>

record MembershipView =
  mv_ID :: uuid
  mv_Organization :: Organization
  mv_Status :: MembershipStatus
  mv_RoleKeys :: "string list"

text \<open>
  The zero \<open>ent.Organization\<close> stands where the view of an invitation finds no organization.
\<close>

record InvitationView =
  iv_ID :: uuid
  iv_Organization :: Organization
  iv_Email :: string
  iv_InvitedBy :: "uuid option"
  iv_ExpiresAt :: time
  iv_RoleKeys :: "string list"

record RoleSummary =
  rs_ID :: uuid
  rs_Key :: string
  rs_Name :: string
  rs_IsSystem :: bool

record Member =
  mb_ID :: uuid
  mb_UserID :: uuid
  mb_Name :: string
  mb_Email :: string
  mb_Status :: MembershipStatus
  mb_JoinedAt :: "time option"
  mb_Roles :: "RoleSummary list"

record RoleView =
  rv_Role :: Role
  rv_Permissions :: "permission list"
  rv_Members :: int

record OrganizationSummary =
  os_Organization :: Organization
  os_Owners :: int

record OrganizationFilter =
  of_WithoutOwner :: bool

record SystemRoleHolder =
  sh_UserID :: uuid
  sh_Name :: string
  sh_Email :: string
  sh_RoleKey :: string
  sh_GrantedBy :: "uuid option"
  sh_GrantedAt :: time

section \<open>Guards\<close>

record OwnerState =
  ow_Owners :: int
  ow_SubjectHoldsOwner :: bool

type_synonym OwnerGuard = "OwnerState \<Rightarrow> err + unit"

type_synonym RoleGuard = "int \<Rightarrow> err + unit"

definition RefuseLastOwnerLoss :: "bool \<Rightarrow> OwnerGuard" where
  "RefuseLastOwnerLoss losing state =
     (if \<not> losing \<or> \<not> ow_SubjectHoldsOwner state then Inr ()
      else if ow_Owners state \<le> 1 then Inl (OrgsErr ErrLastOwner)
      else Inr ())"

definition RefuseRoleInUse :: RoleGuard where
  "RefuseRoleInUse holders = (if 0 < holders then Inl (OrgsErr ErrRoleInUse) else Inr ())"

section \<open>Lemmas\<close>

lemma RefuseLastOwnerLoss_ok:
  "RefuseLastOwnerLoss losing st = Inr u \<longleftrightarrow>
     \<not> losing \<or> \<not> ow_SubjectHoldsOwner st \<or> 1 < ow_Owners st"
  by (auto simp: RefuseLastOwnerLoss_def)

lemma RefuseRoleInUse_ok: "RefuseRoleInUse holders = Inr u \<longleftrightarrow> holders \<le> 0"
  by (auto simp: RefuseRoleInUse_def)

end
