(* ===== verification/Memory_Authz.thy ===== *)
theory Memory_Authz
  imports Memory_Users Orgs_Types "HOL-Library.Product_Lexorder"
begin

text \<open>
  The authorization store, \<open>internal/store/repositories/memory/authz.go\<close> and
  \<open>invitations.go\<close>: organizations, memberships, roles, system roles, invitations and the audit
  trail. Every method runs under the mutex, so each is one atomic step on the record below; the
  account store it points to is part of the record. The \<open>Seed\<close> fixtures and the file methods
  are not modelled here.
\<close>

section \<open>The store\<close>

record SystemGrant =
  sg_by :: uuid
  sg_at :: time

record AuthzStore =
  ma_users :: "Users option"
  ma_orgs :: "(uuid, Organization) amap"
  ma_memberships :: "(uuid, Membership) amap"
  ma_roles :: "(uuid, Role) amap"
  ma_rolePerms :: "(uuid, string list) amap"
  ma_memberRoles :: "(uuid, uuid list) amap"
  ma_systemRoles :: "(uuid, string list) amap"
  ma_deletedUsers :: "(uuid, bool) amap"
  ma_invitations :: "(uuid, Invitation) amap"
  ma_systemGrants :: "(uuid \<times> string, SystemGrant) amap"
  ma_inviteRoles :: "(uuid, uuid list) amap"
  ma_events :: "AuthzEvent list"

definition NewAuthz :: "Users option \<Rightarrow> AuthzStore" where
  "NewAuthz users =
     \<lparr>ma_users = users, ma_orgs = [], ma_memberships = [], ma_roles = [], ma_rolePerms = [],
      ma_memberRoles = [], ma_systemRoles = [], ma_deletedUsers = [], ma_invitations = [],
      ma_systemGrants = [], ma_inviteRoles = [], ma_events = []\<rparr>"

type_synonym 'a aprog = "(AuthzStore, err, 'a) prog"

section \<open>The audit trail\<close>

definition no_event :: AuthzEvent where
  "no_event = \<lparr>ev_ID = uuid_Nil, ev_CreatedAt = zero_time, ev_OrganizationID = None,
     ev_ActorID = uuid_Nil, ev_SubjectID = None, ev_Action = [], ev_RoleID = None,
     ev_IP = [], ev_UserAgent = [], ev_Detail = []\<rparr>"

definition recordLocked :: "Call \<Rightarrow> AuthzEvent \<Rightarrow> AuthzStore \<Rightarrow> AuthzStore" where
  "recordLocked c event m =
     (let actor = ActorFrom (c_actor c) in
      if ActorIsZero actor then m
      else
        let event = event\<lparr>ev_ID := c_newID c DrawEvent, ev_CreatedAt := c_now c ClockEvent,
              ev_ActorID := ac_ID actor, ev_IP := ac_IP actor, ev_UserAgent := ac_UserAgent actor\<rparr>;
            event = (if ev_IP event = [] then event\<lparr>ev_IP := ''0.0.0.0''\<rparr> else event)
        in m\<lparr>ma_events := ma_events m @ [event]\<rparr>)"

definition subjectOfLocked :: "AuthzStore \<Rightarrow> uuid \<Rightarrow> uuid option" where
  "subjectOfLocked m memberID = map_option ms_UserID (map_of (ma_memberships m) memberID)"

section \<open>Helpers called with the lock held\<close>

definition accountIDDeletedLocked :: "AuthzStore \<Rightarrow> uuid \<Rightarrow> bool" where
  "accountIDDeletedLocked m userID =
     (if map_of (ma_deletedUsers m) userID = Some True then True
      else (case ma_users m of None \<Rightarrow> False | Some users \<Rightarrow> UsersIsSoftDeleted userID users))"

definition accountDeletedLocked :: "AuthzStore \<Rightarrow> Membership \<Rightarrow> bool" where
  "accountDeletedLocked m membership = accountIDDeletedLocked m (ms_UserID membership)"

definition lookup_account :: "AuthzStore \<Rightarrow> uuid \<Rightarrow> User option" where
  "lookup_account m userID =
     (case ma_users m of
        None \<Rightarrow> None
      | Some users \<Rightarrow> (case UsersByID userID users of Inl _ \<Rightarrow> None | Inr u \<Rightarrow> Some u))"

definition emailOfLocked :: "Call \<Rightarrow> AuthzStore \<Rightarrow> uuid \<Rightarrow> string" where
  "emailOfLocked c m userID =
     (case lookup_account m userID of
        Some u \<Rightarrow> u_Email u
      | None \<Rightarrow> c_uuidString c userID @ ''@seed.test'')"

definition organizationLocked :: "AuthzStore \<Rightarrow> uuid \<Rightarrow> err + Organization" where
  "organizationLocked m orgID =
     (case map_of (ma_orgs m) orgID of
        None \<Rightarrow> Inl orgs_not_found
      | Some org \<Rightarrow> if OrganizationIsDeleted org then Inl orgs_not_found else Inr org)"

definition live_org :: "AuthzStore \<Rightarrow> uuid \<Rightarrow> bool" where
  "live_org m orgID =
     (case map_of (ma_orgs m) orgID of None \<Rightarrow> False | Some org \<Rightarrow> \<not> OrganizationIsDeleted org)"

definition activeMembershipLocked :: "AuthzStore \<Rightarrow> uuid \<Rightarrow> uuid \<Rightarrow> Membership option" where
  "activeMembershipLocked m userID orgID =
     (if accountIDDeletedLocked m userID then None
      else if \<not> live_org m orgID then None
      else (case List.find (\<lambda>ms. ms_UserID ms = userID \<and> ms_OrganizationID ms = orgID)
                   (avals (ma_memberships m)) of
              None \<Rightarrow> None
            | Some ms \<Rightarrow> if \<not> GrantsPermissions (ms_Status ms) then None else Some ms))"

text \<open>The roles a membership is assigned that still exist, in assignment order.\<close>

definition assigned_roles :: "AuthzStore \<Rightarrow> uuid \<Rightarrow> Role list" where
  "assigned_roles m memberID =
     List.map_filter (map_of (ma_roles m)) (alist_at (ma_memberRoles m) memberID)"

definition live_role_ids :: "AuthzStore \<Rightarrow> uuid list \<Rightarrow> uuid list" where
  "live_role_ids m roleIDs = filter (\<lambda>roleID. map_of (ma_roles m) roleID \<noteq> None) roleIDs"

text \<open>The keys of a membership's roles, each once: the two nested loops.\<close>

definition membership_keys :: "AuthzStore \<Rightarrow> uuid \<Rightarrow> string list" where
  "membership_keys m memberID =
     keep_first [] (concat (map (alist_at (ma_rolePerms m))
       (live_role_ids m (alist_at (ma_memberRoles m) memberID))))"

definition memberLocked :: "AuthzStore \<Rightarrow> Membership \<Rightarrow> Member" where
  "memberLocked m ms =
     (let account = (if ms_UserID ms = uuid_Nil then None else lookup_account m (ms_UserID ms));
          summaries = map (\<lambda>r. \<lparr>rs_ID = r_ID r, rs_Key = r_Key r, rs_Name = r_Name r,
                                rs_IsSystem = r_IsSystem r\<rparr>) (assigned_roles m (ms_ID ms))
      in \<lparr>mb_ID = ms_ID ms, mb_UserID = ms_UserID ms,
          mb_Name = (case account of None \<Rightarrow> [] | Some u \<Rightarrow> u_Name u),
          mb_Email = (case account of None \<Rightarrow> [] | Some u \<Rightarrow> u_Email u),
          mb_Status = ms_Status ms, mb_JoinedAt = ms_JoinedAt ms,
          mb_Roles = sort_key rs_Key summaries\<rparr>)"

definition holder_count :: "AuthzStore \<Rightarrow> uuid \<Rightarrow> int" where
  "holder_count m roleID =
     int (length (filter (\<lambda>assigned. roleID \<in> set assigned) (avals (ma_memberRoles m))))"

definition roleLocked :: "AuthzStore \<Rightarrow> Role \<Rightarrow> RoleView" where
  "roleLocked m role =
     \<lparr>rv_Role = role, rv_Permissions = sort (alist_at (ma_rolePerms m) (r_ID role)),
      rv_Members = holder_count m (r_ID role)\<rparr>"

fun rolesBelongLocked :: "AuthzStore \<Rightarrow> uuid \<Rightarrow> uuid list \<Rightarrow> err + unit" where
  "rolesBelongLocked m orgID [] = Inr ()"
| "rolesBelongLocked m orgID (roleID # roleIDs) =
     (case map_of (ma_roles m) roleID of
        None \<Rightarrow> Inl orgs_not_found
      | Some role \<Rightarrow>
          if r_OrganizationID role \<noteq> orgID then Inl orgs_not_found
          else rolesBelongLocked m orgID roleIDs)"

definition permissionStrings :: "permission list \<Rightarrow> string list" where
  "permissionStrings permissions = map (\<lambda>perm. perm) permissions"

definition uniqueIDs :: "uuid list \<Rightarrow> uuid list" where
  "uniqueIDs ids = keep_first [] ids"

definition holdsOwnerLocked :: "AuthzStore \<Rightarrow> uuid \<Rightarrow> bool" where
  "holdsOwnerLocked m memberID \<longleftrightarrow>
     (\<exists>role \<in> set (assigned_roles m memberID). r_Key role = RoleOwner)"

definition counts_as_owner :: "AuthzStore \<Rightarrow> uuid \<Rightarrow> Membership \<Rightarrow> bool" where
  "counts_as_owner m orgID ms \<longleftrightarrow>
     ms_OrganizationID ms = orgID \<and> GrantsPermissions (ms_Status ms) \<and>
     \<not> accountDeletedLocked m ms \<and> holdsOwnerLocked m (ms_ID ms)"

definition ownerStateLocked :: "AuthzStore \<Rightarrow> uuid \<Rightarrow> uuid \<Rightarrow> OwnerState" where
  "ownerStateLocked m orgID memberID =
     (let owners = filter (counts_as_owner m orgID) (avals (ma_memberships m))
      in \<lparr>ow_Owners = int (length owners),
          ow_SubjectHoldsOwner = (\<exists>ms \<in> set owners. ms_ID ms = memberID)\<rparr>)"

definition applyOwnerGuardLocked :: "AuthzStore \<Rightarrow> uuid \<Rightarrow> uuid \<Rightarrow> OwnerGuard \<Rightarrow> err + unit" where
  "applyOwnerGuardLocked m orgID memberID guard = guard (ownerStateLocked m orgID memberID)"

definition ownerCountLocked :: "AuthzStore \<Rightarrow> uuid \<Rightarrow> int" where
  "ownerCountLocked m orgID =
     int (length (filter (\<lambda>ms.
       \<not> (ms_OrganizationID ms \<noteq> orgID \<or> ms_Status ms \<noteq> MembershipActive) \<and>
       \<not> accountDeletedLocked m ms \<and>
       (\<exists>role \<in> set (assigned_roles m (ms_ID ms)). r_Key role = RoleOwner))
       (avals (ma_memberships m))))"

section \<open>\<open>authz.Repository\<close>\<close>

definition AuthzOrganizationPermissionKeys :: "uuid \<Rightarrow> uuid \<Rightarrow> AuthzStore \<Rightarrow> err + string list" where
  "AuthzOrganizationPermissionKeys userID orgID m =
     (case activeMembershipLocked m userID orgID of
        None \<Rightarrow> Inl (AuthzErr ErrNotMember)
      | Some ms \<Rightarrow> Inr (membership_keys m (ms_ID ms)))"

fun keys_by_organization :: "AuthzStore \<Rightarrow> uuid \<Rightarrow> (uuid, string list) amap \<Rightarrow> Membership list
    \<Rightarrow> (uuid, string list) amap" where
  "keys_by_organization m userID out [] = out"
| "keys_by_organization m userID out (ms # mss) =
     (if ms_UserID ms \<noteq> userID then keys_by_organization m userID out mss
      else if activeMembershipLocked m userID (ms_OrganizationID ms) = None
      then keys_by_organization m userID out mss
      else
        let keys = membership_keys m (ms_ID ms)
        in keys_by_organization m userID
             (if keys \<noteq> [] then AList.update (ms_OrganizationID ms) keys out else out) mss)"

definition AuthzPermissionKeysByOrganization ::
    "uuid \<Rightarrow> AuthzStore \<Rightarrow> err + (uuid, string list) amap" where
  "AuthzPermissionKeysByOrganization userID m =
     Inr (keys_by_organization m userID [] (avals (ma_memberships m)))"

definition AuthzSystemRoleKeys :: "uuid \<Rightarrow> AuthzStore \<Rightarrow> err + string list" where
  "AuthzSystemRoleKeys userID m =
     (if accountIDDeletedLocked m userID then Inr []
      else Inr (alist_at (ma_systemRoles m) userID))"

section \<open>\<open>orgs.Directory\<close>: memberships\<close>

fun memberships_for :: "AuthzStore \<Rightarrow> uuid \<Rightarrow> Membership list \<Rightarrow> MembershipView list" where
  "memberships_for m userID [] = []"
| "memberships_for m userID (ms # mss) =
     (if ms_UserID ms \<noteq> userID then memberships_for m userID mss
      else (case map_of (ma_orgs m) (ms_OrganizationID ms) of
          None \<Rightarrow> memberships_for m userID mss
        | Some org \<Rightarrow>
            if OrganizationIsDeleted org then memberships_for m userID mss
            else \<lparr>mv_ID = ms_ID ms, mv_Organization = org, mv_Status = ms_Status ms,
                  mv_RoleKeys = sort (map r_Key (assigned_roles m (ms_ID ms)))\<rparr>
                 # memberships_for m userID mss))"

definition AuthzMembershipsForUser :: "uuid \<Rightarrow> AuthzStore \<Rightarrow> err + MembershipView list" where
  "AuthzMembershipsForUser userID m =
     Inr (sort_key (\<lambda>v. org_Name (mv_Organization v)) (memberships_for m userID (avals (ma_memberships m))))"

section \<open>\<open>orgs.Repository\<close>: organizations\<close>

definition AuthzOrganization :: "uuid \<Rightarrow> AuthzStore \<Rightarrow> err + Organization" where
  "AuthzOrganization orgID m = organizationLocked m orgID"

definition AuthzUpdateOrganization :: "Call \<Rightarrow> uuid \<Rightarrow> string \<Rightarrow> unit aprog" where
  "AuthzUpdateOrganization c orgID name m =
     (case organizationLocked m orgID of
        Inl e \<Rightarrow> refuse e m
      | Inr org \<Rightarrow>
          let m = m\<lparr>ma_orgs := AList.update orgID (org\<lparr>org_Name := name\<rparr>) (ma_orgs m)\<rparr>
          in ok () (recordLocked c (no_event\<lparr>ev_OrganizationID := Some orgID,
               ev_Action := ActionOrganizationUpdated, ev_Detail := name\<rparr>) m))"

definition AuthzDeleteOrganization :: "Call \<Rightarrow> uuid \<Rightarrow> unit aprog" where
  "AuthzDeleteOrganization c orgID m =
     (case organizationLocked m orgID of
        Inl e \<Rightarrow> refuse e m
      | Inr org \<Rightarrow>
          (case OrganizationDelete (c_now c ClockRow) org of
             Inl e \<Rightarrow> refuse e m
           | Inr org' \<Rightarrow>
               ok () (recordLocked c (no_event\<lparr>ev_OrganizationID := Some orgID,
                 ev_Action := ActionOrganizationDeleted\<rparr>)
                 (m\<lparr>ma_orgs := AList.update orgID org' (ma_orgs m)\<rparr>))))"

section \<open>\<open>orgs.Repository\<close>: memberships\<close>

definition AuthzMembers :: "uuid \<Rightarrow> int \<Rightarrow> int \<Rightarrow> AuthzStore \<Rightarrow> err + Member list" where
  "AuthzMembers orgID limit offset m =
     (let out = map (memberLocked m) (filter (\<lambda>ms.
            \<not> (ms_OrganizationID ms \<noteq> orgID \<or> accountDeletedLocked m ms)) (avals (ma_memberships m)))
      in page (sort_key (\<lambda>b. (mb_Name b, mb_ID b)) out) limit offset)"

definition AuthzMember :: "uuid \<Rightarrow> uuid \<Rightarrow> AuthzStore \<Rightarrow> err + Member" where
  "AuthzMember orgID memberID m =
     (case map_of (ma_memberships m) memberID of
        None \<Rightarrow> Inl orgs_not_found
      | Some ms \<Rightarrow>
          if ms_OrganizationID ms \<noteq> orgID \<or> accountDeletedLocked m ms then Inl orgs_not_found
          else Inr (memberLocked m ms))"

definition AuthzMemberByUser :: "uuid \<Rightarrow> uuid \<Rightarrow> AuthzStore \<Rightarrow> err + Member" where
  "AuthzMemberByUser orgID userID m =
     (case List.find (\<lambda>ms. \<not> (ms_OrganizationID ms \<noteq> orgID \<or> ms_UserID ms \<noteq> userID) \<and>
                            \<not> accountDeletedLocked m ms) (avals (ma_memberships m)) of
        None \<Rightarrow> Inl orgs_not_found
      | Some ms \<Rightarrow> Inr (memberLocked m ms))"

definition AuthzMemberPermissions :: "uuid \<Rightarrow> uuid \<Rightarrow> AuthzStore \<Rightarrow> err + permission list" where
  "AuthzMemberPermissions orgID memberID m =
     (case map_of (ma_memberships m) memberID of
        None \<Rightarrow> Inr []
      | Some ms \<Rightarrow>
          if ms_OrganizationID ms \<noteq> orgID then Inr []
          else Inr (sort (membership_keys m memberID)))"

text \<open>The insertion \<open>AddMember\<close> and \<open>AcceptInvitation\<close> share.\<close>

definition AuthzAddMember ::
    "Call \<Rightarrow> uuid \<Rightarrow> uuid \<Rightarrow> uuid list \<Rightarrow> uuid \<Rightarrow> time \<Rightarrow> Member aprog" where
  "AuthzAddMember c orgID userID roleIDs invitedBy at m =
     (if ma_users m \<noteq> None \<and> lookup_account m userID = None then refuse orgs_not_found m
      else if \<exists>ms \<in> set (avals (ma_memberships m)). ms_OrganizationID ms = orgID \<and> ms_UserID ms = userID
      then refuse (OrgsErr ErrAlreadyMember) m
      else (case rolesBelongLocked m orgID roleIDs of
          Inl e \<Rightarrow> refuse e m
        | Inr _ \<Rightarrow>
            let memberID = c_newID c DrawMembership;
                ms = \<lparr>ms_ID = memberID, ms_UserID = userID, ms_OrganizationID = orgID,
                      ms_Status = MembershipActive,
                      ms_InvitedBy = (if invitedBy \<noteq> uuid_Nil then Some invitedBy else None),
                      ms_JoinedAt = None\<rparr>;
                ms = MembershipActivate at ms;
                m = m\<lparr>ma_memberships := AList.update memberID ms (ma_memberships m),
                      ma_memberRoles := AList.update memberID (uniqueIDs roleIDs) (ma_memberRoles m)\<rparr>;
                m = recordLocked c (no_event\<lparr>ev_OrganizationID := Some orgID,
                      ev_SubjectID := Some userID, ev_Action := ActionMemberJoined\<rparr>) m
            in ok (memberLocked m ms) m))"

definition status_string :: "MembershipStatus \<Rightarrow> string" where
  "status_string s =
     (case s of MembershipActive \<Rightarrow> ''active'' | MembershipSuspended \<Rightarrow> ''suspended'' | MembershipOther x \<Rightarrow> x)"

definition AuthzSetMemberStatus ::
    "Call \<Rightarrow> uuid \<Rightarrow> uuid \<Rightarrow> MembershipStatus \<Rightarrow> time \<Rightarrow> OwnerGuard \<Rightarrow> unit aprog" where
  "AuthzSetMemberStatus c orgID memberID status at guard m =
     (case map_of (ma_memberships m) memberID of
        None \<Rightarrow> refuse orgs_not_found m
      | Some ms \<Rightarrow>
          if ms_OrganizationID ms \<noteq> orgID then refuse orgs_not_found m
          else (case applyOwnerGuardLocked m orgID memberID guard of
              Inl e \<Rightarrow> refuse e m
            | Inr _ \<Rightarrow>
                let ms' = (if GrantsPermissions status then MembershipActivate at ms
                           else ms\<lparr>ms_Status := status\<rparr>);
                    action = (if GrantsPermissions status then ActionMemberReinstated
                              else ActionMemberSuspended);
                    m = m\<lparr>ma_memberships := AList.update memberID ms' (ma_memberships m)\<rparr>
                in ok () (recordLocked c (no_event\<lparr>ev_OrganizationID := Some orgID,
                     ev_SubjectID := subjectOfLocked m memberID, ev_Action := action,
                     ev_Detail := status_string status\<rparr>) m)))"

definition AuthzRemoveMember :: "Call \<Rightarrow> uuid \<Rightarrow> uuid \<Rightarrow> string \<Rightarrow> OwnerGuard \<Rightarrow> unit aprog" where
  "AuthzRemoveMember c orgID memberID action guard m =
     (case map_of (ma_memberships m) memberID of
        None \<Rightarrow> refuse orgs_not_found m
      | Some ms \<Rightarrow>
          if ms_OrganizationID ms \<noteq> orgID then refuse orgs_not_found m
          else (case applyOwnerGuardLocked m orgID memberID guard of
              Inl e \<Rightarrow> refuse e m
            | Inr _ \<Rightarrow>
                let m = recordLocked c (no_event\<lparr>ev_OrganizationID := Some orgID,
                      ev_SubjectID := subjectOfLocked m memberID, ev_Action := action\<rparr>) m
                in ok () (m\<lparr>ma_memberships := AList.delete memberID (ma_memberships m),
                            ma_memberRoles := AList.delete memberID (ma_memberRoles m)\<rparr>)))"

definition AuthzReplaceMemberRoles :: "Call \<Rightarrow> uuid \<Rightarrow> uuid \<Rightarrow> uuid list \<Rightarrow> OwnerGuard \<Rightarrow> unit aprog" where
  "AuthzReplaceMemberRoles c orgID memberID roleIDs guard m =
     (case map_of (ma_memberships m) memberID of
        None \<Rightarrow> refuse orgs_not_found m
      | Some ms \<Rightarrow>
          if ms_OrganizationID ms \<noteq> orgID then refuse orgs_not_found m
          else (case applyOwnerGuardLocked m orgID memberID guard of
              Inl e \<Rightarrow> refuse e m
            | Inr _ \<Rightarrow>
                (case rolesBelongLocked m orgID roleIDs of
                   Inl e \<Rightarrow> refuse e m
                 | Inr _ \<Rightarrow>
                     let m = m\<lparr>ma_memberRoles := AList.update memberID (uniqueIDs roleIDs) (ma_memberRoles m)\<rparr>
                     in ok () (recordLocked c (no_event\<lparr>ev_OrganizationID := Some orgID,
                          ev_SubjectID := subjectOfLocked m memberID,
                          ev_Action := ActionMemberRolesChanged\<rparr>) m))))"

section \<open>\<open>orgs.Repository\<close>: roles\<close>

definition AuthzRoles :: "uuid \<Rightarrow> int \<Rightarrow> int \<Rightarrow> AuthzStore \<Rightarrow> err + RoleView list" where
  "AuthzRoles orgID limit offset m =
     (let out = map (roleLocked m) (filter (\<lambda>r. r_OrganizationID r = orgID) (avals (ma_roles m)))
      in page (sort_key (\<lambda>v. (\<not> r_IsSystem (rv_Role v), r_Key (rv_Role v))) out) limit offset)"

definition AuthzRole :: "uuid \<Rightarrow> uuid \<Rightarrow> AuthzStore \<Rightarrow> err + RoleView" where
  "AuthzRole orgID roleID m =
     (case map_of (ma_roles m) roleID of
        None \<Rightarrow> Inl orgs_not_found
      | Some role \<Rightarrow>
          if r_OrganizationID role \<noteq> orgID then Inl orgs_not_found else Inr (roleLocked m role))"

definition AuthzRoleByKey :: "uuid \<Rightarrow> string \<Rightarrow> AuthzStore \<Rightarrow> err + RoleView" where
  "AuthzRoleByKey orgID key m =
     (case List.find (\<lambda>r. r_OrganizationID r = orgID \<and> r_Key r = key) (avals (ma_roles m)) of
        None \<Rightarrow> Inl orgs_not_found
      | Some role \<Rightarrow> Inr (roleLocked m role))"

definition AuthzCreateRole :: "Call \<Rightarrow> uuid \<Rightarrow> Role \<Rightarrow> permission list \<Rightarrow> RoleView aprog" where
  "AuthzCreateRole c orgID role permissions m =
     (if \<exists>existing \<in> set (avals (ma_roles m)).
           r_OrganizationID existing = orgID \<and> r_Key existing = r_Key role
      then refuse (OrgsErr ErrRoleKeyTaken) m
      else
        let role = (if r_ID role = uuid_Nil then role\<lparr>r_ID := c_newID c (DrawRole 0)\<rparr> else role);
            stored = role\<lparr>r_OrganizationID := orgID\<rparr>;
            m = m\<lparr>ma_roles := AList.update (r_ID stored) stored (ma_roles m),
                  ma_rolePerms := AList.update (r_ID stored) (permissionStrings permissions) (ma_rolePerms m)\<rparr>;
            m = recordLocked c (no_event\<lparr>ev_OrganizationID := Some orgID,
                  ev_Action := ActionRoleCreated, ev_RoleID := Some (r_ID stored),
                  ev_Detail := r_Key stored\<rparr>) m
        in ok (roleLocked m stored) m)"

definition AuthzUpdateRole :: "Call \<Rightarrow> uuid \<Rightarrow> uuid \<Rightarrow> string \<Rightarrow> string \<Rightarrow> unit aprog" where
  "AuthzUpdateRole c orgID roleID name description m =
     (case map_of (ma_roles m) roleID of
        None \<Rightarrow> refuse orgs_not_found m
      | Some role \<Rightarrow>
          if r_OrganizationID role \<noteq> orgID \<or> r_IsSystem role then refuse orgs_not_found m
          else
            let m = m\<lparr>ma_roles := AList.update roleID
                  (role\<lparr>r_Name := name, r_Description := description\<rparr>) (ma_roles m)\<rparr>
            in ok () (recordLocked c (no_event\<lparr>ev_OrganizationID := Some orgID,
                 ev_Action := ActionRoleUpdated, ev_RoleID := Some roleID, ev_Detail := name\<rparr>) m))"

definition AuthzDeleteRole :: "Call \<Rightarrow> uuid \<Rightarrow> uuid \<Rightarrow> RoleGuard \<Rightarrow> unit aprog" where
  "AuthzDeleteRole c orgID roleID guard m =
     (case map_of (ma_roles m) roleID of
        None \<Rightarrow> refuse orgs_not_found m
      | Some role \<Rightarrow>
          if r_OrganizationID role \<noteq> orgID then refuse orgs_not_found m
          else (case guard (holder_count m roleID) of
              Inl e \<Rightarrow> refuse e m
            | Inr _ \<Rightarrow>
                (case RoleRefuseDelete role of
                   Inl e \<Rightarrow> refuse e m
                 | Inr _ \<Rightarrow>
                     let m = recordLocked c (no_event\<lparr>ev_OrganizationID := Some orgID,
                           ev_Action := ActionRoleDeleted, ev_RoleID := Some roleID,
                           ev_Detail := r_Key role\<rparr>) m
                     in ok () (m\<lparr>ma_roles := AList.delete roleID (ma_roles m),
                          ma_rolePerms := AList.delete roleID (ma_rolePerms m),
                          ma_memberRoles := map (\<lambda>(memberID, assigned).
                            (memberID, filter (\<lambda>assignedID. assignedID \<noteq> roleID) assigned))
                            (ma_memberRoles m)\<rparr>))))"

definition AuthzReplaceRolePermissions :: "Call \<Rightarrow> uuid \<Rightarrow> uuid \<Rightarrow> permission list \<Rightarrow> unit aprog" where
  "AuthzReplaceRolePermissions c orgID roleID permissions m =
     (case map_of (ma_roles m) roleID of
        None \<Rightarrow> refuse orgs_not_found m
      | Some role \<Rightarrow>
          if r_OrganizationID role \<noteq> orgID then refuse orgs_not_found m
          else
            let m = m\<lparr>ma_rolePerms := AList.update roleID (permissionStrings permissions) (ma_rolePerms m)\<rparr>
            in ok () (recordLocked c (no_event\<lparr>ev_OrganizationID := Some orgID,
                 ev_Action := ActionRolePermissionsChanged, ev_RoleID := Some roleID\<rparr>) m))"

section \<open>\<open>orgs.Provisioner\<close>\<close>

definition AuthzOrganizationBySlug :: "string \<Rightarrow> AuthzStore \<Rightarrow> err + Organization" where
  "AuthzOrganizationBySlug slug m =
     (case List.find (\<lambda>org. org_Slug org = slug \<and> \<not> OrganizationIsDeleted org) (avals (ma_orgs m)) of
        None \<Rightarrow> Inl orgs_not_found
      | Some org \<Rightarrow> Inr org)"

text \<open>The loop that materialises the shipped roles; the \<open>i\<close>-th role draws its own identifier.\<close>

fun materialise_roles :: "Call \<Rightarrow> uuid \<Rightarrow> nat \<Rightarrow> RoleDefinition list \<Rightarrow> AuthzStore \<Rightarrow> AuthzStore" where
  "materialise_roles c orgID i [] m = m"
| "materialise_roles c orgID i (def # defs) m =
     (let roleID = c_newID c (DrawRole i)
      in materialise_roles c orgID (Suc i) defs
        (m\<lparr>ma_roles := AList.update roleID
             \<lparr>r_ID = roleID, r_OrganizationID = orgID, r_Key = rd_Key def, r_Name = rd_Name def,
              r_Description = rd_Description def, r_IsSystem = True\<rparr> (ma_roles m),
           ma_rolePerms := AList.update roleID (permissionStrings (rd_Permissions def)) (ma_rolePerms m)\<rparr>))"

definition AuthzCreateOrganization ::
    "Call \<Rightarrow> Organization \<Rightarrow> RoleDefinition list \<Rightarrow> Organization aprog" where
  "AuthzCreateOrganization c org roles m =
     (if \<exists>existing \<in> set (avals (ma_orgs m)).
           org_Slug existing = org_Slug org \<and> \<not> OrganizationIsDeleted existing
      then refuse (OrgsErr ErrSlugTaken) m
      else
        let org = (if org_ID org = uuid_Nil then org\<lparr>org_ID := c_newID c DrawOrganization\<rparr> else org);
            m = m\<lparr>ma_orgs := AList.update (org_ID org) org (ma_orgs m)\<rparr>;
            m = recordLocked c (no_event\<lparr>ev_OrganizationID := Some (org_ID org),
                  ev_Action := ActionOrganizationCreated, ev_Detail := org_Slug org\<rparr>) m
        in ok org (materialise_roles c (org_ID org) 0 roles m))"

definition AuthzAllOrganizations ::
    "OrganizationFilter \<Rightarrow> int \<Rightarrow> int \<Rightarrow> AuthzStore \<Rightarrow> err + OrganizationSummary list" where
  "AuthzAllOrganizations flt limit offset m =
     (let live = filter (\<lambda>org. \<not> OrganizationIsDeleted org \<and>
            \<not> (of_WithoutOwner flt \<and> 0 < ownerCountLocked m (org_ID org))) (avals (ma_orgs m));
          out = map (\<lambda>org. \<lparr>os_Organization = org, os_Owners = ownerCountLocked m (org_ID org)\<rparr>) live
      in page (rev (sort_key (\<lambda>summary. org_ID (os_Organization summary)) out)) limit offset)"

definition AuthzGrantSystemRole :: "Call \<Rightarrow> uuid \<Rightarrow> role_key \<Rightarrow> uuid \<Rightarrow> unit aprog" where
  "AuthzGrantSystemRole c userID key grantedBy m =
     (if key \<in> set (alist_at (ma_systemRoles m) userID) then ok () m
      else
        let m = m\<lparr>ma_systemRoles := AList.update userID (alist_at (ma_systemRoles m) userID @ [key])
                    (ma_systemRoles m),
                  ma_systemGrants := AList.update (userID, key)
                    \<lparr>sg_by = grantedBy, sg_at = c_now c ClockRow\<rparr> (ma_systemGrants m)\<rparr>
        in ok () (recordLocked c (no_event\<lparr>ev_SubjectID := Some userID,
             ev_Action := ActionSystemRoleGranted, ev_Detail := key\<rparr>) m))"

definition AuthzRevokeSystemRole :: "Call \<Rightarrow> uuid \<Rightarrow> role_key \<Rightarrow> unit aprog" where
  "AuthzRevokeSystemRole c userID key m =
     (let held = alist_at (ma_systemRoles m) userID in
      if key \<notin> set held then ok () m
      else
        let m = m\<lparr>ma_systemRoles := AList.update userID (filter (\<lambda>k. k \<noteq> key) held) (ma_systemRoles m),
                  ma_systemGrants := AList.delete (userID, key) (ma_systemGrants m)\<rparr>
        in ok () (recordLocked c (no_event\<lparr>ev_SubjectID := Some userID,
             ev_Action := ActionSystemRoleRevoked, ev_Detail := key\<rparr>) m))"

definition holder_of :: "AuthzStore \<Rightarrow> uuid \<Rightarrow> string \<Rightarrow> SystemRoleHolder" where
  "holder_of m userID key =
     (let g = map_of (ma_systemGrants m) (userID, key); account = lookup_account m userID
      in \<lparr>sh_UserID = userID,
          sh_Name = (case account of None \<Rightarrow> [] | Some u \<Rightarrow> u_Name u),
          sh_Email = (case account of None \<Rightarrow> [] | Some u \<Rightarrow> u_Email u),
          sh_RoleKey = key,
          sh_GrantedBy = (case g of None \<Rightarrow> None | Some g \<Rightarrow>
             if sg_by g \<noteq> uuid_Nil then Some (sg_by g) else None),
          sh_GrantedAt = (case g of None \<Rightarrow> zero_time | Some g \<Rightarrow> sg_at g)\<rparr>)"

definition AuthzSystemRoleHolders :: "AuthzStore \<Rightarrow> err + SystemRoleHolder list" where
  "AuthzSystemRoleHolders m =
     Inr (sort_key (\<lambda>h. (sh_Name h, sh_RoleKey h))
       (concat (map (\<lambda>(userID, keys).
          if accountIDDeletedLocked m userID then [] else map (holder_of m userID) keys)
          (ma_systemRoles m))))"

section \<open>Invitations\<close>

definition no_organization :: Organization where
  "no_organization =
     \<lparr>org_ID = uuid_Nil, org_DeletedAt = None, org_IsProtected = False, org_Slug = [], org_Name = []\<rparr>"

definition invitationLocked :: "AuthzStore \<Rightarrow> Invitation \<Rightarrow> InvitationView" where
  "invitationLocked m i =
     \<lparr>iv_ID = inv_ID i,
      iv_Organization = (case map_of (ma_orgs m) (inv_OrganizationID i) of
         None \<Rightarrow> no_organization | Some org \<Rightarrow> org),
      iv_Email = inv_Email i, iv_InvitedBy = inv_InvitedBy i, iv_ExpiresAt = inv_ExpiresAt i,
      iv_RoleKeys = sort (map r_Key
        (List.map_filter (map_of (ma_roles m)) (alist_at (ma_inviteRoles m) (inv_ID i))))\<rparr>"

definition AuthzInviteMember ::
    "Call \<Rightarrow> uuid \<Rightarrow> string \<Rightarrow> string \<Rightarrow> uuid list \<Rightarrow> uuid \<Rightarrow> time \<Rightarrow> time \<Rightarrow> InvitationView aprog" where
  "AuthzInviteMember c orgID email tokenHash roleIDs invitedBy expiresAt at m =
     (if \<exists>ms \<in> set (avals (ma_memberships m)).
           \<not> (ms_OrganizationID ms \<noteq> orgID \<or> accountDeletedLocked m ms) \<and>
           emailOfLocked c m (ms_UserID ms) = email
      then refuse (OrgsErr ErrAlreadyMember) m
      else if \<exists>existing \<in> set (avals (ma_invitations m)).
           inv_OrganizationID existing = orgID \<and> inv_Email existing = email \<and> inv_AcceptedAt existing = None
      then refuse (OrgsErr ErrAlreadyMember) m
      else (case rolesBelongLocked m orgID roleIDs of
          Inl e \<Rightarrow> refuse e m
        | Inr _ \<Rightarrow>
            let i = \<lparr>inv_ID = c_newID c DrawInvitation,
                     inv_CreatedAt = (if at \<noteq> zero_time then at else zero_time),
                     inv_OrganizationID = orgID, inv_Email = email, inv_TokenHash = tokenHash,
                     inv_InvitedBy = (if invitedBy \<noteq> uuid_Nil then Some invitedBy else None),
                     inv_ExpiresAt = expiresAt, inv_AcceptedAt = None\<rparr>;
                m = m\<lparr>ma_invitations := AList.update (inv_ID i) i (ma_invitations m),
                      ma_inviteRoles := AList.update (inv_ID i) (uniqueIDs roleIDs) (ma_inviteRoles m)\<rparr>;
                m = recordLocked c (no_event\<lparr>ev_OrganizationID := Some orgID,
                      ev_Action := ActionMemberInvited, ev_Detail := email\<rparr>) m
            in ok (invitationLocked m i) m))"

definition AuthzInvitationByToken :: "string \<Rightarrow> time \<Rightarrow> AuthzStore \<Rightarrow> err + InvitationView" where
  "AuthzInvitationByToken tokenHash now m =
     (case List.find (\<lambda>i. \<not> (inv_TokenHash i \<noteq> tokenHash \<or> inv_AcceptedAt i \<noteq> None) \<and>
                           live_org m (inv_OrganizationID i) \<and>
                           \<not> (now \<noteq> zero_time \<and> \<not> now < inv_ExpiresAt i)) (avals (ma_invitations m)) of
        None \<Rightarrow> Inl orgs_not_found
      | Some i \<Rightarrow> Inr (invitationLocked m i))"

definition AuthzInvitationsForEmail :: "string \<Rightarrow> time \<Rightarrow> AuthzStore \<Rightarrow> err + InvitationView list" where
  "AuthzInvitationsForEmail email now m =
     Inr (sort_key (\<lambda>v. - iv_ExpiresAt v) (map (invitationLocked m)
       (filter (\<lambda>i. \<not> (inv_Email i \<noteq> email \<or> inv_AcceptedAt i \<noteq> None) \<and>
                     live_org m (inv_OrganizationID i) \<and> now < inv_ExpiresAt i) (avals (ma_invitations m)))))"

definition AuthzInvitationsForOrganization :: "uuid \<Rightarrow> time \<Rightarrow> AuthzStore \<Rightarrow> err + InvitationView list" where
  "AuthzInvitationsForOrganization orgID now m =
     Inr (sort_key (\<lambda>v. - iv_ExpiresAt v) (map (invitationLocked m)
       (filter (\<lambda>i. \<not> (inv_OrganizationID i \<noteq> orgID \<or> inv_AcceptedAt i \<noteq> None) \<and>
                     now < inv_ExpiresAt i) (avals (ma_invitations m)))))"

definition AuthzAcceptInvitation :: "Call \<Rightarrow> uuid \<Rightarrow> uuid \<Rightarrow> time \<Rightarrow> unit aprog" where
  "AuthzAcceptInvitation c invitationID userID at m =
     (case map_of (ma_invitations m) invitationID of
        None \<Rightarrow> refuse orgs_not_found m
      | Some i \<Rightarrow>
          if inv_AcceptedAt i \<noteq> None then refuse orgs_not_found m
          else if \<not> live_org m (inv_OrganizationID i) then refuse orgs_not_found m
          else if \<exists>existing \<in> set (avals (ma_memberships m)).
                 ms_OrganizationID existing = inv_OrganizationID i \<and> ms_UserID existing = userID
          then refuse (OrgsErr ErrAlreadyMember) m
          else
            let memberID = c_newID c DrawMembership;
                ms = MembershipActivate at
                  \<lparr>ms_ID = memberID, ms_UserID = userID, ms_OrganizationID = inv_OrganizationID i,
                   ms_Status = MembershipActive, ms_InvitedBy = inv_InvitedBy i, ms_JoinedAt = None\<rparr>;
                m = m\<lparr>ma_memberships := AList.update memberID ms (ma_memberships m),
                      ma_memberRoles := AList.update memberID
                        (alist_at (ma_inviteRoles m) invitationID) (ma_memberRoles m),
                      ma_invitations := AList.update invitationID
                        (i\<lparr>inv_AcceptedAt := Some at\<rparr>) (ma_invitations m)\<rparr>
            in ok () (recordLocked c (no_event\<lparr>ev_OrganizationID := Some (inv_OrganizationID i),
                 ev_SubjectID := Some userID, ev_Action := ActionMemberAccepted\<rparr>) m))"

text \<open>The removal \<open>DeclineInvitation\<close> and \<open>WithdrawInvitation\<close> end with.\<close>

definition drop_invitation :: "uuid \<Rightarrow> AuthzStore \<Rightarrow> AuthzStore" where
  "drop_invitation invitationID m =
     m\<lparr>ma_invitations := AList.delete invitationID (ma_invitations m),
       ma_inviteRoles := AList.delete invitationID (ma_inviteRoles m)\<rparr>"

definition AuthzDeclineInvitation :: "Call \<Rightarrow> uuid \<Rightarrow> unit aprog" where
  "AuthzDeclineInvitation c invitationID m =
     (case map_of (ma_invitations m) invitationID of
        None \<Rightarrow> refuse orgs_not_found m
      | Some i \<Rightarrow>
          if inv_AcceptedAt i \<noteq> None then refuse orgs_not_found m
          else ok () (drop_invitation invitationID
            (recordLocked c (no_event\<lparr>ev_OrganizationID := Some (inv_OrganizationID i),
               ev_Action := ActionMemberInvitationDeclined, ev_Detail := inv_Email i\<rparr>) m)))"

definition AuthzWithdrawInvitation :: "Call \<Rightarrow> uuid \<Rightarrow> uuid \<Rightarrow> unit aprog" where
  "AuthzWithdrawInvitation c orgID invitationID m =
     (case map_of (ma_invitations m) invitationID of
        None \<Rightarrow> refuse orgs_not_found m
      | Some i \<Rightarrow>
          if inv_OrganizationID i \<noteq> orgID \<or> inv_AcceptedAt i \<noteq> None then refuse orgs_not_found m
          else ok () (drop_invitation invitationID
            (recordLocked c (no_event\<lparr>ev_OrganizationID := Some orgID,
               ev_Action := ActionMemberInvitationWithdrawn, ev_Detail := inv_Email i\<rparr>) m)))"

definition AuthzReissueInvitation ::
    "Call \<Rightarrow> uuid \<Rightarrow> uuid \<Rightarrow> string \<Rightarrow> time \<Rightarrow> InvitationView aprog" where
  "AuthzReissueInvitation c orgID invitationID tokenHash expiresAt m =
     (case map_of (ma_invitations m) invitationID of
        None \<Rightarrow> refuse orgs_not_found m
      | Some i \<Rightarrow>
          if inv_OrganizationID i \<noteq> orgID \<or> inv_AcceptedAt i \<noteq> None then refuse orgs_not_found m
          else
            let i = i\<lparr>inv_TokenHash := tokenHash, inv_ExpiresAt := expiresAt\<rparr>;
                m = m\<lparr>ma_invitations := AList.update invitationID i (ma_invitations m)\<rparr>;
                m = recordLocked c (no_event\<lparr>ev_OrganizationID := Some orgID,
                      ev_Action := ActionMemberInvited, ev_Detail := inv_Email i\<rparr>) m
            in ok (invitationLocked m i) m)"

section \<open>\<open>audit.Reader\<close> and \<open>audit.PlatformReader\<close>\<close>

record Party =
  pt_ID :: uuid
  pt_Name :: string
  pt_Email :: string

record AuditEvent =
  ae_ID :: uuid
  ae_At :: time
  ae_OrganizationID :: "uuid option"
  ae_Action :: string
  ae_Actor :: Party
  ae_Subject :: "Party option"
  ae_RoleID :: "uuid option"
  ae_RoleKey :: string
  ae_Detail :: string
  ae_IP :: string
  ae_UserAgent :: string

definition read_event :: "AuthzStore \<Rightarrow> AuthzEvent \<Rightarrow> AuditEvent" where
  "read_event m row =
     \<lparr>ae_ID = ev_ID row, ae_At = ev_CreatedAt row, ae_OrganizationID = ev_OrganizationID row,
      ae_Action = ev_Action row,
      ae_Actor = (case lookup_account m (ev_ActorID row) of
         None \<Rightarrow> \<lparr>pt_ID = ev_ActorID row, pt_Name = [], pt_Email = []\<rparr>
       | Some u \<Rightarrow> \<lparr>pt_ID = ev_ActorID row, pt_Name = u_Name u, pt_Email = u_Email u\<rparr>),
      ae_Subject = map_option (\<lambda>subjectID. \<lparr>pt_ID = subjectID, pt_Name = [], pt_Email = []\<rparr>)
        (ev_SubjectID row),
      ae_RoleID = ev_RoleID row,
      ae_RoleKey = (case ev_RoleID row of None \<Rightarrow> [] | Some roleID \<Rightarrow>
         (case map_of (ma_roles m) roleID of None \<Rightarrow> [] | Some role \<Rightarrow> r_Key role)),
      ae_Detail = ev_Detail row, ae_IP = ev_IP row, ae_UserAgent = ev_UserAgent row\<rparr>"

definition readEventsLocked :: "AuthzStore \<Rightarrow> (AuthzEvent \<Rightarrow> bool) \<Rightarrow> int \<Rightarrow> int \<Rightarrow> err + AuditEvent list" where
  "readEventsLocked m keep limit offset =
     (let out = map (read_event m) (filter keep (rev (ma_events m))) in
      if int (length out) \<le> offset then Inr []
      else if offset < 0 then Inl GoPanic
      else let out = drop (nat offset) out in
        if 0 < limit \<and> limit < int (length out) then Inr (take (nat limit) out) else Inr out)"

definition AuthzEvents :: "uuid \<Rightarrow> int \<Rightarrow> int \<Rightarrow> AuthzStore \<Rightarrow> err + AuditEvent list" where
  "AuthzEvents orgID limit offset m =
     readEventsLocked m (\<lambda>e. ev_OrganizationID e = Some orgID) limit offset"

definition AuthzAllEvents :: "int \<Rightarrow> int \<Rightarrow> AuthzStore \<Rightarrow> err + AuditEvent list" where
  "AuthzAllEvents limit offset m = readEventsLocked m (\<lambda>_. True) limit offset"

end
