(* ===== verification/Authz_Wf.thy ===== *)
theory Authz_Wf
  imports Memory_Authz
begin

text \<open>
  The well-formedness of the authorization store of
  \<open>internal/store/repositories/memory/authz.go\<close>, and that each of its atomic operations keeps
  it. What the database states as unique indexes and foreign keys
  (one membership per account and organization, one role per key and organization, one live
  organization per slug, roles assigned inside their own organization) is here an invariant of
  the maps; nothing in the code states it for the in-memory store, so it is proved.
\<close>

section \<open>The invariant\<close>

definition tables_ok :: "AuthzStore \<Rightarrow> bool" where
  "tables_ok m \<longleftrightarrow>
     rows_ok org_ID (ma_orgs m) \<and> rows_ok ms_ID (ma_memberships m) \<and> rows_ok r_ID (ma_roles m) \<and>
     rows_ok inv_ID (ma_invitations m) \<and> adistinct (ma_rolePerms m) \<and> adistinct (ma_memberRoles m) \<and>
     adistinct (ma_inviteRoles m) \<and> adistinct (ma_systemRoles m) \<and> adistinct (ma_systemGrants m)"

definition unique_memberships :: "AuthzStore \<Rightarrow> bool" where
  "unique_memberships m \<longleftrightarrow>
     (\<forall>j k a b. map_of (ma_memberships m) j = Some a \<longrightarrow> map_of (ma_memberships m) k = Some b \<longrightarrow>
        ms_OrganizationID a = ms_OrganizationID b \<longrightarrow> ms_UserID a = ms_UserID b \<longrightarrow> j = k)"

definition unique_role_keys :: "AuthzStore \<Rightarrow> bool" where
  "unique_role_keys m \<longleftrightarrow>
     (\<forall>j k a b. map_of (ma_roles m) j = Some a \<longrightarrow> map_of (ma_roles m) k = Some b \<longrightarrow>
        r_OrganizationID a = r_OrganizationID b \<longrightarrow> r_Key a = r_Key b \<longrightarrow> j = k)"

definition unique_slugs :: "AuthzStore \<Rightarrow> bool" where
  "unique_slugs m \<longleftrightarrow>
     (\<forall>j k a b. map_of (ma_orgs m) j = Some a \<longrightarrow> map_of (ma_orgs m) k = Some b \<longrightarrow>
        \<not> OrganizationIsDeleted a \<longrightarrow> \<not> OrganizationIsDeleted b \<longrightarrow> org_Slug a = org_Slug b \<longrightarrow> j = k)"

definition unique_invitations :: "AuthzStore \<Rightarrow> bool" where
  "unique_invitations m \<longleftrightarrow>
     (\<forall>j k a b. map_of (ma_invitations m) j = Some a \<longrightarrow> map_of (ma_invitations m) k = Some b \<longrightarrow>
        inv_AcceptedAt a = None \<longrightarrow> inv_AcceptedAt b = None \<longrightarrow>
        inv_OrganizationID a = inv_OrganizationID b \<longrightarrow> inv_Email a = inv_Email b \<longrightarrow> j = k)"

text \<open>A role some list names either no longer exists or is one of that organization.\<close>

definition roles_of_org :: "AuthzStore \<Rightarrow> uuid \<Rightarrow> uuid list \<Rightarrow> bool" where
  "roles_of_org m orgID ids \<longleftrightarrow>
     (\<forall>rid \<in> set ids. \<forall>role. map_of (ma_roles m) rid = Some role \<longrightarrow> r_OrganizationID role = orgID)"

definition member_roles_ok :: "AuthzStore \<Rightarrow> bool" where
  "member_roles_ok m \<longleftrightarrow>
     (\<forall>k ms. map_of (ma_memberships m) k = Some ms \<longrightarrow>
        roles_of_org m (ms_OrganizationID ms) (alist_at (ma_memberRoles m) k))"

definition invite_roles_ok :: "AuthzStore \<Rightarrow> bool" where
  "invite_roles_ok m \<longleftrightarrow>
     (\<forall>k i. map_of (ma_invitations m) k = Some i \<longrightarrow>
        roles_of_org m (inv_OrganizationID i) (alist_at (ma_inviteRoles m) k))"

definition is_owner_role :: "AuthzStore \<Rightarrow> uuid \<Rightarrow> uuid \<Rightarrow> bool" where
  "is_owner_role m orgID rid \<longleftrightarrow>
     (\<exists>role. map_of (ma_roles m) rid = Some role \<and> r_OrganizationID role = orgID \<and>
        r_Key role = RoleOwner)"

text \<open>Every organization has the owner role, and it is a shipped one.\<close>

definition owner_roles_ok :: "AuthzStore \<Rightarrow> bool" where
  "owner_roles_ok m \<longleftrightarrow>
     (\<forall>k org. map_of (ma_orgs m) k = Some org \<longrightarrow>
        (\<exists>rid role. map_of (ma_roles m) rid = Some role \<and> r_OrganizationID role = k \<and>
           r_Key role = RoleOwner \<and> r_IsSystem role))"

definition authz_wf :: "AuthzStore \<Rightarrow> bool" where
  "authz_wf m \<longleftrightarrow>
     tables_ok m \<and> unique_memberships m \<and> unique_role_keys m \<and> unique_slugs m \<and>
     unique_invitations m \<and> member_roles_ok m \<and> invite_roles_ok m \<and> owner_roles_ok m"

lemmas wf_defs = tables_ok_def unique_memberships_def unique_role_keys_def unique_slugs_def
  unique_invitations_def roles_of_org_def member_roles_ok_def invite_roles_ok_def owner_roles_ok_def

lemma authz_wfI:
  "tables_ok m \<Longrightarrow> unique_memberships m \<Longrightarrow> unique_role_keys m \<Longrightarrow> unique_slugs m \<Longrightarrow>
   unique_invitations m \<Longrightarrow> member_roles_ok m \<Longrightarrow> invite_roles_ok m \<Longrightarrow> owner_roles_ok m \<Longrightarrow> authz_wf m"
  by (simp add: authz_wf_def)

lemma authz_wfD:
  assumes "authz_wf m"
  shows "tables_ok m" "unique_memberships m" "unique_role_keys m" "unique_slugs m"
    "unique_invitations m" "member_roles_ok m" "invite_roles_ok m" "owner_roles_ok m"
  using assms by (simp_all add: authz_wf_def)

lemma authz_wf_tables:
  assumes "authz_wf m"
  shows "rows_ok org_ID (ma_orgs m)" "rows_ok ms_ID (ma_memberships m)" "rows_ok r_ID (ma_roles m)"
    "rows_ok inv_ID (ma_invitations m)"
  using assms by (simp_all add: authz_wf_def tables_ok_def)

lemma authz_wf_new: "authz_wf (NewAuthz users)"
  by (simp add: authz_wf_def wf_defs NewAuthz_def)

section \<open>Recording changes nothing but the trail\<close>

lemma recordLocked_sel [simp]:
  "ma_users (recordLocked c e m) = ma_users m"
  "ma_orgs (recordLocked c e m) = ma_orgs m"
  "ma_memberships (recordLocked c e m) = ma_memberships m"
  "ma_roles (recordLocked c e m) = ma_roles m"
  "ma_rolePerms (recordLocked c e m) = ma_rolePerms m"
  "ma_memberRoles (recordLocked c e m) = ma_memberRoles m"
  "ma_systemRoles (recordLocked c e m) = ma_systemRoles m"
  "ma_deletedUsers (recordLocked c e m) = ma_deletedUsers m"
  "ma_invitations (recordLocked c e m) = ma_invitations m"
  "ma_systemGrants (recordLocked c e m) = ma_systemGrants m"
  "ma_inviteRoles (recordLocked c e m) = ma_inviteRoles m"
  by (simp_all add: recordLocked_def Let_def)

lemma authz_wf_record [simp]: "authz_wf (recordLocked c e m) = authz_wf m"
  by (simp add: authz_wf_def wf_defs)

lemma authz_wf_system:
  "authz_wf m \<Longrightarrow> adistinct sys \<Longrightarrow> adistinct gr \<Longrightarrow>
     authz_wf (m\<lparr>ma_systemRoles := sys, ma_systemGrants := gr\<rparr>)"
  by (simp add: authz_wf_def wf_defs)

section \<open>The elementary updates\<close>

lemma wf_org_update:
  assumes wf: "authz_wf m" and org: "map_of (ma_orgs m) k = Some org"
    and new: "org_ID org' = k" "org_Slug org' = org_Slug org"
      "OrganizationIsDeleted org \<Longrightarrow> OrganizationIsDeleted org'"
  shows "authz_wf (m\<lparr>ma_orgs := AList.update k org' (ma_orgs m)\<rparr>)"
proof (rule authz_wfI)
  let ?m = "m\<lparr>ma_orgs := AList.update k org' (ma_orgs m)\<rparr>"
  note wf = authz_wfD[OF wf]
  show "tables_ok ?m" using wf(1) new(1) by (auto simp: tables_ok_def)
  show "unique_slugs ?m" using wf(4) org new
    by (auto simp: unique_slugs_def amap_simps split: if_splits)
  show "owner_roles_ok ?m" using wf(8) org by (auto simp: owner_roles_ok_def amap_simps)
qed (use authz_wfD[OF wf] in \<open>simp_all add: wf_defs\<close>)

lemma wf_membership_update:
  assumes wf: "authz_wf m" and ms: "map_of (ma_memberships m) k = Some ms"
    and new: "ms_ID ms' = k" "ms_OrganizationID ms' = ms_OrganizationID ms" "ms_UserID ms' = ms_UserID ms"
  shows "authz_wf (m\<lparr>ma_memberships := AList.update k ms' (ma_memberships m)\<rparr>)"
proof (rule authz_wfI)
  let ?m = "m\<lparr>ma_memberships := AList.update k ms' (ma_memberships m)\<rparr>"
  note wf = authz_wfD[OF wf]
  show "tables_ok ?m" using wf(1) new(1) by (auto simp: tables_ok_def)
  show "unique_memberships ?m"
    unfolding unique_memberships_def
  proof (intro allI impI)
    fix i j a b
    assume *: "map_of (ma_memberships ?m) i = Some a" "map_of (ma_memberships ?m) j = Some b"
      "ms_OrganizationID a = ms_OrganizationID b" "ms_UserID a = ms_UserID b"
    from * ms new obtain a' b' where "map_of (ma_memberships m) i = Some a'"
      "map_of (ma_memberships m) j = Some b'"
      "ms_OrganizationID a' = ms_OrganizationID b'" "ms_UserID a' = ms_UserID b'"
      by (auto simp: amap_simps split: if_splits)
    then show "i = j" using wf(2) unfolding unique_memberships_def by blast
  qed
  show "member_roles_ok ?m" using wf(6) ms new
    by (auto simp: member_roles_ok_def roles_of_org_def amap_simps)
qed (use authz_wfD[OF wf] in \<open>simp_all add: wf_defs\<close>)

lemma wf_add_member:
  assumes wf: "authz_wf m" and fresh: "map_of (ma_memberships m) k = None"
    and new: "ms_ID ms = k"
      "\<And>j a. map_of (ma_memberships m) j = Some a \<Longrightarrow> ms_OrganizationID a = ms_OrganizationID ms \<Longrightarrow>
         ms_UserID a \<noteq> ms_UserID ms"
    and ids: "roles_of_org m (ms_OrganizationID ms) ids"
  shows "authz_wf (m\<lparr>ma_memberships := AList.update k ms (ma_memberships m),
                    ma_memberRoles := AList.update k ids (ma_memberRoles m)\<rparr>)"
proof (rule authz_wfI)
  let ?m = "m\<lparr>ma_memberships := AList.update k ms (ma_memberships m),
              ma_memberRoles := AList.update k ids (ma_memberRoles m)\<rparr>"
  note wf = authz_wfD[OF wf]
  show "tables_ok ?m" using wf(1) new(1) by (auto simp: tables_ok_def distinct_update)
  show "unique_memberships ?m"
    unfolding unique_memberships_def
  proof (intro allI impI)
    fix i j a b
    assume *: "map_of (ma_memberships ?m) i = Some a" "map_of (ma_memberships ?m) j = Some b"
      "ms_OrganizationID a = ms_OrganizationID b" "ms_UserID a = ms_UserID b"
    show "i = j"
    proof (cases "i = k \<or> j = k")
      case True
      then show ?thesis using * new(2)[of i a] new(2)[of j b] by (auto simp: amap_simps split: if_splits)
    next
      case False
      then have "map_of (ma_memberships m) i = Some a" "map_of (ma_memberships m) j = Some b"
        using *(1,2) by (simp_all add: amap_simps)
      then show ?thesis using wf(2) *(3,4) unfolding unique_memberships_def by blast
    qed
  qed
  show "member_roles_ok ?m" using wf(6) ids
    by (auto simp: member_roles_ok_def roles_of_org_def amap_simps)
qed (use authz_wfD[OF wf] in \<open>simp_all add: wf_defs\<close>)

lemma wf_remove_member:
  assumes wf: "authz_wf m"
  shows "authz_wf (m\<lparr>ma_memberships := AList.delete k (ma_memberships m),
                    ma_memberRoles := AList.delete k (ma_memberRoles m)\<rparr>)"
proof (rule authz_wfI)
  let ?m = "m\<lparr>ma_memberships := AList.delete k (ma_memberships m),
              ma_memberRoles := AList.delete k (ma_memberRoles m)\<rparr>"
  note wf = authz_wfD[OF wf]
  show "tables_ok ?m" using wf(1) by (auto simp: tables_ok_def distinct_delete)
  show "unique_memberships ?m" using wf(2)
    by (simp add: unique_memberships_def amap_simps)
  show "member_roles_ok ?m" using wf(6)
    by (simp add: member_roles_ok_def roles_of_org_def amap_simps)
qed (use authz_wfD[OF wf] in \<open>simp_all add: wf_defs\<close>)

lemma wf_member_roles:
  assumes wf: "authz_wf m" and ms: "map_of (ma_memberships m) k = Some ms"
    and ids: "roles_of_org m (ms_OrganizationID ms) ids"
  shows "authz_wf (m\<lparr>ma_memberRoles := AList.update k ids (ma_memberRoles m)\<rparr>)"
proof (rule authz_wfI)
  let ?m = "m\<lparr>ma_memberRoles := AList.update k ids (ma_memberRoles m)\<rparr>"
  note wf = authz_wfD[OF wf]
  show "tables_ok ?m" using wf(1) by (auto simp: tables_ok_def distinct_update)
  show "member_roles_ok ?m" using wf(6) ms ids
    by (auto simp: member_roles_ok_def roles_of_org_def amap_simps)
qed (use authz_wfD[OF wf] in \<open>simp_all add: wf_defs\<close>)

lemma wf_role_update:
  assumes wf: "authz_wf m" and role: "map_of (ma_roles m) k = Some role"
    and new: "r_ID role' = k" "r_OrganizationID role' = r_OrganizationID role"
      "r_Key role' = r_Key role" "r_IsSystem role' = r_IsSystem role"
  shows "authz_wf (m\<lparr>ma_roles := AList.update k role' (ma_roles m)\<rparr>)"
proof (rule authz_wfI)
  let ?m = "m\<lparr>ma_roles := AList.update k role' (ma_roles m)\<rparr>"
  note wf = authz_wfD[OF wf]
  show "tables_ok ?m" using wf(1) new(1) by (auto simp: tables_ok_def)
  show "unique_role_keys ?m"
    unfolding unique_role_keys_def
  proof (intro allI impI)
    fix i j a b
    assume *: "map_of (ma_roles ?m) i = Some a" "map_of (ma_roles ?m) j = Some b"
      "r_OrganizationID a = r_OrganizationID b" "r_Key a = r_Key b"
    from * role new obtain a' b' where "map_of (ma_roles m) i = Some a'"
      "map_of (ma_roles m) j = Some b'"
      "r_OrganizationID a' = r_OrganizationID b'" "r_Key a' = r_Key b'"
      by (auto simp: amap_simps split: if_splits)
    then show "i = j" using wf(3) unfolding unique_role_keys_def by blast
  qed
  show "member_roles_ok ?m" using wf(6) role new
    by (auto simp: member_roles_ok_def roles_of_org_def amap_simps split: if_splits)
  show "invite_roles_ok ?m" using wf(7) role new
    by (auto simp: invite_roles_ok_def roles_of_org_def amap_simps split: if_splits)
  show "owner_roles_ok ?m"
    unfolding owner_roles_ok_def
  proof (intro allI impI)
    fix j org assume "map_of (ma_orgs ?m) j = Some org"
    then obtain rid r where r: "map_of (ma_roles m) rid = Some r" "r_OrganizationID r = j"
      "r_Key r = RoleOwner" "r_IsSystem r" using wf(8) by (auto simp: owner_roles_ok_def)
    show "\<exists>rid role. map_of (ma_roles ?m) rid = Some role \<and> r_OrganizationID role = j \<and>
        r_Key role = RoleOwner \<and> r_IsSystem role"
      using r role new by (intro exI[of _ rid]) (auto simp: amap_simps)
  qed
qed (use authz_wfD[OF wf] in \<open>simp_all add: wf_defs\<close>)

lemma wf_role_perms:
  assumes wf: "authz_wf m"
  shows "authz_wf (m\<lparr>ma_rolePerms := AList.update k ps (ma_rolePerms m)\<rparr>)"
  using assms by (simp add: authz_wf_def wf_defs distinct_update)

text \<open>An identifier no list and no table mentions yet.\<close>

definition fresh_role :: "AuthzStore \<Rightarrow> uuid \<Rightarrow> bool" where
  "fresh_role m rid \<longleftrightarrow>
     map_of (ma_roles m) rid = None \<and> (\<forall>k. rid \<notin> set (alist_at (ma_memberRoles m) k)) \<and>
     (\<forall>k. rid \<notin> set (alist_at (ma_inviteRoles m) k))"

lemma wf_role_add:
  assumes wf: "authz_wf m" and fresh: "fresh_role m k"
    and new: "r_ID role = k"
      "\<And>j a. map_of (ma_roles m) j = Some a \<Longrightarrow> r_OrganizationID a = r_OrganizationID role \<Longrightarrow>
         r_Key a \<noteq> r_Key role"
  shows "authz_wf (m\<lparr>ma_roles := AList.update k role (ma_roles m),
                    ma_rolePerms := AList.update k ps (ma_rolePerms m)\<rparr>)"
proof (rule authz_wfI)
  let ?m = "m\<lparr>ma_roles := AList.update k role (ma_roles m),
              ma_rolePerms := AList.update k ps (ma_rolePerms m)\<rparr>"
  note wf = authz_wfD[OF wf]
  show "tables_ok ?m" using wf(1) new(1) by (auto simp: tables_ok_def distinct_update)
  show "unique_role_keys ?m"
    unfolding unique_role_keys_def
  proof (intro allI impI)
    fix i j a b
    assume *: "map_of (ma_roles ?m) i = Some a" "map_of (ma_roles ?m) j = Some b"
      "r_OrganizationID a = r_OrganizationID b" "r_Key a = r_Key b"
    show "i = j"
    proof (cases "i = k \<or> j = k")
      case True
      then show ?thesis using * new(2)[of i a] new(2)[of j b] by (auto simp: amap_simps split: if_splits)
    next
      case False
      then have "map_of (ma_roles m) i = Some a" "map_of (ma_roles m) j = Some b"
        using *(1,2) by (simp_all add: amap_simps)
      then show ?thesis using wf(3) *(3,4) unfolding unique_role_keys_def by blast
    qed
  qed
  show "member_roles_ok ?m" using wf(6) fresh
    by (auto simp: member_roles_ok_def roles_of_org_def amap_simps fresh_role_def)
  show "invite_roles_ok ?m" using wf(7) fresh
    by (auto simp: invite_roles_ok_def roles_of_org_def amap_simps fresh_role_def)
  show "owner_roles_ok ?m"
    unfolding owner_roles_ok_def
  proof (intro allI impI)
    fix j org assume "map_of (ma_orgs ?m) j = Some org"
    then obtain rid r where r: "map_of (ma_roles m) rid = Some r" "r_OrganizationID r = j"
      "r_Key r = RoleOwner" "r_IsSystem r" using wf(8) by (auto simp: owner_roles_ok_def)
    moreover have "rid \<noteq> k" using r(1) fresh by (auto simp: fresh_role_def)
    ultimately show "\<exists>rid role. map_of (ma_roles ?m) rid = Some role \<and> r_OrganizationID role = j \<and>
        r_Key role = RoleOwner \<and> r_IsSystem role"
      by (intro exI[of _ rid]) (auto simp: amap_simps)
  qed
qed (use authz_wfD[OF wf] in \<open>simp_all add: wf_defs\<close>)

lemma map_of_map_value: "map_of (map (\<lambda>(k, v). (k, f v)) xs) j = map_option f (map_of xs j)"
  by (induction xs) auto

lemma map_fst_map_value [simp]: "map fst (map (\<lambda>(k, v). (k, f v)) xs) = map fst xs"
  by (induction xs) auto

lemma alist_at_map_filter:
  "alist_at (map (\<lambda>(k, ids). (k, filter P ids)) xs) j = filter P (alist_at xs j)"
  by (simp add: alist_at_def map_of_map_value split: option.splits)

lemma wf_role_delete:
  assumes wf: "authz_wf m" and role: "map_of (ma_roles m) k = Some role" "\<not> r_IsSystem role"
  shows "authz_wf (m\<lparr>ma_roles := AList.delete k (ma_roles m),
      ma_rolePerms := AList.delete k (ma_rolePerms m),
      ma_memberRoles := map (\<lambda>(memberID, assigned). (memberID, filter (\<lambda>a. a \<noteq> k) assigned))
        (ma_memberRoles m)\<rparr>)" (is "authz_wf ?m")
proof (rule authz_wfI)
  note wf = authz_wfD[OF wf]
  show "tables_ok ?m" using wf(1) by (auto simp: tables_ok_def distinct_delete simp del: map_map)
  show "unique_role_keys ?m" using wf(3) by (simp add: unique_role_keys_def amap_simps)
  show "member_roles_ok ?m" using wf(6)
    by (auto simp: member_roles_ok_def roles_of_org_def amap_simps alist_at_map_filter)
  show "invite_roles_ok ?m" using wf(7)
    by (auto simp: invite_roles_ok_def roles_of_org_def amap_simps)
  show "owner_roles_ok ?m"
    unfolding owner_roles_ok_def
  proof (intro allI impI)
    fix j org assume "map_of (ma_orgs ?m) j = Some org"
    then obtain rid r where r: "map_of (ma_roles m) rid = Some r" "r_OrganizationID r = j"
      "r_Key r = RoleOwner" "r_IsSystem r" using wf(8) by (auto simp: owner_roles_ok_def)
    moreover have "rid \<noteq> k" using r role by auto
    ultimately show "\<exists>rid role. map_of (ma_roles ?m) rid = Some role \<and> r_OrganizationID role = j \<and>
        r_Key role = RoleOwner \<and> r_IsSystem role"
      by (intro exI[of _ rid]) (auto simp: amap_simps)
  qed
qed (use authz_wfD[OF wf] in \<open>simp_all add: wf_defs\<close>)

lemma wf_invitation_update:
  assumes wf: "authz_wf m" and i: "map_of (ma_invitations m) k = Some i"
    and new: "inv_ID i' = k" "inv_OrganizationID i' = inv_OrganizationID i" "inv_Email i' = inv_Email i"
      "inv_AcceptedAt i' = None \<Longrightarrow> inv_AcceptedAt i = None"
  shows "authz_wf (m\<lparr>ma_invitations := AList.update k i' (ma_invitations m)\<rparr>)" (is "authz_wf ?m")
proof (rule authz_wfI)
  note wf = authz_wfD[OF wf]
  show "tables_ok ?m" using wf(1) new(1) by (auto simp: tables_ok_def)
  show "unique_invitations ?m"
    unfolding unique_invitations_def
  proof (intro allI impI)
    fix j l a b
    assume *: "map_of (ma_invitations ?m) j = Some a" "map_of (ma_invitations ?m) l = Some b"
      "inv_AcceptedAt a = None" "inv_AcceptedAt b = None"
      "inv_OrganizationID a = inv_OrganizationID b" "inv_Email a = inv_Email b"
    from * i new obtain a' b' where "map_of (ma_invitations m) j = Some a'"
      "map_of (ma_invitations m) l = Some b'" "inv_AcceptedAt a' = None" "inv_AcceptedAt b' = None"
      "inv_OrganizationID a' = inv_OrganizationID b'" "inv_Email a' = inv_Email b'"
      by (auto simp: amap_simps split: if_splits)
    then show "j = l" using wf(5) unfolding unique_invitations_def by blast
  qed
  show "invite_roles_ok ?m" using wf(7) i new
    by (auto simp: invite_roles_ok_def roles_of_org_def amap_simps)
qed (use authz_wfD[OF wf] in \<open>simp_all add: wf_defs\<close>)

lemma wf_invitation_add:
  assumes wf: "authz_wf m" and fresh: "map_of (ma_invitations m) k = None"
    and new: "inv_ID i = k"
      "\<And>j a. map_of (ma_invitations m) j = Some a \<Longrightarrow> inv_OrganizationID a = inv_OrganizationID i \<Longrightarrow>
         inv_AcceptedAt a = None \<Longrightarrow> inv_Email a \<noteq> inv_Email i"
    and ids: "roles_of_org m (inv_OrganizationID i) ids"
  shows "authz_wf (m\<lparr>ma_invitations := AList.update k i (ma_invitations m),
                    ma_inviteRoles := AList.update k ids (ma_inviteRoles m)\<rparr>)" (is "authz_wf ?m")
proof (rule authz_wfI)
  note wf = authz_wfD[OF wf]
  show "tables_ok ?m" using wf(1) new(1) by (auto simp: tables_ok_def distinct_update)
  show "unique_invitations ?m"
    unfolding unique_invitations_def
  proof (intro allI impI)
    fix j l a b
    assume *: "map_of (ma_invitations ?m) j = Some a" "map_of (ma_invitations ?m) l = Some b"
      "inv_AcceptedAt a = None" "inv_AcceptedAt b = None"
      "inv_OrganizationID a = inv_OrganizationID b" "inv_Email a = inv_Email b"
    show "j = l"
    proof (cases "j = k \<or> l = k")
      case True
      then show ?thesis using * new(2)[of j a] new(2)[of l b] by (auto simp: amap_simps split: if_splits)
    next
      case False
      then have "map_of (ma_invitations m) j = Some a" "map_of (ma_invitations m) l = Some b"
        using *(1,2) by (simp_all add: amap_simps)
      then show ?thesis using wf(5) *(3-6) unfolding unique_invitations_def by blast
    qed
  qed
  show "invite_roles_ok ?m" using wf(7) ids
    by (auto simp: invite_roles_ok_def roles_of_org_def amap_simps)
qed (use authz_wfD[OF wf] in \<open>simp_all add: wf_defs\<close>)

lemma wf_drop_invitation:
  assumes wf: "authz_wf m"
  shows "authz_wf (drop_invitation k m)" (is "authz_wf ?m")
proof (rule authz_wfI)
  note wf = authz_wfD[OF wf]
  show "tables_ok ?m" using wf(1) by (auto simp: tables_ok_def drop_invitation_def distinct_delete)
  show "unique_invitations ?m" using wf(5)
    by (simp add: unique_invitations_def amap_simps drop_invitation_def)
  show "invite_roles_ok ?m" using wf(7)
    by (simp add: invite_roles_ok_def roles_of_org_def amap_simps drop_invitation_def)
qed (use authz_wfD[OF wf] in \<open>simp_all add: wf_defs drop_invitation_def\<close>)

section \<open>A new organization and its roles\<close>

lemma wf_org_add:
  assumes wf: "authz_wf m" and fresh: "map_of (ma_orgs m) k = None"
    and new: "org_ID org = k" "\<And>j a. map_of (ma_orgs m) j = Some a \<Longrightarrow> \<not> OrganizationIsDeleted a \<Longrightarrow>
        org_Slug a \<noteq> org_Slug org"
    and owner: "map_of (ma_roles m) rid = Some role" "r_OrganizationID role = k"
      "r_Key role = RoleOwner" "r_IsSystem role"
  shows "authz_wf (m\<lparr>ma_orgs := AList.update k org (ma_orgs m)\<rparr>)" (is "authz_wf ?m")
proof (rule authz_wfI)
  note wf = authz_wfD[OF wf]
  show "tables_ok ?m" using wf(1) new(1) by (auto simp: tables_ok_def)
  show "unique_slugs ?m"
    unfolding unique_slugs_def
  proof (intro allI impI)
    fix i j a b
    assume *: "map_of (ma_orgs ?m) i = Some a" "map_of (ma_orgs ?m) j = Some b"
      "\<not> OrganizationIsDeleted a" "\<not> OrganizationIsDeleted b" "org_Slug a = org_Slug b"
    show "i = j"
    proof (cases "i = k \<or> j = k")
      case True
      then show ?thesis using * new(2)[of i a] new(2)[of j b] by (auto simp: amap_simps split: if_splits)
    next
      case False
      then have "map_of (ma_orgs m) i = Some a" "map_of (ma_orgs m) j = Some b"
        using *(1,2) by (simp_all add: amap_simps)
      then show ?thesis using wf(4) *(3-5) unfolding unique_slugs_def by blast
    qed
  qed
  show "owner_roles_ok ?m" using wf(8) owner by (auto simp: owner_roles_ok_def amap_simps)
qed (use authz_wfD[OF wf] in \<open>simp_all add: wf_defs\<close>)

lemma materialise_sel [simp]:
  "ma_users (materialise_roles c orgID i defs m) = ma_users m"
  "ma_orgs (materialise_roles c orgID i defs m) = ma_orgs m"
  "ma_memberships (materialise_roles c orgID i defs m) = ma_memberships m"
  "ma_memberRoles (materialise_roles c orgID i defs m) = ma_memberRoles m"
  "ma_systemRoles (materialise_roles c orgID i defs m) = ma_systemRoles m"
  "ma_deletedUsers (materialise_roles c orgID i defs m) = ma_deletedUsers m"
  "ma_invitations (materialise_roles c orgID i defs m) = ma_invitations m"
  "ma_systemGrants (materialise_roles c orgID i defs m) = ma_systemGrants m"
  "ma_inviteRoles (materialise_roles c orgID i defs m) = ma_inviteRoles m"
  "ma_events (materialise_roles c orgID i defs m) = ma_events m"
  by (induction c orgID i defs m rule: materialise_roles.induct) (simp_all add: Let_def)

lemma materialise_commute:
  "materialise_roles c orgID i defs (m\<lparr>ma_orgs := x, ma_events := y\<rparr>) =
     (materialise_roles c orgID i defs m)\<lparr>ma_orgs := x, ma_events := y\<rparr>"
proof (induction c orgID i defs m rule: materialise_roles.induct)
  case (2 c orgID i def defs m)
  from 2[OF refl] show ?case by (cases m) (simp add: Let_def)
qed simp

lemma recordLocked_events:
  "recordLocked c e m = m\<lparr>ma_events := ma_events (recordLocked c e m)\<rparr>"
  by (simp add: recordLocked_def Let_def)

lemma materialise_other:
  "(\<And>n. map_of (ma_roles m) rid \<noteq> None \<Longrightarrow> rid \<noteq> c_newID c (DrawRole n)) \<Longrightarrow>
     map_of (ma_roles m) rid = Some role \<Longrightarrow>
     map_of (ma_roles (materialise_roles c orgID i defs m)) rid = Some role"
proof (induction c orgID i defs m rule: materialise_roles.induct)
  case (2 c orgID i def defs m)
  have "rid \<noteq> c_newID c (DrawRole i)" using 2(2,3) by simp
  then show ?case using 2 by (simp add: Let_def amap_simps)
qed simp

definition draws_distinct_roles :: "Call \<Rightarrow> bool" where
  "draws_distinct_roles c \<longleftrightarrow> inj (\<lambda>i. c_newID c (DrawRole i))"

lemma fresh_role_update:
  "fresh_role m rid \<Longrightarrow> rid \<noteq> k \<Longrightarrow>
     fresh_role (m\<lparr>ma_roles := AList.update k r (ma_roles m), ma_rolePerms := x\<rparr>) rid"
  by (simp add: fresh_role_def amap_simps)

lemma wf_materialise:
  assumes "authz_wf m" "draws_distinct_roles c" "\<And>n. i \<le> n \<Longrightarrow> fresh_role m (c_newID c (DrawRole n))"
    "distinct (map rd_Key defs)"
    "\<And>j a. map_of (ma_roles m) j = Some a \<Longrightarrow> r_OrganizationID a = orgID \<Longrightarrow> r_Key a \<notin> rd_Key ` set defs"
  shows "authz_wf (materialise_roles c orgID i defs m)"
  using assms
proof (induction c orgID i defs m rule: materialise_roles.induct)
  case (2 c orgID i def defs m)
  let ?rid = "c_newID c (DrawRole i)"
  let ?role = "\<lparr>r_ID = ?rid, r_OrganizationID = orgID, r_Key = rd_Key def, r_Name = rd_Name def,
    r_Description = rd_Description def, r_IsSystem = True\<rparr>"
  let ?m = "m\<lparr>ma_roles := AList.update ?rid ?role (ma_roles m),
    ma_rolePerms := AList.update ?rid (permissionStrings (rd_Permissions def)) (ma_rolePerms m)\<rparr>"
  have "authz_wf ?m"
    by (rule wf_role_add) (use 2(2,4,6) in \<open>auto\<close>)
  moreover have "fresh_role ?m (c_newID c (DrawRole n))" if "Suc i \<le> n" for n
  proof (rule fresh_role_update)
    show "fresh_role m (c_newID c (DrawRole n))" using that 2(4) by simp
    show "c_newID c (DrawRole n) \<noteq> ?rid"
      using 2(3) that by (auto simp: draws_distinct_roles_def dest: injD)
  qed
  moreover have "r_Key a \<notin> rd_Key ` set defs"
    if "map_of (ma_roles ?m) j = Some a" "r_OrganizationID a = orgID" for j a
  proof (cases "j = ?rid")
    case True
    then have "r_Key a = rd_Key def" using that(1) by (auto simp: amap_simps)
    then show ?thesis using 2(5) by simp
  next
    case False
    then show ?thesis using that 2(6)[of j a] by (auto simp: amap_simps)
  qed
  ultimately show ?case using 2(1)[OF refl _ 2(3)] 2(5) by (simp add: Let_def)
qed simp

lemma materialise_has:
  assumes "def \<in> set defs" "draws_distinct_roles c"
  shows "\<exists>rid role. map_of (ma_roles (materialise_roles c orgID i defs m)) rid = Some role \<and>
    r_OrganizationID role = orgID \<and> r_Key role = rd_Key def \<and> r_IsSystem role"
  using assms
proof (induction c orgID i defs m rule: materialise_roles.induct)
  case (2 c orgID i d defs m)
  show ?case
  proof (cases "def \<in> set defs")
    case True
    then show ?thesis using 2 by (simp add: Let_def)
  next
    case False
    let ?rid = "c_newID c (DrawRole i)"
    have later: "map_of (ma_roles (materialise_roles c orgID (Suc n) ds m')) ?rid = Some role"
      if "map_of (ma_roles m') ?rid = Some role" "i \<le> n" for n ds m' role
      using that
    proof (induction ds arbitrary: n m')
      case (Cons d ds)
      have "?rid \<noteq> c_newID c (DrawRole (Suc n))"
        using 2(3) Cons.prems(2) by (auto simp: draws_distinct_roles_def dest: injD)
      then show ?case using Cons by (simp add: Let_def amap_simps)
    qed simp
    have "d = def" using False 2(2) by simp
    then show ?thesis by (auto simp: Let_def amap_simps intro!: exI[of _ ?rid] later)
  qed
qed simp

section \<open>Every operation keeps the invariant\<close>

text \<open>
  The identifiers an operation draws are new: \<open>uuid.NewV7\<close> returns a value no row carries and
  never the zero one. The condition is on the store at the moment of the draw.
\<close>

definition fresh_draws :: "Call \<Rightarrow> AuthzStore \<Rightarrow> bool" where
  "fresh_draws c m \<longleftrightarrow>
     map_of (ma_memberships m) (c_newID c DrawMembership) = None \<and>
     map_of (ma_invitations m) (c_newID c DrawInvitation) = None \<and>
     map_of (ma_orgs m) (c_newID c DrawOrganization) = None \<and>
     c_newID c DrawOrganization \<noteq> uuid_Nil \<and>
     (\<forall>j a. map_of (ma_roles m) j = Some a \<longrightarrow> r_OrganizationID a \<noteq> c_newID c DrawOrganization) \<and>
     (\<forall>i. fresh_role m (c_newID c (DrawRole i)) \<and> c_newID c (DrawRole i) \<noteq> uuid_Nil) \<and>
     draws_distinct_roles c"

lemma rolesBelongLocked_ok:
  "rolesBelongLocked m orgID ids = Inr u \<longleftrightarrow>
     (\<forall>rid \<in> set ids. \<exists>role. map_of (ma_roles m) rid = Some role \<and> r_OrganizationID role = orgID)"
  by (induction m orgID ids rule: rolesBelongLocked.induct) (auto split: option.splits)

lemma rolesBelongLocked_roles:
  "rolesBelongLocked m orgID ids = Inr u \<Longrightarrow> roles_of_org m orgID ids"
  by (auto simp: rolesBelongLocked_ok roles_of_org_def)

lemma roles_of_org_cong:
  "ma_roles m' = ma_roles m \<Longrightarrow> roles_of_org m' orgID ids = roles_of_org m orgID ids"
  by (simp add: roles_of_org_def)

lemma uniqueIDs_set [simp]: "set (uniqueIDs ids) = set ids"
  by (simp add: uniqueIDs_def)

lemma roles_of_org_unique [simp]: "roles_of_org m orgID (uniqueIDs ids) = roles_of_org m orgID ids"
  by (simp add: roles_of_org_def)

lemma organizationLocked_ok:
  "organizationLocked m orgID = Inr org \<longleftrightarrow>
     map_of (ma_orgs m) orgID = Some org \<and> \<not> OrganizationIsDeleted org"
  by (auto simp: organizationLocked_def split: option.splits)

end
