(* ===== verification/Authz_Steps.thy ===== *)
theory Authz_Steps
  imports Authz_Wf
begin

text \<open>
  The authorization store as a state machine. Each mutating method holds the mutex from its first
  read to its last write (the Postgres store holds a transaction), so one call is one step, and
  what concurrent requests can do to the store is what sequences of such steps can do. The step
  relation lists the calls the domain layer makes, each with the guard that layer passes.
\<close>

section \<open>Each operation keeps the store well formed\<close>

lemma recordLocked_commute [simp]:
  "(recordLocked c e m)\<lparr>ma_orgs := x1\<rparr> = recordLocked c e (m\<lparr>ma_orgs := x1\<rparr>)"
  "(recordLocked c e m)\<lparr>ma_memberships := x2\<rparr> = recordLocked c e (m\<lparr>ma_memberships := x2\<rparr>)"
  "(recordLocked c e m)\<lparr>ma_roles := x3\<rparr> = recordLocked c e (m\<lparr>ma_roles := x3\<rparr>)"
  "(recordLocked c e m)\<lparr>ma_rolePerms := x4\<rparr> = recordLocked c e (m\<lparr>ma_rolePerms := x4\<rparr>)"
  "(recordLocked c e m)\<lparr>ma_memberRoles := x5\<rparr> = recordLocked c e (m\<lparr>ma_memberRoles := x5\<rparr>)"
  "(recordLocked c e m)\<lparr>ma_invitations := x6\<rparr> = recordLocked c e (m\<lparr>ma_invitations := x6\<rparr>)"
  "(recordLocked c e m)\<lparr>ma_inviteRoles := x7\<rparr> = recordLocked c e (m\<lparr>ma_inviteRoles := x7\<rparr>)"
  by (cases m; simp add: recordLocked_def Let_def)+

text \<open>A quantifier over the rows of a table is one over its lookups.\<close>

declare ball_simps(9) [simp del] and bex_simps(7) [simp del]

lemmas wf_rows_ball = authz_wf_tables[THEN rows_ball]

lemmas wf_rows_bex = authz_wf_tables[THEN rows_bex]

lemmas step_simps = ok_def refuse_def Let_def

lemma UpdateOrganization_wf:
  "authz_wf m \<Longrightarrow> authz_wf (snd (AuthzUpdateOrganization c orgID name m))"
  by (auto simp: AuthzUpdateOrganization_def step_simps organizationLocked_ok OrganizationIsDeleted_def
      dest: rows_ok_id[OF authz_wf_tables(1)] intro!: wf_org_update split: sum.splits)

lemma DeleteOrganization_wf:
  "authz_wf m \<Longrightarrow> authz_wf (snd (AuthzDeleteOrganization c orgID m))"
  by (auto simp: AuthzDeleteOrganization_def step_simps organizationLocked_ok OrganizationIsDeleted_def
      OrganizationDelete_def dest: rows_ok_id[OF authz_wf_tables(1)] intro!: wf_org_update split: sum.splits)

lemma AddMember_wf:
  "authz_wf m \<Longrightarrow> map_of (ma_memberships m) (c_newID c DrawMembership) = None \<Longrightarrow>
     authz_wf (snd (AuthzAddMember c orgID userID roleIDs invitedBy at m))"
  by (auto simp: AuthzAddMember_def step_simps wf_rows_ball wf_rows_bex
      dest: rolesBelongLocked_roles intro!: wf_add_member split: sum.splits)

lemma SetMemberStatus_wf:
  "authz_wf m \<Longrightarrow> authz_wf (snd (AuthzSetMemberStatus c orgID memberID status at guard m))"
  by (auto simp: AuthzSetMemberStatus_def step_simps dest: rows_ok_id[OF authz_wf_tables(2)]
      intro!: wf_membership_update split: sum.splits option.splits)

lemma RemoveMember_wf:
  "authz_wf m \<Longrightarrow> authz_wf (snd (AuthzRemoveMember c orgID memberID action guard m))"
  by (auto simp: AuthzRemoveMember_def step_simps intro!: wf_remove_member split: sum.splits option.splits)

lemma ReplaceMemberRoles_wf:
  "authz_wf m \<Longrightarrow> authz_wf (snd (AuthzReplaceMemberRoles c orgID memberID roleIDs guard m))"
  by (auto simp: AuthzReplaceMemberRoles_def step_simps dest: rolesBelongLocked_roles
      intro!: wf_member_roles split: sum.splits option.splits)

lemma CreateRole_wf:
  "authz_wf m \<Longrightarrow> fresh_role m (if r_ID role = uuid_Nil then c_newID c (DrawRole 0) else r_ID role) \<Longrightarrow>
     authz_wf (snd (AuthzCreateRole c orgID role perms m))"
  by (auto simp: AuthzCreateRole_def step_simps wf_rows_ball wf_rows_bex
      intro!: wf_role_add split: if_splits)

lemma UpdateRole_wf:
  "authz_wf m \<Longrightarrow> authz_wf (snd (AuthzUpdateRole c orgID roleID name description m))"
  by (auto simp: AuthzUpdateRole_def step_simps dest: rows_ok_id[OF authz_wf_tables(3)]
      intro!: wf_role_update split: option.splits)

lemma DeleteRole_wf:
  "authz_wf m \<Longrightarrow> authz_wf (snd (AuthzDeleteRole c orgID roleID guard m))"
  by (auto simp: AuthzDeleteRole_def step_simps RoleRefuseDelete_def
      intro!: wf_role_delete split: option.splits sum.splits if_splits)

lemma ReplaceRolePermissions_wf:
  "authz_wf m \<Longrightarrow> authz_wf (snd (AuthzReplaceRolePermissions c orgID roleID perms m))"
  by (auto simp: AuthzReplaceRolePermissions_def step_simps intro!: wf_role_perms split: option.splits)

lemma authz_wf_system_keys:
  "authz_wf m \<Longrightarrow> adistinct (ma_systemRoles m)" "authz_wf m \<Longrightarrow> adistinct (ma_systemGrants m)"
  by (simp_all add: authz_wf_def tables_ok_def)

lemma GrantSystemRole_wf:
  "authz_wf m \<Longrightarrow> authz_wf (snd (AuthzGrantSystemRole c userID key by' m))"
  by (simp add: AuthzGrantSystemRole_def step_simps authz_wf_system authz_wf_system_keys distinct_update)

lemma RevokeSystemRole_wf:
  "authz_wf m \<Longrightarrow> authz_wf (snd (AuthzRevokeSystemRole c userID key m))"
  by (simp add: AuthzRevokeSystemRole_def step_simps authz_wf_system authz_wf_system_keys
      distinct_update distinct_delete)

lemma InviteMember_wf:
  "authz_wf m \<Longrightarrow> map_of (ma_invitations m) (c_newID c DrawInvitation) = None \<Longrightarrow>
     authz_wf (snd (AuthzInviteMember c orgID email hash roleIDs invitedBy expiresAt at m))"
  by (auto simp: AuthzInviteMember_def step_simps wf_rows_ball wf_rows_bex
      dest: rolesBelongLocked_roles intro!: wf_invitation_add split: sum.splits) (fastforce+)

lemma DeclineInvitation_wf:
  "authz_wf m \<Longrightarrow> authz_wf (snd (AuthzDeclineInvitation c invitationID m))"
  by (auto simp: AuthzDeclineInvitation_def step_simps intro!: wf_drop_invitation split: option.splits)

lemma WithdrawInvitation_wf:
  "authz_wf m \<Longrightarrow> authz_wf (snd (AuthzWithdrawInvitation c orgID invitationID m))"
  by (auto simp: AuthzWithdrawInvitation_def step_simps intro!: wf_drop_invitation split: option.splits)

lemma ReissueInvitation_wf:
  "authz_wf m \<Longrightarrow> authz_wf (snd (AuthzReissueInvitation c orgID invitationID hash expiresAt m))"
  by (auto simp: AuthzReissueInvitation_def step_simps dest: rows_ok_id[OF authz_wf_tables(4)]
      intro!: wf_invitation_update split: option.splits)

lemma AcceptInvitation_wf:
  assumes wf: "authz_wf m" and fresh: "map_of (ma_memberships m) (c_newID c DrawMembership) = None"
  shows "authz_wf (snd (AuthzAcceptInvitation c invitationID userID at m))"
proof -
  let ?mid = "c_newID c DrawMembership"
  { fix i assume i: "map_of (ma_invitations m) invitationID = Some i" "inv_AcceptedAt i = None"
    let ?ms = "MembershipActivate at \<lparr>ms_ID = ?mid, ms_UserID = userID,
      ms_OrganizationID = inv_OrganizationID i, ms_Status = MembershipActive,
      ms_InvitedBy = inv_InvitedBy i, ms_JoinedAt = None\<rparr>"
    let ?m = "m\<lparr>ma_memberships := AList.update ?mid ?ms (ma_memberships m),
      ma_memberRoles := AList.update ?mid (alist_at (ma_inviteRoles m) invitationID) (ma_memberRoles m)\<rparr>"
    assume new: "\<forall>existing \<in> snd ` set (ma_memberships m).
      ms_OrganizationID existing = inv_OrganizationID i \<longrightarrow> ms_UserID existing \<noteq> userID"
    have "roles_of_org m (inv_OrganizationID i) (alist_at (ma_inviteRoles m) invitationID)"
      using authz_wfD(7)[OF wf] i(1) by (simp add: invite_roles_ok_def)
    then have "authz_wf ?m"
      by (intro wf_add_member[OF wf fresh])
        (use new in \<open>auto simp: wf_rows_ball[OF wf]\<close>)
    then have "authz_wf (?m\<lparr>ma_invitations := AList.update invitationID (i\<lparr>inv_AcceptedAt := Some at\<rparr>)
        (ma_invitations ?m)\<rparr>)"
      by (rule wf_invitation_update) (use i rows_ok_id[OF authz_wf_tables(4)[OF wf]] in auto)
    then have "authz_wf (m\<lparr>ma_memberships := AList.update ?mid ?ms (ma_memberships m),
      ma_memberRoles := AList.update ?mid (alist_at (ma_inviteRoles m) invitationID) (ma_memberRoles m),
      ma_invitations := AList.update invitationID (i\<lparr>inv_AcceptedAt := Some at\<rparr>) (ma_invitations m)\<rparr>)"
      by simp }
  then show ?thesis using wf
    by (auto simp: AuthzAcceptInvitation_def step_simps split: option.splits)
qed

lemma materialise_record:
  "materialise_roles c k i defs (recordLocked c e (m\<lparr>ma_orgs := x\<rparr>)) =
     (materialise_roles c k i defs m)\<lparr>ma_orgs := x,
       ma_events := ma_events (recordLocked c e (m\<lparr>ma_orgs := x\<rparr>))\<rparr>"
  by (subst recordLocked_events) (simp add: materialise_commute)

lemma CreateOrganization_wf:
  assumes wf: "authz_wf m" and fresh: "fresh_draws c m" and nil: "org_ID org = uuid_Nil"
    and roles: "distinct (map rd_Key defs)" "RoleOwner \<in> rd_Key ` set defs"
    and live: "\<not> OrganizationIsDeleted org"
  shows "authz_wf (snd (AuthzCreateOrganization c org defs m))"
proof (cases "\<exists>existing \<in> set (avals (ma_orgs m)).
    org_Slug existing = org_Slug org \<and> \<not> OrganizationIsDeleted existing")
  case True
  then show ?thesis using wf by (simp add: AuthzCreateOrganization_def step_simps del: set_map)
next
  case False
  then have none: "(\<exists>existing \<in> set (avals (ma_orgs m)).
    org_Slug existing = org_Slug org \<and> \<not> OrganizationIsDeleted existing) = False" by blast
  let ?k = "c_newID c DrawOrganization"
  let ?org = "org\<lparr>org_ID := ?k\<rparr>"
  let ?mr = "materialise_roles c ?k 0 defs m"
  define y where "y = ma_events (recordLocked c (no_event\<lparr>ev_OrganizationID := Some ?k,
      ev_Action := ActionOrganizationCreated, ev_Detail := org_Slug org\<rparr>)
      (m\<lparr>ma_orgs := AList.update ?k ?org (ma_orgs m)\<rparr>))"
  have store: "snd (AuthzCreateOrganization c org defs m) =
      ?mr\<lparr>ma_orgs := AList.update ?k ?org (ma_orgs m), ma_events := y\<rparr>"
    unfolding AuthzCreateOrganization_def none
    by (simp add: nil step_simps y_def materialise_record)
  have wfm: "authz_wf ?mr"
    by (rule wf_materialise) (use wf fresh roles in \<open>auto simp: fresh_draws_def\<close>)
  obtain d where d: "d \<in> set defs" "rd_Key d = RoleOwner" using roles(2) by auto
  obtain rid role where role: "map_of (ma_roles ?mr) rid = Some role" "r_OrganizationID role = ?k"
    "r_Key role = RoleOwner" "r_IsSystem role"
    using materialise_has[OF d(1), of c ?k 0 m] fresh d(2) by (auto simp: fresh_draws_def)
  have "authz_wf (?mr\<lparr>ma_orgs := AList.update ?k ?org (ma_orgs ?mr)\<rparr>)"
    by (rule wf_org_add[OF wfm _ _ _ role])
      (use fresh False in \<open>auto simp: fresh_draws_def wf_rows_ball[OF wf] rows_ok_val_iff[OF authz_wf_tables(1)[OF wf]]\<close>)
  then have "authz_wf (?mr\<lparr>ma_orgs := AList.update ?k ?org (ma_orgs m), ma_events := y\<rparr>)"
    by (simp add: authz_wf_def wf_defs)
  then show ?thesis by (simp add: store)
qed

section \<open>Owners\<close>

text \<open>
  An organization is owned when some membership counts as an owner; \<open>ownerStateLocked\<close>,
  which the last-owner rule reads, and \<open>ownerCountLocked\<close>, which the listing shows, both count
  these.
\<close>

definition owned :: "AuthzStore \<Rightarrow> uuid \<Rightarrow> bool" where
  "owned m orgID \<longleftrightarrow>
     (\<exists>k ms. map_of (ma_memberships m) k = Some ms \<and> counts_as_owner m orgID ms)"

lemma holdsOwnerLocked_iff:
  "holdsOwnerLocked m k \<longleftrightarrow>
     (\<exists>rid \<in> set (alist_at (ma_memberRoles m) k).
        \<exists>role. map_of (ma_roles m) rid = Some role \<and> r_Key role = RoleOwner)"
  by (force simp: holdsOwnerLocked_def assigned_roles_def map_filter_set)

lemma GrantsPermissions_iff: "GrantsPermissions s \<longleftrightarrow> s = MembershipActive"
  by (auto simp: GrantsPermissions_def)

lemma ownerCount_filter:
  "ownerCountLocked m orgID = int (length (filter (counts_as_owner m orgID) (avals (ma_memberships m))))"
proof -
  have "(\<lambda>ms. \<not> (ms_OrganizationID ms \<noteq> orgID \<or> ms_Status ms \<noteq> MembershipActive) \<and>
       \<not> accountDeletedLocked m ms \<and>
       (\<exists>role \<in> set (assigned_roles m (ms_ID ms)). r_Key role = RoleOwner)) = counts_as_owner m orgID"
    by (auto simp: counts_as_owner_def holdsOwnerLocked_def GrantsPermissions_iff fun_eq_iff)
  then show ?thesis by (simp add: ownerCountLocked_def)
qed

lemma ownerCount_eq: "ownerCountLocked m orgID = ow_Owners (ownerStateLocked m orgID memberID)"
  by (simp add: ownerCount_filter ownerStateLocked_def Let_def)

lemma owned_count:
  assumes "authz_wf m"
  shows "owned m orgID \<longleftrightarrow> 0 < ownerCountLocked m orgID"
proof -
  have "owned m orgID \<longleftrightarrow> (\<exists>ms \<in> snd ` set (ma_memberships m). counts_as_owner m orgID ms)"
    by (auto simp: owned_def wf_rows_bex[OF assms])
  then show ?thesis unfolding ownerCount_filter by (auto simp: filter_empty_conv)
qed

lemma owned_cong:
  "ma_users m' = ma_users m \<Longrightarrow> ma_deletedUsers m' = ma_deletedUsers m \<Longrightarrow>
   ma_memberships m' = ma_memberships m \<Longrightarrow> ma_memberRoles m' = ma_memberRoles m \<Longrightarrow>
   ma_roles m' = ma_roles m \<Longrightarrow> owned m' orgID = owned m orgID"
  by (simp add: owned_def counts_as_owner_def accountDeletedLocked_def accountIDDeletedLocked_def
      holdsOwnerLocked_iff)

lemma owned_record [simp]: "owned (recordLocked c e m) orgID = owned m orgID"
  by (rule owned_cong) simp_all

lemma accountDeleted_cong:
  "ma_users m' = ma_users m \<Longrightarrow> ma_deletedUsers m' = ma_deletedUsers m \<Longrightarrow>
     accountDeletedLocked m' ms = accountDeletedLocked m ms"
  by (simp add: accountDeletedLocked_def accountIDDeletedLocked_def)

text \<open>An owner other than the subject is left when the rule lets the loss through.\<close>

lemma guard_leaves_owner:
  assumes wf: "authz_wf m" and guard: "applyOwnerGuardLocked m orgID k (RefuseLastOwnerLoss True) = Inr u"
    and owned: "owned m orgID"
  shows "\<exists>j ms. j \<noteq> k \<and> map_of (ma_memberships m) j = Some ms \<and> counts_as_owner m orgID ms"
proof -
  let ?st = "ownerStateLocked m orgID k"
  note rows = authz_wf_tables(2)[OF wf]
  have subject: "ow_SubjectHoldsOwner ?st \<longleftrightarrow>
      (\<exists>ms. map_of (ma_memberships m) k = Some ms \<and> counts_as_owner m orgID ms)"
    by (auto simp: ownerStateLocked_def Let_def rows_ok_val_iff[OF rows] dest: rows_ok_id[OF rows])
  have ok: "\<not> ow_SubjectHoldsOwner ?st \<or> 1 < ow_Owners ?st"
    using guard by (simp add: applyOwnerGuardLocked_def RefuseLastOwnerLoss_ok)
  show ?thesis
  proof (cases "ow_SubjectHoldsOwner ?st")
    case False
    then show ?thesis using owned subject unfolding owned_def by metis
  next
    case True
    then obtain ms where ms: "map_of (ma_memberships m) k = Some ms" using subject by blast
    have "1 < length (filter (counts_as_owner m orgID) (avals (ma_memberships m)))"
    proof -
      have "1 < ow_Owners ?st" using ok True by blast
      then show ?thesis by (simp add: ownerStateLocked_def Let_def)
    qed
    then obtain ms' where "ms' \<in> set (avals (ma_memberships m))" "counts_as_owner m orgID ms'" "ms' \<noteq> ms"
      by (rule two_in_filter[of _ _ ms]) (use ms rows rows_ok_distinct[OF rows] in \<open>auto simp: rows_ok_val_iff\<close>)
    then show ?thesis using ms rows by (metis rows_ok_val_iff set_map option.inject)
  qed
qed

text \<open>
  An owner survives an update that keeps its membership row, its account and its assignment,
  and keeps every role it holds under its key.
\<close>

lemma owned_keep:
  assumes "map_of (ma_memberships m') k = Some ms'" "counts_as_owner m orgID ms"
    "ms_ID ms' = ms_ID ms" "ms_UserID ms' = ms_UserID ms" "ms_OrganizationID ms' = ms_OrganizationID ms"
    "GrantsPermissions (ms_Status ms) \<Longrightarrow> GrantsPermissions (ms_Status ms')"
    "ma_users m' = ma_users m" "ma_deletedUsers m' = ma_deletedUsers m"
    "\<And>rid role. rid \<in> set (alist_at (ma_memberRoles m) (ms_ID ms)) \<Longrightarrow>
       map_of (ma_roles m) rid = Some role \<Longrightarrow> r_Key role = RoleOwner \<Longrightarrow>
       rid \<in> set (alist_at (ma_memberRoles m') (ms_ID ms)) \<and>
       (\<exists>role'. map_of (ma_roles m') rid = Some role' \<and> r_Key role' = RoleOwner)"
  shows "owned m' orgID"
proof -
  have "holdsOwnerLocked m' (ms_ID ms')"
    using assms(2,3,9) unfolding counts_as_owner_def holdsOwnerLocked_iff by force
  moreover have "\<not> accountDeletedLocked m' ms'"
    using assms(2,4,7,8) by (simp add: counts_as_owner_def accountDeletedLocked_def accountIDDeletedLocked_def split: if_splits)
  ultimately have "counts_as_owner m' orgID ms'"
    using assms(2,5,6) by (simp add: counts_as_owner_def)
  then show ?thesis using assms(1) unfolding owned_def by blast
qed

end
