(* ===== verification/Authz_Machine.thy ===== *)
theory Authz_Machine
  imports Authz_Steps
begin

text \<open>
  The step relation of the authorization store and what every run of it keeps: the store stays
  well formed, an organization that has an owner keeps one, the owner role of an organization
  stays its owner role, and the audit trail only grows.
\<close>

section \<open>Steps\<close>

text \<open>
  One rule per mutating call of the domain layer. A call that draws identifiers draws new ones;
  \<open>SetMemberRoles\<close> passes a guard that says whether the owner role is being left out, which it
  learned from an earlier read, so the rule asks only that the answer is right for the organization's
  owner role. A refused call is a step too: it leaves what the method left.
\<close>

inductive store_step :: "AuthzStore \<Rightarrow> AuthzStore \<Rightarrow> bool" where
  UpdateOrganization: "store_step m (snd (AuthzUpdateOrganization c orgID name m))"
| DeleteOrganization: "store_step m (snd (AuthzDeleteOrganization c orgID m))"
| CreateOrganization:
    "fresh_draws c m \<Longrightarrow> org_ID org = uuid_Nil \<Longrightarrow> \<not> OrganizationIsDeleted org \<Longrightarrow>
       store_step m (snd (AuthzCreateOrganization c org OrganizationRoles m))"
| AddMember:
    "map_of (ma_memberships m) (c_newID c DrawMembership) = None \<Longrightarrow>
       store_step m (snd (AuthzAddMember c orgID userID roleIDs invitedBy at m))"
| SetMemberStatus:
    "store_step m (snd (AuthzSetMemberStatus c orgID memberID status at
       (RefuseLastOwnerLoss (\<not> GrantsPermissions status)) m))"
| RemoveMember:
    "store_step m (snd (AuthzRemoveMember c orgID memberID action (RefuseLastOwnerLoss True) m))"
| ReplaceMemberRoles:
    "(\<not> losing \<Longrightarrow> \<forall>rid. is_owner_role m orgID rid \<longrightarrow> rid \<in> set roleIDs) \<Longrightarrow>
       store_step m (snd (AuthzReplaceMemberRoles c orgID memberID roleIDs (RefuseLastOwnerLoss losing) m))"
| CreateRole:
    "fresh_role m (c_newID c (DrawRole 0)) \<Longrightarrow> r_ID role = uuid_Nil \<Longrightarrow> \<not> r_IsSystem role \<Longrightarrow>
       store_step m (snd (AuthzCreateRole c orgID role perms m))"
| UpdateRole: "store_step m (snd (AuthzUpdateRole c orgID roleID name description m))"
| DeleteRole: "store_step m (snd (AuthzDeleteRole c orgID roleID RefuseRoleInUse m))"
| ReplaceRolePermissions: "store_step m (snd (AuthzReplaceRolePermissions c orgID roleID perms m))"
| GrantSystemRole: "store_step m (snd (AuthzGrantSystemRole c userID key grantedBy m))"
| RevokeSystemRole: "store_step m (snd (AuthzRevokeSystemRole c userID key m))"
| InviteMember:
    "map_of (ma_invitations m) (c_newID c DrawInvitation) = None \<Longrightarrow>
       store_step m (snd (AuthzInviteMember c orgID email hash roleIDs invitedBy expiresAt at m))"
| AcceptInvitation:
    "map_of (ma_memberships m) (c_newID c DrawMembership) = None \<Longrightarrow>
       store_step m (snd (AuthzAcceptInvitation c invitationID userID at m))"
| DeclineInvitation: "store_step m (snd (AuthzDeclineInvitation c invitationID m))"
| WithdrawInvitation: "store_step m (snd (AuthzWithdrawInvitation c orgID invitationID m))"
| ReissueInvitation: "store_step m (snd (AuthzReissueInvitation c orgID invitationID hash expiresAt m))"

abbreviation (input) store_steps :: "AuthzStore \<Rightarrow> AuthzStore \<Rightarrow> bool" where
  "store_steps \<equiv> store_step\<^sup>*\<^sup>*"

text \<open>An invariant of single steps is one of runs.\<close>

lemma steps_invariant:
  assumes "store_steps m m'" "P m" "\<And>a b. store_step a b \<Longrightarrow> P a \<Longrightarrow> P b"
  shows "P m'"
  using assms by (induction rule: rtranclp_induct) auto

lemma OrganizationRoles_owner: "RoleOwner \<in> rd_Key ` set OrganizationRoles"
  using arg_cong[OF organization_role_keys, of set] by auto

lemma OrganizationRoles_distinct: "distinct (map rd_Key OrganizationRoles)"
  using shipped_keys_distinct by simp

lemma step_wf: "store_step m m' \<Longrightarrow> authz_wf m \<Longrightarrow> authz_wf m'"
proof (induction rule: store_step.induct)
  case CreateOrganization
  then show ?case
    by (intro CreateOrganization_wf) (auto simp: OrganizationRoles_owner OrganizationRoles_distinct)
qed (auto simp: fresh_draws_def intro: UpdateOrganization_wf DeleteOrganization_wf AddMember_wf
      SetMemberStatus_wf RemoveMember_wf ReplaceMemberRoles_wf CreateRole_wf UpdateRole_wf DeleteRole_wf
      ReplaceRolePermissions_wf GrantSystemRole_wf RevokeSystemRole_wf InviteMember_wf
      AcceptInvitation_wf DeclineInvitation_wf WithdrawInvitation_wf ReissueInvitation_wf)

lemma steps_wf: "store_steps m m' \<Longrightarrow> authz_wf m \<Longrightarrow> authz_wf m'"
  by (rule steps_invariant[where P = authz_wf]) (auto intro: step_wf)

section \<open>The trail only grows\<close>

lemma record_events:
  "\<exists>es. ma_events (recordLocked c e m) = ma_events m @ es \<and> length es \<le> 1"
  by (auto simp: recordLocked_def Let_def)

lemma record_events_under:
  "ma_events m' = ma_events m \<Longrightarrow> \<exists>es. ma_events (recordLocked c e m') = ma_events m @ es \<and> length es \<le> Suc 0"
  using record_events[of c e m'] by simp

lemma step_events:
  "store_step m m' \<Longrightarrow> \<exists>es. ma_events m' = ma_events m @ es \<and> length es \<le> 1"
  by (induction rule: store_step.induct)
    (auto simp: AuthzUpdateOrganization_def AuthzDeleteOrganization_def AuthzCreateOrganization_def
      AuthzAddMember_def AuthzSetMemberStatus_def AuthzRemoveMember_def AuthzReplaceMemberRoles_def
      AuthzCreateRole_def AuthzUpdateRole_def AuthzDeleteRole_def AuthzReplaceRolePermissions_def
      AuthzGrantSystemRole_def AuthzRevokeSystemRole_def AuthzInviteMember_def AuthzAcceptInvitation_def
      AuthzDeclineInvitation_def AuthzWithdrawInvitation_def AuthzReissueInvitation_def drop_invitation_def
      step_simps split: sum.splits option.splits intro!: record_events_under)

section \<open>The last owner\<close>

lemma SetMemberStatus_owned:
  assumes wf: "authz_wf m" and owned: "owned m org"
  shows "owned (snd (AuthzSetMemberStatus c orgID k status at
    (RefuseLastOwnerLoss (\<not> GrantsPermissions status)) m)) org"
proof -
  { fix ms u
    assume ms: "map_of (ma_memberships m) k = Some ms" "ms_OrganizationID ms = orgID"
      and guard: "applyOwnerGuardLocked m orgID k (RefuseLastOwnerLoss (\<not> GrantsPermissions status)) = Inr u"
    define ms' where "ms' = (if GrantsPermissions status then MembershipActivate at ms
      else ms\<lparr>ms_Status := status\<rparr>)"
    let ?m = "m\<lparr>ma_memberships := AList.update k ms' (ma_memberships m)\<rparr>"
    have sel: "ms_ID ms' = ms_ID ms" "ms_UserID ms' = ms_UserID ms"
      "ms_OrganizationID ms' = ms_OrganizationID ms"
      by (simp_all add: ms'_def)
    have "owned ?m org"
    proof (cases "GrantsPermissions status \<or> orgID \<noteq> org")
      case True
      obtain j x where x: "map_of (ma_memberships m) j = Some x" "counts_as_owner m org x"
        using owned by (auto simp: owned_def)
      show ?thesis
      proof (cases "j = k")
        case True
        then have "x = ms" "orgID = org" using x ms by (auto simp: counts_as_owner_def)
        then have "GrantsPermissions (ms_Status ms')"
          using \<open>_ \<or> orgID \<noteq> org\<close> by (simp add: ms'_def GrantsPermissions_iff)
        then show ?thesis using x sel \<open>j = k\<close> \<open>x = ms\<close>
          by (intro owned_keep[of ?m k ms' m org ms]) (auto simp: amap_simps)
      next
        case False
        then show ?thesis using x by (intro owned_keep[of ?m j x m org x]) (auto simp: amap_simps)
      qed
    next
      case False
      then obtain j x where "j \<noteq> k" "map_of (ma_memberships m) j = Some x" "counts_as_owner m org x"
        using guard_leaves_owner[OF wf _ owned, of k] guard by auto
      then show ?thesis by (intro owned_keep[of ?m j x m org x]) (auto simp: amap_simps)
    qed }
  then show ?thesis using owned
    by (auto simp: AuthzSetMemberStatus_def step_simps split: option.splits sum.splits)
qed

lemma RemoveMember_owned:
  assumes wf: "authz_wf m" and owned: "owned m org"
  shows "owned (snd (AuthzRemoveMember c orgID k action (RefuseLastOwnerLoss True) m)) org"
proof -
  { fix ms u
    assume ms: "map_of (ma_memberships m) k = Some ms" "ms_OrganizationID ms = orgID"
      and guard: "applyOwnerGuardLocked m orgID k (RefuseLastOwnerLoss True) = Inr u"
    let ?m = "m\<lparr>ma_memberships := AList.delete k (ma_memberships m),
                ma_memberRoles := AList.delete k (ma_memberRoles m)\<rparr>"
    obtain j x where x: "j \<noteq> k" "map_of (ma_memberships m) j = Some x" "counts_as_owner m org x"
    proof (cases "orgID = org")
      case True
      then show thesis using guard_leaves_owner[OF wf _ owned, of k] guard that by auto
    next
      case False
      obtain j x where x: "map_of (ma_memberships m) j = Some x" "counts_as_owner m org x"
        using owned by (auto simp: owned_def)
      then have "j \<noteq> k" using ms False by (auto simp: counts_as_owner_def)
      then show thesis using that x by blast
    qed
    then have "ms_ID x = j" using rows_ok_id[OF authz_wf_tables(2)[OF wf]] by blast
    then have "owned ?m org" using x
      by (intro owned_keep[of ?m j x m org x]) (auto simp: amap_simps) }
  then show ?thesis using owned
    by (auto simp: AuthzRemoveMember_def step_simps split: option.splits sum.splits)
qed

lemma ReplaceMemberRoles_owned:
  assumes wf: "authz_wf m" and owned: "owned m org"
    and keeping: "\<not> losing \<Longrightarrow> \<forall>rid. is_owner_role m orgID rid \<longrightarrow> rid \<in> set roleIDs"
  shows "owned (snd (AuthzReplaceMemberRoles c orgID k roleIDs (RefuseLastOwnerLoss losing) m)) org"
proof -
  { fix ms u
    assume ms: "map_of (ma_memberships m) k = Some ms" "ms_OrganizationID ms = orgID"
      and guard: "applyOwnerGuardLocked m orgID k (RefuseLastOwnerLoss losing) = Inr u"
    let ?m = "m\<lparr>ma_memberRoles := AList.update k (uniqueIDs roleIDs) (ma_memberRoles m)\<rparr>"
    note row_id = rows_ok_id[OF authz_wf_tables(2)[OF wf]]
    obtain j x where x: "map_of (ma_memberships m) j = Some x" "counts_as_owner m org x"
      "j \<noteq> k \<or> \<not> losing \<and> orgID = org"
    proof (cases "orgID = org \<and> losing")
      case True
      then show thesis using guard_leaves_owner[OF wf _ owned, of k] guard that by auto
    next
      case False
      obtain j x where x: "map_of (ma_memberships m) j = Some x" "counts_as_owner m org x"
        using owned by (auto simp: owned_def)
      then have "j \<noteq> k \<or> \<not> losing \<and> orgID = org" using ms False by (auto simp: counts_as_owner_def)
      then show thesis using that x by blast
    qed
    have "owned ?m org"
    proof (rule owned_keep[of ?m j x m org x])
      fix rid role
      assume r: "rid \<in> set (alist_at (ma_memberRoles m) (ms_ID x))" "map_of (ma_roles m) rid = Some role"
        "r_Key role = RoleOwner"
      have "r_OrganizationID role = ms_OrganizationID x"
        using authz_wfD(6)[OF wf] x(1) r row_id[OF x(1)] by (auto simp: member_roles_ok_def roles_of_org_def)
      then have "is_owner_role m org rid"
        using r x(2) by (auto simp: is_owner_role_def counts_as_owner_def)
      then show "rid \<in> set (alist_at (ma_memberRoles ?m) (ms_ID x)) \<and>
          (\<exists>role'. map_of (ma_roles ?m) rid = Some role' \<and> r_Key role' = RoleOwner)"
        using r x(3) keeping row_id[OF x(1)] by (auto simp: amap_simps)
    qed (use x in auto) }
  then show ?thesis using owned
    by (auto simp: AuthzReplaceMemberRoles_def step_simps split: option.splits sum.splits)
qed

lemma holder_count_zero:
  assumes "holder_count m rid \<le> 0"
  shows "rid \<notin> set (alist_at (ma_memberRoles m) k)"
proof (cases "map_of (ma_memberRoles m) k")
  case (Some ids)
  then have "(k, ids) \<in> set (ma_memberRoles m)" by (rule map_of_SomeD)
  then show ?thesis using assms Some
    by (force simp: holder_count_def alist_at_def filter_empty_conv)
qed (simp add: alist_at_def)

lemma DeleteRole_owned:
  assumes wf: "authz_wf m" and owned: "owned m org"
  shows "owned (snd (AuthzDeleteRole c orgID k RefuseRoleInUse m)) org"
proof -
  obtain j x where x: "map_of (ma_memberships m) j = Some x" "counts_as_owner m org x"
    using owned by (auto simp: owned_def)
  let ?m = "m\<lparr>ma_roles := AList.delete k (ma_roles m), ma_rolePerms := AList.delete k (ma_rolePerms m),
    ma_memberRoles := map (\<lambda>(memberID, assigned). (memberID, filter (\<lambda>a. a \<noteq> k) assigned))
      (ma_memberRoles m)\<rparr>"
  have "owned ?m org" if "holder_count m k \<le> 0"
    using x holder_count_zero[OF that]
    by (intro owned_keep[of ?m j x m org x]) (auto simp: amap_simps alist_at_map_filter)
  then show ?thesis using owned
    by (auto simp: AuthzDeleteRole_def step_simps RefuseRoleInUse_ok split: option.splits sum.splits)
qed

text \<open>New rows under new identifiers take nothing away.\<close>

lemma owned_add_member:
  assumes "owned m org" "map_of (ma_memberships m) k = None" "authz_wf m"
  shows "owned (m\<lparr>ma_memberships := AList.update k ms (ma_memberships m),
    ma_memberRoles := AList.update k ids (ma_memberRoles m)\<rparr>) org" (is "owned ?m org")
proof -
  obtain j x where x: "map_of (ma_memberships m) j = Some x" "counts_as_owner m org x"
    using assms(1) by (auto simp: owned_def)
  then have "ms_ID x = j" "j \<noteq> k" using rows_ok_id[OF authz_wf_tables(2)[OF assms(3)]] assms(2) by auto
  then show ?thesis using x by (intro owned_keep[of ?m j x m org x]) (auto simp: amap_simps)
qed

lemma owned_add_role:
  assumes "owned m org" "fresh_role m k"
  shows "owned (m\<lparr>ma_roles := AList.update k role (ma_roles m), ma_rolePerms := ps\<rparr>) org" (is "owned ?m org")
proof -
  obtain j x where x: "map_of (ma_memberships m) j = Some x" "counts_as_owner m org x"
    using assms(1) by (auto simp: owned_def)
  then show ?thesis using assms(2)
    by (intro owned_keep[of ?m j x m org x]) (auto simp: amap_simps fresh_role_def)
qed

lemma owned_update_role:
  assumes "owned m org" "map_of (ma_roles m) k = Some role" "r_Key role' = r_Key role"
  shows "owned (m\<lparr>ma_roles := AList.update k role' (ma_roles m)\<rparr>) org" (is "owned ?m org")
proof -
  obtain j x where x: "map_of (ma_memberships m) j = Some x" "counts_as_owner m org x"
    using assms(1) by (auto simp: owned_def)
  then show ?thesis using assms(2,3)
    by (intro owned_keep[of ?m j x m org x]) (auto simp: amap_simps)
qed

lemma owned_materialise:
  "owned m org \<Longrightarrow> draws_distinct_roles c \<Longrightarrow> (\<And>n. i \<le> n \<Longrightarrow> fresh_role m (c_newID c (DrawRole n))) \<Longrightarrow>
     owned (materialise_roles c orgID i defs m) org"
proof (induction c orgID i defs m rule: materialise_roles.induct)
  case (2 c orgID i def defs m)
  let ?rid = "c_newID c (DrawRole i)"
  let ?role = "\<lparr>r_ID = ?rid, r_OrganizationID = orgID, r_Key = rd_Key def, r_Name = rd_Name def,
    r_Description = rd_Description def, r_IsSystem = True\<rparr>"
  let ?m = "m\<lparr>ma_roles := AList.update ?rid ?role (ma_roles m),
    ma_rolePerms := AList.update ?rid (permissionStrings (rd_Permissions def)) (ma_rolePerms m)\<rparr>"
  have "owned ?m org" using 2 by (intro owned_add_role) auto
  moreover have "fresh_role ?m (c_newID c (DrawRole n))" if "Suc i \<le> n" for n
  proof (rule fresh_role_update)
    show "fresh_role m (c_newID c (DrawRole n))" using that 2(4) by simp
    show "c_newID c (DrawRole n) \<noteq> ?rid"
      using 2(3) that by (auto simp: draws_distinct_roles_def dest: injD)
  qed
  ultimately show ?case using 2(1)[OF refl _ 2(3)] by (simp add: Let_def)
qed simp

lemma step_owned: "store_step m m' \<Longrightarrow> authz_wf m \<Longrightarrow> owned m org \<Longrightarrow> owned m' org"
proof (induction rule: store_step.induct)
  case (CreateOrganization c m o')
  let ?k = "c_newID c DrawOrganization"
  have "owned (materialise_roles c ?k 0 OrganizationRoles m) org"
    using CreateOrganization by (intro owned_materialise) (auto simp: fresh_draws_def)
  then have "owned ((materialise_roles c ?k 0 OrganizationRoles m)\<lparr>ma_orgs := x, ma_events := y\<rparr>) org" for x y
    by (subst owned_cong[of _ "materialise_roles c ?k 0 OrganizationRoles m"]) auto
  then show ?case using CreateOrganization
    by (simp add: AuthzCreateOrganization_def step_simps materialise_record)
next
  case (AcceptInvitation m c invitationID userID at)
  show ?case
  proof (cases "map_of (ma_invitations m) invitationID")
    case (Some i)
    let ?mid = "c_newID c DrawMembership"
    have add: "owned (m\<lparr>ma_memberships := AList.update ?mid ms (ma_memberships m),
      ma_memberRoles := AList.update ?mid ids (ma_memberRoles m)\<rparr>) org" for ms ids
      using AcceptInvitation by (intro owned_add_member) (auto simp: fresh_draws_def)
    have "owned (m\<lparr>ma_memberships := AList.update ?mid ms (ma_memberships m),
      ma_memberRoles := AList.update ?mid ids (ma_memberRoles m), ma_invitations := x\<rparr>) org" for ms ids x
      by (rule owned_cong[THEN iffD2, OF _ _ _ _ _ add[of ids ms]]) auto
    then show ?thesis using AcceptInvitation Some by (simp add: AuthzAcceptInvitation_def step_simps)
  qed (use AcceptInvitation in \<open>simp add: AuthzAcceptInvitation_def step_simps\<close>)
next
  case (AddMember m c)
  then show ?case
    by (auto simp: AuthzAddMember_def step_simps fresh_draws_def intro!: owned_add_member split: sum.splits)
next
  case (CreateRole m c)
  then show ?case by (auto simp: AuthzCreateRole_def step_simps fresh_draws_def intro!: owned_add_role)
next
  case (UpdateRole m)
  then show ?case
    by (auto simp: AuthzUpdateRole_def step_simps intro!: owned_update_role split: option.splits)
qed (auto simp: SetMemberStatus_owned RemoveMember_owned ReplaceMemberRoles_owned DeleteRole_owned
      AuthzUpdateOrganization_def AuthzDeleteOrganization_def AuthzReplaceRolePermissions_def
      AuthzGrantSystemRole_def AuthzRevokeSystemRole_def AuthzInviteMember_def AuthzDeclineInvitation_def
      AuthzWithdrawInvitation_def AuthzReissueInvitation_def drop_invitation_def step_simps
      owned_cong[of "m\<lparr>ma_orgs := x\<rparr>" m for m x]
      owned_cong[of "m\<lparr>ma_rolePerms := x\<rparr>" m for m x]
      owned_cong[of "m\<lparr>ma_invitations := x\<rparr>" m for m x]
      owned_cong[of "m\<lparr>ma_invitations := x, ma_inviteRoles := y\<rparr>" m for m x y]
      owned_cong[of "m\<lparr>ma_systemRoles := x, ma_systemGrants := y\<rparr>" m for m x y]
      split: sum.splits option.splits)

lemma steps_owned:
  assumes "store_steps m m'" "authz_wf m" "owned m org"
  shows "owned m' org"
  using steps_invariant[OF assms(1), of "\<lambda>m. authz_wf m \<and> owned m org"] assms step_wf step_owned by blast

section \<open>The owner role stays\<close>

lemma step_org_kept: "store_step m m' \<Longrightarrow> map_of (ma_orgs m) k \<noteq> None \<Longrightarrow> map_of (ma_orgs m') k \<noteq> None"
  by (induction rule: store_step.induct)
    (auto simp: AuthzUpdateOrganization_def AuthzDeleteOrganization_def AuthzCreateOrganization_def
      AuthzAddMember_def AuthzSetMemberStatus_def AuthzRemoveMember_def AuthzReplaceMemberRoles_def
      AuthzCreateRole_def AuthzUpdateRole_def AuthzDeleteRole_def AuthzReplaceRolePermissions_def
      AuthzGrantSystemRole_def AuthzRevokeSystemRole_def AuthzInviteMember_def AuthzAcceptInvitation_def
      AuthzDeclineInvitation_def AuthzWithdrawInvitation_def AuthzReissueInvitation_def drop_invitation_def
      step_simps amap_simps split: sum.splits option.splits)

text \<open>A system role is never deleted, rekeyed or moved.\<close>

definition system_role :: "AuthzStore \<Rightarrow> uuid \<Rightarrow> uuid \<Rightarrow> string \<Rightarrow> bool" where
  "system_role m orgID rid key \<longleftrightarrow>
     (\<exists>role. map_of (ma_roles m) rid = Some role \<and> r_OrganizationID role = orgID \<and>
        r_Key role = key \<and> r_IsSystem role)"

lemma step_system_role:
  "store_step m m' \<Longrightarrow> system_role m orgID rid key \<Longrightarrow> system_role m' orgID rid key"
proof (induction rule: store_step.induct)
  case (CreateOrganization c m o')
  then have "rid \<noteq> c_newID c (DrawRole n)" for n
    by (auto simp: fresh_draws_def fresh_role_def system_role_def)
  then show ?case using CreateOrganization
    by (auto simp: AuthzCreateOrganization_def step_simps system_role_def materialise_record
        intro!: materialise_other)
next
  case (CreateRole m c)
  then have "rid \<noteq> c_newID c (DrawRole 0)"
    by (auto simp: fresh_role_def system_role_def)
  then show ?case using CreateRole
    by (auto simp: AuthzCreateRole_def step_simps system_role_def amap_simps)
qed (auto simp: system_role_def AuthzUpdateOrganization_def AuthzDeleteOrganization_def
      AuthzAddMember_def AuthzSetMemberStatus_def AuthzRemoveMember_def AuthzReplaceMemberRoles_def
      AuthzUpdateRole_def AuthzDeleteRole_def AuthzReplaceRolePermissions_def RoleRefuseDelete_def
      AuthzGrantSystemRole_def AuthzRevokeSystemRole_def AuthzInviteMember_def AuthzAcceptInvitation_def
      AuthzDeclineInvitation_def AuthzWithdrawInvitation_def AuthzReissueInvitation_def drop_invitation_def
      step_simps amap_simps split: sum.splits option.splits if_splits)

end
