(* ===== verification/Authz_Memory.thy ===== *)
theory Authz_Memory
  imports Authz_Machine
begin

text \<open>
  The in-memory store as an \<open>authz.Repository\<close>: the contract \<open>authz_repository\<close> of the
  theory \<open>Authz\<close> holds of it, so that every decision the service makes over it is the one the
  contract's abstract view of the store calls for.
\<close>

section \<open>The implementation\<close>

definition mem_authz_repo :: "AuthzStore authz_repo" where
  "mem_authz_repo =
     \<lparr>ar_OrganizationPermissionKeys = AuthzOrganizationPermissionKeys,
      ar_PermissionKeysByOrganization = AuthzPermissionKeysByOrganization,
      ar_SystemRoleKeys = AuthzSystemRoleKeys\<rparr>"

section \<open>The abstract view\<close>

text \<open>
  An active member of an organization: the account and the organization are live, and an active
  membership row joins them. The keys of the member are those of the assigned roles that exist.
\<close>

definition member_row :: "AuthzStore \<Rightarrow> uuid \<Rightarrow> uuid \<Rightarrow> uuid \<Rightarrow> Membership \<Rightarrow> bool" where
  "member_row m userID orgID k ms \<longleftrightarrow>
     map_of (ma_memberships m) k = Some ms \<and> ms_UserID ms = userID \<and> ms_OrganizationID ms = orgID"

definition mem_active :: "AuthzStore \<Rightarrow> uuid \<Rightarrow> uuid \<Rightarrow> bool" where
  "mem_active m userID orgID \<longleftrightarrow>
     \<not> accountIDDeletedLocked m userID \<and> live_org m orgID \<and>
     (\<exists>k ms. member_row m userID orgID k ms \<and> ms_Status ms = MembershipActive)"

definition role_keys :: "AuthzStore \<Rightarrow> uuid \<Rightarrow> string set" where
  "role_keys m memberID =
     {key. \<exists>rid \<in> set (alist_at (ma_memberRoles m) memberID).
        map_of (ma_roles m) rid \<noteq> None \<and> key \<in> set (alist_at (ma_rolePerms m) rid)}"

definition mem_keys :: "AuthzStore \<Rightarrow> uuid \<Rightarrow> uuid \<Rightarrow> string set" where
  "mem_keys m userID orgID = {key. \<exists>k ms. member_row m userID orgID k ms \<and> key \<in> role_keys m k}"

definition mem_system_keys :: "AuthzStore \<Rightarrow> uuid \<Rightarrow> string set" where
  "mem_system_keys m userID =
     (if accountIDDeletedLocked m userID then {} else set (alist_at (ma_systemRoles m) userID))"

lemma member_row_unique:
  "authz_wf m \<Longrightarrow> member_row m u org k ms \<Longrightarrow> member_row m u org k' ms' \<Longrightarrow> k' = k \<and> ms' = ms"
  using authz_wfD(2)[of m] unfolding unique_memberships_def member_row_def by (metis option.inject)

lemma set_membership_keys [simp]: "set (membership_keys m k) = role_keys m k"
  by (auto simp: membership_keys_def role_keys_def live_role_ids_def)

lemma mem_keys_row:
  assumes "authz_wf m" "member_row m u org k ms"
  shows "mem_keys m u org = role_keys m k"
  unfolding mem_keys_def using assms(2) by (blast dest: member_row_unique[OF assms])

lemma activeMembershipLocked_Some:
  assumes wf: "authz_wf m"
  shows "activeMembershipLocked m u org = Some ms \<longleftrightarrow>
    mem_active m u org \<and> member_row m u org (ms_ID ms) ms"
proof -
  let ?P = "\<lambda>ms. ms_UserID ms = u \<and> ms_OrganizationID ms = org"
  note rows = authz_wf_tables(2)[OF wf]
  have found: "List.find ?P (avals (ma_memberships m)) = Some x \<longleftrightarrow> member_row m u org (ms_ID x) x" for x
  proof
    assume "List.find ?P (avals (ma_memberships m)) = Some x"
    then show "member_row m u org (ms_ID x) x"
      using rows_find_Some[OF rows] by (auto simp: member_row_def)
  next
    assume x: "member_row m u org (ms_ID x) x"
    have "k' = ms_ID x" if "map_of (ma_memberships m) k' = Some v'" "?P v'" for k' v'
      using member_row_unique[OF wf x, of k' v'] that by (simp add: member_row_def)
    then show "List.find ?P (avals (ma_memberships m)) = Some x"
      using x by (intro rows_find[OF rows, of "ms_ID x"]) (auto simp: member_row_def)
  qed
  show ?thesis
  proof (cases "List.find ?P (avals (ma_memberships m))")
    case None
    then have "\<not> member_row m u org k x" for k x
      using rows_find_None[OF rows, of ?P] by (auto simp: member_row_def)
    then show ?thesis using None by (auto simp: activeMembershipLocked_def)
  next
    case (Some x)
    then have row: "member_row m u org (ms_ID x) x" using found by blast
    have act: "mem_active m u org \<longleftrightarrow> \<not> accountIDDeletedLocked m u \<and> live_org m org \<and>
        ms_Status x = MembershipActive"
      unfolding mem_active_def using row by (blast dest: member_row_unique[OF wf row])
    have "member_row m u org (ms_ID ms) ms \<longleftrightarrow> ms = x"
      using row by (blast dest: member_row_unique[OF wf row])
    then show ?thesis using Some
      by (auto simp: activeMembershipLocked_def act GrantsPermissions_iff split: if_splits)
  qed
qed

lemma activeMembershipLocked_None:
  assumes wf: "authz_wf m"
  shows "activeMembershipLocked m u org = None \<longleftrightarrow> \<not> mem_active m u org"
proof
  assume *: "activeMembershipLocked m u org = None"
  { fix k ms assume row: "member_row m u org k ms" and act: "mem_active m u org"
    then have "member_row m u org (ms_ID ms) ms"
      using rows_ok_id[OF authz_wf_tables(2)[OF wf]] by (auto simp: member_row_def)
    then have False using * activeMembershipLocked_Some[OF wf, of u org ms] act by simp }
  then show "\<not> mem_active m u org" unfolding mem_active_def by metis
next
  assume "\<not> mem_active m u org"
  then show "activeMembershipLocked m u org = None"
    using activeMembershipLocked_Some[OF wf, of u org] by (cases "activeMembershipLocked m u org") auto
qed

section \<open>The keys by organization\<close>

lemma keys_by_organization_distinct:
  "adistinct out \<Longrightarrow> adistinct (keys_by_organization m u out mss)"
  by (induction m u out mss rule: keys_by_organization.induct) (auto simp: Let_def)

lemma keys_by_organization_set:
  assumes "distinct (map (\<lambda>ms. (ms_OrganizationID ms, ms_UserID ms)) mss)"
    "\<And>ms. ms \<in> set mss \<Longrightarrow> ms_UserID ms = u \<Longrightarrow> alist_at out (ms_OrganizationID ms) = []"
  shows "set (alist_at (keys_by_organization m u out mss) org) =
    set (alist_at out org) \<union>
    {key. \<exists>ms \<in> set mss. ms_UserID ms = u \<and> ms_OrganizationID ms = org \<and>
       activeMembershipLocked m u org \<noteq> None \<and> key \<in> role_keys m (ms_ID ms)}"
  using assms
proof (induction m u out mss rule: keys_by_organization.induct)
  case (2 m u out ms mss)
  show ?case
  proof (cases "ms_UserID ms \<noteq> u \<or> activeMembershipLocked m u (ms_OrganizationID ms) = None")
    case True
    then have "keys_by_organization m u out (ms # mss) = keys_by_organization m u out mss" by auto
    moreover have "set (alist_at (keys_by_organization m u out mss) org) =
      set (alist_at out org) \<union>
      {key. \<exists>ms \<in> set mss. ms_UserID ms = u \<and> ms_OrganizationID ms = org \<and>
         activeMembershipLocked m u org \<noteq> None \<and> key \<in> role_keys m (ms_ID ms)}"
      using 2(1,2,4,5) True by auto
    ultimately show ?thesis using True by auto
  next
    case False
    let ?keys = "membership_keys m (ms_ID ms)"
    let ?out = "if ?keys \<noteq> [] then AList.update (ms_OrganizationID ms) ?keys out else out"
    have step: "keys_by_organization m u out (ms # mss) = keys_by_organization m u ?out mss"
      using False by (auto simp: Let_def)
    have empty: "alist_at out (ms_OrganizationID ms) = []" using 2(5)[of ms] False by simp
    have rest: "alist_at ?out (ms_OrganizationID x) = []" if "x \<in> set mss" "ms_UserID x = u" for x
    proof -
      have "ms_OrganizationID x \<noteq> ms_OrganizationID ms"
        using 2(4) that False by (auto simp: image_iff)
      then show ?thesis using 2(5)[of x] that by (simp add: amap_simps)
    qed
    have here: "set (alist_at ?out org) = set (alist_at out org) \<union>
        (if ms_OrganizationID ms = org then role_keys m (ms_ID ms) else {})"
      using empty by (auto simp: amap_simps simp flip: set_membership_keys)
    have "set (alist_at (keys_by_organization m u ?out mss) org) =
      set (alist_at ?out org) \<union>
      {key. \<exists>ms \<in> set mss. ms_UserID ms = u \<and> ms_OrganizationID ms = org \<and>
         activeMembershipLocked m u org \<noteq> None \<and> key \<in> role_keys m (ms_ID ms)}"
      using 2(3)[OF _ _ refl] 2(4) rest False by auto
    then show ?thesis unfolding step here using False by auto
  qed
qed simp

section \<open>The contract holds\<close>

interpretation mem_authz: authz_repository mem_authz_repo authz_wf mem_active mem_keys mem_system_keys
proof
  fix m u org
  assume wf: "authz_wf m"
  note rows = authz_wf_tables(2)[OF wf]
  show "ar_OrganizationPermissionKeys mem_authz_repo u org m = Inl (AuthzErr ErrNotMember)"
    if "\<not> mem_active m u org"
    using activeMembershipLocked_None[OF wf, of u org] that
    by (simp add: mem_authz_repo_def AuthzOrganizationPermissionKeys_def)
  show "\<exists>keys. ar_OrganizationPermissionKeys mem_authz_repo u org m = Inr keys \<and> set keys = mem_keys m u org"
    if act: "mem_active m u org"
  proof -
    obtain ms where ms: "activeMembershipLocked m u org = Some ms"
      using activeMembershipLocked_None[OF wf, of u org] act by auto
    then have "mem_keys m u org = role_keys m (ms_ID ms)"
      using activeMembershipLocked_Some[OF wf, of u org ms] mem_keys_row[OF wf, of u org "ms_ID ms" ms] by simp
    then show ?thesis using ms
      by (simp add: mem_authz_repo_def AuthzOrganizationPermissionKeys_def)
  qed
  show "\<exists>keys. ar_SystemRoleKeys mem_authz_repo u m = Inr keys \<and> set keys = mem_system_keys m u"
    by (simp add: mem_authz_repo_def AuthzSystemRoleKeys_def mem_system_keys_def)
  show "\<exists>out. ar_PermissionKeysByOrganization mem_authz_repo u m = Inr out \<and> adistinct out \<and>
      (\<forall>org. set (alist_at out org) = (if mem_active m u org then mem_keys m u org else {}))"
  proof -
    let ?mss = "avals (ma_memberships m)"
    let ?out = "keys_by_organization m u [] ?mss"
    have inj: "inj_on (\<lambda>ms. (ms_OrganizationID ms, ms_UserID ms)) (set ?mss)"
    proof (rule inj_onI)
      fix a b assume "a \<in> set ?mss" "b \<in> set ?mss"
        "(ms_OrganizationID a, ms_UserID a) = (ms_OrganizationID b, ms_UserID b)"
      then have "member_row m (ms_UserID b) (ms_OrganizationID b) (ms_ID a) a"
        "member_row m (ms_UserID b) (ms_OrganizationID b) (ms_ID b) b"
        by (simp_all add: member_row_def rows_ok_vals[OF rows])
      then show "a = b" using member_row_unique[OF wf] by blast
    qed
    have dist: "distinct (map (\<lambda>ms. (ms_OrganizationID ms, ms_UserID ms)) ?mss)"
      using inj rows_ok_distinct[OF rows] distinct_map by blast
    have scan: "(\<exists>ms \<in> set ?mss. ms_UserID ms = u \<and> ms_OrganizationID ms = org \<and> key \<in> role_keys m (ms_ID ms)) \<longleftrightarrow>
        key \<in> mem_keys m u org" for key org
      unfolding set_map mem_keys_def member_row_def wf_rows_bex[OF wf] using rows_ok_id[OF rows] by blast
    have "set (alist_at ?out org) = (if mem_active m u org then mem_keys m u org else {})" for org
      unfolding keys_by_organization_set[OF dist, of u "[]", simplified alist_at_Nil, OF refl]
      using activeMembershipLocked_None[OF wf, of u org] scan[of org]
      by (cases "mem_active m u org") (simp_all del: set_map)
    then show ?thesis
      by (simp add: mem_authz_repo_def AuthzPermissionKeysByOrganization_def keys_by_organization_distinct)
  qed
qed

lemma Authorize_granted:
  assumes "authz_wf m"
  shows "(\<exists>g. Authorize mem_authz_repo req m = Inr g) \<longleftrightarrow>
    (rq_Permission req \<in> set (InScope ScopeOrganization) \<and> rq_Org req \<noteq> uuid_Nil \<and>
       mem_active m (rq_Actor req) (rq_Org req) \<and>
       rq_Permission req \<in> mem_keys m (rq_Actor req) (rq_Org req)) \<or>
    (rq_Permission req \<in> set (InScope ScopeSystem) \<and> rq_Org req = uuid_Nil \<and>
       RolePlatformAdmin \<in> mem_system_keys m (rq_Actor req))"
  by (rule mem_authz.authorized_iff[OF assms])

end
