(* ===== verification/Orgs_Service.thy ===== *)
theory Orgs_Service
  imports Orgs_Types
begin

text \<open>
  The organization rules, \<open>internal/domain/orgs\<close>: \<open>service.go\<close>, \<open>leave.go\<close>,
  \<open>system_roles.go\<close>, \<open>provision.go\<close>, \<open>invitation.go\<close> and \<open>invite_many.go\<close>. The service holds
  three interfaces (\<open>Repository\<close>, \<open>Directory\<close>, \<open>Provisioner\<close>); each is the record of its
  methods over a store, so the methods below are the code over any implementation.

  \<open>strings.ToLower\<close> beyond ASCII is the parameter \<open>lu\<close> of \<open>Go_Strings\<close>.
\<close>

section \<open>The interfaces\<close>

record 's Repository =
  or_Organization :: "uuid \<Rightarrow> 's \<Rightarrow> err + Organization"
  or_UpdateOrganization :: "Call \<Rightarrow> uuid \<Rightarrow> string \<Rightarrow> ('s, err, unit) prog"
  or_DeleteOrganization :: "Call \<Rightarrow> uuid \<Rightarrow> ('s, err, unit) prog"
  or_Members :: "uuid \<Rightarrow> int \<Rightarrow> int \<Rightarrow> 's \<Rightarrow> err + Member list"
  or_Member :: "uuid \<Rightarrow> uuid \<Rightarrow> 's \<Rightarrow> err + Member"
  or_MemberByUser :: "uuid \<Rightarrow> uuid \<Rightarrow> 's \<Rightarrow> err + Member"
  or_MemberPermissions :: "uuid \<Rightarrow> uuid \<Rightarrow> 's \<Rightarrow> err + permission list"
  or_AddMember :: "Call \<Rightarrow> uuid \<Rightarrow> uuid \<Rightarrow> uuid list \<Rightarrow> uuid \<Rightarrow> time \<Rightarrow> ('s, err, Member) prog"
  or_SetMemberStatus :: "Call \<Rightarrow> uuid \<Rightarrow> uuid \<Rightarrow> MembershipStatus \<Rightarrow> time \<Rightarrow> OwnerGuard \<Rightarrow> ('s, err, unit) prog"
  or_RemoveMember :: "Call \<Rightarrow> uuid \<Rightarrow> uuid \<Rightarrow> string \<Rightarrow> OwnerGuard \<Rightarrow> ('s, err, unit) prog"
  or_ReplaceMemberRoles :: "Call \<Rightarrow> uuid \<Rightarrow> uuid \<Rightarrow> uuid list \<Rightarrow> OwnerGuard \<Rightarrow> ('s, err, unit) prog"
  or_Roles :: "uuid \<Rightarrow> int \<Rightarrow> int \<Rightarrow> 's \<Rightarrow> err + RoleView list"
  or_Role :: "uuid \<Rightarrow> uuid \<Rightarrow> 's \<Rightarrow> err + RoleView"
  or_RoleByKey :: "uuid \<Rightarrow> string \<Rightarrow> 's \<Rightarrow> err + RoleView"
  or_CreateRole :: "Call \<Rightarrow> uuid \<Rightarrow> Role \<Rightarrow> permission list \<Rightarrow> ('s, err, RoleView) prog"
  or_UpdateRole :: "Call \<Rightarrow> uuid \<Rightarrow> uuid \<Rightarrow> string \<Rightarrow> string \<Rightarrow> ('s, err, unit) prog"
  or_DeleteRole :: "Call \<Rightarrow> uuid \<Rightarrow> uuid \<Rightarrow> RoleGuard \<Rightarrow> ('s, err, unit) prog"
  or_ReplaceRolePermissions :: "Call \<Rightarrow> uuid \<Rightarrow> uuid \<Rightarrow> permission list \<Rightarrow> ('s, err, unit) prog"
  or_InviteMember :: "Call \<Rightarrow> uuid \<Rightarrow> string \<Rightarrow> string \<Rightarrow> uuid list \<Rightarrow> uuid \<Rightarrow> time \<Rightarrow> time \<Rightarrow>
    ('s, err, InvitationView) prog"
  or_InvitationsForOrganization :: "uuid \<Rightarrow> time \<Rightarrow> 's \<Rightarrow> err + InvitationView list"
  or_ReissueInvitation :: "Call \<Rightarrow> uuid \<Rightarrow> uuid \<Rightarrow> string \<Rightarrow> time \<Rightarrow> ('s, err, InvitationView) prog"
  or_WithdrawInvitation :: "Call \<Rightarrow> uuid \<Rightarrow> uuid \<Rightarrow> ('s, err, unit) prog"

record 's Directory =
  od_MembershipsForUser :: "uuid \<Rightarrow> 's \<Rightarrow> err + MembershipView list"
  od_InvitationByToken :: "string \<Rightarrow> time \<Rightarrow> 's \<Rightarrow> err + InvitationView"
  od_AcceptInvitation :: "Call \<Rightarrow> uuid \<Rightarrow> uuid \<Rightarrow> time \<Rightarrow> ('s, err, unit) prog"
  od_DeclineInvitation :: "Call \<Rightarrow> uuid \<Rightarrow> ('s, err, unit) prog"
  od_InvitationsForEmail :: "string \<Rightarrow> time \<Rightarrow> 's \<Rightarrow> err + InvitationView list"

record 's Provisioner =
  op_OrganizationBySlug :: "string \<Rightarrow> 's \<Rightarrow> err + Organization"
  op_CreateOrganization :: "Call \<Rightarrow> Organization \<Rightarrow> RoleDefinition list \<Rightarrow> ('s, err, Organization) prog"
  op_AllOrganizations :: "OrganizationFilter \<Rightarrow> int \<Rightarrow> int \<Rightarrow> 's \<Rightarrow> err + OrganizationSummary list"
  op_GrantSystemRole :: "Call \<Rightarrow> uuid \<Rightarrow> role_key \<Rightarrow> uuid \<Rightarrow> ('s, err, unit) prog"
  op_RevokeSystemRole :: "Call \<Rightarrow> uuid \<Rightarrow> role_key \<Rightarrow> ('s, err, unit) prog"
  op_SystemRoleHolders :: "'s \<Rightarrow> err + SystemRoleHolder list"

record 's OrgsService =
  sv_repo :: "'s Repository"
  sv_dir :: "'s Directory"
  sv_provisioner :: "'s Provisioner"

section \<open>Checks\<close>

definition normalizeEmail :: "(string \<Rightarrow> string) \<Rightarrow> string \<Rightarrow> string" where
  "normalizeEmail lu email = to_lower lu (trim_space email)"

definition dedupe :: "permission list \<Rightarrow> permission list" where
  "dedupe permissions = keep_first [] permissions"

definition clampPage :: "int \<Rightarrow> int \<Rightarrow> int \<Rightarrow> int \<times> int" where
  "clampPage limit offset max' =
     (let limit = (if limit \<le> 0 \<or> max' < limit then max' else limit);
          offset = (if offset < 0 then 0 else offset)
      in (limit, offset))"

definition MaxMemberPage :: int where "MaxMemberPage = 100"
definition MaxRolePage :: int where "MaxRolePage = 100"
definition MaxOrganizationPage :: int where "MaxOrganizationPage = 100"

fun ensureOrganizationScoped :: "permission list \<Rightarrow> err + unit" where
  "ensureOrganizationScoped [] = Inr ()"
| "ensureOrganizationScoped (perm # perms) =
     (case Lookup perm of
        None \<Rightarrow> Inl (AuthzErr ErrUnknownPermission)
      | Some def \<Rightarrow>
          if d_Scope def \<noteq> ScopeOrganization then Inl (AuthzErr ErrWrongScope)
          else ensureOrganizationScoped perms)"

definition replacingDropsOwner :: "'s OrgsService \<Rightarrow> uuid \<Rightarrow> uuid list \<Rightarrow> 's \<Rightarrow> err + bool" where
  "replacingDropsOwner S orgID roleIDs s =
     (case or_RoleByKey (sv_repo S) orgID RoleOwner s of
        Inl e \<Rightarrow> if e = orgs_not_found then Inr False else Inl e
      | Inr owner \<Rightarrow> Inr (r_ID (rv_Role owner) \<notin> set roleIDs))"

definition ensureCanAffectMember :: "'s OrgsService \<Rightarrow> grant_ptr \<Rightarrow> Member \<Rightarrow> 's \<Rightarrow> err + unit" where
  "ensureCanAffectMember S grant member s =
     (if mb_UserID member \<noteq> uuid_Nil \<and> mb_UserID member = Actor grant then Inr ()
      else (case or_MemberPermissions (sv_repo S) (OrganizationID grant) (mb_ID member) s of
          Inl e \<Rightarrow> Inl e
        | Inr permissions \<Rightarrow> EnsureCanAffect grant permissions))"

fun ensureRolesAreGrantable :: "'s OrgsService \<Rightarrow> grant_ptr \<Rightarrow> uuid list \<Rightarrow> 's \<Rightarrow> err + unit" where
  "ensureRolesAreGrantable S grant [] s = Inr ()"
| "ensureRolesAreGrantable S grant (roleID # roleIDs) s =
     (case or_Role (sv_repo S) (OrganizationID grant) roleID s of
        Inl e \<Rightarrow> Inl e
      | Inr role \<Rightarrow>
          (case EnsureCanGrant grant (rv_Permissions role) of
             Inl e \<Rightarrow> Inl e
           | Inr _ \<Rightarrow> ensureRolesAreGrantable S grant roleIDs s))"

definition lastHolderOf :: "'s OrgsService \<Rightarrow> role_key \<Rightarrow> uuid \<Rightarrow> 's \<Rightarrow> err + bool" where
  "lastHolderOf S key userID s =
     (case op_SystemRoleHolders (sv_provisioner S) s of
        Inl e \<Rightarrow> Inl e
      | Inr holders \<Rightarrow> Inr (\<not> (\<exists>h \<in> set holders. sh_RoleKey h = key \<and> sh_UserID h \<noteq> userID)))"

section \<open>Organizations\<close>

definition ServiceOrganization :: "'s OrgsService \<Rightarrow> uuid \<Rightarrow> 's \<Rightarrow> err + Organization" where
  "ServiceOrganization S orgID = or_Organization (sv_repo S) orgID"

definition ServiceMine :: "'s OrgsService \<Rightarrow> uuid \<Rightarrow> 's \<Rightarrow> err + MembershipView list" where
  "ServiceMine S userID = od_MembershipsForUser (sv_dir S) userID"

definition Rename :: "'s OrgsService \<Rightarrow> Call \<Rightarrow> grant_ptr \<Rightarrow> string \<Rightarrow> ('s, err, Organization) prog" where
  "Rename S c grant name =
     (let name = trim_space name in
      if name = [] \<or> rune_count name > 100 then refuse (OrgsErr ErrInvalidName)
      else bindp (or_UpdateOrganization (sv_repo S) c (OrganizationID grant) name)
        (\<lambda>_. query (or_Organization (sv_repo S) (OrganizationID grant))))"

definition OrgsDelete :: "'s OrgsService \<Rightarrow> Call \<Rightarrow> grant_ptr \<Rightarrow> ('s, err, unit) prog" where
  "OrgsDelete S c grant = or_DeleteOrganization (sv_repo S) c (OrganizationID grant)"

section \<open>Members\<close>

definition ServiceMembers :: "'s OrgsService \<Rightarrow> grant_ptr \<Rightarrow> int \<Rightarrow> int \<Rightarrow> 's \<Rightarrow> err + Member list" where
  "ServiceMembers S grant limit offset s =
     (let (limit, offset) = clampPage limit offset MaxMemberPage
      in or_Members (sv_repo S) (OrganizationID grant) limit offset s)"

definition ServiceMember :: "'s OrgsService \<Rightarrow> grant_ptr \<Rightarrow> uuid \<Rightarrow> 's \<Rightarrow> err + Member" where
  "ServiceMember S grant memberID = or_Member (sv_repo S) (OrganizationID grant) memberID"

definition SetMemberStatus ::
    "'s OrgsService \<Rightarrow> Call \<Rightarrow> grant_ptr \<Rightarrow> uuid \<Rightarrow> MembershipStatus \<Rightarrow> ('s, err, unit) prog" where
  "SetMemberStatus S c grant memberID status =
     (if status \<noteq> MembershipActive \<and> status \<noteq> MembershipSuspended then refuse (OrgsErr ErrInvalidStatus)
      else bindp (query (or_Member (sv_repo S) (OrganizationID grant) memberID)) (\<lambda>member.
        bindp (query (ensureCanAffectMember S grant member)) (\<lambda>_.
          or_SetMemberStatus (sv_repo S) c (OrganizationID grant) memberID status (c_now c ClockService)
            (RefuseLastOwnerLoss (\<not> GrantsPermissions status)))))"

definition RemoveMember :: "'s OrgsService \<Rightarrow> Call \<Rightarrow> grant_ptr \<Rightarrow> uuid \<Rightarrow> ('s, err, unit) prog" where
  "RemoveMember S c grant memberID =
     attempt (query (or_Member (sv_repo S) (OrganizationID grant) memberID)) (\<lambda>r.
       case r of
         Inl e \<Rightarrow>
           if e = orgs_not_found
           then or_RemoveMember (sv_repo S) c (OrganizationID grant) memberID ActionMemberRemoved
                  (RefuseLastOwnerLoss True)
           else refuse e
       | Inr member \<Rightarrow>
           bindp (query (ensureCanAffectMember S grant member)) (\<lambda>_.
             or_RemoveMember (sv_repo S) c (OrganizationID grant) memberID ActionMemberRemoved
               (RefuseLastOwnerLoss True)))"

definition SetMemberRoles ::
    "'s OrgsService \<Rightarrow> Call \<Rightarrow> grant_ptr \<Rightarrow> uuid \<Rightarrow> uuid list \<Rightarrow> ('s, err, Member) prog" where
  "SetMemberRoles S c grant memberID roleIDs =
     bindp (query (or_Member (sv_repo S) (OrganizationID grant) memberID)) (\<lambda>member.
     bindp (query (ensureCanAffectMember S grant member)) (\<lambda>_.
     bindp (query (ensureRolesAreGrantable S grant roleIDs)) (\<lambda>_.
     bindp (query (replacingDropsOwner S (OrganizationID grant) roleIDs)) (\<lambda>losing.
     bindp (or_ReplaceMemberRoles (sv_repo S) c (OrganizationID grant) memberID roleIDs
              (RefuseLastOwnerLoss losing)) (\<lambda>_.
     query (or_Member (sv_repo S) (OrganizationID grant) memberID))))))"

section \<open>Roles\<close>

definition ServiceRoles :: "'s OrgsService \<Rightarrow> grant_ptr \<Rightarrow> int \<Rightarrow> int \<Rightarrow> 's \<Rightarrow> err + RoleView list" where
  "ServiceRoles S grant limit offset s =
     (let (limit, offset) = clampPage limit offset MaxRolePage
      in or_Roles (sv_repo S) (OrganizationID grant) limit offset s)"

definition ServiceRole :: "'s OrgsService \<Rightarrow> grant_ptr \<Rightarrow> uuid \<Rightarrow> 's \<Rightarrow> err + RoleView" where
  "ServiceRole S grant roleID = or_Role (sv_repo S) (OrganizationID grant) roleID"

definition CreateRole ::
    "'s OrgsService \<Rightarrow> Call \<Rightarrow> grant_ptr \<Rightarrow> string \<Rightarrow> string \<Rightarrow> string \<Rightarrow> permission list \<Rightarrow>
     ('s, err, RoleView) prog" where
  "CreateRole S c grant key name description permissions =
     bindp (ensure (ensureOrganizationScoped permissions)) (\<lambda>_.
     bindp (ensure (EnsureCanGrant grant permissions)) (\<lambda>_.
     or_CreateRole (sv_repo S) c (OrganizationID grant)
       \<lparr>r_ID = uuid_Nil, r_OrganizationID = OrganizationID grant, r_Key = trim_space key,
        r_Name = trim_space name, r_Description = trim_space description, r_IsSystem = False\<rparr>
       (dedupe permissions)))"

definition UpdateRole ::
    "'s OrgsService \<Rightarrow> Call \<Rightarrow> grant_ptr \<Rightarrow> uuid \<Rightarrow> string \<Rightarrow> string \<Rightarrow> ('s, err, RoleView) prog" where
  "UpdateRole S c grant roleID name description =
     bindp (query (or_Role (sv_repo S) (OrganizationID grant) roleID)) (\<lambda>role.
       if r_IsSystem (rv_Role role) then refuse (OrgsErr ErrRoleProtected)
       else let name = trim_space name in
         if name = [] \<or> rune_count name > 100 then refuse (OrgsErr ErrInvalidName)
         else bindp (or_UpdateRole (sv_repo S) c (OrganizationID grant) roleID name (trim_space description))
           (\<lambda>_. query (or_Role (sv_repo S) (OrganizationID grant) roleID)))"

definition SetRolePermissions ::
    "'s OrgsService \<Rightarrow> Call \<Rightarrow> grant_ptr \<Rightarrow> uuid \<Rightarrow> permission list \<Rightarrow> ('s, err, RoleView) prog" where
  "SetRolePermissions S c grant roleID permissions =
     bindp (query (or_Role (sv_repo S) (OrganizationID grant) roleID)) (\<lambda>role.
       if r_IsSystem (rv_Role role) then refuse (OrgsErr ErrRoleProtected)
       else
         bindp (ensure (ensureOrganizationScoped permissions)) (\<lambda>_.
         bindp (ensure (EnsureCanGrant grant permissions)) (\<lambda>_.
         bindp (or_ReplaceRolePermissions (sv_repo S) c (OrganizationID grant) roleID (dedupe permissions))
           (\<lambda>_. query (or_Role (sv_repo S) (OrganizationID grant) roleID)))))"

definition DeleteRole :: "'s OrgsService \<Rightarrow> Call \<Rightarrow> grant_ptr \<Rightarrow> uuid \<Rightarrow> ('s, err, unit) prog" where
  "DeleteRole S c grant roleID =
     bindp (query (or_Role (sv_repo S) (OrganizationID grant) roleID)) (\<lambda>role.
       if r_IsSystem (rv_Role role) then refuse (OrgsErr ErrRoleProtected)
       else or_DeleteRole (sv_repo S) c (OrganizationID grant) roleID RefuseRoleInUse)"

section \<open>Leaving\<close>

fun leave_loop :: "'s OrgsService \<Rightarrow> Call \<Rightarrow> uuid \<Rightarrow> MembershipView list \<Rightarrow> ('s, err, unit) prog" where
  "leave_loop S c membershipID [] = refuse orgs_not_found"
| "leave_loop S c membershipID (membership # mine) =
     (if mv_ID membership \<noteq> membershipID then leave_loop S c membershipID mine
      else or_RemoveMember (sv_repo S) c (org_ID (mv_Organization membership)) membershipID
             ActionMemberLeft (RefuseLastOwnerLoss True))"

definition Leave :: "'s OrgsService \<Rightarrow> Call \<Rightarrow> uuid \<Rightarrow> uuid \<Rightarrow> ('s, err, unit) prog" where
  "Leave S c userID membershipID =
     bindp (query (od_MembershipsForUser (sv_dir S) userID)) (\<lambda>mine. leave_loop S c membershipID mine)"

section \<open>System roles\<close>

definition ServiceSystemRoleHolders :: "'s OrgsService \<Rightarrow> 's \<Rightarrow> err + SystemRoleHolder list" where
  "ServiceSystemRoleHolders S = op_SystemRoleHolders (sv_provisioner S)"

definition GrantSystemRole :: "'s OrgsService \<Rightarrow> Call \<Rightarrow> grant_ptr \<Rightarrow> uuid \<Rightarrow> role_key \<Rightarrow> ('s, err, unit) prog" where
  "GrantSystemRole S c grant userID key =
     (if \<not> IsSystemScopeRole key then refuse (OrgsErr ErrInvalidSystemRole)
      else op_GrantSystemRole (sv_provisioner S) c userID key (Actor grant))"

definition RevokeSystemRole :: "'s OrgsService \<Rightarrow> Call \<Rightarrow> grant_ptr \<Rightarrow> uuid \<Rightarrow> role_key \<Rightarrow> ('s, err, unit) prog" where
  "RevokeSystemRole S c grant userID key =
     (if \<not> IsSystemScopeRole key then refuse (OrgsErr ErrInvalidSystemRole)
      else if userID = Actor grant then
        bindp (query (lastHolderOf S key userID)) (\<lambda>alone.
          if alone then refuse (OrgsErr ErrCannotRevokeOwnLastSystemRole)
          else op_RevokeSystemRole (sv_provisioner S) c userID key)
      else op_RevokeSystemRole (sv_provisioner S) c userID key)"

section \<open>Provisioning\<close>

definition DefaultOrganizationName :: string where
  "DefaultOrganizationName = ''Default''"

definition EnsureDefaultOrganization :: "'s OrgsService \<Rightarrow> Call \<Rightarrow> ('s, err, Organization) prog" where
  "EnsureDefaultOrganization S c =
     attempt (query (op_OrganizationBySlug (sv_provisioner S) DefaultOrganizationSlug)) (\<lambda>r.
       case r of
         Inr existing \<Rightarrow> ok existing
       | Inl e \<Rightarrow>
           if e \<noteq> orgs_not_found then refuse e
           else
             attempt (op_CreateOrganization (sv_provisioner S) c
               \<lparr>org_ID = uuid_Nil, org_DeletedAt = None, org_IsProtected = True,
                org_Slug = DefaultOrganizationSlug, org_Name = DefaultOrganizationName\<rparr>
               OrganizationRoles) (\<lambda>r.
               case r of
                 Inr created \<Rightarrow> ok created
               | Inl e \<Rightarrow>
                   if e = OrgsErr ErrSlugTaken
                   then query (op_OrganizationBySlug (sv_provisioner S) DefaultOrganizationSlug)
                   else refuse e))"

definition hasRowIn ::
    "'s OrgsService \<Rightarrow> (string \<Rightarrow> string) \<Rightarrow> Call \<Rightarrow> uuid \<Rightarrow> string \<Rightarrow> uuid \<Rightarrow> 's \<Rightarrow> err + bool" where
  "hasRowIn S lu c userID email orgID s =
     (case od_MembershipsForUser (sv_dir S) userID s of
        Inl e \<Rightarrow> Inl e
      | Inr memberships \<Rightarrow>
          if \<exists>v \<in> set memberships. org_ID (mv_Organization v) = orgID then Inr True
          else (case od_InvitationsForEmail (sv_dir S) (normalizeEmail lu email) (c_now c ClockService) s of
              Inl e \<Rightarrow> Inl e
            | Inr invitations \<Rightarrow> Inr (\<exists>v \<in> set invitations. org_ID (iv_Organization v) = orgID)))"

definition JoinDefaultOrganization ::
    "'s OrgsService \<Rightarrow> (string \<Rightarrow> string) \<Rightarrow> Call \<Rightarrow> uuid \<Rightarrow> string \<Rightarrow> ('s, err, unit) prog" where
  "JoinDefaultOrganization S lu c userID email =
     bindp (EnsureDefaultOrganization S c) (\<lambda>org.
     bindp (query (hasRowIn S lu c userID email (org_ID org))) (\<lambda>waiting.
       if waiting then ok ()
       else
         bindp (query (or_RoleByKey (sv_repo S) (org_ID org) RoleMember)) (\<lambda>role.
         attempt (or_AddMember (sv_repo S) c (org_ID org) userID [r_ID (rv_Role role)] uuid_Nil
             (c_now c ClockService2)) (\<lambda>r.
           case r of
             Inr _ \<Rightarrow> ok ()
           | Inl e \<Rightarrow> if e = OrgsErr ErrAlreadyMember then ok () else refuse e))))"

definition ServiceAllOrganizations ::
    "'s OrgsService \<Rightarrow> OrganizationFilter \<Rightarrow> int \<Rightarrow> int \<Rightarrow> 's \<Rightarrow> err + OrganizationSummary list" where
  "ServiceAllOrganizations S flt limit offset =
     (let limit = (if limit \<le> 0 \<or> MaxOrganizationPage < limit then MaxOrganizationPage else limit);
          offset = (if offset < 0 then 0 else offset)
      in op_AllOrganizations (sv_provisioner S) flt limit offset)"

definition ServiceCreateOrganization ::
    "'s OrgsService \<Rightarrow> Call \<Rightarrow> string \<Rightarrow> string \<Rightarrow> ('s, err, Organization) prog" where
  "ServiceCreateOrganization S c slug name =
     (let name = trim_space name in
      if name = [] \<or> rune_count name > 100 then refuse (OrgsErr ErrInvalidName)
      else op_CreateOrganization (sv_provisioner S) c
        \<lparr>org_ID = uuid_Nil, org_DeletedAt = None, org_IsProtected = False,
         org_Slug = trim_space slug, org_Name = name\<rparr> OrganizationRoles)"

definition DeleteOrganizationByID :: "'s OrgsService \<Rightarrow> Call \<Rightarrow> uuid \<Rightarrow> ('s, err, unit) prog" where
  "DeleteOrganizationByID S c orgID = or_DeleteOrganization (sv_repo S) c orgID"

definition grantOwnership :: "'s OrgsService \<Rightarrow> Call \<Rightarrow> uuid \<Rightarrow> uuid \<Rightarrow> ('s, err, unit) prog" where
  "grantOwnership S c orgID userID =
     bindp (query (or_RoleByKey (sv_repo S) orgID RoleOwner)) (\<lambda>owner.
     attempt (query (or_MemberByUser (sv_repo S) orgID userID)) (\<lambda>r.
       case r of
         Inr member \<Rightarrow>
           or_ReplaceMemberRoles (sv_repo S) c orgID (mb_ID member) [r_ID (rv_Role owner)]
             (RefuseLastOwnerLoss False)
       | Inl e \<Rightarrow>
           if e = orgs_not_found
           then bindp (or_AddMember (sv_repo S) c orgID userID [r_ID (rv_Role owner)] uuid_Nil
                  (c_now c ClockService)) (\<lambda>_. ok ())
           else refuse e))"

definition PromoteToOwner :: "'s OrgsService \<Rightarrow> Call \<Rightarrow> uuid \<Rightarrow> uuid \<Rightarrow> bool \<Rightarrow> ('s, err, unit) prog" where
  "PromoteToOwner S c orgID userID alsoPlatformAdmin =
     bindp (grantOwnership S c orgID userID) (\<lambda>_.
       if \<not> alsoPlatformAdmin then ok ()
       else op_GrantSystemRole (sv_provisioner S) c userID RolePlatformAdmin uuid_Nil)"

definition AppointOwner :: "'s OrgsService \<Rightarrow> Call \<Rightarrow> uuid \<Rightarrow> uuid \<Rightarrow> ('s, err, unit) prog" where
  "AppointOwner S c orgID userID =
     bindp (query (or_Organization (sv_repo S) orgID)) (\<lambda>_. grantOwnership S c orgID userID)"

section \<open>Invitations\<close>

definition InvitationTTL :: int where
  "InvitationTTL = hours (7 * 24)"

definition HashInvitationToken :: "string \<Rightarrow> string" where
  "HashInvitationToken token = hex_encode (sha256 token)"

declare HashInvitationToken_def [code del]

definition newInvitationToken :: "Call \<Rightarrow> err + string" where
  "newInvitationToken c =
     (case c_token c of
        None \<Rightarrow> Inl (DriverErr ''orgs: generate invitation token'')
      | Some buf \<Rightarrow> Inr (raw_url_encode buf))"

definition Invite ::
    "'s OrgsService \<Rightarrow> (string \<Rightarrow> string) \<Rightarrow> Call \<Rightarrow> grant_ptr \<Rightarrow> string \<Rightarrow>
     uuid list \<Rightarrow> ('s, err, InvitationView \<times> string) prog" where
  "Invite S lu c grant email roleIDs =
     (let email = normalizeEmail lu email in
      if email = [] then refuse (OrgsErr ErrInvalidEmail)
      else
        bindp (query (ensureRolesAreGrantable S grant roleIDs)) (\<lambda>_.
        bindp (query (\<lambda>_. newInvitationToken c)) (\<lambda>token.
        let now = c_now c ClockService in
        bindp (or_InviteMember (sv_repo S) c (OrganizationID grant) email (HashInvitationToken token)
                roleIDs (Actor grant) (now + InvitationTTL) now) (\<lambda>invitation.
        ok (invitation, token)))))"

definition pendingInvitation ::
    "'s OrgsService \<Rightarrow> Call \<Rightarrow> string \<Rightarrow> 's \<Rightarrow> err + InvitationView" where
  "pendingInvitation S c token s =
     (let hash = HashInvitationToken token; now = c_now c ClockService in
      case od_InvitationByToken (sv_dir S) hash now s of
        Inr invitation \<Rightarrow> Inr invitation
      | Inl e \<Rightarrow>
          if e \<noteq> orgs_not_found then Inl e
          else (case od_InvitationByToken (sv_dir S) hash zero_time s of
              Inr expired \<Rightarrow>
                if iv_ExpiresAt expired < now then Inl (OrgsErr ErrInvitationExpired)
                else Inl orgs_not_found
            | Inl _ \<Rightarrow> Inl orgs_not_found))"

definition AcceptInvitation ::
    "'s OrgsService \<Rightarrow> (string \<Rightarrow> string) \<Rightarrow> Call \<Rightarrow> uuid \<Rightarrow> string \<Rightarrow> string \<Rightarrow>
     ('s, err, unit) prog" where
  "AcceptInvitation S lu c userID accountEmail token =
     bindp (query (pendingInvitation S c token)) (\<lambda>invitation.
       if iv_Email invitation \<noteq> normalizeEmail lu accountEmail
       then refuse (OrgsErr ErrInvitationAddressMismatch)
       else od_AcceptInvitation (sv_dir S) c (iv_ID invitation) userID (c_now c ClockService2))"

definition DeclineInvitation ::
    "'s OrgsService \<Rightarrow> Call \<Rightarrow> string \<Rightarrow> ('s, err, unit) prog" where
  "DeclineInvitation S c token =
     bindp (query (pendingInvitation S c token)) (\<lambda>invitation.
       od_DeclineInvitation (sv_dir S) c (iv_ID invitation))"

definition MyInvitations ::
    "'s OrgsService \<Rightarrow> (string \<Rightarrow> string) \<Rightarrow> Call \<Rightarrow> string \<Rightarrow> 's \<Rightarrow> err + InvitationView list" where
  "MyInvitations S lu c accountEmail =
     od_InvitationsForEmail (sv_dir S) (normalizeEmail lu accountEmail) (c_now c ClockService)"

definition Invitations :: "'s OrgsService \<Rightarrow> Call \<Rightarrow> grant_ptr \<Rightarrow> 's \<Rightarrow> err + InvitationView list" where
  "Invitations S c grant =
     or_InvitationsForOrganization (sv_repo S) (OrganizationID grant) (c_now c ClockService)"

definition WithdrawInvitation :: "'s OrgsService \<Rightarrow> Call \<Rightarrow> grant_ptr \<Rightarrow> uuid \<Rightarrow> ('s, err, unit) prog" where
  "WithdrawInvitation S c grant invitationID =
     or_WithdrawInvitation (sv_repo S) c (OrganizationID grant) invitationID"

definition Reissue ::
    "'s OrgsService \<Rightarrow> Call \<Rightarrow> grant_ptr \<Rightarrow> uuid \<Rightarrow>
     ('s, err, InvitationView \<times> string) prog" where
  "Reissue S c grant invitationID =
     bindp (query (\<lambda>_. newInvitationToken c)) (\<lambda>token.
     bindp (or_ReissueInvitation (sv_repo S) c (OrganizationID grant) invitationID
             (HashInvitationToken token) (c_now c ClockService + InvitationTTL)) (\<lambda>invitation.
     ok (invitation, token)))"

section \<open>A batch of invitations\<close>

record InviteOutcome =
  io_Email :: string
  io_Invitation :: "InvitationView option"
  io_Token :: string
  io_Err :: "err option"

definition MaxInvitesPerRequest :: nat where
  "MaxInvitesPerRequest = 50"

text \<open>The loop over the addresses before anything is written.\<close>

fun check_batch :: "(string \<Rightarrow> string) \<Rightarrow> string list \<Rightarrow> string list \<Rightarrow> err + unit" where
  "check_batch lu seen [] = Inr ()"
| "check_batch lu seen (email # emails) =
     (let normalized = normalizeEmail lu email in
      if normalized = [] then Inl (OrgsErr ErrInvalidEmail)
      else if normalized \<in> set seen then Inl (OrgsErr ErrInvalidInvitationBatch)
      else check_batch lu (normalized # seen) emails)"

text \<open>The loop that invites; the \<open>i\<close>-th address has the surroundings \<open>cs i\<close>.\<close>

fun invite_loop ::
    "'s OrgsService \<Rightarrow> (string \<Rightarrow> string) \<Rightarrow> (nat \<Rightarrow> Call) \<Rightarrow> grant_ptr \<Rightarrow>
     uuid list \<Rightarrow> nat \<Rightarrow> InviteOutcome list \<Rightarrow> string list \<Rightarrow> ('s, err, InviteOutcome list) prog" where
  "invite_loop S lu cs grant roleIDs i outcomes [] = ok outcomes"
| "invite_loop S lu cs grant roleIDs i outcomes (email # emails) =
     attempt (Invite S lu (cs i) grant email roleIDs) (\<lambda>r.
       case r of
         Inr (invitation, token) \<Rightarrow>
           invite_loop S lu cs grant roleIDs (Suc i)
             (outcomes @ [\<lparr>io_Email = iv_Email invitation, io_Invitation = Some invitation,
                           io_Token = token, io_Err = None\<rparr>]) emails
       | Inl e \<Rightarrow>
           if e = OrgsErr ErrAlreadyMember
           then invite_loop S lu cs grant roleIDs (Suc i)
             (outcomes @ [\<lparr>io_Email = normalizeEmail lu email, io_Invitation = None,
                           io_Token = [], io_Err = Some e\<rparr>]) emails
           else refuse e)"

definition InviteMany ::
    "'s OrgsService \<Rightarrow> (string \<Rightarrow> string) \<Rightarrow> (nat \<Rightarrow> Call) \<Rightarrow> grant_ptr \<Rightarrow>
     string list \<Rightarrow> uuid list \<Rightarrow> ('s, err, InviteOutcome list) prog" where
  "InviteMany S lu cs grant emails roleIDs =
     (if length emails = 0 \<or> MaxInvitesPerRequest < length emails
      then refuse (OrgsErr ErrInvalidInvitationBatch)
      else
        bindp (ensure (check_batch lu [] emails)) (\<lambda>_.
        bindp (query (ensureRolesAreGrantable S grant roleIDs)) (\<lambda>_.
        invite_loop S lu cs grant roleIDs 0 [] emails)))"

end
