(* ===== verification/Orgs_Contract.thy ===== *)
theory Orgs_Contract
  imports Orgs_Service
begin

text \<open>
  What the organization service relies on when it decides who may do what to whom: the contract
  of \<open>orgs.Repository\<close> as far as the two authority rules need it, and the rules that follow for
  any implementation. An administrator hands out nothing they do not hold, and acts on nobody
  who holds something they do not.
\<close>

section \<open>The contract\<close>

text \<open>
  The abstract view of a store: the keys a role of an organization carries, the account behind a
  membership the organization can see, and the keys a membership's roles add up to.
\<close>

locale orgs_authority =
  fixes S :: "'s OrgsService"
    and wf :: "'s \<Rightarrow> bool"
    and role_keys_of :: "'s \<Rightarrow> uuid \<Rightarrow> uuid \<Rightarrow> string set option"
    and member_user :: "'s \<Rightarrow> uuid \<Rightarrow> uuid \<Rightarrow> uuid option"
    and member_keys :: "'s \<Rightarrow> uuid \<Rightarrow> uuid \<Rightarrow> string set"
  assumes role: "wf s \<Longrightarrow> or_Role (sv_repo S) org rid s = Inr v \<Longrightarrow>
      role_keys_of s org rid = Some (set (rv_Permissions v))"
    and member: "wf s \<Longrightarrow> or_Member (sv_repo S) org mid s = Inr mb \<Longrightarrow>
      mb_ID mb = mid \<and> member_user s org mid = Some (mb_UserID mb)"
    and member_permissions: "wf s \<Longrightarrow>
      \<exists>ps. or_MemberPermissions (sv_repo S) org mid s = Inr ps \<and> set ps = member_keys s org mid"
    and replaced: "wf s \<Longrightarrow> or_ReplaceMemberRoles (sv_repo S) c org mid ids guard s = (Inr u, s') \<Longrightarrow>
      member_keys s' org mid = (\<Union>rid \<in> set ids. case role_keys_of s org rid of None \<Rightarrow> {} | Some ks \<Rightarrow> ks)"
    and created: "wf s \<Longrightarrow> or_CreateRole (sv_repo S) c org r perms s = (Inr v, s') \<Longrightarrow>
      role_keys_of s' org (r_ID (rv_Role v)) = Some (set perms)"
    and permissions_replaced: "wf s \<Longrightarrow> or_ReplaceRolePermissions (sv_repo S) c org rid perms s = (Inr u, s') \<Longrightarrow>
      role_keys_of s' org rid = Some (set perms)"
begin

section \<open>Rank\<close>

lemma can_affect:
  assumes "wf s" "or_Member (sv_repo S) (OrganizationID g) mid s = Inr mb"
  shows "ensureCanAffectMember S g mb s = Inr u \<longleftrightarrow>
    (mb_UserID mb \<noteq> uuid_Nil \<and> mb_UserID mb = Actor g) \<or>
    (\<forall>k \<in> member_keys s (OrganizationID g) mid. Known k \<longrightarrow> Has g k)"
proof -
  obtain ps where ps: "or_MemberPermissions (sv_repo S) (OrganizationID g) mid s = Inr ps"
    "set ps = member_keys s (OrganizationID g) mid"
    using member_permissions[OF assms(1)] by blast
  then show ?thesis using member[OF assms]
    by (auto simp: ensureCanAffectMember_def EnsureCanAffect_ok)
qed

lemma cannot_affect:
  assumes "wf s" "or_Member (sv_repo S) (OrganizationID g) mid s = Inr mb"
    "mb_UserID mb \<noteq> Actor g" "k \<in> member_keys s (OrganizationID g) mid" "Known k" "\<not> Has g k"
  shows "ensureCanAffectMember S g mb s = Inl (AuthzErr ErrInsufficientRank)"
proof -
  obtain ps where ps: "or_MemberPermissions (sv_repo S) (OrganizationID g) mid s = Inr ps"
    "set ps = member_keys s (OrganizationID g) mid"
    using member_permissions[OF assms(1)] by blast
  then have "EnsureCanAffect g ps = Inl (AuthzErr ErrInsufficientRank)"
    using assms by (auto simp: EnsureCanAffect_error)
  then show ?thesis using member[OF assms(1,2)] ps assms(3)
    by (simp add: ensureCanAffectMember_def)
qed

text \<open>Somebody who outranks the caller is out of reach of all three operations.\<close>

lemma outranked_refused:
  assumes "wf s" "or_Member (sv_repo S) (OrganizationID g) mid s = Inr mb"
    "mb_UserID mb \<noteq> Actor g" "k \<in> member_keys s (OrganizationID g) mid" "Known k" "\<not> Has g k"
  shows "SetMemberRoles S c g mid ids s = (Inl (AuthzErr ErrInsufficientRank), s)"
    "RemoveMember S c g mid s = (Inl (AuthzErr ErrInsufficientRank), s)"
    "status \<in> {MembershipActive, MembershipSuspended} \<Longrightarrow>
       SetMemberStatus S c g mid status s = (Inl (AuthzErr ErrInsufficientRank), s)"
  using cannot_affect[OF assms] assms(2)
  by (auto simp: SetMemberRoles_def RemoveMember_def SetMemberStatus_def prog_defs)

section \<open>Escalation\<close>

lemma grantable:
  assumes "wf s"
  shows "ensureRolesAreGrantable S g ids s = Inr u \<Longrightarrow>
    \<forall>rid \<in> set ids. \<exists>ks. role_keys_of s (OrganizationID g) rid = Some ks \<and> (\<forall>k \<in> ks. Known k \<and> Has g k)"
proof (induction ids)
  case (Cons rid ids)
  obtain v where v: "or_Role (sv_repo S) (OrganizationID g) rid s = Inr v"
    "EnsureCanGrant g (rv_Permissions v) = Inr ()" "ensureRolesAreGrantable S g ids s = Inr u"
    using Cons.prems by (auto split: sum.splits)
  have "\<exists>ks. role_keys_of s (OrganizationID g) rid = Some ks \<and> (\<forall>k \<in> ks. Known k \<and> Has g k)"
    using role[OF assms v(1)] v(2) by (auto simp: EnsureCanGrant_ok)
  then show ?case using Cons.IH[OF v(3)] by simp
qed simp

lemma SetMemberRoles_checked:
  assumes "wf s" "SetMemberRoles S c g mid ids s = (Inr mb', s')"
  obtains mb losing s1 where "or_Member (sv_repo S) (OrganizationID g) mid s = Inr mb"
    "ensureCanAffectMember S g mb s = Inr ()" "ensureRolesAreGrantable S g ids s = Inr ()"
    "replacingDropsOwner S (OrganizationID g) ids s = Inr losing"
    "or_ReplaceMemberRoles (sv_repo S) c (OrganizationID g) mid ids (RefuseLastOwnerLoss losing) s = (Inr (), s')"
  using assms(2) by (auto simp: SetMemberRoles_def prog_simps)

lemma SetMemberRoles_no_escalation:
  assumes "wf s" "SetMemberRoles S c g mid ids s = (Inr mb', s')"
  shows "\<forall>k \<in> member_keys s' (OrganizationID g) mid. Known k \<and> Has g k"
    and "member_user s (OrganizationID g) mid = Some (Actor g) \<or>
      (\<forall>k \<in> member_keys s (OrganizationID g) mid. Known k \<longrightarrow> Has g k)"
proof -
  from assms obtain mb losing where mb: "or_Member (sv_repo S) (OrganizationID g) mid s = Inr mb"
    "ensureCanAffectMember S g mb s = Inr ()" and ids: "ensureRolesAreGrantable S g ids s = Inr ()"
    and written: "or_ReplaceMemberRoles (sv_repo S) c (OrganizationID g) mid ids (RefuseLastOwnerLoss losing) s = (Inr (), s')"
    by (rule SetMemberRoles_checked)
  show "\<forall>k \<in> member_keys s' (OrganizationID g) mid. Known k \<and> Has g k"
    unfolding replaced[OF assms(1) written] using grantable[OF assms(1) ids] by fastforce
  show "member_user s (OrganizationID g) mid = Some (Actor g) \<or>
      (\<forall>k \<in> member_keys s (OrganizationID g) mid. Known k \<longrightarrow> Has g k)"
    using can_affect[OF assms(1) mb(1)] mb(2) member[OF assms(1) mb(1)] by auto
qed

lemma Lookup_Known: "Lookup k = Some d \<Longrightarrow> Known k"
  by (simp add: Known_Lookup)

lemma organizationScoped_ok:
  "ensureOrganizationScoped perms = Inr u \<longleftrightarrow> (\<forall>p \<in> set perms. p \<in> set (InScope ScopeOrganization))"
proof (induction perms)
  case (Cons p perms)
  then show ?case by (cases "Lookup p") (auto simp: InScope_iff)
qed simp

lemma dedupe_set [simp]: "set (dedupe perms) = set perms"
  by (simp add: dedupe_def)

lemma CreateRole_no_escalation:
  assumes "wf s" "CreateRole S c g key name description perms s = (Inr v, s')"
  shows "role_keys_of s' (OrganizationID g) (r_ID (rv_Role v)) = Some (set perms) \<and>
    (\<forall>k \<in> set perms. k \<in> set (InScope ScopeOrganization) \<and> Has g k)"
proof -
  from assms(2) obtain r where checks: "ensureOrganizationScoped perms = Inr ()" "EnsureCanGrant g perms = Inr ()"
    and written: "or_CreateRole (sv_repo S) c (OrganizationID g) r (dedupe perms) s = (Inr v, s')"
    by (auto simp: CreateRole_def prog_simps)
  show ?thesis using created[OF assms(1) written] checks
    by (simp add: organizationScoped_ok EnsureCanGrant_ok)
qed

lemma SetRolePermissions_no_escalation:
  assumes "wf s" "SetRolePermissions S c g rid perms s = (Inr v, s')"
  shows "role_keys_of s' (OrganizationID g) rid = Some (set perms) \<and>
    (\<forall>k \<in> set perms. k \<in> set (InScope ScopeOrganization) \<and> Has g k)"
proof -
  from assms(2) have checks: "ensureOrganizationScoped perms = Inr ()" "EnsureCanGrant g perms = Inr ()"
    and written: "or_ReplaceRolePermissions (sv_repo S) c (OrganizationID g) rid (dedupe perms) s = (Inr (), s')"
    by (auto simp: SetRolePermissions_def prog_simps split: if_splits)
  show ?thesis using permissions_replaced[OF assms(1) written] checks
    by (simp add: organizationScoped_ok EnsureCanGrant_ok)
qed

text \<open>What an invitation promises is within the inviter's reach.\<close>

lemma Invite_no_escalation:
  assumes "wf s" "Invite S lu c g email ids s = (Inr r, s')"
  shows "\<forall>rid \<in> set ids. \<exists>ks. role_keys_of s (OrganizationID g) rid = Some ks \<and> (\<forall>k \<in> ks. Known k \<and> Has g k)"
  using assms(2) grantable[OF assms(1), of g ids]
  by (auto simp: Invite_def Let_def prog_simps split: if_splits)

end

end
