(* ===== verification/Orgs_Memory.thy ===== *)
theory Orgs_Memory
  imports Authz_Memory Orgs_Contract
begin

text \<open>
  The organization service over the in-memory store: the store's methods as the three
  interfaces, the authority contract on them, and the fact that every call of the service is a
  run of the store's step relation.
\<close>

section \<open>The implementation\<close>

definition mem_repository :: "AuthzStore Repository" where
  "mem_repository =
     \<lparr>or_Organization = AuthzOrganization, or_UpdateOrganization = AuthzUpdateOrganization,
      or_DeleteOrganization = AuthzDeleteOrganization, or_Members = AuthzMembers,
      or_Member = AuthzMember, or_MemberByUser = AuthzMemberByUser,
      or_MemberPermissions = AuthzMemberPermissions, or_AddMember = AuthzAddMember,
      or_SetMemberStatus = AuthzSetMemberStatus, or_RemoveMember = AuthzRemoveMember,
      or_ReplaceMemberRoles = AuthzReplaceMemberRoles, or_Roles = AuthzRoles, or_Role = AuthzRole,
      or_RoleByKey = AuthzRoleByKey, or_CreateRole = AuthzCreateRole,
      or_UpdateRole = AuthzUpdateRole, or_DeleteRole = AuthzDeleteRole,
      or_ReplaceRolePermissions = AuthzReplaceRolePermissions, or_InviteMember = AuthzInviteMember,
      or_InvitationsForOrganization = AuthzInvitationsForOrganization,
      or_ReissueInvitation = AuthzReissueInvitation, or_WithdrawInvitation = AuthzWithdrawInvitation\<rparr>"

definition mem_directory :: "AuthzStore Directory" where
  "mem_directory =
     \<lparr>od_MembershipsForUser = AuthzMembershipsForUser, od_InvitationByToken = AuthzInvitationByToken,
      od_AcceptInvitation = AuthzAcceptInvitation, od_DeclineInvitation = AuthzDeclineInvitation,
      od_InvitationsForEmail = AuthzInvitationsForEmail\<rparr>"

definition mem_provisioner :: "AuthzStore Provisioner" where
  "mem_provisioner =
     \<lparr>op_OrganizationBySlug = AuthzOrganizationBySlug, op_CreateOrganization = AuthzCreateOrganization,
      op_AllOrganizations = AuthzAllOrganizations, op_GrantSystemRole = AuthzGrantSystemRole,
      op_RevokeSystemRole = AuthzRevokeSystemRole, op_SystemRoleHolders = AuthzSystemRoleHolders\<rparr>"

definition mem_orgs :: "AuthzStore OrgsService" where
  "mem_orgs = \<lparr>sv_repo = mem_repository, sv_dir = mem_directory, sv_provisioner = mem_provisioner\<rparr>"

lemma mem_orgs_sel [simp]:
  "sv_repo mem_orgs = mem_repository" "sv_dir mem_orgs = mem_directory"
  "sv_provisioner mem_orgs = mem_provisioner"
  by (simp_all add: mem_orgs_def)

lemma mem_repository_sel [simp]:
  "or_Organization mem_repository = AuthzOrganization"
  "or_UpdateOrganization mem_repository = AuthzUpdateOrganization"
  "or_DeleteOrganization mem_repository = AuthzDeleteOrganization"
  "or_Members mem_repository = AuthzMembers"
  "or_Member mem_repository = AuthzMember"
  "or_MemberByUser mem_repository = AuthzMemberByUser"
  "or_MemberPermissions mem_repository = AuthzMemberPermissions"
  "or_AddMember mem_repository = AuthzAddMember"
  "or_SetMemberStatus mem_repository = AuthzSetMemberStatus"
  "or_RemoveMember mem_repository = AuthzRemoveMember"
  "or_ReplaceMemberRoles mem_repository = AuthzReplaceMemberRoles"
  "or_Roles mem_repository = AuthzRoles"
  "or_Role mem_repository = AuthzRole"
  "or_RoleByKey mem_repository = AuthzRoleByKey"
  "or_CreateRole mem_repository = AuthzCreateRole"
  "or_UpdateRole mem_repository = AuthzUpdateRole"
  "or_DeleteRole mem_repository = AuthzDeleteRole"
  "or_ReplaceRolePermissions mem_repository = AuthzReplaceRolePermissions"
  "or_InviteMember mem_repository = AuthzInviteMember"
  "or_InvitationsForOrganization mem_repository = AuthzInvitationsForOrganization"
  "or_ReissueInvitation mem_repository = AuthzReissueInvitation"
  "or_WithdrawInvitation mem_repository = AuthzWithdrawInvitation"
  "od_MembershipsForUser mem_directory = AuthzMembershipsForUser"
  "od_InvitationByToken mem_directory = AuthzInvitationByToken"
  "od_AcceptInvitation mem_directory = AuthzAcceptInvitation"
  "od_DeclineInvitation mem_directory = AuthzDeclineInvitation"
  "od_InvitationsForEmail mem_directory = AuthzInvitationsForEmail"
  "op_OrganizationBySlug mem_provisioner = AuthzOrganizationBySlug"
  "op_CreateOrganization mem_provisioner = AuthzCreateOrganization"
  "op_AllOrganizations mem_provisioner = AuthzAllOrganizations"
  "op_GrantSystemRole mem_provisioner = AuthzGrantSystemRole"
  "op_RevokeSystemRole mem_provisioner = AuthzRevokeSystemRole"
  "op_SystemRoleHolders mem_provisioner = AuthzSystemRoleHolders"
  by (simp_all add: mem_repository_def mem_directory_def mem_provisioner_def)

section \<open>The authority contract\<close>

definition mem_role_keys :: "AuthzStore \<Rightarrow> uuid \<Rightarrow> uuid \<Rightarrow> string set option" where
  "mem_role_keys m orgID rid =
     (case map_of (ma_roles m) rid of
        None \<Rightarrow> None
      | Some role \<Rightarrow> if r_OrganizationID role = orgID then Some (set (alist_at (ma_rolePerms m) rid)) else None)"

definition mem_member_user :: "AuthzStore \<Rightarrow> uuid \<Rightarrow> uuid \<Rightarrow> uuid option" where
  "mem_member_user m orgID memberID =
     (case map_of (ma_memberships m) memberID of
        None \<Rightarrow> None
      | Some ms \<Rightarrow> if ms_OrganizationID ms = orgID \<and> \<not> accountDeletedLocked m ms
                   then Some (ms_UserID ms) else None)"

definition mem_member_keys :: "AuthzStore \<Rightarrow> uuid \<Rightarrow> uuid \<Rightarrow> string set" where
  "mem_member_keys m orgID memberID =
     (case map_of (ma_memberships m) memberID of
        None \<Rightarrow> {}
      | Some ms \<Rightarrow> if ms_OrganizationID ms = orgID then role_keys m memberID else {})"

lemma permissionStrings_id [simp]: "permissionStrings ps = ps"
  by (simp add: permissionStrings_def)

lemma AuthzMember_ok:
  "AuthzMember org mid m = Inr mb \<longleftrightarrow>
     (\<exists>ms. map_of (ma_memberships m) mid = Some ms \<and> ms_OrganizationID ms = org \<and>
        \<not> accountDeletedLocked m ms \<and> mb = memberLocked m ms)"
  by (auto simp: AuthzMember_def split: option.splits)

lemma AuthzRole_ok:
  "AuthzRole org rid m = Inr v \<longleftrightarrow>
     (\<exists>role. map_of (ma_roles m) rid = Some role \<and> r_OrganizationID role = org \<and> v = roleLocked m role)"
  by (auto simp: AuthzRole_def split: option.splits)

lemma memberLocked_sel [simp]:
  "mb_ID (memberLocked m ms) = ms_ID ms" "mb_UserID (memberLocked m ms) = ms_UserID ms"
  "mb_Status (memberLocked m ms) = ms_Status ms"
  by (simp_all add: memberLocked_def Let_def)

lemma roleLocked_sel [simp]:
  "rv_Role (roleLocked m role) = role" "set (rv_Permissions (roleLocked m role)) = set (alist_at (ma_rolePerms m) (r_ID role))"
  "rv_Members (roleLocked m role) = holder_count m (r_ID role)"
  by (simp_all add: roleLocked_def)

lemma mem_keys_sel [simp]:
  "mem_role_keys (recordLocked c e m) org rid = mem_role_keys m org rid"
  "mem_member_keys (recordLocked c e m) org mid = mem_member_keys m org mid"
  "role_keys (recordLocked c e m) mid = role_keys m mid"
proof -
  show keys: "role_keys (recordLocked c e m) mid = role_keys m mid" by (simp add: role_keys_def)
  show "mem_role_keys (recordLocked c e m) org rid = mem_role_keys m org rid"
    unfolding mem_role_keys_def recordLocked_sel ..
  show "mem_member_keys (recordLocked c e m) org mid = mem_member_keys m org mid"
    unfolding mem_member_keys_def recordLocked_sel keys ..
qed

lemma mem_replaced:
  assumes "AuthzReplaceMemberRoles c org mid ids guard m = (Inr u, m')"
  shows "mem_member_keys m' org mid =
    (\<Union>rid \<in> set ids. case mem_role_keys m org rid of None \<Rightarrow> {} | Some ks \<Rightarrow> ks)"
proof -
  obtain ms where ms: "map_of (ma_memberships m) mid = Some ms" "ms_OrganizationID ms = org"
    and belong: "rolesBelongLocked m org ids = Inr ()"
    and m': "\<exists>c e. m' = recordLocked c e (m\<lparr>ma_memberRoles := AList.update mid (uniqueIDs ids) (ma_memberRoles m)\<rparr>)"
    using assms by (auto simp: AuthzReplaceMemberRoles_def step_simps split: option.splits sum.splits if_splits)
  then have roles: "\<forall>rid \<in> set ids. \<exists>role. map_of (ma_roles m) rid = Some role \<and> r_OrganizationID role = org"
    by (simp add: rolesBelongLocked_ok)
  have "mem_member_keys m' org mid =
    {key. \<exists>rid \<in> set ids. map_of (ma_roles m) rid \<noteq> None \<and> key \<in> set (alist_at (ma_rolePerms m) rid)}"
    using m' ms by (auto simp: mem_member_keys_def role_keys_def amap_simps; blast)
  also have "\<dots> = (\<Union>rid \<in> set ids. case mem_role_keys m org rid of None \<Rightarrow> {} | Some ks \<Rightarrow> ks)"
    using roles by (fastforce simp: mem_role_keys_def)
  finally show ?thesis .
qed

lemma mem_created:
  assumes "AuthzCreateRole c org r perms m = (Inr v, m')"
  shows "mem_role_keys m' org (r_ID (rv_Role v)) = Some (set perms)"
proof -
  define role where "role = (if r_ID r = uuid_Nil then r\<lparr>r_ID := c_newID c (DrawRole 0)\<rparr> else r)
    \<lparr>r_OrganizationID := org\<rparr>"
  have "rv_Role v = role \<and> (\<exists>c e. m' = recordLocked c e (m\<lparr>ma_roles := AList.update (r_ID role) role (ma_roles m),
      ma_rolePerms := AList.update (r_ID role) perms (ma_rolePerms m)\<rparr>))"
    using assms unfolding AuthzCreateRole_def step_simps role_def[symmetric]
    by (auto split: if_split_asm)
  then show ?thesis by (auto simp: mem_role_keys_def amap_simps role_def)
qed

lemma mem_permissions_replaced:
  assumes "AuthzReplaceRolePermissions c org rid perms m = (Inr u, m')"
  shows "mem_role_keys m' org rid = Some (set perms)"
  using assms unfolding AuthzReplaceRolePermissions_def step_simps
  by (cases "map_of (ma_roles m) rid") (auto simp: mem_role_keys_def amap_simps split: if_split_asm)

interpretation mem_authority: orgs_authority mem_orgs authz_wf mem_role_keys mem_member_user mem_member_keys
proof
  fix m :: AuthzStore and org rid mid ids guard u c r perms v mb m'
  assume wf: "authz_wf m"
  show "mem_role_keys m org rid = Some (set (rv_Permissions v))"
    if "or_Role (sv_repo mem_orgs) org rid m = Inr v"
    using that rows_ok_id[OF authz_wf_tables(3)[OF wf]] by (auto simp: AuthzRole_ok mem_role_keys_def)
  show "mb_ID mb = mid \<and> mem_member_user m org mid = Some (mb_UserID mb)"
    if "or_Member (sv_repo mem_orgs) org mid m = Inr mb"
    using that rows_ok_id[OF authz_wf_tables(2)[OF wf]] by (auto simp: AuthzMember_ok mem_member_user_def)
  show "\<exists>ps. or_MemberPermissions (sv_repo mem_orgs) org mid m = Inr ps \<and> set ps = mem_member_keys m org mid"
    by (auto simp: AuthzMemberPermissions_def mem_member_keys_def split: option.splits)
  show "mem_member_keys m' org mid =
      (\<Union>rid \<in> set ids. case mem_role_keys m org rid of None \<Rightarrow> {} | Some ks \<Rightarrow> ks)"
    if "or_ReplaceMemberRoles (sv_repo mem_orgs) c org mid ids guard m = (Inr u, m')"
    using that by (simp add: mem_replaced)
  show "mem_role_keys m' org (r_ID (rv_Role v)) = Some (set perms)"
    if "or_CreateRole (sv_repo mem_orgs) c org r perms m = (Inr v, m')"
    using that by (simp add: mem_created)
  show "mem_role_keys m' org rid = Some (set perms)"
    if "or_ReplaceRolePermissions (sv_repo mem_orgs) c org rid perms m = (Inr u, m')"
    using that by (simp add: mem_permissions_replaced)
qed

end
