(* ===== verification/Runs.thy ===== *)
theory Runs
  imports Prelude
begin

text \<open>
  Runs of a step relation and how they follow the shape of an operation: a program is a run when
  each store call it makes is one. Shared by the two stores.
\<close>

named_theorems runs_intros \<open>rules that a program is a run\<close>

lemma runs_one: "R m m' \<Longrightarrow> R\<^sup>*\<^sup>* m m'"
  by (rule r_into_rtranclp)

lemma runs_query_bind [runs_intros]:
  "(\<And>x. f m = Inr x \<Longrightarrow> R\<^sup>*\<^sup>* m (snd (k x m))) \<Longrightarrow> R\<^sup>*\<^sup>* m (snd (bindp (query f) k m))"
  by (auto simp: bindp_def query_def split: sum.splits)

lemma runs_ensure_bind [runs_intros]:
  "(\<And>x. r = Inr x \<Longrightarrow> R\<^sup>*\<^sup>* m (snd (k x m))) \<Longrightarrow> R\<^sup>*\<^sup>* m (snd (bindp (ensure r) k m))"
  by (auto simp: bindp_def ensure_def split: sum.splits)

lemma runs_bind:
  "R\<^sup>*\<^sup>* m (snd (p m)) \<Longrightarrow> (\<And>x m'. p m = (Inr x, m') \<Longrightarrow> R\<^sup>*\<^sup>* m' (snd (k x m'))) \<Longrightarrow>
     R\<^sup>*\<^sup>* m (snd (bindp p k m))"
  unfolding bindp_def by (auto split: prod.splits sum.splits intro: rtranclp_trans)

lemma runs_attempt:
  "R\<^sup>*\<^sup>* m (snd (p m)) \<Longrightarrow> (\<And>r m'. p m = (r, m') \<Longrightarrow> R\<^sup>*\<^sup>* m' (snd (k r m'))) \<Longrightarrow>
     R\<^sup>*\<^sup>* m (snd (attempt p k m))"
  unfolding attempt_def by (auto split: prod.splits intro: rtranclp_trans)

lemma runs_nothing [runs_intros]:
  "R\<^sup>*\<^sup>* m (snd (ok x m))" "R\<^sup>*\<^sup>* m (snd (refuse e m))" "R\<^sup>*\<^sup>* m (snd (query f m))"
  by (simp_all add: ok_def refuse_def query_def)

lemma runs_attempt_query:
  "(\<And>r. f m = r \<Longrightarrow> R\<^sup>*\<^sup>* m (snd (k r m))) \<Longrightarrow> R\<^sup>*\<^sup>* m (snd (attempt (query f) k m))"
  by (simp add: attempt_def query_def)

text \<open>What every step keeps, every run keeps.\<close>

lemma runs_invariant:
  assumes "R\<^sup>*\<^sup>* m m'" "P m" "\<And>a b. R a b \<Longrightarrow> P a \<Longrightarrow> P b"
  shows "P m'"
  using assms by (induction rule: rtranclp_induct) auto

text \<open>A reflexive and transitive relation that every step satisfies holds across a run.\<close>

lemma runs_relation:
  assumes "R\<^sup>*\<^sup>* m m'" "\<And>a. Q a a" "\<And>a b c. Q a b \<Longrightarrow> Q b c \<Longrightarrow> Q a c" "\<And>a b. R a b \<Longrightarrow> Q a b"
  shows "Q m m'"
  using assms(1)
proof (induction rule: rtranclp_induct)
  case base
  show ?case by (rule assms(2))
next
  case (step b c)
  then show ?case using assms(3,4) by blast
qed

end
