(* ===== verification/Orgs_Runs.thy ===== *)
theory Orgs_Runs
  imports Orgs_Memory Runs
begin

text \<open>
  Every call of the organization service over the in-memory store is a run of the store's step
  relation, so what holds of all runs holds whatever the service is asked, in whatever order
  and however the calls of different requests interleave between their steps.
\<close>

section \<open>Runs compose like the code\<close>

text \<open>The generic rules of \<open>Runs\<close>, and one rule per call of the store.\<close>

named_theorems steps_intros \<open>rules that an operation is a run of the store\<close>

lemmas op_steps [steps_intros] = store_step.intros[THEN runs_one[where R = store_step]]

lemmas steps_one = runs_one[where R = store_step]

lemmas steps_query_bind [steps_intros] = runs_query_bind[where R = store_step]

lemmas steps_ensure_bind [steps_intros] = runs_ensure_bind[where R = store_step]

lemmas steps_nothing [steps_intros] = runs_nothing[where R = store_step]

lemmas steps_bind = runs_bind[where R = store_step]

lemmas steps_attempt = runs_attempt[where R = store_step]

lemmas steps_attempt_query = runs_attempt_query[where R = store_step]

section \<open>The calls that make one step\<close>

lemma Rename_steps: "store_steps m (snd (Rename mem_orgs c g name m))"
  by (auto simp: Rename_def Let_def intro!: steps_intros steps_bind)

lemma OrgsDelete_steps: "store_steps m (snd (OrgsDelete mem_orgs c g m))"
  by (auto simp: OrgsDelete_def intro!: steps_intros)

lemma SetMemberStatus_steps: "store_steps m (snd (SetMemberStatus mem_orgs c g mid status m))"
  unfolding SetMemberStatus_def mem_orgs_sel mem_repository_sel by (simp, intro conjI impI steps_intros)

lemma RemoveMember_steps: "store_steps m (snd (RemoveMember mem_orgs c g mid m))"
  by (auto simp: RemoveMember_def intro!: steps_attempt_query steps_intros
      split: sum.split)

lemma AuthzRoleByKey_ok:
  assumes wf: "authz_wf m"
  shows "AuthzRoleByKey org key m = Inr v \<longleftrightarrow>
    (\<exists>role. map_of (ma_roles m) (r_ID role) = Some role \<and> r_OrganizationID role = org \<and> r_Key role = key \<and>
       v = roleLocked m role)"
proof -
  let ?P = "\<lambda>r. r_OrganizationID r = org \<and> r_Key r = key"
  note rows = authz_wf_tables(3)[OF wf]
  have "List.find ?P (avals (ma_roles m)) = Some role \<longleftrightarrow>
      map_of (ma_roles m) (r_ID role) = Some role \<and> r_OrganizationID role = org \<and> r_Key role = key" for role
  proof
    assume "List.find ?P (avals (ma_roles m)) = Some role"
    then show "map_of (ma_roles m) (r_ID role) = Some role \<and> r_OrganizationID role = org \<and> r_Key role = key"
      using rows_find_Some[OF rows] by blast
  next
    assume role: "map_of (ma_roles m) (r_ID role) = Some role \<and> r_OrganizationID role = org \<and> r_Key role = key"
    have "k' = r_ID role" if "map_of (ma_roles m) k' = Some v'" "?P v'" for k' v'
      using authz_wfD(3)[OF wf] role that unfolding unique_role_keys_def by metis
    then show "List.find ?P (avals (ma_roles m)) = Some role"
      using role by (intro rows_find[OF rows, of "r_ID role"]) auto
  qed
  then show ?thesis by (cases "List.find ?P (avals (ma_roles m))") (force simp: AuthzRoleByKey_def)+
qed

lemma AuthzRoleByKey_None:
  assumes wf: "authz_wf m"
  shows "AuthzRoleByKey org key m = Inl e \<longleftrightarrow> e = orgs_not_found \<and>
    (\<forall>k role. map_of (ma_roles m) k = Some role \<longrightarrow> \<not> (r_OrganizationID role = org \<and> r_Key role = key))"
  using rows_find_None[OF authz_wf_tables(3)[OF wf], of "\<lambda>r. r_OrganizationID r = org \<and> r_Key r = key"]
  by (auto simp: AuthzRoleByKey_def split: option.split)

text \<open>The answer the last-owner guard of \<open>SetMemberRoles\<close> is built from is right.\<close>

lemma owner_role_by_key:
  assumes wf: "authz_wf m" and v: "AuthzRoleByKey org RoleOwner m = Inr v"
  shows "is_owner_role m org rid \<longleftrightarrow> rid = r_ID (rv_Role v)"
proof -
  obtain role where role: "map_of (ma_roles m) (r_ID role) = Some role" "r_OrganizationID role = org"
    "r_Key role = RoleOwner" "v = roleLocked m role"
    using v AuthzRoleByKey_ok[OF wf] by blast
  have "rid = r_ID role" if "is_owner_role m org rid"
  proof -
    obtain other where "map_of (ma_roles m) rid = Some other" "r_OrganizationID other = org" "r_Key other = RoleOwner"
      using \<open>is_owner_role m org rid\<close> unfolding is_owner_role_def by blast
    then show ?thesis using authz_wfD(3)[OF wf] role(1-3) unfolding unique_role_keys_def by metis
  qed
  then show ?thesis using role unfolding is_owner_role_def by auto
qed

lemma replacingDropsOwner_right:
  assumes wf: "authz_wf m" and "replacingDropsOwner mem_orgs org ids m = Inr losing"
    "\<not> losing" "is_owner_role m org rid"
  shows "rid \<in> set ids"
proof (cases "AuthzRoleByKey org RoleOwner m")
  case (Inl e)
  then show ?thesis using AuthzRoleByKey_None[OF wf] assms(4) unfolding is_owner_role_def by blast
next
  case (Inr v)
  then show ?thesis using assms(2-4) owner_role_by_key[OF wf Inr] by (simp add: replacingDropsOwner_def)
qed

lemma SetMemberRoles_steps:
  assumes "authz_wf m"
  shows "store_steps m (snd (SetMemberRoles mem_orgs c g mid ids m))"
  unfolding SetMemberRoles_def mem_orgs_sel mem_repository_sel
  by (intro steps_query_bind steps_bind steps_nothing op_steps)
    (auto dest: replacingDropsOwner_right[OF assms])

lemma CreateRole_steps:
  "fresh_role m (c_newID c (DrawRole 0)) \<Longrightarrow>
     store_steps m (snd (CreateRole mem_orgs c g key name description perms m))"
  by (auto simp: CreateRole_def intro!: steps_intros)

lemma UpdateRole_steps: "store_steps m (snd (UpdateRole mem_orgs c g rid name description m))"
  by (auto simp: UpdateRole_def Let_def intro!: steps_intros steps_bind)

lemma SetRolePermissions_steps: "store_steps m (snd (SetRolePermissions mem_orgs c g rid perms m))"
  by (auto simp: SetRolePermissions_def intro!: steps_intros steps_bind)

lemma DeleteRole_steps: "store_steps m (snd (DeleteRole mem_orgs c g rid m))"
  by (auto simp: DeleteRole_def intro!: steps_intros)

lemma leave_loop_steps: "store_steps m (snd (leave_loop mem_orgs c mid mine m))"
  by (induction mine) (auto intro!: steps_intros)

lemma Leave_steps: "store_steps m (snd (Leave mem_orgs c userID mid m))"
  by (auto simp: Leave_def intro!: steps_intros leave_loop_steps)

lemma GrantSystemRole_steps: "store_steps m (snd (GrantSystemRole mem_orgs c g userID key m))"
  by (auto simp: GrantSystemRole_def intro!: steps_intros)

lemma RevokeSystemRole_steps: "store_steps m (snd (RevokeSystemRole mem_orgs c g userID key m))"
  by (auto simp: RevokeSystemRole_def intro!: steps_intros)

lemma ServiceCreateOrganization_steps:
  "fresh_draws c m \<Longrightarrow> store_steps m (snd (ServiceCreateOrganization mem_orgs c slug name m))"
  by (auto simp: ServiceCreateOrganization_def Let_def OrganizationIsDeleted_def
      intro!: steps_intros)

lemma EnsureDefaultOrganization_steps:
  "fresh_draws c m \<Longrightarrow> store_steps m (snd (EnsureDefaultOrganization mem_orgs c m))"
  by (auto simp: EnsureDefaultOrganization_def OrganizationIsDeleted_def split: sum.split
      intro!: steps_attempt_query steps_intros steps_attempt)

lemma DeleteOrganizationByID_steps: "store_steps m (snd (DeleteOrganizationByID mem_orgs c org m))"
  by (auto simp: DeleteOrganizationByID_def intro!: steps_intros)

lemma Invite_steps:
  "map_of (ma_invitations m) (c_newID c DrawInvitation) = None \<Longrightarrow>
     store_steps m (snd (Invite mem_orgs lu c g email ids m))"
  by (auto simp: Invite_def Let_def intro!: steps_intros steps_bind)

lemma AcceptInvitation_steps:
  "map_of (ma_memberships m) (c_newID c DrawMembership) = None \<Longrightarrow>
     store_steps m (snd (AcceptInvitation mem_orgs lu c userID email token m))"
  by (auto simp: AcceptInvitation_def intro!: steps_intros)

lemma DeclineInvitation_steps: "store_steps m (snd (DeclineInvitation mem_orgs c token m))"
  by (auto simp: DeclineInvitation_def intro!: steps_intros)

lemma WithdrawInvitation_steps: "store_steps m (snd (WithdrawInvitation mem_orgs c g i m))"
  by (auto simp: WithdrawInvitation_def intro!: steps_intros)

lemma Reissue_steps: "store_steps m (snd (Reissue mem_orgs c g i m))"
  by (auto simp: Reissue_def intro!: steps_intros steps_bind)

section \<open>The calls that make more\<close>

lemma AddMember_step:
  "map_of (ma_memberships m) (c_newID c DrawMembership) = None \<Longrightarrow>
     store_steps m (snd (AuthzAddMember c orgID userID roleIDs invitedBy at m))"
  by (rule steps_one[OF store_step.AddMember])

lemma ensure_default_memberships:
  "ma_memberships (snd (EnsureDefaultOrganization mem_orgs c m)) = ma_memberships m"
  by (auto simp: EnsureDefaultOrganization_def attempt_def query_def ok_def refuse_def
      AuthzCreateOrganization_def Let_def split: sum.split prod.split)

lemma JoinDefaultOrganization_steps:
  assumes "fresh_draws c m"
  shows "store_steps m (snd (JoinDefaultOrganization mem_orgs lu c userID email m))"
  unfolding JoinDefaultOrganization_def mem_orgs_sel mem_repository_sel
proof (rule steps_bind)
  show "store_steps m (snd (EnsureDefaultOrganization mem_orgs c m))"
    by (rule EnsureDefaultOrganization_steps) fact
  fix org m' assume "EnsureDefaultOrganization mem_orgs c m = (Inr org, m')"
  then have "map_of (ma_memberships m') (c_newID c DrawMembership) = None"
    using ensure_default_memberships[of c m] assms by (simp add: fresh_draws_def)
  then show "store_steps m' (snd (bindp (query (hasRowIn mem_orgs lu c userID email (org_ID org))) (\<lambda>waiting.
       if waiting then ok ()
       else bindp (query (AuthzRoleByKey (org_ID org) RoleMember)) (\<lambda>role.
         attempt (AuthzAddMember c (org_ID org) userID [r_ID (rv_Role role)] uuid_Nil (c_now c ClockService2))
           (\<lambda>r. case r of Inl e \<Rightarrow> if e = OrgsErr ErrAlreadyMember then ok () else refuse e | Inr _ \<Rightarrow> ok ()))) m'))"
    by (auto intro!: steps_intros steps_attempt AddMember_step split: sum.split)
qed

text \<open>
  Replacing somebody's roles with the owner role alone drops nobody's ownership, because it is the
  organization's only owner role.
\<close>

lemma grantOwnership_steps:
  assumes wf: "authz_wf m" and fresh: "map_of (ma_memberships m) (c_newID c DrawMembership) = None"
  shows "store_steps m (snd (grantOwnership mem_orgs c org userID m))"
proof -
  show ?thesis
    unfolding grantOwnership_def mem_orgs_sel mem_repository_sel
    by (intro steps_query_bind steps_attempt_query)
      (auto split: sum.split simp: owner_role_by_key[OF wf] fresh
        intro!: steps_nothing op_steps steps_bind)
qed

lemma PromoteToOwner_steps:
  assumes "authz_wf m" "map_of (ma_memberships m) (c_newID c DrawMembership) = None"
  shows "store_steps m (snd (PromoteToOwner mem_orgs c org userID platform m))"
  unfolding PromoteToOwner_def mem_orgs_sel mem_repository_sel
proof (rule steps_bind)
  show "store_steps m (snd (grantOwnership mem_orgs c org userID m))" by (rule grantOwnership_steps[OF assms])
qed (auto intro!: steps_intros)

lemma AppointOwner_steps:
  assumes "authz_wf m" "map_of (ma_memberships m) (c_newID c DrawMembership) = None"
  shows "store_steps m (snd (AppointOwner mem_orgs c org userID m))"
  unfolding AppointOwner_def mem_orgs_sel mem_repository_sel
  by (auto intro!: steps_intros grantOwnership_steps[OF assms])

end
