(* ===== verification/Demo_Store.thy ===== *)
theory Demo_Store
  imports Orgs_Runs
begin

text \<open>
  A small concrete store the witnesses use: one organization with the owner role and a narrower
  administrator role, a membership holding each (accounts 10 and 11), and an open invitation.
\<close>

fun demo_draw :: "draw \<Rightarrow> nat" where
  "demo_draw DrawUser = 1"
| "demo_draw DrawCode = 2"
| "demo_draw DrawDevice = 3"
| "demo_draw DrawLogin = 4"
| "demo_draw DrawOrganization = 5"
| "demo_draw DrawMembership = 6"
| "demo_draw DrawInvitation = 7"
| "demo_draw DrawEvent = 8"
| "demo_draw DrawFile = 9"
| "demo_draw (DrawRole i) = 10 + i"

definition demo_call :: "nat \<Rightarrow> Call" where
  "demo_call k =
     \<lparr>c_actor = Some \<lparr>ac_ID = UUID 10, ac_IP = ''10.0.0.1'', ac_UserAgent = ''cli''\<rparr>,
      c_ended = (\<lambda>_. False), c_now = (\<lambda>_. 1000), c_newID = (\<lambda>d. UUID (k + demo_draw d)),
      c_token = Some ''tok'', c_digit = (\<lambda>_. Some 7), c_salt = ''salt'', c_uuidString = (\<lambda>_. ''id'')\<rparr>"

definition demo_org :: uuid where "demo_org = UUID 1"
definition demo_owner :: uuid where "demo_owner = UUID 2"
definition demo_admin :: uuid where "demo_admin = UUID 3"

definition demo_role :: "nat \<Rightarrow> string \<Rightarrow> bool \<Rightarrow> Role" where
  "demo_role k key sys = \<lparr>r_ID = UUID k, r_OrganizationID = demo_org, r_Key = key, r_Name = key,
     r_Description = [], r_IsSystem = sys\<rparr>"

definition demo_member :: "uuid \<Rightarrow> nat \<Rightarrow> Membership" where
  "demo_member k u = \<lparr>ms_ID = k, ms_UserID = UUID u, ms_OrganizationID = demo_org,
     ms_Status = MembershipActive, ms_InvitedBy = None, ms_JoinedAt = Some 500\<rparr>"

definition demo_invitation :: Invitation where
  "demo_invitation = \<lparr>inv_ID = UUID 7, inv_CreatedAt = 700, inv_OrganizationID = demo_org,
     inv_Email = ''eve@x.io'', inv_TokenHash = HashInvitationToken ''tok'', inv_InvitedBy = Some (UUID 10),
     inv_ExpiresAt = 5000, inv_AcceptedAt = None\<rparr>"

definition demo :: AuthzStore where
  "demo = (NewAuthz None)
     \<lparr>ma_orgs := [(demo_org, \<lparr>org_ID = demo_org, org_DeletedAt = None, org_IsProtected = False,
         org_Slug = ''acme'', org_Name = ''Acme''\<rparr>)],
      ma_memberships := [(demo_owner, demo_member demo_owner 10), (demo_admin, demo_member demo_admin 11)],
      ma_roles := [(UUID 4, demo_role 4 RoleOwner True), (UUID 5, demo_role 5 RoleAdmin True),
        (UUID 6, demo_role 6 ''auditor'' False)],
      ma_rolePerms := [(UUID 4, [PermOrganizationDelete, PermMembersRemove, PermMembersRolesAssign]),
        (UUID 5, [PermMembersRemove, PermMembersRolesAssign]), (UUID 6, [PermMembersRemove])],
      ma_memberRoles := [(demo_owner, [UUID 4]), (demo_admin, [UUID 5])],
      ma_systemRoles := [(UUID 10, [RolePlatformAdmin])],
      ma_invitations := [(UUID 7, demo_invitation)],
      ma_inviteRoles := [(UUID 7, [UUID 5])]\<rparr>"

lemma demo_call_id: "c_newID (demo_call k) d = UUID (k + demo_draw d)"
  by (simp add: demo_call_def)

lemmas demo_defs = demo_org_def demo_owner_def demo_admin_def demo_role_def demo_member_def
  demo_invitation_def demo_def NewAuthz_def

lemma demo_wf: "authz_wf demo"
proof (rule authz_wfI)
  show "tables_ok demo" by (simp add: tables_ok_def rows_ok_def demo_defs)
  show "unique_memberships demo" by (simp add: unique_memberships_def demo_defs)
  show "unique_role_keys demo" by (simp add: unique_role_keys_def demo_defs role_key_defs)
  show "unique_slugs demo" by (simp add: unique_slugs_def demo_defs)
  show "unique_invitations demo" by (simp add: unique_invitations_def demo_defs)
  show "member_roles_ok demo" by (simp add: member_roles_ok_def roles_of_org_def alist_at_def demo_defs)
  show "invite_roles_ok demo" by (simp add: invite_roles_ok_def roles_of_org_def alist_at_def demo_defs)
  show "owner_roles_ok demo" by (auto simp: owner_roles_ok_def demo_defs intro!: exI[of _ "UUID 4"])
qed

text \<open>The permissions the demonstration roles use are in the catalog.\<close>

lemma demo_known:
  "{PermOrganizationDelete, PermMembersRemove, PermMembersRolesAssign} \<subseteq> set (InScope ScopeOrganization)"
  by code_simp

text \<open>The grants the two accounts are given.\<close>

definition owner_grant :: grant_ptr where
  "owner_grant = Some \<lparr>g_actor = UUID 10, g_org = demo_org,
     g_permissions = [PermOrganizationDelete, PermMembersRemove, PermMembersRolesAssign]\<rparr>"

definition admin_grant :: grant_ptr where
  "admin_grant = Some \<lparr>g_actor = UUID 11, g_org = demo_org,
     g_permissions = [PermMembersRemove, PermMembersRolesAssign]\<rparr>"

text \<open>An operation that went through, for evaluation.\<close>

definition succeeds :: "('e + 'a) \<times> 's \<Rightarrow> bool" where
  "succeeds r = (case r of (Inl _, _) \<Rightarrow> False | (Inr _, _) \<Rightarrow> True)"

lemma succeedsE: "succeeds r \<Longrightarrow> (\<And>x s. r = (Inr x, s) \<Longrightarrow> thesis) \<Longrightarrow> thesis"
  by (cases r; cases "fst r") (auto simp: succeeds_def)

end
