(* ===== verification/Authz_Properties.thy ===== *)
theory Authz_Properties
  imports Demo_Store
begin

text \<open>
  What the authorization package guarantees: the shape of the catalog and of the shipped roles,
  the two rules about authority, and the decisions the service makes over the in-memory store.
\<close>

section \<open>The catalog and the shipped roles\<close>

text \<open>The two scopes stay apart in the code's own roles: a role shipped into an organization
  holds organization permissions only, the owner holds exactly all of them (so at least what any
  other shipped role holds), and the one installation-wide role holds exactly all system
  permissions.\<close>

theorem shipped_roles_scopes:
  "map rd_Scope OrganizationRoles = replicate 4 ScopeOrganization \<and>
   set (concat (map rd_Permissions OrganizationRoles)) = set (InScope ScopeOrganization) \<and>
   map_option rd_Permissions (LookupRole RoleOwner) = Some (InScope ScopeOrganization) \<and>
   map rd_Permissions SystemRoles = [InScope ScopeSystem] \<and>
   set (InScope ScopeOrganization) \<inter> set (InScope ScopeSystem) = {} \<and>
   (\<forall>key. IsSystemScopeRole key = (key = RolePlatformAdmin))"
proof (intro conjI)
  show "map rd_Scope OrganizationRoles = replicate 4 ScopeOrganization" by code_simp
  show "set (concat (map rd_Permissions OrganizationRoles)) = set (InScope ScopeOrganization)" by code_simp
  show "map_option rd_Permissions (LookupRole RoleOwner) = Some (InScope ScopeOrganization)" by code_simp
  show "map rd_Permissions SystemRoles = [InScope ScopeSystem]" by code_simp
  show "set (InScope ScopeOrganization) \<inter> set (InScope ScopeSystem) = {}" by code_simp
  show "\<forall>key. IsSystemScopeRole key = (key = RolePlatformAdmin)"
    by (auto simp: IsSystemScopeRole_def systemRoles_def)
qed

text \<open>The permissions a stored role contributes are the catalog's: \<open>Sanitize\<close> keeps exactly
  the known keys, each once and in their order, \<open>UnknownKeys\<close> reports exactly the rest, and
  sanitizing again changes nothing.\<close>

theorem sanitize_known:
  "set (Sanitize keys) = {k \<in> set keys. Known k} \<and> distinct (Sanitize keys) \<and>
   set (UnknownKeys keys) = set keys - set (Sanitize keys) \<and>
   Sanitize (Sanitize keys) = Sanitize keys \<and>
   (distinct keys \<longrightarrow> Sanitize keys = filter Known keys)"
proof -
  have "filter Known (Sanitize keys) = Sanitize keys"
    by (rule filter_True) simp
  then have "Sanitize (Sanitize keys) = Sanitize keys"
    by (subst Sanitize_eq) (simp add: keep_first_distinct)
  then show ?thesis by (auto simp: UnknownKeys_def Sanitize_eq keep_first_distinct)
qed

lemma sanitize_known_witness:
  "Sanitize [''members.read'', ''no.such'', ''roles.read''] = [''members.read'', ''roles.read'']"
proof -
  have "Sanitize [''members.read'', ''no.such'', ''roles.read''] =
      filter Known [''members.read'', ''no.such'', ''roles.read'']"
    using sanitize_known[of "[''members.read'', ''no.such'', ''roles.read'']"] by simp
  also have "\<dots> = [''members.read'', ''roles.read'']" by code_simp
  finally show ?thesis .
qed

section \<open>The two rules about authority\<close>

text \<open>\<open>EnsureCanGrant\<close> and \<open>EnsureCanAffect\<close> decide exactly their rules, with the error that
  names the reason. Granting needs every permission to be known and held; affecting needs
  every known permission of the target to be held, and a key the catalog has dropped locks
  nobody out.\<close>

theorem authority_rules:
  "EnsureCanGrant g perms =
     (case List.find (\<lambda>p. \<not> (Known p \<and> Has g p)) perms of
        None \<Rightarrow> Inr ()
      | Some p \<Rightarrow> Inl (AuthzErr (if Known p then ErrPrivilegeEscalation else ErrUnknownPermission))) \<and>
   EnsureCanAffect g perms =
     (if Covers g (Sanitize perms) then Inr () else Inl (AuthzErr ErrInsufficientRank))"
proof
  show "EnsureCanGrant g perms =
     (case List.find (\<lambda>p. \<not> (Known p \<and> Has g p)) perms of
        None \<Rightarrow> Inr ()
      | Some p \<Rightarrow> Inl (AuthzErr (if Known p then ErrPrivilegeEscalation else ErrUnknownPermission)))"
    by (induction perms) simp_all
  show "EnsureCanAffect g perms =
     (if Covers g (Sanitize perms) then Inr () else Inl (AuthzErr ErrInsufficientRank))"
  proof (cases "Covers g (Sanitize perms)")
    case True
    then have "EnsureCanAffect g perms = Inr ()" by (simp add: EnsureCanAffect_ok Covers_iff)
    then show ?thesis using True by simp
  next
    case False
    then have "EnsureCanAffect g perms = Inl (AuthzErr ErrInsufficientRank)"
      by (auto simp: EnsureCanAffect_error Covers_iff)
    then show ?thesis using False by simp
  qed
qed

section \<open>Decisions over the store\<close>

text \<open>C1. A request is authorized exactly when it asks, inside an organization, for an
  organization permission one of the roles of the actor's active membership carries, or, with no
  organization, for a system permission while the actor holds the platform role. The account
  and the organization have to be live.\<close>

theorem authorize_exactly:
  assumes "authz_wf m"
  shows "(\<exists>g. Authorize mem_authz_repo req m = Inr g) \<longleftrightarrow>
    (rq_Permission req \<in> set (InScope ScopeOrganization) \<and> rq_Org req \<noteq> uuid_Nil \<and>
       mem_active m (rq_Actor req) (rq_Org req) \<and>
       rq_Permission req \<in> mem_keys m (rq_Actor req) (rq_Org req)) \<or>
    (rq_Permission req \<in> set (InScope ScopeSystem) \<and> rq_Org req = uuid_Nil \<and>
       RolePlatformAdmin \<in> mem_system_keys m (rq_Actor req))"
  by (rule Authorize_granted[OF assms])

lemma demo_admin_active: "mem_active demo (UUID 11) demo_org" "PermMembersRemove \<in> mem_keys demo (UUID 11) demo_org"
proof -
  have row: "member_row demo (UUID 11) demo_org demo_admin (demo_member demo_admin 11)"
    by (simp add: member_row_def demo_defs)
  then show "mem_active demo (UUID 11) demo_org"
    by (auto simp: mem_active_def accountIDDeletedLocked_def live_org_def OrganizationIsDeleted_def demo_defs
        intro!: exI[of _ demo_admin])
  have "PermMembersRemove \<in> role_keys demo demo_admin"
    by (simp add: role_keys_def alist_at_def demo_defs)
  then show "PermMembersRemove \<in> mem_keys demo (UUID 11) demo_org"
    using mem_keys_row[OF demo_wf row] by simp
qed

lemma authorize_exactly_witness:
  "\<exists>g. Authorize mem_authz_repo
     \<lparr>rq_Actor = UUID 11, rq_Org = demo_org, rq_Permission = PermMembersRemove\<rparr> demo = Inr g"
  using authorize_exactly[OF demo_wf, of "\<lparr>rq_Actor = UUID 11, rq_Org = demo_org, rq_Permission = PermMembersRemove\<rparr>"]
    demo_admin_active demo_known by (simp add: demo_org_def)

text \<open>C19. A refusal says which way the request failed: outside an active membership the answer is
  \<open>ErrNotMember\<close>, whatever the permission is and whether or not the organization exists; inside one
  it is \<open>ErrForbidden\<close>; a permission asked in the wrong scope is a mismatch, and an unknown one
  is refused before anything is read.\<close>

theorem authorize_refusals:
  assumes "authz_wf m"
  shows "(\<not> Known (rq_Permission req) \<longrightarrow>
       Authorize mem_authz_repo req m = Inl (AuthzErr ErrUnknownPermission)) \<and>
    (rq_Permission req \<in> set (InScope (if rq_Org req = uuid_Nil then ScopeOrganization else ScopeSystem)) \<longrightarrow>
       Authorize mem_authz_repo req m = Inl (AuthzErr ErrScopeMismatch)) \<and>
    (rq_Permission req \<in> set (InScope ScopeOrganization) \<and> rq_Org req \<noteq> uuid_Nil \<longrightarrow>
       (\<not> mem_active m (rq_Actor req) (rq_Org req) \<longrightarrow>
          Authorize mem_authz_repo req m = Inl (AuthzErr ErrNotMember)) \<and>
       (mem_active m (rq_Actor req) (rq_Org req) \<and>
        rq_Permission req \<notin> mem_keys m (rq_Actor req) (rq_Org req) \<longrightarrow>
          Authorize mem_authz_repo req m = Inl (AuthzErr ErrForbidden))) \<and>
    (rq_Permission req \<in> set (InScope ScopeSystem) \<and> rq_Org req = uuid_Nil \<and>
     RolePlatformAdmin \<notin> mem_system_keys m (rq_Actor req) \<longrightarrow>
       Authorize mem_authz_repo req m = Inl (AuthzErr ErrForbidden))"
proof (intro conjI impI; (elim conjE)?)
  obtain keys where keys: "ar_SystemRoleKeys mem_authz_repo (rq_Actor req) m = Inr keys"
    "set keys = mem_system_keys m (rq_Actor req)"
    using mem_authz.system_roles[OF assms] by blast
  assume "rq_Permission req \<in> set (InScope ScopeSystem)" "rq_Org req = uuid_Nil"
    "RolePlatformAdmin \<notin> mem_system_keys m (rq_Actor req)"
  then show "Authorize mem_authz_repo req m = Inl (AuthzErr ErrForbidden)"
    using keys by (auto simp: Authorize_system authorizeSystem_def Let_def set_held_system
        is_system_key_def LookupRole_system_iff)
qed (use mem_authz.authorize_not_member[OF assms] mem_authz.authorize_forbidden[OF assms]
    in \<open>auto simp: Authorize_def InScope_iff Known_Lookup split: if_splits\<close>)

lemma authorize_refusals_witness:
  "Authorize mem_authz_repo
     \<lparr>rq_Actor = UUID 12, rq_Org = demo_org, rq_Permission = PermMembersRemove\<rparr> demo = Inl (AuthzErr ErrNotMember)"
proof -
  have "\<not> mem_active demo (UUID 12) demo_org"
    by (simp add: mem_active_def member_row_def demo_defs)
  then show ?thesis
    using authorize_refusals[OF demo_wf, of "\<lparr>rq_Actor = UUID 12, rq_Org = demo_org, rq_Permission = PermMembersRemove\<rparr>"]
      demo_known by (simp add: demo_org_def)
qed

text \<open>What the middleware puts on the context is a bounded record of the decision: the grant names
  the actor and the organization that were asked about, carries exactly the known keys of that
  membership's roles and includes the permission that was required.\<close>

theorem grant_records_decision:
  assumes "authz_wf m" "Authorize mem_authz_repo req m = Inr g" "rq_Org req \<noteq> uuid_Nil"
  shows "Actor (Some g) = rq_Actor req \<and> OrganizationID (Some g) = rq_Org req \<and>
    (\<forall>p. Has (Some g) p = (p \<in> mem_keys m (rq_Actor req) (rq_Org req) \<and> Known p)) \<and>
    Has (Some g) (rq_Permission req)"
  using mem_authz.grant_within_keys[OF assms] by (auto simp: Actor_def OrganizationID_def Has_def)

lemma grant_records_decision_witness:
  "\<exists>g. Has (Some g) PermMembersRemove \<and> Actor (Some g) = UUID 11 \<and> OrganizationID (Some g) = demo_org"
proof -
  let ?req = "\<lparr>rq_Actor = UUID 11, rq_Org = demo_org, rq_Permission = PermMembersRemove\<rparr>"
  obtain g where "Authorize mem_authz_repo ?req demo = Inr g"
    using mem_authz.authorize_granted[OF demo_wf, of ?req] demo_admin_active demo_known
    by (auto simp: demo_org_def)
  then show ?thesis using grant_records_decision[OF demo_wf, of ?req g] by (auto simp: demo_org_def)
qed

text \<open>C23. The snapshot a client renders its menus from and the decision the server makes never
  disagree: an organization permission of the catalog is in the snapshot of an organization, and a system
  permission in that of the installation, exactly when a request for it would be authorized there. (A permission
  asked for outside its own scope is not spoken of.)\<close>

theorem snapshot_is_authorization:
  assumes "authz_wf m" "ServiceSnapshot mem_authz_repo u m = Inr sn"
  shows "(\<forall>org p. org \<noteq> uuid_Nil \<longrightarrow> p \<in> set (InScope ScopeOrganization) \<longrightarrow>
      (p \<in> set (SnapshotPermissions (Some sn) org)) =
      (\<exists>g. Authorize mem_authz_repo \<lparr>rq_Actor = u, rq_Org = org, rq_Permission = p\<rparr> m = Inr g)) \<and>
    (\<forall>p \<in> set (InScope ScopeSystem). (p \<in> set (sn_SystemPermissions sn)) =
      (\<exists>g. Authorize mem_authz_repo \<lparr>rq_Actor = u, rq_Org = uuid_Nil, rq_Permission = p\<rparr> m = Inr g))"
  by (intro conjI allI impI ballI) (fact mem_authz.snapshot_agrees_organization[OF assms(1) _ _ assms(2)]
      mem_authz.snapshot_agrees_system[OF assms(1) _ assms(2)])+

lemma snapshot_is_authorization_witness:
  "\<exists>sn. ServiceSnapshot mem_authz_repo (UUID 11) demo = Inr sn \<and>
     PermMembersRemove \<in> set (SnapshotPermissions (Some sn) demo_org)"
proof -
  obtain sn where sn: "ServiceSnapshot mem_authz_repo (UUID 11) demo = Inr sn"
    by (rule mem_authz.snapshot_ok[OF demo_wf])
  have "\<exists>g. Authorize mem_authz_repo
     \<lparr>rq_Actor = UUID 11, rq_Org = demo_org, rq_Permission = PermMembersRemove\<rparr> demo = Inr g"
    using mem_authz.authorize_granted[OF demo_wf,
        of "\<lparr>rq_Actor = UUID 11, rq_Org = demo_org, rq_Permission = PermMembersRemove\<rparr>"]
      demo_admin_active demo_known by (simp add: demo_org_def)
  then show ?thesis
    using snapshot_is_authorization[OF demo_wf sn, THEN conjunct1, rule_format, of demo_org PermMembersRemove]
      sn demo_known by (simp add: demo_org_def)
qed

end
