(* ===== verification/Scoped_Ops.thy ===== *)
theory Scoped_Ops
  imports Orgs_Runs
begin

text \<open>
  The mutating methods of \<open>orgs.Repository\<close>, each of which names the organization it acts on.
  Two facts hold of all of them: what other organizations can see of the store does not change,
  and a change that goes through leaves exactly one entry in the audit trail, which names the
  actor and the organization.
\<close>

section \<open>The operations\<close>

datatype scoped_op =
    OpUpdateOrganization string
  | OpDeleteOrganization
  | OpAddMember uuid "uuid list" uuid time
  | OpSetMemberStatus uuid MembershipStatus time OwnerGuard
  | OpRemoveMember uuid string OwnerGuard
  | OpReplaceMemberRoles uuid "uuid list" OwnerGuard
  | OpCreateRole Role "permission list"
  | OpUpdateRole uuid string string
  | OpDeleteRole uuid RoleGuard
  | OpReplaceRolePermissions uuid "permission list"
  | OpInviteMember string string "uuid list" uuid time time
  | OpReissueInvitation uuid string time
  | OpWithdrawInvitation uuid

definition ignore_value :: "('s, 'e, 'a) prog \<Rightarrow> ('s, 'e, unit) prog" where
  "ignore_value p = bindp p (\<lambda>_. ok ())"

fun run_scoped :: "Call \<Rightarrow> uuid \<Rightarrow> scoped_op \<Rightarrow> (AuthzStore, err, unit) prog" where
  "run_scoped c org (OpUpdateOrganization name) = AuthzUpdateOrganization c org name"
| "run_scoped c org OpDeleteOrganization = AuthzDeleteOrganization c org"
| "run_scoped c org (OpAddMember u ids by' at) = ignore_value (AuthzAddMember c org u ids by' at)"
| "run_scoped c org (OpSetMemberStatus k st at guard) = AuthzSetMemberStatus c org k st at guard"
| "run_scoped c org (OpRemoveMember k action guard) = AuthzRemoveMember c org k action guard"
| "run_scoped c org (OpReplaceMemberRoles k ids guard) = AuthzReplaceMemberRoles c org k ids guard"
| "run_scoped c org (OpCreateRole r ps) = ignore_value (AuthzCreateRole c org r ps)"
| "run_scoped c org (OpUpdateRole k n d) = AuthzUpdateRole c org k n d"
| "run_scoped c org (OpDeleteRole k guard) = AuthzDeleteRole c org k guard"
| "run_scoped c org (OpReplaceRolePermissions k ps) = AuthzReplaceRolePermissions c org k ps"
| "run_scoped c org (OpInviteMember e h ids by' ex at) = ignore_value (AuthzInviteMember c org e h ids by' ex at)"
| "run_scoped c org (OpReissueInvitation k h ex) = ignore_value (AuthzReissueInvitation c org k h ex)"
| "run_scoped c org (OpWithdrawInvitation k) = AuthzWithdrawInvitation c org k"

text \<open>The identifiers such an operation draws are new.\<close>

definition fresh_rows :: "Call \<Rightarrow> scoped_op \<Rightarrow> AuthzStore \<Rightarrow> bool" where
  "fresh_rows c op m \<longleftrightarrow>
     map_of (ma_memberships m) (c_newID c DrawMembership) = None \<and>
     map_of (ma_invitations m) (c_newID c DrawInvitation) = None \<and>
     (case op of
        OpCreateRole r ps \<Rightarrow> fresh_role m (if r_ID r = uuid_Nil then c_newID c (DrawRole 0) else r_ID r)
      | _ \<Rightarrow> True)"

lemma ignore_value_result [simp]:
  "snd (ignore_value p m) = snd (p m)"
  "fst (ignore_value p m) = map_sum id (\<lambda>_. ()) (fst (p m))"
  by (simp_all add: ignore_value_def bindp_def ok_def split: prod.splits sum.splits)

section \<open>What one organization can see\<close>

text \<open>
  Its own row, its memberships with the roles assigned to them, its roles with their permissions,
  and its invitations with the roles they promise.
\<close>

definition view_rows ::
    "('v \<Rightarrow> uuid) \<Rightarrow> (uuid, 'v) amap \<Rightarrow> (uuid \<Rightarrow> 'b) \<Rightarrow> uuid \<Rightarrow> uuid \<Rightarrow> ('v \<times> 'b) option" where
  "view_rows orgf rows extra org k =
     (case map_of rows k of
        None \<Rightarrow> None
      | Some v \<Rightarrow> if orgf v = org then Some (v, extra k) else None)"

definition org_view :: "AuthzStore \<Rightarrow> uuid \<Rightarrow>
    Organization option \<times> (uuid \<Rightarrow> (Membership \<times> uuid list) option) \<times>
    (uuid \<Rightarrow> (Role \<times> string list) option) \<times> (uuid \<Rightarrow> (Invitation \<times> uuid list) option)" where
  "org_view m org =
     (map_of (ma_orgs m) org,
      view_rows ms_OrganizationID (ma_memberships m) (alist_at (ma_memberRoles m)) org,
      view_rows r_OrganizationID (ma_roles m) (alist_at (ma_rolePerms m)) org,
      view_rows inv_OrganizationID (ma_invitations m) (alist_at (ma_inviteRoles m)) org)"

lemma view_rows_cong:
  assumes rows: "\<And>k v. orgf v = org \<Longrightarrow> map_of rows' k = Some v \<longleftrightarrow> map_of rows k = Some v"
    and extra: "\<And>k v. map_of rows k = Some v \<Longrightarrow> orgf v = org \<Longrightarrow> e' k = e k"
  shows "view_rows orgf rows' e' org = view_rows orgf rows e org"
proof
  fix k
  show "view_rows orgf rows' e' org k = view_rows orgf rows e org k"
  proof (cases "\<exists>v. map_of rows k = Some v \<and> orgf v = org")
    case True
    then obtain v where v: "map_of rows k = Some v" "orgf v = org" by blast
    then have "map_of rows' k = Some v" using rows by blast
    then show ?thesis using v extra[OF v] by (simp add: view_rows_def)
  next
    case False
    then show ?thesis using rows[of _ k] by (auto simp: view_rows_def split: option.split)
  qed
qed

lemma org_view_record [simp]: "org_view (recordLocked c e m) org = org_view m org"
  unfolding org_view_def recordLocked_sel ..

text \<open>A row of another organization may be written or dropped, with whatever hangs on it.\<close>

lemma view_rows_update:
  "orgf v \<noteq> org \<Longrightarrow> (\<And>w. map_of rows k = Some w \<Longrightarrow> orgf w \<noteq> org) \<Longrightarrow> (\<And>j. j \<noteq> k \<Longrightarrow> e' j = e j) \<Longrightarrow>
     view_rows orgf (AList.update k v rows) e' org = view_rows orgf rows e org"
  by (rule view_rows_cong, auto simp: amap_simps split: if_splits; metis)

lemma view_rows_delete:
  "(\<And>w. map_of rows k = Some w \<Longrightarrow> orgf w \<noteq> org) \<Longrightarrow> (\<And>j. j \<noteq> k \<Longrightarrow> e' j = e j) \<Longrightarrow>
     view_rows orgf (AList.delete k rows) e' org = view_rows orgf rows e org"
  by (rule view_rows_cong, auto simp: amap_simps split: if_splits; metis)

lemma view_rows_extra:
  "(\<And>w. map_of rows k = Some w \<Longrightarrow> orgf w \<noteq> org) \<Longrightarrow> (\<And>j. j \<noteq> k \<Longrightarrow> e' j = e j) \<Longrightarrow>
     view_rows orgf rows e' org = view_rows orgf rows e org"
  by (rule view_rows_cong, auto simp: amap_simps split: if_splits; metis)

section \<open>Isolation\<close>

lemma DeleteRole_isolated:
  assumes wf: "authz_wf m" and other: "org \<noteq> acting"
  shows "org_view (snd (AuthzDeleteRole c acting k guard m)) org = org_view m org"
proof -
  { fix role assume role: "map_of (ma_roles m) k = Some role" "r_OrganizationID role = acting"
    have held: "filter (\<lambda>a. a \<noteq> k) (alist_at (ma_memberRoles m) j) = alist_at (ma_memberRoles m) j"
      if "map_of (ma_memberships m) j = Some ms" "ms_OrganizationID ms = org" for j ms
    proof (rule filter_True)
      have "roles_of_org m org (alist_at (ma_memberRoles m) j)"
        using authz_wfD(6)[OF wf] that by (auto simp: member_roles_ok_def)
      then show "\<forall>a \<in> set (alist_at (ma_memberRoles m) j). a \<noteq> k"
        using role other by (auto simp: roles_of_org_def)
    qed
    have "view_rows ms_OrganizationID (ma_memberships m) (alist_at (map (\<lambda>(memberID, assigned).
        (memberID, filter (\<lambda>a. a \<noteq> k) assigned)) (ma_memberRoles m))) org =
      view_rows ms_OrganizationID (ma_memberships m) (alist_at (ma_memberRoles m)) org"
      by (rule view_rows_cong) (simp_all add: alist_at_map_filter held)
    moreover have "view_rows r_OrganizationID (AList.delete k (ma_roles m))
        (alist_at (AList.delete k (ma_rolePerms m))) org =
      view_rows r_OrganizationID (ma_roles m) (alist_at (ma_rolePerms m)) org"
      by (rule view_rows_delete) (use role other in \<open>auto simp: amap_simps\<close>)
    ultimately have "org_view (m\<lparr>ma_roles := AList.delete k (ma_roles m),
        ma_rolePerms := AList.delete k (ma_rolePerms m),
        ma_memberRoles := map (\<lambda>(memberID, assigned). (memberID, filter (\<lambda>a. a \<noteq> k) assigned))
          (ma_memberRoles m)\<rparr>) org = org_view m org"
      by (simp add: org_view_def) }
  then show ?thesis
    by (auto simp: AuthzDeleteRole_def step_simps split: option.split sum.split)
qed

lemma CreateRole_isolated:
  assumes fresh: "fresh_role m (if r_ID r = uuid_Nil then c_newID c (DrawRole 0) else r_ID r)"
    and other: "org \<noteq> acting"
  shows "org_view (snd (AuthzCreateRole c acting r ps m)) org = org_view m org"
  using assms by (auto simp: AuthzCreateRole_def step_simps org_view_def fresh_role_def amap_simps
      intro!: view_rows_update)

lemma organization_isolated:
  assumes other: "org \<noteq> acting"
  shows "org_view (snd (AuthzUpdateOrganization c acting name m)) org = org_view m org"
    and "org_view (snd (AuthzDeleteOrganization c acting m)) org = org_view m org"
  using other by (auto simp: AuthzUpdateOrganization_def AuthzDeleteOrganization_def step_simps
      org_view_def amap_simps split: sum.split)

lemma members_isolated:
  assumes other: "org \<noteq> acting"
  shows "map_of (ma_memberships m) (c_newID c DrawMembership) = None \<Longrightarrow>
      org_view (snd (AuthzAddMember c acting u ids by' at m)) org = org_view m org"
    and "org_view (snd (AuthzSetMemberStatus c acting k st at guard m)) org = org_view m org"
    and "org_view (snd (AuthzRemoveMember c acting k action guard m)) org = org_view m org"
    and "org_view (snd (AuthzReplaceMemberRoles c acting k ids guard m)) org = org_view m org"
  using other by (auto simp: AuthzAddMember_def AuthzSetMemberStatus_def AuthzRemoveMember_def
      AuthzReplaceMemberRoles_def step_simps org_view_def amap_simps split: sum.split option.split
      intro!: view_rows_update view_rows_delete view_rows_extra)

lemma roles_isolated:
  assumes other: "org \<noteq> acting"
  shows "org_view (snd (AuthzUpdateRole c acting k n d m)) org = org_view m org"
    and "org_view (snd (AuthzReplaceRolePermissions c acting k ps m)) org = org_view m org"
  using other by (auto simp: AuthzUpdateRole_def AuthzReplaceRolePermissions_def step_simps org_view_def
      amap_simps split: option.split intro!: view_rows_update view_rows_extra)

lemma invitations_isolated:
  assumes other: "org \<noteq> acting"
  shows "map_of (ma_invitations m) (c_newID c DrawInvitation) = None \<Longrightarrow>
      org_view (snd (AuthzInviteMember c acting e h ids by' ex at m)) org = org_view m org"
    and "org_view (snd (AuthzReissueInvitation c acting k h ex m)) org = org_view m org"
    and "org_view (snd (AuthzWithdrawInvitation c acting k m)) org = org_view m org"
  using other by (auto simp: AuthzInviteMember_def AuthzReissueInvitation_def AuthzWithdrawInvitation_def
      drop_invitation_def step_simps org_view_def amap_simps split: sum.split option.split
      intro!: view_rows_update view_rows_delete)

lemma scoped_isolated:
  assumes "authz_wf m" "fresh_rows c op m" "org \<noteq> acting"
  shows "org_view (snd (run_scoped c acting op m)) org = org_view m org"
  using assms by (cases op) (simp_all add: fresh_rows_def DeleteRole_isolated CreateRole_isolated
      organization_isolated members_isolated roles_isolated invitations_isolated)

section \<open>One entry per change\<close>

definition entry_for :: "Call \<Rightarrow> uuid \<Rightarrow> AuthzEvent \<Rightarrow> bool" where
  "entry_for c org e \<longleftrightarrow>
     ev_OrganizationID e = Some org \<and> ev_ActorID e = ac_ID (ActorFrom (c_actor c)) \<and>
     ev_CreatedAt e = c_now c ClockEvent \<and> ev_IP e \<noteq> []"

lemma record_entry:
  assumes "\<not> ActorIsZero (ActorFrom (c_actor c))" "ev_OrganizationID e = Some org" "ma_events m' = ma_events m"
  shows "\<exists>e'. ma_events (recordLocked c e m') = ma_events m @ [e'] \<and> entry_for c org e'"
  using assms by (auto simp: recordLocked_def Let_def entry_for_def)

lemma scoped_audited:
  assumes actor: "\<not> ActorIsZero (ActorFrom (c_actor c))"
  shows "case run_scoped c org op m of
    (Inr _, m') \<Rightarrow> \<exists>e. ma_events m' = ma_events m @ [e] \<and> entry_for c org e
  | (Inl _, m') \<Rightarrow> m' = m"
  by (cases op)
    (auto simp: ignore_value_def bindp_def AuthzUpdateOrganization_def AuthzDeleteOrganization_def
      AuthzAddMember_def AuthzSetMemberStatus_def AuthzRemoveMember_def AuthzReplaceMemberRoles_def
      AuthzCreateRole_def AuthzUpdateRole_def AuthzDeleteRole_def AuthzReplaceRolePermissions_def
      AuthzInviteMember_def AuthzReissueInvitation_def AuthzWithdrawInvitation_def drop_invitation_def
      step_simps split: option.split sum.split intro!: record_entry[OF actor])

end
