(* ===== verification/Orgs_Properties.thy ===== *)
theory Orgs_Properties
  imports Demo_Store Scoped_Ops
begin

text \<open>
  What the organization service guarantees over the in-memory store: the last-owner rule on every
  run, the authority rules on every way of handing power out or taking it away, tenant isolation,
  the audit trail, invitations and provisioning.
\<close>

section \<open>The store under every run\<close>

text \<open>C5. No sequence of the calls the service makes, in any order and from any number of
  interleaved requests, takes an organization's last owner away: an organization that somebody
  can administer keeps somebody who can. (Deleting an account is not one of these calls; it is
  the one way an organization becomes ownerless.)\<close>

theorem last_owner_kept:
  assumes "store_step\<^sup>*\<^sup>* m m'" "authz_wf m" "0 < ownerCountLocked m org"
  shows "0 < ownerCountLocked m' org"
  using steps_owned[OF assms(1,2)] steps_wf[OF assms(1,2)] assms(2,3) by (simp add: owned_count)

lemma demo_owned: "0 < ownerCountLocked demo demo_org"
proof -
  have "counts_as_owner demo demo_org (demo_member demo_owner 10)"
    by (simp add: counts_as_owner_def accountDeletedLocked_def accountIDDeletedLocked_def
        holdsOwnerLocked_iff alist_at_def demo_defs GrantsPermissions_def)
  moreover have "map_of (ma_memberships demo) demo_owner = Some (demo_member demo_owner 10)"
    by (simp add: demo_defs)
  ultimately have "owned demo demo_org" unfolding owned_def by blast
  then show ?thesis by (simp add: owned_count[OF demo_wf])
qed

lemma last_owner_kept_witness:
  "0 < ownerCountLocked (snd (RemoveMember mem_orgs (demo_call 20) owner_grant demo_owner demo)) demo_org"
  by (rule last_owner_kept[OF RemoveMember_steps demo_wf demo_owned])

lemma first_page: "page xs (int n) 0 = Inr out \<Longrightarrow> take n xs = out"
  by (simp add: page_ok)

text \<open>The installation-wide listing and the last-owner rule count owners by one
  definition, though the code computes the two in two loops: the listing filtered to
  organizations without an owner names exactly the live organizations the rule counts none in.\<close>

theorem listing_agrees_with_rule:
  assumes "authz_wf m"
    "AuthzAllOrganizations \<lparr>of_WithoutOwner = True\<rparr> (int (length (ma_orgs m))) 0 m = Inr out"
  shows "(org \<in> org_ID ` os_Organization ` set out) =
    (live_org m org \<and> ow_Owners (ownerStateLocked m org memberID) = 0)"
proof -
  note rows = authz_wf_tables(1)[OF assms(1)]
  let ?flt = "\<lambda>o'. \<not> OrganizationIsDeleted o' \<and> \<not> (True \<and> 0 < ownerCountLocked m (org_ID o'))"
  let ?out = "map (\<lambda>o'. \<lparr>os_Organization = o', os_Owners = ownerCountLocked m (org_ID o')\<rparr>)
    (filter ?flt (avals (ma_orgs m)))"
  have len: "length ?out \<le> length (ma_orgs m)"
    using length_filter_le[of ?flt "avals (ma_orgs m)"] by simp
  have "page (rev (sort_key (\<lambda>s. org_ID (os_Organization s)) ?out)) (int (length (ma_orgs m))) 0 = Inr out"
    using assms(2) by (simp add: AuthzAllOrganizations_def Let_def)
  then have "take (length (ma_orgs m)) (rev (sort_key (\<lambda>s. org_ID (os_Organization s)) ?out)) = out"
    by (rule first_page)
  moreover have "length (rev (sort_key (\<lambda>s. org_ID (os_Organization s)) ?out)) \<le> length (ma_orgs m)"
    using len by (simp only: length_rev length_sort)
  ultimately have "out = rev (sort_key (\<lambda>s. org_ID (os_Organization s)) ?out)" by (simp only: take_all)
  then have "set out = set ?out" by simp
  then have "org_ID ` os_Organization ` set out = org_ID ` {o' \<in> snd ` set (ma_orgs m). ?flt o'}"
    by (simp add: image_image)
  moreover have row: "o' \<in> snd ` set (ma_orgs m) \<and> org_ID o' = org \<longleftrightarrow> map_of (ma_orgs m) org = Some o'" for o'
    using rows_ok_vals[OF rows, of o'] rows_ok_id[OF rows, of org o'] by auto
  then have "org \<in> org_ID ` {o' \<in> snd ` set (ma_orgs m). ?flt o'} \<longleftrightarrow>
      (\<exists>o'. map_of (ma_orgs m) org = Some o' \<and> \<not> OrganizationIsDeleted o' \<and> \<not> 0 < ownerCountLocked m org)"
    by (simp add: image_iff flip: row) blast
  moreover have "live_org m org \<longleftrightarrow> (\<exists>o'. map_of (ma_orgs m) org = Some o' \<and> \<not> OrganizationIsDeleted o')"
    by (simp add: live_org_def split: option.split)
  moreover have "\<not> 0 < ownerCountLocked m org \<longleftrightarrow> ow_Owners (ownerStateLocked m org memberID) = 0"
    unfolding ownerCount_eq[of m org memberID, symmetric] by (simp add: ownerCount_filter)
  ultimately show ?thesis by auto
qed

lemma listing_agrees_with_rule_witness:
  "\<exists>out. AuthzAllOrganizations \<lparr>of_WithoutOwner = True\<rparr> (int (length (ma_orgs demo))) 0 demo = Inr out \<and>
     demo_org \<notin> org_ID ` os_Organization ` set out"
proof -
  obtain out where out: "AuthzAllOrganizations \<lparr>of_WithoutOwner = True\<rparr> (int (length (ma_orgs demo))) 0 demo = Inr out"
    by (simp add: AuthzAllOrganizations_def Let_def page_ok)
  then show ?thesis
    using listing_agrees_with_rule[OF demo_wf out, of demo_org demo_owner] demo_owned
    by (simp add: ownerCount_eq[of demo demo_org demo_owner])
qed

text \<open>C21. The store never reaches a malformed state: starting empty, after any run of its operations there is at
  most one membership per account and organization, one role per key and organization, one live organization per slug and
  one open invitation per address and organization; every organization row has its shipped owner role; every row is kept under
  its own identifier; and an identifier of a role that is assigned to a member or promised by an invitation is one of a role of
  that very organization, or of no role at all (the store keeps the promise of a role that is deleted before the
  invitation is accepted). It is not said that the organization of a membership or an invitation exists: \<open>AddMember\<close> and
  \<open>InviteMember\<close> do not ask.\<close>

theorem store_stays_well_formed:
  assumes "store_step\<^sup>*\<^sup>* (NewAuthz users) m"
  shows "unique_memberships m \<and> unique_role_keys m \<and> unique_slugs m \<and> unique_invitations m \<and>
    member_roles_ok m \<and> invite_roles_ok m \<and> owner_roles_ok m \<and> tables_ok m"
  using steps_wf[OF assms authz_wf_new] by (simp add: authz_wf_def)

lemma store_stays_well_formed_witness:
  "succeeds (ServiceCreateOrganization mem_orgs (demo_call 20) ''acme'' ''Acme'' (NewAuthz None)) \<and>
   (let m = snd (ServiceCreateOrganization mem_orgs (demo_call 20) ''acme'' ''Acme'' (NewAuthz None)) in
    unique_slugs m \<and> unique_role_keys m \<and> owner_roles_ok m)"
proof -
  have "fresh_draws (demo_call 20) (NewAuthz None)"
    by (simp add: fresh_draws_def NewAuthz_def demo_call_id fresh_role_def draws_distinct_roles_def inj_def)
  moreover have "succeeds (ServiceCreateOrganization mem_orgs (demo_call 20) ''acme'' ''Acme'' (NewAuthz None))" by code_simp
  ultimately show ?thesis
    using store_stays_well_formed[OF ServiceCreateOrganization_steps, of "demo_call 20" None] by (simp add: Let_def)
qed

text \<open>A shipped role stays what it is on every run: it is never deleted, moved to another
  organization or given another key, so the owner role an earlier read named is still the owner role
  when the change is written.\<close>

theorem shipped_role_stays:
  assumes "store_step\<^sup>*\<^sup>* m m'" "system_role m org rid key"
  shows "system_role m' org rid key"
  using steps_invariant[OF assms(1), of "\<lambda>m. system_role m org rid key"] assms(2) step_system_role by blast

lemma shipped_role_stays_witness:
  "system_role (snd (DeleteRole mem_orgs (demo_call 20) owner_grant (UUID 4) demo)) demo_org (UUID 4) RoleOwner"
  by (rule shipped_role_stays[OF DeleteRole_steps]) (simp add: system_role_def demo_defs)

text \<open>The audit trail is append-only: whatever runs, the entries that were there stay
  there, unchanged and in order, and every entry added has an actor.\<close>

lemma step_trail:
  "store_step m m' \<Longrightarrow> \<exists>es. ma_events m' = ma_events m @ es"
  using step_events by blast

theorem trail_append_only:
  assumes "store_step\<^sup>*\<^sup>* m m'"
  shows "take (length (ma_events m)) (ma_events m') = ma_events m"
proof -
  have "\<exists>es. ma_events m' = ma_events m @ es"
    using assms by (induction rule: rtranclp_induct) (auto dest: step_trail)
  then show ?thesis by auto
qed

lemma trail_append_only_witness:
  "take (length (ma_events demo))
     (ma_events (snd (Rename mem_orgs (demo_call 20) owner_grant ''New'' demo))) = ma_events demo"
  by (rule trail_append_only[OF Rename_steps])

text \<open>C7. Tenants are isolated: whatever a call that names one organization does, and whether it
  succeeds or fails, what any other organization holds (its row, its memberships and their roles, its roles
  and their permissions, its invitations) is what it was.\<close>

theorem tenants_isolated:
  assumes "authz_wf m" "fresh_rows c op m" "org \<noteq> acting"
  shows "org_view (snd (run_scoped c acting op m)) org = org_view m org"
  by (rule scoped_isolated[OF assms])

lemma tenants_isolated_witness:
  "org_view (snd (run_scoped (demo_call 20) (UUID 13) (OpDeleteRole (UUID 6) RefuseRoleInUse) demo)) demo_org =
     org_view demo demo_org"
  by (rule tenants_isolated[OF demo_wf])
    (simp_all add: fresh_rows_def demo_call_id demo_defs)

text \<open>C22. Every change an actor makes to an organization is accounted for: a call that goes through adds
  exactly one entry, naming the organization, the actor and the time, and a call that is
  refused leaves the store, the trail included, untouched.\<close>

theorem changes_audited:
  assumes "\<not> ActorIsZero (ActorFrom (c_actor c))"
  shows "case run_scoped c org op m of
    (Inr _, m') \<Rightarrow> \<exists>e. ma_events m' = ma_events m @ [e] \<and> ev_OrganizationID e = Some org \<and>
       ev_ActorID e = ac_ID (ActorFrom (c_actor c)) \<and> ev_CreatedAt e = c_now c ClockEvent \<and> ev_IP e \<noteq> []
  | (Inl _, m') \<Rightarrow> m' = m"
  using scoped_audited[OF assms, of m org op] unfolding entry_for_def .

lemma changes_audited_witness:
  "\<exists>e m'. run_scoped (demo_call 20) demo_org (OpUpdateOrganization ''New'') demo = (Inr (), m') \<and>
     ma_events m' = [e] \<and> ev_ActorID e = UUID 10"
proof -
  have actor: "\<not> ActorIsZero (ActorFrom (c_actor (demo_call 20)))"
    by (simp add: demo_call_def ActorFrom_def ActorIsZero_def)
  obtain m' where m': "run_scoped (demo_call 20) demo_org (OpUpdateOrganization ''New'') demo = (Inr (), m')"
    by (simp add: AuthzUpdateOrganization_def organizationLocked_def OrganizationIsDeleted_def step_simps demo_defs)
  then show ?thesis using changes_audited[OF actor, of demo demo_org "OpUpdateOrganization ''New''"]
    by (auto simp: demo_call_def ActorFrom_def demo_defs)
qed

section \<open>Authority\<close>

text \<open>C8. Assigning roles cannot escalate and cannot reach up: when \<open>SetMemberRoles\<close> goes
  through, everything the member's roles now add up to is held by the caller, and everything
  they added up to before was too, unless the caller was changing their own membership.\<close>

theorem set_member_roles_bounded:
  assumes "authz_wf m" "SetMemberRoles mem_orgs c g mid ids m = (Inr mb, m')"
  shows "(\<forall>k \<in> mem_member_keys m' (OrganizationID g) mid. Known k \<and> Has g k) \<and>
    (mem_member_user m (OrganizationID g) mid = Some (Actor g) \<or>
     (\<forall>k \<in> mem_member_keys m (OrganizationID g) mid. Known k \<longrightarrow> Has g k))"
  using mem_authority.SetMemberRoles_no_escalation[OF assms] by blast

lemma set_member_roles_bounded_witness:
  "\<exists>mb m'. SetMemberRoles mem_orgs (demo_call 20) owner_grant demo_admin [UUID 6] demo = (Inr mb, m') \<and>
     (\<forall>k \<in> mem_member_keys m' (OrganizationID owner_grant) demo_admin. Has owner_grant k)"
proof -
  have "succeeds (SetMemberRoles mem_orgs (demo_call 20) owner_grant demo_admin [UUID 6] demo)" by code_simp
  then show ?thesis by (rule succeedsE) (use set_member_roles_bounded[OF demo_wf] in blast)
qed

text \<open>C10. Defining power cannot escalate. Whenever \<open>CreateRole\<close> goes through, the role it made, and whenever
  \<open>SetRolePermissions\<close> goes through, the role it rewrote, carries exactly the permissions asked for, all of
  them organization permissions and all of them held by the caller; the two are stated each on its own, with a caller and a
  call of its own.\<close>

theorem role_permissions_bounded:
  assumes "authz_wf m"
  shows "(\<forall>c g key name description perms v m'.
       CreateRole mem_orgs c g key name description perms m = (Inr v, m') \<longrightarrow>
         mem_role_keys m' (OrganizationID g) (r_ID (rv_Role v)) = Some (set perms) \<and>
         (\<forall>k \<in> set perms. k \<in> set (InScope ScopeOrganization) \<and> Has g k)) \<and>
     (\<forall>c g rid perms v m'.
       SetRolePermissions mem_orgs c g rid perms m = (Inr v, m') \<longrightarrow>
         mem_role_keys m' (OrganizationID g) rid = Some (set perms) \<and>
         (\<forall>k \<in> set perms. k \<in> set (InScope ScopeOrganization) \<and> Has g k))"
proof (intro conjI allI impI)
  fix c g key name description perms v m'
  assume "CreateRole mem_orgs c g key name description perms m = (Inr v, m')"
  from mem_authority.CreateRole_no_escalation[OF assms this]
  show "mem_role_keys m' (OrganizationID g) (r_ID (rv_Role v)) = Some (set perms)"
    and "\<forall>k \<in> set perms. k \<in> set (InScope ScopeOrganization) \<and> Has g k" by blast+
next
  fix c g rid perms v m'
  assume "SetRolePermissions mem_orgs c g rid perms m = (Inr v, m')"
  from mem_authority.SetRolePermissions_no_escalation[OF assms this]
  show "mem_role_keys m' (OrganizationID g) rid = Some (set perms)"
    and "\<forall>k \<in> set perms. k \<in> set (InScope ScopeOrganization) \<and> Has g k" by blast+
qed

lemma role_permissions_bounded_witness:
  "\<exists>v m1 v' m2.
     CreateRole mem_orgs (demo_call 20) owner_grant ''ops'' ''Ops'' [] [PermMembersRemove] demo = (Inr v, m1) \<and>
     mem_role_keys m1 (OrganizationID owner_grant) (r_ID (rv_Role v)) = Some {PermMembersRemove} \<and>
     SetRolePermissions mem_orgs (demo_call 20) owner_grant (UUID 6) [PermMembersRolesAssign] demo = (Inr v', m2) \<and>
     mem_role_keys m2 (OrganizationID owner_grant) (UUID 6) = Some {PermMembersRolesAssign}"
proof -
  have "succeeds (CreateRole mem_orgs (demo_call 20) owner_grant ''ops'' ''Ops'' [] [PermMembersRemove] demo)"
    by code_simp
  then obtain v m1 where made:
    "CreateRole mem_orgs (demo_call 20) owner_grant ''ops'' ''Ops'' [] [PermMembersRemove] demo = (Inr v, m1)"
    by (rule succeedsE)
  have "succeeds (SetRolePermissions mem_orgs (demo_call 20) owner_grant (UUID 6) [PermMembersRolesAssign] demo)"
    by code_simp
  then obtain v' m2 where rewritten:
    "SetRolePermissions mem_orgs (demo_call 20) owner_grant (UUID 6) [PermMembersRolesAssign] demo = (Inr v', m2)"
    by (rule succeedsE)
  note bounded = role_permissions_bounded[OF demo_wf]
  from bounded made have "mem_role_keys m1 (OrganizationID owner_grant) (r_ID (rv_Role v)) = Some (set [PermMembersRemove])"
    by blast
  moreover from bounded rewritten have "mem_role_keys m2 (OrganizationID owner_grant) (UUID 6) = Some (set [PermMembersRolesAssign])"
    by blast
  ultimately show ?thesis using made rewritten by simp
qed

text \<open>Nobody acts on somebody who outranks them: while a member holds a known permission the
  caller does not, changing their roles, suspending or reinstating them and removing them are
  all refused with \<open>ErrInsufficientRank\<close>, and the store is untouched.\<close>

theorem outranked_member_untouchable:
  assumes "authz_wf m" "AuthzMember (OrganizationID g) mid m = Inr mb" "mb_UserID mb \<noteq> Actor g"
    "k \<in> mem_member_keys m (OrganizationID g) mid" "Known k" "\<not> Has g k"
  shows "SetMemberRoles mem_orgs c g mid ids m = (Inl (AuthzErr ErrInsufficientRank), m) \<and>
    RemoveMember mem_orgs c g mid m = (Inl (AuthzErr ErrInsufficientRank), m) \<and>
    SetMemberStatus mem_orgs c g mid MembershipSuspended m = (Inl (AuthzErr ErrInsufficientRank), m) \<and>
    SetMemberStatus mem_orgs c g mid MembershipActive m = (Inl (AuthzErr ErrInsufficientRank), m)"
  using mem_authority.outranked_refused[of m g mid mb k] assms by simp

lemma outranked_member_untouchable_witness:
  "RemoveMember mem_orgs (demo_call 20) admin_grant demo_owner demo = (Inl (AuthzErr ErrInsufficientRank), demo)"
proof -
  have member: "AuthzMember (OrganizationID admin_grant) demo_owner demo =
      Inr (memberLocked demo (demo_member demo_owner 10))"
    by (simp add: AuthzMember_def OrganizationID_def admin_grant_def accountDeletedLocked_def
        accountIDDeletedLocked_def demo_defs)
  have keys: "PermOrganizationDelete \<in> mem_member_keys demo (OrganizationID admin_grant) demo_owner"
    by (simp add: mem_member_keys_def role_keys_def alist_at_def OrganizationID_def admin_grant_def demo_defs)
  have lacks: "\<not> Has admin_grant PermOrganizationDelete" by code_simp
  have known: "Known PermOrganizationDelete" using demo_known by (auto intro: InScope_Known)
  have "mb_UserID (memberLocked demo (demo_member demo_owner 10)) \<noteq> Actor admin_grant"
    by (simp add: demo_member_def Actor_def admin_grant_def)
  from outranked_member_untouchable[OF demo_wf member this keys known lacks, of "demo_call 20" "[]"]
  show ?thesis by blast
qed

text \<open>C20. What an invitation promises is bounded too: an invitation goes out only with roles of the
  inviter's own organization whose permissions the inviter holds, and it is stored under the hash
  of a fresh token and the normalized address.\<close>

theorem invitation_bounded:
  assumes "authz_wf m" "Invite mem_orgs lu c g email ids m = (Inr (invitation, token), m')"
  shows "(\<forall>rid \<in> set ids. \<exists>ks. mem_role_keys m (OrganizationID g) rid = Some ks \<and> (\<forall>k \<in> ks. Known k \<and> Has g k)) \<and>
    (\<exists>i. map_of (ma_invitations m') (iv_ID invitation) = Some i \<and> inv_OrganizationID i = OrganizationID g \<and>
       inv_Email i = normalizeEmail lu email \<and> inv_TokenHash i = HashInvitationToken token \<and> inv_AcceptedAt i = None \<and>
       inv_ExpiresAt i = c_now c ClockService + InvitationTTL \<and> (\<exists>buf. c_token c = Some buf \<and> token = raw_url_encode buf) \<and>
       set (alist_at (ma_inviteRoles m') (iv_ID invitation)) = set ids)"
proof
  show "\<forall>rid \<in> set ids. \<exists>ks. mem_role_keys m (OrganizationID g) rid = Some ks \<and> (\<forall>k \<in> ks. Known k \<and> Has g k)"
    by (rule mem_authority.Invite_no_escalation[OF assms])
  show "\<exists>i. map_of (ma_invitations m') (iv_ID invitation) = Some i \<and> inv_OrganizationID i = OrganizationID g \<and>
       inv_Email i = normalizeEmail lu email \<and> inv_TokenHash i = HashInvitationToken token \<and> inv_AcceptedAt i = None \<and>
       inv_ExpiresAt i = c_now c ClockService + InvitationTTL \<and> (\<exists>buf. c_token c = Some buf \<and> token = raw_url_encode buf) \<and>
       set (alist_at (ma_inviteRoles m') (iv_ID invitation)) = set ids"
    using assms(2)
    by (auto simp: Invite_def Let_def prog_simps newInvitationToken_def HashInvitationToken_def
        AuthzInviteMember_def invitationLocked_def amap_simps step_simps
        split: if_split_asm option.splits sum.splits)
qed

lemma invitation_bounded_witness:
  "\<exists>invitation token m'.
     Invite mem_orgs id (demo_call 20) owner_grant '' New@x.io '' [UUID 6] demo = (Inr (invitation, token), m') \<and>
     (\<exists>i. map_of (ma_invitations m') (iv_ID invitation) = Some i \<and> inv_TokenHash i = HashInvitationToken token)"
proof -
  have "succeeds (Invite mem_orgs id (demo_call 20) owner_grant '' New@x.io '' [UUID 6] demo)" by code_simp
  then show ?thesis by (rule succeedsE) (use invitation_bounded[OF demo_wf] in fastforce)
qed

end
