(* ===== verification/Orgs_Lifecycle.thy ===== *)
theory Orgs_Lifecycle
  imports Demo_Store
begin

text \<open>
  What the organization service guarantees about single operations: deleting roles, leaving,
  invitations from offer to membership, system roles, provisioning and paging.
\<close>

section \<open>Roles and memberships\<close>

lemma role_keys_without:
  assumes "\<And>k. rid \<notin> set (alist_at (ma_memberRoles m) k)"
    "\<And>k. set (alist_at (ma_memberRoles m') k) = set (alist_at (ma_memberRoles m) k)"
    "\<And>r. r \<noteq> rid \<Longrightarrow> map_of (ma_roles m') r = map_of (ma_roles m) r \<and>
       alist_at (ma_rolePerms m') r = alist_at (ma_rolePerms m) r"
  shows "role_keys m' k = role_keys m k"
  unfolding role_keys_def assms(2) using assms(1,3) by (metis (no_types, lifting))

text \<open>Deleting a role takes nothing from anybody: it only goes through for a custom role of the
  caller's organization that no membership is assigned, and afterwards the role is gone and every
  membership adds up to the keys it added up to before.\<close>

theorem delete_role_harmless:
  assumes "DeleteRole mem_orgs c g rid m = (Inr (), m')"
  shows "(\<exists>role. map_of (ma_roles m) rid = Some role \<and> r_OrganizationID role = OrganizationID g \<and> \<not> r_IsSystem role) \<and>
    (\<forall>k. rid \<notin> set (alist_at (ma_memberRoles m) k)) \<and>
    map_of (ma_roles m') rid = None \<and> ma_memberships m' = ma_memberships m \<and>
    (\<forall>k. role_keys m' k = role_keys m k)"
proof -
  from assms obtain v where v: "AuthzRole (OrganizationID g) rid m = Inr v" "\<not> r_IsSystem (rv_Role v)"
    and del: "AuthzDeleteRole c (OrganizationID g) rid RefuseRoleInUse m = (Inr (), m')"
    by (auto simp: DeleteRole_def prog_simps split: if_splits)
  obtain role where role: "map_of (ma_roles m) rid = Some role" "r_OrganizationID role = OrganizationID g"
    "\<not> r_IsSystem role"
    using v by (auto simp: AuthzRole_ok)
  have unheld: "rid \<notin> set (alist_at (ma_memberRoles m) k)" for k
    using del role by (intro holder_count_zero)
      (auto simp: AuthzDeleteRole_def step_simps RefuseRoleInUse_def split: if_splits sum.splits)
  have m': "\<exists>c e. m' = recordLocked c e (m\<lparr>ma_roles := AList.delete rid (ma_roles m),
      ma_rolePerms := AList.delete rid (ma_rolePerms m),
      ma_memberRoles := map (\<lambda>(memberID, assigned). (memberID, filter (\<lambda>a. a \<noteq> rid) assigned))
        (ma_memberRoles m)\<rparr>)"
    using del role by (auto simp: AuthzDeleteRole_def step_simps split: if_splits sum.splits)
  then have "role_keys m' k = role_keys m k" for k
    using unheld by (intro role_keys_without[of rid]) (auto simp: amap_simps alist_at_map_filter)
  then show ?thesis using role unheld m' by (auto simp: amap_simps)
qed

lemma delete_role_harmless_witness:
  "\<exists>m'. DeleteRole mem_orgs (demo_call 20) owner_grant (UUID 6) demo = (Inr (), m') \<and>
     role_keys m' demo_admin = role_keys demo demo_admin"
proof -
  have "succeeds (DeleteRole mem_orgs (demo_call 20) owner_grant (UUID 6) demo)" by code_simp
  then show ?thesis by (rule succeedsE) (use delete_role_harmless in fastforce)
qed

lemma memberships_for_in:
  "v \<in> set (memberships_for m u mss) \<Longrightarrow>
     \<exists>ms \<in> set mss. ms_ID ms = mv_ID v \<and> ms_UserID ms = u \<and>
       map_of (ma_orgs m) (ms_OrganizationID ms) = Some (mv_Organization v) \<and>
       \<not> OrganizationIsDeleted (mv_Organization v)"
  by (induction m u mss rule: memberships_for.induct) (auto split: if_splits option.splits)

lemma leave_loop_ok:
  "leave_loop S c mid mine m = (Inr u, m') \<Longrightarrow>
     \<exists>v \<in> set mine. mv_ID v = mid \<and>
       or_RemoveMember (sv_repo S) c (org_ID (mv_Organization v)) mid ActionMemberLeft (RefuseLastOwnerLoss True) m =
         (Inr u, m')"
  by (induction mine) (auto simp: refuse_def split: if_splits)

text \<open>\<open>Leave\<close> is self-service and nothing more: what it removes is a membership of the caller, in
  an organization that is live, and no other membership changes.\<close>

theorem leave_own_only:
  assumes "authz_wf m" "Leave mem_orgs c u mid m = (Inr (), m')"
  shows "(\<exists>ms. map_of (ma_memberships m) mid = Some ms \<and> ms_UserID ms = u \<and> live_org m (ms_OrganizationID ms)) \<and>
    map_of (ma_memberships m') = (map_of (ma_memberships m))(mid := None)"
proof -
  obtain v where v: "v \<in> set (memberships_for m u (avals (ma_memberships m)))" "mv_ID v = mid"
    and removed: "AuthzRemoveMember c (org_ID (mv_Organization v)) mid ActionMemberLeft (RefuseLastOwnerLoss True) m = (Inr (), m')"
    using assms(2) by (auto simp: Leave_def prog_simps AuthzMembershipsForUser_def dest!: leave_loop_ok)
  obtain ms where ms: "ms \<in> snd ` set (ma_memberships m)" "ms_ID ms = mid" "ms_UserID ms = u"
    "map_of (ma_orgs m) (ms_OrganizationID ms) = Some (mv_Organization v)" "\<not> OrganizationIsDeleted (mv_Organization v)"
    using memberships_for_in[OF v(1)] v(2) by auto
  have "map_of (ma_memberships m) mid = Some ms"
    using ms(1,2) rows_ok_vals[OF authz_wf_tables(2)[OF assms(1)]] by auto
  moreover have "live_org m (ms_OrganizationID ms)" using ms(4,5) by (simp add: live_org_def)
  moreover have "map_of (ma_memberships m') = (map_of (ma_memberships m))(mid := None)"
    using removed by (auto simp: AuthzRemoveMember_def step_simps amap_simps split: option.splits sum.splits if_splits)
  ultimately show ?thesis using ms(3) by blast
qed

lemma leave_own_only_witness:
  "\<exists>m'. Leave mem_orgs (demo_call 20) (UUID 11) demo_admin demo = (Inr (), m') \<and>
     map_of (ma_memberships m') = (map_of (ma_memberships demo))(demo_admin := None)"
proof -
  have "succeeds (Leave mem_orgs (demo_call 20) (UUID 11) demo_admin demo)" by code_simp
  then show ?thesis by (rule succeedsE) (use leave_own_only[OF demo_wf] in auto)
qed

section \<open>Invitations\<close>

lemma InvitationByToken_found:
  assumes wf: "authz_wf m" and found: "AuthzInvitationByToken h now m = Inr v"
  shows "\<exists>i. map_of (ma_invitations m) (iv_ID v) = Some i \<and> inv_TokenHash i = h \<and> inv_AcceptedAt i = None \<and>
    live_org m (inv_OrganizationID i) \<and> (now \<noteq> zero_time \<longrightarrow> now < inv_ExpiresAt i) \<and>
    iv_Email v = inv_Email i \<and> iv_ExpiresAt v = inv_ExpiresAt i"
proof -
  let ?P = "\<lambda>i. \<not> (inv_TokenHash i \<noteq> h \<or> inv_AcceptedAt i \<noteq> None) \<and> live_org m (inv_OrganizationID i) \<and>
    \<not> (now \<noteq> zero_time \<and> \<not> now < inv_ExpiresAt i)"
  obtain i where i: "List.find ?P (avals (ma_invitations m)) = Some i" "v = invitationLocked m i"
    using found by (auto simp: AuthzInvitationByToken_def split: option.splits)
  have "map_of (ma_invitations m) (inv_ID i) = Some i \<and> ?P i"
    by (rule rows_find_Some[OF authz_wf_tables(4)[OF wf] i(1)])
  then show ?thesis by (auto simp: i(2) invitationLocked_def)
qed

lemma pendingInvitation_found:
  "pendingInvitation mem_orgs c token m = Inr v \<Longrightarrow>
     AuthzInvitationByToken (HashInvitationToken token) (c_now c ClockService) m = Inr v"
  by (auto simp: pendingInvitation_def Let_def HashInvitationToken_def split: sum.splits if_splits)

text \<open>C11. An invitation becomes exactly the membership it promised. When accepting goes through, the
  token was that of an open, unexpired invitation to a live organization, addressed to the accepting
  account's own address; the account then has an active membership there whose roles are the
  invitation's, and the invitation is spent.\<close>

theorem accepted_as_promised:
  assumes "authz_wf m" "c_now c ClockService \<noteq> zero_time"
    "AcceptInvitation mem_orgs lu c u email token m = (Inr (), m')"
  shows "\<exists>k i mid ms. map_of (ma_invitations m) k = Some i \<and> inv_TokenHash i = HashInvitationToken token \<and>
    InvitationPending (c_now c ClockService) i \<and> inv_Email i = normalizeEmail lu email \<and>
    live_org m (inv_OrganizationID i) \<and>
    map_of (ma_memberships m') mid = Some ms \<and> ms_UserID ms = u \<and>
    ms_OrganizationID ms = inv_OrganizationID i \<and> ms_Status ms = MembershipActive \<and>
    alist_at (ma_memberRoles m') mid = alist_at (ma_inviteRoles m) k \<and>
    (\<exists>i'. map_of (ma_invitations m') k = Some i' \<and> inv_AcceptedAt i' \<noteq> None)"
proof -
  obtain v where v: "pendingInvitation mem_orgs c token m = Inr v" "iv_Email v = normalizeEmail lu email"
    and acc: "AuthzAcceptInvitation c (iv_ID v) u (c_now c ClockService2) m = (Inr (), m')"
    using assms(3) by (auto simp: AcceptInvitation_def prog_simps split: if_splits)
  obtain i where i: "map_of (ma_invitations m) (iv_ID v) = Some i" "inv_TokenHash i = HashInvitationToken token"
    "inv_AcceptedAt i = None" "live_org m (inv_OrganizationID i)" "c_now c ClockService < inv_ExpiresAt i"
    "iv_Email v = inv_Email i"
    using InvitationByToken_found[OF assms(1) pendingInvitation_found[OF v(1)]] assms(2) by auto
  show ?thesis
    using i v(2) acc
    by (intro exI[of _ "iv_ID v"] exI[of _ i] exI[of _ "c_newID c DrawMembership"])
      (auto simp: AuthzAcceptInvitation_def step_simps amap_simps InvitationPending_def split: if_splits)
qed

lemma demo_pending:
  "pendingInvitation mem_orgs (demo_call k) ''tok'' demo = Inr (invitationLocked demo demo_invitation)"
  by (simp add: pendingInvitation_def Let_def mem_directory_def AuthzInvitationByToken_def demo_defs
      demo_call_def live_org_def OrganizationIsDeleted_def)

lemma demo_eve:
  "normalizeEmail id ''eve@x.io'' = ''eve@x.io''"
  "iv_ID (invitationLocked demo demo_invitation) = UUID 7"
  "iv_Email (invitationLocked demo demo_invitation) = ''eve@x.io''"
  "c_now (demo_call k) l = 1000"
  by code_simp (simp_all add: invitationLocked_def demo_invitation_def demo_call_def)

lemma accepted_as_promised_witness:
  "\<exists>m' mid ms. AcceptInvitation mem_orgs id (demo_call 20) (UUID 12) ''eve@x.io'' ''tok'' demo = (Inr (), m') \<and>
     map_of (ma_memberships m') mid = Some ms \<and> ms_UserID ms = UUID 12"
proof -
  have "succeeds (AuthzAcceptInvitation (demo_call 20) (UUID 7) (UUID 12) 1000 demo)" by code_simp
  then have "succeeds (AcceptInvitation mem_orgs id (demo_call 20) (UUID 12) ''eve@x.io'' ''tok'' demo)"
    by (simp add: AcceptInvitation_def prog_defs demo_pending demo_eve)
  then obtain m' where m': "AcceptInvitation mem_orgs id (demo_call 20) (UUID 12) ''eve@x.io'' ''tok'' demo = (Inr (), m')"
    by (auto elim: succeedsE)
  have "c_now (demo_call 20) ClockService \<noteq> zero_time" by (simp add: demo_call_def)
  from accepted_as_promised[OF demo_wf this m'] m' show ?thesis by blast
qed

text \<open>A token works once. As long as no other open invitation hides behind the same hash, after an
  acceptance or a refusal the token opens nothing: accepting and declining with it are refused,
  and change nothing.\<close>

theorem token_single_use:
  assumes "authz_wf m"
    "\<And>j k a b. map_of (ma_invitations m) j = Some a \<Longrightarrow> map_of (ma_invitations m) k = Some b \<Longrightarrow>
       inv_TokenHash a = HashInvitationToken token \<Longrightarrow> inv_TokenHash b = HashInvitationToken token \<Longrightarrow> inv_AcceptedAt a = None \<Longrightarrow>
       inv_AcceptedAt b = None \<Longrightarrow> j = k"
    "AcceptInvitation mem_orgs lu c u email token m = (Inr (), m') \<or>
     DeclineInvitation mem_orgs c token m = (Inr (), m')"
    "map_of (ma_memberships m) (c_newID c DrawMembership) = None"
  shows "AcceptInvitation mem_orgs lu c2 u2 email2 token m' = (Inl orgs_not_found, m') \<and>
    DeclineInvitation mem_orgs c2 token m' = (Inl orgs_not_found, m')"
proof -
  obtain v where v: "pendingInvitation mem_orgs c token m = Inr v"
    and written: "AuthzAcceptInvitation c (iv_ID v) u (c_now c ClockService2) m = (Inr (), m') \<or>
      AuthzDeclineInvitation c (iv_ID v) m = (Inr (), m')"
    using assms(3) by (auto simp: AcceptInvitation_def DeclineInvitation_def prog_simps split: if_splits)
  obtain i where i: "map_of (ma_invitations m) (iv_ID v) = Some i" "inv_TokenHash i = HashInvitationToken token" "inv_AcceptedAt i = None"
    using InvitationByToken_found[OF assms(1) pendingInvitation_found[OF v]] by auto
  have left: "\<not> (inv_TokenHash a = HashInvitationToken token \<and> inv_AcceptedAt a = None)"
    if "map_of (ma_invitations m') k = Some a" for k a
  proof (cases "k = iv_ID v")
    case True
    then show ?thesis using written that
      by (auto simp: AuthzAcceptInvitation_def AuthzDeclineInvitation_def drop_invitation_def step_simps amap_simps
          split: option.splits if_splits)
  next
    case False
    then have "map_of (ma_invitations m) k = Some a" using written that
      by (auto simp: AuthzAcceptInvitation_def AuthzDeclineInvitation_def drop_invitation_def step_simps amap_simps
          split: option.splits if_splits)
    then show ?thesis using assms(2)[OF _ i(1)] i(2,3) False by blast
  qed
  have "authz_wf m'"
    using written AcceptInvitation_wf[OF assms(1,4), of "iv_ID v" u] DeclineInvitation_wf[OF assms(1), of c "iv_ID v"]
    by (metis snd_conv)
  then have none: "AuthzInvitationByToken (HashInvitationToken token) now m' = Inl orgs_not_found" for now
  proof (cases "AuthzInvitationByToken (HashInvitationToken token) now m'")
    case (Inl e)
    then show ?thesis by (auto simp: AuthzInvitationByToken_def split: option.splits)
  next
    case (Inr v)
    then show ?thesis using InvitationByToken_found[OF \<open>authz_wf m'\<close> Inr] left by blast
  qed
  then show ?thesis
    by (simp add: AcceptInvitation_def DeclineInvitation_def pendingInvitation_def Let_def prog_defs HashInvitationToken_def)
qed

lemma token_single_use_witness:
  "\<exists>m'. DeclineInvitation mem_orgs (demo_call 20) ''tok'' demo = (Inr (), m') \<and>
     DeclineInvitation mem_orgs (demo_call 25) ''tok'' m' = (Inl orgs_not_found, m')"
proof -
  have "succeeds (AuthzDeclineInvitation (demo_call 20) (UUID 7) demo)" by code_simp
  then have "succeeds (DeclineInvitation mem_orgs (demo_call 20) ''tok'' demo)"
    by (simp add: DeclineInvitation_def prog_defs demo_pending demo_eve)
  then obtain m' where m': "DeclineInvitation mem_orgs (demo_call 20) ''tok'' demo = (Inr (), m')"
    by (auto elim: succeedsE)
  have "DeclineInvitation mem_orgs (demo_call 25) ''tok'' m' = (Inl orgs_not_found, m')"
    by (rule token_single_use[OF demo_wf _ disjI2[OF m'], THEN conjunct2])
      (auto simp: demo_defs demo_call_id split: if_splits)
  then show ?thesis using m' by blast
qed

section \<open>Batches\<close>

lemma check_batch_ok:
  "check_batch lu seen emails = Inr u \<Longrightarrow>
     distinct (map (normalizeEmail lu) emails) \<and> set (map (normalizeEmail lu) emails) \<inter> set seen = {} \<and>
     [] \<notin> set (map (normalizeEmail lu) emails)"
  by (induction lu seen emails rule: check_batch.induct) (auto simp: Let_def split: if_splits)

definition outcome_ok :: "(string \<Rightarrow> string) \<Rightarrow> string \<Rightarrow> InviteOutcome \<Rightarrow> bool" where
  "outcome_ok lu email out \<longleftrightarrow>
     io_Email out = normalizeEmail lu email \<and>
     (case io_Invitation out of
        None \<Rightarrow> io_Err out = Some (OrgsErr ErrAlreadyMember)
      | Some v \<Rightarrow> io_Err out = None \<and> iv_Email v = normalizeEmail lu email)"

lemma Invite_email:
  "Invite mem_orgs lu c g email ids m = (Inr (v, token), m') \<Longrightarrow> iv_Email v = normalizeEmail lu email"
  by (auto simp: Invite_def Let_def prog_simps AuthzInviteMember_def invitationLocked_def step_simps
      split: if_split_asm sum.splits)

lemma invite_loop_ok:
  "invite_loop mem_orgs lu cs g ids i outs emails m = (Inr out, m') \<Longrightarrow>
     \<exists>rest. out = outs @ rest \<and> list_all2 (outcome_ok lu) emails rest"
proof (induction emails arbitrary: i outs m)
  case (Cons email emails)
  obtain r m1 where r: "Invite mem_orgs lu (cs i) g email ids m = (r, m1)" by force
  show ?case
  proof (cases r)
    case (Inl e)
    then have "e = OrgsErr ErrAlreadyMember"
      and "invite_loop mem_orgs lu cs g ids (Suc i) (outs @ [\<lparr>io_Email = normalizeEmail lu email,
        io_Invitation = None, io_Token = [], io_Err = Some e\<rparr>]) emails m1 = (Inr out, m')"
      using Cons.prems r by (auto simp: attempt_def refuse_def split: if_splits)
    then show ?thesis using Cons.IH by (fastforce simp: outcome_ok_def)
  next
    case (Inr p)
    obtain v token where p: "p = (v, token)" by (cases p)
    have "invite_loop mem_orgs lu cs g ids (Suc i) (outs @ [\<lparr>io_Email = iv_Email v,
        io_Invitation = Some v, io_Token = token, io_Err = None\<rparr>]) emails m1 = (Inr out, m')"
      using Cons.prems r Inr p by (simp add: attempt_def)
    moreover have "iv_Email v = normalizeEmail lu email" using Invite_email r Inr p by blast
    ultimately show ?thesis using Cons.IH by (fastforce simp: outcome_ok_def)
  qed
qed (simp add: ok_def)

text \<open>A batch answers for every address. When \<open>InviteMany\<close> returns outcomes there are between one
  and fifty, one per address and in order, for addresses that are pairwise different after
  normalization; each either carries the invitation made for that address or says the address is
  already a member. Any other failure is the failure of the whole call.\<close>

theorem batch_outcomes:
  assumes "InviteMany mem_orgs lu cs g emails ids m = (Inr out, m')"
  shows "1 \<le> length out \<and> length out \<le> 50 \<and> length out = length emails \<and>
    distinct (map io_Email out) \<and> list_all2 (outcome_ok lu) emails out"
proof -
  have len: "emails \<noteq> []" "length emails \<le> 50" and batch: "check_batch lu [] emails = Inr ()"
    and loop: "invite_loop mem_orgs lu cs g ids 0 [] emails m = (Inr out, m')"
    using assms by (auto simp: InviteMany_def MaxInvitesPerRequest_def prog_simps split: if_splits)
  have all: "list_all2 (outcome_ok lu) emails out" using invite_loop_ok[OF loop] by simp
  then have "map io_Email out = map (normalizeEmail lu) emails"
    by (induction rule: list_all2_induct) (auto simp: outcome_ok_def)
  moreover have "length out = length emails" using all by (simp add: list_all2_lengthD)
  ultimately show ?thesis using check_batch_ok[OF batch] len all by (auto simp: Suc_le_eq)
qed

lemma batch_outcomes_witness:
  "\<exists>out m'. InviteMany mem_orgs id (\<lambda>i. demo_call (20 + 10 * i)) owner_grant
      [''a@x.io'', ''eve@x.io''] [UUID 6] demo = (Inr out, m') \<and> length out = 2"
proof -
  have "succeeds (InviteMany mem_orgs id (\<lambda>i. demo_call (20 + 10 * i)) owner_grant
      [''a@x.io'', ''eve@x.io''] [UUID 6] demo)" by code_simp
  then show ?thesis by (rule succeedsE) (use batch_outcomes in fastforce)
qed

section \<open>System roles and provisioning\<close>

text \<open>Nobody locks the installation by accident: when an administrator's revocation of their own
  system role goes through, another live account still holds that role.\<close>

theorem own_revocation_leaves_holder:
  assumes "authz_wf m" "RevokeSystemRole mem_orgs c g (Actor g) key m = (Inr (), m')"
  shows "\<exists>other. other \<noteq> Actor g \<and> \<not> accountIDDeletedLocked m' other \<and>
    key \<in> set (alist_at (ma_systemRoles m') other)"
proof -
  obtain holders where h: "AuthzSystemRoleHolders m = Inr holders"
    "\<exists>h \<in> set holders. sh_RoleKey h = key \<and> sh_UserID h \<noteq> Actor g"
    and rev: "AuthzRevokeSystemRole c (Actor g) key m = (Inr (), m')"
    using assms(2) by (auto simp: RevokeSystemRole_def lastHolderOf_def prog_simps split: if_splits sum.splits)
  obtain other keys where o': "(other, keys) \<in> set (ma_systemRoles m)" "\<not> accountIDDeletedLocked m other"
    "key \<in> set keys" "other \<noteq> Actor g"
    using h by (auto simp: AuthzSystemRoleHolders_def holder_of_def Let_def split: if_splits)
  have "alist_at (ma_systemRoles m) other = keys"
    using o'(1) authz_wf_system_keys(1)[OF assms(1)] by (simp add: alist_at_def map_of_is_SomeI)
  moreover have "accountIDDeletedLocked m' other = accountIDDeletedLocked m other"
    "alist_at (ma_systemRoles m') other = alist_at (ma_systemRoles m) other"
    using rev o'(4) by (auto simp: AuthzRevokeSystemRole_def step_simps accountIDDeletedLocked_def amap_simps
        split: if_splits)
  ultimately show ?thesis using o' by auto
qed

lemma own_revocation_leaves_holder_witness:
  "\<exists>m'. RevokeSystemRole mem_orgs (demo_call 20) owner_grant (UUID 10) RolePlatformAdmin
      (snd (GrantSystemRole mem_orgs (demo_call 20) owner_grant (UUID 11) RolePlatformAdmin demo)) = (Inr (), m') \<and>
     (\<exists>other. other \<noteq> UUID 10 \<and> RolePlatformAdmin \<in> set (alist_at (ma_systemRoles m') other))"
proof -
  let ?m = "snd (GrantSystemRole mem_orgs (demo_call 20) owner_grant (UUID 11) RolePlatformAdmin demo)"
  have actor: "Actor owner_grant = UUID 10" by (simp add: Actor_def owner_grant_def)
  have "succeeds (RevokeSystemRole mem_orgs (demo_call 20) owner_grant (UUID 10) RolePlatformAdmin ?m)" by code_simp
  then obtain m' where m': "RevokeSystemRole mem_orgs (demo_call 20) owner_grant (UUID 10) RolePlatformAdmin ?m = (Inr (), m')"
    by (auto elim: succeedsE)
  have "authz_wf ?m" by (rule steps_wf[OF GrantSystemRole_steps demo_wf])
  from own_revocation_leaves_holder[OF this, of "demo_call 20" owner_grant RolePlatformAdmin m'] m' show ?thesis
    by (auto simp: actor)
qed

lemma OrganizationBySlug_ok:
  assumes wf: "authz_wf m"
  shows "AuthzOrganizationBySlug slug m = Inr o' \<longleftrightarrow>
    map_of (ma_orgs m) (org_ID o') = Some o' \<and> org_Slug o' = slug \<and> \<not> OrganizationIsDeleted o'"
proof -
  let ?P = "\<lambda>org. org_Slug org = slug \<and> \<not> OrganizationIsDeleted org"
  note rows = authz_wf_tables(1)[OF wf]
  have "List.find ?P (avals (ma_orgs m)) = Some o' \<longleftrightarrow> map_of (ma_orgs m) (org_ID o') = Some o' \<and> ?P o'"
  proof
    assume "List.find ?P (avals (ma_orgs m)) = Some o'"
    then show "map_of (ma_orgs m) (org_ID o') = Some o' \<and> ?P o'" by (rule rows_find_Some[OF rows])
  next
    assume o': "map_of (ma_orgs m) (org_ID o') = Some o' \<and> ?P o'"
    have "k' = org_ID o'" if "map_of (ma_orgs m) k' = Some v'" "?P v'" for k' v'
      using authz_wfD(4)[OF wf] o' that unfolding unique_slugs_def by metis
    then show "List.find ?P (avals (ma_orgs m)) = Some o'"
      using o' by (intro rows_find[OF rows, of "org_ID o'"]) auto
  qed
  then show ?thesis by (auto simp: AuthzOrganizationBySlug_def split: option.split)
qed

text \<open>Starting up is idempotent: \<open>EnsureDefaultOrganization\<close> answers with a live organization of
  the default slug that has its owner role, and calling it again, from any process, returns
  the same organization and writes nothing.\<close>

theorem ensure_default_idempotent:
  assumes "authz_wf m" "fresh_draws c m" "EnsureDefaultOrganization mem_orgs c m = (Inr org, m')"
  shows "org_Slug org = DefaultOrganizationSlug \<and> \<not> OrganizationIsDeleted org \<and>
    map_of (ma_orgs m') (org_ID org) = Some org \<and>
    (\<exists>rid. system_role m' (org_ID org) rid RoleOwner) \<and>
    EnsureDefaultOrganization mem_orgs c2 m' = (Inr org, m')"
proof -
  have wf': "authz_wf m'"
    using steps_wf[OF EnsureDefaultOrganization_steps[OF assms(2)] assms(1)] assms(3) by simp
  have found: "AuthzOrganizationBySlug DefaultOrganizationSlug m' = Inr org"
  proof (cases "AuthzOrganizationBySlug DefaultOrganizationSlug m")
    case (Inr existing)
    then show ?thesis using assms(3) by (auto simp: EnsureDefaultOrganization_def prog_defs)
  next
    case (Inl e)
    let ?new = "\<lparr>org_ID = uuid_Nil, org_DeletedAt = None, org_IsProtected = True,
      org_Slug = DefaultOrganizationSlug, org_Name = DefaultOrganizationName\<rparr>"
    obtain r m1 where r: "AuthzCreateOrganization c ?new OrganizationRoles m = (r, m1)" by force
    have stays: "m1 = m" if "r = Inl e'" for e'
      using r that by (auto simp: AuthzCreateOrganization_def step_simps split: if_splits)
    have again: "(case r of Inr created \<Rightarrow> Inr created = Inr org \<and> m' = m1
      | Inl e' \<Rightarrow> e' = OrgsErr ErrSlugTaken \<and> AuthzOrganizationBySlug DefaultOrganizationSlug m1 = Inr org \<and> m' = m1)"
      using assms(3) Inl r by (auto simp: EnsureDefaultOrganization_def prog_defs split: sum.splits if_splits)
    show ?thesis
    proof (cases r)
      case (Inl e')
      then show ?thesis using again stays by auto
    next
      case (Inr created)
      then have "org = ?new\<lparr>org_ID := c_newID c DrawOrganization\<rparr> \<and>
          map_of (ma_orgs m') (org_ID org) = Some org"
        using r again by (auto simp: AuthzCreateOrganization_def step_simps amap_simps split: if_splits)
      then show ?thesis by (auto simp: OrganizationBySlug_ok[OF wf'] OrganizationIsDeleted_def)
    qed
  qed
  then have org: "map_of (ma_orgs m') (org_ID org) = Some org" "org_Slug org = DefaultOrganizationSlug"
    "\<not> OrganizationIsDeleted org"
    by (simp_all add: OrganizationBySlug_ok[OF wf'])
  moreover have "\<exists>rid. system_role m' (org_ID org) rid RoleOwner"
    using authz_wfD(8)[OF wf'] org(1) by (auto simp: owner_roles_ok_def system_role_def)
  ultimately show ?thesis using found by (simp add: EnsureDefaultOrganization_def prog_defs)
qed

lemma ensure_default_idempotent_witness:
  "\<exists>org m'. EnsureDefaultOrganization mem_orgs (demo_call 20) (NewAuthz None) = (Inr org, m') \<and>
     EnsureDefaultOrganization mem_orgs (demo_call 50) m' = (Inr org, m')"
proof -
  have fresh: "fresh_draws (demo_call 20) (NewAuthz None)"
    by (simp add: fresh_draws_def NewAuthz_def demo_call_id fresh_role_def draws_distinct_roles_def inj_def)
  have "succeeds (EnsureDefaultOrganization mem_orgs (demo_call 20) (NewAuthz None))" by code_simp
  then show ?thesis by (rule succeedsE) (use ensure_default_idempotent[OF authz_wf_new fresh] in blast)
qed

lemma page_bounded: "0 < limit \<Longrightarrow> limit \<le> 100 \<Longrightarrow> 0 \<le> offset \<Longrightarrow>
    \<exists>out. page rows limit offset = Inr out \<and> length out \<le> 100"
  by (auto simp: page_ok)

lemma clampPage_bounds:
  "clampPage limit offset 100 = (l, off) \<Longrightarrow> 0 < l \<and> l \<le> 100 \<and> 0 \<le> off"
  by (auto simp: clampPage_def Let_def split: if_splits)

text \<open>A page request never breaks and never floods: whatever limit and offset a request carries,
  negative or huge, the three listings answer, with at most a hundred rows.\<close>

theorem listings_total_and_bounded:
  "(\<exists>rows. ServiceMembers mem_orgs g limit offset m = Inr rows \<and> length rows \<le> 100) \<and>
   (\<exists>rows. ServiceRoles mem_orgs g limit offset m = Inr rows \<and> length rows \<le> 100) \<and>
   (\<exists>rows. ServiceAllOrganizations mem_orgs flt limit offset m = Inr rows \<and> length rows \<le> 100)"
proof -
  obtain l off where lo: "clampPage limit offset 100 = (l, off)" by force
  have bounds: "0 < l" "l \<le> 100" "0 \<le> off" using clampPage_bounds[OF lo] by simp_all
  have all: "(if limit \<le> 0 \<or> 100 < limit then 100 else limit) = l" "(if offset < 0 then 0 else offset) = off"
    using lo by (auto simp: clampPage_def Let_def)
  have "ServiceAllOrganizations mem_orgs flt limit offset m = AuthzAllOrganizations flt l off m"
    unfolding ServiceAllOrganizations_def MaxOrganizationPage_def Let_def all by simp
  moreover have "ServiceMembers mem_orgs g limit offset m = AuthzMembers (OrganizationID g) l off m"
    "ServiceRoles mem_orgs g limit offset m = AuthzRoles (OrganizationID g) l off m"
    using lo by (simp_all add: ServiceMembers_def ServiceRoles_def MaxMemberPage_def MaxRolePage_def)
  ultimately show ?thesis
    by (simp only: AuthzMembers_def AuthzRoles_def AuthzAllOrganizations_def Let_def)
      (intro conjI page_bounded[OF bounds])
qed

section \<open>Appointing owners\<close>

lemma MemberByUser_found:
  assumes "authz_wf m" "AuthzMemberByUser org u m = Inr mb"
  shows "\<exists>ms. map_of (ma_memberships m) (mb_ID mb) = Some ms \<and> ms_UserID ms = u \<and> ms_OrganizationID ms = org \<and>
    \<not> accountDeletedLocked m ms"
proof -
  let ?P = "\<lambda>ms. \<not> (ms_OrganizationID ms \<noteq> org \<or> ms_UserID ms \<noteq> u) \<and> \<not> accountDeletedLocked m ms"
  obtain ms where ms: "List.find ?P (avals (ma_memberships m)) = Some ms" "mb = memberLocked m ms"
    using assms(2) by (auto simp: AuthzMemberByUser_def split: option.splits)
  have "map_of (ma_memberships m) (ms_ID ms) = Some ms \<and> ?P ms"
    by (rule rows_find_Some[OF authz_wf_tables(2)[OF assms(1)] ms(1)])
  then show ?thesis using ms(2) by auto
qed

text \<open>Appointing an owner makes the account a member that holds the owner role, and nothing
  but it. The organization then has an owner in the sense of the last-owner rule exactly when that
  membership is active: an account that was suspended there is given the role and stays
  suspended.\<close>

theorem appointed_owner:
  assumes "authz_wf m" "map_of (ma_memberships m) (c_newID c DrawMembership) = None"
    "\<not> accountIDDeletedLocked m u" "AppointOwner mem_orgs c org u m = (Inr (), m')"
  shows "\<exists>mid ms rid. map_of (ma_memberships m') mid = Some ms \<and> ms_UserID ms = u \<and> ms_OrganizationID ms = org \<and>
    is_owner_role m' org rid \<and> alist_at (ma_memberRoles m') mid = [rid] \<and>
    (ms_Status ms = MembershipActive \<or> map_of (ma_memberships m) mid = Some ms) \<and>
    (ms_Status ms = MembershipActive \<longrightarrow> 0 < ownerCountLocked m' org)"
proof -
  have wf': "authz_wf m'"
    using steps_wf[OF AppointOwner_steps[OF assms(1,2)] assms(1)] assms(4) by (metis snd_conv)
  obtain v r where v: "AuthzRoleByKey org RoleOwner m = Inr v" and r: "AuthzMemberByUser org u m = r"
    and case_r: "(case r of Inr mb \<Rightarrow> AuthzReplaceMemberRoles c org (mb_ID mb) [r_ID (rv_Role v)] (RefuseLastOwnerLoss False) m = (Inr (), m')
      | Inl e \<Rightarrow> \<exists>mb. AuthzAddMember c org u [r_ID (rv_Role v)] uuid_Nil (c_now c ClockService) m = (Inr mb, m'))"
    using assms(4) by (cases "AuthzMemberByUser org u m")
      (auto simp: AppointOwner_def grantOwnership_def prog_simps split: if_splits)
  let ?rid = "r_ID (rv_Role v)"
  have unique: "uniqueIDs [?rid] = [?rid]" by (simp add: uniqueIDs_def)
  have row: "\<exists>mid ms. map_of (ma_memberships m') mid = Some ms \<and> ms_UserID ms = u \<and> ms_OrganizationID ms = org \<and>
      alist_at (ma_memberRoles m') mid = [?rid] \<and>
      (ms_Status ms = MembershipActive \<or> map_of (ma_memberships m) mid = Some ms)"
  proof (cases r)
    case (Inr mb)
    then obtain ms where "map_of (ma_memberships m) (mb_ID mb) = Some ms" "ms_UserID ms = u" "ms_OrganizationID ms = org"
      using MemberByUser_found[OF assms(1)] r by blast
    then show ?thesis using case_r Inr unique
      by (intro exI[of _ "mb_ID mb"] exI[of _ ms])
        (auto simp: AuthzReplaceMemberRoles_def step_simps amap_simps split: sum.splits if_splits)
  next
    case (Inl e)
    then show ?thesis using case_r unique
      by (intro exI[of _ "c_newID c DrawMembership"])
        (auto simp: AuthzAddMember_def step_simps amap_simps split: sum.splits if_splits)
  qed
  have same: "ma_roles m' = ma_roles m" "ma_users m' = ma_users m" "ma_deletedUsers m' = ma_deletedUsers m"
    using case_r by (auto simp: AuthzReplaceMemberRoles_def AuthzAddMember_def step_simps
        split: sum.splits option.splits if_splits)
  then have live: "\<not> accountIDDeletedLocked m' u" using assms(3) by (simp add: accountIDDeletedLocked_def split: if_splits)
  have owner: "is_owner_role m' org ?rid"
    using owner_role_by_key[OF assms(1) v] same(1) by (simp add: is_owner_role_def)
  obtain mid ms where ms: "map_of (ma_memberships m') mid = Some ms" "ms_UserID ms = u" "ms_OrganizationID ms = org"
    "alist_at (ma_memberRoles m') mid = [?rid]"
    "ms_Status ms = MembershipActive \<or> map_of (ma_memberships m) mid = Some ms"
    using row by blast
  have "0 < ownerCountLocked m' org" if "ms_Status ms = MembershipActive"
  proof -
    have "holdsOwnerLocked m' (ms_ID ms)"
      using ms(4) owner rows_ok_id[OF authz_wf_tables(2)[OF wf'] ms(1)]
      by (auto simp: holdsOwnerLocked_iff is_owner_role_def)
    then have "counts_as_owner m' org ms"
      using that ms live by (simp add: counts_as_owner_def GrantsPermissions_def accountDeletedLocked_def)
    then show ?thesis using ms(1) owned_count[OF wf'] unfolding owned_def by blast
  qed
  then show ?thesis using ms owner by blast
qed

lemma appointed_owner_witness:
  "\<exists>m'. AppointOwner mem_orgs (demo_call 20) demo_org (UUID 12) demo = (Inr (), m') \<and>
     (\<exists>mid ms. map_of (ma_memberships m') mid = Some ms \<and> ms_UserID ms = UUID 12)"
proof -
  have "succeeds (AppointOwner mem_orgs (demo_call 20) demo_org (UUID 12) demo)" by code_simp
  then obtain m' where m': "AppointOwner mem_orgs (demo_call 20) demo_org (UUID 12) demo = (Inr (), m')"
    by (auto elim: succeedsE)
  have "\<exists>mid ms rid. map_of (ma_memberships m') mid = Some ms \<and> ms_UserID ms = UUID 12 \<and> ms_OrganizationID ms = demo_org \<and>
    is_owner_role m' demo_org rid \<and> alist_at (ma_memberRoles m') mid = [rid] \<and>
    (ms_Status ms = MembershipActive \<or> map_of (ma_memberships demo) mid = Some ms) \<and>
    (ms_Status ms = MembershipActive \<longrightarrow> 0 < ownerCountLocked m' demo_org)"
    by (rule appointed_owner[OF demo_wf _ _ m']) (simp_all add: demo_defs demo_call_id accountIDDeletedLocked_def)
  then show ?thesis using m' by blast
qed

text \<open>
  The suspended case is reachable: after the administrator was suspended and the only owner's
  account was deleted, appointing the administrator succeeds and leaves no owner.
\<close>

lemma appointed_suspended_leaves_ownerless:
  "case AppointOwner mem_orgs (demo_call 20) demo_org (UUID 11)
     (snd (SetMemberStatus mem_orgs (demo_call 20) owner_grant demo_admin MembershipSuspended
        (demo\<lparr>ma_deletedUsers := [(UUID 10, True)]\<rparr>))) of
   (r, m') \<Rightarrow> r = Inr () \<and> ownerCountLocked m' demo_org = 0"
  by code_simp

end
