(* ===== verification/Go_Net.thy ===== *)
theory Go_Net
  imports Go_Strings
begin

text \<open>
  \<open>net.ParseIP\<close> and \<open>net.IP.String\<close> of Go's standard library: a textual address to its sixteen
  bytes and back to the canonical text, and
  \<open>net.IPNet.Contains\<close>. An IPv4 address is held in its IPv4-mapped form. A zone
  (\<open>%eth0\<close>) makes an address invalid for \<open>ParseIP\<close>, with or without digits in front of it.
\<close>

section \<open>Parsing\<close>

definition is_digit :: "char \<Rightarrow> bool" where
  "is_digit c \<longleftrightarrow> byte_in 48 57 c"

definition is_hex :: "char \<Rightarrow> bool" where
  "is_hex c \<longleftrightarrow> is_digit c \<or> byte_in 97 102 c \<or> byte_in 65 70 c"

definition hex_val :: "char \<Rightarrow> nat" where
  "hex_val c =
     (if is_digit c then of_char c - 48
      else if byte_in 97 102 c then of_char c - 87 else of_char c - 55)"

definition read_dec :: "string \<Rightarrow> nat" where
  "read_dec s = foldl (\<lambda>n c. 10 * n + (of_char c - 48)) 0 s"

definition read_hex :: "string \<Rightarrow> nat" where
  "read_hex s = foldl (\<lambda>n c. 16 * n + hex_val c) 0 s"

text \<open>One field of a dotted address: one to three digits, no leading zero, at most 255.\<close>

definition dec_field :: "string \<Rightarrow> bool" where
  "dec_field s \<longleftrightarrow> s \<noteq> [] \<and> length s \<le> 3 \<and> list_all is_digit s \<and>
     (length s = 1 \<or> hd s \<noteq> CHR ''0'') \<and> read_dec s \<le> 255"

definition parse_ipv4 :: "string \<Rightarrow> nat list option" where
  "parse_ipv4 s =
     (let fields = split_at CHR ''.'' s
      in if length fields = 4 \<and> list_all dec_field fields then Some (map read_dec fields) else None)"

text \<open>
  The loop of \<open>parseIPv6\<close>: the bytes read so far, the position of the ellipsis, the text left.
  It ends when the text is used up or sixteen bytes are read.
\<close>

function parse_groups :: "nat list \<Rightarrow> nat option \<Rightarrow> string \<Rightarrow> (nat list \<times> nat option \<times> string) option" where
  "parse_groups ip ellipsis s =
     (if 16 \<le> length ip then Some (ip, ellipsis, s)
      else
        let digits = takeWhile is_hex s; rest = dropWhile is_hex s in
        if digits = [] \<or> 4 < length digits then None
        else if rest \<noteq> [] \<and> hd rest = CHR ''.'' then
          (if ellipsis = None \<and> length ip \<noteq> 12 \<or> 16 < length ip + 4 then None
           else map_option (\<lambda>v4. (ip @ v4, ellipsis, [])) (parse_ipv4 s))
        else
          let ip = ip @ [read_hex digits div 256, read_hex digits mod 256] in
          (case rest of
             [] \<Rightarrow> Some (ip, ellipsis, [])
           | [_] \<Rightarrow> None
           | c # d # more \<Rightarrow>
               if c \<noteq> CHR '':'' then None
               else if d = CHR '':'' then
                 (if ellipsis \<noteq> None then None
                  else if more = [] then Some (ip, Some (length ip), [])
                  else parse_groups ip (Some (length ip)) more)
               else parse_groups ip ellipsis (d # more)))"
  by pat_completeness auto
termination
proof (relation "measure (\<lambda>(ip, ellipsis, s). length s)", goal_cases)
  case 1
  show ?case by simp
next
  case (2 ip ellipsis s digits rest ip' c x d more)
  then have "dropWhile is_hex s = c # d # more" by simp
  then have "Suc (Suc (length more)) \<le> length s" by (metis length_Cons length_dropWhile_le)
  then show ?case by simp
next
  case (3 ip ellipsis s digits rest ip' c x d more)
  then have "dropWhile is_hex s = c # d # more" by simp
  then have "Suc (Suc (length more)) \<le> length s" by (metis length_Cons length_dropWhile_le)
  then show ?case by simp
qed

declare parse_groups.simps [simp del]

definition parse_ipv6 :: "string \<Rightarrow> nat list option" where
  "parse_ipv6 s =
     (let lead = 2 \<le> length s \<and> take 2 s = ''::''; s = (if lead then drop 2 s else s) in
      if lead \<and> s = [] then Some (replicate 16 0)
      else (case parse_groups [] (if lead then Some 0 else None) s of
          None \<Rightarrow> None
        | Some (ip, ellipsis, rest) \<Rightarrow>
            if rest \<noteq> [] then None
            else (case ellipsis of
                None \<Rightarrow> if length ip < 16 then None else Some ip
              | Some e \<Rightarrow>
                  if length ip < 16
                  then Some (take e ip @ replicate (16 - length ip) 0 @ drop e ip)
                  else None)))"

definition v4_prefix :: "nat list" where
  "v4_prefix = replicate 10 0 @ [255, 255]"

definition ParseIP :: "string \<Rightarrow> nat list option" where
  "ParseIP s =
     (case List.find (\<lambda>c. c \<in> set ''.:%'') s of
        None \<Rightarrow> None
      | Some c \<Rightarrow>
          if c = CHR ''.'' then map_option (\<lambda>v4. v4_prefix @ v4) (parse_ipv4 s)
          else if c = CHR ''%'' \<or> CHR ''%'' \<in> set s then None
          else parse_ipv6 s)"

section \<open>Printing\<close>

definition dec_digit :: "nat \<Rightarrow> char" where
  "dec_digit n = char_of (48 + n)"

definition show_byte :: "nat \<Rightarrow> string" where
  "show_byte n =
     (if n < 10 then [dec_digit n]
      else if n < 100 then [dec_digit (n div 10), dec_digit (n mod 10)]
      else [dec_digit (n div 100), dec_digit (n div 10 mod 10), dec_digit (n mod 10)])"

definition low_hex :: "nat \<Rightarrow> char" where
  "low_hex n = (if n < 10 then char_of (48 + n) else char_of (87 + n))"

definition show_group :: "nat \<Rightarrow> string" where
  "show_group n = map low_hex
     (if n < 16 then [n]
      else if n < 256 then [n div 16, n mod 16]
      else if n < 4096 then [n div 256, n div 16 mod 16, n mod 16]
      else [n div 4096, n div 256 mod 16, n div 16 mod 16, n mod 16])"

fun join :: "string \<Rightarrow> string list \<Rightarrow> string" where
  "join sep [] = []"
| "join sep [x] = x"
| "join sep (x # y # xs) = x @ sep @ join sep (y # xs)"

fun groups_of :: "nat list \<Rightarrow> nat list" where
  "groups_of (a # b # s) = (256 * a + b) # groups_of s"
| "groups_of _ = []"

text \<open>The first longest run of at least two zero groups: where it starts and its length.\<close>

definition zero_run :: "nat list \<Rightarrow> nat \<Rightarrow> nat" where
  "zero_run gs i = length (takeWhile (\<lambda>g. g = 0) (drop i gs))"

definition longest_run :: "nat list \<Rightarrow> (nat \<times> nat) option" where
  "longest_run gs =
     foldl (\<lambda>best i. let l = zero_run gs i in
        if 2 \<le> l \<and> (case best of None \<Rightarrow> True | Some (_, n) \<Rightarrow> n < l) then Some (i, l) else best)
       None [0..<8]"

definition show_ipv6 :: "nat list \<Rightarrow> string" where
  "show_ipv6 ip =
     (let gs = groups_of ip in
      case longest_run gs of
        None \<Rightarrow> join '':'' (map show_group gs)
      | Some (i, l) \<Rightarrow> join '':'' (map show_group (take i gs)) @ ''::'' @
                      join '':'' (map show_group (drop (i + l) gs)))"

definition show_ip :: "nat list \<Rightarrow> string" where
  "show_ip ip =
     (if take 12 ip = v4_prefix then join ''.'' (map show_byte (drop 12 ip)) else show_ipv6 ip)"

section \<open>Networks\<close>

text \<open>\<open>net.IPNet.Contains\<close>. A network is its bytes and its mask, both four or both sixteen bytes long.\<close>

record IPNet =
  nt_IP :: "nat list"
  nt_Mask :: "nat list"

definition to_v4 :: "nat list \<Rightarrow> nat list option" where
  "to_v4 ip =
     (if length ip = 4 then Some ip
      else if length ip = 16 \<and> take 12 ip = v4_prefix then Some (drop 12 ip)
      else None)"

definition shorten :: "nat list \<Rightarrow> nat list" where
  "shorten ip = (case to_v4 ip of None \<Rightarrow> ip | Some v4 \<Rightarrow> v4)"

definition network_mask :: "IPNet \<Rightarrow> nat list \<times> nat list" where
  "network_mask n =
     (let ip = shorten (nt_IP n); m = nt_Mask n in
      if length ip \<noteq> 4 \<and> length ip \<noteq> 16 then ([], [])
      else if length m = 4 \<and> length ip = 4 then (ip, m)
      else if length m = 16 then (ip, if length ip = 4 then drop 12 m else m)
      else ([], []))"

definition net_contains :: "IPNet \<Rightarrow> nat list \<Rightarrow> bool" where
  "net_contains n ip =
     (let (nn, m) = network_mask n; ip = shorten ip in
      length ip = length nn \<and> list_all (\<lambda>((a, b), k). and a k = and b k) (zip (zip nn ip) m))"

end
