(* ===== verification/User_Service.thy ===== *)
theory User_Service
  imports Calls Go_Net
begin

text \<open>
  The account rules, \<open>internal/domain/user\<close>: \<open>service.go\<close>, \<open>sign_in.go\<close>, \<open>two_factor.go\<close>,
  \<open>email_change.go\<close>, \<open>password_change.go\<close> and \<open>profile.go\<close>, over the \<open>Repository\<close>
  interface as the record of its methods. What lies outside the repository and the standard
  library is a field of \<open>Libs\<close>: bcrypt, and the case table of Unicode.

  A hash the code computes and throws away, so that a refusal takes as long as an acceptance,
  is computed and thrown away here too. The two slots bcrypt runs in bound how many
  calls hash at once; a call that waits for one either gets it or sees its context end, and
  which of the two is what \<open>c_ended\<close> says.
\<close>

section \<open>The interface and the service\<close>

record 's UserRepository =
  ur_Create :: "Call \<Rightarrow> User \<Rightarrow> ('s, err, User) prog"
  ur_ByID :: "uuid \<Rightarrow> 's \<Rightarrow> err + User"
  ur_ByEmail :: "string \<Rightarrow> 's \<Rightarrow> err + User"
  ur_All :: "int \<Rightarrow> int \<Rightarrow> 's \<Rightarrow> err + User list"
  ur_Delete :: "Call \<Rightarrow> uuid \<Rightarrow> ('s, err, unit) prog"
  ur_UpdateProfile :: "uuid \<Rightarrow> string \<Rightarrow> string \<Rightarrow> ('s, err, unit) prog"
  ur_SetPassword :: "uuid \<Rightarrow> string \<Rightarrow> ('s, err, unit) prog"
  ur_BumpSessionEpoch :: "uuid \<Rightarrow> ('s, err, unit) prog"
  ur_SetSuspended :: "uuid \<Rightarrow> time option \<Rightarrow> ('s, err, unit) prog"
  ur_ReplacePasswordReset :: "Call \<Rightarrow> PasswordReset \<Rightarrow> ('s, err, PasswordReset) prog"
  ur_ActivePasswordReset :: "uuid \<Rightarrow> time \<Rightarrow> 's \<Rightarrow> err + PasswordReset"
  ur_FailPasswordReset :: "uuid \<Rightarrow> int \<Rightarrow> time \<Rightarrow> ('s, err, unit) prog"
  ur_ConsumePasswordReset :: "PasswordReset \<Rightarrow> string \<Rightarrow> ('s, err, unit) prog"
  ur_ReplaceEmailChange :: "Call \<Rightarrow> EmailChange \<Rightarrow> ('s, err, EmailChange) prog"
  ur_ActiveEmailChange :: "uuid \<Rightarrow> time \<Rightarrow> 's \<Rightarrow> err + EmailChange"
  ur_FailEmailChange :: "uuid \<Rightarrow> int \<Rightarrow> time \<Rightarrow> ('s, err, unit) prog"
  ur_ConsumeEmailChange :: "EmailChange \<Rightarrow> string \<Rightarrow> ('s, err, unit) prog"
  ur_DeviceByFingerprint :: "uuid \<Rightarrow> string \<Rightarrow> 's \<Rightarrow> err + Device"
  ur_CreateDevice :: "Call \<Rightarrow> Device \<Rightarrow> ('s, err, Device) prog"
  ur_TouchDevice :: "uuid \<Rightarrow> time \<Rightarrow> string \<Rightarrow> string \<Rightarrow> ('s, err, unit) prog"
  ur_TrustDevice :: "Call \<Rightarrow> uuid \<Rightarrow> ('s, err, unit) prog"
  ur_Devices :: "uuid \<Rightarrow> 's \<Rightarrow> err + Device list"
  ur_RevokeDevice :: "Call \<Rightarrow> uuid \<Rightarrow> uuid \<Rightarrow> ('s, err, unit) prog"
  ur_ActiveDevice :: "uuid \<Rightarrow> uuid \<Rightarrow> 's \<Rightarrow> err + Device"
  ur_RecordLoginEvent :: "Call \<Rightarrow> LoginEvent \<Rightarrow> ('s, err, unit) prog"
  ur_LoginEvents :: "uuid \<Rightarrow> int \<Rightarrow> 's \<Rightarrow> err + LoginEvent list"
  ur_SetTwoFactorEnabled :: "uuid \<Rightarrow> bool \<Rightarrow> ('s, err, unit) prog"
  ur_ReplaceTwoFactorChallenge :: "Call \<Rightarrow> TwoFactorChallenge \<Rightarrow> ('s, err, TwoFactorChallenge) prog"
  ur_ActiveTwoFactorChallenge :: "uuid \<Rightarrow> time \<Rightarrow> 's \<Rightarrow> err + TwoFactorChallenge"
  ur_FailTwoFactorChallenge :: "uuid \<Rightarrow> int \<Rightarrow> time \<Rightarrow> ('s, err, unit) prog"
  ur_ConsumeTwoFactorChallenge :: "Call \<Rightarrow> uuid \<Rightarrow> uuid \<Rightarrow> time \<Rightarrow> ('s, err, unit) prog"

text \<open>
  bcrypt: the hash of a password under a drawn salt at a cost, which may refuse a password
  longer than it takes, and whether a hash is one of a password.
\<close>

datatype bcrypt_error = BcryptPasswordTooLong | BcryptOther string

record Libs =
  lb_lower :: "string \<Rightarrow> string"
  bc_DefaultCost :: int
  bc_Generate :: "string \<Rightarrow> string \<Rightarrow> int \<Rightarrow> bcrypt_error + string"
  bc_Compare :: "string \<Rightarrow> string \<Rightarrow> bool"

record 's UserService =
  vs_repo :: "'s UserRepository"
  vs_libs :: Libs
  vs_cost :: int
  vs_pepper :: string
  vs_dummyHash :: string

definition MaxUserPage :: int where "MaxUserPage = 100"
definition MinPasswordLength :: nat where "MinPasswordLength = 12"
definition ResetCodeLength :: nat where "ResetCodeLength = 6"
definition resetTTL :: int where "resetTTL = minutes 15"
definition resetMaxAttempts :: int where "resetMaxAttempts = 5"
definition MaxNameLength :: nat where "MaxNameLength = 100"

text \<open>\<open>newService\<close>: a short pepper and an unusable cost stop the process.\<close>

definition newService :: "'s UserRepository \<Rightarrow> Libs \<Rightarrow> string \<Rightarrow> int \<Rightarrow> string \<Rightarrow> err + 's UserService" where
  "newService repo libs salt cost pepper =
     (if length pepper < 32 then Inl GoPanic
      else (case bc_Generate libs salt ''timing-orphan'' cost of
          Inl _ \<Rightarrow> Inl GoPanic
        | Inr dummy \<Rightarrow> Inr \<lparr>vs_repo = repo, vs_libs = libs, vs_cost = cost, vs_pepper = pepper,
            vs_dummyHash = dummy\<rparr>))"

text \<open>The options set the cost, one after the other, over bcrypt's default.\<close>

definition NewUserService :: "'s UserRepository \<Rightarrow> Libs \<Rightarrow> string \<Rightarrow> string \<Rightarrow> int list \<Rightarrow> err + 's UserService" where
  "NewUserService repo libs salt pepper costs =
     newService repo libs salt (foldl (\<lambda>_ cost. cost) (bc_DefaultCost libs) costs) pepper"

section \<open>Hashing and codes\<close>

text \<open>
  \<open>acquire\<close> looks at the context before it waits and while it waits; \<open>k\<close> is the number of
  looks the operation has taken before.
\<close>

definition acquire :: "Call \<Rightarrow> nat \<Rightarrow> err + unit" where
  "acquire c k =
     (if ctx_done c k then Inl CtxErr
      else if ctx_done c (Suc k) then Inl CtxErr
      else Inr ())"

definition hashPassword :: "'s UserService \<Rightarrow> Call \<Rightarrow> nat \<Rightarrow> string \<Rightarrow> err + (bcrypt_error + string)" where
  "hashPassword S c k password =
     (case acquire c k of
        Inl e \<Rightarrow> Inl e
      | Inr _ \<Rightarrow> Inr (bc_Generate (vs_libs S) (c_salt c) password (vs_cost S)))"

definition compareHash :: "'s UserService \<Rightarrow> Call \<Rightarrow> nat \<Rightarrow> string \<Rightarrow> string \<Rightarrow> err + unit" where
  "compareHash S c k hash password =
     (case acquire c k of
        Inl e \<Rightarrow> Inl e
      | Inr _ \<Rightarrow> if bc_Compare (vs_libs S) hash password then Inr () else Inl (DriverErr ''bcrypt''))"

definition requireMatchingPassword :: "string \<Rightarrow> string \<Rightarrow> err + unit" where
  "requireMatchingPassword password confirm =
     (if password \<noteq> confirm then Inl (UserErr ErrPasswordMismatch)
      else if length password < MinPasswordLength then Inl (UserErr ErrPasswordTooShort)
      else Inr ())"

definition hashedPassword :: "'s UserService \<Rightarrow> Call \<Rightarrow> nat \<Rightarrow> string \<Rightarrow> err + string" where
  "hashedPassword S c k password =
     (case hashPassword S c k password of
        Inl e \<Rightarrow> Inl e
      | Inr (Inl BcryptPasswordTooLong) \<Rightarrow> Inl (UserErr ErrPasswordTooLong)
      | Inr (Inl (BcryptOther msg)) \<Rightarrow> Inl (DriverErr msg)
      | Inr (Inr hash) \<Rightarrow> Inr hash)"

definition NormalizeEmail :: "Libs \<Rightarrow> string \<Rightarrow> string" where
  "NormalizeEmail libs email = to_lower (lb_lower libs) (trim_space email)"

text \<open>\<open>id[:]\<close>: the sixteen bytes of an identifier.\<close>

fun big_endian :: "nat \<Rightarrow> nat \<Rightarrow> string" where
  "big_endian 0 n = []"
| "big_endian (Suc k) n = big_endian k (n div 256) @ [char_of (n mod 256)]"

fun uuid_bytes :: "uuid \<Rightarrow> string" where
  "uuid_bytes (UUID n) = big_endian 16 n"

definition purposeReset :: string where "purposeReset = ''password-reset''"
definition purposeTwoFactor :: string where "purposeTwoFactor = ''two-factor''"
definition purposeEmailChange :: string where "purposeEmailChange = ''email-change''"

text \<open>What the three writes of \<open>hashCode\<close> feed the hash.\<close>

definition code_message :: "string \<Rightarrow> uuid \<Rightarrow> string \<Rightarrow> string" where
  "code_message purpose userID code = purpose @ uuid_bytes userID @ code"

definition hashCode :: "'s UserService \<Rightarrow> string \<Rightarrow> uuid \<Rightarrow> string \<Rightarrow> string" where
  "hashCode S purpose userID code =
     hex_encode (hmac_sha256 (vs_pepper S) (code_message purpose userID code))"

definition hashResetCode :: "'s UserService \<Rightarrow> uuid \<Rightarrow> string \<Rightarrow> string" where
  "hashResetCode S userID code = hashCode S purposeReset userID code"

text \<open>The loop of \<open>randomDigits\<close> from position \<open>i\<close> on; an index out of range panics.\<close>

fun draw_digits :: "Call \<Rightarrow> nat \<Rightarrow> nat \<Rightarrow> err + string" where
  "draw_digits c i 0 = Inr []"
| "draw_digits c i (Suc n) =
     (case c_digit c i of
        None \<Rightarrow> Inl (DriverErr ''rand'')
      | Some k \<Rightarrow>
          if 10 \<le> k then Inl GoPanic
          else (case draw_digits c (Suc i) n of
              Inl e \<Rightarrow> Inl e
            | Inr out \<Rightarrow> Inr (''0123456789'' ! k # out)))"

definition randomDigits :: "Call \<Rightarrow> nat \<Rightarrow> err + string" where
  "randomDigits c n = draw_digits c 0 n"

section \<open>Accounts\<close>

definition AccountCreate ::
    "'s UserService \<Rightarrow> Call \<Rightarrow> string \<Rightarrow> string \<Rightarrow> string \<Rightarrow> string \<Rightarrow> string \<Rightarrow> ('s, err, User) prog" where
  "AccountCreate S c name email password confirm locale =
     (let name = trim_space name in
      if name = [] then refuse (UserErr ErrNameEmpty)
      else if MaxNameLength < rune_count name then refuse (UserErr ErrNameTooLong)
      else
        bindp (ensure (requireMatchingPassword password confirm)) (\<lambda>_.
        bindp (query (\<lambda>_. hashedPassword S c 0 password)) (\<lambda>hash.
        ur_Create (vs_repo S) c
          \<lparr>u_ID = uuid_Nil, u_CreatedAt = zero_time, u_DeletedAt = None, u_IsProtected = False,
           u_Name = name, u_Email = NormalizeEmail (vs_libs S) email, u_PasswordHash = hash,
           u_Locale = locale, u_SessionEpoch = 0, u_TwoFactorEnabled = False,
           u_SuspendedAt = None, u_AvatarID = None\<rparr>)))"

definition AccountByID :: "'s UserService \<Rightarrow> uuid \<Rightarrow> 's \<Rightarrow> err + User" where
  "AccountByID S userID = ur_ByID (vs_repo S) userID"

definition AccountByEmail :: "'s UserService \<Rightarrow> string \<Rightarrow> 's \<Rightarrow> err + User" where
  "AccountByEmail S email = ur_ByEmail (vs_repo S) (NormalizeEmail (vs_libs S) email)"

definition AccountAll :: "'s UserService \<Rightarrow> int \<Rightarrow> int \<Rightarrow> 's \<Rightarrow> err + User list" where
  "AccountAll S limit offset =
     (let limit = (if limit \<le> 0 \<or> MaxUserPage < limit then MaxUserPage else limit);
          offset = (if offset < 0 then 0 else offset)
      in ur_All (vs_repo S) limit offset)"

definition Suspend :: "'s UserService \<Rightarrow> Call \<Rightarrow> uuid \<Rightarrow> bool \<Rightarrow> ('s, err, unit) prog" where
  "Suspend S c userID suspended =
     (let at = (if suspended then Some (c_now c ClockService) else None)
      in ur_SetSuspended (vs_repo S) userID at)"

definition AccountDelete :: "'s UserService \<Rightarrow> Call \<Rightarrow> uuid \<Rightarrow> ('s, err, unit) prog" where
  "AccountDelete S c userID = ur_Delete (vs_repo S) c userID"

definition UpdateProfile ::
    "'s UserService \<Rightarrow> uuid \<Rightarrow> string option \<Rightarrow> string option \<Rightarrow> ('s, err, User) prog" where
  "UpdateProfile S userID name locale =
     bindp (query (ur_ByID (vs_repo S) userID)) (\<lambda>current.
     bindp (ensure (case name of
         None \<Rightarrow> Inr ()
       | Some n \<Rightarrow>
           if trim_space n = [] then Inl (UserErr ErrNameEmpty)
           else if MaxNameLength < rune_count (trim_space n) then Inl (UserErr ErrNameTooLong)
           else Inr ())) (\<lambda>_.
     let nextName = (case name of None \<Rightarrow> u_Name current | Some n \<Rightarrow> trim_space n);
         nextLocale = (case locale of None \<Rightarrow> u_Locale current | Some l \<Rightarrow> l) in
     bindp (ur_UpdateProfile (vs_repo S) userID nextName nextLocale) (\<lambda>_.
     ok (current\<lparr>u_Name := nextName, u_Locale := nextLocale\<rparr>))))"

definition Authenticate :: "'s UserService \<Rightarrow> Call \<Rightarrow> string \<Rightarrow> string \<Rightarrow> 's \<Rightarrow> err + User" where
  "Authenticate S c email password s =
     (case ur_ByEmail (vs_repo S) (NormalizeEmail (vs_libs S) email) s of
        Inl e \<Rightarrow>
          if e \<noteq> user_not_found then Inl e
          else let _ = compareHash S c 0 (vs_dummyHash S) password
               in Inl (UserErr ErrInvalidCredentials)
      | Inr u \<Rightarrow>
          (case compareHash S c 0 (u_PasswordHash u) password of
             Inl _ \<Rightarrow> if ctx_done c 2 then Inl CtxErr else Inl (UserErr ErrInvalidCredentials)
           | Inr _ \<Rightarrow> if UserIsSuspended u then Inl (UserErr ErrSuspended) else Inr u))"

section \<open>Passwords\<close>

definition BeginPasswordReset :: "'s UserService \<Rightarrow> Call \<Rightarrow> string \<Rightarrow> ('s, err, string) prog" where
  "BeginPasswordReset S c email =
     attempt (query (ur_ByEmail (vs_repo S) (NormalizeEmail (vs_libs S) email))) (\<lambda>r. case r of
        Inl e \<Rightarrow> if e = user_not_found then ok [] else refuse e
      | Inr u \<Rightarrow>
          bindp (query (\<lambda>_. randomDigits c ResetCodeLength)) (\<lambda>code.
          let now = c_now c ClockService in
          bindp (ur_ReplacePasswordReset (vs_repo S) c
            \<lparr>pr_ID = uuid_Nil, pr_UserID = u_ID u, pr_CodeHash = hashResetCode S (u_ID u) code,
             pr_ExpiresAt = now + resetTTL, pr_Attempts = 0, pr_ConsumedAt = None\<rparr>) (\<lambda>_.
          ok code)))"

definition CompletePasswordReset ::
    "'s UserService \<Rightarrow> Call \<Rightarrow> string \<Rightarrow> string \<Rightarrow> string \<Rightarrow> string \<Rightarrow> ('s, err, unit) prog" where
  "CompletePasswordReset S c email code password confirm =
     bindp (ensure (requireMatchingPassword password confirm)) (\<lambda>_.
     attempt (query (ur_ByEmail (vs_repo S) (NormalizeEmail (vs_libs S) email))) (\<lambda>r. case r of
        Inl e \<Rightarrow>
          if e = user_not_found
          then (let _ = hashResetCode S uuid_Nil code in refuse (UserErr ErrInvalidResetCode))
          else refuse e
      | Inr u \<Rightarrow>
          let now = c_now c ClockService in
          attempt (query (ur_ActivePasswordReset (vs_repo S) (u_ID u) now)) (\<lambda>r. case r of
             Inl e \<Rightarrow>
               if e = user_not_found
               then (let _ = hashResetCode S (u_ID u) code in refuse (UserErr ErrInvalidResetCode))
               else refuse e
           | Inr reset \<Rightarrow>
               if pr_CodeHash reset \<noteq> hashResetCode S (u_ID u) code then
                 bindp (ur_FailPasswordReset (vs_repo S) (pr_ID reset) resetMaxAttempts now) (\<lambda>_.
                 refuse (UserErr ErrInvalidResetCode))
               else
                 bindp (query (\<lambda>_. hashedPassword S c 0 password)) (\<lambda>hash.
                 ur_ConsumePasswordReset (vs_repo S) (reset\<lparr>pr_ConsumedAt := Some now\<rparr>) hash))))"

definition ChangePassword ::
    "'s UserService \<Rightarrow> Call \<Rightarrow> uuid \<Rightarrow> string \<Rightarrow> string \<Rightarrow> string \<Rightarrow> ('s, err, unit) prog" where
  "ChangePassword S c userID current password confirm =
     bindp (query (ur_ByID (vs_repo S) userID)) (\<lambda>u.
     case compareHash S c 0 (u_PasswordHash u) current of
       Inl _ \<Rightarrow> if ctx_done c 2 then refuse CtxErr else refuse (UserErr ErrInvalidCredentials)
     | Inr _ \<Rightarrow>
         bindp (ensure (requireMatchingPassword password confirm)) (\<lambda>_.
         bindp (query (\<lambda>_. hashedPassword S c 2 password)) (\<lambda>hash.
         ur_SetPassword (vs_repo S) userID hash)))"

definition SignOutEverywhere :: "'s UserService \<Rightarrow> uuid \<Rightarrow> ('s, err, unit) prog" where
  "SignOutEverywhere S userID = ur_BumpSessionEpoch (vs_repo S) userID"

section \<open>E-mail addresses\<close>

definition EmailChangeCodeLength :: nat where "EmailChangeCodeLength = 6"
definition emailChangeTTL :: int where "emailChangeTTL = minutes 15"
definition emailChangeMaxAttempts :: int where "emailChangeMaxAttempts = 5"

definition BeginEmailChange ::
    "'s UserService \<Rightarrow> Call \<Rightarrow> uuid \<Rightarrow> string \<Rightarrow> string \<Rightarrow> ('s, err, string) prog" where
  "BeginEmailChange S c userID newEmail password =
     (let newEmail = NormalizeEmail (vs_libs S) newEmail in
      if newEmail = [] then refuse (UserErr ErrEmailInvalid)
      else
        bindp (query (ur_ByID (vs_repo S) userID)) (\<lambda>u.
        case compareHash S c 0 (u_PasswordHash u) password of
          Inl _ \<Rightarrow> if ctx_done c 2 then refuse CtxErr else refuse (UserErr ErrInvalidCredentials)
        | Inr _ \<Rightarrow>
            if newEmail = u_Email u then refuse (UserErr ErrSameEmail)
            else
              bindp (query (\<lambda>_. randomDigits c EmailChangeCodeLength)) (\<lambda>code.
              let now = c_now c ClockService in
              bindp (ur_ReplaceEmailChange (vs_repo S) c
                \<lparr>ec_ID = uuid_Nil, ec_UserID = u_ID u, ec_NewEmail = newEmail,
                 ec_CodeHash = hashCode S purposeEmailChange (u_ID u) code,
                 ec_ExpiresAt = now + emailChangeTTL, ec_Attempts = 0, ec_ConsumedAt = None\<rparr>) (\<lambda>_.
              ok code))))"

definition PendingEmailChange :: "'s UserService \<Rightarrow> Call \<Rightarrow> uuid \<Rightarrow> 's \<Rightarrow> err + string" where
  "PendingEmailChange S c userID s =
     (case ur_ActiveEmailChange (vs_repo S) userID (c_now c ClockService) s of
        Inl e \<Rightarrow> Inl e
      | Inr change \<Rightarrow> Inr (ec_NewEmail change))"

definition ConfirmEmailChange :: "'s UserService \<Rightarrow> Call \<Rightarrow> uuid \<Rightarrow> string \<Rightarrow> ('s, err, unit) prog" where
  "ConfirmEmailChange S c userID code =
     (let now = c_now c ClockService in
      attempt (query (ur_ActiveEmailChange (vs_repo S) userID now)) (\<lambda>r. case r of
        Inl e \<Rightarrow>
          if e = user_not_found
          then (let _ = hashCode S purposeEmailChange userID code in refuse (UserErr ErrInvalidEmailCode))
          else refuse e
      | Inr change \<Rightarrow>
          if hashCode S purposeEmailChange userID code \<noteq> ec_CodeHash change then
            bindp (ur_FailEmailChange (vs_repo S) (ec_ID change) emailChangeMaxAttempts now) (\<lambda>_.
            refuse (UserErr ErrInvalidEmailCode))
          else ur_ConsumeEmailChange (vs_repo S) (change\<lparr>ec_ConsumedAt := Some now\<rparr>) (ec_NewEmail change)))"

section \<open>Signing in\<close>

record SignInContext =
  sc_IP :: string
  sc_UserAgent :: string
  sc_DeviceToken :: string

record SignInResult =
  sr_User :: User
  sr_Device :: Device
  sr_DeviceToken :: string
  sr_Challenged :: bool
  sr_Code :: string

definition maxUserAgentLength :: nat where "maxUserAgentLength = 512"
definition MaxLoginEvents :: int where "MaxLoginEvents = 50"
definition unknownIP :: string where "unknownIP = ''0.0.0.0''"
definition TwoFactorCodeLength :: nat where "TwoFactorCodeLength = 6"
definition twoFactorTTL :: int where "twoFactorTTL = minutes 10"
definition twoFactorMaxAttempts :: int where "twoFactorMaxAttempts = 5"

definition truncate_string :: "string \<Rightarrow> nat \<Rightarrow> string" where
  "truncate_string s limit = (if length s \<le> limit then s else take limit s)"

definition normalizeIP :: "string \<Rightarrow> string" where
  "normalizeIP ip = (case ParseIP ip of None \<Rightarrow> unknownIP | Some parsed \<Rightarrow> show_ip parsed)"

definition deviceFingerprint :: "string \<Rightarrow> string" where
  "deviceFingerprint token = hex_encode (sha256 token)"

definition randomToken :: "Call \<Rightarrow> err + string" where
  "randomToken c =
     (case c_token c of
        None \<Rightarrow> Inl (DriverErr ''user: generate device token'')
      | Some buf \<Rightarrow> Inr (raw_url_encode buf))"

definition recordLogin ::
    "'s UserService \<Rightarrow> Call \<Rightarrow> uuid \<Rightarrow> uuid option \<Rightarrow> SignInContext \<Rightarrow> LoginOutcome \<Rightarrow> ('s, err, unit) prog" where
  "recordLogin S c userID deviceID sc outcome =
     ur_RecordLoginEvent (vs_repo S) c
       \<lparr>le_ID = uuid_Nil, le_CreatedAt = zero_time, le_UserID = userID, le_DeviceID = deviceID,
        le_IP = normalizeIP (sc_IP sc), le_UserAgent = truncate_string (sc_UserAgent sc) maxUserAgentLength,
        le_Outcome = outcome\<rparr>"

definition tryRecordLogin ::
    "'s UserService \<Rightarrow> Call \<Rightarrow> uuid \<Rightarrow> uuid option \<Rightarrow> SignInContext \<Rightarrow> LoginOutcome \<Rightarrow> ('s, err, unit) prog" where
  "tryRecordLogin S c userID deviceID sc outcome =
     attempt (recordLogin S c userID deviceID sc outcome) (\<lambda>_. ok ())"

text \<open>\<open>resolveDevice\<close>: the device of the presented token, or a new one and its token.\<close>

definition newDevice :: "'s UserService \<Rightarrow> Call \<Rightarrow> uuid \<Rightarrow> SignInContext \<Rightarrow> ('s, err, Device \<times> string) prog" where
  "newDevice S c userID sc =
     bindp (query (\<lambda>_. randomToken c)) (\<lambda>token.
     bindp (ur_CreateDevice (vs_repo S) c
       \<lparr>dv_ID = uuid_Nil, dv_CreatedAt = zero_time, dv_UserID = userID,
        dv_Fingerprint = deviceFingerprint token,
        dv_UserAgent = truncate_string (sc_UserAgent sc) maxUserAgentLength,
        dv_LastSeenAt = None, dv_LastIP = None, dv_TrustedAt = None, dv_RevokedAt = None\<rparr>) (\<lambda>device.
     ok (device, token)))"

definition resolveDevice ::
    "'s UserService \<Rightarrow> Call \<Rightarrow> uuid \<Rightarrow> SignInContext \<Rightarrow> ('s, err, Device \<times> string) prog" where
  "resolveDevice S c userID sc =
     (if sc_DeviceToken sc \<noteq> [] then
        attempt (query (ur_DeviceByFingerprint (vs_repo S) userID (deviceFingerprint (sc_DeviceToken sc))))
          (\<lambda>r. case r of
             Inr device \<Rightarrow> ok (device, [])
           | Inl e \<Rightarrow> if e \<noteq> user_not_found then refuse e else newDevice S c userID sc)
      else newDevice S c userID sc)"

definition issueTwoFactorChallenge ::
    "'s UserService \<Rightarrow> Call \<Rightarrow> uuid \<Rightarrow> uuid \<Rightarrow> time \<Rightarrow> ('s, err, string) prog" where
  "issueTwoFactorChallenge S c userID deviceID now =
     bindp (query (\<lambda>_. randomDigits c TwoFactorCodeLength)) (\<lambda>code.
     bindp (ur_ReplaceTwoFactorChallenge (vs_repo S) c
       \<lparr>tc_ID = uuid_Nil, tc_UserID = userID, tc_DeviceID = deviceID,
        tc_CodeHash = hashCode S purposeTwoFactor userID code,
        tc_ExpiresAt = now + twoFactorTTL, tc_Attempts = 0, tc_ConsumedAt = None\<rparr>) (\<lambda>_.
     ok code))"

text \<open>\<open>SignIn\<close> once the password is proved and the account is not suspended.\<close>

definition admit_device ::
    "'s UserService \<Rightarrow> Call \<Rightarrow> User \<Rightarrow> SignInContext \<Rightarrow> Device \<times> string \<Rightarrow> ('s, err, SignInResult) prog" where
  "admit_device S c u sc resolved =
     (let (device, token) = resolved in
      if DeviceIsRevoked device then
        bindp (tryRecordLogin S c (u_ID u) (Some (dv_ID device)) sc OutcomeLocked) (\<lambda>_.
        refuse (UserErr UserErrDeviceRevoked))
      else
        let now = c_now c ClockService in
        bindp (ur_TouchDevice (vs_repo S) (dv_ID device) now (normalizeIP (sc_IP sc))
                 (truncate_string (sc_UserAgent sc) maxUserAgentLength)) (\<lambda>_.
        if u_TwoFactorEnabled u \<and> \<not> DeviceIsTrusted device then
          bindp (issueTwoFactorChallenge S c (u_ID u) (dv_ID device) now) (\<lambda>code.
          ok \<lparr>sr_User = u, sr_Device = device, sr_DeviceToken = token, sr_Challenged = True, sr_Code = code\<rparr>)
        else
          bindp (recordLogin S c (u_ID u) (Some (dv_ID device)) sc OutcomeSuccess) (\<lambda>_.
          ok \<lparr>sr_User = u, sr_Device = device, sr_DeviceToken = token, sr_Challenged = False, sr_Code = []\<rparr>)))"

definition SignIn ::
    "'s UserService \<Rightarrow> Call \<Rightarrow> string \<Rightarrow> string \<Rightarrow> SignInContext \<Rightarrow> ('s, err, SignInResult) prog" where
  "SignIn S c email password sc =
     attempt (query (ur_ByEmail (vs_repo S) (NormalizeEmail (vs_libs S) email))) (\<lambda>r. case r of
        Inl e \<Rightarrow>
          if e \<noteq> user_not_found then refuse e
          else (let _ = compareHash S c 0 (vs_dummyHash S) password
                in refuse (UserErr ErrInvalidCredentials))
      | Inr u \<Rightarrow>
          (case compareHash S c 0 (u_PasswordHash u) password of
             Inl _ \<Rightarrow>
               if ctx_done c 2 then refuse CtxErr
               else bindp (tryRecordLogin S c (u_ID u) None sc OutcomeBadPassword) (\<lambda>_.
                    refuse (UserErr ErrInvalidCredentials))
           | Inr _ \<Rightarrow>
               if UserIsSuspended u then
                 bindp (tryRecordLogin S c (u_ID u) None sc OutcomeLocked) (\<lambda>_.
                 refuse (UserErr ErrSuspended))
               else bindp (resolveDevice S c (u_ID u) sc) (admit_device S c u sc)))"

section \<open>The second factor\<close>

text \<open>\<open>VerifyTwoFactor\<close> once the challenge is found: spend it, record it, read the device again.\<close>

definition spend_challenge ::
    "'s UserService \<Rightarrow> Call \<Rightarrow> User \<Rightarrow> Device \<Rightarrow> SignInContext \<Rightarrow> TwoFactorChallenge \<Rightarrow> time \<Rightarrow>
     ('s, err, User \<times> Device) prog" where
  "spend_challenge S c u device sc challenge now =
     bindp (ur_ConsumeTwoFactorChallenge (vs_repo S) c (tc_ID challenge) (dv_ID device) now) (\<lambda>_.
     bindp (recordLogin S c (u_ID u) (Some (dv_ID device)) sc OutcomeSuccess) (\<lambda>_.
     attempt (query (ur_ActiveDevice (vs_repo S) (u_ID u) (dv_ID device))) (\<lambda>r. case r of
        Inl e \<Rightarrow> if e = user_not_found then refuse (UserErr UserErrDeviceRevoked) else refuse e
      | Inr trusted \<Rightarrow> ok (u, trusted))))"

definition VerifyTwoFactor ::
    "'s UserService \<Rightarrow> Call \<Rightarrow> string \<Rightarrow> string \<Rightarrow> SignInContext \<Rightarrow> ('s, err, User \<times> Device) prog" where
  "VerifyTwoFactor S c email code sc =
     attempt (query (ur_ByEmail (vs_repo S) (NormalizeEmail (vs_libs S) email))) (\<lambda>r. case r of
        Inl e \<Rightarrow>
          if e \<noteq> user_not_found then refuse e
          else (let _ = hashCode S purposeTwoFactor uuid_Nil code
                in refuse (UserErr ErrInvalidTwoFactorCode))
      | Inr u \<Rightarrow>
          if sc_DeviceToken sc = [] then
            (let _ = hashCode S purposeTwoFactor (u_ID u) code
             in refuse (UserErr ErrInvalidTwoFactorCode))
          else if UserIsSuspended u then refuse (UserErr ErrSuspended)
          else
            attempt (query (ur_DeviceByFingerprint (vs_repo S) (u_ID u)
                              (deviceFingerprint (sc_DeviceToken sc)))) (\<lambda>r. case r of
               Inl e \<Rightarrow>
                 if e \<noteq> user_not_found then refuse e
                 else (let _ = hashCode S purposeTwoFactor (u_ID u) code
                       in refuse (UserErr ErrInvalidTwoFactorCode))
             | Inr device \<Rightarrow>
                 if DeviceIsRevoked device then refuse (UserErr UserErrDeviceRevoked)
                 else
                   let now = c_now c ClockService in
                   attempt (query (ur_ActiveTwoFactorChallenge (vs_repo S) (u_ID u) now)) (\<lambda>r. case r of
                      Inl e \<Rightarrow>
                        if e \<noteq> user_not_found then refuse e
                        else (let _ = hashCode S purposeTwoFactor (u_ID u) code
                              in refuse (UserErr ErrInvalidTwoFactorCode))
                    | Inr challenge \<Rightarrow>
                        if tc_DeviceID challenge \<noteq> dv_ID device \<or>
                           tc_CodeHash challenge \<noteq> hashCode S purposeTwoFactor (u_ID u) code
                        then
                          bindp (ur_FailTwoFactorChallenge (vs_repo S) (tc_ID challenge)
                                   twoFactorMaxAttempts now) (\<lambda>_.
                          bindp (tryRecordLogin S c (u_ID u) (Some (dv_ID device)) sc OutcomeMFAFailed) (\<lambda>_.
                          refuse (UserErr ErrInvalidTwoFactorCode)))
                        else spend_challenge S c u device sc challenge now)))"

definition SetTwoFactor ::
    "'s UserService \<Rightarrow> Call \<Rightarrow> uuid \<Rightarrow> string \<Rightarrow> bool \<Rightarrow> SignInContext \<Rightarrow> ('s, err, unit) prog" where
  "SetTwoFactor S c userID password enabled sc =
     bindp (query (ur_ByID (vs_repo S) userID)) (\<lambda>u.
     case compareHash S c 0 (u_PasswordHash u) password of
       Inl _ \<Rightarrow> if ctx_done c 2 then refuse CtxErr else refuse (UserErr ErrInvalidCredentials)
     | Inr _ \<Rightarrow>
         bindp (if enabled \<and> sc_DeviceToken sc \<noteq> [] then
             attempt (query (ur_DeviceByFingerprint (vs_repo S) userID
                               (deviceFingerprint (sc_DeviceToken sc)))) (\<lambda>r. case r of
                Inr device \<Rightarrow> ur_TrustDevice (vs_repo S) c (dv_ID device)
              | Inl e \<Rightarrow> if e = user_not_found then ok () else refuse e)
           else ok ()) (\<lambda>_.
         ur_SetTwoFactorEnabled (vs_repo S) userID enabled))"

section \<open>Devices and the login history\<close>

definition AccountDevices :: "'s UserService \<Rightarrow> uuid \<Rightarrow> 's \<Rightarrow> err + Device list" where
  "AccountDevices S userID = ur_Devices (vs_repo S) userID"

definition AccountRevokeDevice :: "'s UserService \<Rightarrow> Call \<Rightarrow> uuid \<Rightarrow> uuid \<Rightarrow> ('s, err, unit) prog" where
  "AccountRevokeDevice S c userID deviceID = ur_RevokeDevice (vs_repo S) c userID deviceID"

definition AccountLoginEvents :: "'s UserService \<Rightarrow> uuid \<Rightarrow> int \<Rightarrow> 's \<Rightarrow> err + LoginEvent list" where
  "AccountLoginEvents S userID limit =
     (let limit = (if limit \<le> 0 \<or> MaxLoginEvents < limit then MaxLoginEvents else limit)
      in ur_LoginEvents (vs_repo S) userID limit)"

definition AccountActiveDevice :: "'s UserService \<Rightarrow> uuid \<Rightarrow> uuid \<Rightarrow> 's \<Rightarrow> err + Device" where
  "AccountActiveDevice S userID deviceID = ur_ActiveDevice (vs_repo S) userID deviceID"

end
