(* ===== verification/Users_Contract.thy ===== *)
theory Users_Contract
  imports User_Service
begin

text \<open>
  What the account service relies on: the contract of \<open>user.Repository\<close> over an abstract view of a
  store (its live accounts, devices, challenges, resets and e-mail changes), and what
  follows for any implementation about who is let in and what a code is worth.
\<close>

lemma attempt_query: "attempt (query f) k s = k (f s) s"
  by (simp add: attempt_def query_def)

text \<open>A program that went through: the branch it took.\<close>

lemma case_sum_went:
  "(case r of Inl e \<Rightarrow> f e | Inr x \<Rightarrow> g x) s = (Inr y, t) \<longleftrightarrow>
     (\<exists>e. r = Inl e \<and> f e s = (Inr y, t)) \<or> (\<exists>x. r = Inr x \<and> g x s = (Inr y, t))"
  by (cases r) simp_all

lemma if_went:
  "(if b then p else q) s = (Inr y, t) \<longleftrightarrow> b \<and> p s = (Inr y, t) \<or> \<not> b \<and> q s = (Inr y, t)"
  by simp

lemmas call_simps = attempt_query case_sum_went if_went query_eq ensure_eq bindp_Inr ok_eq refuse_eq

section \<open>The contract\<close>

locale account_store =
  fixes S :: "'s UserService"
    and wf :: "'s \<Rightarrow> bool"
    and account :: "'s \<Rightarrow> uuid \<Rightarrow> User option"
    and device :: "'s \<Rightarrow> uuid \<Rightarrow> Device option"
    and challenge :: "'s \<Rightarrow> uuid \<Rightarrow> TwoFactorChallenge option"
    and reset :: "'s \<Rightarrow> uuid \<Rightarrow> PasswordReset option"
    and change :: "'s \<Rightarrow> uuid \<Rightarrow> EmailChange option"
  assumes by_id: "wf s \<Longrightarrow> ur_ByID (vs_repo S) k s =
      (case account s k of None \<Rightarrow> Inl user_not_found | Some u \<Rightarrow> Inr u)"
    and by_email: "wf s \<Longrightarrow> ur_ByEmail (vs_repo S) email s = Inr u \<Longrightarrow>
      account s (u_ID u) = Some u \<and> u_Email u = email"
    and device_found: "wf s \<Longrightarrow> ur_DeviceByFingerprint (vs_repo S) k fp s = Inr dv \<Longrightarrow>
      device s (dv_ID dv) = Some dv \<and> dv_UserID dv = k \<and> dv_Fingerprint dv = fp"
    and active_device: "wf s \<Longrightarrow> ur_ActiveDevice (vs_repo S) k j s = Inr dv \<Longrightarrow>
      device s j = Some dv \<and> dv_UserID dv = k \<and> \<not> DeviceIsRevoked dv"
    and device_created: "wf s \<Longrightarrow> ur_CreateDevice (vs_repo S) c dv s = (Inr dv', s') \<Longrightarrow>
      dv' = dv\<lparr>dv_ID := dv_ID dv', dv_CreatedAt := dv_CreatedAt dv'\<rparr>"
    and challenge_found: "wf s \<Longrightarrow> ur_ActiveTwoFactorChallenge (vs_repo S) k now s = Inr ch \<Longrightarrow>
      challenge s (tc_ID ch) = Some ch \<and> tc_UserID ch = k \<and> tc_ConsumedAt ch = None \<and> now < tc_ExpiresAt ch"
    and challenge_spent: "wf s \<Longrightarrow> ur_ConsumeTwoFactorChallenge (vs_repo S) c i j now s = (Inr x, s') \<Longrightarrow>
      wf s' \<and> (\<exists>ch. challenge s' i = Some ch \<and> tc_ConsumedAt ch \<noteq> None) \<and>
      (\<exists>dv. device s' j = Some dv \<and> dv_TrustedAt dv \<noteq> None)"
    and logged: "wf s \<Longrightarrow> ur_RecordLoginEvent (vs_repo S) c ev s = (res, s') \<Longrightarrow>
      wf s' \<and> challenge s' = challenge s \<and> device s' = device s"
    and password_set: "wf s \<Longrightarrow> account s k = Some u \<Longrightarrow> ur_SetPassword (vs_repo S) k h s = (Inr x, s') \<Longrightarrow>
      account s' = (account s)(k \<mapsto> u\<lparr>u_PasswordHash := h, u_SessionEpoch := u_SessionEpoch u + 1\<rparr>)"
    and reset_found: "wf s \<Longrightarrow> ur_ActivePasswordReset (vs_repo S) k now s = Inr r \<Longrightarrow>
      reset s (pr_ID r) = Some r \<and> pr_UserID r = k \<and> pr_ConsumedAt r = None \<and> now < pr_ExpiresAt r"
    and reset_spent: "wf s \<Longrightarrow> account s (pr_UserID r) = Some u \<Longrightarrow> reset s (pr_ID r) = Some r0 \<Longrightarrow>
      pr_ConsumedAt r \<noteq> None \<Longrightarrow> ur_ConsumePasswordReset (vs_repo S) r h s = (Inr x, s') \<Longrightarrow>
      account s' = (account s)(pr_UserID r \<mapsto> u\<lparr>u_PasswordHash := h, u_SessionEpoch := u_SessionEpoch u + 1\<rparr>) \<and>
      (\<exists>r'. reset s' (pr_ID r) = Some r' \<and> pr_ConsumedAt r' = pr_ConsumedAt r) \<and>
      (\<forall>j. j \<noteq> pr_ID r \<longrightarrow> reset s' j = reset s j)"
    and change_found: "wf s \<Longrightarrow> ur_ActiveEmailChange (vs_repo S) k now s = Inr ec \<Longrightarrow>
      change s (ec_ID ec) = Some ec \<and> ec_UserID ec = k \<and> ec_ConsumedAt ec = None \<and> now < ec_ExpiresAt ec"
    and change_spent: "wf s \<Longrightarrow> account s (ec_UserID ec) = Some u \<Longrightarrow> change s (ec_ID ec) = Some ec0 \<Longrightarrow>
      ec_ConsumedAt ec \<noteq> None \<Longrightarrow> ur_ConsumeEmailChange (vs_repo S) ec email s = (Inr x, s') \<Longrightarrow>
      account s' = (account s)(ec_UserID ec \<mapsto> u\<lparr>u_Email := email\<rparr>) \<and>
      (\<forall>k v. account s k = Some v \<longrightarrow> u_Email v = email \<longrightarrow> k = ec_UserID ec) \<and>
      (\<exists>ec'. change s' (ec_ID ec) = Some ec' \<and> ec_ConsumedAt ec' = ec_ConsumedAt ec)"
begin

section \<open>Signing in\<close>

lemma compareHash_ok: "compareHash S c k h pw = Inr x \<Longrightarrow> bc_Compare (vs_libs S) h pw"
  by (auto simp: compareHash_def split: sum.splits if_splits)

lemma resolved_device:
  assumes "wf s" "resolveDevice S c k sc s = (Inr (dv, token), s')"
  shows "dv_UserID dv = k \<and>
    (DeviceIsTrusted dv \<longrightarrow> device s (dv_ID dv) = Some dv \<and> sc_DeviceToken sc \<noteq> [] \<and>
       dv_Fingerprint dv = deviceFingerprint (sc_DeviceToken sc))"
proof -
  have new: "dv_UserID dv = k \<and> \<not> DeviceIsTrusted dv" if "newDevice S c k sc s = (Inr (dv, token), s')"
  proof -
    obtain tok dv0 where "ur_CreateDevice (vs_repo S) c dv0 s = (Inr dv, s')" "dv_UserID dv0 = k" "dv_TrustedAt dv0 = None"
      using \<open>newDevice S c k sc s = (Inr (dv, token), s')\<close> by (auto simp: newDevice_def prog_simps)
    then have "dv = dv0\<lparr>dv_ID := dv_ID dv, dv_CreatedAt := dv_CreatedAt dv\<rparr>"
      using device_created[OF assms(1)] by blast
    then have "dv_UserID dv = dv_UserID dv0" "dv_TrustedAt dv = dv_TrustedAt dv0"
      by (metis Device.select_convs Device.surjective Device.update_convs)+
    then show ?thesis using \<open>dv_UserID dv0 = k\<close> \<open>dv_TrustedAt dv0 = None\<close> by (simp add: DeviceIsTrusted_def)
  qed
  show ?thesis
    using assms(2) new device_found[OF assms(1)]
    by (auto simp: resolveDevice_def prog_simps split: if_splits sum.splits)
qed

lemma SignIn_granted:
  assumes "wf s" "SignIn S c email password sc s = (Inr res, s')"
  shows "\<exists>u. account s (u_ID u) = Some u \<and> u_Email u = NormalizeEmail (vs_libs S) email \<and>
    bc_Compare (vs_libs S) (u_PasswordHash u) password \<and> \<not> UserIsSuspended u \<and>
    sr_User res = u \<and> dv_UserID (sr_Device res) = u_ID u \<and> \<not> DeviceIsRevoked (sr_Device res) \<and>
    (\<not> sr_Challenged res \<longrightarrow> u_TwoFactorEnabled u \<longrightarrow>
       (\<exists>dv. device s (dv_ID dv) = Some dv \<and> dv_UserID dv = u_ID u \<and> DeviceIsTrusted dv \<and>
          sc_DeviceToken sc \<noteq> [] \<and> dv_Fingerprint dv = deviceFingerprint (sc_DeviceToken sc)))"
proof -
  obtain u x where u: "ur_ByEmail (vs_repo S) (NormalizeEmail (vs_libs S) email) s = Inr u"
    "compareHash S c 0 (u_PasswordHash u) password = Inr x" "\<not> UserIsSuspended u"
    and rest: "bindp (resolveDevice S c (u_ID u) sc) (admit_device S c u sc) s = (Inr res, s')"
    using assms(2) by (auto simp: SignIn_def prog_simps Let_def split: sum.splits if_splits)
  obtain dv token s1 where dv: "resolveDevice S c (u_ID u) sc s = (Inr (dv, token), s1)"
    and admit: "admit_device S c u sc (dv, token) s1 = (Inr res, s')"
    using rest by (auto simp: prog_simps)
  have "sr_User res = u" "sr_Device res = dv" "\<not> DeviceIsRevoked dv"
    "sr_Challenged res \<longleftrightarrow> u_TwoFactorEnabled u \<and> \<not> DeviceIsTrusted dv"
    using admit by (auto simp: admit_device_def prog_simps Let_def split: if_splits)
  then show ?thesis
    using u by_email[OF assms(1) u(1)] compareHash_ok[OF u(2)] resolved_device[OF assms(1) dv]
    by (intro exI[of _ u]) auto
qed

section \<open>The second factor\<close>

lemma spend_challenge_ok:
  assumes "spend_challenge S c u0 dv0 sc ch now s = (Inr (u, dv), s')"
  obtains s1 where "u = u0" "ur_ConsumeTwoFactorChallenge (vs_repo S) c (tc_ID ch) (dv_ID dv0) now s = (Inr (), s1)"
    "recordLogin S c (u_ID u0) (Some (dv_ID dv0)) sc OutcomeSuccess s1 = (Inr (), s')"
    "ur_ActiveDevice (vs_repo S) (u_ID u0) (dv_ID dv0) s' = Inr dv"
proof -
  obtain s1 s2 where s: "ur_ConsumeTwoFactorChallenge (vs_repo S) c (tc_ID ch) (dv_ID dv0) now s = (Inr (), s1)"
    "recordLogin S c (u_ID u0) (Some (dv_ID dv0)) sc OutcomeSuccess s1 = (Inr (), s2)"
    "(case ur_ActiveDevice (vs_repo S) (u_ID u0) (dv_ID dv0) s2 of
        Inl e \<Rightarrow> if e = user_not_found then refuse (UserErr UserErrDeviceRevoked) else refuse e
      | Inr trusted \<Rightarrow> ok (u0, trusted)) s2 = (Inr (u, dv), s')"
    using assms by (auto simp: spend_challenge_def call_simps)
  then show thesis
    by (cases "ur_ActiveDevice (vs_repo S) (u_ID u0) (dv_ID dv0) s2")
      (auto simp: call_simps split: if_splits intro: that)
qed

lemma VerifyTwoFactor_granted:
  assumes "wf s" "VerifyTwoFactor S c email code sc s = (Inr (u, dv), s')"
  shows "account s (u_ID u) = Some u \<and> u_Email u = NormalizeEmail (vs_libs S) email \<and> \<not> UserIsSuspended u \<and>
    (\<exists>dv0 ch ch'. device s (dv_ID dv0) = Some dv0 \<and> dv_UserID dv0 = u_ID u \<and> \<not> DeviceIsRevoked dv0 \<and>
       dv_Fingerprint dv0 = deviceFingerprint (sc_DeviceToken sc) \<and>
       challenge s (tc_ID ch) = Some ch \<and> tc_UserID ch = u_ID u \<and> tc_DeviceID ch = dv_ID dv0 \<and>
       tc_ConsumedAt ch = None \<and> c_now c ClockService < tc_ExpiresAt ch \<and>
       tc_CodeHash ch = hashCode S purposeTwoFactor (u_ID u) code \<and>
       challenge s' (tc_ID ch) = Some ch' \<and> tc_ConsumedAt ch' \<noteq> None \<and>
       device s' (dv_ID dv0) = Some dv \<and> dv_UserID dv = u_ID u \<and> DeviceIsTrusted dv)"
proof -
  let ?now = "c_now c ClockService"
  obtain dv0 ch where u: "ur_ByEmail (vs_repo S) (NormalizeEmail (vs_libs S) email) s = Inr u" "\<not> UserIsSuspended u"
    and dv0: "ur_DeviceByFingerprint (vs_repo S) (u_ID u) (deviceFingerprint (sc_DeviceToken sc)) s = Inr dv0"
      "\<not> DeviceIsRevoked dv0"
    and ch: "ur_ActiveTwoFactorChallenge (vs_repo S) (u_ID u) ?now s = Inr ch" "tc_DeviceID ch = dv_ID dv0"
      "tc_CodeHash ch = hashCode S purposeTwoFactor (u_ID u) code"
    and spend: "spend_challenge S c u dv0 sc ch ?now s = (Inr (u, dv), s')"
    using assms(2)
    by (auto simp: VerifyTwoFactor_def call_simps Let_def
        elim: spend_challenge_ok)
  obtain s1 where s1: "ur_ConsumeTwoFactorChallenge (vs_repo S) c (tc_ID ch) (dv_ID dv0) ?now s = (Inr (), s1)"
    and s2: "recordLogin S c (u_ID u) (Some (dv_ID dv0)) sc OutcomeSuccess s1 = (Inr (), s')"
    and last: "ur_ActiveDevice (vs_repo S) (u_ID u) (dv_ID dv0) s' = Inr dv"
    using spend by (rule spend_challenge_ok)
  note spent = challenge_spent[OF assms(1) s1]
  note kept = logged[OF conjunct1[OF spent] s2[unfolded recordLogin_def]]
  have "DeviceIsTrusted dv"
    using spent kept active_device[OF conjunct1[OF kept] last]
    by (auto simp: DeviceIsTrusted_def DeviceIsRevoked_def)
  moreover obtain ch' where "challenge s' (tc_ID ch) = Some ch'" "tc_ConsumedAt ch' \<noteq> None"
    using spent kept by auto
  ultimately show ?thesis
    using u by_email[OF assms(1) u(1)] device_found[OF assms(1) dv0(1)] dv0(2) challenge_found[OF assms(1) ch(1)]
      ch(2,3) active_device[OF conjunct1[OF kept] last]
    by (intro conjI exI[of _ dv0] exI[of _ ch] exI[of _ ch']) simp_all
qed

section \<open>Passwords and addresses\<close>

lemma hashedPassword_ok: "hashedPassword S c k pw = Inr h \<Longrightarrow> bc_Generate (vs_libs S) (c_salt c) pw (vs_cost S) = Inr h"
  by (auto simp: hashedPassword_def hashPassword_def split: sum.splits bcrypt_error.splits)

lemma requireMatchingPassword_ok:
  "requireMatchingPassword pw confirm = Inr x \<longleftrightarrow> confirm = pw \<and> MinPasswordLength \<le> length pw"
  by (auto simp: requireMatchingPassword_def)

lemma ChangePassword_effect:
  assumes "wf s" "ChangePassword S c k current pw confirm s = (Inr (), s')"
  shows "\<exists>u h. account s k = Some u \<and> bc_Compare (vs_libs S) (u_PasswordHash u) current \<and>
    confirm = pw \<and> MinPasswordLength \<le> length pw \<and> bc_Generate (vs_libs S) (c_salt c) pw (vs_cost S) = Inr h \<and>
    account s' = (account s)(k \<mapsto> u\<lparr>u_PasswordHash := h, u_SessionEpoch := u_SessionEpoch u + 1\<rparr>)"
proof -
  obtain u x h where u: "account s k = Some u" "compareHash S c 0 (u_PasswordHash u) current = Inr x"
    "requireMatchingPassword pw confirm = Inr ()" "hashedPassword S c 2 pw = Inr h"
    and set: "ur_SetPassword (vs_repo S) k h s = (Inr (), s')"
    using assms(2) by_id[OF assms(1), of k]
    by (auto simp: ChangePassword_def call_simps split: option.split_asm)
  show ?thesis
    using u compareHash_ok[OF u(2)] hashedPassword_ok[OF u(4)] password_set[OF assms(1) u(1) set]
    by (intro exI[of _ u] exI[of _ h]) (simp add: requireMatchingPassword_ok)
qed

lemma CompletePasswordReset_effect:
  assumes "wf s" "CompletePasswordReset S c email code pw confirm s = (Inr (), s')"
  shows "\<exists>u r r' h. account s (u_ID u) = Some u \<and> u_Email u = NormalizeEmail (vs_libs S) email \<and>
    reset s (pr_ID r) = Some r \<and> pr_UserID r = u_ID u \<and> pr_ConsumedAt r = None \<and>
    c_now c ClockService < pr_ExpiresAt r \<and> pr_CodeHash r = hashCode S purposeReset (u_ID u) code \<and>
    confirm = pw \<and> MinPasswordLength \<le> length pw \<and> bc_Generate (vs_libs S) (c_salt c) pw (vs_cost S) = Inr h \<and>
    account s' = (account s)(u_ID u \<mapsto> u\<lparr>u_PasswordHash := h, u_SessionEpoch := u_SessionEpoch u + 1\<rparr>) \<and>
    reset s' (pr_ID r) = Some r' \<and> pr_ConsumedAt r' \<noteq> None \<and> (\<forall>j. j \<noteq> pr_ID r \<longrightarrow> reset s' j = reset s j)"
proof -
  let ?now = "c_now c ClockService"
  obtain u r h where req: "requireMatchingPassword pw confirm = Inr ()"
    and u: "ur_ByEmail (vs_repo S) (NormalizeEmail (vs_libs S) email) s = Inr u"
    and r: "ur_ActivePasswordReset (vs_repo S) (u_ID u) ?now s = Inr r"
      "pr_CodeHash r = hashResetCode S (u_ID u) code"
    and h: "hashedPassword S c 0 pw = Inr h"
    and set: "ur_ConsumePasswordReset (vs_repo S) (r\<lparr>pr_ConsumedAt := Some ?now\<rparr>) h s = (Inr (), s')"
    using assms(2) by (auto simp: CompletePasswordReset_def call_simps Let_def)
  have "account s (u_ID u) = Some u" "u_Email u = NormalizeEmail (vs_libs S) email"
    using by_email[OF assms(1) u] by simp_all
  moreover have "reset s (pr_ID r) = Some r" "pr_UserID r = u_ID u" "pr_ConsumedAt r = None" "?now < pr_ExpiresAt r"
    using reset_found[OF assms(1) r(1)] by simp_all
  moreover from calculation obtain r' where
    "account s' = (account s)(u_ID u \<mapsto> u\<lparr>u_PasswordHash := h, u_SessionEpoch := u_SessionEpoch u + 1\<rparr>)"
    "reset s' (pr_ID r) = Some r'" "pr_ConsumedAt r' = Some ?now" "\<forall>j. j \<noteq> pr_ID r \<longrightarrow> reset s' j = reset s j"
    using reset_spent[OF assms(1) _ _ _ set, of u r] by fastforce
  ultimately show ?thesis
    using req r(2) hashedPassword_ok[OF h]
    by (intro exI[of _ u] exI[of _ r] exI[of _ r'] exI[of _ h]) (simp add: requireMatchingPassword_ok hashResetCode_def)
qed

lemma ConfirmEmailChange_effect:
  assumes "wf s" "account s k = Some u" "ConfirmEmailChange S c k code s = (Inr (), s')"
  shows "\<exists>ec ec'. change s (ec_ID ec) = Some ec \<and> ec_UserID ec = k \<and> ec_ConsumedAt ec = None \<and>
    c_now c ClockService < ec_ExpiresAt ec \<and> ec_CodeHash ec = hashCode S purposeEmailChange k code \<and>
    account s' = (account s)(k \<mapsto> u\<lparr>u_Email := ec_NewEmail ec\<rparr>) \<and>
    (\<forall>j v. account s j = Some v \<longrightarrow> u_Email v = ec_NewEmail ec \<longrightarrow> j = k) \<and>
    change s' (ec_ID ec) = Some ec' \<and> ec_ConsumedAt ec' \<noteq> None"
proof -
  let ?now = "c_now c ClockService"
  obtain ec where ec: "ur_ActiveEmailChange (vs_repo S) k ?now s = Inr ec"
    "ec_CodeHash ec = hashCode S purposeEmailChange k code"
    and set: "ur_ConsumeEmailChange (vs_repo S) (ec\<lparr>ec_ConsumedAt := Some ?now\<rparr>) (ec_NewEmail ec) s = (Inr (), s')"
    using assms(3) by (auto simp: ConfirmEmailChange_def call_simps Let_def)
  note found = change_found[OF assms(1) ec(1)]
  have "account s (ec_UserID (ec\<lparr>ec_ConsumedAt := Some ?now\<rparr>)) = Some u"
    "change s (ec_ID (ec\<lparr>ec_ConsumedAt := Some ?now\<rparr>)) = Some ec"
    using found assms(2) by simp_all
  from change_spent[OF assms(1) this _ set] obtain ec' where
    "account s' = (account s)(k \<mapsto> u\<lparr>u_Email := ec_NewEmail ec\<rparr>)"
    "\<forall>j v. account s j = Some v \<longrightarrow> u_Email v = ec_NewEmail ec \<longrightarrow> j = k"
    "change s' (ec_ID ec) = Some ec'" "ec_ConsumedAt ec' = Some ?now"
    using found by auto
  then show ?thesis using found ec(2) by (intro exI[of _ ec] exI[of _ ec']) simp
qed

text \<open>A borrowed session is not enough: these ask for the password first.\<close>

lemma password_needed:
  assumes "wf s" "account s k = Some u" "\<not> bc_Compare (vs_libs S) (u_PasswordHash u) pw"
  shows "\<exists>e. ChangePassword S c k pw new confirm s = (Inl e, s)"
    and "\<exists>e. BeginEmailChange S c k email pw s = (Inl e, s)"
    and "\<exists>e. SetTwoFactor S c k pw enabled sc s = (Inl e, s)"
proof -
  have "ur_ByID (vs_repo S) k s = Inr u" using by_id[OF assms(1), of k] assms(2) by simp
  moreover obtain e where "compareHash S c 0 (u_PasswordHash u) pw = Inl e"
    using assms(3) by (cases "acquire c 0") (auto simp: compareHash_def)
  ultimately show "\<exists>e. ChangePassword S c k pw new confirm s = (Inl e, s)"
    "\<exists>e. BeginEmailChange S c k email pw s = (Inl e, s)" "\<exists>e. SetTwoFactor S c k pw enabled sc s = (Inl e, s)"
    by (simp_all add: ChangePassword_def BeginEmailChange_def SetTwoFactor_def prog_defs Let_def)
qed

end

end
