(* ===== verification/Users_Steps.thy ===== *)
theory Users_Steps
  imports Memory_Users User_Service Runs
begin

text \<open>
  The step relation of the account store: one rule per mutating call the account service makes,
  under the facts the service guarantees (new rows are unconsumed, identifiers are drawn fresh, the
  attempt caps are the service's). Runs of it are the behaviours of any number of requests whose
  store calls interleave. The flag says whether calls on an account that is already
  deleted are among them.
\<close>

definition live_user :: "Users \<Rightarrow> uuid \<Rightarrow> bool" where
  "live_user m userID \<longleftrightarrow> (\<exists>u. map_of (us_users m) userID = Some u \<and> \<not> UserIsDeleted u)"

inductive user_step :: "bool \<Rightarrow> Users \<Rightarrow> Users \<Rightarrow> bool" for stale where
  Create:
    "u_ID u = uuid_Nil \<Longrightarrow> u_DeletedAt u = None \<Longrightarrow> map_of (us_users m) (c_newID c DrawUser) = None \<Longrightarrow>
       user_step stale m (snd (UsersCreate c u m))"
| Delete: "stale \<or> live_user m userID \<Longrightarrow> user_step stale m (snd (UsersDelete c userID m))"
| UpdateProfile: "user_step stale m (snd (UsersUpdateProfile userID name locale m))"
| SetPassword: "user_step stale m (snd (UsersSetPassword userID hash m))"
| BumpSessionEpoch: "user_step stale m (snd (UsersBumpSessionEpoch userID m))"
| SetSuspended: "user_step stale m (snd (UsersSetSuspended userID at m))"
| SetTwoFactorEnabled: "user_step stale m (snd (UsersSetTwoFactorEnabled userID enabled m))"
| ReplacePasswordReset:
    "pr_ID reset = uuid_Nil \<Longrightarrow> pr_ConsumedAt reset = None \<Longrightarrow> pr_Attempts reset = 0 \<Longrightarrow>
     map_of (us_resets m) (c_newID c DrawCode) = None \<Longrightarrow>
       user_step stale m (snd (UsersReplacePasswordReset c reset m))"
| FailPasswordReset: "user_step stale m (snd (UsersFailPasswordReset resetID resetMaxAttempts now m))"
| ConsumePasswordReset:
    "pr_ConsumedAt reset \<noteq> None \<Longrightarrow> user_step stale m (snd (UsersConsumePasswordReset reset hash m))"
| ReplaceEmailChange:
    "ec_ID change = uuid_Nil \<Longrightarrow> ec_ConsumedAt change = None \<Longrightarrow> ec_Attempts change = 0 \<Longrightarrow>
     map_of (us_emailChg m) (c_newID c DrawCode) = None \<Longrightarrow>
       user_step stale m (snd (UsersReplaceEmailChange c change m))"
| FailEmailChange: "user_step stale m (snd (UsersFailEmailChange changeID emailChangeMaxAttempts now m))"
| ConsumeEmailChange:
    "ec_ConsumedAt change \<noteq> None \<Longrightarrow> stale \<or> live_user m (ec_UserID change) \<Longrightarrow>
       user_step stale m (snd (UsersConsumeEmailChange change email m))"
| CreateDevice:
    "dv_ID d = uuid_Nil \<Longrightarrow> dv_TrustedAt d = None \<Longrightarrow> dv_RevokedAt d = None \<Longrightarrow>
     map_of (us_devices m) (c_newID c DrawDevice) = None \<Longrightarrow>
       user_step stale m (snd (UsersCreateDevice c d m))"
| TouchDevice: "user_step stale m (snd (UsersTouchDevice deviceID seenAt ip userAgent m))"
| TrustDevice: "user_step stale m (snd (UsersTrustDevice c deviceID m))"
| RevokeDevice: "user_step stale m (snd (UsersRevokeDevice c userID deviceID m))"
| RecordLoginEvent: "user_step stale m (snd (UsersRecordLoginEvent c event m))"
| ReplaceTwoFactorChallenge:
    "tc_ID challenge = uuid_Nil \<Longrightarrow> tc_ConsumedAt challenge = None \<Longrightarrow> tc_Attempts challenge = 0 \<Longrightarrow>
     map_of (us_challenges m) (c_newID c DrawCode) = None \<Longrightarrow>
       user_step stale m (snd (UsersReplaceTwoFactorChallenge c challenge m))"
| FailTwoFactorChallenge:
    "user_step stale m (snd (UsersFailTwoFactorChallenge challengeID twoFactorMaxAttempts now m))"
| ConsumeTwoFactorChallenge:
    "user_step stale m (snd (UsersConsumeTwoFactorChallenge c challengeID deviceID at m))"

section \<open>The invariant\<close>

definition user_tables_ok :: "Users \<Rightarrow> bool" where
  "user_tables_ok m \<longleftrightarrow>
     rows_ok u_ID (us_users m) \<and> rows_ok pr_ID (us_resets m) \<and> rows_ok ec_ID (us_emailChg m) \<and>
     rows_ok dv_ID (us_devices m) \<and> rows_ok tc_ID (us_challenges m) \<and> adistinct (us_byEmail m)"

text \<open>An entry of the address index names an account that has the address.\<close>

definition index_sound :: "Users \<Rightarrow> bool" where
  "index_sound m \<longleftrightarrow> (\<forall>email userID. map_of (us_byEmail m) email = Some userID \<longrightarrow>
     (\<exists>u. map_of (us_users m) userID = Some u \<and> u_Email u = email))"

text \<open>A live account is what the index has under its address, so no two share one.\<close>

definition index_complete :: "Users \<Rightarrow> bool" where
  "index_complete m \<longleftrightarrow> (\<forall>userID u. map_of (us_users m) userID = Some u \<longrightarrow> \<not> UserIsDeleted u \<longrightarrow>
     map_of (us_byEmail m) (u_Email u) = Some userID)"

text \<open>A code that can still be tried has tries left, and a revoked device is not trusted.\<close>

definition codes_capped :: "Users \<Rightarrow> bool" where
  "codes_capped m \<longleftrightarrow>
     (\<forall>k r. map_of (us_resets m) k = Some r \<longrightarrow> pr_ConsumedAt r = None \<longrightarrow>
        0 \<le> pr_Attempts r \<and> pr_Attempts r < resetMaxAttempts) \<and>
     (\<forall>k r. map_of (us_emailChg m) k = Some r \<longrightarrow> ec_ConsumedAt r = None \<longrightarrow>
        0 \<le> ec_Attempts r \<and> ec_Attempts r < emailChangeMaxAttempts) \<and>
     (\<forall>k r. map_of (us_challenges m) k = Some r \<longrightarrow> tc_ConsumedAt r = None \<longrightarrow>
        0 \<le> tc_Attempts r \<and> tc_Attempts r < twoFactorMaxAttempts)"

definition devices_ok :: "Users \<Rightarrow> bool" where
  "devices_ok m \<longleftrightarrow> (\<forall>k d. map_of (us_devices m) k = Some d \<longrightarrow> DeviceIsRevoked d \<longrightarrow> dv_TrustedAt d = None)"

text \<open>An account has at most one code of each kind that can still be tried.\<close>

definition one_open :: "('v \<Rightarrow> uuid) \<Rightarrow> ('v \<Rightarrow> time option) \<Rightarrow> (uuid, 'v) amap \<Rightarrow> bool" where
  "one_open owner consumed m \<longleftrightarrow>
     (\<forall>j k v w. map_of m j = Some v \<longrightarrow> map_of m k = Some w \<longrightarrow> owner v = owner w \<longrightarrow>
        consumed v = None \<longrightarrow> consumed w = None \<longrightarrow> j = k)"

definition open_codes_ok :: "Users \<Rightarrow> bool" where
  "open_codes_ok m \<longleftrightarrow> one_open pr_UserID pr_ConsumedAt (us_resets m) \<and>
     one_open ec_UserID ec_ConsumedAt (us_emailChg m) \<and> one_open tc_UserID tc_ConsumedAt (us_challenges m)"

definition users_wf :: "Users \<Rightarrow> bool" where
  "users_wf m \<longleftrightarrow> user_tables_ok m \<and> index_sound m \<and> codes_capped m \<and> devices_ok m \<and> open_codes_ok m"

lemma users_wfD:
  assumes "users_wf m"
  shows "rows_ok u_ID (us_users m)" "rows_ok pr_ID (us_resets m)" "rows_ok ec_ID (us_emailChg m)"
    "rows_ok dv_ID (us_devices m)" "rows_ok tc_ID (us_challenges m)" "adistinct (us_byEmail m)"
    "index_sound m" "codes_capped m" "devices_ok m" "open_codes_ok m"
  using assms by (simp_all add: users_wf_def user_tables_ok_def)

lemma users_wf_new: "users_wf NewUsers" "index_complete NewUsers"
  by (simp_all add: users_wf_def user_tables_ok_def index_sound_def codes_capped_def devices_ok_def
      open_codes_ok_def one_open_def index_complete_def NewUsers_def)

lemmas attempt_caps = resetMaxAttempts_def emailChangeMaxAttempts_def twoFactorMaxAttempts_def

lemmas users_step_simps = ok_def refuse_def Let_def with_user_def amap_simps

text \<open>The definitions of the store's calls, by the tables they write.\<close>

lemmas account_ops = UsersCreate_def UsersDelete_def UsersUpdateProfile_def UsersSetPassword_def
  UsersBumpSessionEpoch_def UsersSetSuspended_def UsersSetTwoFactorEnabled_def

lemmas code_ops = UsersReplacePasswordReset_def UsersFailPasswordReset_def UsersConsumePasswordReset_def
  UsersReplaceEmailChange_def UsersFailEmailChange_def UsersConsumeEmailChange_def
  UsersReplaceTwoFactorChallenge_def UsersFailTwoFactorChallenge_def UsersConsumeTwoFactorChallenge_def
  fail_reset_def fail_change_def fail_challenge_def

lemmas device_ops = UsersCreateDevice_def UsersTouchDevice_def UsersTrustDevice_def UsersRevokeDevice_def
  UsersRecordLoginEvent_def DeviceTrust_def DeviceRevoke_def

lemma UserDelete_ok: "UserDelete now u = Inr u' \<longleftrightarrow> \<not> u_IsProtected u \<and> u' = u\<lparr>u_DeletedAt := Some now\<rparr>"
  by (auto simp: UserDelete_def UserRefuseIfProtected_def)

lemma revoke_all_of_rows:
  "revoke_all_of now userID devices =
     map (\<lambda>(k, d). (k, if dv_UserID d = userID \<and> \<not> DeviceIsRevoked d
        then d\<lparr>dv_RevokedAt := Some now, dv_TrustedAt := None\<rparr> else d)) devices"
  by (auto simp: revoke_all_of_def DeviceRevoke_def)

section \<open>Every step keeps it\<close>

lemma step_tables: "user_step stale m m' \<Longrightarrow> user_tables_ok m \<Longrightarrow> user_tables_ok m'"
proof (induction rule: user_step.induct)
  case (Delete m userID c)
  then show ?case
    by (auto simp: user_tables_ok_def UsersDelete_def users_step_simps UserDelete_ok revoke_all_of_rows
        split: option.splits sum.splits intro!: rows_ok_update rows_ok_map dest: rows_ok_id)
qed (auto simp: user_tables_ok_def account_ops code_ops device_ops users_step_simps
    split: option.splits sum.splits if_splits intro!: rows_ok_update rows_ok_filter dest: rows_ok_id)

text \<open>
  What the address index is about: who has which address, and who is deleted. Three calls
  change it; all others leave it as it was.
\<close>

definition address_of :: "Users \<Rightarrow> uuid \<Rightarrow> (string \<times> bool) option" where
  "address_of m k = map_option (\<lambda>u. (u_Email u, UserIsDeleted u)) (map_of (us_users m) k)"

definition same_addresses :: "Users \<Rightarrow> Users \<Rightarrow> bool" where
  "same_addresses m m' \<longleftrightarrow> us_byEmail m' = us_byEmail m \<and> address_of m' = address_of m"

lemma index_sound_iff:
  "index_sound m \<longleftrightarrow> (\<forall>email userID. map_of (us_byEmail m) email = Some userID \<longrightarrow>
     (\<exists>deleted. address_of m userID = Some (email, deleted)))"
  by (auto simp: index_sound_def address_of_def)

lemma index_complete_iff:
  "index_complete m \<longleftrightarrow> (\<forall>userID email. address_of m userID = Some (email, False) \<longrightarrow>
     map_of (us_byEmail m) email = Some userID)"
  by (auto simp: index_complete_def address_of_def)

lemma same_addresses_index:
  "same_addresses m m' \<Longrightarrow> index_sound m' = index_sound m"
  "same_addresses m m' \<Longrightarrow> index_complete m' = index_complete m"
  by (simp_all add: same_addresses_def index_sound_iff index_complete_iff)

lemma same_addresses_other:
  "us_byEmail m' = us_byEmail m \<Longrightarrow> us_users m' = us_users m \<Longrightarrow> same_addresses m m'"
  by (simp add: same_addresses_def address_of_def fun_eq_iff)

lemma Create_index:
  assumes "map_of (us_users m) (c_newID c DrawUser) = None" "u_ID u = uuid_Nil" "u_DeletedAt u = None"
  shows "index_sound m \<Longrightarrow> index_sound (snd (UsersCreate c u m))"
    and "index_complete m \<Longrightarrow> index_complete (snd (UsersCreate c u m))"
  using assms
  by (fastforce simp: index_sound_def UsersCreate_def users_step_simps)
    (fastforce simp: index_complete_def UsersCreate_def users_step_simps)

lemma Delete_address:
  assumes "UsersDelete c userID m = (Inr x, m')"
  obtains u where "map_of (us_users m) userID = Some u" "us_byEmail m' = AList.delete (u_Email u) (us_byEmail m)"
    "address_of m' = (address_of m)(userID \<mapsto> (u_Email u, True))"
proof -
  obtain u u' where "map_of (us_users m) userID = Some u" "UserDelete (c_now c ClockRow) u = Inr u'"
    "us_byEmail m' = AList.delete (u_Email u) (us_byEmail m)" "us_users m' = AList.update userID u' (us_users m)"
    using assms by (auto simp: UsersDelete_def ok_def refuse_def split: option.splits sum.splits)
  then show thesis
    by (intro that[of u]) (auto simp: UserDelete_ok address_of_def UserIsDeleted_def amap_simps fun_eq_iff)
qed

lemma Delete_refused: "UsersDelete c userID m = (Inl e, m') \<Longrightarrow> m' = m"
  by (auto simp: UsersDelete_def ok_def refuse_def split: option.splits sum.splits)

lemma Delete_index:
  shows "index_sound m \<Longrightarrow> index_sound (snd (UsersDelete c userID m))"
    and "index_complete m \<Longrightarrow> live_user m userID \<Longrightarrow> index_complete (snd (UsersDelete c userID m))"
proof -
  obtain r m' where r: "UsersDelete c userID m = (r, m')" by force
  show "index_sound (snd (UsersDelete c userID m))" if "index_sound m"
  proof (cases r)
    case (Inr x)
    then obtain u where u: "map_of (us_users m) userID = Some u"
      "us_byEmail m' = AList.delete (u_Email u) (us_byEmail m)"
      "address_of m' = (address_of m)(userID \<mapsto> (u_Email u, True))"
      using Delete_address r by blast
    have "u_Email u = email" if "map_of (us_byEmail m) email = Some userID" for email
      using \<open>index_sound m\<close> that u(1) by (fastforce simp: index_sound_def)
    then show ?thesis using r u that by (auto simp: index_sound_iff amap_simps)
  qed (use r that in \<open>auto dest: Delete_refused\<close>)
  show "index_complete (snd (UsersDelete c userID m))" if "index_complete m" "live_user m userID"
  proof (cases r)
    case (Inr x)
    then obtain u where u: "map_of (us_users m) userID = Some u"
      "us_byEmail m' = AList.delete (u_Email u) (us_byEmail m)"
      "address_of m' = (address_of m)(userID \<mapsto> (u_Email u, True))"
      using Delete_address r by blast
    then have "map_of (us_byEmail m) (u_Email u) = Some userID"
      using that by (auto simp: index_complete_def live_user_def)
    then have "k = userID" if "address_of m k = Some (u_Email u, False)" for k
      using that \<open>index_complete m\<close> by (auto simp: index_complete_iff)
    then show ?thesis using r u that(1) by (fastforce simp: index_complete_iff amap_simps)
  qed (use r that in \<open>auto dest: Delete_refused\<close>)
qed

lemma ConsumeEmailChange_address:
  assumes "rows_ok u_ID (us_users m)" "UsersConsumeEmailChange change email m = (Inr x, m')"
  obtains u where "map_of (us_users m) (ec_UserID change) = Some u"
    "\<And>k. map_of (us_byEmail m) email = Some k \<Longrightarrow> k = ec_UserID change"
    "map_of (us_byEmail m') = ((map_of (us_byEmail m))(u_Email u := None))(email \<mapsto> ec_UserID change)"
    "address_of m' = (address_of m)(ec_UserID change \<mapsto> (email, UserIsDeleted u))"
proof -
  obtain u where u: "map_of (us_users m) (ec_UserID change) = Some u"
    using assms(2) by (auto simp: UsersConsumeEmailChange_def ok_def refuse_def split: option.splits)
  then have "u_ID u = ec_UserID change" using assms(1) rows_ok_id by fast
  then show thesis using u assms(2)
    by (intro that[of u])
      (auto simp: UsersConsumeEmailChange_def users_step_simps address_of_def UserIsDeleted_def fun_eq_iff
        split: option.splits if_splits)
qed

lemma ConsumeEmailChange_refused: "UsersConsumeEmailChange change email m = (Inl e, m') \<Longrightarrow> m' = m"
  by (auto simp: UsersConsumeEmailChange_def ok_def refuse_def Let_def split: option.splits if_splits)

lemma ConsumeEmailChange_index:
  assumes rows: "rows_ok u_ID (us_users m)"
  shows "index_sound m \<Longrightarrow> index_sound (snd (UsersConsumeEmailChange change email m))"
    and "index_complete m \<Longrightarrow> live_user m (ec_UserID change) \<Longrightarrow>
      index_complete (snd (UsersConsumeEmailChange change email m))"
proof -
  obtain r m' where r: "UsersConsumeEmailChange change email m = (r, m')" by force
  show "index_sound (snd (UsersConsumeEmailChange change email m))" if sound: "index_sound m"
  proof (cases r)
    case (Inr x)
    then obtain u where u: "map_of (us_users m) (ec_UserID change) = Some u"
      "map_of (us_byEmail m') = ((map_of (us_byEmail m))(u_Email u := None))(email \<mapsto> ec_UserID change)"
      "address_of m' = (address_of m)(ec_UserID change \<mapsto> (email, UserIsDeleted u))"
      using ConsumeEmailChange_address[OF rows] r by blast
    have "e = u_Email u" if "map_of (us_byEmail m) e = Some (ec_UserID change)" for e
      using sound that u(1) by (fastforce simp: index_sound_def)
    then show ?thesis using r u(2,3) sound by (auto simp: index_sound_iff)
  qed (use r sound in \<open>auto dest: ConsumeEmailChange_refused\<close>)
  show "index_complete (snd (UsersConsumeEmailChange change email m))"
    if complete: "index_complete m" and live: "live_user m (ec_UserID change)"
  proof (cases r)
    case (Inr x)
    then obtain u where u: "map_of (us_users m) (ec_UserID change) = Some u"
      and free: "\<And>k. map_of (us_byEmail m) email = Some k \<Longrightarrow> k = ec_UserID change"
      and m': "map_of (us_byEmail m') = ((map_of (us_byEmail m))(u_Email u := None))(email \<mapsto> ec_UserID change)"
        "address_of m' = (address_of m)(ec_UserID change \<mapsto> (email, UserIsDeleted u))"
      using ConsumeEmailChange_address[OF rows] r by blast
    have own: "map_of (us_byEmail m) (u_Email u) = Some (ec_UserID change)"
      using complete live u by (auto simp: index_complete_def live_user_def)
    have "map_of (us_byEmail m') e = Some k" if "address_of m' k = Some (e, False)" for k e
    proof (cases "k = ec_UserID change")
      case True
      then show ?thesis using that m' by simp
    next
      case False
      then have "map_of (us_byEmail m) e = Some k" using that m'(2) complete by (auto simp: index_complete_iff)
      then show ?thesis using False m'(1) own free by auto
    qed
    then show ?thesis using r by (simp add: index_complete_iff)
  qed (use r complete in \<open>auto dest: ConsumeEmailChange_refused\<close>)
qed

text \<open>The calls that do not touch addresses.\<close>

lemma with_user_addresses:
  "(\<And>u. u_Email (f u) = u_Email u \<and> u_DeletedAt (f u) = u_DeletedAt u) \<Longrightarrow>
     same_addresses m (snd (with_user hidden f k m))"
  by (auto simp: same_addresses_def address_of_def UserIsDeleted_def users_step_simps fun_eq_iff
      split: option.splits)

lemma ConsumePasswordReset_addresses: "same_addresses m (snd (UsersConsumePasswordReset reset hash m))"
  by (auto simp: same_addresses_def address_of_def UserIsDeleted_def UsersConsumePasswordReset_def
      users_step_simps fun_eq_iff split: option.splits)

lemma code_op_addresses:
  "same_addresses m (snd (UsersReplacePasswordReset c reset m))"
  "same_addresses m (snd (UsersFailPasswordReset k cap now m))"
  "same_addresses m (snd (UsersReplaceEmailChange c change m))"
  "same_addresses m (snd (UsersFailEmailChange k cap now m))"
  "same_addresses m (snd (UsersReplaceTwoFactorChallenge c challenge m))"
  "same_addresses m (snd (UsersFailTwoFactorChallenge k cap now m))"
  "same_addresses m (snd (UsersConsumeTwoFactorChallenge c k deviceID now m))"
  by (rule same_addresses_other; simp add: code_ops ok_def refuse_def Let_def split: option.splits sum.splits)+

lemma device_op_addresses:
  "same_addresses m (snd (UsersCreateDevice c d m))"
  "same_addresses m (snd (UsersTouchDevice k now ip agent m))"
  "same_addresses m (snd (UsersTrustDevice c k m))"
  "same_addresses m (snd (UsersRevokeDevice c userID k m))"
  "same_addresses m (snd (UsersRecordLoginEvent c event m))"
  by (rule same_addresses_other; simp add: device_ops ok_def refuse_def Let_def split: option.splits sum.splits)+

lemma account_op_addresses:
  "same_addresses m (snd (UsersUpdateProfile k name locale m))"
  "same_addresses m (snd (UsersSetPassword k hash m))"
  "same_addresses m (snd (UsersBumpSessionEpoch k m))"
  "same_addresses m (snd (UsersSetSuspended k at m))"
  "same_addresses m (snd (UsersSetTwoFactorEnabled k enabled m))"
  by (simp_all add: account_ops Let_def with_user_addresses)

lemmas op_addresses = ConsumePasswordReset_addresses code_op_addresses device_op_addresses account_op_addresses

lemma step_addresses:
  "user_step stale m m' \<Longrightarrow>
     (\<exists>c u. u_ID u = uuid_Nil \<and> u_DeletedAt u = None \<and> map_of (us_users m) (c_newID c DrawUser) = None \<and>
        m' = snd (UsersCreate c u m)) \<or>
     (\<exists>c userID. (stale \<or> live_user m userID) \<and> m' = snd (UsersDelete c userID m)) \<or>
     (\<exists>change email. (stale \<or> live_user m (ec_UserID change)) \<and> m' = snd (UsersConsumeEmailChange change email m)) \<or>
     same_addresses m m'"
proof (induction rule: user_step.induct)
  case Create
  then show ?case by blast
next
  case Delete
  then show ?case by blast
next
  case ConsumeEmailChange
  then show ?case by blast
qed (intro disjI2 op_addresses)+

lemma step_index: "user_step stale m m' \<Longrightarrow> user_tables_ok m \<Longrightarrow> index_sound m \<Longrightarrow> index_sound m'"
  using step_addresses[of stale m m'] Create_index(1) Delete_index(1) ConsumeEmailChange_index(1)
    same_addresses_index(1) unfolding user_tables_ok_def by blast

lemma step_codes: "user_step stale m m' \<Longrightarrow> user_tables_ok m \<Longrightarrow> codes_capped m \<Longrightarrow> codes_capped m'"
  by (induction rule: user_step.induct)
    (fastforce simp: codes_capped_def user_tables_ok_def rows_ok_adistinct account_ops code_ops device_ops
      users_step_simps attempt_caps split: option.splits sum.splits if_splits)+

lemma step_devices: "user_step stale m m' \<Longrightarrow> devices_ok m \<Longrightarrow> devices_ok m'"
  by (induction rule: user_step.induct)
    (fastforce simp: devices_ok_def DeviceIsRevoked_def account_ops code_ops device_ops revoke_all_of_rows
      map_of_map users_step_simps split: option.splits sum.splits if_splits)+

lemma one_open_update:
  "one_open owner consumed m \<Longrightarrow> map_of m k = Some v \<Longrightarrow> owner v' = owner v \<Longrightarrow>
     (consumed v' = None \<Longrightarrow> consumed v = None) \<Longrightarrow> one_open owner consumed (AList.update k v' m)"
  unfolding one_open_def amap_simps by (metis fun_upd_apply option.inject)

lemma one_open_replace:
  "one_open owner consumed m \<Longrightarrow> adistinct m \<Longrightarrow>
     one_open owner consumed (AList.update k v
       (filter (\<lambda>(_, w). \<not> (owner w = owner v \<and> consumed w = None)) m))"
  unfolding one_open_def amap_simps map_of_filter_rows
  by (auto split: option.splits if_splits)

lemma replace_codes:
  assumes "open_codes_ok m" "user_tables_ok m"
  shows "open_codes_ok (snd (UsersReplacePasswordReset c reset m))"
    and "open_codes_ok (snd (UsersReplaceEmailChange c change m))"
    and "open_codes_ok (snd (UsersReplaceTwoFactorChallenge c challenge m))"
proof -
  have d: "adistinct (us_resets m)" "adistinct (us_emailChg m)" "adistinct (us_challenges m)"
    using assms(2) by (auto simp: user_tables_ok_def rows_ok_adistinct)
  show "open_codes_ok (snd (UsersReplacePasswordReset c reset m))"
    using one_open_replace[OF _ d(1), of pr_UserID pr_ConsumedAt _ "if pr_ID reset = uuid_Nil then
        reset\<lparr>pr_ID := c_newID c DrawCode\<rparr> else reset"] assms(1)
    by (auto simp: open_codes_ok_def UsersReplacePasswordReset_def ok_def Let_def split: if_splits)
  show "open_codes_ok (snd (UsersReplaceEmailChange c change m))"
    using one_open_replace[OF _ d(2), of ec_UserID ec_ConsumedAt _ "if ec_ID change = uuid_Nil then
        change\<lparr>ec_ID := c_newID c DrawCode\<rparr> else change"] assms(1)
    by (auto simp: open_codes_ok_def UsersReplaceEmailChange_def ok_def Let_def split: if_splits)
  show "open_codes_ok (snd (UsersReplaceTwoFactorChallenge c challenge m))"
    using one_open_replace[OF _ d(3), of tc_UserID tc_ConsumedAt _ "if tc_ID challenge = uuid_Nil then
        challenge\<lparr>tc_ID := c_newID c DrawCode\<rparr> else challenge"] assms(1)
    by (auto simp: open_codes_ok_def UsersReplaceTwoFactorChallenge_def ok_def Let_def split: if_splits)
qed

lemma spend_codes:
  "open_codes_ok m \<Longrightarrow> open_codes_ok (snd (UsersFailPasswordReset k cap now m))"
  "open_codes_ok m \<Longrightarrow> open_codes_ok (snd (UsersFailEmailChange k cap now m))"
  "open_codes_ok m \<Longrightarrow> open_codes_ok (snd (UsersFailTwoFactorChallenge k cap now m))"
  "open_codes_ok m \<Longrightarrow> pr_ConsumedAt reset \<noteq> None \<Longrightarrow> open_codes_ok (snd (UsersConsumePasswordReset reset h m))"
  "open_codes_ok m \<Longrightarrow> ec_ConsumedAt change \<noteq> None \<Longrightarrow> open_codes_ok (snd (UsersConsumeEmailChange change email m))"
  "open_codes_ok m \<Longrightarrow> open_codes_ok (snd (UsersConsumeTwoFactorChallenge c k deviceID now m))"
  by (auto simp: open_codes_ok_def code_ops ok_def refuse_def Let_def split: option.splits sum.splits
      intro!: one_open_update)

lemma same_codes:
  "us_resets m' = us_resets m \<Longrightarrow> us_emailChg m' = us_emailChg m \<Longrightarrow> us_challenges m' = us_challenges m \<Longrightarrow>
     open_codes_ok m' = open_codes_ok m"
  by (simp add: open_codes_ok_def)

lemma step_open_codes: "user_step stale m m' \<Longrightarrow> user_tables_ok m \<Longrightarrow> open_codes_ok m \<Longrightarrow> open_codes_ok m'"
proof (induction rule: user_step.induct)
qed (simp_all add: replace_codes spend_codes, simp_all add: open_codes_ok_def account_ops device_ops with_user_def
    ok_def refuse_def Let_def split: option.split sum.split)

lemma step_users_wf: "user_step stale m m' \<Longrightarrow> users_wf m \<Longrightarrow> users_wf m'"
  using step_tables step_index step_codes step_devices step_open_codes unfolding users_wf_def by blast

lemma steps_users_wf: "(user_step stale)\<^sup>*\<^sup>* m m' \<Longrightarrow> users_wf m \<Longrightarrow> users_wf m'"
  by (rule runs_invariant[where P = users_wf and R = "user_step stale"]) (auto intro: step_users_wf)

section \<open>Addresses stay unique while deleted accounts are left alone\<close>

lemma step_complete:
  "user_step False m m' \<Longrightarrow> user_tables_ok m \<Longrightarrow> index_complete m \<Longrightarrow> index_complete m'"
  using step_addresses[of False m m'] Create_index(2) Delete_index(2) ConsumeEmailChange_index(2)
    same_addresses_index(2) unfolding user_tables_ok_def by blast

lemma steps_complete:
  "(user_step False)\<^sup>*\<^sup>* m m' \<Longrightarrow> users_wf m \<Longrightarrow> index_complete m \<Longrightarrow> index_complete m'"
  using runs_invariant[where P = "\<lambda>m. users_wf m \<and> index_complete m" and R = "user_step False"]
    step_users_wf step_complete users_wf_def by metis

section \<open>What a run only ever moves forward\<close>

text \<open>
  An account's row stays, a deletion is never undone, and its session epoch never goes back; it
  moves on whenever the password changes and whenever the account becomes suspended.
\<close>

definition account_forward :: "User \<Rightarrow> User \<Rightarrow> bool" where
  "account_forward u u' \<longleftrightarrow> u_SessionEpoch u \<le> u_SessionEpoch u' \<and>
     (u_PasswordHash u' \<noteq> u_PasswordHash u \<longrightarrow> u_SessionEpoch u < u_SessionEpoch u') \<and>
     (\<not> UserIsSuspended u \<longrightarrow> UserIsSuspended u' \<longrightarrow> u_SessionEpoch u < u_SessionEpoch u') \<and>
     (UserIsDeleted u \<longrightarrow> UserIsDeleted u')"

text \<open>A device keeps its owner and its fingerprint, and a revocation is never undone.\<close>

definition device_forward :: "Device \<Rightarrow> Device \<Rightarrow> bool" where
  "device_forward d d' \<longleftrightarrow> dv_UserID d' = dv_UserID d \<and> dv_Fingerprint d' = dv_Fingerprint d \<and>
     (DeviceIsRevoked d \<longrightarrow> DeviceIsRevoked d')"

definition rows_forward :: "('v \<Rightarrow> 'v \<Rightarrow> bool) \<Rightarrow> ('k, 'v) amap \<Rightarrow> ('k, 'v) amap \<Rightarrow> bool" where
  "rows_forward Q m m' \<longleftrightarrow> (\<forall>k v. map_of m k = Some v \<longrightarrow> (\<exists>v'. map_of m' k = Some v' \<and> Q v v'))"

lemma account_forward_refl: "account_forward u u"
  by (simp add: account_forward_def)

lemma account_forwardI:
  "u_SessionEpoch u \<le> u_SessionEpoch u' \<Longrightarrow>
     (u_SessionEpoch u = u_SessionEpoch u' \<Longrightarrow> u_PasswordHash u' = u_PasswordHash u) \<Longrightarrow>
     (u_SessionEpoch u = u_SessionEpoch u' \<Longrightarrow> u_SuspendedAt u' \<noteq> None \<Longrightarrow> u_SuspendedAt u \<noteq> None) \<Longrightarrow>
     (u_DeletedAt u \<noteq> None \<Longrightarrow> u_DeletedAt u' \<noteq> None) \<Longrightarrow> account_forward u u'"
  by (auto simp: account_forward_def UserIsSuspended_def UserIsDeleted_def order.order_iff_strict)

lemma device_forwardI:
  "dv_UserID d' = dv_UserID d \<Longrightarrow> dv_Fingerprint d' = dv_Fingerprint d \<Longrightarrow>
     (dv_RevokedAt d \<noteq> None \<Longrightarrow> dv_RevokedAt d' \<noteq> None) \<Longrightarrow> device_forward d d'"
  by (auto simp: device_forward_def DeviceIsRevoked_def)

lemma device_forward_refl: "device_forward d d"
  by (simp add: device_forward_def)

lemma rows_forward_refl: "(\<And>v. Q v v) \<Longrightarrow> rows_forward Q m m"
  by (simp add: rows_forward_def)

lemma rows_forward_update:
  "(\<And>v. Q v v) \<Longrightarrow> (\<And>v. map_of m k = Some v \<Longrightarrow> Q v v') \<Longrightarrow> rows_forward Q m (AList.update k v' m)"
  by (simp add: rows_forward_def amap_simps)

lemma rows_forward_trans:
  assumes "\<And>a b c. Q a b \<Longrightarrow> Q b c \<Longrightarrow> Q a c"
  shows "rows_forward Q a b \<Longrightarrow> rows_forward Q b c \<Longrightarrow> rows_forward Q a c"
  using assms unfolding rows_forward_def by meson

lemma account_forward_trans: "account_forward a b \<Longrightarrow> account_forward b c \<Longrightarrow> account_forward a c"
  unfolding account_forward_def by (metis order.trans order.strict_trans2 order.strict_trans1)

lemma device_forward_trans: "device_forward a b \<Longrightarrow> device_forward b c \<Longrightarrow> device_forward a c"
  by (simp add: device_forward_def)

lemma with_user_forward:
  "(\<And>u. account_forward u (f u)) \<Longrightarrow>
     rows_forward account_forward (us_users m) (us_users (snd (with_user hidden f k m)))"
  by (auto simp: with_user_def ok_def refuse_def account_forward_refl split: option.splits
      intro!: rows_forward_refl rows_forward_update)

text \<open>The three calls outside \<open>with_user\<close> that write accounts; the code and device calls write none.\<close>

lemma account_update [simp]:
  "map_of m k = None \<Longrightarrow> rows_forward account_forward m (AList.update k u' m)"
  "map_of m k = Some u \<Longrightarrow> account_forward u u' \<Longrightarrow> rows_forward account_forward m (AList.update k u' m)"
  by (simp_all add: rows_forward_def amap_simps account_forward_refl)

lemma accounts_same [simp]: "rows_forward account_forward m m"
  by (simp add: rows_forward_refl account_forward_refl)

lemma row_op_accounts:
  "map_of (us_users m) (c_newID c DrawUser) = None \<Longrightarrow> u_ID u = uuid_Nil \<Longrightarrow>
     rows_forward account_forward (us_users m) (us_users (snd (UsersCreate c u m)))"
  "rows_forward account_forward (us_users m) (us_users (snd (UsersDelete c userID m)))"
  "rows_forward account_forward (us_users m) (us_users (snd (UsersConsumePasswordReset reset hash m)))"
  "rows_forward account_forward (us_users m) (us_users (snd (UsersConsumeEmailChange change email m)))"
  by (simp_all add: UsersCreate_def UsersDelete_def UsersConsumePasswordReset_def UsersConsumeEmailChange_def
      UserDelete_ok ok_def refuse_def Let_def split: option.split sum.split)
    (auto intro!: account_update(2) account_forwardI)

lemma account_op_accounts:
  "rows_forward account_forward (us_users m) (us_users (snd (UsersUpdateProfile k name locale m)))"
  "rows_forward account_forward (us_users m) (us_users (snd (UsersSetPassword k hash m)))"
  "rows_forward account_forward (us_users m) (us_users (snd (UsersBumpSessionEpoch k m)))"
  "rows_forward account_forward (us_users m) (us_users (snd (UsersSetTwoFactorEnabled k enabled m)))"
  by (simp_all only: account_ops Let_def) (rule with_user_forward, rule account_forwardI; simp)+

lemma SetSuspended_accounts:
  "rows_forward account_forward (us_users m) (us_users (snd (UsersSetSuspended k at m)))"
  by (simp only: account_ops Let_def, rule with_user_forward, cases at)
    (simp_all add: account_forward_def UserIsSuspended_def UserIsDeleted_def)

lemma code_op_users:
  "us_users (snd (UsersReplacePasswordReset c reset m)) = us_users m"
  "us_users (snd (UsersFailPasswordReset k cap now m)) = us_users m"
  "us_users (snd (UsersReplaceEmailChange c change m)) = us_users m"
  "us_users (snd (UsersFailEmailChange k cap now m)) = us_users m"
  "us_users (snd (UsersReplaceTwoFactorChallenge c challenge m)) = us_users m"
  "us_users (snd (UsersFailTwoFactorChallenge k cap now m)) = us_users m"
  "us_users (snd (UsersConsumeTwoFactorChallenge c k deviceID now m)) = us_users m"
  by (simp_all add: code_ops ok_def refuse_def Let_def split: option.splits sum.splits)

lemma device_op_users:
  "us_users (snd (UsersCreateDevice c d m)) = us_users m"
  "us_users (snd (UsersTouchDevice k now ip agent m)) = us_users m"
  "us_users (snd (UsersTrustDevice c k m)) = us_users m"
  "us_users (snd (UsersRevokeDevice c userID k m)) = us_users m"
  "us_users (snd (UsersRecordLoginEvent c event m)) = us_users m"
  by (simp_all add: device_ops ok_def refuse_def Let_def split: option.splits sum.splits)

lemma step_accounts:
  "user_step stale m m' \<Longrightarrow> rows_forward account_forward (us_users m) (us_users m')"
  by (induction rule: user_step.induct)
    (simp_all add: row_op_accounts account_op_accounts SetSuspended_accounts code_op_users device_op_users
      rows_forward_refl account_forward_refl)

lemma revoke_all_forward: "rows_forward device_forward m (revoke_all_of now userID m)"
  by (auto simp: rows_forward_def revoke_all_of_rows map_of_map device_forward_def DeviceIsRevoked_def)

lemma step_devices_forward:
  "user_step stale m m' \<Longrightarrow> rows_forward device_forward (us_devices m) (us_devices m')"
  by (induction rule: user_step.induct)
    (auto simp: account_ops code_ops device_ops with_user_def ok_def refuse_def Let_def device_forward_refl
      revoke_all_forward split: option.splits sum.splits if_splits
      intro!: rows_forward_refl rows_forward_update device_forwardI)

text \<open>A spent code stays, spent; the codes that are dropped are those that were never used.\<close>

definition spent_forward :: "('v \<Rightarrow> time option) \<Rightarrow> ('k, 'v) amap \<Rightarrow> ('k, 'v) amap \<Rightarrow> bool" where
  "spent_forward consumed m m' \<longleftrightarrow>
     (\<forall>k v. map_of m k = Some v \<longrightarrow> consumed v \<noteq> None \<longrightarrow> (\<exists>v'. map_of m' k = Some v' \<and> consumed v' \<noteq> None))"

definition codes_forward :: "Users \<Rightarrow> Users \<Rightarrow> bool" where
  "codes_forward m m' \<longleftrightarrow>
     spent_forward pr_ConsumedAt (us_resets m) (us_resets m') \<and>
     spent_forward ec_ConsumedAt (us_emailChg m) (us_emailChg m') \<and>
     spent_forward tc_ConsumedAt (us_challenges m) (us_challenges m')"

lemma step_codes_forward: "user_step stale m m' \<Longrightarrow> user_tables_ok m \<Longrightarrow> codes_forward m m'"
  by (induction rule: user_step.induct)
    (auto simp: codes_forward_def spent_forward_def user_tables_ok_def rows_ok_adistinct account_ops code_ops
      device_ops users_step_simps split: option.splits sum.splits if_splits)

lemma codes_forward_trans: "codes_forward a b \<Longrightarrow> codes_forward b c \<Longrightarrow> codes_forward a c"
  unfolding codes_forward_def spent_forward_def by meson

text \<open>The login history only grows.\<close>

lemma step_history: "user_step stale m m' \<Longrightarrow> \<exists>es. us_events m' = us_events m @ es"
  by (induction rule: user_step.induct)
    (auto simp: account_ops code_ops device_ops with_user_def ok_def refuse_def Let_def
      split: option.splits sum.splits)

section \<open>The same of runs\<close>

lemma steps_accounts:
  "(user_step stale)\<^sup>*\<^sup>* m m' \<Longrightarrow> rows_forward account_forward (us_users m) (us_users m')"
  by (rule runs_relation[where Q = "\<lambda>m m'. rows_forward account_forward (us_users m) (us_users m')"])
    (assumption, auto intro: rows_forward_refl account_forward_refl step_accounts
      rows_forward_trans[of account_forward, OF account_forward_trans])

lemma steps_devices_forward:
  "(user_step stale)\<^sup>*\<^sup>* m m' \<Longrightarrow> rows_forward device_forward (us_devices m) (us_devices m')"
  by (rule runs_relation[where Q = "\<lambda>m m'. rows_forward device_forward (us_devices m) (us_devices m')"])
    (assumption, auto intro: rows_forward_refl device_forward_refl step_devices_forward
      rows_forward_trans[of device_forward, OF device_forward_trans])

lemma steps_codes_forward:
  assumes "(user_step stale)\<^sup>*\<^sup>* m m'" "users_wf m"
  shows "codes_forward m m'"
  using assms(1)
proof (induction rule: rtranclp_induct)
  case base
  show ?case by (simp add: codes_forward_def spent_forward_def)
next
  case (step b c)
  have "user_tables_ok b" using steps_users_wf[OF step.hyps(1) assms(2)] by (simp add: users_wf_def)
  then show ?case using step codes_forward_trans step_codes_forward by blast
qed

lemma steps_history: "(user_step stale)\<^sup>*\<^sup>* m m' \<Longrightarrow> \<exists>es. us_events m' = us_events m @ es"
  by (induction rule: rtranclp_induct) (auto dest!: step_history)

end
