(* ===== verification/Users_Runs.thy ===== *)
theory Users_Runs
  imports Users_Steps
begin

text \<open>
  The account service over the in-memory store: the store's methods as the \<open>Repository\<close>
  interface, and the fact that every call of the service is a run of the store's step relation.
\<close>

section \<open>The implementation\<close>

definition mem_users :: "Users UserRepository" where
  "mem_users =
     \<lparr>ur_Create = UsersCreate, ur_ByID = UsersByID, ur_ByEmail = UsersByEmail, ur_All = UsersAll,
      ur_Delete = UsersDelete, ur_UpdateProfile = UsersUpdateProfile, ur_SetPassword = UsersSetPassword,
      ur_BumpSessionEpoch = UsersBumpSessionEpoch, ur_SetSuspended = UsersSetSuspended,
      ur_ReplacePasswordReset = UsersReplacePasswordReset, ur_ActivePasswordReset = UsersActivePasswordReset,
      ur_FailPasswordReset = UsersFailPasswordReset, ur_ConsumePasswordReset = UsersConsumePasswordReset,
      ur_ReplaceEmailChange = UsersReplaceEmailChange, ur_ActiveEmailChange = UsersActiveEmailChange,
      ur_FailEmailChange = UsersFailEmailChange, ur_ConsumeEmailChange = UsersConsumeEmailChange,
      ur_DeviceByFingerprint = UsersDeviceByFingerprint, ur_CreateDevice = UsersCreateDevice,
      ur_TouchDevice = UsersTouchDevice, ur_TrustDevice = UsersTrustDevice, ur_Devices = UsersDevices,
      ur_RevokeDevice = UsersRevokeDevice, ur_ActiveDevice = UsersActiveDevice,
      ur_RecordLoginEvent = UsersRecordLoginEvent, ur_LoginEvents = UsersLoginEvents,
      ur_SetTwoFactorEnabled = UsersSetTwoFactorEnabled,
      ur_ReplaceTwoFactorChallenge = UsersReplaceTwoFactorChallenge,
      ur_ActiveTwoFactorChallenge = UsersActiveTwoFactorChallenge,
      ur_FailTwoFactorChallenge = UsersFailTwoFactorChallenge,
      ur_ConsumeTwoFactorChallenge = UsersConsumeTwoFactorChallenge\<rparr>"

lemma mem_users_sel [simp]:
  "ur_Create mem_users = UsersCreate" "ur_ByID mem_users = UsersByID" "ur_ByEmail mem_users = UsersByEmail"
  "ur_All mem_users = UsersAll" "ur_Delete mem_users = UsersDelete"
  "ur_UpdateProfile mem_users = UsersUpdateProfile" "ur_SetPassword mem_users = UsersSetPassword"
  "ur_BumpSessionEpoch mem_users = UsersBumpSessionEpoch" "ur_SetSuspended mem_users = UsersSetSuspended"
  "ur_ReplacePasswordReset mem_users = UsersReplacePasswordReset"
  "ur_ActivePasswordReset mem_users = UsersActivePasswordReset"
  "ur_FailPasswordReset mem_users = UsersFailPasswordReset"
  "ur_ConsumePasswordReset mem_users = UsersConsumePasswordReset"
  "ur_ReplaceEmailChange mem_users = UsersReplaceEmailChange"
  "ur_ActiveEmailChange mem_users = UsersActiveEmailChange"
  "ur_FailEmailChange mem_users = UsersFailEmailChange"
  "ur_ConsumeEmailChange mem_users = UsersConsumeEmailChange"
  "ur_DeviceByFingerprint mem_users = UsersDeviceByFingerprint"
  "ur_CreateDevice mem_users = UsersCreateDevice" "ur_TouchDevice mem_users = UsersTouchDevice"
  "ur_TrustDevice mem_users = UsersTrustDevice" "ur_Devices mem_users = UsersDevices"
  "ur_RevokeDevice mem_users = UsersRevokeDevice" "ur_ActiveDevice mem_users = UsersActiveDevice"
  "ur_RecordLoginEvent mem_users = UsersRecordLoginEvent" "ur_LoginEvents mem_users = UsersLoginEvents"
  "ur_SetTwoFactorEnabled mem_users = UsersSetTwoFactorEnabled"
  "ur_ReplaceTwoFactorChallenge mem_users = UsersReplaceTwoFactorChallenge"
  "ur_ActiveTwoFactorChallenge mem_users = UsersActiveTwoFactorChallenge"
  "ur_FailTwoFactorChallenge mem_users = UsersFailTwoFactorChallenge"
  "ur_ConsumeTwoFactorChallenge mem_users = UsersConsumeTwoFactorChallenge"
  by (simp_all add: mem_users_def)

text \<open>The service on that store: any bcrypt, cost, pepper and decoy hash.\<close>

definition mem_accounts :: "Libs \<Rightarrow> int \<Rightarrow> string \<Rightarrow> string \<Rightarrow> Users UserService" where
  "mem_accounts libs cost pepper dummy =
     \<lparr>vs_repo = mem_users, vs_libs = libs, vs_cost = cost, vs_pepper = pepper, vs_dummyHash = dummy\<rparr>"

lemma mem_accounts_sel [simp]:
  "vs_repo (mem_accounts libs cost pepper dummy) = mem_users"
  "vs_libs (mem_accounts libs cost pepper dummy) = libs"
  "vs_pepper (mem_accounts libs cost pepper dummy) = pepper"
  by (simp_all add: mem_accounts_def)

section \<open>Every call is a run\<close>

text \<open>The rows a call may draw an identifier for are new.\<close>

definition fresh_account_rows :: "Call \<Rightarrow> Users \<Rightarrow> bool" where
  "fresh_account_rows c m \<longleftrightarrow>
     map_of (us_users m) (c_newID c DrawUser) = None \<and>
     map_of (us_devices m) (c_newID c DrawDevice) = None \<and>
     map_of (us_resets m) (c_newID c DrawCode) = None \<and>
     map_of (us_emailChg m) (c_newID c DrawCode) = None \<and>
     map_of (us_challenges m) (c_newID c DrawCode) = None"

lemmas user_op_runs = user_step.intros[THEN runs_one[where R = "user_step stale"]] for stale

lemmas user_runs = runs_query_bind[where R = "user_step stale"] runs_ensure_bind[where R = "user_step stale"]
  runs_nothing[where R = "user_step stale"] user_op_runs[where stale = stale] for stale

lemmas user_runs_bind = runs_bind[where R = "user_step stale"] for stale

lemmas user_runs_attempt = runs_attempt[where R = "user_step stale"] for stale

lemmas user_runs_lookup = runs_attempt_query[where R = "user_step stale"] for stale

lemma AccountCreate_runs:
  "map_of (us_users m) (c_newID c DrawUser) = None \<Longrightarrow>
     (user_step stale)\<^sup>*\<^sup>* m (snd (AccountCreate (mem_accounts l k p d) c name email password confirm locale m))"
  by (auto simp: AccountCreate_def Let_def intro!: user_runs)

lemma account_write_runs:
  "(user_step stale)\<^sup>*\<^sup>* m (snd (Suspend (mem_accounts l k p d) c userID suspended m))"
  "stale \<or> live_user m userID \<Longrightarrow>
     (user_step stale)\<^sup>*\<^sup>* m (snd (AccountDelete (mem_accounts l k p d) c userID m))"
  "(user_step stale)\<^sup>*\<^sup>* m (snd (SignOutEverywhere (mem_accounts l k p d) userID m))"
  "(user_step stale)\<^sup>*\<^sup>* m (snd (AccountRevokeDevice (mem_accounts l k p d) c userID deviceID m))"
  by (auto simp: Suspend_def AccountDelete_def SignOutEverywhere_def AccountRevokeDevice_def
      intro!: user_runs)

lemma UpdateProfile_runs:
  "(user_step stale)\<^sup>*\<^sup>* m (snd (UpdateProfile (mem_accounts l k p d) userID name locale m))"
  by (auto simp: UpdateProfile_def Let_def intro!: user_runs user_runs_bind)

lemma ChangePassword_runs:
  "(user_step stale)\<^sup>*\<^sup>* m (snd (ChangePassword (mem_accounts l k p d) c userID current password confirm m))"
  by (auto simp: ChangePassword_def intro!: user_runs split: sum.split)

lemma BeginPasswordReset_runs:
  "map_of (us_resets m) (c_newID c DrawCode) = None \<Longrightarrow>
     (user_step stale)\<^sup>*\<^sup>* m (snd (BeginPasswordReset (mem_accounts l k p d) c email m))"
  by (auto simp: BeginPasswordReset_def Let_def intro!: user_runs user_runs_lookup user_runs_bind split: sum.split)

lemma CompletePasswordReset_runs:
  "(user_step stale)\<^sup>*\<^sup>* m (snd (CompletePasswordReset (mem_accounts l k p d) c email code password confirm m))"
  by (auto simp: CompletePasswordReset_def Let_def intro!: user_runs user_runs_lookup user_runs_bind split: sum.split)

lemma BeginEmailChange_runs:
  "map_of (us_emailChg m) (c_newID c DrawCode) = None \<Longrightarrow>
     (user_step stale)\<^sup>*\<^sup>* m (snd (BeginEmailChange (mem_accounts l k p d) c userID email password m))"
  by (auto simp: BeginEmailChange_def Let_def intro!: user_runs user_runs_lookup user_runs_bind split: sum.split)

lemma ActiveEmailChange_in:
  assumes "UsersActiveEmailChange userID now m = Inr change"
  shows "change \<in> snd ` set (us_emailChg m)" "ec_UserID change = userID" "ec_ConsumedAt change = None"
    "now < ec_ExpiresAt change"
  using assms find_Some_in[of "active_change userID now" "avals (us_emailChg m)" change]
  by (auto simp: UsersActiveEmailChange_def active_change_def split: option.splits)

lemma ConfirmEmailChange_runs:
  "stale \<or> live_user m userID \<Longrightarrow>
     (user_step stale)\<^sup>*\<^sup>* m (snd (ConfirmEmailChange (mem_accounts l k p d) c userID code m))"
  by (auto simp: ConfirmEmailChange_def Let_def ActiveEmailChange_in
      intro!: user_runs user_runs_lookup user_runs_bind split: sum.split)

text \<open>Signing in: at most one new device, one new challenge and one entry of the history.\<close>

lemma recordLogin_runs:
  "(user_step stale)\<^sup>*\<^sup>* m (snd (recordLogin (mem_accounts l k p d) c userID deviceID sc outcome m))"
  "(user_step stale)\<^sup>*\<^sup>* m (snd (tryRecordLogin (mem_accounts l k p d) c userID deviceID sc outcome m))"
  by (auto simp: tryRecordLogin_def recordLogin_def intro!: user_runs user_runs_attempt)

lemma newDevice_runs:
  "map_of (us_devices m) (c_newID c DrawDevice) = None \<Longrightarrow>
     (user_step stale)\<^sup>*\<^sup>* m (snd (newDevice (mem_accounts l k p d) c userID sc m))"
  by (auto simp: newDevice_def intro!: user_runs user_runs_bind)

lemma resolveDevice_runs:
  "map_of (us_devices m) (c_newID c DrawDevice) = None \<Longrightarrow>
     (user_step stale)\<^sup>*\<^sup>* m (snd (resolveDevice (mem_accounts l k p d) c userID sc m))"
  by (auto simp: resolveDevice_def intro!: user_runs user_runs_lookup newDevice_runs split: sum.split)

lemma resolveDevice_challenges:
  "resolveDevice (mem_accounts l k p d) c userID sc m = (r, m') \<Longrightarrow> us_challenges m' = us_challenges m"
  by (auto simp: resolveDevice_def newDevice_def UsersCreateDevice_def prog_defs Let_def
      split: if_splits sum.splits prod.splits)

lemma TouchDevice_challenges:
  "UsersTouchDevice deviceID now ip agent m = (r, m') \<Longrightarrow> us_challenges m' = us_challenges m"
  by (auto simp: UsersTouchDevice_def ok_def refuse_def split: option.splits)

lemma issueTwoFactorChallenge_runs:
  "map_of (us_challenges m) (c_newID c DrawCode) = None \<Longrightarrow>
     (user_step stale)\<^sup>*\<^sup>* m (snd (issueTwoFactorChallenge (mem_accounts l k p d) c userID deviceID now m))"
  by (auto simp: issueTwoFactorChallenge_def intro!: user_runs user_runs_bind)

lemma admit_device_runs:
  "map_of (us_challenges m) (c_newID c DrawCode) = None \<Longrightarrow>
     (user_step stale)\<^sup>*\<^sup>* m (snd (admit_device (mem_accounts l k p d) c u sc resolved m))"
  by (auto simp: admit_device_def Let_def split: prod.split
      intro!: user_runs user_runs_bind recordLogin_runs issueTwoFactorChallenge_runs dest!: TouchDevice_challenges)

lemma SignIn_runs:
  "fresh_account_rows c m \<Longrightarrow>
     (user_step stale)\<^sup>*\<^sup>* m (snd (SignIn (mem_accounts l k p d) c email password sc m))"
  by (auto simp: SignIn_def Let_def fresh_account_rows_def split: sum.split
      intro!: user_runs user_runs_lookup user_runs_bind recordLogin_runs resolveDevice_runs admit_device_runs
      dest!: resolveDevice_challenges)

lemma VerifyTwoFactor_runs:
  "(user_step stale)\<^sup>*\<^sup>* m (snd (VerifyTwoFactor (mem_accounts l k p d) c email code sc m))"
  by (auto simp: VerifyTwoFactor_def spend_challenge_def Let_def split: sum.split
      intro!: user_runs user_runs_lookup user_runs_bind recordLogin_runs)

lemma SetTwoFactor_runs:
  "(user_step stale)\<^sup>*\<^sup>* m (snd (SetTwoFactor (mem_accounts l k p d) c userID password enabled sc m))"
  by (auto simp: SetTwoFactor_def split: sum.split intro!: user_runs user_runs_lookup user_runs_bind)

end
