(* ===== verification/Users_Memory.thy ===== *)
theory Users_Memory
  imports Users_Contract Users_Runs
begin

text \<open>
  The account contract on the in-memory store: its views, and the interpretation that gives the
  contract's consequences for the service over that store.
\<close>

definition mem_account :: "Users \<Rightarrow> uuid \<Rightarrow> User option" where
  "mem_account m k =
     (case map_of (us_users m) k of None \<Rightarrow> None | Some u \<Rightarrow> if UserIsDeleted u then None else Some u)"

definition accounts_wf :: "Users \<Rightarrow> bool" where
  "accounts_wf m \<longleftrightarrow> users_wf m \<and> index_complete m"

lemma accounts_wfD:
  assumes "accounts_wf m"
  shows "users_wf m" "index_complete m" "rows_ok u_ID (us_users m)" "rows_ok dv_ID (us_devices m)"
    "rows_ok pr_ID (us_resets m)" "rows_ok ec_ID (us_emailChg m)" "rows_ok tc_ID (us_challenges m)"
  using assms users_wfD unfolding accounts_wf_def by blast+

lemma steps_accounts_wf: "(user_step False)\<^sup>*\<^sup>* m m' \<Longrightarrow> accounts_wf m \<Longrightarrow> accounts_wf m'"
  using steps_users_wf steps_complete unfolding accounts_wf_def by blast

lemma accounts_wf_new: "accounts_wf NewUsers"
  by (simp add: accounts_wf_def users_wf_new)

lemma mem_account_Some: "mem_account m k = Some u \<longleftrightarrow> map_of (us_users m) k = Some u \<and> \<not> UserIsDeleted u"
  by (auto simp: mem_account_def split: option.splits)

lemma UsersByID_ok: "UsersByID k m = (case mem_account m k of None \<Rightarrow> Inl user_not_found | Some u \<Rightarrow> Inr u)"
  by (auto simp: UsersByID_def mem_account_def split: option.splits)

lemma UsersByEmail_ok:
  assumes "users_wf m"
  shows "UsersByEmail email m = Inr u \<Longrightarrow> mem_account m (u_ID u) = Some u \<and> u_Email u = email"
  using users_wfD(1,7)[OF assms] rows_ok_id[of u_ID "us_users m"]
  by (fastforce simp: UsersByEmail_def mem_account_def index_sound_def split: option.splits if_splits)

lemma UsersByEmail_complete:
  "index_complete m \<Longrightarrow> mem_account m k = Some u \<Longrightarrow> UsersByEmail (u_Email u) m = Inr u"
  by (auto simp: index_complete_def mem_account_Some UsersByEmail_def)

lemma UsersByEmail_error: "UsersByEmail email m = Inl e \<Longrightarrow> e = user_not_found"
  by (auto simp: UsersByEmail_def split: option.splits if_splits)

lemma UsersDeviceByFingerprint_ok:
  assumes "rows_ok dv_ID (us_devices m)" "UsersDeviceByFingerprint k fp m = Inr dv"
  shows "map_of (us_devices m) (dv_ID dv) = Some dv \<and> dv_UserID dv = k \<and> dv_Fingerprint dv = fp"
  using rows_find_Some[OF assms(1)] assms(2) by (auto simp: UsersDeviceByFingerprint_def split: option.splits)

lemma UsersActiveTwoFactorChallenge_ok:
  assumes "rows_ok tc_ID (us_challenges m)" "UsersActiveTwoFactorChallenge k now m = Inr ch"
  shows "map_of (us_challenges m) (tc_ID ch) = Some ch \<and> active_challenge k now ch"
  using rows_find_Some[OF assms(1)] assms(2) by (auto simp: UsersActiveTwoFactorChallenge_def split: option.splits)

lemma UsersActivePasswordReset_ok:
  assumes "rows_ok pr_ID (us_resets m)" "UsersActivePasswordReset k now m = Inr r"
  shows "map_of (us_resets m) (pr_ID r) = Some r \<and> active_reset k now r"
  using rows_find_Some[OF assms(1)] assms(2) by (auto simp: UsersActivePasswordReset_def split: option.splits)

lemma UsersActiveEmailChange_ok:
  assumes "rows_ok ec_ID (us_emailChg m)" "UsersActiveEmailChange k now m = Inr ec"
  shows "map_of (us_emailChg m) (ec_ID ec) = Some ec \<and> active_change k now ec"
  using rows_find_Some[OF assms(1)] assms(2) by (auto simp: UsersActiveEmailChange_def split: option.splits)

text \<open>A write to a live account that leaves it live, as the view sees it.\<close>

lemma mem_account_update:
  "us_users m' = AList.update k u' (us_users m) \<Longrightarrow> \<not> UserIsDeleted u' \<Longrightarrow>
     mem_account m' = (mem_account m)(k \<mapsto> u')"
  by (auto simp: mem_account_def amap_simps fun_eq_iff)

lemma SetPassword_account:
  assumes "mem_account m k = Some u" "UsersSetPassword k h m = (Inr x, m')"
  shows "mem_account m' = (mem_account m)(k \<mapsto> u\<lparr>u_PasswordHash := h, u_SessionEpoch := u_SessionEpoch u + 1\<rparr>)"
  using assms by (intro mem_account_update)
    (auto simp: UsersSetPassword_def with_user_def ok_def refuse_def mem_account_Some UserIsDeleted_def)

lemma ConsumePasswordReset_account:
  assumes "mem_account m (pr_UserID r) = Some u" "map_of (us_resets m) (pr_ID r) = Some r0"
    "UsersConsumePasswordReset r h m = (Inr x, m')"
  shows "mem_account m' =
      (mem_account m)(pr_UserID r \<mapsto> u\<lparr>u_PasswordHash := h, u_SessionEpoch := u_SessionEpoch u + 1\<rparr>)"
    and "\<exists>r'. map_of (us_resets m') (pr_ID r) = Some r' \<and> pr_ConsumedAt r' = pr_ConsumedAt r"
    and "\<forall>j. j \<noteq> pr_ID r \<longrightarrow> map_of (us_resets m') j = map_of (us_resets m) j"
proof -
  show "mem_account m' =
      (mem_account m)(pr_UserID r \<mapsto> u\<lparr>u_PasswordHash := h, u_SessionEpoch := u_SessionEpoch u + 1\<rparr>)"
    using assms by (intro mem_account_update)
      (auto simp: UsersConsumePasswordReset_def ok_def refuse_def Let_def mem_account_Some UserIsDeleted_def)
  show "\<exists>r'. map_of (us_resets m') (pr_ID r) = Some r' \<and> pr_ConsumedAt r' = pr_ConsumedAt r"
    using assms by (auto simp: UsersConsumePasswordReset_def ok_def Let_def mem_account_Some amap_simps)
  show "\<forall>j. j \<noteq> pr_ID r \<longrightarrow> map_of (us_resets m') j = map_of (us_resets m) j"
    using assms by (auto simp: UsersConsumePasswordReset_def ok_def refuse_def Let_def mem_account_Some amap_simps)
qed

lemma ConsumeEmailChange_account:
  assumes "accounts_wf m" "mem_account m (ec_UserID ec) = Some u" "map_of (us_emailChg m) (ec_ID ec) = Some ec0"
    "UsersConsumeEmailChange ec email m = (Inr x, m')"
  shows "mem_account m' = (mem_account m)(ec_UserID ec \<mapsto> u\<lparr>u_Email := email\<rparr>)"
    and "\<forall>k v. mem_account m k = Some v \<longrightarrow> u_Email v = email \<longrightarrow> k = ec_UserID ec"
    and "\<exists>ec'. map_of (us_emailChg m') (ec_ID ec) = Some ec' \<and> ec_ConsumedAt ec' = ec_ConsumedAt ec"
proof -
  have u: "map_of (us_users m) (ec_UserID ec) = Some u" "\<not> UserIsDeleted u"
    using assms(2) by (simp_all add: mem_account_Some)
  then have id: "u_ID u = ec_UserID ec" using rows_ok_id[OF accounts_wfD(3)[OF assms(1)]] by blast
  show "mem_account m' = (mem_account m)(ec_UserID ec \<mapsto> u\<lparr>u_Email := email\<rparr>)"
    using assms(4) u by (intro mem_account_update)
      (auto simp: UsersConsumeEmailChange_def ok_def refuse_def Let_def UserIsDeleted_def split: if_splits)
  show "\<forall>k v. mem_account m k = Some v \<longrightarrow> u_Email v = email \<longrightarrow> k = ec_UserID ec"
    using assms(4) u(1) id accounts_wfD(2)[OF assms(1)]
    by (auto simp: UsersConsumeEmailChange_def refuse_def mem_account_Some index_complete_def split: if_splits)
  show "\<exists>ec'. map_of (us_emailChg m') (ec_ID ec) = Some ec' \<and> ec_ConsumedAt ec' = ec_ConsumedAt ec"
    using assms(3,4) u(1) by (auto simp: UsersConsumeEmailChange_def ok_def refuse_def Let_def amap_simps split: if_splits)
qed

text \<open>The challenge that was spent, and the device it made trusted.\<close>

lemma ConsumeTwoFactorChallenge_ok:
  "UsersConsumeTwoFactorChallenge c i j now m = (Inr x, m') \<longleftrightarrow>
     (\<exists>ch dv. map_of (us_challenges m) i = Some ch \<and> tc_ConsumedAt ch = None \<and>
        map_of (us_devices m) j = Some dv \<and> \<not> DeviceIsRevoked dv \<and>
        m' = m\<lparr>us_devices := AList.update j (dv\<lparr>dv_TrustedAt := Some (c_now c ClockDevice)\<rparr>) (us_devices m),
               us_challenges := AList.update i (ch\<lparr>tc_ConsumedAt := Some now\<rparr>) (us_challenges m)\<rparr>)"
  by (auto simp: UsersConsumeTwoFactorChallenge_def DeviceTrust_def ok_def refuse_def split: option.splits)

interpretation mem_store: account_store "mem_accounts libs cost pepper dummy" accounts_wf mem_account
  "\<lambda>m. map_of (us_devices m)" "\<lambda>m. map_of (us_challenges m)" "\<lambda>m. map_of (us_resets m)"
  "\<lambda>m. map_of (us_emailChg m)"
  for libs cost pepper dummy
proof (unfold_locales, goal_cases)
  case (1 s k)
  then show ?case by (simp add: UsersByID_ok)
next
  case (2 s email u)
  then show ?case using UsersByEmail_ok[OF accounts_wfD(1)[OF 2(1)]] by simp
next
  case (3 s k fp dv)
  then show ?case using UsersDeviceByFingerprint_ok[OF accounts_wfD(4)[OF 3(1)]] by simp
next
  case (4 s k j dv)
  then show ?case by (auto simp: UsersActiveDevice_def split: option.splits if_splits)
next
  case (5 s c dv dv' s')
  then show ?case by (auto simp: UsersCreateDevice_def ok_def Let_def split: if_splits)
next
  case (6 s k now ch)
  then show ?case using UsersActiveTwoFactorChallenge_ok[OF accounts_wfD(7)] by (auto simp: active_challenge_def)
next
  case (7 s c i j now x s')
  then have "(user_step False)\<^sup>*\<^sup>* s s'"
    using user_op_runs(21)[of False s c i j now] by simp
  then show ?case using 7 steps_accounts_wf by (auto simp: ConsumeTwoFactorChallenge_ok amap_simps)
next
  case (8 s c ev res s')
  then have "(user_step False)\<^sup>*\<^sup>* s s'"
    using user_op_runs(18)[of False s c ev] by simp
  then show ?case using 8 steps_accounts_wf by (auto simp: UsersRecordLoginEvent_def ok_def Let_def)
next
  case (9 s k u h x s')
  then show ?case using SetPassword_account by simp
next
  case (10 s k now r)
  then show ?case using UsersActivePasswordReset_ok[OF accounts_wfD(5)] by (auto simp: active_reset_def)
next
  case (11 s r u r0 h x s')
  then have "UsersConsumePasswordReset r h s = (Inr x, s')" by simp
  then show ?case using ConsumePasswordReset_account[OF 11(2,3)] by (intro conjI) simp_all
next
  case (12 s k now ec)
  then show ?case using UsersActiveEmailChange_ok[OF accounts_wfD(6)] by (auto simp: active_change_def)
next
  case (13 s ec u ec0 email x s')
  then show ?case using ConsumeEmailChange_account[of s ec u ec0 email x s'] by simp
qed

end
