(* ===== verification/Demo_Users.thy ===== *)
theory Demo_Users
  imports Users_Memory Demo_Store
begin

text \<open>
  A small account store the witnesses use: an account with a second factor and two devices, one
  trusted and one revoked, an open two-factor challenge, an open reset and an open e-mail
  change; and a bcrypt that can be computed with.
\<close>

definition demo_libs :: Libs where
  "demo_libs = \<lparr>lb_lower = id, bc_DefaultCost = 10,
     bc_Generate = (\<lambda>salt password cost. Inr (''h:'' @ password)),
     bc_Compare = (\<lambda>hash password. hash = ''h:'' @ password)\<rparr>"

definition demo_accounts :: "Users UserService" where
  "demo_accounts = mem_accounts demo_libs 10 ''pepper'' ''h:none''"

definition demo_user :: User where
  "demo_user = \<lparr>u_ID = UUID 10, u_CreatedAt = 100, u_DeletedAt = None, u_IsProtected = False,
     u_Name = ''Al'', u_Email = ''al@x.io'', u_PasswordHash = ''h:correct horse'', u_Locale = [],
     u_SessionEpoch = 3, u_TwoFactorEnabled = True, u_SuspendedAt = None, u_AvatarID = None\<rparr>"

definition demo_device :: "nat \<Rightarrow> string \<Rightarrow> time option \<Rightarrow> time option \<Rightarrow> Device" where
  "demo_device k token trusted revoked = \<lparr>dv_ID = UUID k, dv_CreatedAt = 200, dv_UserID = UUID 10,
     dv_Fingerprint = deviceFingerprint token, dv_UserAgent = [], dv_LastSeenAt = None, dv_LastIP = None,
     dv_TrustedAt = trusted, dv_RevokedAt = revoked\<rparr>"

definition demo_challenge :: TwoFactorChallenge where
  "demo_challenge = \<lparr>tc_ID = UUID 13, tc_UserID = UUID 10, tc_DeviceID = UUID 11,
     tc_CodeHash = hashCode demo_accounts purposeTwoFactor (UUID 10) ''123456'',
     tc_ExpiresAt = 5000, tc_Attempts = 0, tc_ConsumedAt = None\<rparr>"

definition demo_reset :: PasswordReset where
  "demo_reset = \<lparr>pr_ID = UUID 14, pr_UserID = UUID 10,
     pr_CodeHash = hashCode demo_accounts purposeReset (UUID 10) ''654321'',
     pr_ExpiresAt = 5000, pr_Attempts = 1, pr_ConsumedAt = None\<rparr>"

definition demo_change :: EmailChange where
  "demo_change = \<lparr>ec_ID = UUID 15, ec_UserID = UUID 10, ec_NewEmail = ''new@x.io'',
     ec_CodeHash = hashCode demo_accounts purposeEmailChange (UUID 10) ''111111'',
     ec_ExpiresAt = 5000, ec_Attempts = 0, ec_ConsumedAt = None\<rparr>"

definition demo_users :: Users where
  "demo_users = \<lparr>us_users = [(UUID 10, demo_user)], us_byEmail = [(''al@x.io'', UUID 10)],
     us_resets = [(UUID 14, demo_reset)], us_emailChg = [(UUID 15, demo_change)],
     us_devices = [(UUID 11, demo_device 11 ''phone'' (Some 300) None),
                   (UUID 12, demo_device 12 ''lost'' None (Some 400))],
     us_challenges = [(UUID 13, demo_challenge)], us_events = []\<rparr>"

lemmas demo_user_defs = demo_users_def demo_user_def demo_device_def demo_challenge_def demo_reset_def
  demo_change_def

definition demo_sc :: SignInContext where
  "demo_sc = \<lparr>sc_IP = ''10.0.0.1'', sc_UserAgent = ''browser'', sc_DeviceToken = ''phone''\<rparr>"

lemma demo_email: "NormalizeEmail demo_libs ''al@x.io'' = ''al@x.io''"
  by code_simp

lemma demo_users_wf: "accounts_wf demo_users"
proof -
  have "user_tables_ok demo_users" by (simp add: user_tables_ok_def rows_ok_def demo_user_defs)
  moreover have "index_sound demo_users" "index_complete demo_users"
    by (simp_all add: index_sound_def index_complete_def demo_user_defs)
  moreover have "codes_capped demo_users" by (simp add: codes_capped_def attempt_caps demo_user_defs)
  moreover have "devices_ok demo_users" by (simp add: devices_ok_def DeviceIsRevoked_def demo_user_defs)
  moreover have "open_codes_ok demo_users" by (simp add: open_codes_ok_def one_open_def demo_user_defs)
  ultimately show ?thesis by (simp add: accounts_wf_def users_wf_def)
qed

text \<open>The demonstration account through the store's lookups.\<close>

lemma demo_lookups:
  "UsersByEmail ''al@x.io'' demo_users = Inr demo_user"
  "UsersByID (UUID 10) demo_users = Inr demo_user"
  "UsersDeviceByFingerprint (UUID 10) (deviceFingerprint ''phone'') demo_users =
     Inr (demo_device 11 ''phone'' (Some 300) None)"
  "UsersActiveTwoFactorChallenge (UUID 10) 1000 demo_users = Inr demo_challenge"
  "UsersActivePasswordReset (UUID 10) 1000 demo_users = Inr demo_reset"
  "UsersActiveEmailChange (UUID 10) 1000 demo_users = Inr demo_change"
  by (simp_all add: UsersByEmail_def UsersByID_def UsersDeviceByFingerprint_def UsersActiveTwoFactorChallenge_def
      UsersActivePasswordReset_def UsersActiveEmailChange_def active_challenge_def active_reset_def
      active_change_def UserIsDeleted_def demo_user_defs)

lemma demo_user_sel:
  "u_ID demo_user = UUID 10" "u_Email demo_user = ''al@x.io''" "u_PasswordHash demo_user = ''h:correct horse''"
  "u_TwoFactorEnabled demo_user" "u_SuspendedAt demo_user = None" "u_DeletedAt demo_user = None"
  "u_SessionEpoch demo_user = 3"
  by (simp_all add: demo_user_def)

lemma demo_device_sel:
  "dv_ID (demo_device k t tr rv) = UUID k" "dv_UserID (demo_device k t tr rv) = UUID 10"
  "dv_TrustedAt (demo_device k t tr rv) = tr" "dv_RevokedAt (demo_device k t tr rv) = rv"
  "map_of (us_devices demo_users) (UUID 11) = Some (demo_device 11 ''phone'' (Some 300) None)"
  by (simp_all add: demo_device_def demo_users_def)

lemma demo_challenge_sel:
  "tc_ID demo_challenge = UUID 13" "tc_DeviceID demo_challenge = UUID 11"
  "tc_CodeHash demo_challenge = hashCode demo_accounts purposeTwoFactor (UUID 10) ''123456''"
  "tc_ConsumedAt demo_challenge = None" "map_of (us_challenges demo_users) (UUID 13) = Some demo_challenge"
  by (simp_all add: demo_challenge_def demo_users_def)

lemma demo_reset_sel:
  "pr_ID demo_reset = UUID 14" "pr_UserID demo_reset = UUID 10"
  "pr_CodeHash demo_reset = hashCode demo_accounts purposeReset (UUID 10) ''654321''"
  "map_of (us_resets demo_users) (UUID 14) = Some demo_reset"
  "map_of (us_users demo_users) (UUID 10) = Some demo_user"
  by (simp_all add: demo_reset_def demo_users_def)

lemma demo_change_sel:
  "ec_ID demo_change = UUID 15" "ec_UserID demo_change = UUID 10" "ec_NewEmail demo_change = ''new@x.io''"
  "ec_CodeHash demo_change = hashCode demo_accounts purposeEmailChange (UUID 10) ''111111''"
  "map_of (us_emailChg demo_users) (UUID 15) = Some demo_change"
  "map_of (us_byEmail demo_users) ''new@x.io'' = None"
  by (simp_all add: demo_change_def demo_users_def)

lemma demo_accounts_sel:
  "vs_repo demo_accounts = mem_users" "vs_libs demo_accounts = demo_libs"
  by (simp_all add: demo_accounts_def)

lemmas demo_sel = demo_user_sel demo_device_sel demo_challenge_sel demo_reset_sel demo_change_sel demo_accounts_sel

lemma demo_clock: "c_now (demo_call k) l = 1000" "\<not> ctx_done (demo_call k) j" "c_salt (demo_call k) = ''salt''"
  by (simp_all add: demo_call_def ctx_done_def)

lemma demo_compare: "compareHash demo_accounts (demo_call k) j ''h:correct horse'' ''correct horse'' = Inr ()"
  by (simp add: compareHash_def acquire_def demo_clock demo_accounts_def demo_libs_def)

lemma demo_hash: "hashedPassword demo_accounts (demo_call k) j pw = Inr (''h:'' @ pw)"
  by (simp add: hashedPassword_def hashPassword_def acquire_def demo_clock demo_accounts_def demo_libs_def)

lemmas demo_run = prog_defs call_simps demo_email demo_lookups demo_compare demo_clock demo_sel Let_def
  UserIsSuspended_def DeviceIsRevoked_def DeviceIsTrusted_def succeeds_def

text \<open>Signing in from the trusted device, and answering the challenge from it.\<close>

lemma demo_sign_in: "succeeds (SignIn demo_accounts (demo_call 20) ''al@x.io'' ''correct horse'' demo_sc demo_users)"
  by (simp add: demo_run SignIn_def resolveDevice_def demo_sc_def admit_device_def UsersTouchDevice_def
      recordLogin_def UsersRecordLoginEvent_def)

lemma demo_verify: "succeeds (VerifyTwoFactor demo_accounts (demo_call 20) ''al@x.io'' ''123456'' demo_sc demo_users)"
  by (simp add: demo_run VerifyTwoFactor_def demo_sc_def spend_challenge_def UsersConsumeTwoFactorChallenge_def
      DeviceTrust_def recordLogin_def UsersRecordLoginEvent_def UsersActiveDevice_def amap_simps)

text \<open>Completing the open reset, and confirming the open change of address.\<close>

lemma demo_complete_reset:
  "succeeds (CompletePasswordReset demo_accounts (demo_call 20) ''al@x.io'' ''654321'' ''long enough pw'' ''long enough pw'' demo_users)"
  by (simp add: demo_run CompletePasswordReset_def requireMatchingPassword_def MinPasswordLength_def hashResetCode_def
      demo_hash UsersConsumePasswordReset_def)

lemma demo_confirm_change:
  "succeeds (ConfirmEmailChange demo_accounts (demo_call 20) (UUID 10) ''111111'' demo_users)"
  by (simp add: demo_run ConfirmEmailChange_def UsersConsumeEmailChange_def)

text \<open>The same store with the challenge raised for the other device.\<close>

definition demo_other_challenge :: TwoFactorChallenge where
  "demo_other_challenge = demo_challenge\<lparr>tc_DeviceID := UUID 12\<rparr>"

definition demo_other :: Users where
  "demo_other = demo_users\<lparr>us_challenges := [(UUID 13, demo_other_challenge)]\<rparr>"

lemma demo_other_wf: "accounts_wf demo_other"
  by (simp add: accounts_wf_def users_wf_def user_tables_ok_def rows_ok_def index_sound_def index_complete_def
      codes_capped_def attempt_caps devices_ok_def DeviceIsRevoked_def open_codes_ok_def one_open_def
      demo_other_def demo_other_challenge_def demo_user_defs)

lemma demo_other_lookups:
  "mem_account demo_other (UUID 10) = Some demo_user"
  "UsersDeviceByFingerprint (UUID 10) (deviceFingerprint ''phone'') demo_other =
     Inr (demo_device 11 ''phone'' (Some 300) None)"
  "UsersActiveTwoFactorChallenge (UUID 10) 1000 demo_other = Inr demo_other_challenge"
  "tc_DeviceID demo_other_challenge = UUID 12"
  by (simp_all add: mem_account_def UserIsDeleted_def UsersDeviceByFingerprint_def
      UsersActiveTwoFactorChallenge_def active_challenge_def demo_other_def demo_other_challenge_def demo_user_defs)

end
