(* ===== verification/Users_Properties.thy ===== *)
theory Users_Properties
  imports Demo_Users
begin

text \<open>
  The properties of the account component over the in-memory store: who is signed in, what a
  code is worth, and what every run of the store keeps.
\<close>

section \<open>Signing in\<close>

text \<open>C24. Nobody is signed in without the password, and with a second factor nobody is signed in
  from a device that has not passed it. When \<open>SignIn\<close> goes through, the address is that of a live
  account that is not suspended, bcrypt accepted the password against its stored hash, and the
  device is the account's own and not revoked; if no code is owed although the account asks for a second
  factor, the token presented is that of a device of the account that is already trusted.\<close>

theorem sign_in_granted:
  assumes "accounts_wf m" "SignIn (mem_accounts l k p d) c email password sc m = (Inr res, m')"
  shows "\<exists>u. mem_account m (u_ID u) = Some u \<and> u_Email u = NormalizeEmail l email \<and>
    bc_Compare l (u_PasswordHash u) password \<and> \<not> UserIsSuspended u \<and>
    sr_User res = u \<and> dv_UserID (sr_Device res) = u_ID u \<and> \<not> DeviceIsRevoked (sr_Device res) \<and>
    (\<not> sr_Challenged res \<longrightarrow> u_TwoFactorEnabled u \<longrightarrow>
       (\<exists>dv. map_of (us_devices m) (dv_ID dv) = Some dv \<and> dv_UserID dv = u_ID u \<and> DeviceIsTrusted dv \<and>
          sc_DeviceToken sc \<noteq> [] \<and> dv_Fingerprint dv = deviceFingerprint (sc_DeviceToken sc)))"
  using mem_store.SignIn_granted[OF assms] by simp

lemma sign_in_granted_witness:
  "\<exists>res m' u. SignIn demo_accounts (demo_call 20) ''al@x.io'' ''correct horse'' demo_sc demo_users = (Inr res, m') \<and>
     sr_User res = u \<and> mem_account demo_users (u_ID u) = Some u"
proof -
  obtain res m' where r: "SignIn demo_accounts (demo_call 20) ''al@x.io'' ''correct horse'' demo_sc demo_users = (Inr res, m')"
    using demo_sign_in by (rule succeedsE)
  show ?thesis using sign_in_granted[OF demo_users_wf r[unfolded demo_accounts_def]] r by blast
qed

text \<open>An address that is not registered and a wrong password look the same: both are
  \<open>ErrInvalidCredentials\<close>, from \<open>SignIn\<close> and from \<open>Authenticate\<close>, and nothing changes but the login
  history of an account that exists, which gets one entry saying so.\<close>

theorem sign_in_failures_alike:
  assumes "\<not> ctx_done c 2"
    "\<And>u. UsersByEmail (NormalizeEmail l email) m = Inr u \<Longrightarrow> \<not> bc_Compare l (u_PasswordHash u) password"
  shows "\<exists>es. SignIn (mem_accounts l k p d) c email password sc m =
      (Inl (UserErr ErrInvalidCredentials), m\<lparr>us_events := us_events m @ es\<rparr>) \<and>
    Authenticate (mem_accounts l k p d) c email password m = Inl (UserErr ErrInvalidCredentials) \<and>
    map le_Outcome es =
      (case UsersByEmail (NormalizeEmail l email) m of Inl _ \<Rightarrow> [] | Inr _ \<Rightarrow> [OutcomeBadPassword])"
proof (cases "UsersByEmail (NormalizeEmail l email) m")
  case (Inl e)
  then have "e = user_not_found" by (rule UsersByEmail_error)
  then show ?thesis using Inl by (intro exI[of _ "[]"]) (simp add: SignIn_def Authenticate_def prog_defs)
next
  case (Inr u)
  obtain e where "compareHash (mem_accounts l k p d) c 0 (u_PasswordHash u) password = Inl e"
    using assms(2)[OF Inr] by (cases "acquire c 0") (auto simp: compareHash_def)
  then show ?thesis using Inr assms(1)
    by (simp add: SignIn_def Authenticate_def tryRecordLogin_def recordLogin_def UsersRecordLoginEvent_def
        prog_defs Let_def) (rule exI, rule conjI, rule refl, simp)
qed

lemma sign_in_failures_alike_witness:
  "\<exists>e. SignIn demo_accounts (demo_call 20) ''al@x.io'' ''wrong'' demo_sc demo_users =
      (Inl (UserErr ErrInvalidCredentials), demo_users\<lparr>us_events := us_events demo_users @ [e]\<rparr>) \<and>
     le_Outcome e = OutcomeBadPassword"
proof -
  have wrong: "\<not> bc_Compare demo_libs (u_PasswordHash u) ''wrong''"
    if "UsersByEmail (NormalizeEmail demo_libs ''al@x.io'') demo_users = Inr u" for u
    using that by (auto simp: demo_email demo_lookups demo_user_sel) (simp add: demo_libs_def)
  show ?thesis
    using sign_in_failures_alike[of "demo_call 20" demo_libs "''al@x.io''" demo_users "''wrong''" 10 "''pepper''" "''h:none''" demo_sc]
    by (fastforce simp: demo_clock wrong demo_accounts_def demo_email demo_lookups)
qed

section \<open>The second factor\<close>

text \<open>C25. A second factor is passed only with the code that was sent, for the device it was sent for,
  before it expires. When \<open>VerifyTwoFactor\<close> goes through, the account is live and not
  suspended, the token presented is that of a device of its own that is not revoked, and there was an
  unspent, unexpired challenge for that account and that device whose hash is that of the code;
  afterwards the challenge is spent and the device is trusted.\<close>

theorem verify_granted:
  assumes "accounts_wf m" "VerifyTwoFactor (mem_accounts l k p d) c email code sc m = (Inr (u, dv), m')"
  shows "mem_account m (u_ID u) = Some u \<and> u_Email u = NormalizeEmail l email \<and> \<not> UserIsSuspended u \<and>
    (\<exists>dv0 ch ch'. map_of (us_devices m) (dv_ID dv0) = Some dv0 \<and> dv_UserID dv0 = u_ID u \<and> \<not> DeviceIsRevoked dv0 \<and>
       dv_Fingerprint dv0 = deviceFingerprint (sc_DeviceToken sc) \<and>
       map_of (us_challenges m) (tc_ID ch) = Some ch \<and> tc_UserID ch = u_ID u \<and> tc_DeviceID ch = dv_ID dv0 \<and>
       tc_ConsumedAt ch = None \<and> c_now c ClockService < tc_ExpiresAt ch \<and>
       tc_CodeHash ch = hashCode (mem_accounts l k p d) purposeTwoFactor (u_ID u) code \<and>
       map_of (us_challenges m') (tc_ID ch) = Some ch' \<and> tc_ConsumedAt ch' \<noteq> None \<and>
       map_of (us_devices m') (dv_ID dv0) = Some dv \<and> dv_UserID dv = u_ID u \<and> DeviceIsTrusted dv)"
  using mem_store.VerifyTwoFactor_granted[OF assms] by simp

lemma verify_granted_witness:
  "\<exists>u dv m'. VerifyTwoFactor demo_accounts (demo_call 20) ''al@x.io'' ''123456'' demo_sc demo_users = (Inr (u, dv), m') \<and>
     DeviceIsTrusted dv"
proof -
  obtain r m' where "VerifyTwoFactor demo_accounts (demo_call 20) ''al@x.io'' ''123456'' demo_sc demo_users = (Inr r, m')"
    using demo_verify by (rule succeedsE)
  moreover obtain u dv where "r = (u, dv)" by (cases r)
  ultimately have "VerifyTwoFactor demo_accounts (demo_call 20) ''al@x.io'' ''123456'' demo_sc demo_users = (Inr (u, dv), m')"
    by simp
  with verify_granted[OF demo_users_wf this[unfolded demo_accounts_def]] show ?thesis by blast
qed

text \<open>A sign-in code is spent once, however requests interleave: after one request spent a challenge, no
  matter what runs in between, spending it again is refused and changes nothing.\<close>

theorem challenge_spent_once:
  assumes "users_wf m" "UsersConsumeTwoFactorChallenge c i j at m = (Inr (), m1)" "(user_step stale)\<^sup>*\<^sup>* m1 m2"
  shows "UsersConsumeTwoFactorChallenge c2 i j2 at2 m2 = (Inl (UserErr ErrInvalidTwoFactorCode), m2)"
proof -
  obtain ch where "map_of (us_challenges m1) i = Some ch" "tc_ConsumedAt ch \<noteq> None"
    using assms(2) by (auto simp: ConsumeTwoFactorChallenge_ok amap_simps)
  moreover have "users_wf m1"
    using step_users_wf[OF user_step.ConsumeTwoFactorChallenge[of stale m c i j at] assms(1)] assms(2) by simp
  ultimately obtain ch' where "map_of (us_challenges m2) i = Some ch'" "tc_ConsumedAt ch' \<noteq> None"
    using steps_codes_forward[OF assms(3)] unfolding codes_forward_def spent_forward_def by meson
  then show ?thesis by (simp add: UsersConsumeTwoFactorChallenge_def refuse_def)
qed

lemma challenge_spent_once_witness:
  "\<exists>m1. UsersConsumeTwoFactorChallenge (demo_call 20) (UUID 13) (UUID 11) 1000 demo_users = (Inr (), m1) \<and>
     UsersConsumeTwoFactorChallenge (demo_call 30) (UUID 13) (UUID 11) 1100 m1 = (Inl (UserErr ErrInvalidTwoFactorCode), m1)"
proof -
  have "succeeds (UsersConsumeTwoFactorChallenge (demo_call 20) (UUID 13) (UUID 11) 1000 demo_users)"
    by (simp add: demo_run UsersConsumeTwoFactorChallenge_def DeviceTrust_def)
  then obtain m1 where m1: "UsersConsumeTwoFactorChallenge (demo_call 20) (UUID 13) (UUID 11) 1000 demo_users = (Inr (), m1)"
    by (auto elim: succeedsE)
  show ?thesis
    using m1 challenge_spent_once[OF accounts_wfD(1)[OF demo_users_wf] m1, of False m1] by blast
qed

text \<open>C28. A wrong sign-in code costs a try. Against the open challenge of the presented device, a code
  whose hash differs is refused, the challenge's count of tries goes up by one, the fifth spends
  it, and the account, the devices and the other challenges stay as they are.\<close>

theorem wrong_code_counted:
  assumes "accounts_wf m" "mem_account m (u_ID u) = Some u" "u_Email u = NormalizeEmail l email"
    "\<not> UserIsSuspended u" "sc_DeviceToken sc \<noteq> []"
    "UsersDeviceByFingerprint (u_ID u) (deviceFingerprint (sc_DeviceToken sc)) m = Inr dv" "\<not> DeviceIsRevoked dv"
    "UsersActiveTwoFactorChallenge (u_ID u) (c_now c ClockService) m = Inr ch"
    "tc_DeviceID ch \<noteq> dv_ID dv \<or> tc_CodeHash ch \<noteq> hashCode (mem_accounts l k p d) purposeTwoFactor (u_ID u) code"
  shows "\<exists>m'. VerifyTwoFactor (mem_accounts l k p d) c email code sc m = (Inl (UserErr ErrInvalidTwoFactorCode), m') \<and>
    map_of (us_challenges m') = (map_of (us_challenges m))(tc_ID ch \<mapsto>
      ch\<lparr>tc_Attempts := tc_Attempts ch + 1,
         tc_ConsumedAt := (if tc_Attempts ch = 4 then Some (c_now c ClockService) else None)\<rparr>) \<and>
    us_users m' = us_users m \<and> us_devices m' = us_devices m"
proof -
  have found: "map_of (us_challenges m) (tc_ID ch) = Some ch" "tc_ConsumedAt ch = None"
    using UsersActiveTwoFactorChallenge_ok[OF accounts_wfD(7)[OF assms(1)] assms(8)] by (simp_all add: active_challenge_def)
  have "tc_Attempts ch < 5"
    using users_wfD(8)[OF accounts_wfD(1)[OF assms(1)]] found unfolding codes_capped_def attempt_caps by blast
  then have spent: "fail_challenge twoFactorMaxAttempts (c_now c ClockService) ch = ch\<lparr>tc_Attempts := tc_Attempts ch + 1,
      tc_ConsumedAt := (if tc_Attempts ch = 4 then Some (c_now c ClockService) else None)\<rparr>"
    using found(2) by (auto simp: fail_challenge_def attempt_caps)
  have "UsersByEmail (NormalizeEmail l email) m = Inr u"
    using UsersByEmail_complete[OF accounts_wfD(2)[OF assms(1)] assms(2)] assms(3) by simp
  then show ?thesis using assms(4-9) found
    by (auto simp: VerifyTwoFactor_def prog_defs Let_def UsersFailTwoFactorChallenge_def tryRecordLogin_def
        recordLogin_def UsersRecordLoginEvent_def amap_simps spent fun_eq_iff)
qed

lemma wrong_code_counted_witness:
  "\<exists>m'. VerifyTwoFactor demo_accounts (demo_call 20) ''al@x.io'' ''123456'' demo_sc demo_other = (Inl (UserErr ErrInvalidTwoFactorCode), m')"
  using wrong_code_counted[OF demo_other_wf, of demo_user demo_libs "''al@x.io''" demo_sc
      "demo_device 11 ''phone'' (Some 300) None" "demo_call 20" demo_other_challenge 10 "''pepper''" "''h:none''" "''123456''"]
  by (auto simp: demo_accounts_def demo_email demo_sel demo_other_lookups demo_clock UserIsSuspended_def
      DeviceIsRevoked_def demo_sc_def)

section \<open>Passwords and addresses\<close>

text \<open>C29. A borrowed session is not enough: changing the password, asking for another address and
  turning the second factor on or off are refused, and change nothing, for who does not
  have the current password.\<close>

theorem password_guards_account:
  assumes "accounts_wf m" "mem_account m userID = Some u" "\<not> bc_Compare l (u_PasswordHash u) pw"
  shows "(\<exists>e. ChangePassword (mem_accounts l k p d) c userID pw new confirm m = (Inl e, m)) \<and>
    (\<exists>e. BeginEmailChange (mem_accounts l k p d) c userID email pw m = (Inl e, m)) \<and>
    (\<exists>e. SetTwoFactor (mem_accounts l k p d) c userID pw enabled sc m = (Inl e, m))"
  using mem_store.password_needed[OF assms(1,2), where pw = pw and libs = l] assms(3) by simp

lemma password_guards_account_witness:
  "\<exists>e. ChangePassword demo_accounts (demo_call 20) (UUID 10) ''wrong'' ''long enough pw'' ''long enough pw'' demo_users =
     (Inl e, demo_users)"
  unfolding demo_accounts_def
  by (rule password_guards_account[OF demo_users_wf, THEN conjunct1])
    (auto simp: mem_account_Some demo_users_def demo_user_sel UserIsDeleted_def demo_libs_def)

text \<open>C26. A password reset needs the code. When \<open>CompletePasswordReset\<close> goes through, the address is
  that of a live account with an unspent, unexpired reset whose hash is that of the code, and the new password
  is confirmed and long enough; the account then has its hash, every earlier session is out of
  date, no other account changed, and a second attempt, with this code or any other, is refused.\<close>

theorem reset_completed:
  assumes "accounts_wf m" "CompletePasswordReset (mem_accounts l k p d) c email code pw confirm m = (Inr (), m')"
  shows "\<exists>u r h. mem_account m (u_ID u) = Some u \<and> u_Email u = NormalizeEmail l email \<and>
    map_of (us_resets m) (pr_ID r) = Some r \<and> pr_UserID r = u_ID u \<and> pr_ConsumedAt r = None \<and>
    c_now c ClockService < pr_ExpiresAt r \<and>
    pr_CodeHash r = hashCode (mem_accounts l k p d) purposeReset (u_ID u) code \<and>
    confirm = pw \<and> MinPasswordLength \<le> length pw \<and> bc_Generate l (c_salt c) pw k = Inr h \<and>
    mem_account m' = (mem_account m)(u_ID u \<mapsto> u\<lparr>u_PasswordHash := h, u_SessionEpoch := u_SessionEpoch u + 1\<rparr>) \<and>
    CompletePasswordReset (mem_accounts l k p d) c2 email code2 pw pw m' = (Inl (UserErr ErrInvalidResetCode), m')"
proof -
  obtain u r r' h where u: "mem_account m (u_ID u) = Some u" "u_Email u = NormalizeEmail l email"
    and r: "map_of (us_resets m) (pr_ID r) = Some r" "pr_UserID r = u_ID u" "pr_ConsumedAt r = None"
      "c_now c ClockService < pr_ExpiresAt r"
      "pr_CodeHash r = hashCode (mem_accounts l k p d) purposeReset (u_ID u) code"
    and pw: "confirm = pw" "MinPasswordLength \<le> length pw" "bc_Generate l (c_salt c) pw k = Inr h"
    and acct: "mem_account m' = (mem_account m)(u_ID u \<mapsto> u\<lparr>u_PasswordHash := h, u_SessionEpoch := u_SessionEpoch u + 1\<rparr>)"
    and r': "map_of (us_resets m') (pr_ID r) = Some r'" "pr_ConsumedAt r' \<noteq> None"
      "\<forall>j. j \<noteq> pr_ID r \<longrightarrow> map_of (us_resets m') j = map_of (us_resets m) j"
    using mem_store.CompletePasswordReset_effect[OF assms] by (auto simp: mem_accounts_def)
  have wf': "accounts_wf m'"
    using steps_accounts_wf[OF CompletePasswordReset_runs assms(1)] assms(2) by (metis snd_conv)
  let ?u' = "u\<lparr>u_PasswordHash := h, u_SessionEpoch := u_SessionEpoch u + 1\<rparr>"
  have "mem_account m' (u_ID ?u') = Some ?u'" using acct by simp
  then have again: "UsersByEmail (NormalizeEmail l email) m' = Inr ?u'"
    using UsersByEmail_complete[OF accounts_wfD(2)[OF wf']] u(2) by force
  have "UsersActivePasswordReset (u_ID u) now m' = Inl user_not_found" for now
  proof (cases "UsersActivePasswordReset (u_ID u) now m'")
    case (Inr r2)
    then have r2: "map_of (us_resets m') (pr_ID r2) = Some r2" "pr_UserID r2 = u_ID u" "pr_ConsumedAt r2 = None"
      using UsersActivePasswordReset_ok[OF accounts_wfD(5)[OF wf']] by (auto simp: active_reset_def)
    moreover have "map_of (us_resets m) (pr_ID r2) = Some r2 \<or> pr_ID r2 = pr_ID r"
      using r2(1) r'(3) by metis
    ultimately have "pr_ID r2 = pr_ID r"
      using r(1-3) users_wfD(10)[OF accounts_wfD(1)[OF assms(1)]] unfolding open_codes_ok_def one_open_def by metis
    then show ?thesis using r2 r' by simp
  qed (simp add: UsersActivePasswordReset_def split: option.splits)
  then have "CompletePasswordReset (mem_accounts l k p d) c2 email code2 pw pw m' = (Inl (UserErr ErrInvalidResetCode), m')"
    using again pw(2) by (simp add: CompletePasswordReset_def requireMatchingPassword_def prog_defs Let_def)
  then show ?thesis using u r pw acct by blast
qed

lemma reset_completed_witness:
  "\<exists>m'. CompletePasswordReset demo_accounts (demo_call 20) ''al@x.io'' ''654321'' ''long enough pw'' ''long enough pw'' demo_users =
       (Inr (), m') \<and>
     CompletePasswordReset demo_accounts (demo_call 30) ''al@x.io'' ''654321'' ''long enough pw'' ''long enough pw'' m' =
       (Inl (UserErr ErrInvalidResetCode), m')"
proof -
  obtain x m' where r: "CompletePasswordReset demo_accounts (demo_call 20) ''al@x.io'' ''654321''
      ''long enough pw'' ''long enough pw'' demo_users = (Inr x, m')"
    using demo_complete_reset by (rule succeedsE)
  then have r: "CompletePasswordReset demo_accounts (demo_call 20) ''al@x.io'' ''654321''
      ''long enough pw'' ''long enough pw'' demo_users = (Inr (), m')" by simp
  have "CompletePasswordReset demo_accounts (demo_call 30) ''al@x.io'' ''654321'' ''long enough pw'' ''long enough pw'' m' =
       (Inl (UserErr ErrInvalidResetCode), m')"
    using reset_completed[OF demo_users_wf r[unfolded demo_accounts_def], of "demo_call 30" "''654321''"]
    by (auto simp: demo_accounts_def)
  then show ?thesis using r by blast
qed

text \<open>An address moves only with the code sent to it. When \<open>ConfirmEmailChange\<close> goes through, the
  account had an unspent, unexpired change whose hash is that of the code, and nobody live had
  the new address; afterwards the account has it, is found under it, keeps its password and its
  sessions, no other account changed, and the change is spent.\<close>

theorem email_change_confirmed:
  assumes "accounts_wf m" "mem_account m userID = Some u"
    "ConfirmEmailChange (mem_accounts l k p d) c userID code m = (Inr (), m')"
  shows "\<exists>ec ec'. map_of (us_emailChg m) (ec_ID ec) = Some ec \<and> ec_UserID ec = userID \<and> ec_ConsumedAt ec = None \<and>
    c_now c ClockService < ec_ExpiresAt ec \<and>
    ec_CodeHash ec = hashCode (mem_accounts l k p d) purposeEmailChange userID code \<and>
    (\<forall>j v. mem_account m j = Some v \<longrightarrow> u_Email v = ec_NewEmail ec \<longrightarrow> j = userID) \<and>
    mem_account m' = (mem_account m)(userID \<mapsto> u\<lparr>u_Email := ec_NewEmail ec\<rparr>) \<and>
    UsersByEmail (ec_NewEmail ec) m' = Inr (u\<lparr>u_Email := ec_NewEmail ec\<rparr>) \<and>
    map_of (us_emailChg m') (ec_ID ec) = Some ec' \<and> ec_ConsumedAt ec' \<noteq> None"
proof -
  obtain ec ec' where ec: "map_of (us_emailChg m) (ec_ID ec) = Some ec" "ec_UserID ec = userID" "ec_ConsumedAt ec = None"
      "c_now c ClockService < ec_ExpiresAt ec"
      "ec_CodeHash ec = hashCode (mem_accounts l k p d) purposeEmailChange userID code"
    and after: "mem_account m' = (mem_account m)(userID \<mapsto> u\<lparr>u_Email := ec_NewEmail ec\<rparr>)"
      "\<forall>j v. mem_account m j = Some v \<longrightarrow> u_Email v = ec_NewEmail ec \<longrightarrow> j = userID"
      "map_of (us_emailChg m') (ec_ID ec) = Some ec'" "ec_ConsumedAt ec' \<noteq> None"
    using mem_store.ConfirmEmailChange_effect[OF assms] by blast
  have "False \<or> live_user m userID" using assms(2) by (auto simp: live_user_def mem_account_Some)
  then have "accounts_wf m'"
    using steps_accounts_wf[OF ConfirmEmailChange_runs assms(1)] assms(3) by (metis snd_conv)
  moreover have "mem_account m' userID = Some (u\<lparr>u_Email := ec_NewEmail ec\<rparr>)" using after(1) by simp
  ultimately have "UsersByEmail (ec_NewEmail ec) m' = Inr (u\<lparr>u_Email := ec_NewEmail ec\<rparr>)"
    using UsersByEmail_complete[OF accounts_wfD(2)] by fastforce
  then show ?thesis using ec after by (intro exI[of _ ec] exI[of _ ec']) simp
qed

lemma email_change_confirmed_witness:
  "\<exists>m' v. ConfirmEmailChange demo_accounts (demo_call 20) (UUID 10) ''111111'' demo_users = (Inr (), m') \<and>
     UsersByEmail (u_Email v) m' = Inr v \<and> u_SessionEpoch v = 3"
proof -
  obtain x m' where "ConfirmEmailChange demo_accounts (demo_call 20) (UUID 10) ''111111'' demo_users = (Inr x, m')"
    using demo_confirm_change by (rule succeedsE)
  then have r: "ConfirmEmailChange demo_accounts (demo_call 20) (UUID 10) ''111111'' demo_users = (Inr (), m')" by simp
  have "mem_account demo_users (UUID 10) = Some demo_user"
    by (simp add: mem_account_Some demo_sel UserIsDeleted_def)
  then obtain ec :: EmailChange where "UsersByEmail (ec_NewEmail ec) m' = Inr (demo_user\<lparr>u_Email := ec_NewEmail ec\<rparr>)"
    using email_change_confirmed[OF demo_users_wf _ r[unfolded demo_accounts_def], of demo_user] by auto
  then show ?thesis using r by (intro exI[of _ m'] exI[of _ "demo_user\<lparr>u_Email := ec_NewEmail ec\<rparr>"]) (simp add: demo_sel)
qed

section \<open>Every run\<close>

text \<open>Every call of the account service is a run of the store's step relation: whatever its arguments, and
  wherever it stops, its effect is a sequence of single store calls, each of which keeps the
  store's invariant. (New rows get fresh identifiers, and the calls that name an account outright name a live one.)\<close>

theorem account_calls_are_runs:
  fixes l k p d
  defines "S \<equiv> mem_accounts l k p d"
  assumes "fresh_account_rows c m" "live_user m userID" "accounts_wf m"
    "m' \<in> {snd (AccountCreate S c name email pw confirm locale m), snd (UpdateProfile S userID name' locale' m),
      snd (Suspend S c userID suspended m), snd (AccountDelete S c userID m), snd (SignOutEverywhere S userID m),
      snd (AccountRevokeDevice S c userID deviceID m), snd (ChangePassword S c userID current pw confirm m),
      snd (BeginPasswordReset S c email m), snd (CompletePasswordReset S c email code pw confirm m),
      snd (BeginEmailChange S c userID email pw m), snd (ConfirmEmailChange S c userID code m),
      snd (SetTwoFactor S c userID pw enabled sc m), snd (SignIn S c email pw sc m), snd (VerifyTwoFactor S c email code sc m)}"
  shows "(user_step False)\<^sup>*\<^sup>* m m' \<and> accounts_wf m'"
proof -
  have "(user_step False)\<^sup>*\<^sup>* m m'"
    using assms(2,3,5) unfolding S_def fresh_account_rows_def
    by (auto intro!: AccountCreate_runs UpdateProfile_runs account_write_runs ChangePassword_runs BeginPasswordReset_runs
        CompletePasswordReset_runs BeginEmailChange_runs ConfirmEmailChange_runs SetTwoFactor_runs SignIn_runs
        VerifyTwoFactor_runs simp: fresh_account_rows_def)
  then show ?thesis using steps_accounts_wf assms(4) by blast
qed

lemma account_calls_are_runs_witness:
  "(user_step False)\<^sup>*\<^sup>* demo_users (snd (AccountDelete demo_accounts (demo_call 20) (UUID 10) demo_users)) \<and>
   accounts_wf (snd (AccountDelete demo_accounts (demo_call 20) (UUID 10) demo_users))"
  unfolding demo_accounts_def
  by (rule account_calls_are_runs[where c = "demo_call 20" and userID = "UUID 10" and l = demo_libs and k = 10
        and p = "''pepper''" and d = "''h:none''", OF _ _ demo_users_wf])
    (simp_all add: fresh_account_rows_def demo_call_id live_user_def demo_sel UserIsDeleted_def, simp add: demo_users_def)

text \<open>C30. What holds of the account store whatever requests it has served and however their store calls interleaved, deletions
  and address changes of accounts that are already deleted included (\<open>stale\<close>): a code that can still be tried, to
  reset a password, to change an address or to sign in, has been tried fewer than five times and is the only one of its kind its
  account has; a revoked device is not trusted. When no call deletes an account, or changes its address, that is deleted already,
  two live accounts moreover never share an address and each is found under its own. (With such a call they can: see
  \<open>second_delete_frees_live_address\<close>.)\<close>

theorem account_store_invariant:
  assumes "(user_step stale)\<^sup>*\<^sup>* NewUsers m"
  shows "(\<not> stale \<longrightarrow>
       (\<forall>j k u v. mem_account m j = Some u \<longrightarrow> mem_account m k = Some v \<longrightarrow> u_Email u = u_Email v \<longrightarrow> j = k) \<and>
       (\<forall>j u. mem_account m j = Some u \<longrightarrow> u_ID u = j \<and> UsersByEmail (u_Email u) m = Inr u)) \<and>
    (\<forall>j k r q. map_of (us_challenges m) j = Some r \<longrightarrow> map_of (us_challenges m) k = Some q \<longrightarrow>
       tc_UserID r = tc_UserID q \<longrightarrow> tc_ConsumedAt r = None \<longrightarrow> tc_ConsumedAt q = None \<longrightarrow>
       j = k \<and> 0 \<le> tc_Attempts r \<and> tc_Attempts r < 5) \<and>
    (\<forall>j k r q. map_of (us_resets m) j = Some r \<longrightarrow> map_of (us_resets m) k = Some q \<longrightarrow>
       pr_UserID r = pr_UserID q \<longrightarrow> pr_ConsumedAt r = None \<longrightarrow> pr_ConsumedAt q = None \<longrightarrow>
       j = k \<and> 0 \<le> pr_Attempts r \<and> pr_Attempts r < 5) \<and>
    (\<forall>j k r q. map_of (us_emailChg m) j = Some r \<longrightarrow> map_of (us_emailChg m) k = Some q \<longrightarrow>
       ec_UserID r = ec_UserID q \<longrightarrow> ec_ConsumedAt r = None \<longrightarrow> ec_ConsumedAt q = None \<longrightarrow>
       j = k \<and> 0 \<le> ec_Attempts r \<and> ec_Attempts r < 5) \<and>
    (\<forall>j dv. map_of (us_devices m) j = Some dv \<longrightarrow> DeviceIsRevoked dv \<longrightarrow> \<not> DeviceIsTrusted dv)"
proof (intro conjI impI)
  assume "\<not> stale"
  then have wf: "accounts_wf m" using steps_accounts_wf[OF _ accounts_wf_new] assms by simp
  note found = UsersByEmail_complete[OF accounts_wfD(2)[OF wf]]
  show own: "\<forall>j u. mem_account m j = Some u \<longrightarrow> u_ID u = j \<and> UsersByEmail (u_Email u) m = Inr u"
    using found rows_ok_id[OF accounts_wfD(3)[OF wf]] by (auto simp: mem_account_Some)
  then show "\<forall>j k u v. mem_account m j = Some u \<longrightarrow> mem_account m k = Some v \<longrightarrow> u_Email u = u_Email v \<longrightarrow> j = k"
    by (metis sum.inject(2))
next
  have wf: "users_wf m" using steps_users_wf[OF assms users_wf_new(1)] .
  note codes = users_wfD(8,10)[OF wf, unfolded codes_capped_def open_codes_ok_def one_open_def attempt_caps]
  show "\<forall>j k r q. map_of (us_challenges m) j = Some r \<longrightarrow> map_of (us_challenges m) k = Some q \<longrightarrow>
       tc_UserID r = tc_UserID q \<longrightarrow> tc_ConsumedAt r = None \<longrightarrow> tc_ConsumedAt q = None \<longrightarrow>
       j = k \<and> 0 \<le> tc_Attempts r \<and> tc_Attempts r < 5"
    using codes by blast
  show "\<forall>j k r q. map_of (us_resets m) j = Some r \<longrightarrow> map_of (us_resets m) k = Some q \<longrightarrow>
       pr_UserID r = pr_UserID q \<longrightarrow> pr_ConsumedAt r = None \<longrightarrow> pr_ConsumedAt q = None \<longrightarrow>
       j = k \<and> 0 \<le> pr_Attempts r \<and> pr_Attempts r < 5"
    using codes by blast
  show "\<forall>j k r q. map_of (us_emailChg m) j = Some r \<longrightarrow> map_of (us_emailChg m) k = Some q \<longrightarrow>
       ec_UserID r = ec_UserID q \<longrightarrow> ec_ConsumedAt r = None \<longrightarrow> ec_ConsumedAt q = None \<longrightarrow>
       j = k \<and> 0 \<le> ec_Attempts r \<and> ec_Attempts r < 5"
    using codes by blast
  show "\<forall>j dv. map_of (us_devices m) j = Some dv \<longrightarrow> DeviceIsRevoked dv \<longrightarrow> \<not> DeviceIsTrusted dv"
    using users_wfD(9)[OF wf] by (auto simp: devices_ok_def DeviceIsTrusted_def)
qed

lemma account_store_invariant_witness:
  "\<exists>m u. (user_step False)\<^sup>*\<^sup>* NewUsers m \<and> mem_account m (UUID 21) = Some u \<and> UsersByEmail (u_Email u) m = Inr u"
proof -
  let ?m = "snd (UsersCreate (demo_call 20) (demo_user\<lparr>u_ID := uuid_Nil\<rparr>) NewUsers)"
  have run: "(user_step False)\<^sup>*\<^sup>* NewUsers ?m"
    by (rule r_into_rtranclp, rule user_step.Create) (simp_all add: demo_sel NewUsers_def)
  have "mem_account ?m (UUID 21) \<noteq> None"
    by (simp add: UsersCreate_def NewUsers_def demo_call_id ok_def mem_account_def UserIsDeleted_def demo_sel Let_def)
  then obtain u where account: "mem_account ?m (UUID 21) = Some u" by blast
  then have "UsersByEmail (u_Email u) ?m = Inr u"
    using account_store_invariant[OF run, THEN conjunct1, THEN mp, THEN conjunct2] by simp
  then show ?thesis using run account by blast
qed

end
