(* ===== verification/Users_Recovery.thy ===== *)
theory Users_Recovery
  imports Users_Properties
begin

text \<open>
  Getting back in: from an account whose password is lost, a reset and a sign-in lead to a session, as long as the calls
  are not cut short, the code is used in time and nobody spends or replaces it in between.
\<close>

section \<open>Calls that nothing cuts short\<close>

text \<open>The context does not end, and the source of random numbers delivers.\<close>

definition undisturbed :: "Call \<Rightarrow> bool" where
  "undisturbed c \<longleftrightarrow> (\<forall>k. \<not> c_ended c k) \<and> c_token c \<noteq> None \<and> (\<forall>k. \<exists>n < 10. c_digit c k = Some n)"

lemma undisturbed_digits: "undisturbed c \<Longrightarrow> \<exists>code. draw_digits c i n = Inr code"
proof (induction n arbitrary: i)
  case (Suc n)
  obtain k where "k < 10" "c_digit c i = Some k" using Suc.prems by (auto simp: undisturbed_def)
  moreover obtain out where "draw_digits c (Suc i) n = Inr out" using Suc by blast
  ultimately show ?case by simp
qed simp

lemma undisturbed_acquire: "undisturbed c \<Longrightarrow> acquire c k = Inr ()"
  by (simp add: undisturbed_def acquire_def ctx_done_def)

section \<open>The three calls, when they go through\<close>

lemma live_by_email:
  assumes "accounts_wf m" "mem_account m k = Some u"
  shows "UsersByEmail (u_Email u) m = Inr u" "u_ID u = k"
  using UsersByEmail_complete[OF accounts_wfD(2)[OF assms(1)] assms(2)] assms(2)
    rows_ok_id[OF accounts_wfD(3)[OF assms(1)]] by (auto simp: mem_account_Some)

lemma BeginPasswordReset_sends:
  assumes "accounts_wf m" "mem_account m k = Some u" "NormalizeEmail l email = u_Email u" "undisturbed c"
    and "BeginPasswordReset (mem_accounts l cost p d) c email m = (asked, m')"
  shows "\<exists>code r. asked = Inr code \<and> map_of (us_resets m') (c_newID c DrawCode) = Some r \<and>
     pr_UserID r = k \<and> pr_ConsumedAt r = None \<and> pr_ExpiresAt r = c_now c ClockService + resetTTL \<and>
     pr_CodeHash r = hashCode (mem_accounts l cost p d) purposeReset k code"
proof -
  obtain code where code: "randomDigits c ResetCodeLength = Inr code"
    using undisturbed_digits[OF assms(4)] by (auto simp: randomDigits_def)
  show ?thesis
    using assms(5) live_by_email[OF assms(1,2)] assms(3) code
    by (auto simp: BeginPasswordReset_def attempt_query query_eq bindp_def query_def ok_def Let_def
        UsersReplacePasswordReset_def hashResetCode_def amap_simps intro: exI[of _ code])
qed

lemma CompletePasswordReset_succeeds:
  assumes "accounts_wf m" "mem_account m k = Some u" "NormalizeEmail l email = u_Email u" "undisturbed c"
    and r: "map_of (us_resets m) i = Some r" "pr_UserID r = k" "pr_ConsumedAt r = None"
      "c_now c ClockService < pr_ExpiresAt r"
      "pr_CodeHash r = hashCode (mem_accounts l cost p d) purposeReset k code"
    and pw: "MinPasswordLength \<le> length pw" "bc_Generate l (c_salt c) pw cost = Inr h"
  shows "\<exists>m'. CompletePasswordReset (mem_accounts l cost p d) c email code pw pw m = (Inr (), m') \<and>
     mem_account m' k = Some (u\<lparr>u_PasswordHash := h, u_SessionEpoch := u_SessionEpoch u + 1\<rparr>)"
proof -
  have id: "pr_ID r = i" using rows_ok_id[OF accounts_wfD(5)[OF assms(1)] r(1)] .
  have "List.find (active_reset k (c_now c ClockService)) (avals (us_resets m)) = Some r"
  proof (rule rows_find[OF accounts_wfD(5)[OF assms(1)] r(1)])
    show "active_reset k (c_now c ClockService) r" using r by (simp add: active_reset_def)
    fix j r' assume "map_of (us_resets m) j = Some r'" "active_reset k (c_now c ClockService) r'"
    then show "j = i"
      using users_wfD(10)[OF accounts_wfD(1)[OF assms(1)]] r(1-3)
      unfolding open_codes_ok_def one_open_def active_reset_def by metis
  qed
  then have active: "UsersActivePasswordReset k (c_now c ClockService) m = Inr r"
    by (simp add: UsersActivePasswordReset_def)
  have hash: "hashedPassword (mem_accounts l cost p d) c 0 pw = Inr h"
    using pw(2) undisturbed_acquire[OF assms(4)] by (simp add: hashedPassword_def hashPassword_def mem_accounts_def)
  have row: "map_of (us_users m) k = Some u" using assms(2) by (simp add: mem_account_Some)
  let ?r = "r\<lparr>pr_ConsumedAt := Some (c_now c ClockService)\<rparr>"
  obtain m' where consume: "UsersConsumePasswordReset ?r h m = (Inr (), m')"
    using row r(2) by (auto simp: UsersConsumePasswordReset_def ok_def Let_def)
  have "CompletePasswordReset (mem_accounts l cost p d) c email code pw pw m = (Inr (), m')"
    using live_by_email[OF assms(1,2)] assms(3) active hash consume r(5) pw(1)
    by (simp add: CompletePasswordReset_def requireMatchingPassword_def attempt_query bindp_def query_def ensure_def
        Let_def hashResetCode_def)
  moreover have "mem_account m' = (mem_account m)(k \<mapsto> u\<lparr>u_PasswordHash := h, u_SessionEpoch := u_SessionEpoch u + 1\<rparr>)"
    using ConsumePasswordReset_account(1)[OF _ _ consume] assms(2) r(1,2) id by simp
  ultimately show ?thesis by simp
qed

lemma SignIn_succeeds:
  assumes "accounts_wf m" "mem_account m k = Some u" "NormalizeEmail l email = u_Email u" "undisturbed c"
    and "\<not> UserIsSuspended u" "bc_Compare l (u_PasswordHash u) pw" "sc_DeviceToken sc = []"
  shows "\<exists>res m'. SignIn (mem_accounts l cost p d) c email pw sc m = (Inr res, m') \<and> sr_User res = u \<and>
     sr_Challenged res = u_TwoFactorEnabled u"
proof -
  obtain code where code: "randomDigits c TwoFactorCodeLength = Inr code"
    using undisturbed_digits[OF assms(4)] by (auto simp: randomDigits_def)
  obtain token where token: "c_token c = Some token" using assms(4) by (auto simp: undisturbed_def)
  have compare: "compareHash (mem_accounts l cost p d) c 0 (u_PasswordHash u) pw = Inr ()"
    using assms(6) undisturbed_acquire[OF assms(4)] by (simp add: compareHash_def)
  show ?thesis
    using live_by_email[OF assms(1,2)] assms(3,5,7) compare token code
    by (simp add: SignIn_def attempt_query bindp_def query_def ok_def Let_def resolveDevice_def newDevice_def
        randomToken_def UsersCreateDevice_def admit_device_def DeviceIsRevoked_def DeviceIsTrusted_def UsersTouchDevice_def
        amap_simps issueTwoFactorChallenge_def UsersReplaceTwoFactorChallenge_def recordLogin_def
        UsersRecordLoginEvent_def)
qed

lemma SignIn_suspended:
  assumes "accounts_wf m" "mem_account m k = Some u" "NormalizeEmail l email = u_Email u" "undisturbed c"
    and "UserIsSuspended u" "bc_Compare l (u_PasswordHash u) pw"
  shows "\<exists>m'. SignIn (mem_accounts l cost p d) c email pw sc m = (Inl (UserErr ErrSuspended), m')"
proof -
  have compare: "compareHash (mem_accounts l cost p d) c 0 (u_PasswordHash u) pw = Inr ()"
    using assms(6) undisturbed_acquire[OF assms(4)] by (simp add: compareHash_def)
  show ?thesis
    using live_by_email[OF assms(1,2)] assms(3,5) compare
    by (simp add: SignIn_def attempt_query bindp_def query_def ok_def refuse_def Let_def tryRecordLogin_def recordLogin_def
        UsersRecordLoginEvent_def attempt_def)
qed

section \<open>Nobody is locked out for good\<close>

text \<open>C27. 
  An account whose password is lost gets back in. Its owner asks for a reset; whatever other calls run before the code is
  used, so long as they leave the code and the account's address alone (and delete no account a second time), completing the
  reset in time with that code and a password of the required length succeeds. Signing in with that password from a new device
  then succeeds too, at once, or with the second factor's code where the account asks for one, unless the account was suspended
  meanwhile: then the answer is that it is suspended. (The calls are not cut short, and the library hashes the password
  and recognizes it again.)
\<close>

theorem account_recovers:
  assumes "accounts_wf m" "mem_account m k = Some u" "NormalizeEmail l email = u_Email u"
    and "undisturbed c1" "map_of (us_resets m) (c_newID c1 DrawCode) = None"
    and "BeginPasswordReset (mem_accounts l cost p d) c1 email m = (asked, m1)"
    and "(user_step False)\<^sup>*\<^sup>* m1 m2" "mem_account m2 k = Some u2" "u_Email u2 = u_Email u"
      "map_of (us_resets m2) (c_newID c1 DrawCode) = map_of (us_resets m1) (c_newID c1 DrawCode)"
    and "undisturbed c2" "c_now c2 ClockService < c_now c1 ClockService + resetTTL"
      "MinPasswordLength \<le> length pw" "bc_Generate l (c_salt c2) pw cost = Inr h"
    and "undisturbed c3" "bc_Compare l h pw" "sc_DeviceToken sc = []"
  shows "\<exists>code m3. asked = Inr code \<and>
    CompletePasswordReset (mem_accounts l cost p d) c2 email code pw pw m2 = (Inr (), m3) \<and>
    (if UserIsSuspended u2
     then \<exists>m4. SignIn (mem_accounts l cost p d) c3 email pw sc m3 = (Inl (UserErr ErrSuspended), m4)
     else \<exists>res m4. SignIn (mem_accounts l cost p d) c3 email pw sc m3 = (Inr res, m4) \<and>
       u_ID (sr_User res) = k \<and> sr_Challenged res = u_TwoFactorEnabled u2)"
proof -
  obtain code r where asked: "asked = Inr code" and r: "map_of (us_resets m1) (c_newID c1 DrawCode) = Some r"
    "pr_UserID r = k" "pr_ConsumedAt r = None" "pr_ExpiresAt r = c_now c1 ClockService + resetTTL"
    "pr_CodeHash r = hashCode (mem_accounts l cost p d) purposeReset k code"
    using BeginPasswordReset_sends[OF assms(1-4,6)] by blast
  have wf1: "accounts_wf m1"
    using steps_accounts_wf[OF BeginPasswordReset_runs[OF assms(5)] assms(1)] assms(6) by (metis snd_conv)
  have wf2: "accounts_wf m2" by (rule steps_accounts_wf[OF assms(7) wf1])
  let ?u3 = "u2\<lparr>u_PasswordHash := h, u_SessionEpoch := u_SessionEpoch u2 + 1\<rparr>"
  obtain m3 where complete: "CompletePasswordReset (mem_accounts l cost p d) c2 email code pw pw m2 = (Inr (), m3)"
    and account: "mem_account m3 k = Some ?u3"
    using CompletePasswordReset_succeeds[OF wf2 assms(8) _ assms(11), of l email "c_newID c1 DrawCode" r cost p d code pw h]
      assms(3,9,10,12,13,14) r by auto
  have wf3: "accounts_wf m3"
    using steps_accounts_wf[OF CompletePasswordReset_runs wf2] complete by (metis snd_conv)
  have id: "u_ID u2 = k" using live_by_email(2)[OF wf2 assms(8)] .
  show ?thesis
  proof (cases "UserIsSuspended u2")
    case True
    then have "\<exists>m4. SignIn (mem_accounts l cost p d) c3 email pw sc m3 = (Inl (UserErr ErrSuspended), m4)"
      using SignIn_suspended[OF wf3 account _ assms(15), of l email pw cost p d sc] assms(3,9,16) by (simp add: UserIsSuspended_def)
    then show ?thesis using asked complete True by auto
  next
    case False
    obtain res m4 where "SignIn (mem_accounts l cost p d) c3 email pw sc m3 = (Inr res, m4)" "sr_User res = ?u3"
      "sr_Challenged res = u_TwoFactorEnabled u2"
      using SignIn_succeeds[OF wf3 account _ assms(15), of l email pw sc cost p d] assms(3,9,16,17) False
      by (auto simp: UserIsSuspended_def)
    then show ?thesis using asked complete False id by auto
  qed
qed

lemma demo_undisturbed: "undisturbed (demo_call k)"
  by (simp add: undisturbed_def demo_call_def)

theorem account_recovers_witness:
  "\<exists>code m1 m3 res m4.
     BeginPasswordReset demo_accounts (demo_call 50) ''al@x.io'' demo_users = (Inr code, m1) \<and>
     CompletePasswordReset demo_accounts (demo_call 60) ''al@x.io'' code ''long enough pw'' ''long enough pw'' m1 = (Inr (), m3) \<and>
     SignIn demo_accounts (demo_call 70) ''al@x.io'' ''long enough pw'' (demo_sc\<lparr>sc_DeviceToken := []\<rparr>) m3 = (Inr res, m4) \<and>
     u_ID (sr_User res) = UUID 10"
proof -
  have account: "mem_account demo_users (UUID 10) = Some demo_user"
    by (simp add: mem_account_def demo_user_defs UserIsDeleted_def)
  have email: "NormalizeEmail demo_libs ''al@x.io'' = u_Email demo_user"
    using demo_email by (simp add: demo_user_def)
  have fresh: "map_of (us_resets demo_users) (c_newID (demo_call 50) DrawCode) = None"
    by (simp add: demo_call_id demo_user_defs)
  obtain asked m1 where asked: "BeginPasswordReset demo_accounts (demo_call 50) ''al@x.io'' demo_users = (asked, m1)" by force
  have same: "us_users m1 = us_users demo_users"
    using asked by (auto simp: BeginPasswordReset_def attempt_def bindp_def query_def ok_def refuse_def Let_def
        demo_accounts_def UsersReplacePasswordReset_def split: sum.splits if_splits)
  then have "mem_account m1 (UUID 10) = Some demo_user" using account by (simp add: mem_account_def)
  from account_recovers[OF demo_users_wf account email demo_undisturbed fresh asked[unfolded demo_accounts_def]
      rtranclp.rtrancl_refl this refl refl demo_undisturbed _ _ _ demo_undisturbed, of 60 "''long enough pw''" "''h:long enough pw''"
      "demo_sc\<lparr>sc_DeviceToken := []\<rparr>" 70]
  show ?thesis using asked
    by (auto simp: demo_accounts_def demo_libs_def demo_call_def resetTTL_def minutes_def MinPasswordLength_def
        UserIsSuspended_def demo_user_def)
qed

end
