(* ===== verification/Go_Encoding.thy ===== *)
theory Go_Encoding
  imports Go_Strings Go_Crypto
begin

text \<open>
  The decoders of Go's \<open>encoding/base64\<close>, \<open>encoding/json\<close> and \<open>strconv\<close> that the program calls,
  and the part of the JSON encoder it uses, over byte strings.
\<close>

section \<open>\<open>base64.RawURLEncoding.DecodeString\<close>\<close>

text \<open>
  Carriage returns and newlines are skipped wherever they stand; any other character outside the
  alphabet, and a single character left over, is an error; the unused bits of a last partial
  group are ignored.
\<close>

definition url_value :: "char \<Rightarrow> nat option" where
  "url_value c =
     (let n = of_char c in
      if 65 \<le> n \<and> n \<le> 90 then Some (n - 65)
      else if 97 \<le> n \<and> n \<le> 122 then Some (n - 71)
      else if 48 \<le> n \<and> n \<le> 57 then Some (n + 4)
      else if n = 45 then Some 62
      else if n = 95 then Some 63
      else None)"

fun url_bytes :: "nat list \<Rightarrow> string option" where
  "url_bytes (a # b # c # d # vs) =
     map_option (append [char_of (a * 4 + b div 16), char_of (b mod 16 * 16 + c div 4), char_of (c mod 4 * 64 + d)])
       (url_bytes vs)"
| "url_bytes [a, b, c] = Some [char_of (a * 4 + b div 16), char_of (b mod 16 * 16 + c div 4)]"
| "url_bytes [a, b] = Some [char_of (a * 4 + b div 16)]"
| "url_bytes [a] = None"
| "url_bytes [] = Some []"

definition is_newline :: "char \<Rightarrow> bool" where
  "is_newline c \<longleftrightarrow> c = CHR 0x0A \<or> c = CHR 0x0D"

definition raw_url_decode :: "string \<Rightarrow> string option" where
  "raw_url_decode s =
     (case those (map url_value (filter (\<lambda>c. \<not> is_newline c) s)) of
        None \<Rightarrow> None
      | Some vs \<Rightarrow> url_bytes vs)"

lemma url_char_facts:
  assumes "n < 64"
  shows "url_value (url_char n) = Some n" "\<not> is_newline (url_char n)" "url_char n \<noteq> CHR ''.''"
proof -
  have "list_all (\<lambda>n. url_value (url_char n) = Some n \<and> \<not> is_newline (url_char n) \<and> url_char n \<noteq> CHR ''.'') [0..<64]"
    by (simp add: upt_rec url_char_def url_value_def is_newline_def)
  then show "url_value (url_char n) = Some n" "\<not> is_newline (url_char n)" "url_char n \<noteq> CHR ''.''"
    using assms by (simp_all add: list_all_iff)
qed

lemma char_less: "of_char (c :: char) < (256 :: nat)"
  by (metis char_of_mod_256 mod_less_divisor nat_of_char_less_256)

text \<open>What the encoder writes: sextets, each under its character.\<close>

fun sextets :: "string \<Rightarrow> nat list" where
  "sextets (a # b # c # s) =
     [of_char a div 4, of_char a mod 4 * 16 + of_char b div 16, of_char b mod 16 * 4 + of_char c div 64, of_char c mod 64]
     @ sextets s"
| "sextets [a, b] = [of_char a div 4, of_char a mod 4 * 16 + of_char b div 16, of_char b mod 16 * 4]"
| "sextets [a] = [of_char a div 4, of_char a mod 4 * 16]"
| "sextets [] = []"

lemma raw_url_encode_sextets: "raw_url_encode s = map url_char (sextets s)"
  by (induction s rule: sextets.induct) (simp_all add: Let_def)

lemma sextet_less:
  fixes x y z :: nat
  assumes "x < 256" "y < 256" "z < 256"
  shows "x div 4 < 64" "x mod 4 * 16 + y div 16 < 64" "y mod 16 * 4 + z div 64 < 64" "x mod 4 * 16 < 64" "y mod 16 * 4 < 64"
proof -
  have "x mod 4 < 4" "y div 16 < 16" "y mod 16 < 16" "z div 64 < 4" using assms by auto
  then show "x mod 4 * 16 + y div 16 < 64" "y mod 16 * 4 + z div 64 < 64" "x mod 4 * 16 < 64" "y mod 16 * 4 < 64"
    by linarith+
  show "x div 4 < 64" using assms(1) by auto
qed

lemma sextets_bounded: "list_all (\<lambda>n. n < 64) (sextets s)"
  by (induction s rule: sextets.induct) (simp_all add: sextet_less[OF char_less char_less char_less])

lemma pair_of:
  fixes m k n :: nat
  assumes "k < n"
  shows "(m * n + k) div n = m" "(m * n + k) mod n = k"
  using assms by simp_all

lemma byte_joins:
  fixes x y z :: nat
  assumes "x < 256" "y < 256" "z < 256"
  shows "x div 4 * 4 + (x mod 4 * 16 + y div 16) div 16 = x"
    "(x mod 4 * 16 + y div 16) mod 16 * 16 + (y mod 16 * 4 + z div 64) div 4 = y"
    "(y mod 16 * 4 + z div 64) mod 4 * 64 + z mod 64 = z"
proof -
  have "y div 16 < 16" "z div 64 < 4" using assms by auto
  note pairs = pair_of[OF this(1)] pair_of[OF this(2)]
  show "x div 4 * 4 + (x mod 4 * 16 + y div 16) div 16 = x" by (simp only: pairs div_mult_mod_eq)
  show "(x mod 4 * 16 + y div 16) mod 16 * 16 + (y mod 16 * 4 + z div 64) div 4 = y"
    by (simp only: pairs div_mult_mod_eq)
  show "(y mod 16 * 4 + z div 64) mod 4 * 64 + z mod 64 = z" by (simp only: pairs div_mult_mod_eq)
qed

lemma url_bytes_sextets: "url_bytes (sextets s) = Some s"
proof (induction s rule: sextets.induct)
  case (1 a b c s)
  then show ?case using byte_joins[OF char_less[of a] char_less[of b] char_less[of c]] by simp
next
  case (2 a b)
  show ?case using byte_joins[OF char_less[of a] char_less[of b], of 0] by simp
next
  case (3 a)
  show ?case using byte_joins(1)[OF char_less[of a], of 0] by simp
qed simp

lemma those_url_chars: "list_all (\<lambda>n. n < 64) vs \<Longrightarrow> those (map url_value (map url_char vs)) = Some vs"
  by (induction vs) (simp_all add: url_char_facts)

lemma raw_url_decode_encode: "raw_url_decode (raw_url_encode s) = Some s"
proof -
  have "filter (\<lambda>c. \<not> is_newline c) (map url_char vs) = map url_char vs" if "list_all (\<lambda>n. n < 64) vs" for vs
    using that by (induction vs) (simp_all add: url_char_facts)
  then show ?thesis
    using sextets_bounded[of s] those_url_chars[OF sextets_bounded[of s]]
    by (simp add: raw_url_decode_def raw_url_encode_sextets url_bytes_sextets del: map_map)
qed

lemma raw_url_encode_no_dot: "CHR ''.'' \<notin> set (raw_url_encode s)"
  using sextets_bounded[of s] url_char_facts(3) by (fastforce simp: raw_url_encode_sextets list_all_iff)

lemma raw_url_encode_plain: "list_all plain_char (raw_url_encode s)"
proof -
  have "list_all (\<lambda>n. plain_char (url_char n)) [0..<64]"
    by (simp add: upt_rec url_char_def plain_char_def is_ascii_def ascii_space_def byte_in_def)
  then have "plain_char (url_char n)" if "n < 64" for n using that by (simp add: list_all_iff)
  then show ?thesis using sextets_bounded[of s] by (simp add: raw_url_encode_sextets list_all_iff)
qed

section \<open>Decimal numbers\<close>

definition decimal_digit :: "nat \<Rightarrow> char" where
  "decimal_digit d = char_of (48 + d)"

definition is_decimal :: "char \<Rightarrow> bool" where
  "is_decimal c \<longleftrightarrow> byte_in 48 57 c"

fun show_nat :: "nat \<Rightarrow> string" where
  "show_nat n = (if n < 10 then [decimal_digit n] else show_nat (n div 10) @ [decimal_digit (n mod 10)])"

declare show_nat.simps [simp del]

text \<open>\<open>strconv.AppendInt\<close> in base ten.\<close>

definition show_int :: "int \<Rightarrow> string" where
  "show_int i = (if i < 0 then CHR ''-'' # show_nat (nat (- i)) else show_nat (nat i))"

definition decimal_value :: "string \<Rightarrow> nat" where
  "decimal_value s = foldl (\<lambda>n c. n * 10 + (of_char c - 48)) 0 s"

definition min_int64 :: int where "min_int64 = - (2 ^ 63)"
definition max_int64 :: int where "max_int64 = 2 ^ 63 - 1"

text \<open>\<open>strconv.ParseInt(s, 10, 64)\<close> on the literal of a JSON number, which has no sign but a minus.\<close>

definition parse_int64 :: "string \<Rightarrow> int option" where
  "parse_int64 s =
     (let (minus, digits) = (case s of [] \<Rightarrow> (False, []) | c # r \<Rightarrow> if c = CHR ''-'' then (True, r) else (False, s))
      in if digits = [] \<or> \<not> list_all is_decimal digits then None
         else let i = (if minus then - int (decimal_value digits) else int (decimal_value digits))
              in if min_int64 \<le> i \<and> i \<le> max_int64 then Some i else None)"

lemma decimal_digit_facts:
  assumes "d < 10"
  shows "is_decimal (decimal_digit d)" "of_char (decimal_digit d) = 48 + d" "is_ascii (decimal_digit d)"
  using assms by (simp_all add: decimal_digit_def is_decimal_def byte_in_def is_ascii_def of_char_of take_bit_eq_mod)

lemma show_nat_decimal: "list_all is_decimal (show_nat n) \<and> show_nat n \<noteq> []"
proof (induction n rule: show_nat.induct)
  case (1 n)
  then show ?case by (cases "n < 10") (simp_all add: show_nat.simps[of n] decimal_digit_facts)
qed

lemma decimal_value_show_nat: "decimal_value (show_nat n) = n"
proof (induction n rule: show_nat.induct)
  case (1 n)
  then show ?case
    by (cases "n < 10") (simp_all add: show_nat.simps[of n] decimal_value_def decimal_digit_facts)
qed

lemma parse_int64_show:
  assumes "min_int64 \<le> i" "i \<le> max_int64"
  shows "parse_int64 (show_int i) = Some i"
proof (cases "i < 0")
  case True
  then show ?thesis using assms show_nat_decimal[of "nat (- i)"]
    by (simp add: parse_int64_def show_int_def decimal_value_show_nat Let_def)
next
  case False
  obtain c r where cr: "show_nat (nat i) = c # r" using show_nat_decimal[of "nat i"] by (cases "show_nat (nat i)") auto
  then have "c \<noteq> CHR ''-''" using show_nat_decimal[of "nat i"] by (auto simp: is_decimal_def byte_in_def)
  then show ?thesis using False assms show_nat_decimal[of "nat i"] decimal_value_show_nat[of "nat i"]
    by (simp add: parse_int64_def show_int_def Let_def cr)
qed

end
