(* ===== verification/Go_JSON.thy ===== *)
theory Go_JSON
  imports Go_Encoding
begin

text \<open>
  \<open>encoding/json\<close>, as far as the program uses it on untrusted bytes: the grammar
  \<open>Unmarshal\<close> accepts, the string literals it reads and writes, and how a member of an object
  finds the struct field it is decoded into.
\<close>

section \<open>String literals\<close>

definition utf8_encode :: "nat \<Rightarrow> string" where
  "utf8_encode r =
     (if r < 0x80 then [char_of r]
      else if r < 0x800 then [char_of (0xC0 + r div 64), char_of (0x80 + r mod 64)]
      else if r < 0x10000 then
        [char_of (0xE0 + r div 4096), char_of (0x80 + r div 64 mod 64), char_of (0x80 + r mod 64)]
      else
        [char_of (0xF0 + r div 262144), char_of (0x80 + r div 4096 mod 64), char_of (0x80 + r div 64 mod 64),
         char_of (0x80 + r mod 64)])"

text \<open>U+FFFD, which stands for what is not a rune.\<close>

definition replacement :: string where
  "replacement = utf8_encode 0xFFFD"

definition hex_value :: "char \<Rightarrow> nat option" where
  "hex_value c =
     (let n = of_char c in
      if 48 \<le> n \<and> n \<le> 57 then Some (n - 48)
      else if 97 \<le> n \<and> n \<le> 102 then Some (n - 87)
      else if 65 \<le> n \<and> n \<le> 70 then Some (n - 55)
      else None)"

text \<open>\<open>getu4\<close>, on what follows the letter \<open>u\<close>.\<close>

fun hex4 :: "string \<Rightarrow> nat option" where
  "hex4 (a # b # c # d # _) =
     (case (hex_value a, hex_value b, hex_value c, hex_value d) of
        (Some p, Some q, Some r, Some s) \<Rightarrow> Some (((p * 16 + q) * 16 + r) * 16 + s)
      | _ \<Rightarrow> None)"
| "hex4 _ = None"

text \<open>The bytes an escape stands for, and how many characters follow the backslash.\<close>

definition unicode_escape :: "string \<Rightarrow> (string \<times> nat) option" where
  "unicode_escape s =
     (case hex4 s of
        None \<Rightarrow> None
      | Some v \<Rightarrow>
          if v < 0xD800 \<or> 0xDFFF < v then Some (utf8_encode v, 5)
          else
            (let low = (if take 2 (drop 4 s) = [CHR 0x5C, CHR ''u''] then hex4 (drop 6 s) else None) in
             case low of
               Some w \<Rightarrow>
                 if v < 0xDC00 \<and> 0xDC00 \<le> w \<and> w \<le> 0xDFFF
                 then Some (utf8_encode (0x10000 + (v - 0xD800) * 1024 + (w - 0xDC00)), 11)
                 else Some (replacement, 5)
             | None \<Rightarrow> Some (replacement, 5)))"

definition json_unescape :: "string \<Rightarrow> (string \<times> nat) option" where
  "json_unescape s =
     (case s of [] \<Rightarrow> None | e # r \<Rightarrow>
        if e = CHR 0x22 \<or> e = CHR 0x5C \<or> e = CHR ''/'' then Some ([e], 1)
        else if e = CHR ''b'' then Some ([CHR 0x08], 1)
        else if e = CHR ''f'' then Some ([CHR 0x0C], 1)
        else if e = CHR ''n'' then Some ([CHR 0x0A], 1)
        else if e = CHR ''r'' then Some ([CHR 0x0D], 1)
        else if e = CHR ''t'' then Some ([CHR 0x09], 1)
        else if e = CHR ''u'' then unicode_escape r
        else None)"

text \<open>A literal after its opening quote: the bytes it stands for and what follows the closing quote.\<close>

function json_chars :: "string \<Rightarrow> (string \<times> string) option" where
  "json_chars [] = None"
| "json_chars (c # r) =
     (if c = CHR 0x22 then Some ([], r)
      else if c = CHR 0x5C then
        (case json_unescape r of
           None \<Rightarrow> None
         | Some (bytes, k) \<Rightarrow> map_option (apfst (append bytes)) (json_chars (drop k r)))
      else if byte_in 0 0x1F c then None
      else if is_ascii c then map_option (apfst (Cons c)) (json_chars r)
      else
        (let w = rune_width (c # r) in
         map_option (apfst (append (if w = 1 then replacement else take w (c # r)))) (json_chars (drop (w - 1) r))))"
  by pat_completeness auto
termination by (relation "measure length") auto

text \<open>The literal \<open>Marshal\<close> writes: quotes, backslashes, control characters and HTML escaped.\<close>

definition hex_escape :: "nat \<Rightarrow> string" where
  "hex_escape n = [CHR 0x5C, CHR ''u'', CHR ''0'', CHR ''0'', hex_digit (n div 16), hex_digit (n mod 16)]"

definition ascii_escape :: "char \<Rightarrow> string" where
  "ascii_escape c =
     (if c = CHR 0x22 \<or> c = CHR 0x5C then [CHR 0x5C, c]
      else if c = CHR 0x08 then [CHR 0x5C, CHR ''b'']
      else if c = CHR 0x0C then [CHR 0x5C, CHR ''f'']
      else if c = CHR 0x0A then [CHR 0x5C, CHR ''n'']
      else if c = CHR 0x0D then [CHR 0x5C, CHR ''r'']
      else if c = CHR 0x09 then [CHR 0x5C, CHR ''t'']
      else if byte_in 0 0x1F c \<or> c = CHR ''<'' \<or> c = CHR ''>'' \<or> c = CHR ''&'' then hex_escape (of_char c)
      else [c])"

definition is_separator :: "string \<Rightarrow> bool" where
  "is_separator s \<longleftrightarrow> take 2 s = [CHR 0xE2, CHR 0x80] \<and> (take 1 (drop 2 s) = [CHR 0xA8] \<or> take 1 (drop 2 s) = [CHR 0xA9])"

function json_escape :: "string \<Rightarrow> string" where
  "json_escape [] = []"
| "json_escape (c # r) =
     (if is_ascii c then ascii_escape c @ json_escape r
      else
        (let w = rune_width (c # r) in
         if w = 1 then [CHR 0x5C, CHR ''u'', CHR ''f'', CHR ''f'', CHR ''f'', CHR ''d''] @ json_escape r
         else if is_separator (c # r) then
           [CHR 0x5C, CHR ''u'', CHR ''2'', CHR ''0'', CHR ''2'', hex_digit (of_char (r ! 1) mod 16)]
             @ json_escape (drop (w - 1) r)
         else take w (c # r) @ json_escape (drop (w - 1) r)))"
  by pat_completeness auto
termination by (relation "measure length") auto

definition json_quote :: "string \<Rightarrow> string" where
  "json_quote s = CHR 0x22 # json_escape s @ [CHR 0x22]"

section \<open>The grammar\<close>

datatype json =
    JNull
  | JBool bool
  | JNumber string
  | JString string
  | JArray "json list"
  | JObject "(string \<times> json) list"

definition is_json_space :: "char \<Rightarrow> bool" where
  "is_json_space c \<longleftrightarrow> c = CHR '' '' \<or> c = CHR 0x09 \<or> c = CHR 0x0A \<or> c = CHR 0x0D"

definition skip_space :: "string \<Rightarrow> string" where
  "skip_space s = dropWhile is_json_space s"

definition literal :: "string \<Rightarrow> json \<Rightarrow> string \<Rightarrow> (json \<times> string) option" where
  "literal word v s = (if take (length word) s = word then Some (v, drop (length word) s) else None)"

text \<open>The parts of a number: each a prefix of the text and what follows it.\<close>

definition digits_of :: "string \<Rightarrow> string \<times> string" where
  "digits_of s = (takeWhile is_decimal s, dropWhile is_decimal s)"

definition number_int :: "string \<Rightarrow> (string \<times> string) option" where
  "number_int s =
     (case s of [] \<Rightarrow> None | c # r \<Rightarrow>
        if c = CHR ''0'' then Some ([c], r)
        else if is_decimal c then Some (digits_of s)
        else None)"

definition number_frac :: "string \<Rightarrow> (string \<times> string) option" where
  "number_frac s =
     (case s of [] \<Rightarrow> Some ([], []) | c # r \<Rightarrow>
        if c \<noteq> CHR ''.'' then Some ([], s)
        else if fst (digits_of r) = [] then None
        else Some (c # fst (digits_of r), snd (digits_of r)))"

definition number_exp :: "string \<Rightarrow> (string \<times> string) option" where
  "number_exp s =
     (case s of [] \<Rightarrow> Some ([], []) | c # r \<Rightarrow>
        if c \<noteq> CHR ''e'' \<and> c \<noteq> CHR ''E'' then Some ([], s)
        else
          (let (sign, r) = (case r of [] \<Rightarrow> ([], []) | x # t \<Rightarrow> if x = CHR ''+'' \<or> x = CHR ''-'' then ([x], t) else ([], r))
           in if fst (digits_of r) = [] then None
              else Some (c # sign @ fst (digits_of r), snd (digits_of r))))"

definition json_number :: "string \<Rightarrow> (json \<times> string) option" where
  "json_number s =
     (let (sign, s) = (case s of [] \<Rightarrow> ([], []) | c # r \<Rightarrow> if c = CHR ''-'' then ([c], r) else ([], s)) in
      case number_int s of None \<Rightarrow> None | Some (i, s) \<Rightarrow>
      case number_frac s of None \<Rightarrow> None | Some (f, s) \<Rightarrow>
      case number_exp s of None \<Rightarrow> None | Some (e, s) \<Rightarrow> Some (JNumber (sign @ i @ f @ e), s))"

text \<open>
  The first argument is the nesting that is still allowed, the second bounds the number of
  calls in a row; \<open>json_fuel\<close> below shows that twice the length of the text is enough of it.
\<close>

fun json_value :: "nat \<Rightarrow> nat \<Rightarrow> string \<Rightarrow> (json \<times> string) option"
and json_elements :: "nat \<Rightarrow> nat \<Rightarrow> string \<Rightarrow> (json list \<times> string) option"
and json_members :: "nat \<Rightarrow> nat \<Rightarrow> string \<Rightarrow> ((string \<times> json) list \<times> string) option" where
  "json_value d 0 s = None"
| "json_value d (Suc n) s =
     (case skip_space s of [] \<Rightarrow> None | c # r \<Rightarrow>
        if c = CHR ''{'' then
          (if d = 0 then None
           else if take 1 (skip_space r) = [CHR ''}''] then Some (JObject [], drop 1 (skip_space r))
           else map_option (apfst JObject) (json_members (d - 1) n r))
        else if c = CHR ''['' then
          (if d = 0 then None
           else if take 1 (skip_space r) = [CHR '']''] then Some (JArray [], drop 1 (skip_space r))
           else map_option (apfst JArray) (json_elements (d - 1) n r))
        else if c = CHR 0x22 then map_option (apfst JString) (json_chars r)
        else if c = CHR ''t'' then literal ''true'' (JBool True) (c # r)
        else if c = CHR ''f'' then literal ''false'' (JBool False) (c # r)
        else if c = CHR ''n'' then literal ''null'' JNull (c # r)
        else json_number (c # r))"
| "json_elements d 0 s = None"
| "json_elements d (Suc n) s =
     (case json_value d n s of None \<Rightarrow> None | Some (v, r) \<Rightarrow>
        (case skip_space r of [] \<Rightarrow> None | c # r \<Rightarrow>
           if c = CHR '','' then map_option (apfst (Cons v)) (json_elements d n r)
           else if c = CHR '']'' then Some ([v], r)
           else None))"
| "json_members d 0 s = None"
| "json_members d (Suc n) s =
     (case skip_space s of [] \<Rightarrow> None | q # r \<Rightarrow>
        if q \<noteq> CHR 0x22 then None
        else (case json_chars r of None \<Rightarrow> None | Some (k, r) \<Rightarrow>
          (case skip_space r of [] \<Rightarrow> None | c # r \<Rightarrow>
             if c \<noteq> CHR '':'' then None
             else (case json_value d n r of None \<Rightarrow> None | Some (v, r) \<Rightarrow>
               (case skip_space r of [] \<Rightarrow> None | c # r \<Rightarrow>
                  if c = CHR '','' then map_option (apfst (Cons (k, v))) (json_members d n r)
                  else if c = CHR ''}'' then Some ([(k, v)], r)
                  else None)))))"

definition maxNestingDepth :: nat where "maxNestingDepth = 10000"

text \<open>A whole text: one value, and nothing after it but space.\<close>

definition json_parse :: "string \<Rightarrow> json option" where
  "json_parse s =
     (case json_value maxNestingDepth (2 * length s + 1) s of
        None \<Rightarrow> None
      | Some (v, r) \<Rightarrow> if skip_space r = [] then Some v else None)"

section \<open>Fields\<close>

text \<open>
  A member belongs to the field whose name folds to the same text. Of the runes that are not
  ASCII only U+017F and U+212A fold to an ASCII letter.
\<close>

fun fold_name :: "string \<Rightarrow> string" where
  "fold_name (a # b # c # s) =
     (if a = CHR 0xC5 \<and> b = CHR 0xBF then CHR ''S'' # fold_name (c # s)
      else if a = CHR 0xE2 \<and> b = CHR 0x84 \<and> c = CHR 0xAA then CHR ''K'' # fold_name s
      else (if byte_in 97 122 a then char_of (of_char a - 32 :: nat) else a) # fold_name (b # c # s))"
| "fold_name [a, b] =
     (if a = CHR 0xC5 \<and> b = CHR 0xBF then ''S''
      else (if byte_in 97 122 a then char_of (of_char a - 32 :: nat) else a) # fold_name [b])"
| "fold_name [a] = [if byte_in 97 122 a then char_of (of_char a - 32 :: nat) else a]"
| "fold_name [] = []"

definition names_field :: "string \<Rightarrow> string \<Rightarrow> bool" where
  "names_field field key \<longleftrightarrow> fold_name key = fold_name field"

text \<open>Decoding a value into a field that holds a string or an integer; \<open>null\<close> leaves it as it was.\<close>

definition string_field :: "string \<Rightarrow> json \<Rightarrow> string option" where
  "string_field old v = (case v of JString s \<Rightarrow> Some s | JNull \<Rightarrow> Some old | _ \<Rightarrow> None)"

definition int_field :: "int \<Rightarrow> json \<Rightarrow> int option" where
  "int_field old v = (case v of JNumber lit \<Rightarrow> parse_int64 lit | JNull \<Rightarrow> Some old | _ \<Rightarrow> None)"

text \<open>
  \<open>Unmarshal\<close> into a struct: a text that is not JSON is refused before anything is decoded, \<open>null\<close>
  changes nothing, and a member of the wrong type makes the whole call an error.
\<close>

definition unmarshal :: "('a \<Rightarrow> string \<times> json \<Rightarrow> 'a option) \<Rightarrow> 'a \<Rightarrow> string \<Rightarrow> 'a option" where
  "unmarshal member zero s =
     (case json_parse s of
        Some (JObject ms) \<Rightarrow> foldl (\<lambda>acc m. case acc of None \<Rightarrow> None | Some a \<Rightarrow> member a m) (Some zero) ms
      | Some JNull \<Rightarrow> Some zero
      | _ \<Rightarrow> None)"

section \<open>The bound on calls is never reached\<close>

lemma skip_space_length: "length (skip_space s) \<le> length s"
  by (simp add: skip_space_def length_dropWhile_le)

lemma json_chars_length: "json_chars s = Some (b, r) \<Longrightarrow> length r < length s"
proof (induction s arbitrary: b r rule: json_chars.induct)
  case (2 c t)
  show ?case using 2(4) 2(1,2,3)
    by (fastforce simp: Let_def split: if_splits option.splits prod.splits)
qed simp

lemma literal_length: "word \<noteq> [] \<Longrightarrow> literal word v s = Some (w, r) \<Longrightarrow> length r < length s"
  by (cases s) (auto simp: literal_def split: if_splits)

lemma digits_length: "length (snd (digits_of s)) \<le> length s"
  by (simp add: digits_of_def length_dropWhile_le)

lemma number_length:
  "number_int s = Some (p, r) \<Longrightarrow> length r < length s"
  "number_frac s = Some (p, r) \<Longrightarrow> length r \<le> length s"
  "number_exp s = Some (p, r) \<Longrightarrow> length r \<le> length s"
  using digits_length[of "tl s"] digits_length[of "tl (tl s)"] length_dropWhile_le[of is_decimal "tl s"]
  by (auto simp: number_int_def number_frac_def number_exp_def digits_of_def Let_def
      split: list.splits if_splits prod.splits)

lemma json_number_length:
  assumes "json_number s = Some (v, r)"
  shows "length r < length s"
proof -
  obtain sign s0 where s0: "(case s of [] \<Rightarrow> ([], []) | c # r \<Rightarrow> if c = CHR ''-'' then ([c], r) else ([], s)) = (sign, s0)"
    by force
  then obtain i s1 f s2 e where "number_int s0 = Some (i, s1)" "number_frac s1 = Some (f, s2)" "number_exp s2 = Some (e, r)"
    using assms unfolding json_number_def s0 by (auto split: option.splits)
  moreover have "length s0 \<le> length s" using s0 by (auto split: list.splits if_splits)
  ultimately show ?thesis
    using number_length(1)[of s0 i s1] number_length(2)[of s1 f s2] number_length(3)[of s2 e r] by linarith
qed

lemma json_length:
  "json_value d n s = Some (v, r) \<Longrightarrow> length r < length s"
  "json_elements d n s = Some (vs, r) \<Longrightarrow> length r < length s"
  "json_members d n s = Some (ms, r) \<Longrightarrow> length r < length s"
proof (induction d n s and d n s and d n s arbitrary: v r and vs r and ms r
    rule: json_value_json_elements_json_members.induct)
  case (2 d n s)
  show ?case
  proof (cases "skip_space s")
    case (Cons c t)
    have "length t < length s" using skip_space_length[of s] Cons by simp
    moreover have "length (drop 1 (skip_space t)) \<le> length t" using skip_space_length[of t] by simp
    ultimately show ?thesis
      using 2 Cons literal_length[of _ _ "c # t" v r] json_number_length[of "c # t" v r] json_chars_length[of t _ r]
      by (fastforce split: if_splits)
  qed (use 2 in simp)
next
  case (4 d n s)
  then obtain v r1 c r2 where v: "json_value d n s = Some (v, r1)" and c: "skip_space r1 = c # r2"
    by (auto split: option.splits list.splits)
  then have "length r2 < length s" using 4(1)[OF v] skip_space_length[of r1] by simp
  then show ?case using 4 v c by (fastforce split: if_splits)
next
  case (6 d n s)
  then obtain q t k r1 c r2 v r3 c3 r4 where q: "skip_space s = q # t" "q = CHR 0x22" "json_chars t = Some (k, r1)"
    "skip_space r1 = c # r2" "c = CHR '':''" "json_value d n r2 = Some (v, r3)" "skip_space r3 = c3 # r4"
    by (auto split: option.splits list.splits if_splits)
  moreover from q have "length r3 < length r2" using 6(1) by fastforce
  ultimately have "length r4 < length s"
    using skip_space_length[of s] json_chars_length[of t] skip_space_length[of r1] skip_space_length[of r3] by fastforce
  then show ?case using 6 q by (fastforce split: if_splits)
qed simp_all

lemma json_fuel:
  "2 * length s < n \<Longrightarrow> 2 * length s < m \<Longrightarrow> json_value d n s = json_value d m s"
  "2 * length s + 1 < n \<Longrightarrow> 2 * length s + 1 < m \<Longrightarrow> json_elements d n s = json_elements d m s"
  "2 * length s < n \<Longrightarrow> 2 * length s < m \<Longrightarrow> json_members d n s = json_members d m s"
proof (induction d n s and d n s and d n s arbitrary: m and m and m
    rule: json_value_json_elements_json_members.induct)
  case (2 d n s)
  obtain k where m: "m = Suc k" using 2(4) by (cases m) simp_all
  show ?case
  proof (cases "skip_space s")
    case (Cons c t)
    then have "length t < length s" using skip_space_length[of s] by simp
    have "json_members (d - 1) n t = json_members (d - 1) k t"
      if "c = CHR ''{''" "d \<noteq> 0" "take 1 (skip_space t) \<noteq> [CHR ''}'']"
      using 2(1)[OF Cons that, of k] \<open>length t < length s\<close> 2(3,4) m by simp
    moreover have "json_elements (d - 1) n t = json_elements (d - 1) k t"
      if "c = CHR ''[''" "d \<noteq> 0" "take 1 (skip_space t) \<noteq> [CHR '']'']"
      using 2(2)[OF Cons _ that, of k] \<open>length t < length s\<close> that(1) 2(3,4) m by simp
    ultimately show ?thesis unfolding m json_value.simps Cons by simp
  qed (use m in simp)
next
  case (4 d n s)
  obtain k where m: "m = Suc k" using 4(4) by (cases m) simp_all
  have v: "json_value d n s = json_value d k s" using 4(1)[of k] 4(3,4) m by simp
  have "json_elements d n r2 = json_elements d k r2"
    if "json_value d n s = Some (v, r1)" "skip_space r1 = c # r2" "c = CHR '',''" for v r1 c r2
    using 4(2)[OF that(1) refl that(2,3), of k] json_length(1)[OF that(1)] skip_space_length[of r1] that(2) 4(3,4) m by simp
  then show ?case unfolding m json_elements.simps v
    by (auto simp: v split: option.split list.split)
next
  case (6 d n s)
  obtain k where m: "m = Suc k" using 6(4) by (cases m) simp_all
  have short: "length r2 < length s" if "skip_space s = q # t" "json_chars t = Some (key, r1)" "skip_space r1 = c # r2"
    for q t key r1 c r2
    using that skip_space_length[of s] json_chars_length[OF that(2)] skip_space_length[of r1] by simp
  have v: "json_value d n r2 = json_value d k r2"
    if "skip_space s = q # t" "q = CHR 0x22" "json_chars t = Some (key, r1)" "skip_space r1 = c # r2" "c = CHR '':''"
    for q t key r1 c r2
    using 6(1)[OF that(1) _ that(3) refl that(4), of k] short[OF that(1,3,4)] that(2,5) 6(3,4) m by simp
  have "json_members d n r4 = json_members d k r4"
    if "skip_space s = q # t" "q = CHR 0x22" "json_chars t = Some (key, r1)" "skip_space r1 = c # r2" "c = CHR '':''"
      "json_value d n r2 = Some (w, r3)" "skip_space r3 = c3 # r4" "c3 = CHR '',''"
    for q t key r1 c r2 w r3 c3 r4
    using 6(2)[OF that(1) _ that(3) refl that(4) _ that(6) refl that(7,8), of k] short[OF that(1,3,4)]
      json_length(1)[OF that(6)] skip_space_length[of r3] that(2,5,7) 6(3,4) m by simp
  then show ?case using v m by (auto split: option.split list.split)
qed simp_all

lemma json_parse_fuel:
  assumes "2 * length s < n"
  shows "json_parse s = (case json_value maxNestingDepth n s of
      None \<Rightarrow> None | Some (v, r) \<Rightarrow> if skip_space r = [] then Some v else None)"
  using json_fuel(1)[OF assms, of "2 * length s + 1" maxNestingDepth] by (simp add: json_parse_def)

section \<open>Reading back what was written\<close>

lemma hex_value_digit: "n < 16 \<Longrightarrow> hex_value (hex_digit n) = Some n"
proof -
  have "list_all (\<lambda>n. hex_value (hex_digit n) = Some n) [0..<16]"
    by (simp add: upt_rec hex_digit_def hex_value_def)
  then show "n < 16 \<Longrightarrow> hex_value (hex_digit n) = Some n" by (simp add: list_all_iff)
qed

lemma json_chars_hex:
  assumes "is_ascii c"
  shows "json_chars (hex_escape (of_char c) @ t) = map_option (apfst (Cons c)) (json_chars t)"
proof -
  have c: "of_char c < (128 :: nat)" using assms by (simp add: is_ascii_def)
  then have d: "of_char c div 16 < (16 :: nat)" "of_char c mod 16 < (16 :: nat)" by auto
  have "hex_value CHR ''0'' = Some 0" by (simp add: hex_value_def)
  then have "hex4 (CHR ''0'' # CHR ''0'' # hex_digit (of_char c div 16) # hex_digit (of_char c mod 16) # t) = Some (of_char c)"
    by (simp add: hex_value_digit[OF d(1)] hex_value_digit[OF d(2)])
  then have "unicode_escape (CHR ''0'' # CHR ''0'' # hex_digit (of_char c div 16) # hex_digit (of_char c mod 16) # t) = Some ([c], 5)"
    using c by (simp add: unicode_escape_def utf8_encode_def)
  then have "json_unescape (CHR ''u'' # CHR ''0'' # CHR ''0'' # hex_digit (of_char c div 16) # hex_digit (of_char c mod 16) # t)
      = Some ([c], 5)"
    by (simp add: json_unescape_def)
  moreover have "append [c] = Cons c" by auto
  ultimately show ?thesis by (simp add: hex_escape_def)
qed

lemma json_chars_ascii_escape:
  assumes "is_ascii c"
  shows "json_chars (ascii_escape c @ t) = map_option (apfst (Cons c)) (json_chars t)"
proof -
  have [simp]: "append [x] = Cons x" for x :: char by auto
  show ?thesis
    using assms json_chars_hex[OF assms, of t] by (simp add: ascii_escape_def json_unescape_def)
qed

lemma json_chars_escape: "list_all is_ascii s \<Longrightarrow> json_chars (json_escape s @ CHR 0x22 # r) = Some (s, r)"
  by (induction s) (simp_all add: json_chars_ascii_escape)

lemma skip_space_char: "\<not> is_json_space c \<Longrightarrow> skip_space (c # s) = c # s"
  by (simp add: skip_space_def)

lemma json_value_quote:
  "list_all is_ascii s \<Longrightarrow> json_value d (Suc n) (json_quote s @ r) = Some (JString s, r)"
  by (simp add: json_quote_def skip_space_char is_json_space_def json_chars_escape)

lemma takeWhile_stop: "list_all P s \<Longrightarrow> \<not> P c \<Longrightarrow> takeWhile P (s @ c # r) = s \<and> dropWhile P (s @ c # r) = c # r"
  by (induction s) simp_all

lemma show_nat_first: "n \<noteq> 0 \<Longrightarrow> hd (show_nat n) \<noteq> CHR ''0''"
proof (induction n rule: show_nat.induct)
  case (1 n)
  have "decimal_digit n \<noteq> CHR ''0''" if "n < 10"
  proof -
    have "of_char (decimal_digit n) = 48 + n" using that by (rule decimal_digit_facts)
    then show ?thesis using 1(2) by auto
  qed
  then show ?case using 1 show_nat_decimal[of "n div 10"] by (simp add: show_nat.simps[of n])
qed

lemma number_int_show:
  assumes "\<not> is_decimal c"
  shows "number_int (show_nat n @ c # r) = Some (show_nat n, c # r)"
proof (cases "n = 0")
  case True
  have "char_of (48 :: nat) = CHR ''0''" by code_simp
  then show ?thesis using True by (simp add: number_int_def show_nat.simps decimal_digit_def)
next
  case False
  obtain a t where a: "show_nat n = a # t" using show_nat_decimal[of n] by (cases "show_nat n") auto
  have "a \<noteq> CHR ''0''" using show_nat_first[OF False] a by simp
  moreover have "is_decimal a" "list_all is_decimal (show_nat n)" using show_nat_decimal[of n] a by simp_all
  ultimately show ?thesis using takeWhile_stop[of is_decimal "show_nat n" c r] assms a
    by (simp add: number_int_def digits_of_def)
qed

lemma json_value_int:
  assumes "c = CHR '','' \<or> c = CHR ''}''"
  shows "json_value d (Suc n) (show_int i @ c # r) = Some (JNumber (show_int i), c # r)"
proof -
  have c: "\<not> is_decimal c" "number_frac (c # r) = Some ([], c # r)" "number_exp (c # r) = Some ([], c # r)"
    using assms by (auto simp: is_decimal_def byte_in_def number_frac_def number_exp_def)
  obtain a t where a: "show_nat (nat i) = a # t" "is_decimal a"
    using show_nat_decimal[of "nat i"] by (cases "show_nat (nat i)") auto
  have digit: "a \<noteq> CHR ''-''" "a \<noteq> CHR ''{''" "a \<noteq> CHR ''[''" "a \<noteq> CHR 0x22" "a \<noteq> CHR ''t''" "a \<noteq> CHR ''f''"
      "a \<noteq> CHR ''n''" "\<not> is_json_space a"
    using a(2) by (auto simp: is_decimal_def byte_in_def is_json_space_def)
  show ?thesis
  proof (cases "i < 0")
    case True
    then have s: "show_int i @ c # r = CHR ''-'' # show_nat (nat (- i)) @ c # r" using True by (simp add: show_int_def)
    have "json_number (CHR ''-'' # show_nat (nat (- i)) @ c # r) = Some (JNumber (show_int i), c # r)"
      using number_int_show[OF c(1), of "nat (- i)" r] c True by (simp add: json_number_def show_int_def)
    then show ?thesis unfolding s by (simp add: skip_space_char is_json_space_def)
  next
    case False
    then have s: "show_int i @ c # r = show_nat (nat i) @ c # r" by (simp add: show_int_def)
    have "json_number (show_nat (nat i) @ c # r) = Some (JNumber (show_int i), c # r)"
      using number_int_show[OF c(1), of "nat i" r] c False a digit(1)
      by (simp add: json_number_def show_int_def)
    then show ?thesis unfolding s using a digit by (simp add: skip_space_char)
  qed
qed

text \<open>One member of an object, before a comma and before the closing brace.\<close>

lemma json_member:
  assumes "list_all is_ascii k" "json_value d n t = Some (v, c # r)"
  shows "c = CHR '','' \<Longrightarrow>
      json_members d (Suc n) (json_quote k @ CHR '':'' # t) = map_option (apfst (Cons (k, v))) (json_members d n r)"
    and "c = CHR ''}'' \<Longrightarrow> json_members d (Suc n) (json_quote k @ CHR '':'' # t) = Some ([(k, v)], r)"
  using assms by (simp_all add: json_quote_def skip_space_char is_json_space_def json_chars_escape)

lemma json_object:
  assumes "json_members d n t = Some (ms, r)"
  shows "json_value (Suc d) (Suc n) (CHR ''{'' # t) = Some (JObject ms, r)"
proof -
  obtain q t' where "skip_space t = q # t'" "q = CHR 0x22"
    using assms by (cases n) (auto split: list.splits if_splits)
  then show ?thesis using assms by (simp add: skip_space_char is_json_space_def)
qed

end
