(* ===== verification/Auth_Token.thy ===== *)
theory Auth_Token
  imports Go_JSON Errors
begin

text \<open>
  Session tokens (\<open>internal/auth/token.go\<close>, \<open>internal/auth/context.go\<close>): compact JWTs signed with
  HMAC-SHA256. \<open>uuid.UUID.String\<close> and \<open>uuid.Parse\<close> belong to a library outside the repository and are
  the record \<open>UuidText\<close>.
\<close>

section \<open>Sessions\<close>

record UuidText =
  ut_String :: "uuid \<Rightarrow> string"
  ut_Parse :: "string \<Rightarrow> uuid option"

datatype auth_error =
    ErrInvalidToken
  | ErrSecretTooShort
  | ErrTTLNotPositive
  | ErrIssuerEmpty
  | ErrNilUserID
  | ErrNilDeviceID

record Session =
  se_UserID :: uuid
  se_DeviceID :: uuid
  se_Epoch :: int

text \<open>
  \<open>SessionFrom\<close> on what \<open>WithSession\<close> left on the context, or nothing.
\<close>

definition WithSession :: "Session option \<Rightarrow> Session \<Rightarrow> Session option" where
  "WithSession ctx sess = Some sess"

definition SessionFrom :: "Session option \<Rightarrow> Session option" where
  "SessionFrom ctx =
     (case ctx of None \<Rightarrow> None
      | Some sess \<Rightarrow> if se_UserID sess \<noteq> uuid_Nil \<and> se_DeviceID sess \<noteq> uuid_Nil then Some sess else None)"

section \<open>Claims\<close>

record claims =
  cl_Sub :: string
  cl_Exp :: int
  cl_Iat :: int
  cl_Iss :: string
  cl_Aud :: string
  cl_Ver :: int
  cl_Did :: string

definition no_claims :: claims where
  "no_claims = \<lparr>cl_Sub = [], cl_Exp = 0, cl_Iat = 0, cl_Iss = [], cl_Aud = [], cl_Ver = 0, cl_Did = []\<rparr>"

text \<open>\<open>json.Marshal\<close> on the struct: its fields in order, under the names of their tags.\<close>

definition marshal_claims :: "claims \<Rightarrow> string" where
  "marshal_claims c =
     CHR ''{'' # json_quote ''sub'' @ CHR '':'' # json_quote (cl_Sub c) @
     CHR '','' # json_quote ''exp'' @ CHR '':'' # show_int (cl_Exp c) @
     CHR '','' # json_quote ''iat'' @ CHR '':'' # show_int (cl_Iat c) @
     CHR '','' # json_quote ''iss'' @ CHR '':'' # json_quote (cl_Iss c) @
     CHR '','' # json_quote ''aud'' @ CHR '':'' # json_quote (cl_Aud c) @
     CHR '','' # json_quote ''ver'' @ CHR '':'' # show_int (cl_Ver c) @
     CHR '','' # json_quote ''did'' @ CHR '':'' # json_quote (cl_Did c) @ ''}''"

definition claims_member :: "claims \<Rightarrow> string \<times> json \<Rightarrow> claims option" where
  "claims_member c m =
     (let (k, v) = m in
      if names_field ''sub'' k then map_option (\<lambda>s. c\<lparr>cl_Sub := s\<rparr>) (string_field (cl_Sub c) v)
      else if names_field ''exp'' k then map_option (\<lambda>i. c\<lparr>cl_Exp := i\<rparr>) (int_field (cl_Exp c) v)
      else if names_field ''iat'' k then map_option (\<lambda>i. c\<lparr>cl_Iat := i\<rparr>) (int_field (cl_Iat c) v)
      else if names_field ''iss'' k then map_option (\<lambda>s. c\<lparr>cl_Iss := s\<rparr>) (string_field (cl_Iss c) v)
      else if names_field ''aud'' k then map_option (\<lambda>s. c\<lparr>cl_Aud := s\<rparr>) (string_field (cl_Aud c) v)
      else if names_field ''ver'' k then map_option (\<lambda>i. c\<lparr>cl_Ver := i\<rparr>) (int_field (cl_Ver c) v)
      else if names_field ''did'' k then map_option (\<lambda>s. c\<lparr>cl_Did := s\<rparr>) (string_field (cl_Did c) v)
      else Some c)"

definition unmarshal_claims :: "string \<Rightarrow> claims option" where
  "unmarshal_claims = unmarshal claims_member no_claims"

text \<open>The anonymous struct of \<open>Parse\<close> that holds the header's algorithm.\<close>

definition alg_member :: "string \<Rightarrow> string \<times> json \<Rightarrow> string option" where
  "alg_member alg m = (let (k, v) = m in if names_field ''alg'' k then string_field alg v else Some alg)"

definition unmarshal_alg :: "string \<Rightarrow> string option" where
  "unmarshal_alg = unmarshal alg_member []"

section \<open>The signer\<close>

definition header_text :: string where
  "header_text =
     CHR ''{'' # json_quote ''alg'' @ CHR '':'' # json_quote ''HS256'' @
     CHR '','' # json_quote ''typ'' @ CHR '':'' # json_quote ''JWT'' @ ''}''"

definition jwtHeader :: string where
  "jwtHeader = raw_url_encode header_text"

record Signer =
  sg_secret :: string
  sg_ttl :: int
  sg_issuer :: string

definition NewSigner :: "string \<Rightarrow> int \<Rightarrow> string \<Rightarrow> auth_error + Signer" where
  "NewSigner secret ttl issuer =
     (if length secret < 32 then Inl ErrSecretTooShort
      else if ttl \<le> 0 then Inl ErrTTLNotPositive
      else if issuer = [] then Inl ErrIssuerEmpty
      else Inr \<lparr>sg_secret = secret, sg_ttl = ttl, sg_issuer = issuer\<rparr>)"

text \<open>\<open>time.Time.Unix\<close>: whole seconds since 1970, for instants counted in nanoseconds from the year 1.\<close>

definition unix_seconds :: "time \<Rightarrow> int" where
  "unix_seconds t = t div 1000000000 - 62135596800"

definition Issue :: "UuidText \<Rightarrow> Signer \<Rightarrow> Session \<Rightarrow> time \<Rightarrow> auth_error + string \<times> time" where
  "Issue U s sess now =
     (if se_UserID sess = uuid_Nil then Inl ErrNilUserID
      else if se_DeviceID sess = uuid_Nil then Inl ErrNilDeviceID
      else
        let exp = now + sg_ttl s;
            payload = marshal_claims
              \<lparr>cl_Sub = ut_String U (se_UserID sess), cl_Exp = unix_seconds exp, cl_Iat = unix_seconds now,
               cl_Iss = sg_issuer s, cl_Aud = sg_issuer s, cl_Ver = se_Epoch sess,
               cl_Did = ut_String U (se_DeviceID sess)\<rparr>;
            signing = jwtHeader @ ''.'' @ raw_url_encode payload;
            sig = raw_url_encode (hmac_sha256 (sg_secret s) signing)
        in Inr (signing @ ''.'' @ sig, exp))"

definition parse_claims :: "UuidText \<Rightarrow> Signer \<Rightarrow> claims \<Rightarrow> time \<Rightarrow> auth_error + Session" where
  "parse_claims U s c now =
     (if cl_Exp c \<le> unix_seconds now then Inl ErrInvalidToken
      else if cl_Iss c \<noteq> sg_issuer s \<or> cl_Aud c \<noteq> sg_issuer s then Inl ErrInvalidToken
      else (case ut_Parse U (cl_Sub c) of None \<Rightarrow> Inl ErrInvalidToken | Some userID \<Rightarrow>
        if userID = uuid_Nil then Inl ErrInvalidToken
        else (case ut_Parse U (cl_Did c) of None \<Rightarrow> Inl ErrInvalidToken | Some deviceID \<Rightarrow>
          if deviceID = uuid_Nil then Inl ErrInvalidToken
          else Inr \<lparr>se_UserID = userID, se_DeviceID = deviceID, se_Epoch = cl_Ver c\<rparr>)))"

definition Parse :: "UuidText \<Rightarrow> Signer \<Rightarrow> string \<Rightarrow> time \<Rightarrow> auth_error + Session" where
  "Parse U s token now =
     (case split_at CHR ''.'' token of
        [h, p, g] \<Rightarrow>
          let want = hmac_sha256 (sg_secret s) (h @ ''.'' @ p) in
          (case raw_url_decode g of None \<Rightarrow> Inl ErrInvalidToken | Some got \<Rightarrow>
             if want \<noteq> got then Inl ErrInvalidToken
             else (case raw_url_decode h of None \<Rightarrow> Inl ErrInvalidToken | Some header \<Rightarrow>
               if unmarshal_alg header \<noteq> Some ''HS256'' then Inl ErrInvalidToken
               else (case raw_url_decode p of None \<Rightarrow> Inl ErrInvalidToken | Some payload \<Rightarrow>
                 (case unmarshal_claims payload of None \<Rightarrow> Inl ErrInvalidToken | Some c \<Rightarrow>
                    parse_claims U s c now))))
      | _ \<Rightarrow> Inl ErrInvalidToken)"

section \<open>Reading back a token that was issued\<close>

lemma json_quote_Cons: "\<exists>t. json_quote s = CHR 0x22 # t"
  by (simp add: json_quote_def)

lemma parse_object:
  assumes "json_members 9999 n t = Some (ms, [])" "2 * length t + 2 < Suc n"
  shows "json_parse (CHR ''{'' # t) = Some (JObject ms)"
proof -
  have "json_value maxNestingDepth (Suc n) (CHR ''{'' # t) = Some (JObject ms, [])"
    using json_object[OF assms(1)] by (simp add: maxNestingDepth_def)
  then show ?thesis using json_parse_fuel[of "CHR ''{'' # t" "Suc n"] assms(2) by (simp add: skip_space_def)
qed

definition readable :: "claims \<Rightarrow> bool" where
  "readable c \<longleftrightarrow> list_all is_ascii (cl_Sub c) \<and> list_all is_ascii (cl_Iss c) \<and> list_all is_ascii (cl_Aud c) \<and>
     list_all is_ascii (cl_Did c) \<and> list_all (\<lambda>i. min_int64 \<le> i \<and> i \<le> max_int64) [cl_Exp c, cl_Iat c, cl_Ver c]"

lemma ascii_names: "list_all is_ascii ''sub''" "list_all is_ascii ''exp''" "list_all is_ascii ''iat''" "list_all is_ascii ''iss''"
  "list_all is_ascii ''aud''" "list_all is_ascii ''ver''" "list_all is_ascii ''did''"
  by (simp_all add: is_ascii_def)

lemma members_of_claims:
  assumes "readable c"
  shows "json_members d (n + 8) (tl (marshal_claims c)) =
    Some ([(''sub'', JString (cl_Sub c)), (''exp'', JNumber (show_int (cl_Exp c))), (''iat'', JNumber (show_int (cl_Iat c))),
           (''iss'', JString (cl_Iss c)), (''aud'', JString (cl_Aud c)), (''ver'', JNumber (show_int (cl_Ver c))),
           (''did'', JString (cl_Did c))], [])"
  unfolding marshal_claims_def list.sel
  using assms unfolding readable_def
  by (simp add: eval_nat_numeral json_member[OF ascii_names(1) json_value_quote] json_member[OF ascii_names(2) json_value_int]
      json_member[OF ascii_names(3) json_value_int] json_member[OF ascii_names(4) json_value_quote]
      json_member[OF ascii_names(5) json_value_quote] json_member[OF ascii_names(6) json_value_int]
      json_member[OF ascii_names(7) json_value_quote] del: json_members.simps json_value.simps)

lemma length_claims: "8 \<le> length (tl (marshal_claims c))"
  by (simp add: marshal_claims_def json_quote_def)

lemma names_folded: "fold_name ''sub'' = ''SUB''" "fold_name ''exp'' = ''EXP''" "fold_name ''iat'' = ''IAT''"
  "fold_name ''iss'' = ''ISS''" "fold_name ''aud'' = ''AUD''" "fold_name ''ver'' = ''VER''" "fold_name ''did'' = ''DID''"
  "fold_name ''alg'' = ''ALG''" "fold_name ''typ'' = ''TYP''"
  by code_simp+

declare fold_name.simps [simp del]

lemma unmarshal_marshal:
  assumes "readable c"
  shows "unmarshal_claims (marshal_claims c) = Some c"
proof -
  define t where "t = tl (marshal_claims c)"
  have m: "marshal_claims c = CHR ''{'' # t" by (simp add: t_def marshal_claims_def)
  have "json_parse (CHR ''{'' # t) = Some (JObject
      [(''sub'', JString (cl_Sub c)), (''exp'', JNumber (show_int (cl_Exp c))), (''iat'', JNumber (show_int (cl_Iat c))),
       (''iss'', JString (cl_Iss c)), (''aud'', JString (cl_Aud c)), (''ver'', JNumber (show_int (cl_Ver c))),
       (''did'', JString (cl_Did c))])"
    using parse_object[OF members_of_claims[OF assms, of 9999 "2 * length t"]] by (simp add: t_def)
  then show ?thesis
    using assms unfolding m
    by (simp add: unmarshal_claims_def unmarshal_def claims_member_def no_claims_def names_field_def names_folded
        string_field_def int_field_def readable_def parse_int64_show)
qed

lemma unmarshal_header: "unmarshal_alg header_text = Some ''HS256''"
proof -
  have ascii: "list_all is_ascii ''alg''" "list_all is_ascii ''typ''" "list_all is_ascii ''HS256''" "list_all is_ascii ''JWT''"
    by (simp_all add: is_ascii_def)
  define t where "t = tl header_text"
  have m: "header_text = CHR ''{'' # t" by (simp add: t_def header_text_def)
  have "json_members 9999 (n + 3) t = Some ([(''alg'', JString ''HS256''), (''typ'', JString ''JWT'')], [])" for n
    unfolding t_def header_text_def list.sel
    by (simp add: eval_nat_numeral json_member[OF ascii(1) json_value_quote[OF ascii(3)]]
        json_member[OF ascii(2) json_value_quote[OF ascii(4)]] del: json_members.simps json_value.simps)
  then have "json_parse (CHR ''{'' # t) = Some (JObject [(''alg'', JString ''HS256''), (''typ'', JString ''JWT'')])"
    using parse_object[of "2 * length t + 3" t] by simp
  then show ?thesis unfolding m
    by (simp add: unmarshal_alg_def unmarshal_def alg_member_def names_field_def names_folded string_field_def)
qed

lemma split_at_append: "c \<notin> set a \<Longrightarrow> split_at c (a @ c # b) = a # split_at c b"
  by (induction a) auto

lemma split_at_last: "c \<notin> set a \<Longrightarrow> split_at c a = [a]"
  by (induction a) auto

text \<open>A signed token is accepted as far as its claims are.\<close>

lemma Parse_signed:
  assumes "h = jwtHeader" "p = raw_url_encode payload" "unmarshal_claims payload = Some c"
  shows "Parse U s (h @ ''.'' @ p @ ''.'' @ raw_url_encode (hmac_sha256 (sg_secret s) (h @ ''.'' @ p))) now =
    parse_claims U s c now"
proof -
  have "CHR ''.'' \<notin> set h" "CHR ''.'' \<notin> set p" using assms(1,2) raw_url_encode_no_dot by (simp_all add: jwtHeader_def)
  then have "split_at CHR ''.'' (h @ ''.'' @ p @ ''.'' @ raw_url_encode (hmac_sha256 (sg_secret s) (h @ ''.'' @ p))) =
      [h, p, raw_url_encode (hmac_sha256 (sg_secret s) (h @ ''.'' @ p))]"
    using raw_url_encode_no_dot by (simp add: split_at_append split_at_last)
  then show ?thesis
    using assms by (simp add: Parse_def raw_url_decode_encode jwtHeader_def unmarshal_header)
qed

text \<open>
  What the round trip needs of the UUID library: an identifier's text is ASCII and is read
  back as the identifier.
\<close>

definition text_of_uuid_ok :: "UuidText \<Rightarrow> uuid \<Rightarrow> bool" where
  "text_of_uuid_ok U k \<longleftrightarrow> list_all is_ascii (ut_String U k) \<and> ut_Parse U (ut_String U k) = Some k"

lemma Parse_issued:
  assumes "Issue U s sess now = Inr (token, exp)" "text_of_uuid_ok U (se_UserID sess)" "text_of_uuid_ok U (se_DeviceID sess)"
    "list_all is_ascii (sg_issuer s)" "min_int64 \<le> se_Epoch sess" "se_Epoch sess \<le> max_int64"
    "min_int64 \<le> unix_seconds now" "unix_seconds now \<le> max_int64" "min_int64 \<le> unix_seconds exp" "unix_seconds exp \<le> max_int64"
  shows "Parse U s token later = (if unix_seconds later < unix_seconds exp then Inr sess else Inl ErrInvalidToken)"
    "exp = now + sg_ttl s"
proof -
  let ?c = "\<lparr>cl_Sub = ut_String U (se_UserID sess), cl_Exp = unix_seconds exp, cl_Iat = unix_seconds now,
     cl_Iss = sg_issuer s, cl_Aud = sg_issuer s, cl_Ver = se_Epoch sess, cl_Did = ut_String U (se_DeviceID sess)\<rparr>"
  have nil: "se_UserID sess \<noteq> uuid_Nil" "se_DeviceID sess \<noteq> uuid_Nil"
    using assms(1) by (auto simp: Issue_def split: if_splits)
  show "exp = now + sg_ttl s" using assms(1) by (auto simp: Issue_def Let_def split: if_splits)
  then have "token = jwtHeader @ ''.'' @ raw_url_encode (marshal_claims ?c) @ ''.'' @
      raw_url_encode (hmac_sha256 (sg_secret s) (jwtHeader @ ''.'' @ raw_url_encode (marshal_claims ?c)))"
    using assms(1) nil by (simp add: Issue_def Let_def)
  moreover have "unmarshal_claims (marshal_claims ?c) = Some ?c"
    using assms by (intro unmarshal_marshal) (simp add: readable_def text_of_uuid_ok_def)
  ultimately have "Parse U s token later = parse_claims U s ?c later" using Parse_signed[OF refl refl] by simp
  then show "Parse U s token later = (if unix_seconds later < unix_seconds exp then Inr sess else Inl ErrInvalidToken)"
    using assms(2,3) nil by (simp add: parse_claims_def text_of_uuid_ok_def)
qed

text \<open>What a token that is accepted must be.\<close>

lemma Parse_genuine:
  assumes "Parse U s token now = Inr sess"
  shows "\<exists>h p g c payload. token = h @ ''.'' @ p @ ''.'' @ g \<and>
    raw_url_decode g = Some (hmac_sha256 (sg_secret s) (h @ ''.'' @ p)) \<and>
    raw_url_decode p = Some payload \<and> unmarshal_claims payload = Some c \<and>
    unix_seconds now < cl_Exp c \<and> cl_Iss c = sg_issuer s \<and> cl_Aud c = sg_issuer s \<and>
    ut_Parse U (cl_Sub c) = Some (se_UserID sess) \<and> ut_Parse U (cl_Did c) = Some (se_DeviceID sess) \<and>
    se_Epoch sess = cl_Ver c \<and> SessionFrom (WithSession ctx sess) = Some sess"
proof -
  have join: "split_at c t = [h, p, g] \<Longrightarrow> t = h @ c # p @ c # g" for c t h p g
  proof -
    have one: "split_at c t = [a] \<Longrightarrow> t = a" for t a
      by (induction t arbitrary: a) (auto split: if_splits list.splits)
    have two: "split_at c t = [a, b] \<Longrightarrow> t = a @ c # b" for t a b
      using one by (induction t arbitrary: a b) (auto split: if_splits list.splits)
    show "split_at c t = [h, p, g] \<Longrightarrow> t = h @ c # p @ c # g"
      using two by (induction t arbitrary: h p g) (auto split: if_splits list.splits)
  qed
  obtain h p g where parts: "split_at CHR ''.'' token = [h, p, g]"
    using assms by (auto simp: Parse_def split: list.splits)
  then obtain header payload c where "raw_url_decode g = Some (hmac_sha256 (sg_secret s) (h @ ''.'' @ p))"
    "raw_url_decode h = Some header" "raw_url_decode p = Some payload" "unmarshal_claims payload = Some c"
    "parse_claims U s c now = Inr sess"
    using assms by (auto simp: Parse_def split: option.splits if_splits)
  then show ?thesis using join[OF parts]
    by (intro exI[of _ h] exI[of _ p] exI[of _ g] exI[of _ c] exI[of _ payload])
      (auto simp: parse_claims_def SessionFrom_def WithSession_def split: option.splits if_splits)
qed

end
