(* ===== verification/API_Gate.thy ===== *)
theory API_Gate
  imports Auth_Token Authz User_Service
begin

text \<open>
  The two middlewares every operation passes (\<open>internal/api/middleware.go\<close>, \<open>internal/api/authz.go\<close>):
  \<open>requireBearer\<close> asks who is calling, \<open>requirePermission\<close> what they may do. The router, its
  context and the rendering of a refusal belong to the web framework; a refusal is its status,
  its code, the permission it names and the challenge header it carries.
\<close>

section \<open>Every operation has one rule\<close>

definition publicOperations :: "string list" where
  "publicOperations = [''health'', ''create-user'', ''create-session'', ''verify-session'',
     ''request-password-reset'', ''confirm-password-reset'']"

definition selfServiceOperations :: "string list" where
  "selfServiceOperations =
     [''get-me'', ''update-me'', ''get-user'', ''set-two-factor'', ''list-devices'', ''revoke-device'',
      ''list-login-events'', ''list-my-organizations'', ''list-my-invitations'', ''accept-invitation'',
      ''begin-email-change'', ''change-password'', ''sign-out-everywhere'', ''confirm-email-change'',
      ''decline-invitation'', ''leave-organization'', ''list-permission-catalog'', ''get-my-permissions'',
      ''set-avatar'', ''get-avatar'', ''delete-avatar'']"

record accessRule =
  ru_Permission :: permission
  ru_Scope :: Scope

abbreviation in_organization :: "permission \<Rightarrow> accessRule" where
  "in_organization p \<equiv> \<lparr>ru_Permission = p, ru_Scope = ScopeOrganization\<rparr>"

abbreviation in_system :: "permission \<Rightarrow> accessRule" where
  "in_system p \<equiv> \<lparr>ru_Permission = p, ru_Scope = ScopeSystem\<rparr>"

definition operationAccess :: "(string \<times> accessRule) list" where
  "operationAccess =
     [(''get-organization'', in_organization PermOrganizationRead),
      (''update-organization'', in_organization PermOrganizationUpdate),
      (''delete-organization'', in_organization PermOrganizationDelete),
      (''list-members'', in_organization PermMembersRead),
      (''add-member'', in_organization PermMembersInvite),
      (''invite-members'', in_organization PermMembersInvite),
      (''list-invitations'', in_organization PermMembersRead),
      (''reissue-invitation'', in_organization PermMembersInvite),
      (''withdraw-invitation'', in_organization PermMembersInvite),
      (''update-member-status'', in_organization PermMembersSuspend),
      (''remove-member'', in_organization PermMembersRemove),
      (''set-member-roles'', in_organization PermMembersRolesAssign),
      (''list-roles'', in_organization PermRolesRead),
      (''get-role'', in_organization PermRolesRead),
      (''create-role'', in_organization PermRolesCreate),
      (''update-role'', in_organization PermRolesUpdate),
      (''set-role-permissions'', in_organization PermRolesUpdate),
      (''delete-role'', in_organization PermRolesDelete),
      (''list-audit-events'', in_organization PermAuditRead),
      (''list-files'', in_organization PermFilesRead),
      (''get-file'', in_organization PermFilesRead),
      (''download-file'', in_organization PermFilesRead),
      (''upload-file'', in_organization PermFilesCreate),
      (''delete-file'', in_organization PermFilesDelete),
      (''list-platform-organizations'', in_system PermPlatformOrganizationsRead),
      (''create-platform-organization'', in_system PermPlatformOrganizationsCreate),
      (''delete-platform-organization'', in_system PermPlatformOrganizationsDelete),
      (''list-platform-users'', in_system PermPlatformUsersRead),
      (''suspend-platform-user'', in_system PermPlatformUsersSuspend),
      (''delete-platform-user'', in_system PermPlatformUsersDelete),
      (''appoint-organization-owner'', in_system PermPlatformOwnersAssign),
      (''list-system-roles'', in_system PermPlatformSystemRolesRead),
      (''grant-system-role'', in_system PermPlatformSystemRolesAssign),
      (''revoke-system-role'', in_system PermPlatformSystemRolesRemove),
      (''list-platform-audit-events'', in_system PermPlatformAuditRead)]"

section \<open>Contexts, refusals and the server\<close>

text \<open>
  The operation of the matched route (nothing when the framework has none), the request's headers
  and path parameters, the peer as \<open>clientInfo\<close> found it, and what middlewares put on the context.
\<close>

record ApiCtx =
  hc_Operation :: "string option"
  hc_Header :: "string \<Rightarrow> string"
  hc_Param :: "string \<Rightarrow> string"
  hc_client :: "string \<times> string"
  hc_session :: "Session option"
  hc_actor :: "AuditActor option"
  hc_grant :: "grant_ptr option"
  hc_locale :: string

record Refusal =
  rf_Status :: nat
  rf_Code :: string
  rf_Permission :: "permission option"
  rf_Challenge :: "string option"

text \<open>
  What the server was built with. Tokens, the account service and the authorizer may be absent;
  \<open>sv_negotiate\<close> is the catalog's choice of a language from the header and the account's preference.
\<close>

record ('u, 'a) Server =
  sv_APIName :: string
  sv_uuids :: UuidText
  sv_Tokens :: "Signer option"
  sv_Users :: "'u UserService option"
  sv_Authz :: "(Request \<Rightarrow> 'a \<Rightarrow> err + Grant) option"
  sv_negotiate :: "string \<Rightarrow> string \<Rightarrow> string"

definition unauthorized :: "('u, 'a) Server \<Rightarrow> Refusal" where
  "unauthorized S = \<lparr>rf_Status = 401, rf_Code = ''unauthorized'', rf_Permission = None,
     rf_Challenge = Some (''Bearer realm=\"'' @ sv_APIName S @ ''\"'')\<rparr>"

definition forbidden :: "permission \<Rightarrow> Refusal" where
  "forbidden required =
     (if required = [] then
        \<lparr>rf_Status = 403, rf_Code = ''forbidden'', rf_Permission = None, rf_Challenge = None\<rparr>
      else \<lparr>rf_Status = 403, rf_Code = ''forbidden_requires'', rf_Permission = Some required, rf_Challenge = None\<rparr>)"

definition plain_refusal :: "nat \<Rightarrow> string \<Rightarrow> Refusal" where
  "plain_refusal status code =
     \<lparr>rf_Status = status, rf_Code = code, rf_Permission = None, rf_Challenge = None\<rparr>"

section \<open>Who is calling\<close>

definition bearer_prefix :: string where "bearer_prefix = ''Bearer ''"

text \<open>
  \<open>strings.EqualFold\<close> with the prefix: none of its letters folds to a rune outside ASCII, so it is
  the comparison after lowering ASCII.
\<close>

definition has_bearer :: "string \<Rightarrow> bool" where
  "has_bearer header \<longleftrightarrow>
     length bearer_prefix \<le> length header \<and>
     map ascii_lower (take (length bearer_prefix) header) = map ascii_lower bearer_prefix"

definition requireBearer :: "('u, 'a) Server \<Rightarrow> time \<Rightarrow> 'u \<Rightarrow> ApiCtx \<Rightarrow> Refusal + ApiCtx" where
  "requireBearer S now users ctx =
     (if (case hc_Operation ctx of None \<Rightarrow> False | Some op \<Rightarrow> op \<in> set publicOperations) then Inr ctx
      else
        let header = hc_Header ctx ''Authorization'' in
        if \<not> has_bearer header then Inl (unauthorized S)
        else (case (sv_Tokens S, sv_Users S) of
          (Some tokens, Some accounts) \<Rightarrow>
            (case Parse (sv_uuids S) tokens (trim_space (drop (length bearer_prefix) header)) now of
               Inl _ \<Rightarrow> Inl (unauthorized S)
             | Inr sess \<Rightarrow>
                 (case AccountByID accounts (se_UserID sess) users of
                    Inl _ \<Rightarrow> Inl (unauthorized S)
                  | Inr u \<Rightarrow>
                      if u_SessionEpoch u \<noteq> se_Epoch sess then Inl (unauthorized S)
                      else if UserIsSuspended u then Inl (unauthorized S)
                      else (case AccountActiveDevice accounts (se_UserID sess) (se_DeviceID sess) users of
                        Inl _ \<Rightarrow> Inl (unauthorized S)
                      | Inr _ \<Rightarrow>
                          let (ip, agent) = hc_client ctx in
                          Inr (ctx\<lparr>hc_session := WithSession (hc_session ctx) sess,
                                   hc_actor := Some \<lparr>ac_ID = se_UserID sess, ac_IP = ip, ac_UserAgent = agent\<rparr>,
                                   hc_locale := (if u_Locale u = [] then hc_locale ctx
                                     else sv_negotiate S (hc_Header ctx ''Accept-Language'') (u_Locale u))\<rparr>))))
        | _ \<Rightarrow> Inl (unauthorized S)))"

section \<open>What they may do\<close>

definition denyAuthorization :: "accessRule \<Rightarrow> err \<Rightarrow> Refusal" where
  "denyAuthorization rule e =
     (if e = AuthzErr ErrNotMember then plain_refusal 404 ''not_found''
      else if e = AuthzErr ErrForbidden then forbidden (ru_Permission rule)
      else if e = AuthzErr ErrScopeMismatch \<or> e = AuthzErr ErrUnknownPermission then forbidden (ru_Permission rule)
      else plain_refusal 500 ''internal'')"

definition requirePermission :: "('u, 'a) Server \<Rightarrow> 'a \<Rightarrow> ApiCtx \<Rightarrow> Refusal + ApiCtx" where
  "requirePermission S store ctx =
     (case hc_Operation ctx of
        None \<Rightarrow> Inl (forbidden [])
      | Some op \<Rightarrow>
          if op \<in> set publicOperations \<or> op \<in> set selfServiceOperations then Inr ctx
          else (case map_of operationAccess op of
            None \<Rightarrow> Inl (forbidden [])
          | Some rule \<Rightarrow>
              (case SessionFrom (hc_session ctx) of
                 None \<Rightarrow> Inl (unauthorized S)
               | Some sess \<Rightarrow>
                   (case (if ru_Scope rule = ScopeOrganization then ut_Parse (sv_uuids S) (hc_Param ctx ''orgID'')
                          else Some uuid_Nil) of
                      None \<Rightarrow> Inl (plain_refusal 400 ''invalid_organization_id'')
                    | Some orgID \<Rightarrow>
                        (case sv_Authz S of
                           None \<Rightarrow> Inl (forbidden (ru_Permission rule))
                         | Some authorize \<Rightarrow>
                             (case authorize \<lparr>rq_Actor = se_UserID sess, rq_Org = orgID,
                                              rq_Permission = ru_Permission rule\<rparr> store of
                                Inl e \<Rightarrow> Inl (denyAuthorization rule e)
                              | Inr grant \<Rightarrow> Inr (ctx\<lparr>hc_grant := Some (Some grant)\<rparr>)))))))"

text \<open>The chain an operation's handler runs behind, in the order \<open>UseMiddleware\<close> is given.\<close>

definition gate :: "('u, 'a) Server \<Rightarrow> time \<Rightarrow> 'u \<Rightarrow> 'a \<Rightarrow> ApiCtx \<Rightarrow> Refusal + ApiCtx" where
  "gate S now users store ctx =
     (case requireBearer S now users ctx of
        Inl r \<Rightarrow> Inl r
      | Inr ctx \<Rightarrow> requirePermission S store ctx)"

end
