(* ===== verification/API_Memory.thy ===== *)
theory API_Memory
  imports API_Gate Authz_Memory Users_Memory
begin

text \<open>
  The gate over the in-memory stores: what its two halves come down to, and why a session that
  has ended stays ended.
\<close>

definition mem_server ::
    "string \<Rightarrow> UuidText \<Rightarrow> Signer \<Rightarrow> Users UserService \<Rightarrow> (string \<Rightarrow> string \<Rightarrow> string) \<Rightarrow> (Users, AuthzStore) Server" where
  "mem_server name U signer accounts negotiate =
     \<lparr>sv_APIName = name, sv_uuids = U, sv_Tokens = Some signer, sv_Users = Some accounts,
      sv_Authz = Some (Authorize mem_authz_repo), sv_negotiate = negotiate\<rparr>"

section \<open>The tables\<close>

lemma operations_apart:
  "distinct (publicOperations @ selfServiceOperations @ map fst operationAccess)"
  by code_simp

lemma rules_in_scope: "list_all (\<lambda>(op, rule). ru_Permission rule \<in> set (InScope (ru_Scope rule))) operationAccess"
  by code_simp

lemma rule_scope: "map_of operationAccess op = Some rule \<Longrightarrow> ru_Permission rule \<in> set (InScope (ru_Scope rule))"
  using rules_in_scope by (auto simp: list_all_iff dest!: map_of_SomeD)

lemma self_service_not_public: "op \<in> set selfServiceOperations \<Longrightarrow> op \<notin> set publicOperations"
  "map_of operationAccess op = Some rule \<Longrightarrow> op \<notin> set publicOperations \<and> op \<notin> set selfServiceOperations"
  using operations_apart by (auto dest!: map_of_SomeD) (metis disjoint_iff fst_conv image_eqI UnCI)+

section \<open>Who is calling\<close>

text \<open>A session that still stands: of a live account that is not suspended, of its epoch, from a device
  of its own that is not revoked.\<close>

definition session_stands :: "Users \<Rightarrow> Session \<Rightarrow> bool" where
  "session_stands u sess \<longleftrightarrow>
     (\<exists>acct dv. mem_account u (se_UserID sess) = Some acct \<and> u_SessionEpoch acct = se_Epoch sess \<and> \<not> UserIsSuspended acct \<and>
        map_of (us_devices u) (se_DeviceID sess) = Some dv \<and> dv_UserID dv = se_UserID sess \<and> \<not> DeviceIsRevoked dv)"

text \<open>The session a request presents: a bearer token the signer accepts.\<close>

definition presented :: "('u, 'a) Server \<Rightarrow> time \<Rightarrow> ApiCtx \<Rightarrow> Session option" where
  "presented S now ctx =
     (let header = hc_Header ctx ''Authorization'' in
      case sv_Tokens S of
        None \<Rightarrow> None
      | Some tokens \<Rightarrow>
          if \<not> has_bearer header then None
          else (case Parse (sv_uuids S) tokens (trim_space (drop (length bearer_prefix) header)) now of
            Inl _ \<Rightarrow> None | Inr sess \<Rightarrow> Some sess))"

definition is_public :: "ApiCtx \<Rightarrow> bool" where
  "is_public ctx \<longleftrightarrow> (\<exists>op. hc_Operation ctx = Some op \<and> op \<in> set publicOperations)"

lemma AccountByID_mem:
  "AccountByID (mem_accounts l k p d) userID u =
     (case mem_account u userID of None \<Rightarrow> Inl user_not_found | Some acct \<Rightarrow> Inr acct)"
  by (simp add: AccountByID_def UsersByID_ok)

lemma AccountActiveDevice_mem:
  "AccountActiveDevice (mem_accounts l k p d) userID deviceID u = Inr dv \<longleftrightarrow>
     map_of (us_devices u) deviceID = Some dv \<and> dv_UserID dv = userID \<and> \<not> DeviceIsRevoked dv"
  by (auto simp: AccountActiveDevice_def UsersActiveDevice_def split: option.splits)

lemma requireBearer_public: "is_public ctx \<Longrightarrow> requireBearer S now u ctx = Inr ctx"
  by (auto simp: requireBearer_def is_public_def)

text \<open>The context the handler gets.\<close>

definition admitted :: "('u, 'a) Server \<Rightarrow> Session \<Rightarrow> User \<Rightarrow> ApiCtx \<Rightarrow> ApiCtx" where
  "admitted S sess u ctx =
     ctx\<lparr>hc_session := Some sess,
         hc_actor := Some \<lparr>ac_ID = se_UserID sess, ac_IP = fst (hc_client ctx), ac_UserAgent = snd (hc_client ctx)\<rparr>,
         hc_locale := (if u_Locale u = [] then hc_locale ctx
           else sv_negotiate S (hc_Header ctx ''Accept-Language'') (u_Locale u))\<rparr>"

lemma requireBearer_presented:
  assumes "\<not> is_public ctx"
  shows "requireBearer (mem_server name U signer accounts negotiate) now u ctx =
    (case presented (mem_server name U signer accounts negotiate) now ctx of
       None \<Rightarrow> Inl (unauthorized (mem_server name U signer accounts negotiate))
     | Some sess \<Rightarrow>
         (case AccountByID accounts (se_UserID sess) u of
            Inl _ \<Rightarrow> Inl (unauthorized (mem_server name U signer accounts negotiate))
          | Inr acct \<Rightarrow>
              if u_SessionEpoch acct \<noteq> se_Epoch sess \<or> UserIsSuspended acct \<or>
                (\<exists>e. AccountActiveDevice accounts (se_UserID sess) (se_DeviceID sess) u = Inl e)
              then Inl (unauthorized (mem_server name U signer accounts negotiate))
              else Inr (admitted (mem_server name U signer accounts negotiate) sess acct ctx)))"
proof -
  have public: "\<not> (case hc_Operation ctx of None \<Rightarrow> False | Some op \<Rightarrow> op \<in> set publicOperations)"
    using assms by (auto simp: is_public_def split: option.splits)
  show ?thesis
    unfolding requireBearer_def if_not_P[OF public] presented_def
    by (simp add: mem_server_def Let_def WithSession_def admitted_def case_prod_unfold split: sum.split)
qed

lemma requireBearer_mem:
  fixes name U signer l k p d negotiate
  defines "S \<equiv> mem_server name U signer (mem_accounts l k p d) negotiate"
  assumes "\<not> is_public ctx"
  shows "requireBearer S now u ctx =
    (case presented S now ctx of
       None \<Rightarrow> Inl (unauthorized S)
     | Some sess \<Rightarrow>
         if session_stands u sess
         then Inr (admitted S sess (the (mem_account u (se_UserID sess))) ctx)
         else Inl (unauthorized S))"
proof -
  have dev: "(\<exists>e. AccountActiveDevice (mem_accounts l k p d) j i u = Inl e) \<longleftrightarrow>
      \<not> (\<exists>dv. map_of (us_devices u) i = Some dv \<and> dv_UserID dv = j \<and> \<not> DeviceIsRevoked dv)" for j i
    using AccountActiveDevice_mem[of l k p d j i u] by (cases "AccountActiveDevice (mem_accounts l k p d) j i u") auto
  show ?thesis
    unfolding S_def requireBearer_presented[OF assms(2)] dev
    by (simp add: AccountByID_mem session_stands_def split: option.split)
qed

section \<open>What they may do\<close>

text \<open>What the operation asks of the session's account.\<close>

definition may_run :: "UuidText \<Rightarrow> AuthzStore \<Rightarrow> ApiCtx \<Rightarrow> uuid \<Rightarrow> bool" where
  "may_run U m ctx userID \<longleftrightarrow>
     (\<exists>op. hc_Operation ctx = Some op \<and>
       (op \<in> set selfServiceOperations \<or>
        (\<exists>rule. map_of operationAccess op = Some rule \<and>
          (case ru_Scope rule of
             ScopeOrganization \<Rightarrow> \<exists>org. ut_Parse U (hc_Param ctx ''orgID'') = Some org \<and> org \<noteq> uuid_Nil \<and>
               mem_active m userID org \<and> ru_Permission rule \<in> mem_keys m userID org
           | ScopeSystem \<Rightarrow> RolePlatformAdmin \<in> mem_system_keys m userID))))"

lemma rule_exclusive:
  "map_of operationAccess op = Some rule \<Longrightarrow> ru_Scope rule = ScopeOrganization \<Longrightarrow>
     ru_Permission rule \<in> set (InScope ScopeOrganization) \<and> ru_Permission rule \<notin> set (InScope ScopeSystem)"
  "map_of operationAccess op = Some rule \<Longrightarrow> ru_Scope rule = ScopeSystem \<Longrightarrow>
     ru_Permission rule \<in> set (InScope ScopeSystem) \<and> ru_Permission rule \<notin> set (InScope ScopeOrganization)"
  using rule_scope by (fastforce simp: InScope_iff)+

lemma requirePermission_mem:
  assumes "authz_wf m" "\<not> is_public ctx" "hc_session ctx = Some sess" "SessionFrom (Some sess) = Some sess"
  shows "(\<exists>ctx'. requirePermission (mem_server name U signer accounts negotiate) m ctx = Inr ctx') \<longleftrightarrow>
    may_run U m ctx (se_UserID sess)"
proof (cases "hc_Operation ctx")
  case None
  then show ?thesis by (simp add: requirePermission_def may_run_def)
next
  case (Some op)
  then have pub: "op \<notin> set publicOperations" using assms(2) by (simp add: is_public_def)
  show ?thesis
  proof (cases "op \<in> set selfServiceOperations")
    case True
    then show ?thesis using Some by (simp add: requirePermission_def may_run_def)
  next
    case self: False
    show ?thesis
    proof (cases "map_of operationAccess op")
      case None
      then show ?thesis using Some pub self by (simp add: requirePermission_def may_run_def)
    next
      case rule: (Some rule)
      let ?req = "\<lambda>org. \<lparr>rq_Actor = se_UserID sess, rq_Org = org, rq_Permission = ru_Permission rule\<rparr>"
      have auth: "(\<exists>g. Authorize mem_authz_repo (?req org) m = Inr g) \<longleftrightarrow>
          (ru_Permission rule \<in> set (InScope ScopeOrganization) \<and> org \<noteq> uuid_Nil \<and> mem_active m (se_UserID sess) org \<and>
             ru_Permission rule \<in> mem_keys m (se_UserID sess) org) \<or>
          (ru_Permission rule \<in> set (InScope ScopeSystem) \<and> org = uuid_Nil \<and>
             RolePlatformAdmin \<in> mem_system_keys m (se_UserID sess))" for org
        using Authorize_granted[OF assms(1), of "?req org"] by simp
      have run: "(\<exists>ctx'. requirePermission (mem_server name U signer accounts negotiate) m ctx = Inr ctx') \<longleftrightarrow>
          (case (if ru_Scope rule = ScopeOrganization then ut_Parse U (hc_Param ctx ''orgID'') else Some uuid_Nil) of
             None \<Rightarrow> False | Some org \<Rightarrow> \<exists>g. Authorize mem_authz_repo (?req org) m = Inr g)"
        using Some pub self rule assms(3,4)
        by (auto simp: requirePermission_def mem_server_def split: option.splits sum.splits)
      show ?thesis unfolding run
        using Some pub self rule rule_exclusive[OF rule]
        by (cases "ru_Scope rule") (auto simp: may_run_def auth split: option.splits)
    qed
  qed
qed

lemma admitted_sel:
  "hc_Operation (admitted S sess acct ctx) = hc_Operation ctx" "hc_Param (admitted S sess acct ctx) = hc_Param ctx"
  "hc_session (admitted S sess acct ctx) = Some sess" "is_public (admitted S sess acct ctx) = is_public ctx"
  by (simp_all add: admitted_def is_public_def)

lemma may_run_admitted: "may_run U m (admitted S sess acct ctx) userID = may_run U m ctx userID"
  unfolding may_run_def admitted_sel ..

lemma presented_usable: "presented S now ctx = Some sess \<Longrightarrow> SessionFrom (Some sess) = Some sess"
  using Parse_genuine[of "sv_uuids S" _ _ now sess]
  by (fastforce simp: presented_def Let_def WithSession_def split: option.splits if_splits sum.splits)

section \<open>A session that has ended\<close>

text \<open>What ends the sessions of an epoch: the account is gone, or has moved on to a later one.\<close>

definition epoch_over :: "Users \<Rightarrow> uuid \<Rightarrow> int \<Rightarrow> bool" where
  "epoch_over u userID epoch \<longleftrightarrow>
     (\<exists>acct. map_of (us_users u) userID = Some acct \<and> (UserIsDeleted acct \<or> epoch < u_SessionEpoch acct))"

definition device_out :: "Users \<Rightarrow> uuid \<Rightarrow> bool" where
  "device_out u deviceID \<longleftrightarrow> (\<exists>dv. map_of (us_devices u) deviceID = Some dv \<and> DeviceIsRevoked dv)"

lemma epoch_over_forward: "(user_step stale)\<^sup>*\<^sup>* u u' \<Longrightarrow> epoch_over u userID epoch \<Longrightarrow> epoch_over u' userID epoch"
  using steps_accounts[of stale u u'] unfolding epoch_over_def rows_forward_def account_forward_def
  by (meson order.strict_trans2)

lemma device_out_forward: "(user_step stale)\<^sup>*\<^sup>* u u' \<Longrightarrow> device_out u deviceID \<Longrightarrow> device_out u' deviceID"
  using steps_devices_forward[of stale u u'] unfolding device_out_def rows_forward_def device_forward_def
  by meson

lemma epoch_over_ends: "epoch_over u (se_UserID sess) epoch \<Longrightarrow> se_Epoch sess \<le> epoch \<Longrightarrow> \<not> session_stands u sess"
  by (auto simp: epoch_over_def session_stands_def mem_account_Some)

lemma device_out_ends: "device_out u (se_DeviceID sess) \<Longrightarrow> \<not> session_stands u sess"
  by (auto simp: device_out_def session_stands_def)

lemma epoch_over_account:
  "mem_account u' userID = Some acct \<Longrightarrow> epoch < u_SessionEpoch acct \<Longrightarrow> epoch_over u' userID epoch"
  by (auto simp: epoch_over_def mem_account_Some)

text \<open>The calls that end them.\<close>

lemma ChangePassword_ends:
  assumes "accounts_wf u" "mem_account u userID = Some acct"
    "ChangePassword (mem_accounts l k p d) c userID current pw confirm u = (Inr (), u')"
  shows "epoch_over u' userID (u_SessionEpoch acct)"
  using mem_store.ChangePassword_effect[OF assms(1,3)] assms(2) by (auto intro!: epoch_over_account)

lemma CompletePasswordReset_ends:
  assumes "accounts_wf u" "mem_account u userID = Some acct" "NormalizeEmail l email = u_Email acct"
    "CompletePasswordReset (mem_accounts l k p d) c email code pw confirm u = (Inr (), u')"
  shows "epoch_over u' userID (u_SessionEpoch acct)"
proof -
  obtain v h where v: "mem_account u (u_ID v) = Some v" "u_Email v = u_Email acct"
    and after: "mem_account u' = (mem_account u)(u_ID v \<mapsto> v\<lparr>u_PasswordHash := h, u_SessionEpoch := u_SessionEpoch v + 1\<rparr>)"
    using mem_store.CompletePasswordReset_effect[OF assms(1,4)] assms(3) by auto
  have "v = acct"
    using UsersByEmail_complete[OF accounts_wfD(2)[OF assms(1)] v(1)]
      UsersByEmail_complete[OF accounts_wfD(2)[OF assms(1)] assms(2)] v(2) by (metis sum.inject(2))
  moreover have "u_ID acct = userID"
    using rows_ok_id[OF accounts_wfD(3)[OF assms(1)]] assms(2) by (auto simp: mem_account_Some)
  ultimately show ?thesis using after by (auto intro!: epoch_over_account)
qed

lemma account_writes_end:
  assumes "mem_account u userID = Some acct"
  shows "SignOutEverywhere (mem_accounts l k p d) userID u = (Inr (), u') \<Longrightarrow> epoch_over u' userID (u_SessionEpoch acct)"
    and "Suspend (mem_accounts l k p d) c userID True u = (Inr (), u') \<Longrightarrow> epoch_over u' userID (u_SessionEpoch acct)"
    and "AccountDelete (mem_accounts l k p d) c userID u = (Inr (), u') \<Longrightarrow> epoch_over u' userID (u_SessionEpoch acct)"
  using assms
  by (auto simp: SignOutEverywhere_def Suspend_def AccountDelete_def account_ops with_user_def ok_def refuse_def Let_def
      mem_account_Some epoch_over_def amap_simps UserDelete_ok UserIsDeleted_def split: sum.splits if_splits)

lemma AccountRevokeDevice_ends:
  "AccountRevokeDevice (mem_accounts l k p d) c userID deviceID u = (Inr (), u') \<Longrightarrow> device_out u' deviceID"
  by (auto simp: AccountRevokeDevice_def UsersRevokeDevice_def DeviceRevoke_def ok_def refuse_def device_out_def
      amap_simps DeviceIsRevoked_def split: option.splits if_splits)

lemma gate_refuses:
  assumes "\<not> is_public ctx" "\<And>sess. presented (mem_server name U signer (mem_accounts l k p d) negotiate) now ctx = Some sess \<Longrightarrow>
      \<not> session_stands u sess"
  shows "gate (mem_server name U signer (mem_accounts l k p d) negotiate) now u m ctx =
    Inl (unauthorized (mem_server name U signer (mem_accounts l k p d) negotiate))"
  using requireBearer_mem[OF assms(1), of name U signer l k p d negotiate now u] assms(2)
  by (simp add: gate_def split: option.split)

end
