(* ===== verification/Go_Bytes.thy ===== *)
theory Go_Bytes
  imports Go_Strings
begin

text \<open>
  More of Go's \<open>strings\<close> and \<open>bytes\<close>, with what the program uses of \<open>unicode/utf8\<close> and \<open>path\<close>:
  searching, prefixes, the value of a rune, the base name and the extension of a path. The table of
  printable runes above ASCII is a parameter.
\<close>

section \<open>Searching\<close>

definition last_index :: "char \<Rightarrow> string \<Rightarrow> nat option" where
  "last_index c s = (if c \<in> set s then Some (length s - 1 - length (takeWhile (\<lambda>x. x \<noteq> c) (rev s))) else None)"

definition first_index :: "char \<Rightarrow> string \<Rightarrow> nat option" where
  "first_index c s = (if c \<in> set s then Some (length (takeWhile (\<lambda>x. x \<noteq> c) s)) else None)"

definition has_prefix :: "string \<Rightarrow> string \<Rightarrow> bool" where
  "has_prefix s p \<longleftrightarrow> take (length p) s = p"

definition has_suffix :: "string \<Rightarrow> string \<Rightarrow> bool" where
  "has_suffix s p \<longleftrightarrow> length p \<le> length s \<and> drop (length s - length p) s = p"

text \<open>\<open>strings.Contains\<close>.\<close>

fun contains :: "string \<Rightarrow> string \<Rightarrow> bool" where
  "contains [] p \<longleftrightarrow> p = []"
| "contains (c # s) p \<longleftrightarrow> has_prefix (c # s) p \<or> contains s p"

lemma contains_iff: "contains s p \<longleftrightarrow> (\<exists>a b. s = a @ p @ b)"
proof (induction s)
  case (Cons c s)
  have "has_prefix (c # s) p \<longleftrightarrow> (\<exists>b. c # s = p @ b)"
    unfolding has_prefix_def by (metis append_eq_conv_conj append_take_drop_id)
  moreover have "(\<exists>a b. c # s = a @ p @ b) \<longleftrightarrow> (\<exists>b. c # s = p @ b) \<or> (\<exists>a b. s = a @ p @ b)"
    by (metis append_Cons append_Nil list.inject neq_Nil_conv)
  ultimately show ?case using Cons by simp
qed auto

text \<open>\<open>strings.Cut(s, ";")\<close>, the part before: everything when the byte does not occur.\<close>

definition before_byte :: "char \<Rightarrow> string \<Rightarrow> string" where
  "before_byte c s = takeWhile (\<lambda>x. x \<noteq> c) s"

section \<open>Runes\<close>

definition rune_value :: "string \<Rightarrow> nat" where
  "rune_value s =
     (let b = (\<lambda>k. of_char (s ! k) :: nat) in
      case rune_width s of
        Suc (Suc 0) \<Rightarrow> b 0 mod 32 * 64 + b 1 mod 64
      | Suc (Suc (Suc 0)) \<Rightarrow> b 0 mod 16 * 4096 + b 1 mod 64 * 64 + b 2 mod 64
      | Suc (Suc (Suc (Suc 0))) \<Rightarrow> b 0 mod 8 * 262144 + b 1 mod 64 * 4096 + b 2 mod 64 * 64 + b 3 mod 64
      | _ \<Rightarrow> b 0)"

text \<open>A rune is decoded when it is ASCII or takes more than one byte; every other byte is \<open>RuneError\<close>.\<close>

definition rune_ok :: "string \<Rightarrow> bool" where
  "rune_ok s \<longleftrightarrow> s \<noteq> [] \<and> (is_ascii (hd s) \<or> 1 < rune_width s)"

text \<open>Every rune of the string decodes and satisfies a predicate.\<close>

function all_runes :: "(nat \<Rightarrow> bool) \<Rightarrow> string \<Rightarrow> bool" where
  "all_runes P s \<longleftrightarrow>
     (if s = [] then True
      else if \<not> rune_ok s then False
      else P (rune_value s) \<and> all_runes P (drop (rune_width s) s))"
  by pat_completeness auto
termination
  by (relation "measure (length \<circ> snd)") (auto intro!: diff_less rune_width_pos)

declare all_runes.simps [simp del]

lemma all_runes_Nil [simp]: "all_runes P []"
  by (simp add: all_runes.simps)

lemma all_runes_step:
  "s \<noteq> [] \<Longrightarrow> all_runes P s \<longleftrightarrow> rune_ok s \<and> P (rune_value s) \<and> all_runes P (drop (rune_width s) s)"
  by (subst all_runes.simps) simp

text \<open>\<open>utf8.Valid\<close>.\<close>

definition utf8_valid :: "string \<Rightarrow> bool" where
  "utf8_valid s \<longleftrightarrow> all_runes (\<lambda>_. True) s"

lemma all_runes_mono: "all_runes P s \<Longrightarrow> (\<And>r. P r \<Longrightarrow> Q r) \<Longrightarrow> all_runes Q s"
proof (induction P s rule: all_runes.induct)
  case (1 P s)
  show ?case
  proof (cases "s = []")
    case False
    then have "rune_ok s" "P (rune_value s)" "all_runes P (drop (rune_width s) s)"
      using "1.prems"(1) by (simp_all add: all_runes_step)
    then show ?thesis using "1.IH" "1.prems"(2) False by (simp add: all_runes_step)
  qed simp
qed

lemma rune_value_ascii: "is_ascii c \<Longrightarrow> rune_value (c # s) = of_char c"
  by (simp add: rune_value_def rune_width_ascii)

lemma all_runes_ascii: "list_all is_ascii s \<Longrightarrow> all_runes P s \<longleftrightarrow> list_all (\<lambda>c. P (of_char c)) s"
  by (induction s) (simp_all add: all_runes_step rune_ok_def rune_width_ascii rune_value_ascii)

text \<open>A byte below the ASCII bound is a rune of its own wherever it stands.\<close>

lemma ascii_not_in: "is_ascii c \<Longrightarrow> 128 \<le> lo \<Longrightarrow> \<not> byte_in lo hi c"
  by (simp add: is_ascii_def byte_in_def)

lemma ascii_ends_rune: "is_ascii (s ! k) \<Longrightarrow> k < length s \<Longrightarrow> rune_width s \<le> max 1 k"
proof -
  assume asc: "is_ascii (s ! k)" and k: "k < length s"
  have "rune_width s \<le> 4" by (cases s rule: rune_width.cases) simp_all
  then consider "k = 0" | "k = 1" | "k = 2" | "k = 3" | "rune_width s \<le> k" by linarith
  then show ?thesis
  proof cases
    case 1
    then show ?thesis using asc k rune_width_ascii[of "hd s" "tl s"] by (cases s) simp_all
  next
    case 2
    then show ?thesis using asc k by (cases s rule: rune_width.cases) (simp_all add: ascii_not_in)
  next
    case 3
    then show ?thesis using asc k by (cases s rule: rune_width.cases) (simp_all add: ascii_not_in)
  next
    case 4
    then show ?thesis using asc k by (cases s rule: rune_width.cases) (simp_all add: ascii_not_in)
  qed simp
qed

lemma wide_rune_high: "1 < rune_width s \<Longrightarrow> k < rune_width s \<Longrightarrow> \<not> is_ascii (s ! k)"
  using ascii_ends_rune[of s k] rune_width_le[of s] by (auto simp: max_def split: if_splits)

lemma all_runes_byte: "all_runes P s \<Longrightarrow> c \<in> set s \<Longrightarrow> is_ascii c \<Longrightarrow> P (of_char c)"
proof (induction P s rule: all_runes.induct)
  case (1 P s)
  have ne: "s \<noteq> []" using "1.prems" by auto
  then have now: "rune_ok s" "P (rune_value s)" and rest: "all_runes P (drop (rune_width s) s)"
    using "1.prems"(1) by (simp_all add: all_runes_step)
  show ?case
  proof (cases "c \<in> set (drop (rune_width s) s)")
    case True
    then show ?thesis using "1.IH" ne now rest "1.prems"(3) by simp
  next
    case False
    then have "c \<in> set (take (rune_width s) s)"
      using "1.prems"(2) by (metis Un_iff append_take_drop_id set_append)
    then obtain k where k: "k < rune_width s" "s ! k = c" by (auto simp: in_set_conv_nth)
    then have "\<not> 1 < rune_width s" using wide_rune_high "1.prems"(3) by blast
    then have w: "rune_width s = 1" "k = 0" using k(1) by auto
    have "s = c # tl s" using ne k(2) w(2) by (cases s) auto
    then have "rune_value s = of_char c" using rune_value_ascii[OF "1.prems"(3), of "tl s"] by simp
    then show ?thesis using now(2) by simp
  qed
qed

text \<open>
  \<open>strings.Map\<close> with a function that drops the runes a predicate refuses leaves a string as it is
  exactly when it has none of them; a byte that is not part of a rune becomes U+FFFD, which is another
  string. \<open>print\<close> is \<open>unicode.IsPrint\<close> above ASCII.
\<close>

definition unicode_print :: "(nat \<Rightarrow> bool) \<Rightarrow> nat \<Rightarrow> bool" where
  "unicode_print print r \<longleftrightarrow> (if r < 128 then 32 \<le> r \<and> r < 127 else print r)"

section \<open>\<open>path\<close>\<close>

text \<open>\<open>path.Base\<close>: trailing slashes off, then what follows the last slash; all slashes are \<open>/\<close>.\<close>

definition path_base :: "string \<Rightarrow> string" where
  "path_base p =
     (if p = [] then ''.''
      else
        let trimmed = rev (dropWhile (\<lambda>c. c = CHR ''/'') (rev p)) in
        if trimmed = [] then ''/''
        else rev (takeWhile (\<lambda>c. c \<noteq> CHR ''/'') (rev trimmed)))"

text \<open>\<open>path.Ext\<close>: from the last dot of the last element.\<close>

definition path_ext :: "string \<Rightarrow> string" where
  "path_ext p =
     (let elem = takeWhile (\<lambda>c. c \<noteq> CHR ''/'') (rev p) in
      if CHR ''.'' \<in> set elem then CHR ''.'' # rev (takeWhile (\<lambda>c. c \<noteq> CHR ''.'') elem) else [])"

lemma path_base_no_slash: "CHR ''/'' \<in> set (path_base p) \<Longrightarrow> path_base p = ''/''"
  by (auto simp: path_base_def Let_def dest: set_takeWhileD split: if_splits)

lemma path_base_nonempty: "path_base p \<noteq> []"
proof -
  have "hd (dropWhile (\<lambda>c. c = CHR ''/'') (rev p)) \<noteq> CHR ''/''" if "dropWhile (\<lambda>c. c = CHR ''/'') (rev p) \<noteq> []"
    using hd_dropWhile[OF that] .
  then show ?thesis
    by (cases "dropWhile (\<lambda>c. c = CHR ''/'') (rev p)") (auto simp: path_base_def)
qed

end
