(* ===== verification/API_Edge.thy ===== *)
theory API_Edge
  imports Go_Net Go_Bytes
begin

text \<open>
  What the HTTP edge decides before an operation is matched (\<open>internal/api/server.go\<close>,
  \<open>internal/api/middleware.go\<close>): whose request it is, which limiter it is charged to, how large its
  body may be and which page may read its answer.
\<close>

section \<open>Requests\<close>

text \<open>\<open>http.Header\<close> keeps every line of a name; \<open>Get\<close> answers with the first.\<close>

type_synonym headers = "(string \<times> string list) list"

definition header_get :: "headers \<Rightarrow> string \<Rightarrow> string" where
  "header_get h name = (case map_of h name of Some (v # _) \<Rightarrow> v | _ \<Rightarrow> [])"

record HttpRequest =
  hr_Method :: string
  hr_Path :: string
  hr_Header :: headers
  hr_RemoteAddr :: string

section \<open>Whose request it is\<close>

text \<open>\<open>net.SplitHostPort\<close>; only the host is used, so the port is left out and an error is \<open>None\<close>.\<close>

definition SplitHostPort :: "string \<Rightarrow> string option" where
  "SplitHostPort s =
     (case last_index CHR '':'' s of
        None \<Rightarrow> None
      | Some i \<Rightarrow>
          if take 1 s = ''[''
          then (case first_index CHR '']'' s of
              None \<Rightarrow> None
            | Some e \<Rightarrow>
                if e + 1 \<noteq> i then None
                else if CHR ''['' \<in> set (drop 1 s) \<or> CHR '']'' \<in> set (drop (e + 1) s) then None
                else Some (take (e - 1) (drop 1 s)))
          else if CHR '':'' \<in> set (take i s) \<or> CHR ''['' \<in> set s \<or> CHR '']'' \<in> set s then None
          else Some (take i s))"

definition tcpPeer :: "HttpRequest \<Rightarrow> string" where
  "tcpPeer r = (case SplitHostPort (hr_RemoteAddr r) of None \<Rightarrow> hr_RemoteAddr r | Some host \<Rightarrow> host)"

definition trustedProxy :: "IPNet list \<Rightarrow> string \<Rightarrow> bool" where
  "trustedProxy proxies ip =
     (case ParseIP ip of None \<Rightarrow> False | Some parsed \<Rightarrow> \<exists>n \<in> set proxies. net_contains n parsed)"

text \<open>The loop over the hops of the header, from the last one.\<close>

fun first_untrusted :: "IPNet list \<Rightarrow> string \<Rightarrow> string list \<Rightarrow> string" where
  "first_untrusted proxies peer [] = peer"
| "first_untrusted proxies peer (part # parts) =
     (let hop = trim_space part in
      if hop = [] then first_untrusted proxies peer parts
      else
        let hop = (case SplitHostPort hop of None \<Rightarrow> hop | Some host \<Rightarrow> host) in
        if \<not> trustedProxy proxies hop then hop else first_untrusted proxies peer parts)"

definition remoteIP :: "IPNet list \<Rightarrow> HttpRequest \<Rightarrow> string" where
  "remoteIP proxies r =
     (let peer = tcpPeer r in
      if \<not> trustedProxy proxies peer then peer
      else
        let forwarded = header_get (hr_Header r) ''X-Forwarded-For'' in
        if forwarded = [] then peer
        else first_untrusted proxies peer (rev (split_at CHR '','' forwarded)))"

section \<open>Which limiter\<close>

definition Prefix :: string where "Prefix = ''/v1''"

text \<open>
  \<open>path[lo:hi]\<close> panics when the bounds cross, which the checks before do not rule out: a path
  that ends in the suffix and starts with the prefix may be shorter than the two together.
\<close>

definition slice :: "string \<Rightarrow> nat \<Rightarrow> nat \<Rightarrow> string option" where
  "slice s lo hi = (if lo \<le> hi \<and> hi \<le> length s then Some (take (hi - lo) (drop lo s)) else None)"

definition orgs_prefix :: string where "orgs_prefix = Prefix @ ''/orgs/''"

text \<open>\<open>None\<close> is the panic; the result is the organization's segment, or empty.\<close>

definition orgSubPath :: "string \<Rightarrow> string \<Rightarrow> string option" where
  "orgSubPath path suffix =
     (if \<not> has_prefix path orgs_prefix \<or> \<not> has_suffix path suffix then Some []
      else (case slice path (length orgs_prefix) (length path - length suffix) of
          None \<Rightarrow> None
        | Some middle \<Rightarrow> if middle = [] \<or> CHR ''/'' \<in> set middle then Some [] else Some middle))"

definition found :: "string option \<Rightarrow> bool option" where
  "found r = map_option (\<lambda>org. org \<noteq> []) r"

definition isMembersPath :: "string \<Rightarrow> bool option" where
  "isMembersPath path = found (orgSubPath path ''/members'')"

definition isBulkInvitePath :: "string \<Rightarrow> bool option" where
  "isBulkInvitePath path = found (orgSubPath path ''/invitations'')"

definition isOrgFilesUploadPath :: "string \<Rightarrow> bool option" where
  "isOrgFilesUploadPath path = found (orgSubPath path ''/files'')"

text \<open>\<open>a || b\<close>, where either side may panic.\<close>

definition or_else :: "bool option \<Rightarrow> bool option \<Rightarrow> bool option" where
  "or_else a b = (case a of None \<Rightarrow> None | Some True \<Rightarrow> Some True | Some False \<Rightarrow> b)"

definition isFilesUploadPath :: "string \<Rightarrow> bool option" where
  "isFilesUploadPath path = or_else (isOrgFilesUploadPath path) (Some (path = Prefix @ ''/me/avatar''))"

definition isReissuePath :: "string \<Rightarrow> bool option" where
  "isReissuePath path =
     (let suffix = ''/reissue'' in
      if \<not> has_prefix path orgs_prefix \<or> \<not> has_suffix path suffix then Some False
      else (case slice path (length orgs_prefix) (length path - length suffix) of
          None \<Rightarrow> None
        | Some middle \<Rightarrow>
            (case split_at CHR ''/'' middle of
               [a, b, c] \<Rightarrow> Some (a \<noteq> [] \<and> b = ''invitations'' \<and> c \<noteq> [])
             | _ \<Rightarrow> Some False)))"

datatype bucket = RegisterLimit | LoginLimit | ResetLimit | InviteLimit | FilesLimit

text \<open>The switch of \<open>rateLimit\<close>: a panic, or the limiter the request is charged to, if any.\<close>

definition limiter_for :: "string \<Rightarrow> string \<Rightarrow> bucket option option" where
  "limiter_for method path =
     (if method \<noteq> ''POST'' then Some None
      else if path = Prefix @ ''/users'' then Some (Some RegisterLimit)
      else if path = Prefix @ ''/sessions'' \<or> path = Prefix @ ''/sessions/verify'' then Some (Some LoginLimit)
      else if path = Prefix @ ''/password-resets'' \<or> path = Prefix @ ''/password-resets/confirm'' then Some (Some ResetLimit)
      else (case or_else (isMembersPath path) (or_else (isBulkInvitePath path) (isReissuePath path)) of
          None \<Rightarrow> None
        | Some True \<Rightarrow> Some (Some InviteLimit)
        | Some False \<Rightarrow>
            if path = Prefix @ ''/me/email'' then Some (Some RegisterLimit)
            else if path = Prefix @ ''/me/password'' then Some (Some ResetLimit)
            else (case isFilesUploadPath path of
                None \<Rightarrow> None
              | Some True \<Rightarrow> Some (Some FilesLimit)
              | Some False \<Rightarrow> Some None)))"

definition limiterRoute :: "string \<Rightarrow> string option" where
  "limiterRoute path =
     (case isMembersPath path of
        None \<Rightarrow> None
      | Some True \<Rightarrow> Some (Prefix @ ''/orgs/{orgID}/members'')
      | Some False \<Rightarrow>
          (case isBulkInvitePath path of
             None \<Rightarrow> None
           | Some True \<Rightarrow> Some (Prefix @ ''/orgs/{orgID}/invitations'')
           | Some False \<Rightarrow>
               (case isReissuePath path of
                  None \<Rightarrow> None
                | Some True \<Rightarrow> Some (Prefix @ ''/orgs/{orgID}/invitations/{invitationID}/reissue'')
                | Some False \<Rightarrow>
                    (case isOrgFilesUploadPath path of
                       None \<Rightarrow> None
                     | Some True \<Rightarrow> Some (Prefix @ ''/orgs/{orgID}/files'')
                     | Some False \<Rightarrow> Some path))))"

section \<open>How large a body may be\<close>

definition requestBodyLimit :: "int \<Rightarrow> int \<Rightarrow> int \<Rightarrow> string \<Rightarrow> string \<Rightarrow> int option" where
  "requestBodyLimit maxRequest avatarMax filesMax method path =
     (let limit = (if maxRequest \<le> 0 then 2 ^ 20 else maxRequest);
          multipartOverhead = 256 * 2 ^ 10 in
      if method = ''POST'' \<and> path = Prefix @ ''/me/avatar'' \<and> avatarMax > limit then Some (avatarMax + multipartOverhead)
      else if method = ''POST'' then
        (case isOrgFilesUploadPath path of
           None \<Rightarrow> None
         | Some upload \<Rightarrow> Some (if upload \<and> filesMax > limit then filesMax + multipartOverhead else limit))
      else Some limit)"

section \<open>Which page may read the answer\<close>

definition corsAllowedHeaders :: "string list" where
  "corsAllowedHeaders = [''Authorization'', ''Content-Type'', ''Accept-Language'', ''If-None-Match'', ''X-Device-Token'']"

definition corsExposedHeaders :: "string list" where
  "corsExposedHeaders = [''ETag'', ''Retry-After'', ''WWW-Authenticate'', ''Content-Disposition'']"

definition corsAllowedMethods :: string where
  "corsAllowedMethods = ''GET, POST, PATCH, PUT, DELETE, OPTIONS''"

definition corsMaxAge :: string where "corsMaxAge = ''600''"

definition isCORSPreflight :: "HttpRequest \<Rightarrow> bool" where
  "isCORSPreflight r \<longleftrightarrow> hr_Method r = ''OPTIONS'' \<and> header_get (hr_Header r) ''Origin'' \<noteq> [] \<and>
     header_get (hr_Header r) ''Access-Control-Request-Method'' \<noteq> []"

text \<open>
  The headers \<open>cors\<close> sets, and whether it answers the request itself (204) instead of passing it on.
\<close>

definition cors :: "(string \<Rightarrow> string) \<Rightarrow> string list \<Rightarrow> HttpRequest \<Rightarrow> (string \<times> string) list \<times> bool" where
  "cors lu origins r =
     (if origins = [] then ([], False)
      else
        let origin = header_get (hr_Header r) ''Origin'';
            allowed = (origin \<noteq> [] \<and> to_lower lu origin \<in> set origins);
            grant = (if allowed then
                [(''Access-Control-Allow-Origin'', origin),
                 (''Access-Control-Expose-Headers'', join '', '' corsExposedHeaders)] else []);
            ask = (if isCORSPreflight r \<and> allowed then
                [(''Access-Control-Allow-Methods'', corsAllowedMethods),
                 (''Access-Control-Allow-Headers'', join '', '' corsAllowedHeaders),
                 (''Access-Control-Max-Age'', corsMaxAge)] else [])
        in ((''Vary'', ''Origin'') # grant @ ask, isCORSPreflight r))"

section \<open>Lemmas\<close>

lemma split_at_Cons: "split_at c (a @ c # b) = butlast (split_at c a) @ last (split_at c a) # split_at c b"
  by (induction a) (auto split: list.splits)

lemma rev_split_at: "c \<notin> set b \<Longrightarrow> rev (split_at c (a @ c # b)) = b # rev (split_at c a)"
proof -
  assume "c \<notin> set b"
  then have "split_at c b = [b]" by (induction b) auto
  then have "split_at c (a @ c # b) = split_at c a @ [b]"
    using split_at_Cons[of c a b] append_butlast_last_id[of "split_at c a"] by (metis append_Cons append_Nil append_assoc split_at_nonempty)
  then show ?thesis by simp
qed

text \<open>The shape of an organization's path: one segment between the prefix and the suffix.\<close>

lemma orgSubPath_shape:
  assumes "org \<noteq> []" "CHR ''/'' \<notin> set org"
  shows "orgSubPath (orgs_prefix @ org @ suffix) suffix = Some org"
  using assms by (simp add: orgSubPath_def has_prefix_def has_suffix_def slice_def)

lemma orgSubPath_found:
  assumes "orgSubPath path suffix = Some org" "org \<noteq> []"
  shows "path = orgs_prefix @ org @ suffix \<and> CHR ''/'' \<notin> set org"
proof -
  let ?n = "length orgs_prefix" and ?m = "length path - length suffix"
  have pre: "take ?n path = orgs_prefix" and suf: "drop ?m path = suffix" and len: "length suffix \<le> length path"
    and mid: "slice path ?n ?m = Some org" and slash: "CHR ''/'' \<notin> set org"
    using assms by (auto simp: orgSubPath_def has_prefix_def has_suffix_def split: if_splits option.splits)
  have "?n \<le> ?m" "org = take (?m - ?n) (drop ?n path)"
    using mid by (auto simp: slice_def split: if_splits)
  then have "path = take ?n path @ org @ drop ?m path"
    by (metis append_take_drop_id drop_drop le_add_diff_inverse2 append.assoc)
  then show ?thesis using pre suf slash by simp
qed

text \<open>A path a limiter is chosen for is one of the shapes of the routes it stands for.\<close>

lemma found_Some: "found r = Some b \<longleftrightarrow> (\<exists>org. r = Some org \<and> b = (org \<noteq> []))"
  by (auto simp: found_def)

definition org_path :: "string \<Rightarrow> string \<Rightarrow> bool" where
  "org_path suffix path \<longleftrightarrow> (\<exists>org. org \<noteq> [] \<and> CHR ''/'' \<notin> set org \<and> path = orgs_prefix @ org @ suffix)"

lemma found_org_path: "found (orgSubPath path suffix) = Some True \<longleftrightarrow> org_path suffix path"
  using orgSubPath_shape orgSubPath_found by (auto simp: found_Some org_path_def)

definition reissue_path :: "string \<Rightarrow> bool" where
  "reissue_path path \<longleftrightarrow> (\<exists>org inv. org \<noteq> [] \<and> CHR ''/'' \<notin> set org \<and> inv \<noteq> [] \<and> CHR ''/'' \<notin> set inv \<and>
     path = orgs_prefix @ org @ ''/invitations/'' @ inv @ ''/reissue'')"

lemma split_at_three: "split_at c t = [h, p, g] \<Longrightarrow> t = h @ c # p @ c # g \<and> c \<notin> set h \<and> c \<notin> set p \<and> c \<notin> set g"
proof -
  have one: "split_at c t = [a] \<Longrightarrow> t = a \<and> c \<notin> set a" for t a
    by (induction t arbitrary: a) (auto split: if_splits list.splits)
  have two: "split_at c t = [a, b] \<Longrightarrow> t = a @ c # b \<and> c \<notin> set a \<and> c \<notin> set b" for t a b
    using one by (induction t arbitrary: a b) (fastforce split: if_splits list.splits)+
  show "split_at c t = [h, p, g] \<Longrightarrow> t = h @ c # p @ c # g \<and> c \<notin> set h \<and> c \<notin> set p \<and> c \<notin> set g"
    using two by (induction t arbitrary: h p g) (fastforce split: if_splits list.splits)+
qed

lemma split_at_first: "c \<notin> set a \<Longrightarrow> split_at c (a @ c # b) = a # split_at c b"
  by (induction a) auto

lemma split_at_none: "c \<notin> set a \<Longrightarrow> split_at c a = [a]"
  by (induction a) auto

lemma between:
  "has_prefix (p @ mid @ s) p" "has_suffix (p @ mid @ s) s"
  "slice (p @ mid @ s) (length p) (length (p @ mid @ s) - length s) = Some mid"
  by (simp_all add: has_prefix_def has_suffix_def slice_def)

lemma isReissuePath_found: "isReissuePath path = Some True \<longleftrightarrow> reissue_path path"
proof
  assume found: "isReissuePath path = Some True"
  let ?n = "length orgs_prefix" and ?m = "length path - length ''/reissue''"
  obtain org b inv where pre: "take ?n path = orgs_prefix" and suf: "drop ?m path = ''/reissue''"
    and mid: "slice path ?n ?m \<noteq> None" "split_at CHR ''/'' (the (slice path ?n ?m)) = [org, b, inv]"
    and parts: "org \<noteq> []" "b = ''invitations''" "inv \<noteq> []"
    using found by (auto simp: isReissuePath_def Let_def has_prefix_def has_suffix_def split: if_splits option.splits list.splits)
  have "?n \<le> ?m" "the (slice path ?n ?m) = take (?m - ?n) (drop ?n path)"
    using mid(1) by (auto simp: slice_def split: if_splits)
  then have "path = take ?n path @ the (slice path ?n ?m) @ drop ?m path"
    by (metis append_take_drop_id drop_drop le_add_diff_inverse2 append.assoc)
  then show "reissue_path path"
    using split_at_three[OF mid(2)] parts pre suf unfolding reissue_path_def by auto
next
  assume "reissue_path path"
  then obtain org inv where p: "org \<noteq> []" "CHR ''/'' \<notin> set org" "inv \<noteq> []" "CHR ''/'' \<notin> set inv"
      "path = orgs_prefix @ (org @ CHR ''/'' # ''invitations'' @ CHR ''/'' # inv) @ ''/reissue''"
    by (auto simp: reissue_path_def)
  have "split_at CHR ''/'' (org @ CHR ''/'' # ''invitations'' @ CHR ''/'' # inv) = [org, ''invitations'', inv]"
    unfolding split_at_first[OF p(2)]
    by (subst split_at_first) (simp_all add: split_at_none[OF p(4)])
  then obtain mid where "path = orgs_prefix @ mid @ ''/reissue''" "split_at CHR ''/'' mid = [org, ''invitations'', inv]"
    using p(5) by blast
  then show "isReissuePath path = Some True"
    using p(1,3) between[of orgs_prefix mid "''/reissue''"] by (simp add: isReissuePath_def Let_def)
qed

lemma or_else_Some: "or_else a b = Some r \<longleftrightarrow> a = Some True \<and> r \<or> a = Some False \<and> b = Some r"
  by (auto simp: or_else_def split: option.splits bool.splits)

lemma found_decides: "found (orgSubPath path suffix) = Some b \<Longrightarrow> b = org_path suffix path"
  using found_org_path[of path suffix] by (cases b) auto

lemma reissue_decides: "isReissuePath path = Some b \<Longrightarrow> b = reissue_path path"
  using isReissuePath_found[of path] by (cases b) auto

definition invites :: "string \<Rightarrow> bool" where
  "invites path \<longleftrightarrow> org_path ''/members'' path \<or> org_path ''/invitations'' path \<or> reissue_path path"

definition uploads :: "string \<Rightarrow> bool" where
  "uploads path \<longleftrightarrow> org_path ''/files'' path \<or> path = ''/v1/me/avatar''"

lemma invites_decides:
  "or_else (isMembersPath path) (or_else (isBulkInvitePath path) (isReissuePath path)) = Some b \<Longrightarrow> b = invites path"
  by (auto simp: or_else_Some isMembersPath_def isBulkInvitePath_def invites_def dest!: found_decides reissue_decides)

lemma uploads_decides: "isFilesUploadPath path = Some b \<Longrightarrow> b = uploads path"
  by (auto simp: or_else_Some isFilesUploadPath_def isOrgFilesUploadPath_def uploads_def Prefix_def dest!: found_decides)

lemma not_under_orgs: "take 9 p \<noteq> ''/v1/orgs/'' \<Longrightarrow> \<not> invites p"
  by (auto simp: invites_def org_path_def reissue_path_def orgs_prefix_def Prefix_def)

end
