(* ===== verification/API_Problem.thy ===== *)
theory API_Problem
  imports Errors
begin

text \<open>
  How a domain error becomes an answer: \<open>problem.Error\<close> of \<open>internal/api/problem/errors.go\<close>. The body
  is its status and its code; the prose beside the code is the message catalog's.
\<close>

definition statusClientClosedRequest :: nat where "statusClientClosedRequest = 499"

record Document =
  do_Status :: nat
  do_Code :: string

definition newDocument :: "nat \<Rightarrow> string \<Rightarrow> Document" where
  "newDocument status code = \<lparr>do_Status = status, do_Code = code\<rparr>"

fun user_problem :: "user_error \<Rightarrow> Document" where
  "user_problem UserErrNotFound = newDocument 404 ''not_found''"
| "user_problem ErrUnauthorized = newDocument 401 ''unauthorized''"
| "user_problem ErrInvalidCredentials = newDocument 401 ''invalid_credentials''"
| "user_problem ErrPasswordTooShort = newDocument 422 ''password_too_short''"
| "user_problem ErrPasswordTooLong = newDocument 422 ''password_too_long''"
| "user_problem ErrNameEmpty = newDocument 422 ''name_empty''"
| "user_problem ErrNameTooLong = newDocument 422 ''name_too_long''"
| "user_problem ErrPasswordMismatch = newDocument 422 ''password_mismatch''"
| "user_problem ErrInvalidResetCode = newDocument 401 ''invalid_reset_code''"
| "user_problem ErrInvalidTwoFactorCode = newDocument 401 ''invalid_two_factor_code''"
| "user_problem UserErrDeviceRevoked = newDocument 403 ''device_revoked''"
| "user_problem ErrSuspended = newDocument 403 ''account_suspended''"
| "user_problem ErrCannotSuspendSelf = newDocument 409 ''cannot_suspend_self''"
| "user_problem ErrCannotDeleteSelf = newDocument 409 ''cannot_delete_self''"
| "user_problem ErrInvalidEmailCode = newDocument 401 ''invalid_email_code''"
| "user_problem ErrSameEmail = newDocument 422 ''same_email''"
| "user_problem ErrLocaleUnsupported = newDocument 422 ''unsupported_locale''"
| "user_problem ErrEmailTaken = newDocument 409 ''email_taken''"
| "user_problem ErrEmailInvalid = newDocument 422 ''invalid_email''"

fun authz_problem :: "authz_error \<Rightarrow> Document" where
  "authz_problem ErrNotMember = newDocument 404 ''not_found''"
| "authz_problem ErrForbidden = newDocument 403 ''forbidden''"
| "authz_problem ErrPrivilegeEscalation = newDocument 403 ''privilege_escalation''"
| "authz_problem ErrUnknownPermission = newDocument 422 ''unknown_permission''"
| "authz_problem ErrWrongScope = newDocument 422 ''wrong_scope''"
| "authz_problem ErrInsufficientRank = newDocument 403 ''insufficient_rank''"
| "authz_problem ErrScopeMismatch = newDocument 500 ''internal''"

fun orgs_problem :: "orgs_error \<Rightarrow> Document" where
  "orgs_problem OrgsErrNotFound = newDocument 404 ''not_found''"
| "orgs_problem ErrInvalidInvitationBatch = newDocument 422 ''invalid_invitation_batch''"
| "orgs_problem ErrRoleProtected = newDocument 403 ''role_protected''"
| "orgs_problem ErrLastOwner = newDocument 409 ''last_owner''"
| "orgs_problem ErrInvitationExpired = newDocument 410 ''invitation_expired''"
| "orgs_problem ErrCannotRevokeOwnLastSystemRole = newDocument 409 ''last_system_role''"
| "orgs_problem ErrInvalidSystemRole = newDocument 422 ''invalid_system_role''"
| "orgs_problem ErrInvitationAddressMismatch = newDocument 409 ''invitation_address_mismatch''"
| "orgs_problem ErrRoleInUse = newDocument 409 ''role_in_use''"
| "orgs_problem ErrRoleKeyTaken = newDocument 409 ''role_key_taken''"
| "orgs_problem ErrSlugTaken = newDocument 409 ''slug_taken''"
| "orgs_problem ErrAlreadyMember = newDocument 409 ''already_member''"
| "orgs_problem ErrInvalidName = newDocument 422 ''invalid_name''"
| "orgs_problem ErrInvalidEmail = newDocument 422 ''invalid_email''"
| "orgs_problem ErrInvalidStatus = newDocument 422 ''invalid_status''"

fun files_problem :: "files_error \<Rightarrow> Document" where
  "files_problem FilesErrNotFound = newDocument 404 ''not_found''"
| "files_problem ErrTooLarge = newDocument 413 ''file_too_large''"
| "files_problem ErrEmpty = newDocument 422 ''file_empty''"
| "files_problem ErrNameInvalid = newDocument 422 ''file_name_invalid''"
| "files_problem ErrTypeNotAllowed = newDocument 422 ''file_type_not_allowed''"
| "files_problem ErrTypeMismatch = newDocument 422 ''file_type_mismatch''"
| "files_problem ErrExecutable = newDocument 422 ''file_executable''"
| "files_problem ErrInfected = newDocument 422 ''file_infected''"
| "files_problem ErrScanUnavailable = newDocument 503 ''file_scan_unavailable''"
| "files_problem ErrCorrupt = newDocument 500 ''internal''"

text \<open>
  The switch of \<open>Error\<close> on a sentinel, by the package it belongs to. A context that has ended was
  cancelled or ran past its deadline; whatever the switch does not name is an opaque 500.
\<close>

fun problem_of :: "bool \<Rightarrow> err \<Rightarrow> Document" where
  "problem_of deadline (UserErr e) = user_problem e"
| "problem_of deadline (AuthzErr e) = authz_problem e"
| "problem_of deadline (OrgsErr e) = orgs_problem e"
| "problem_of deadline (FilesErr e) = files_problem e"
| "problem_of deadline (EntErr e) =
     (if e = ErrProtected then newDocument 409 ''record_protected'' else newDocument 500 ''internal'')"
| "problem_of deadline CtxErr =
     (if deadline then newDocument 504 ''timeout'' else newDocument statusClientClosedRequest ''client_closed'')"
| "problem_of deadline (InvalidErr _) = newDocument 500 ''internal''"
| "problem_of deadline (DriverErr _) = newDocument 500 ''internal''"
| "problem_of deadline GoPanic = newDocument 500 ''internal''"

text \<open>An answer says not found for exactly the four sentinels that may not be told apart.\<close>

lemma problem_not_found:
  "do_Status (problem_of deadline e) = 404 \<longleftrightarrow>
     e = user_not_found \<or> e = orgs_not_found \<or> e = files_not_found \<or> e = AuthzErr ErrNotMember"
proof (cases e)
  case (UserErr x)
  then show ?thesis by (cases x) (simp_all add: newDocument_def)
next
  case (AuthzErr x)
  then show ?thesis by (cases x) (simp_all add: newDocument_def)
next
  case (OrgsErr x)
  then show ?thesis by (cases x) (simp_all add: newDocument_def)
next
  case (FilesErr x)
  then show ?thesis by (cases x) (simp_all add: newDocument_def)
qed (simp_all add: newDocument_def statusClientClosedRequest_def)

lemma problem_internal:
  "do_Status (problem_of deadline e) = 500 \<longleftrightarrow>
     e = AuthzErr ErrScopeMismatch \<or> e = FilesErr ErrCorrupt \<or> (\<exists>x. e = EntErr x \<and> x \<noteq> ErrProtected) \<or>
     (\<exists>x. e = InvalidErr x) \<or> (\<exists>x. e = DriverErr x) \<or> e = GoPanic"
proof (cases e)
  case (UserErr x)
  then show ?thesis by (cases x) (simp_all add: newDocument_def)
next
  case (AuthzErr x)
  then show ?thesis by (cases x) (simp_all add: newDocument_def)
next
  case (OrgsErr x)
  then show ?thesis by (cases x) (simp_all add: newDocument_def)
next
  case (FilesErr x)
  then show ?thesis by (cases x) (simp_all add: newDocument_def)
qed (simp_all add: newDocument_def statusClientClosedRequest_def)

lemma problem_internal_opaque:
  "do_Status (problem_of deadline e) = 500 \<Longrightarrow> problem_of deadline e = newDocument 500 ''internal''"
  by (auto simp: problem_internal)

end
