(* ===== verification/API_Properties.thy ===== *)
theory API_Properties
  imports API_Memory API_Edge API_Problem Demo_Users
begin

text \<open>
  The properties of session tokens and of the gate every operation passes.
\<close>

section \<open>Tokens\<close>

text \<open>C14. A token stands for the session it was issued for until it expires, and for nothing afterwards:
  \<open>Parse\<close> reads back exactly the session \<open>Issue\<close> signed while the clock's second is before
  the expiry's, and refuses the token from then on. (The issuer is ASCII, the numbers fit an
  \<open>int64\<close>, and the UUID library reads back the text it writes.)\<close>

theorem token_round_trip:
  assumes "NewSigner secret ttl issuer = Inr s" "Issue U s sess now = Inr (token, expires)"
    "text_of_uuid_ok U (se_UserID sess)" "text_of_uuid_ok U (se_DeviceID sess)" "list_all is_ascii issuer"
    "list_all (\<lambda>i. min_int64 \<le> i \<and> i \<le> max_int64) [se_Epoch sess, unix_seconds now, unix_seconds expires]"
  shows "expires = now + ttl \<and> now < expires \<and>
    Parse U s token later = (if unix_seconds later < unix_seconds expires then Inr sess else Inl ErrInvalidToken)"
proof -
  have s: "sg_issuer s = issuer" "sg_ttl s = ttl" "0 < ttl"
    using assms(1) by (auto simp: NewSigner_def split: if_splits)
  then show ?thesis using Parse_issued[OF assms(2-4)] assms(5,6) by simp
qed

definition demo_uuids :: UuidText where
  "demo_uuids = \<lparr>ut_String = (\<lambda>k. case k of UUID n \<Rightarrow> show_nat n), ut_Parse = (\<lambda>s. Some (UUID (decimal_value s)))\<rparr>"

definition demo_signer :: Signer where
  "demo_signer = \<lparr>sg_secret = replicate 32 CHR ''k'', sg_ttl = 3600 * 1000000000, sg_issuer = ''svc''\<rparr>"

definition demo_session :: Session where
  "demo_session = \<lparr>se_UserID = UUID 10, se_DeviceID = UUID 11, se_Epoch = 3\<rparr>"

definition demo_time :: time where "demo_time = 63800000000 * 1000000000"

definition demo_token :: string where
  "demo_token = (case Issue demo_uuids demo_signer demo_session demo_time of Inl _ \<Rightarrow> [] | Inr (token, _) \<Rightarrow> token)"

lemma decimal_is_ascii: "is_decimal c \<Longrightarrow> is_ascii c"
  by (simp add: is_decimal_def is_ascii_def byte_in_def)

lemma demo_uuids_ok: "text_of_uuid_ok demo_uuids k"
  using show_nat_decimal decimal_is_ascii
  by (cases k) (auto simp: text_of_uuid_ok_def demo_uuids_def decimal_value_show_nat list_all_iff)

lemma demo_issue:
  "Issue demo_uuids demo_signer demo_session demo_time = Inr (demo_token, demo_time + 3600 * 1000000000)"
  by (simp add: demo_token_def Issue_def demo_session_def demo_signer_def Let_def)

lemma demo_new_signer: "NewSigner (replicate 32 CHR ''k'') (3600 * 1000000000) ''svc'' = Inr demo_signer"
  by (simp add: NewSigner_def demo_signer_def)

lemma token_round_trip_witness:
  "Parse demo_uuids demo_signer demo_token demo_time = Inr demo_session \<and>
   Parse demo_uuids demo_signer demo_token (demo_time + 3600 * 1000000000) = Inl ErrInvalidToken"
proof -
  have "Parse demo_uuids demo_signer demo_token later =
      (if unix_seconds later < unix_seconds (demo_time + 3600 * 1000000000) then Inr demo_session else Inl ErrInvalidToken)" for later
    using token_round_trip[OF demo_new_signer demo_issue demo_uuids_ok demo_uuids_ok, of later]
    by (simp add: is_ascii_def unix_seconds_def demo_time_def demo_session_def min_int64_def max_int64_def)
  then show ?thesis by (simp add: unix_seconds_def demo_time_def)
qed

section \<open>The gate\<close>

text \<open>C2. An operation runs exactly when it may. A handler is reached only for one of the six public
  operations, or with a token the signer accepts, of a live account that is not suspended, at the
  account's present session epoch, from a device of its own that is not revoked, and then either for
  an operation on the caller's own account, or because the caller's stored roles carry the
  permission the operation's rule names: in the organization of the path, for an active member, or
  installation-wide.\<close>

theorem gate_admits_exactly:
  fixes name U signer l k p d negotiate
  defines "S \<equiv> mem_server name U signer (mem_accounts l k p d) negotiate"
  assumes "authz_wf m"
  shows "(\<exists>ctx'. gate S now u m ctx = Inr ctx') \<longleftrightarrow>
    (is_public ctx \<or>
     (\<exists>sess acct dv. presented S now ctx = Some sess \<and>
        mem_account u (se_UserID sess) = Some acct \<and> u_SessionEpoch acct = se_Epoch sess \<and> \<not> UserIsSuspended acct \<and>
        map_of (us_devices u) (se_DeviceID sess) = Some dv \<and> dv_UserID dv = se_UserID sess \<and> \<not> DeviceIsRevoked dv \<and>
        may_run U m ctx (se_UserID sess)))"
proof (cases "is_public ctx")
  case True
  then show ?thesis using requireBearer_public[OF True, of S now u]
    by (auto simp: gate_def requirePermission_def is_public_def)
next
  case False
  show ?thesis
  proof (cases "presented S now ctx")
    case None
    then show ?thesis using False requireBearer_mem[OF False, of name U signer l k p d negotiate now u]
      by (simp add: gate_def S_def)
  next
    case (Some sess)
    have "(\<exists>ctx'. requirePermission S m (admitted S sess acct ctx) = Inr ctx') \<longleftrightarrow> may_run U m ctx (se_UserID sess)" for acct
      using requirePermission_mem[OF assms(2), of "admitted S sess acct ctx" sess name U signer "mem_accounts l k p d" negotiate]
        False presented_usable[OF Some] by (simp add: S_def admitted_sel may_run_admitted)
    then show ?thesis
      using False Some requireBearer_mem[OF False, of name U signer l k p d negotiate now u]
      by (auto simp: gate_def S_def session_stands_def split: if_splits)
  qed
qed

text \<open>C13. Who is not an active member of an organization cannot tell it from one that does not exist. To a
  session that stands, every operation of an organization answers 404 with the same body, whatever
  the operation, and whether the organization is somebody else's, deleted, or made up.\<close>

theorem tenants_unguessable:
  fixes name U signer l k p d negotiate
  defines "S \<equiv> mem_server name U signer (mem_accounts l k p d) negotiate"
  assumes "authz_wf m" "presented S now ctx = Some sess" "session_stands u sess"
    "hc_Operation ctx = Some op" "map_of operationAccess op = Some rule" "ru_Scope rule = ScopeOrganization"
    "ut_Parse U (hc_Param ctx ''orgID'') = Some org" "org \<noteq> uuid_Nil" "\<not> mem_active m (se_UserID sess) org"
  shows "gate S now u m ctx = Inl \<lparr>rf_Status = 404, rf_Code = ''not_found'', rf_Permission = None, rf_Challenge = None\<rparr>"
proof -
  have apart: "op \<notin> set publicOperations" "op \<notin> set selfServiceOperations"
    using self_service_not_public(2)[OF assms(6)] by simp_all
  then have "\<not> is_public ctx" using assms(5) by (simp add: is_public_def)
  then have "gate S now u m ctx = requirePermission S m (admitted S sess (the (mem_account u (se_UserID sess))) ctx)"
    using requireBearer_mem[of ctx name U signer l k p d negotiate now u] assms(3,4) by (simp add: gate_def S_def)
  moreover have "Authorize mem_authz_repo \<lparr>rq_Actor = se_UserID sess, rq_Org = org, rq_Permission = ru_Permission rule\<rparr> m =
      Inl (AuthzErr ErrNotMember)"
    using mem_authz.authorize_not_member[OF assms(2)] rule_exclusive(1)[OF assms(6,7)] assms(9,10) by simp
  ultimately show ?thesis
    using apart assms(5-8) presented_usable[OF assms(3)]
    by (simp add: requirePermission_def admitted_sel S_def mem_server_def denyAuthorization_def plain_refusal_def)
qed

section \<open>Sessions end\<close>

text \<open>C4. A session that has ended stays ended. After a password change or reset, a sign-out everywhere,
  a suspension or a deletion that went through, every token of the account issued before it, and
  after the revocation of a device every token of that device, is refused with 401 by every operation
  that is not public, whatever calls the store serves in between and however they interleave.\<close>

theorem sessions_end:
  fixes name U signer l k p d negotiate
  defines "A \<equiv> mem_accounts l k p d"
  defines "S \<equiv> mem_server name U signer A negotiate"
  assumes "accounts_wf u" "mem_account u userID = Some acct" "NormalizeEmail l email = u_Email acct"
    "(Inr (), u1) \<in> {ChangePassword A c userID current pw confirm u, CompletePasswordReset A c email code pw confirm u,
       SignOutEverywhere A userID u, Suspend A c userID True u, AccountDelete A c userID u,
       AccountRevokeDevice A c userID (se_DeviceID sess) u}"
    "(user_step stale)\<^sup>*\<^sup>* u1 u2"
    "presented S now ctx = Some sess" "se_UserID sess = userID" "se_Epoch sess \<le> u_SessionEpoch acct" "\<not> is_public ctx"
  shows "gate S now u2 m ctx = Inl (unauthorized S)"
proof -
  have "epoch_over u1 userID (u_SessionEpoch acct) \<or> device_out u1 (se_DeviceID sess)"
    using assms(3-6) unfolding A_def
    by (auto dest: ChangePassword_ends[OF assms(3,4)] CompletePasswordReset_ends[OF assms(3-5)] AccountRevokeDevice_ends
        account_writes_end[OF assms(4)] dest!: sym[of "(Inr (), u1)"])
  then have "epoch_over u2 userID (u_SessionEpoch acct) \<or> device_out u2 (se_DeviceID sess)"
    using epoch_over_forward[OF assms(7)] device_out_forward[OF assms(7)] by blast
  then have "\<not> session_stands u2 sess"
    using epoch_over_ends[of u2 sess] device_out_ends[of u2 sess] assms(9,10) by blast
  then show ?thesis
    unfolding S_def A_def using assms(8,11) by (intro gate_refuses) (simp_all add: S_def A_def)
qed

text \<open>The three tables that classify operations are a partition: no operation is in two, none has two
  rules, each rule asks for its permission in the scope the catalog gives it, and every
  permission of the catalog guards some operation.\<close>

theorem operations_classified:
  "distinct (publicOperations @ selfServiceOperations @ map fst operationAccess) \<and>
   map (\<lambda>(op, rule). map_option d_Scope (Lookup (ru_Permission rule))) operationAccess =
     map (\<lambda>(op, rule). Some (ru_Scope rule)) operationAccess \<and>
   set (map (\<lambda>(op, rule). ru_Permission rule) operationAccess) = set (map d_Key catalog)"
proof (intro conjI)
  show "distinct (publicOperations @ selfServiceOperations @ map fst operationAccess)" by (rule operations_apart)
  show "map (\<lambda>(op, rule). map_option d_Scope (Lookup (ru_Permission rule))) operationAccess =
      map (\<lambda>(op, rule). Some (ru_Scope rule)) operationAccess"
    by code_simp
  show "set (map (\<lambda>(op, rule). ru_Permission rule) operationAccess) = set (map d_Key catalog)"
    by code_simp
qed

section \<open>The edge\<close>

text \<open>
  How a forwarding header comes about: each proxy appends the address of its own peer to the line it received. An address is
  plain when it is written without spaces, commas and a port.
\<close>

definition appended :: "string \<Rightarrow> string \<Rightarrow> string" where
  "appended line peer = (if line = [] then peer else line @ '', '' @ peer)"

definition plain_address :: "string \<Rightarrow> bool" where
  "plain_address a \<longleftrightarrow> a \<noteq> [] \<and> trim_space a = a \<and> CHR '','' \<notin> set a \<and> SplitHostPort a = None"

lemma trim_space_blank: "trim_space (CHR '' '' # a) = trim_space a"
proof -
  have "trim_left (CHR '' '' # a) = trim_left a"
    by (cases "CHR '' '' # a" rule: trim_left.cases) (simp_all add: ascii_space_def byte_in_def)
  then show ?thesis by (simp add: trim_space_def)
qed

text \<open>The loop takes the last hop off the line, whatever stands before it.\<close>

lemma first_untrusted_appended:
  assumes "plain_address a"
  shows "first_untrusted nets peer (rev (split_at CHR '','' (appended line a))) =
    (if \<not> trustedProxy nets a then a
     else first_untrusted nets peer (if line = [] then [] else rev (split_at CHR '','' line)))"
proof (cases "line = []")
  case True
  then show ?thesis using assms by (simp add: appended_def plain_address_def split_at_none)
next
  case False
  have "CHR '','' \<notin> set (CHR '' '' # a)" using assms by (simp add: plain_address_def)
  from rev_split_at[OF this, of line] show ?thesis
    using assms False by (simp add: appended_def plain_address_def trim_space_blank)
qed

lemma appended_nonempty: "plain_address a \<Longrightarrow> appended line a \<noteq> []"
  by (simp add: appended_def plain_address_def)

lemma first_untrusted_chain:
  assumes "plain_address caller" "\<not> trustedProxy nets caller" "\<forall>p \<in> set via. plain_address p \<and> trustedProxy nets p"
  shows "first_untrusted nets peer (rev (split_at CHR '','' (foldl appended claimed (caller # via)))) = caller \<and>
    foldl appended claimed (caller # via) \<noteq> []"
  using assms(3)
proof (induction via rule: rev_induct)
  case Nil
  then show ?case using first_untrusted_appended[OF assms(1), of nets peer claimed] assms(2) appended_nonempty[OF assms(1)] by simp
next
  case (snoc p via)
  then show ?case
    using first_untrusted_appended[of p nets peer "foldl appended claimed (caller # via)"] appended_nonempty[of p] by simp
qed

text \<open>C40. A caller cannot choose the address it is known by. Let a request reach the server from a caller that is no
  trusted proxy, directly or through any number of trusted proxies that each append the address of their peer to the
  forwarding header: it is known by the caller's address, whatever the caller itself had written into the header, any number
  of made-up hops included. (The proxies append to the line they received: the code reads the header's first line only, so
  a proxy that adds a line of its own is another matter.)\<close>

theorem remote_ip_not_spoofable:
  assumes "\<not> trustedProxy nets caller" "\<forall>p \<in> set via. trustedProxy nets p" "\<forall>a \<in> set (caller # via). plain_address a"
    and "tcpPeer r = last (caller # via)"
    and "header_get (hr_Header r) ''X-Forwarded-For'' = foldl appended claimed (butlast (caller # via))"
  shows "remoteIP nets r = caller"
proof (cases "via = []")
  case True
  then show ?thesis using assms(1,4) by (simp add: remoteIP_def)
next
  case False
  then have line: "butlast (caller # via) = caller # butlast via" and peer: "tcpPeer r = last via" using assms(4) by simp_all
  have chain: "first_untrusted nets (last via) (rev (split_at CHR '','' (foldl appended claimed (caller # butlast via)))) = caller \<and>
      foldl appended claimed (caller # butlast via) \<noteq> []"
    using assms(1-3) by (intro first_untrusted_chain) (auto dest: in_set_butlastD)
  have "trustedProxy nets (last via)" using assms(2) False by simp
  then show ?thesis using chain unfolding remoteIP_def peer assms(5) line Let_def by simp
qed

text \<open>One proxy, and a caller that claims to be somebody else behind two.\<close>

lemma remote_ip_not_spoofable_witness:
  "remoteIP [\<lparr>nt_IP = [10, 0, 0, 0], nt_Mask = [255, 0, 0, 0]\<rparr>]
     \<lparr>hr_Method = ''GET'', hr_Path = ''/'', hr_Header = [(''X-Forwarded-For'', [''6.6.6.6, 10.9.9.9, 1.2.3.4''])],
      hr_RemoteAddr = ''10.1.2.3:5000''\<rparr> = ''1.2.3.4''"
proof -
  let ?p = "[\<lparr>nt_IP = [10, 0, 0, 0], nt_Mask = [255, 0, 0, 0]\<rparr>]"
  let ?r = "\<lparr>hr_Method = ''GET'', hr_Path = ''/'', hr_Header = [(''X-Forwarded-For'', [''6.6.6.6, 10.9.9.9, 1.2.3.4''])],
      hr_RemoteAddr = ''10.1.2.3:5000''\<rparr>"
  have "tcpPeer ?r = ''10.1.2.3''" "trustedProxy ?p ''10.1.2.3''" "\<not> trustedProxy ?p ''1.2.3.4''"
    "plain_address ''10.1.2.3''" "plain_address ''1.2.3.4''"
    by code_simp+
  then show ?thesis
    using remote_ip_not_spoofable[where r = ?r and nets = ?p and caller = "''1.2.3.4''" and via = "[''10.1.2.3'']"
        and claimed = "''6.6.6.6, 10.9.9.9''"] by (simp add: header_get_def appended_def)
qed

text \<open>Every route that costs something is charged to its limiter, and nothing else is: where the switch
  of \<open>rateLimit\<close> answers, it names a limiter exactly for a POST to a path of one of these shapes, an
  identifier being one non-empty segment.\<close>

theorem costly_routes_limited:
  assumes "limiter_for method path = Some choice"
  shows "choice =
    (if method \<noteq> ''POST'' then None
     else if path \<in> {''/v1/users'', ''/v1/me/email''} then Some RegisterLimit
     else if path \<in> {''/v1/sessions'', ''/v1/sessions/verify''} then Some LoginLimit
     else if path \<in> {''/v1/password-resets'', ''/v1/password-resets/confirm'', ''/v1/me/password''} then Some ResetLimit
     else if org_path ''/members'' path \<or> org_path ''/invitations'' path \<or> reissue_path path then Some InviteLimit
     else if org_path ''/files'' path \<or> path = ''/v1/me/avatar'' then Some FilesLimit
     else None)"
proof -
  have me: "\<not> invites ''/v1/me/email''" "\<not> invites ''/v1/me/password''" by (rule not_under_orgs, simp)+
  have "choice =
    (if method \<noteq> ''POST'' then None
     else if path \<in> {''/v1/users'', ''/v1/me/email''} then Some RegisterLimit
     else if path \<in> {''/v1/sessions'', ''/v1/sessions/verify''} then Some LoginLimit
     else if path \<in> {''/v1/password-resets'', ''/v1/password-resets/confirm'', ''/v1/me/password''} then Some ResetLimit
     else if invites path then Some InviteLimit else if uploads path then Some FilesLimit else None)"
    using assms me unfolding limiter_for_def Prefix_def
    by (auto split: if_splits option.splits bool.splits dest!: invites_decides uploads_decides)
  then show ?thesis by (simp only: invites_def uploads_def)
qed

lemma costly_routes_limited_witness:
  "limiter_for ''POST'' ''/v1/orgs/7/members'' = Some (Some InviteLimit) \<and> org_path ''/members'' ''/v1/orgs/7/members''"
proof -
  have r: "limiter_for ''POST'' ''/v1/orgs/7/members'' = Some (Some InviteLimit)" by code_simp
  have "org_path ''/members'' ''/v1/orgs/7/members''"
    by (auto simp: org_path_def orgs_prefix_def Prefix_def intro!: exI[of _ "''7''"])
  then show ?thesis using r costly_routes_limited[OF r] by simp
qed

section \<open>A request that is let in\<close>

definition demo_ctx :: ApiCtx where
  "demo_ctx = \<lparr>hc_Operation = Some ''remove-member'',
     hc_Header = (\<lambda>h. if h = ''Authorization'' then ''bearer '' @ demo_token else []),
     hc_Param = (\<lambda>_. ''1''), hc_client = (''10.0.0.1'', ''browser''), hc_session = None, hc_actor = None,
     hc_grant = None, hc_locale = ''en''\<rparr>"

definition demo_server :: "(Users, AuthzStore) Server" where
  "demo_server = mem_server ''svc'' demo_uuids demo_signer demo_accounts (\<lambda>_ _. ''en'')"

lemma demo_token_plain: "list_all plain_char demo_token"
proof -
  have dot: "plain_char CHR ''.''" by (simp add: plain_char_def is_ascii_def ascii_space_def byte_in_def)
  obtain p g where token: "demo_token = raw_url_encode header_text @ ''.'' @ raw_url_encode p @ ''.'' @ raw_url_encode g"
    by (simp add: demo_token_def Issue_def demo_session_def demo_signer_def Let_def jwtHeader_def)
  show ?thesis unfolding token using raw_url_encode_plain dot by simp
qed

lemma demo_parse: "Parse demo_uuids demo_signer demo_token demo_time = Inr demo_session"
proof -
  have "Parse demo_uuids demo_signer demo_token demo_time =
      (if unix_seconds demo_time < unix_seconds (demo_time + 3600 * 1000000000) then Inr demo_session else Inl ErrInvalidToken)"
    by (rule Parse_issued[OF demo_issue demo_uuids_ok demo_uuids_ok])
      (simp_all add: is_ascii_def unix_seconds_def demo_time_def demo_session_def min_int64_def max_int64_def demo_signer_def)
  then show ?thesis by (simp add: unix_seconds_def demo_time_def)
qed

lemma demo_presented: "presented demo_server demo_time (demo_ctx\<lparr>hc_Operation := op, hc_Param := f\<rparr>) = Some demo_session"
proof -
  have "map ascii_lower ''bearer '' = ''bearer ''" "map ascii_lower ''Bearer '' = ''bearer ''" by code_simp+
  then have "has_bearer (''bearer '' @ demo_token)" by (simp add: has_bearer_def bearer_prefix_def)
  then show ?thesis
    by (simp add: presented_def demo_server_def mem_server_def demo_ctx_def bearer_prefix_def demo_parse
        trim_space_plain[OF demo_token_plain])
qed

lemma demo_stands: "session_stands demo_users demo_session"
  by (simp add: session_stands_def demo_session_def mem_account_Some demo_sel UserIsDeleted_def UserIsSuspended_def
      DeviceIsRevoked_def)

lemma demo_not_public: "\<not> is_public (demo_ctx\<lparr>hc_Operation := Some ''remove-member'', hc_Param := f\<rparr>)"
  by (simp add: is_public_def publicOperations_def)

lemma demo_rule: "map_of operationAccess ''remove-member'' = Some (in_organization PermMembersRemove)"
  by (simp add: operationAccess_def)

lemma demo_owner_active: "mem_active demo (UUID 10) demo_org" "PermMembersRemove \<in> mem_keys demo (UUID 10) demo_org"
proof -
  have row: "member_row demo (UUID 10) demo_org demo_owner (demo_member demo_owner 10)"
    by (simp add: member_row_def demo_defs)
  then show "mem_active demo (UUID 10) demo_org"
    by (auto simp: mem_active_def accountIDDeletedLocked_def live_org_def OrganizationIsDeleted_def demo_defs
        intro!: exI[of _ demo_owner])
  have "PermMembersRemove \<in> role_keys demo demo_owner"
    by (simp add: role_keys_def alist_at_def demo_defs)
  then show "PermMembersRemove \<in> mem_keys demo (UUID 10) demo_org"
    using mem_keys_row[OF demo_wf row] by simp
qed

lemma demo_parse_org: "ut_Parse demo_uuids ''1'' = Some demo_org" "ut_Parse demo_uuids ''2'' = Some (UUID 2)"
  by (simp_all add: demo_uuids_def demo_org_def decimal_value_def)

lemma gate_admits_exactly_witness:
  "\<exists>ctx'. gate demo_server demo_time demo_users demo
     (demo_ctx\<lparr>hc_Operation := Some ''remove-member'', hc_Param := \<lambda>_. ''1''\<rparr>) = Inr ctx'"
proof -
  let ?ctx = "demo_ctx\<lparr>hc_Operation := Some ''remove-member'', hc_Param := \<lambda>_. ''1''\<rparr>"
  have "may_run demo_uuids demo ?ctx (se_UserID demo_session)"
    using demo_owner_active demo_rule demo_parse_org
    by (simp add: may_run_def demo_session_def demo_org_def)
  then show ?thesis
    using gate_admits_exactly[OF demo_wf, of "''svc''" demo_uuids demo_signer demo_libs 10 "''pepper''" "''h:none''" "\<lambda>_ _. ''en''"
        demo_time demo_users ?ctx] demo_presented[where op = "Some ''remove-member''" and f = "\<lambda>_. ''1''"] demo_stands
    unfolding session_stands_def demo_server_def demo_accounts_def by blast
qed

lemma tenants_unguessable_witness:
  "gate demo_server demo_time demo_users demo (demo_ctx\<lparr>hc_Operation := Some ''remove-member'', hc_Param := \<lambda>_. ''2''\<rparr>) =
     Inl \<lparr>rf_Status = 404, rf_Code = ''not_found'', rf_Permission = None, rf_Challenge = None\<rparr>"
proof -
  have "\<not> mem_active demo (UUID 10) (UUID 2)"
    by (auto simp: mem_active_def live_org_def demo_defs)
  then show ?thesis
    unfolding demo_server_def demo_accounts_def
    using demo_presented[where op = "Some ''remove-member''" and f = "\<lambda>_. ''2''"] demo_stands demo_rule demo_parse_org(2)
    by (intro tenants_unguessable[OF demo_wf, where sess = demo_session and op = "''remove-member''" and
          rule = "in_organization PermMembersRemove" and org = "UUID 2"])
      (simp_all add: demo_server_def demo_accounts_def demo_session_def)
qed

lemma sessions_end_witness:
  "\<exists>u1. SignOutEverywhere demo_accounts (UUID 10) demo_users = (Inr (), u1) \<and>
     gate demo_server demo_time u1 demo (demo_ctx\<lparr>hc_Operation := Some ''remove-member'', hc_Param := \<lambda>_. ''1''\<rparr>) =
       Inl (unauthorized demo_server)"
proof -
  have acct: "mem_account demo_users (UUID 10) = Some demo_user"
    by (simp add: mem_account_Some demo_sel UserIsDeleted_def)
  obtain u1 where u1: "SignOutEverywhere demo_accounts (UUID 10) demo_users = (Inr (), u1)"
    by (simp add: SignOutEverywhere_def demo_accounts_def UsersBumpSessionEpoch_def with_user_def demo_sel UserIsDeleted_def ok_def)
  have "NormalizeEmail demo_libs ''al@x.io'' = u_Email demo_user" by (simp add: demo_email demo_sel)
  then have "gate demo_server demo_time u1 demo (demo_ctx\<lparr>hc_Operation := Some ''remove-member'', hc_Param := \<lambda>_. ''1''\<rparr>) =
       Inl (unauthorized demo_server)"
    unfolding demo_server_def demo_accounts_def
    using u1 demo_presented[where op = "Some ''remove-member''" and f = "\<lambda>_. ''1''"] demo_not_public
    by (intro sessions_end[OF demo_users_wf acct, where ?u1.0 = u1 and ?stale = False and sess = demo_session
          and email = "''al@x.io''"])
      (simp_all add: demo_server_def demo_accounts_def demo_session_def demo_sel)
  then show ?thesis using u1 by blast
qed

end
