(* ===== verification/Go_MIME.thy ===== *)
theory Go_MIME
  imports Go_Bytes
begin

text \<open>
  \<open>http.DetectContentType\<close>: the signatures the standard library looks for in the first 512 bytes, in
  its order, and the answer for what matches none of them.
\<close>

unbundle bit_operations_syntax

text \<open>
  A masked signature compares the bytes its mask keeps; the masks in use keep a byte whole or not at
  all, so the pattern says which byte, or any. Some skip white space first.
\<close>

datatype sniff_sig =
    ExactSig string string
  | MaskedSig bool "char option list" string
  | HtmlSig string
  | Mp4Sig
  | TextSig

definition is_ws :: "char \<Rightarrow> bool" where
  "is_ws c \<longleftrightarrow> of_char c \<in> set [9, 10, 12, 13, 32 :: nat]"

fun matches :: "char option list \<Rightarrow> string \<Rightarrow> bool" where
  "matches [] _ \<longleftrightarrow> True"
| "matches (_ # _) [] \<longleftrightarrow> False"
| "matches (p # ps) (c # cs) \<longleftrightarrow> (p = None \<or> p = Some c) \<and> matches ps cs"

text \<open>A tag, in either case, with a space or \<open>>\<close> after it.\<close>

definition tag_byte :: "char \<Rightarrow> char \<Rightarrow> bool" where
  "tag_byte b d \<longleftrightarrow>
     b = (if byte_in 65 90 b then char_of (of_char d AND 0xDF :: nat) else d)"

definition html_match :: "string \<Rightarrow> string \<Rightarrow> bool" where
  "html_match h d \<longleftrightarrow>
     length h < length d \<and> list_all2 tag_byte h (take (length h) d) \<and>
     (d ! length h = CHR '' '' \<or> d ! length h = CHR ''>'')"

definition big_endian32 :: "string \<Rightarrow> nat" where
  "big_endian32 s = foldl (\<lambda>acc c. acc * 256 + of_char c) 0 (take 4 s)"

definition mp4_match :: "string \<Rightarrow> bool" where
  "mp4_match d \<longleftrightarrow>
     12 \<le> length d \<and>
     (let size = big_endian32 d in
      size \<le> length d \<and> size mod 4 = 0 \<and> take 4 (drop 4 d) = ''ftyp'' \<and>
      list_ex (\<lambda>k. k \<noteq> 1 \<and> take 3 (drop (8 + 4 * k) d) = ''mp4'') [0..<(size - 8) div 4])"

definition binary_byte :: "char \<Rightarrow> bool" where
  "binary_byte c \<longleftrightarrow> byte_in 0 8 c \<or> byte_in 11 11 c \<or> byte_in 14 26 c \<or> byte_in 28 31 c"

definition after_ws :: "string \<Rightarrow> string" where
  "after_ws d = dropWhile is_ws d"

fun sig_match :: "sniff_sig \<Rightarrow> string \<Rightarrow> string option" where
  "sig_match (ExactSig p ct) d = (if has_prefix d p then Some ct else None)"
| "sig_match (MaskedSig skip p ct) d = (if matches p (if skip then after_ws d else d) then Some ct else None)"
| "sig_match (HtmlSig h) d = (if html_match h (after_ws d) then Some ''text/html; charset=utf-8'' else None)"
| "sig_match Mp4Sig d = (if mp4_match d then Some ''video/mp4'' else None)"
| "sig_match TextSig d =
     (if list_ex binary_byte (after_ws d) then None else Some ''text/plain; charset=utf-8'')"

definition any_bytes :: "nat \<Rightarrow> char option list" where
  "any_bytes n = replicate n None"

definition these_bytes :: "string \<Rightarrow> char option list" where
  "these_bytes s = map Some s"

definition container :: "string \<Rightarrow> string \<Rightarrow> string \<Rightarrow> sniff_sig" where
  "container outer inner ct = MaskedSig False (these_bytes outer @ any_bytes 4 @ these_bytes inner) ct"

definition sniffSignatures :: "sniff_sig list" where
  "sniffSignatures =
     map HtmlSig [''<!DOCTYPE HTML'', ''<HTML'', ''<HEAD'', ''<SCRIPT'', ''<IFRAME'', ''<H1'', ''<DIV'', ''<FONT'',
       ''<TABLE'', ''<A'', ''<STYLE'', ''<TITLE'', ''<B'', ''<BODY'', ''<BR'', ''<P'', ''<!--''] @
     [MaskedSig True (these_bytes ''<?xml'') ''text/xml; charset=utf-8'',
      ExactSig ''%PDF-'' ''application/pdf'',
      ExactSig ''%!PS-Adobe-'' ''application/postscript'',
      MaskedSig False (these_bytes ([CHR 0xFE, CHR 0xFF]) @ any_bytes 2) ''text/plain; charset=utf-16be'',
      MaskedSig False (these_bytes ([CHR 0xFF, CHR 0xFE]) @ any_bytes 2) ''text/plain; charset=utf-16le'',
      MaskedSig False (these_bytes ([CHR 0xEF, CHR 0xBB, CHR 0xBF]) @ any_bytes 1) ''text/plain; charset=utf-8'',
      ExactSig ([CHR 0x00, CHR 0x00, CHR 0x01, CHR 0x00]) ''image/x-icon'',
      ExactSig ([CHR 0x00, CHR 0x00, CHR 0x02, CHR 0x00]) ''image/x-icon'',
      ExactSig ''BM'' ''image/bmp'',
      ExactSig ''GIF87a'' ''image/gif'',
      ExactSig ''GIF89a'' ''image/gif'',
      container ''RIFF'' ''WEBPVP'' ''image/webp'',
      ExactSig ([CHR 0x89] @ ''PNG'' @ [CHR 0x0D, CHR 0x0A, CHR 0x1A, CHR 0x0A]) ''image/png'',
      ExactSig ([CHR 0xFF, CHR 0xD8, CHR 0xFF]) ''image/jpeg'',
      container ''FORM'' ''AIFF'' ''audio/aiff'',
      MaskedSig False (these_bytes ''ID3'') ''audio/mpeg'',
      MaskedSig False (these_bytes (''OggS'' @ [CHR 0x00])) ''application/ogg'',
      MaskedSig False (these_bytes (''MThd'' @ [CHR 0x00, CHR 0x00, CHR 0x00, CHR 0x06])) ''audio/midi'',
      container ''RIFF'' ''AVI '' ''video/avi'',
      container ''RIFF'' ''WAVE'' ''audio/wave'',
      Mp4Sig,
      ExactSig ([CHR 0x1A, CHR 0x45, CHR 0xDF, CHR 0xA3]) ''video/webm'',
      MaskedSig False (any_bytes 34 @ these_bytes ''LP'') ''application/vnd.ms-fontobject'',
      ExactSig ([CHR 0x00, CHR 0x01, CHR 0x00, CHR 0x00]) ''font/ttf'',
      ExactSig ''OTTO'' ''font/otf'',
      ExactSig ''ttcf'' ''font/collection'',
      ExactSig ''wOFF'' ''font/woff'',
      ExactSig ''wOF2'' ''font/woff2'',
      ExactSig ([CHR 0x1F, CHR 0x8B, CHR 0x08]) ''application/x-gzip'',
      ExactSig (''PK'' @ [CHR 0x03, CHR 0x04]) ''application/zip'',
      ExactSig (''Rar!'' @ [CHR 0x1A, CHR 0x07, CHR 0x00]) ''application/x-rar-compressed'',
      ExactSig (''Rar!'' @ [CHR 0x1A, CHR 0x07, CHR 0x01, CHR 0x00]) ''application/x-rar-compressed'',
      ExactSig ([CHR 0x00] @ ''asm'') ''application/wasm'',
      TextSig]"

fun first_match :: "sniff_sig list \<Rightarrow> string \<Rightarrow> string" where
  "first_match [] d = ''application/octet-stream''"
| "first_match (s # ss) d = (case sig_match s d of Some ct \<Rightarrow> ct | None \<Rightarrow> first_match ss d)"

definition DetectContentType :: "string \<Rightarrow> string" where
  "DetectContentType d = first_match sniffSignatures (take 512 d)"

definition sig_type :: "sniff_sig \<Rightarrow> string" where
  "sig_type s = (case s of ExactSig _ ct \<Rightarrow> ct | MaskedSig _ _ ct \<Rightarrow> ct
     | HtmlSig _ \<Rightarrow> ''text/html; charset=utf-8'' | Mp4Sig \<Rightarrow> ''video/mp4'' | TextSig \<Rightarrow> ''text/plain; charset=utf-8'')"

lemma first_match_type:
  "first_match ss d \<in> insert ''application/octet-stream'' (set (map sig_type ss))"
proof (induction ss)
  case (Cons s ss)
  have "sig_match s d = Some ct \<Longrightarrow> ct = sig_type s" for ct
    by (cases s) (auto simp: sig_type_def split: if_splits)
  then show ?case using Cons by (cases "sig_match s d") auto
qed simp

lemma DetectContentType_type:
  "DetectContentType d \<in> insert ''application/octet-stream'' (set (map sig_type sniffSignatures))"
  unfolding DetectContentType_def by (rule first_match_type)

end
