(* ===== verification/Files_Sniff.thy ===== *)
theory Files_Sniff
  imports Errors Go_MIME
begin

text \<open>
  What a payload is, from its bytes (\<open>internal/domain/files/sniff.go\<close>). Listing the names in a ZIP
  archive is \<open>archive/zip\<close>'s; it is a parameter, as are the case table of Unicode and its table of
  printable runes.
\<close>

record FileLibs =
  fx_lower :: "string \<Rightarrow> string"
  fx_print :: "nat \<Rightarrow> bool"
  fx_zip :: "string \<Rightarrow> string list option"

section \<open>Magic bytes\<close>

definition isMachO :: "string \<Rightarrow> bool" where
  "isMachO content \<longleftrightarrow>
     4 \<le> length content \<and>
     take 4 content \<in> set
       [[CHR 0xFE, CHR 0xED, CHR 0xFA, CHR 0xCE], [CHR 0xCE, CHR 0xFA, CHR 0xED, CHR 0xFE],
        [CHR 0xFE, CHR 0xED, CHR 0xFA, CHR 0xCF], [CHR 0xCF, CHR 0xFA, CHR 0xED, CHR 0xFE],
        [CHR 0xCA, CHR 0xFE, CHR 0xBA, CHR 0xBE], [CHR 0xBE, CHR 0xBA, CHR 0xFE, CHR 0xCA]]"

definition sniffExecutable :: "string \<Rightarrow> string" where
  "sniffExecutable content =
     (if has_prefix content ''MZ'' then ''application/x-msdownload''
      else if has_prefix content ([CHR 0x7F] @ ''ELF'') then ''application/x-elf''
      else if isMachO content then ''application/x-mach-binary''
      else if has_prefix content ([CHR 0x00] @ ''asm'') then ''application/wasm''
      else if has_prefix content ''#!'' then ''application/x-sh''
      else [])"

definition isWebP :: "string \<Rightarrow> bool" where
  "isWebP content \<longleftrightarrow>
     12 \<le> length content \<and> has_prefix content ''RIFF'' \<and> take 4 (drop 8 content) = ''WEBP''"

definition isZip :: "string \<Rightarrow> bool" where
  "isZip content \<longleftrightarrow>
     has_prefix content (''PK'' @ [CHR 0x03, CHR 0x04]) \<or> has_prefix content (''PK'' @ [CHR 0x05, CHR 0x06]) \<or>
     has_prefix content (''PK'' @ [CHR 0x07, CHR 0x08])"

definition wordType :: string where
  "wordType = ''application/vnd.openxmlformats-officedocument.wordprocessingml.document''"

definition excelType :: string where
  "excelType = ''application/vnd.openxmlformats-officedocument.spreadsheetml.sheet''"

definition pptType :: string where
  "pptType = ''application/vnd.openxmlformats-officedocument.presentationml.presentation''"

text \<open>The switch in the loop: a name counts for the first of the three folders it is in.\<close>

definition sniffZip :: "FileLibs \<Rightarrow> string \<Rightarrow> string" where
  "sniffZip libs content =
     (case fx_zip libs content of
        None \<Rightarrow> ''application/zip''
      | Some files \<Rightarrow>
          let names = map (to_lower (fx_lower libs)) files;
              word = list_ex (\<lambda>n. has_prefix n ''word/'') names;
              excel = list_ex (\<lambda>n. has_prefix n ''xl/'') names;
              ppt = list_ex (\<lambda>n. has_prefix n ''ppt/'') names
          in if word \<and> \<not> excel \<and> \<not> ppt then wordType
             else if excel \<and> \<not> word \<and> \<not> ppt then excelType
             else if ppt \<and> \<not> word \<and> \<not> excel then pptType
             else ''application/zip'')"

definition isMostlyText :: "string \<Rightarrow> bool" where
  "isMostlyText content \<longleftrightarrow>
     content \<noteq> [] \<and>
     length (filter (\<lambda>b. \<not> (byte_in 10 10 b \<or> byte_in 13 13 b \<or> byte_in 9 9 b) \<and>
                         (byte_in 0 31 b \<or> byte_in 127 127 b)) content) * 10 \<le> length content"

definition is_json_like :: "string \<Rightarrow> bool" where
  "is_json_like s \<longleftrightarrow>
     has_prefix s ''{'' \<and> has_suffix s ''}'' \<or> has_prefix s ''['' \<and> has_suffix s '']''"

definition Detect :: "FileLibs \<Rightarrow> string \<Rightarrow> string" where
  "Detect libs content =
     (if content = [] then []
      else if sniffExecutable content \<noteq> [] then sniffExecutable content
      else if has_prefix content ''%PDF'' then ''application/pdf''
      else if has_prefix content ([CHR 0x89] @ ''PNG'' @ [CHR 0x0D, CHR 0x0A, CHR 0x1A, CHR 0x0A]) then ''image/png''
      else if 3 \<le> length content \<and> take 3 content = [CHR 0xFF, CHR 0xD8, CHR 0xFF] then ''image/jpeg''
      else if has_prefix content ''GIF87a'' \<or> has_prefix content ''GIF89a'' then ''image/gif''
      else if isWebP content then ''image/webp''
      else if has_prefix content ([CHR 0x1F, CHR 0x8B]) then ''application/gzip''
      else if isZip content then sniffZip libs content
      else
        let trimmed = trim_left content; lower = to_lower (fx_lower libs) trimmed in
        if has_prefix lower ''<!doctype html'' \<or> has_prefix lower ''<html'' then ''text/html''
        else if has_prefix trimmed ''<?xml'' then ''application/xml''
        else if utf8_valid content \<and> isMostlyText content
        then (if is_json_like (trim_space trimmed) then ''application/json'' else ''text/plain'')
        else to_lower (fx_lower libs) (trim_space (before_byte CHR '';'' (DetectContentType content))))"

section \<open>Media types\<close>

definition NormalizeMediaType :: "FileLibs \<Rightarrow> string \<Rightarrow> string" where
  "NormalizeMediaType libs raw =
     to_lower (fx_lower libs) (trim_space (before_byte CHR '';'' (trim_space raw)))"

definition mediaAliases :: "(string \<times> string) list" where
  "mediaAliases =
     [(''image/jpg'', ''image/jpeg''),
      (''text/xml'', ''application/xml''),
      (''application/x-zip-compressed'', ''application/zip''),
      (''application/x-zip'', ''application/zip''),
      (''application/javascript'', ''text/javascript''),
      (''application/x-javascript'', ''text/javascript''),
      (''application/vnd.ms-excel'', ''application/vnd.ms-excel''),
      (''text/csv'', ''text/csv''),
      (''application/csv'', ''text/csv'')]"

definition CanonicalMediaType :: "FileLibs \<Rightarrow> string \<Rightarrow> string" where
  "CanonicalMediaType libs raw =
     (let n = NormalizeMediaType libs raw in
      case map_of mediaAliases n of Some alias \<Rightarrow> alias | None \<Rightarrow> n)"

definition extensionTypes :: "(string \<times> string) list" where
  "extensionTypes =
     [(''.pdf'', ''application/pdf''), (''.png'', ''image/png''), (''.jpg'', ''image/jpeg''),
      (''.jpeg'', ''image/jpeg''), (''.gif'', ''image/gif''), (''.webp'', ''image/webp''),
      (''.txt'', ''text/plain''), (''.csv'', ''text/csv''), (''.json'', ''application/json''),
      (''.xml'', ''application/xml''), (''.zip'', ''application/zip''), (''.gz'', ''application/gzip''),
      (''.docx'', wordType), (''.xlsx'', excelType), (''.pptx'', pptType)]"

definition executableExtensions :: "string list" where
  "executableExtensions =
     [''.exe'', ''.dll'', ''.bat'', ''.cmd'', ''.com'', ''.scr'', ''.msi'', ''.js'', ''.jse'', ''.vbs'',
      ''.vbe'', ''.ps1'', ''.wsf'', ''.sh'', ''.bin'', ''.elf'', ''.so'', ''.dylib'', ''.wasm'']"

definition TypeForExtension :: "FileLibs \<Rightarrow> string \<Rightarrow> string option" where
  "TypeForExtension libs ext = map_of extensionTypes (to_lower (fx_lower libs) ext)"

definition ExecutableExtension :: "FileLibs \<Rightarrow> string \<Rightarrow> bool" where
  "ExecutableExtension libs ext \<longleftrightarrow> to_lower (fx_lower libs) ext \<in> set executableExtensions"

definition typesCompatible :: "FileLibs \<Rightarrow> string \<Rightarrow> string \<Rightarrow> bool" where
  "typesCompatible libs a b \<longleftrightarrow>
     (let a = CanonicalMediaType libs a; b = CanonicalMediaType libs b in
      if a = [] \<or> b = [] then False
      else if a = b then True
      else a = ''text/csv'' \<and> b = ''text/plain'' \<or> a = ''text/plain'' \<and> b = ''text/csv'')"

section \<open>Lemmas\<close>

definition executableTypes :: "string list" where
  "executableTypes =
     [''application/x-msdownload'', ''application/x-elf'', ''application/x-mach-binary'', ''application/wasm'',
      ''application/x-sh'']"

lemma sniffExecutable_type: "sniffExecutable content \<noteq> [] \<Longrightarrow> sniffExecutable content \<in> set executableTypes"
  by (simp add: sniffExecutable_def executableTypes_def split: if_splits)

lemma sniffExecutable_Nil: "sniffExecutable [] = []"
  by code_simp

lemma Detect_executable: "sniffExecutable content \<noteq> [] \<Longrightarrow> Detect libs content = sniffExecutable content"
  by (cases "content = []") (simp_all add: Detect_def sniffExecutable_Nil)

lemma Detect_Nil [simp]: "Detect libs [] = []"
  by (simp add: Detect_def)

text \<open>An ASCII type without parameters is its own normal form when it is lower case.\<close>

definition normal_type :: "string \<Rightarrow> bool" where
  "normal_type t \<longleftrightarrow> list_all (\<lambda>c. plain_char c \<and> c \<noteq> CHR '';'' \<and> ascii_lower c = c) t"

lemma NormalizeMediaType_normal: "normal_type t \<Longrightarrow> NormalizeMediaType libs t = t"
proof -
  assume t: "normal_type t"
  then have "list_all plain_char t" "before_byte CHR '';'' t = t" "list_all is_ascii t" "map ascii_lower t = t"
    by (auto simp: normal_type_def list_all_iff plain_char_def before_byte_def takeWhile_eq_all_conv intro: map_idI)
  then show ?thesis by (simp add: NormalizeMediaType_def trim_space_plain to_lower_def)
qed

lemma CanonicalMediaType_normal:
  "normal_type t \<Longrightarrow> CanonicalMediaType libs t = (case map_of mediaAliases t of Some a \<Rightarrow> a | None \<Rightarrow> t)"
  by (simp add: CanonicalMediaType_def NormalizeMediaType_normal)

lemma executable_types_canonical:
  "t \<in> set executableTypes \<Longrightarrow> CanonicalMediaType libs t = t"
proof -
  have "list_all (\<lambda>t. normal_type t \<and> map_of mediaAliases t = None) executableTypes" by code_simp
  then show "t \<in> set executableTypes \<Longrightarrow> CanonicalMediaType libs t = t"
    by (auto simp: list_all_iff CanonicalMediaType_normal)
qed

lemma typesCompatible_commute: "typesCompatible libs a b \<longleftrightarrow> typesCompatible libs b a"
  by (auto simp: typesCompatible_def Let_def)

end
