(* ===== verification/Go_AES.thy ===== *)
theory Go_AES
  imports Go_Crypto
begin

text \<open>
  What the program uses of \<open>crypto/aes\<close> and \<open>crypto/cipher\<close>: AES with a key of 256 bits as FIPS 197
  defines it, and Galois/Counter Mode over it as NIST SP 800-38D does, with a nonce of 96 bits, a tag
  of 128 bits and no additional data. Bytes are 8-bit words inside the cipher.
\<close>

type_synonym byte = "8 word"

definition to_byte :: "char \<Rightarrow> byte" where
  "to_byte c = of_nat (of_char c)"

definition of_byte :: "byte \<Rightarrow> char" where
  "of_byte b = char_of (unat b)"

lemma of_to_byte [simp]: "of_byte (to_byte c) = c"
  using nat_of_char_less_256[of c] by (simp add: of_byte_def to_byte_def unat_of_nat take_bit_nat_eq_self)

lemma to_of_byte [simp]: "to_byte (of_byte b) = b"
proof -
  have "unat b < 256" using unsigned_less[of b, where ?'a = nat] by simp
  then show ?thesis by (simp add: of_byte_def to_byte_def)
qed

section \<open>AES-256\<close>

text \<open>Multiplication in the field of 256 elements, modulo \<open>x^8 + x^4 + x^3 + x + 1\<close>.\<close>

definition xtime :: "byte \<Rightarrow> byte" where
  "xtime b = (if bit b 7 then push_bit 1 b XOR 0x1B else push_bit 1 b)"

fun gf_mul :: "nat \<Rightarrow> byte \<Rightarrow> byte \<Rightarrow> byte" where
  "gf_mul 0 a b = 0"
| "gf_mul (Suc n) a b = (if bit b 0 then a else 0) XOR gf_mul n (xtime a) (drop_bit 1 b)"

abbreviation times8 :: "byte \<Rightarrow> byte \<Rightarrow> byte" where
  "times8 \<equiv> gf_mul 8"

text \<open>The S-box: the inverse, which is the 254th power, and an affine map on its bits.\<close>

definition gf_inverse :: "byte \<Rightarrow> byte" where
  "gf_inverse a =
     (let sq = (\<lambda>x. times8 x x); a2 = sq a; a4 = sq a2; a8 = sq a4; a16 = sq a8; a32 = sq a16; a64 = sq a32;
          a128 = sq a64
      in times8 a2 (times8 a4 (times8 a8 (times8 a16 (times8 a32 (times8 a64 a128))))))"

definition rol8 :: "nat \<Rightarrow> byte \<Rightarrow> byte" where
  "rol8 n b = push_bit n b OR drop_bit (8 - n) b"

definition sub_byte :: "byte \<Rightarrow> byte" where
  "sub_byte a = (let b = gf_inverse a in b XOR rol8 1 b XOR rol8 2 b XOR rol8 3 b XOR rol8 4 b XOR 0x63)"

text \<open>The state is sixteen bytes, column by column.\<close>

definition shift_rows :: "byte list \<Rightarrow> byte list" where
  "shift_rows s = map (\<lambda>k. s ! ((k + 4 * (k mod 4)) mod 16)) [0..<16]"

fun mix_column :: "byte list \<Rightarrow> byte list" where
  "mix_column [a, b, c, d] =
     [times8 2 a XOR times8 3 b XOR c XOR d, a XOR times8 2 b XOR times8 3 c XOR d,
      a XOR b XOR times8 2 c XOR times8 3 d, times8 3 a XOR b XOR c XOR times8 2 d]"
| "mix_column s = s"

definition mix_columns :: "byte list \<Rightarrow> byte list" where
  "mix_columns s = concat (map mix_column (chunks 4 4 s))"

definition xor_bytes :: "byte list \<Rightarrow> byte list \<Rightarrow> byte list" where
  "xor_bytes = map2 (XOR)"

text \<open>The key schedule: sixty words of four bytes, the newest first.\<close>

definition rcon :: "nat \<Rightarrow> byte" where
  "rcon k = (xtime ^^ (k - 1)) 1"

definition next_word :: "nat \<Rightarrow> byte list list \<Rightarrow> byte list" where
  "next_word i ws =
     (let t = hd ws;
          t = (if i mod 8 = 0 then xor_bytes (map sub_byte (rotate1 t)) [rcon (i div 8), 0, 0, 0]
               else if i mod 8 = 4 then map sub_byte t else t)
      in xor_bytes (ws ! 7) t)"

fun expand_key :: "nat \<Rightarrow> nat \<Rightarrow> byte list list \<Rightarrow> byte list list" where
  "expand_key 0 i ws = ws"
| "expand_key (Suc n) i ws = expand_key n (Suc i) (next_word i ws # ws)"

definition round_keys :: "byte list \<Rightarrow> byte list list" where
  "round_keys key = map concat (chunks 4 15 (rev (expand_key 52 8 (rev (chunks 4 8 key)))))"

definition aes_round :: "byte list \<Rightarrow> byte list \<Rightarrow> byte list" where
  "aes_round s k = xor_bytes (mix_columns (shift_rows (map sub_byte s))) k"

definition aes_encrypt :: "byte list list \<Rightarrow> byte list \<Rightarrow> byte list" where
  "aes_encrypt ks block =
     (let s = foldl aes_round (xor_bytes block (hd ks)) (butlast (tl ks))
      in xor_bytes (shift_rows (map sub_byte s)) (last ks))"

section \<open>Galois/Counter Mode\<close>

text \<open>
  Blocks as numbers of 128 bits, the first bit of the first byte on top; the field's polynomial is
  \<open>1 + x + x^2 + x^7 + x^128\<close> with the bits in that order.
\<close>

type_synonym block = "128 word"

definition block_of :: "byte list \<Rightarrow> block" where
  "block_of bs = foldl (\<lambda>acc b. push_bit 8 acc OR ucast b) 0 bs"

definition bytes_of_block :: "block \<Rightarrow> byte list" where
  "bytes_of_block w = map (\<lambda>k. ucast (drop_bit (120 - 8 * k) w)) [0..<16]"

fun ghash_mul :: "nat \<Rightarrow> block \<Rightarrow> block \<Rightarrow> block \<Rightarrow> block" where
  "ghash_mul 0 x v z = z"
| "ghash_mul (Suc n) x v z =
     ghash_mul n x (if bit v 0 then drop_bit 1 v XOR push_bit 120 0xE1 else drop_bit 1 v)
       (if bit x n then z XOR v else z)"

definition ghash_times :: "block \<Rightarrow> block \<Rightarrow> block" where
  "ghash_times x y = ghash_mul 128 x y 0"

text \<open>The blocks of a text, the last one filled with zeros.\<close>

definition pad_blocks :: "byte list \<Rightarrow> block list" where
  "pad_blocks bs =
     (let n = (length bs + 15) div 16
      in map block_of (chunks 16 n (bs @ replicate (16 * n - length bs) 0)))"

definition ghash :: "block \<Rightarrow> byte list \<Rightarrow> block" where
  "ghash h c =
     foldl (\<lambda>y x. ghash_times (y XOR x) h) 0 (pad_blocks c @ [of_nat (8 * length c)])"

definition counter_block :: "byte list \<Rightarrow> nat \<Rightarrow> byte list" where
  "counter_block nonce k = bytes_of_block (push_bit 32 (block_of nonce) OR ucast (of_nat k :: 32 word))"

definition key_stream :: "byte list list \<Rightarrow> byte list \<Rightarrow> nat \<Rightarrow> byte list" where
  "key_stream ks nonce n =
     take n (concat (map (\<lambda>k. aes_encrypt ks (counter_block nonce (k + 2))) [0..<(n + 15) div 16]))"

definition gcm_tag :: "byte list list \<Rightarrow> byte list \<Rightarrow> byte list \<Rightarrow> byte list" where
  "gcm_tag ks nonce c =
     xor_bytes (bytes_of_block (ghash (block_of (aes_encrypt ks (replicate 16 0))) c))
       (aes_encrypt ks (counter_block nonce 1))"

definition gcm_crypt :: "byte list list \<Rightarrow> byte list \<Rightarrow> byte list \<Rightarrow> byte list" where
  "gcm_crypt ks nonce m = xor_bytes m (key_stream ks nonce (length m))"

text \<open>\<open>aead.Seal(nil, nonce, plaintext, nil)\<close> and \<open>aead.Open\<close>, which refuses a tag that does not fit.\<close>

definition gcm_seal :: "string \<Rightarrow> string \<Rightarrow> string \<Rightarrow> string" where
  "gcm_seal key nonce plaintext =
     (let ks = round_keys (map to_byte key); n = map to_byte nonce;
          c = gcm_crypt ks n (map to_byte plaintext)
      in map of_byte (c @ gcm_tag ks n c))"

definition gcm_open :: "string \<Rightarrow> string \<Rightarrow> string \<Rightarrow> string option" where
  "gcm_open key nonce sealed =
     (let ks = round_keys (map to_byte key); n = map to_byte nonce;
          c = take (length sealed - 16) (map to_byte sealed); tag = drop (length sealed - 16) (map to_byte sealed)
      in if length sealed < 16 \<or> tag \<noteq> gcm_tag ks n c then None
         else Some (map of_byte (gcm_crypt ks n c)))"

section \<open>Lengths, and opening what was sealed\<close>

lemma length_chunks [simp]: "length (chunks n k xs) = k"
  by (induction k arbitrary: xs) simp_all

lemma chunks_members: "n * k \<le> length xs \<Longrightarrow> c \<in> set (chunks n k xs) \<Longrightarrow> length c = n \<and> set c \<subseteq> set xs"
proof (induction k arbitrary: xs)
  case (Suc k)
  have rest: "n * k \<le> length (drop n xs)" and len: "length (take n xs) = n"
    using Suc.prems(1) by simp_all
  consider "c = take n xs" | "c \<in> set (chunks n k (drop n xs))" using Suc.prems(2) by auto
  then show ?case
  proof cases
    case 1
    then show ?thesis using len set_take_subset[of n xs] by simp
  next
    case 2
    then show ?thesis using Suc.IH[OF rest 2] set_drop_subset[of n xs] by (meson subset_trans)
  qed
qed simp

lemma length_xor_bytes [simp]: "length (xor_bytes a b) = min (length a) (length b)"
  by (simp add: xor_bytes_def)

lemma length_next_word:
  assumes "8 \<le> length ws" "\<forall>w \<in> set ws. length w = 4"
  shows "length (next_word i ws) = 4"
proof -
  have "hd ws \<in> set ws" "ws ! 7 \<in> set ws" using assms(1) by (auto intro: hd_in_set nth_mem)
  then have "length (hd ws) = 4" "length (ws ! 7) = 4" using assms(2) by blast+
  then show ?thesis by (simp add: next_word_def Let_def)
qed

lemma expand_key_words:
  assumes "8 \<le> length ws" "\<forall>w \<in> set ws. length w = 4"
  shows "length (expand_key n i ws) = n + length ws \<and> (\<forall>w \<in> set (expand_key n i ws). length w = 4)"
  using assms
proof (induction n arbitrary: i ws)
  case (Suc n)
  have "length (next_word i ws) = 4" using length_next_word Suc.prems by blast
  then have "\<forall>w \<in> set (next_word i ws # ws). length w = 4" "8 \<le> length (next_word i ws # ws)"
    using Suc.prems by simp_all
  from Suc.IH[OF this(2,1), of "Suc i"] show ?case by simp
qed simp

lemma round_keys_words:
  assumes "length key = 32"
  shows "length (round_keys key) = 15" "k \<in> set (round_keys key) \<Longrightarrow> length k = 16"
proof -
  let ?ws = "expand_key 52 8 (rev (chunks 4 8 key))"
  have "\<forall>w \<in> set (rev (chunks 4 8 key)). length w = 4"
    using assms by (auto dest: chunks_members[rotated])
  then have ws: "length ?ws = 60" "\<forall>w \<in> set ?ws. length w = 4"
    using expand_key_words[of "rev (chunks 4 8 key)" 52 8] by auto
  show "length (round_keys key) = 15" by (simp add: round_keys_def)
  assume "k \<in> set (round_keys key)"
  then obtain c where c: "c \<in> set (chunks 4 15 (rev ?ws))" "k = concat c" by (auto simp: round_keys_def)
  then have "length c = 4" "set c \<subseteq> set ?ws" using chunks_members[OF _ c(1)] ws(1) by auto
  moreover have "\<forall>w \<in> set c. length w = 4 \<Longrightarrow> length (concat c) = 4 * length c" for c :: "byte list list"
    by (induction c) auto
  ultimately show "length k = 16" using ws(2) c(2) by fastforce
qed

lemma length_shift_rows [simp]: "length (shift_rows s) = 16"
  by (simp add: shift_rows_def)

lemma length_aes_encrypt: "length key = 32 \<Longrightarrow> length (aes_encrypt (round_keys key) b) = 16"
proof -
  assume key: "length key = 32"
  then have "round_keys key \<noteq> []" using round_keys_words(1)[OF key] by auto
  then have "length (last (round_keys key)) = 16" using round_keys_words(2)[OF key] last_in_set by blast
  then show ?thesis by (simp add: aes_encrypt_def Let_def)
qed

lemma length_key_stream: "length key = 32 \<Longrightarrow> length (key_stream (round_keys key) nonce n) = n"
proof -
  assume key: "length key = 32"
  have "length (concat (map (\<lambda>k. aes_encrypt (round_keys key) (f k)) ks)) = 16 * length ks" for f and ks :: "nat list"
    by (induction ks) (simp_all add: length_aes_encrypt[OF key])
  moreover have "n \<le> 16 * ((n + 15) div 16)" by presburger
  ultimately show ?thesis by (simp add: key_stream_def)
qed

lemma length_gcm_tag: "length key = 32 \<Longrightarrow> length (gcm_tag (round_keys key) nonce c) = 16"
  by (simp add: gcm_tag_def bytes_of_block_def length_aes_encrypt)

lemma xor_bytes_twice: "length m \<le> length k \<Longrightarrow> xor_bytes (xor_bytes m k) k = m"
proof (induction m arbitrary: k)
  case (Cons a m)
  then show ?case by (cases k) (simp_all add: xor_bytes_def xor.assoc)
qed (simp add: xor_bytes_def)

lemma gcm_crypt_twice:
  assumes "length key = 32"
  shows "gcm_crypt (round_keys key) n (gcm_crypt (round_keys key) n m) = m"
  using assms by (simp add: gcm_crypt_def length_key_stream xor_bytes_twice)

lemma length_gcm_seal: "length key = 32 \<Longrightarrow> length (gcm_seal key nonce m) = length m + 16"
  by (simp add: gcm_seal_def Let_def gcm_crypt_def length_key_stream length_gcm_tag)

theorem gcm_open_seal:
  assumes key: "length key = 32"
  shows "gcm_open key nonce (gcm_seal key nonce m) = Some m"
proof -
  have k: "length (map to_byte key) = 32" using key by simp
  let ?ks = "round_keys (map to_byte key)" and ?n = "map to_byte nonce"
  let ?c = "gcm_crypt ?ks ?n (map to_byte m)"
  have c: "length ?c = length m" by (simp add: gcm_crypt_def length_key_stream[OF k])
  have sealed: "map to_byte (gcm_seal key nonce m) = ?c @ gcm_tag ?ks ?n ?c"
    by (simp add: gcm_seal_def Let_def comp_def)
  show ?thesis
    using c by (simp add: gcm_open_def Let_def sealed length_gcm_seal[OF key] gcm_crypt_twice[OF k] comp_def)
qed

end
