(* ===== verification/Files_Service.thy ===== *)
theory Files_Service
  imports Files_Sniff Go_AES Calls
begin

text \<open>
  The upload pipeline of \<open>internal/domain/files\<close>: name, size and type checks, the scan, the
  encryption envelope, and the two stores a file lives in: a row in one, ciphertext in the other.
  The state is a pair: what the repository keeps and what the blob store keeps. An error wrapped
  with \<open>%w\<close> is the error it wraps, which is all \<open>errors.Is\<close> sees.
\<close>

section \<open>Rows and interfaces\<close>

record File =
  fl_ID :: uuid
  fl_CreatedAt :: time
  fl_UpdatedAt :: time
  fl_OrganizationID :: "uuid option"
  fl_UploadedBy :: uuid
  fl_OriginalName :: string
  fl_DeclaredType :: string
  fl_DetectedType :: string
  fl_SizeBytes :: int
  fl_Sha256 :: string
  fl_StorageKey :: string
  fl_EncryptionKeyID :: string
  fl_ScanStatus :: string
  fl_ScanEngine :: string

record 'r FilesRepository =
  fr_File :: "uuid \<Rightarrow> uuid \<Rightarrow> 'r \<Rightarrow> err + File"
  fr_Files :: "uuid \<Rightarrow> int \<Rightarrow> int \<Rightarrow> 'r \<Rightarrow> err + File list"
  fr_CreateFile :: "Call \<Rightarrow> uuid \<Rightarrow> File \<Rightarrow> ('r, err, File) prog"
  fr_DeleteFile :: "Call \<Rightarrow> uuid \<Rightarrow> uuid \<Rightarrow> ('r, err, unit) prog"

text \<open>\<open>CreateFile\<close> completes the row it is given a pointer to, so it answers with the row.\<close>

record 'r AccountFiles =
  af_CreateAccountFile :: "Call \<Rightarrow> File \<Rightarrow> ('r, err, File) prog"
  af_AccountFile :: "uuid \<Rightarrow> 'r \<Rightarrow> err + File"
  af_DeleteAccountFile :: "uuid \<Rightarrow> ('r, err, unit) prog"
  af_AttachAvatar :: "uuid \<Rightarrow> uuid \<Rightarrow> ('r, err, uuid) prog"
  af_DetachAvatar :: "uuid \<Rightarrow> ('r, err, uuid) prog"
  af_AvatarFile :: "uuid \<Rightarrow> 'r \<Rightarrow> err + File"

record 'b Blobs =
  bl_Put :: "uuid \<Rightarrow> uuid \<Rightarrow> string \<Rightarrow> ('b, err, string) prog"
  bl_Open :: "uuid \<Rightarrow> uuid \<Rightarrow> 'b \<Rightarrow> err + string"
  bl_Remove :: "uuid \<Rightarrow> uuid \<Rightarrow> ('b, err, unit) prog"
  bl_PutAccount :: "uuid \<Rightarrow> string \<Rightarrow> ('b, err, string) prog"
  bl_OpenAccount :: "uuid \<Rightarrow> 'b \<Rightarrow> err + string"
  bl_RemoveAccount :: "uuid \<Rightarrow> ('b, err, unit) prog"

record ScanOutcome =
  so_Status :: string
  so_Engine :: string

definition ScanSkipped :: string where "ScanSkipped = ''skipped''"
definition ScanClean :: string where "ScanClean = ''clean''"
definition ScanUnavailable :: string where "ScanUnavailable = ''unavailable''"

text \<open>A scanner answers with an outcome even when it fails; the engine it names is kept.\<close>

type_synonym Scanner = "string \<Rightarrow> ScanOutcome \<times> err option"

definition NopScanner :: Scanner where
  "NopScanner content = (\<lparr>so_Status = ScanSkipped, so_Engine = []\<rparr>, None)"

section \<open>The envelope\<close>

definition envelopeVersion :: char where "envelopeVersion = CHR 0x01"
definition nonceSize :: nat where "nonceSize = 12"
definition keySize :: nat where "keySize = 32"

definition gcm :: "string \<Rightarrow> err + unit" where
  "gcm key = (if length key \<noteq> keySize then Inl (DriverErr ''files: encryption key'') else Inr ())"

text \<open>\<open>random\<close> is what \<open>rand.Reader\<close> yields.\<close>

definition Seal :: "string option \<Rightarrow> string \<Rightarrow> string \<Rightarrow> err + string" where
  "Seal random key plaintext =
     (case gcm key of
        Inl e \<Rightarrow> Inl e
      | Inr _ \<Rightarrow>
          (case random of
             None \<Rightarrow> Inl (DriverErr ''files: nonce'')
           | Some bytes \<Rightarrow>
               if length bytes < nonceSize then Inl (DriverErr ''files: nonce'')
               else let nonce = take nonceSize bytes
                    in Inr ([envelopeVersion] @ nonce @ gcm_seal key nonce plaintext)))"

definition Open :: "string \<Rightarrow> string \<Rightarrow> err + string" where
  "Open key envelope =
     (if length envelope < 1 + nonceSize + 16 then Inl (FilesErr ErrCorrupt)
      else if envelope ! 0 \<noteq> envelopeVersion then Inl (FilesErr ErrCorrupt)
      else (case gcm key of
          Inl e \<Rightarrow> Inl e
        | Inr _ \<Rightarrow>
            (case gcm_open key (take nonceSize (drop 1 envelope)) (drop (1 + nonceSize) envelope) of
               None \<Rightarrow> Inl (FilesErr ErrCorrupt)
             | Some plaintext \<Rightarrow> Inr plaintext)))"

definition KeyID :: "string \<Rightarrow> string" where
  "KeyID key = hex_encode (take 8 (sha256 key))"

section \<open>The service\<close>

definition FilesMaxNameLength :: nat where "FilesMaxNameLength = 255"
definition FilesMaxPage :: int where "FilesMaxPage = 100"
definition DefaultMaxBytes :: int where "DefaultMaxBytes = 10 * 2 ^ 20"
definition DefaultAvatarMaxBytes :: int where "DefaultAvatarMaxBytes = 2 * 2 ^ 20"

definition DefaultAllowedTypes :: "string list" where
  "DefaultAllowedTypes =
     [''application/pdf'', ''image/png'', ''image/jpeg'', ''image/gif'', ''image/webp'', ''text/plain'', ''text/csv'',
      ''application/json'', ''application/zip'', wordType, excelType, pptType]"

definition DefaultAvatarTypes :: "string list" where
  "DefaultAvatarTypes = [''image/png'', ''image/jpeg'', ''image/gif'', ''image/webp'']"

record Settings =
  st_MaxBytes :: int
  st_AvatarMaxBytes :: int
  st_AllowedTypes :: "string list"
  st_RequireDeclaredMatch :: bool
  st_RequireExtensionMatch :: bool
  st_BlockExecutables :: bool
  st_EncryptionKey :: string
  st_ScanRequired :: bool

text \<open>The two indexes are sets of canonical types, kept as the lists they were built from.\<close>

record ('r, 'b) FileService =
  sf_repo :: "'r FilesRepository"
  sf_blobs :: "'b Blobs"
  sf_account :: "'r AccountFiles"
  sf_scanner :: Scanner
  sf_settings :: Settings
  sf_allowed :: "string list"
  sf_avatarAllowed :: "string list"
  sf_libs :: FileLibs

fun indexTypes :: "FileLibs \<Rightarrow> string list \<Rightarrow> err + string list" where
  "indexTypes libs [] = Inr []"
| "indexTypes libs (t # ts) =
     (let canon = CanonicalMediaType libs t in
      if canon = [] then Inl (InvalidErr ''files: empty allowed type'')
      else (case indexTypes libs ts of Inl e \<Rightarrow> Inl e | Inr index \<Rightarrow> Inr (canon # index)))"

definition NewFileService ::
    "FileLibs \<Rightarrow> 'r FilesRepository option \<Rightarrow> 'b Blobs option \<Rightarrow> 'r AccountFiles option \<Rightarrow> Scanner option \<Rightarrow>
     Settings \<Rightarrow> err + ('r, 'b) FileService" where
  "NewFileService libs repo blobs account scanner settings =
     (case repo of None \<Rightarrow> Inl (InvalidErr ''files: repository is required'') | Some repo \<Rightarrow>
     (case blobs of None \<Rightarrow> Inl (InvalidErr ''files: blob store is required'') | Some blobs \<Rightarrow>
     (case account of None \<Rightarrow> Inl (InvalidErr ''files: account files is required'') | Some account \<Rightarrow>
       let scanner = (case scanner of None \<Rightarrow> NopScanner | Some s \<Rightarrow> s);
           settings = (if st_MaxBytes settings \<le> 0 then settings\<lparr>st_MaxBytes := DefaultMaxBytes\<rparr> else settings);
           settings = (if st_AvatarMaxBytes settings \<le> 0
             then settings\<lparr>st_AvatarMaxBytes := DefaultAvatarMaxBytes\<rparr> else settings);
           allowed = (if st_AllowedTypes settings = [] then DefaultAllowedTypes else st_AllowedTypes settings)
       in (case indexTypes libs allowed of Inl e \<Rightarrow> Inl e | Inr index \<Rightarrow>
          (case indexTypes libs DefaultAvatarTypes of Inl e \<Rightarrow> Inl e | Inr avatarIndex \<Rightarrow>
             if length (st_EncryptionKey settings) \<noteq> keySize then Inl (InvalidErr ''files: encryption key'')
             else Inr \<lparr>sf_repo = repo, sf_blobs = blobs, sf_account = account, sf_scanner = scanner,
               sf_settings = settings, sf_allowed = index, sf_avatarAllowed = avatarIndex, sf_libs = libs\<rparr>)))))"

subsection \<open>Checking a payload\<close>

definition isBlockedExecutable :: "FileLibs \<Rightarrow> string \<Rightarrow> string \<Rightarrow> bool" where
  "isBlockedExecutable libs detected name \<longleftrightarrow>
     CanonicalMediaType libs detected \<in> set (executableTypes @ [''text/javascript'', ''application/javascript'']) \<or>
     ExecutableExtension libs (path_ext name)"

definition sanitizeName :: "FileLibs \<Rightarrow> string \<Rightarrow> err + string" where
  "sanitizeName libs raw =
     (let raw = map (\<lambda>c. if c = CHR 0x5C then CHR ''/'' else c) raw;
          name = trim_space (path_base raw)
      in if name = [] \<or> name = ''.'' \<or> name = ''..'' then Inl (FilesErr ErrNameInvalid)
         else if \<not> all_runes (unicode_print (fx_print libs)) name then Inl (FilesErr ErrNameInvalid)
         else if FilesMaxNameLength < rune_count name then Inl (FilesErr ErrNameInvalid)
         else Inr name)"

definition scan :: "('r, 'b) FileService \<Rightarrow> string \<Rightarrow> err + ScanOutcome" where
  "scan S content =
     (case sf_scanner S content of (outcome, err) \<Rightarrow>
        (case err of
           None \<Rightarrow> Inr (if so_Status outcome = [] then outcome\<lparr>so_Status := ScanClean\<rparr> else outcome)
         | Some e \<Rightarrow>
             if e = FilesErr ErrInfected then Inl (FilesErr ErrInfected)
             else if e = FilesErr ErrScanUnavailable then
               (if st_ScanRequired (sf_settings S) then Inl (FilesErr ErrScanUnavailable)
                else Inr \<lparr>so_Status = ScanUnavailable, so_Engine = so_Engine outcome\<rparr>)
             else Inl e))"

record preparedUpload =
  pu_name :: string
  pu_declared :: string
  pu_detected :: string
  pu_size :: int
  pu_sha256 :: string
  pu_scan :: ScanOutcome
  pu_ciphertext :: string

text \<open>The checks of the extension, which refuse or say nothing.\<close>

definition extension_check :: "('r, 'b) FileService \<Rightarrow> string \<Rightarrow> string \<Rightarrow> err option" where
  "extension_check S ext detected =
     (if \<not> (st_RequireExtensionMatch (sf_settings S) \<and> ext \<noteq> []) then None
      else if ExecutableExtension (sf_libs S) ext \<and> st_BlockExecutables (sf_settings S)
      then Some (FilesErr ErrExecutable)
      else (case TypeForExtension (sf_libs S) ext of
          Some want \<Rightarrow> if \<not> typesCompatible (sf_libs S) want detected then Some (FilesErr ErrTypeMismatch) else None
        | None \<Rightarrow> None))"

definition prepare ::
    "('r, 'b) FileService \<Rightarrow> Call \<Rightarrow> string \<Rightarrow> string \<Rightarrow> string \<Rightarrow> int \<Rightarrow> string list \<Rightarrow> err + preparedUpload" where
  "prepare S c filename declaredType content maxBytes allowed =
     (let libs = sf_libs S; settings = sf_settings S in
      case sanitizeName libs filename of Inl e \<Rightarrow> Inl e | Inr name \<Rightarrow>
      if content = [] then Inl (FilesErr ErrEmpty)
      else if maxBytes < int (length content) then Inl (FilesErr ErrTooLarge)
      else
        let detected = Detect libs content in
        if detected = [] then Inl (FilesErr ErrTypeNotAllowed)
        else if st_BlockExecutables settings \<and> isBlockedExecutable libs detected name
        then Inl (FilesErr ErrExecutable)
        else
          let declared = CanonicalMediaType libs declaredType;
              declared = (if declared = ''application/octet-stream'' then [] else declared) in
          if st_RequireDeclaredMatch settings \<and> declared \<noteq> [] \<and> \<not> typesCompatible libs declared detected
          then Inl (FilesErr ErrTypeMismatch)
          else
            let ext = to_lower (fx_lower libs) (path_ext name) in
            case extension_check S ext detected of
              Some e \<Rightarrow> Inl e
            | None \<Rightarrow>
                let effective = (if typesCompatible libs detected ''text/plain'' \<and> ext = ''.csv''
                      then ''text/csv'' else detected) in
                if CanonicalMediaType libs effective \<notin> set allowed then Inl (FilesErr ErrTypeNotAllowed)
                else (case scan S content of Inl e \<Rightarrow> Inl e | Inr outcome \<Rightarrow>
                  (case Seal (c_token c) (st_EncryptionKey settings) content of Inl e \<Rightarrow> Inl e | Inr ciphertext \<Rightarrow>
                     Inr \<lparr>pu_name = name, pu_declared = declared, pu_detected = effective,
                       pu_size = int (length content), pu_sha256 = hex_encode (sha256 content),
                       pu_scan = outcome, pu_ciphertext = ciphertext\<rparr>)))"

subsection \<open>Operations\<close>

text \<open>A call on one of the two stores, with the other left alone.\<close>

definition on_rows :: "('r, err, 'a) prog \<Rightarrow> ('r \<times> 'b, err, 'a) prog" where
  "on_rows p s = (case p (fst s) of (x, r) \<Rightarrow> (x, (r, snd s)))"

definition on_blobs :: "('b, err, 'a) prog \<Rightarrow> ('r \<times> 'b, err, 'a) prog" where
  "on_blobs p s = (case p (snd s) of (x, b) \<Rightarrow> (x, (fst s, b)))"

definition row_of :: "('r, 'b) FileService \<Rightarrow> uuid \<Rightarrow> uuid option \<Rightarrow> uuid \<Rightarrow> preparedUpload \<Rightarrow> string \<Rightarrow> File" where
  "row_of S fileID orgID actorID prep storageKey =
     \<lparr>fl_ID = fileID, fl_CreatedAt = zero_time, fl_UpdatedAt = zero_time, fl_OrganizationID = orgID,
      fl_UploadedBy = actorID, fl_OriginalName = pu_name prep, fl_DeclaredType = pu_declared prep,
      fl_DetectedType = pu_detected prep, fl_SizeBytes = pu_size prep, fl_Sha256 = pu_sha256 prep,
      fl_StorageKey = storageKey, fl_EncryptionKeyID = KeyID (st_EncryptionKey (sf_settings S)),
      fl_ScanStatus = so_Status (pu_scan prep), fl_ScanEngine = so_Engine (pu_scan prep)\<rparr>"

definition Upload ::
    "('r, 'b) FileService \<Rightarrow> Call \<Rightarrow> uuid \<Rightarrow> uuid \<Rightarrow> string \<Rightarrow> string \<Rightarrow> string \<Rightarrow> ('r \<times> 'b, err, File) prog" where
  "Upload S c orgID actorID filename declaredType content =
     (if orgID = uuid_Nil then refuse files_not_found
      else (case prepare S c filename declaredType content (st_MaxBytes (sf_settings S)) (sf_allowed S) of
          Inl e \<Rightarrow> refuse e
        | Inr prep \<Rightarrow>
            let fileID = c_newID c DrawFile in
            bindp (on_blobs (bl_Put (sf_blobs S) orgID fileID (pu_ciphertext prep))) (\<lambda>storageKey.
            attempt (on_rows (fr_CreateFile (sf_repo S) c orgID
                (row_of S fileID (Some orgID) actorID prep storageKey))) (\<lambda>r. case r of
               Inl e \<Rightarrow> attempt (on_blobs (bl_Remove (sf_blobs S) orgID fileID)) (\<lambda>_. refuse e)
             | Inr row \<Rightarrow> ok row))))"

definition FilesFile :: "('r, 'b) FileService \<Rightarrow> uuid \<Rightarrow> uuid \<Rightarrow> 'r \<times> 'b \<Rightarrow> err + File" where
  "FilesFile S orgID fileID s = fr_File (sf_repo S) orgID fileID (fst s)"

definition FilesList :: "('r, 'b) FileService \<Rightarrow> uuid \<Rightarrow> int \<Rightarrow> int \<Rightarrow> 'r \<times> 'b \<Rightarrow> err + File list" where
  "FilesList S orgID limit offset s =
     (let limit = (if limit \<le> 0 \<or> FilesMaxPage < limit then FilesMaxPage else limit);
          offset = (if offset < 0 then 0 else offset)
      in fr_Files (sf_repo S) orgID limit offset (fst s))"

definition Content :: "('r, 'b) FileService \<Rightarrow> uuid \<Rightarrow> uuid \<Rightarrow> 'r \<times> 'b \<Rightarrow> err + File \<times> string" where
  "Content S orgID fileID s =
     (case fr_File (sf_repo S) orgID fileID (fst s) of
        Inl e \<Rightarrow> Inl e
      | Inr row \<Rightarrow>
          (case bl_Open (sf_blobs S) orgID fileID (snd s) of
             Inl e \<Rightarrow> Inl e
           | Inr envelope \<Rightarrow>
               (case Open (st_EncryptionKey (sf_settings S)) envelope of
                  Inl e \<Rightarrow> Inl e
                | Inr plain \<Rightarrow> Inr (row, plain))))"

definition FilesDelete :: "('r, 'b) FileService \<Rightarrow> Call \<Rightarrow> uuid \<Rightarrow> uuid \<Rightarrow> ('r \<times> 'b, err, unit) prog" where
  "FilesDelete S c orgID fileID =
     bindp (query (FilesFile S orgID fileID)) (\<lambda>_.
     bindp (on_blobs (bl_Remove (sf_blobs S) orgID fileID)) (\<lambda>_.
     on_rows (fr_DeleteFile (sf_repo S) c orgID fileID)))"

definition SetAvatar ::
    "('r, 'b) FileService \<Rightarrow> Call \<Rightarrow> uuid \<Rightarrow> string \<Rightarrow> string \<Rightarrow> string \<Rightarrow> ('r \<times> 'b, err, File) prog" where
  "SetAvatar S c userID filename declaredType content =
     (if userID = uuid_Nil then refuse files_not_found
      else (case prepare S c filename declaredType content (st_AvatarMaxBytes (sf_settings S)) (sf_avatarAllowed S) of
          Inl e \<Rightarrow> refuse e
        | Inr prep \<Rightarrow>
            let fileID = c_newID c DrawFile in
            bindp (on_blobs (bl_PutAccount (sf_blobs S) fileID (pu_ciphertext prep))) (\<lambda>storageKey.
            attempt (on_rows (af_CreateAccountFile (sf_account S) c
                (row_of S fileID None userID prep storageKey))) (\<lambda>r. case r of
               Inl e \<Rightarrow> attempt (on_blobs (bl_RemoveAccount (sf_blobs S) fileID)) (\<lambda>_. refuse e)
             | Inr row \<Rightarrow>
                 attempt (on_rows (af_AttachAvatar (sf_account S) userID (fl_ID row))) (\<lambda>r. case r of
                    Inl e \<Rightarrow>
                      attempt (on_rows (af_DeleteAccountFile (sf_account S) (fl_ID row))) (\<lambda>_.
                      attempt (on_blobs (bl_RemoveAccount (sf_blobs S) fileID)) (\<lambda>_.
                      refuse e))
                  | Inr previous \<Rightarrow>
                      if previous \<noteq> uuid_Nil then
                        attempt (on_blobs (bl_RemoveAccount (sf_blobs S) previous)) (\<lambda>_.
                        attempt (on_rows (af_DeleteAccountFile (sf_account S) previous)) (\<lambda>_.
                        ok row))
                      else ok row)))))"

definition AvatarMeta :: "('r, 'b) FileService \<Rightarrow> uuid \<Rightarrow> 'r \<times> 'b \<Rightarrow> err + File" where
  "AvatarMeta S userID s = af_AvatarFile (sf_account S) userID (fst s)"

definition Avatar :: "('r, 'b) FileService \<Rightarrow> uuid \<Rightarrow> 'r \<times> 'b \<Rightarrow> err + File \<times> string" where
  "Avatar S userID s =
     (case af_AvatarFile (sf_account S) userID (fst s) of
        Inl e \<Rightarrow> Inl e
      | Inr row \<Rightarrow>
          (case bl_OpenAccount (sf_blobs S) (fl_ID row) (snd s) of
             Inl e \<Rightarrow> Inl e
           | Inr envelope \<Rightarrow>
               (case Open (st_EncryptionKey (sf_settings S)) envelope of
                  Inl e \<Rightarrow> Inl e
                | Inr plain \<Rightarrow> Inr (row, plain))))"

definition DeleteAvatar :: "('r, 'b) FileService \<Rightarrow> uuid \<Rightarrow> ('r \<times> 'b, err, unit) prog" where
  "DeleteAvatar S userID =
     bindp (on_rows (af_DetachAvatar (sf_account S) userID)) (\<lambda>previous.
     bindp (on_blobs (bl_RemoveAccount (sf_blobs S) previous)) (\<lambda>_.
     on_rows (af_DeleteAccountFile (sf_account S) previous)))"

section \<open>Lemmas\<close>

lemma Seal_parts:
  assumes "Seal random key m = Inr e"
  obtains nonce where "length key = 32" "length nonce = 12" "e = envelopeVersion # nonce @ gcm_seal key nonce m"
  using assms
  by (auto simp: Seal_def gcm_def keySize_def nonceSize_def Let_def split: option.splits if_splits)

theorem Open_Seal: "Seal random key m = Inr e \<Longrightarrow> Open key e = Inr m"
proof (erule Seal_parts)
  fix nonce
  assume key: "length key = 32" and n: "length nonce = 12" and e: "e = envelopeVersion # nonce @ gcm_seal key nonce m"
  show "Open key e = Inr m"
    using key n by (simp add: e Open_def gcm_def keySize_def nonceSize_def gcm_open_seal length_gcm_seal)
qed

text \<open>What a payload that passes the checks is.\<close>

lemma prepare_ok:
  assumes "prepare S c filename declared content maxBytes allowed = Inr prep"
  shows "sanitizeName (sf_libs S) filename = Inr (pu_name prep)"
    and "content \<noteq> []" and "int (length content) \<le> maxBytes"
    and "CanonicalMediaType (sf_libs S) (pu_detected prep) \<in> set allowed"
    and "pu_detected prep = Detect (sf_libs S) content \<or>
         pu_detected prep = ''text/csv'' \<and> typesCompatible (sf_libs S) (Detect (sf_libs S) content) ''text/plain''"
    and "st_BlockExecutables (sf_settings S) \<Longrightarrow>
         \<not> isBlockedExecutable (sf_libs S) (Detect (sf_libs S) content) (pu_name prep)"
    and "scan S content = Inr (pu_scan prep)"
    and "Seal (c_token c) (st_EncryptionKey (sf_settings S)) content = Inr (pu_ciphertext prep)"
    and "pu_size prep = int (length content)" "pu_sha256 prep = hex_encode (sha256 content)"
  using assms by (auto simp: prepare_def Let_def split: sum.splits option.splits if_splits)

lemma sanitizeName_ok:
  assumes "sanitizeName libs raw = Inr name"
  shows "name \<noteq> []" "name \<noteq> ''.''" "name \<noteq> ''..''" "all_runes (unicode_print (fx_print libs)) name"
    and "rune_count name \<le> 255"
  using assms by (auto simp: sanitizeName_def Let_def FilesMaxNameLength_def split: if_splits)

end
