(* ===== verification/Files_Contract.thy ===== *)
theory Files_Contract
  imports Files_Service
begin

text \<open>
  What the upload pipeline relies on: a blob store that keeps, by organization and file or by file
  alone, exactly what was put there last, and a table of rows. Both are stated over an abstraction,
  the blobs and the rows as functions; what the pipeline then promises is proved once, inside.
\<close>

section \<open>Calls whose failure is handled, and calls whose failure is ignored\<close>

lemma attempt_sum:
  "attempt p (case_sum f g) s = (q, t) \<longleftrightarrow>
     (\<exists>e s'. p s = (Inl e, s') \<and> f e s' = (q, t)) \<or> (\<exists>x s'. p s = (Inr x, s') \<and> g x s' = (q, t))"
  by (auto simp: attempt_eq split: sum.split_asm)

lemma bindp_eq:
  "bindp m f s = (q, t) \<longleftrightarrow>
     (\<exists>e. m s = (Inl e, t) \<and> q = Inl e) \<or> (\<exists>x s'. m s = (Inr x, s') \<and> f x s' = (q, t))"
  by (auto simp: bindp_def split: prod.splits sum.splits)

lemma attempt_ignored: "attempt p (\<lambda>_. m) s = m (snd (p s))"
  by (simp add: attempt_def split: prod.split)

section \<open>The two kinds of blob, by one key\<close>

type_synonym blob_key = "uuid option \<times> uuid"

definition put_at :: "'b Blobs \<Rightarrow> blob_key \<Rightarrow> string \<Rightarrow> ('b, err, string) prog" where
  "put_at B k x = (case k of (Some org, f) \<Rightarrow> bl_Put B org f x | (None, f) \<Rightarrow> bl_PutAccount B f x)"

definition open_at :: "'b Blobs \<Rightarrow> blob_key \<Rightarrow> 'b \<Rightarrow> err + string" where
  "open_at B k = (case k of (Some org, f) \<Rightarrow> bl_Open B org f | (None, f) \<Rightarrow> bl_OpenAccount B f)"

definition remove_at :: "'b Blobs \<Rightarrow> blob_key \<Rightarrow> ('b, err, unit) prog" where
  "remove_at B k = (case k of (Some org, f) \<Rightarrow> bl_Remove B org f | (None, f) \<Rightarrow> bl_RemoveAccount B f)"

lemma at_simps:
  "bl_Put B org f = put_at B (Some org, f)" "bl_PutAccount B f = put_at B (None, f)"
  "bl_Open B org f = open_at B (Some org, f)" "bl_OpenAccount B f = open_at B (None, f)"
  "bl_Remove B org f = remove_at B (Some org, f)" "bl_RemoveAccount B f = remove_at B (None, f)"
  by (simp_all add: put_at_def open_at_def remove_at_def fun_eq_iff)

text \<open>
  \<open>healthy\<close> says that no call fails. A call that fails leaves every blob as it was, a removal
  included; a blob that was put is what opening finds.
\<close>

locale blob_store =
  fixes B :: "'b Blobs" and usable :: "'b \<Rightarrow> bool" and healthy :: "'b \<Rightarrow> bool"
    and blob :: "'b \<Rightarrow> blob_key \<Rightarrow> string option"
  assumes put: "usable b \<Longrightarrow> put_at B k x b = (Inr key, b') \<Longrightarrow>
      usable b' \<and> (healthy b \<longrightarrow> healthy b') \<and> blob b' = (blob b)(k \<mapsto> x)"
    and put_fails: "usable b \<Longrightarrow> put_at B k x b = (Inl e, b') \<Longrightarrow> usable b' \<and> blob b' = blob b \<and> \<not> healthy b"
    and remove: "usable b \<Longrightarrow> remove_at B k b = (Inr u, b') \<Longrightarrow>
      usable b' \<and> (healthy b \<longrightarrow> healthy b') \<and> blob b' = (blob b)(k := None)"
    and remove_fails: "usable b \<Longrightarrow> remove_at B k b = (Inl e, b') \<Longrightarrow> usable b' \<and> blob b' = blob b \<and> \<not> healthy b"
    and open_some: "usable b \<Longrightarrow> open_at B k b = Inr x \<Longrightarrow> blob b k = Some x"
    and open_healthy: "usable b \<Longrightarrow> healthy b \<Longrightarrow> blob b k = Some x \<Longrightarrow> open_at B k b = Inr x"
begin

lemma remove_cases:
  assumes "usable b" "remove_at B k b = (r, b')"
  obtains "r = Inr ()" "usable b'" "healthy b \<longrightarrow> healthy b'" "blob b' = (blob b)(k := None)"
  | e where "r = Inl e" "\<not> healthy b" "usable b'" "blob b' = blob b"
proof (cases r)
  case (Inl e)
  then show ?thesis using remove_fails[OF assms(1), of k e b'] assms(2) that(2) by simp
next
  case (Inr x)
  then show ?thesis using remove[OF assms(1), of k x b'] assms(2) that(1) by simp
qed

end

section \<open>Rows\<close>

text \<open>
  What uploading needs of the table: reading a row, and adding one. Any table keeps that; what deleting and photos need
  is more, because there a call that is refused must have a reason.
\<close>

locale file_creation =
  fixes R :: "'r FilesRepository" and sound :: "'r \<Rightarrow> bool"
    and rows :: "'r \<Rightarrow> uuid \<Rightarrow> File option" and avatar :: "'r \<Rightarrow> uuid \<Rightarrow> uuid option"
  assumes File: "sound r \<Longrightarrow> fr_File R org f r =
      (case rows r f of Some row \<Rightarrow> if fl_OrganizationID row = Some org then Inr row else Inl files_not_found
       | None \<Rightarrow> Inl files_not_found)"
    and create: "sound r \<Longrightarrow> fr_CreateFile R c org row r = (Inr row', r') \<Longrightarrow> fl_ID row \<noteq> uuid_Nil \<Longrightarrow>
      sound r' \<and> rows r' = (rows r)(fl_ID row \<mapsto> row') \<and> avatar r' = avatar r \<and>
      (\<exists>created updated. row' =
         row\<lparr>fl_OrganizationID := Some org, fl_CreatedAt := created, fl_UpdatedAt := updated\<rparr>)"
    and create_fails: "sound r \<Longrightarrow> fr_CreateFile R c org row r = (Inl e, r') \<Longrightarrow>
      sound r' \<and> rows r' = rows r \<and> avatar r' = avatar r"

locale file_rows = file_creation R sound rows avatar
  for R :: "'r FilesRepository" and A :: "'r AccountFiles" and sound :: "'r \<Rightarrow> bool"
    and rows :: "'r \<Rightarrow> uuid \<Rightarrow> File option" and avatar :: "'r \<Rightarrow> uuid \<Rightarrow> uuid option" +
  assumes delete: "sound r \<Longrightarrow> fr_DeleteFile R c org f r = (q, r') \<Longrightarrow>
      sound r' \<and> avatar r' = avatar r \<and>
      (if \<exists>row. rows r f = Some row \<and> fl_OrganizationID row = Some org
       then q = Inr () \<and> rows r' = (rows r)(f := None) else q = Inl files_not_found \<and> rows r' = rows r)"
    and create_account: "sound r \<Longrightarrow> af_CreateAccountFile A c row r = (Inr row', r') \<Longrightarrow> fl_ID row \<noteq> uuid_Nil \<Longrightarrow>
      sound r' \<and> rows r' = (rows r)(fl_ID row \<mapsto> row') \<and> avatar r' = avatar r \<and>
      (\<exists>created updated. row' = row\<lparr>fl_OrganizationID := None, fl_CreatedAt := created, fl_UpdatedAt := updated\<rparr>)"
    and create_account_fails: "sound r \<Longrightarrow> af_CreateAccountFile A c row r = (Inl e, r') \<Longrightarrow>
      sound r' \<and> rows r' = rows r \<and> avatar r' = avatar r"
    and delete_account: "sound r \<Longrightarrow> af_DeleteAccountFile A f r = (q, r') \<Longrightarrow>
      sound r' \<and> avatar r' = avatar r \<and>
      (if \<exists>row. rows r f = Some row \<and> fl_OrganizationID row = None
       then q = Inr () \<and> rows r' = (rows r)(f := None) else q = Inl files_not_found \<and> rows r' = rows r)"
    and attach: "sound r \<Longrightarrow> af_AttachAvatar A u f r = (Inr previous, r') \<Longrightarrow>
      sound r' \<and> rows r' = rows r \<and> avatar r' = (avatar r)(u \<mapsto> f) \<and>
      previous = (case avatar r u of None \<Rightarrow> uuid_Nil | Some p \<Rightarrow> p)"
    and attach_fails: "sound r \<Longrightarrow> af_AttachAvatar A u f r = (Inl e, r') \<Longrightarrow>
      sound r' \<and> rows r' = rows r \<and> avatar r' = avatar r"
    and detach: "sound r \<Longrightarrow> af_DetachAvatar A u r = (Inr previous, r') \<Longrightarrow>
      sound r' \<and> rows r' = rows r \<and> avatar r u = Some previous \<and> avatar r' = (avatar r)(u := None)"
    and detach_fails: "sound r \<Longrightarrow> af_DetachAvatar A u r = (Inl e, r') \<Longrightarrow>
      sound r' \<and> rows r' = rows r \<and> avatar r' = avatar r"
    and avatar_file: "af_AvatarFile A u r = Inr row \<longleftrightarrow>
      (\<exists>f. avatar r u = Some f \<and> rows r f = Some row \<and> fl_OrganizationID row = None)"

section \<open>Uploading\<close>

locale upload_pipeline = blob_store B usable healthy blob + file_creation R sound rows avatar
  for B :: "'b Blobs" and usable healthy and blob :: "'b \<Rightarrow> blob_key \<Rightarrow> string option"
    and R :: "'r FilesRepository" and sound and rows :: "'r \<Rightarrow> uuid \<Rightarrow> File option"
    and avatar :: "'r \<Rightarrow> uuid \<Rightarrow> uuid option" +
  fixes S :: "('r, 'b) FileService"
  assumes connected: "sf_repo S = R" "sf_blobs S = B"
begin

abbreviation key :: string where "key \<equiv> st_EncryptionKey (sf_settings S)"

lemma on_rows_eq: "on_rows p s = (q, s') \<longleftrightarrow> (\<exists>r'. p (fst s) = (q, r') \<and> s' = (r', snd s))"
  by (auto simp: on_rows_def split: prod.splits)

lemma on_blobs_eq: "on_blobs p s = (q, s') \<longleftrightarrow> (\<exists>b'. p (snd s) = (q, b') \<and> s' = (fst s, b'))"
  by (auto simp: on_blobs_def split: prod.splits)

lemma on_snd [simp]:
  "snd (on_rows p s) = (snd (p (fst s)), snd s)" "snd (on_blobs q s) = (fst s, snd (q (snd s)))"
  by (simp_all add: on_rows_def on_blobs_def split: prod.splits)

lemmas steps = attempt_sum attempt_ignored ok_eq refuse_eq query_eq bindp_Inr bindp_Inl on_rows_eq on_blobs_eq connected at_simps Let_def

lemma upload_done:
  assumes up: "Upload S c org actor n d content (r, b) = (Inr row, (r', b'))" "sound r" "usable b"
    and fresh: "c_newID c DrawFile \<noteq> uuid_Nil"
  obtains prep created updated storageKey where
    "org \<noteq> uuid_Nil" "prepare S c n d content (st_MaxBytes (sf_settings S)) (sf_allowed S) = Inr prep"
    "row = (row_of S (c_newID c DrawFile) (Some org) actor prep storageKey)
       \<lparr>fl_CreatedAt := created, fl_UpdatedAt := updated\<rparr>"
    "sound r'" "usable b'" "healthy b \<longrightarrow> healthy b'" "rows r' = (rows r)(c_newID c DrawFile \<mapsto> row)"
    "blob b' = (blob b)((Some org, c_newID c DrawFile) \<mapsto> pu_ciphertext prep)" "avatar r' = avatar r"
proof -
  let ?f = "c_newID c DrawFile"
  obtain prep where org: "org \<noteq> uuid_Nil"
    and prep: "prepare S c n d content (st_MaxBytes (sf_settings S)) (sf_allowed S) = Inr prep"
    using up(1) by (auto simp: Upload_def steps split: if_splits sum.splits)
  then obtain k where at: "put_at B (Some org, ?f) (pu_ciphertext prep) b = (Inr k, b')"
    "fr_CreateFile R c org (row_of S ?f (Some org) actor prep k) r = (Inr row, r')"
    using up(1) by (auto simp: Upload_def steps)
  obtain created updated where
    "sound r'" "rows r' = (rows r)(?f \<mapsto> row)" "avatar r' = avatar r"
    "row = (row_of S ?f (Some org) actor prep k)
       \<lparr>fl_OrganizationID := Some org, fl_CreatedAt := created, fl_UpdatedAt := updated\<rparr>"
    using create[OF up(2) at(2)] fresh by (auto simp: row_of_def)
  then show ?thesis using that[OF org prep] put[OF up(3) at(1)] by (simp add: row_of_def)
qed

text \<open>
  The ways an upload is refused: before anything was written; by the blob store; by the table, after which the blob that
  was just put is removed, whatever that answers.
\<close>

lemma upload_refused:
  assumes up: "Upload S c org actor n d content (r, b) = (Inl e, (r', b'))"
  defines "k \<equiv> (Some org, c_newID c DrawFile)"
  obtains "r' = r" "b' = b"
    | x where "r' = r" "put_at B k x b = (Inl e, b')"
    | x key b1 row where "put_at B k x b = (Inr key, b1)" "fr_CreateFile R c org row r = (Inl e, r')"
        "b' = snd (remove_at B k b1)"
  using up unfolding k_def by (auto simp: Upload_def steps split: if_splits sum.splits)

lemma upload_refused_effect:
  assumes up: "Upload S c org actor n d content (r, b) = (Inl e, (r', b'))" "sound r" "usable b"
  shows "sound r'" "usable b'" "rows r' = rows r" "avatar r' = avatar r"
    and "\<exists>x. blob b' = (blob b)((Some org, c_newID c DrawFile) := x)"
    and "healthy b \<Longrightarrow> blob b (Some org, c_newID c DrawFile) = None \<Longrightarrow> blob b' = blob b"
proof -
  let ?k = "(Some org, c_newID c DrawFile)"
  from up(1) have "(sound r' \<and> usable b' \<and> rows r' = rows r \<and> avatar r' = avatar r) \<and>
    (\<exists>x. blob b' = (blob b)(?k := x)) \<and> (healthy b \<longrightarrow> blob b ?k = None \<longrightarrow> blob b' = blob b)"
  proof (cases rule: upload_refused)
    case 1
    then show ?thesis using up(2,3) fun_upd_triv[of "blob b" ?k] by metis
  next
    case (2 x)
    then show ?thesis using up(2) put_fails[OF up(3) 2(2)] fun_upd_triv[of "blob b" ?k] by metis
  next
    case (3 x key b1 row)
    have b1: "usable b1" "healthy b \<longrightarrow> healthy b1" "blob b1 = (blob b)(?k \<mapsto> x)"
      using put[OF up(3) 3(1)] by blast+
    obtain q where "remove_at B ?k b1 = (q, b')" using 3(3) by (cases "remove_at B ?k b1") simp
    then show ?thesis using create_fails[OF up(2) 3(2)] b1 by (cases rule: remove_cases[OF b1(1)]) auto
  qed
  then show "sound r'" "usable b'" "rows r' = rows r" "avatar r' = avatar r"
    and "\<exists>x. blob b' = (blob b)(?k := x)" and "healthy b \<Longrightarrow> blob b ?k = None \<Longrightarrow> blob b' = blob b"
    by blast+
qed

text \<open>What was uploaded can be read; who asks for another organization's file reads nothing.\<close>

lemma content_after_upload:
  assumes "Upload S c org actor n d content (r, b) = (Inr row, (r', b'))" "sound r" "usable b" "healthy b"
    and "c_newID c DrawFile \<noteq> uuid_Nil"
  shows "Content S org (fl_ID row) (r', b') = Inr (row, content)"
proof -
  obtain prep created updated storageKey where
    u: "org \<noteq> uuid_Nil" "prepare S c n d content (st_MaxBytes (sf_settings S)) (sf_allowed S) = Inr prep"
    "row = (row_of S (c_newID c DrawFile) (Some org) actor prep storageKey)
       \<lparr>fl_CreatedAt := created, fl_UpdatedAt := updated\<rparr>"
    "sound r'" "usable b'" "healthy b \<longrightarrow> healthy b'" "rows r' = (rows r)(c_newID c DrawFile \<mapsto> row)"
    "blob b' = (blob b)((Some org, c_newID c DrawFile) \<mapsto> pu_ciphertext prep)" "avatar r' = avatar r"
    by (rule upload_done[OF assms(1-3,5)])
  have f: "fl_ID row = c_newID c DrawFile" "fl_OrganizationID row = Some org" by (simp_all add: u(3) row_of_def)
  have "open_at B (Some org, fl_ID row) b' = Inr (pu_ciphertext prep)"
    using open_healthy[OF u(5)] u(6,8) assms(4) f by simp
  moreover have "Open key (pu_ciphertext prep) = Inr content" using prepare_ok(8)[OF u(2)] by (rule Open_Seal)
  ultimately show ?thesis using f u(7) by (simp add: Content_def connected File[OF u(4)] at_simps)
qed

lemma foreign_file:
  assumes "sound r" "\<And>row. rows r f = Some row \<Longrightarrow> fl_OrganizationID row \<noteq> Some org"
  shows "FilesFile S org f (r, b) = Inl files_not_found" "Content S org f (r, b) = Inl files_not_found"
    and "FilesDelete S c org f (r, b) = (Inl files_not_found, (r, b))"
proof -
  have no: "fr_File R org f r = Inl files_not_found" using assms(2) by (auto simp: File[OF assms(1)] split: option.splits)
  then show "FilesFile S org f (r, b) = Inl files_not_found" "Content S org f (r, b) = Inl files_not_found"
    by (simp_all add: FilesFile_def Content_def connected)
  then show "FilesDelete S c org f (r, b) = (Inl files_not_found, (r, b))"
    by (simp add: FilesDelete_def bindp_def query_def)
qed

end

section \<open>Setting a photo\<close>

locale photo_pipeline = upload_pipeline B usable healthy blob R sound rows avatar S
  for B :: "'b Blobs" and usable healthy and blob :: "'b \<Rightarrow> blob_key \<Rightarrow> string option"
    and R :: "'r FilesRepository" and A :: "'r AccountFiles" and sound and rows :: "'r \<Rightarrow> uuid \<Rightarrow> File option"
    and avatar :: "'r \<Rightarrow> uuid \<Rightarrow> uuid option" and S :: "('r, 'b) FileService" +
  assumes accounts: "sf_account S = A"
begin

lemmas wired = connected accounts

text \<open>Taking an account file out, whatever the two calls answer.\<close>

definition discarded :: "uuid \<Rightarrow> 'r \<times> 'b \<Rightarrow> 'r \<times> 'b" where
  "discarded f s = (snd (af_DeleteAccountFile A f (fst s)), snd (remove_at B (None, f) (snd s)))"

text \<open>The ways setting a photo ends: refused at one of its four steps, or done.\<close>

lemmas set_steps = attempt_sum attempt_ignored ok_eq refuse_eq bindp_eq on_rows_eq on_blobs_eq wired at_simps Let_def

lemma set_avatar_stages:
  assumes run: "SetAvatar S c u n d content (r, b) = (q, t)"
  obtains e where "q = Inl e" "t = (r, b)"
    | x e b1 where "q = Inl e" "put_at B (None, c_newID c DrawFile) x b = (Inl e, b1)" "t = (r, b1)"
    | prep k b1 e r1 where "q = Inl e"
        "prepare S c n d content (st_AvatarMaxBytes (sf_settings S)) (sf_avatarAllowed S) = Inr prep"
        "put_at B (None, c_newID c DrawFile) (pu_ciphertext prep) b = (Inr k, b1)"
        "af_CreateAccountFile A c (row_of S (c_newID c DrawFile) None u prep k) r = (Inl e, r1)"
        "t = (r1, snd (remove_at B (None, c_newID c DrawFile) b1))"
    | prep k b1 row r1 e r2 where "q = Inl e"
        "prepare S c n d content (st_AvatarMaxBytes (sf_settings S)) (sf_avatarAllowed S) = Inr prep"
        "put_at B (None, c_newID c DrawFile) (pu_ciphertext prep) b = (Inr k, b1)"
        "af_CreateAccountFile A c (row_of S (c_newID c DrawFile) None u prep k) r = (Inr row, r1)"
        "af_AttachAvatar A u (fl_ID row) r1 = (Inl e, r2)"
        "t = (snd (af_DeleteAccountFile A (fl_ID row) r2), snd (remove_at B (None, c_newID c DrawFile) b1))"
    | prep k b1 row r1 previous r2 where "q = Inr row" "u \<noteq> uuid_Nil"
        "prepare S c n d content (st_AvatarMaxBytes (sf_settings S)) (sf_avatarAllowed S) = Inr prep"
        "put_at B (None, c_newID c DrawFile) (pu_ciphertext prep) b = (Inr k, b1)"
        "af_CreateAccountFile A c (row_of S (c_newID c DrawFile) None u prep k) r = (Inr row, r1)"
        "af_AttachAvatar A u (fl_ID row) r1 = (Inr previous, r2)"
        "t = (if previous \<noteq> uuid_Nil then discarded previous (r2, b1) else (r2, b1))"
  using run by (auto simp: SetAvatar_def set_steps discarded_def split: if_split_asm sum.split_asm)

end

section \<open>The whole pipeline\<close>

locale file_pipeline = photo_pipeline B usable healthy blob R A sound rows avatar S + file_rows R A sound rows avatar
  for B :: "'b Blobs" and usable healthy and blob :: "'b \<Rightarrow> blob_key \<Rightarrow> string option"
    and R :: "'r FilesRepository" and A :: "'r AccountFiles" and sound and rows :: "'r \<Rightarrow> uuid \<Rightarrow> File option"
    and avatar :: "'r \<Rightarrow> uuid \<Rightarrow> uuid option" and S :: "('r, 'b) FileService"
begin

text \<open>The row says what its blob opens to.\<close>

definition describes :: "File \<Rightarrow> string \<Rightarrow> bool" where
  "describes row content \<longleftrightarrow>
     fl_SizeBytes row = int (length content) \<and> fl_Sha256 row = hex_encode (sha256 content)"

definition opens :: "'b \<Rightarrow> uuid \<Rightarrow> File \<Rightarrow> bool" where
  "opens b f row \<longleftrightarrow>
     (\<exists>x content. blob b (fl_OrganizationID row, f) = Some x \<and> Open key x = Inr content \<and> describes row content)"

text \<open>
  Every row's blob opens to what the row says, and every account's photo is an account file of its own.
\<close>

definition rows_open :: "'r \<times> 'b \<Rightarrow> bool" where
  "rows_open s \<longleftrightarrow> (\<forall>f row. rows (fst s) f = Some row \<longrightarrow> fl_ID row = f \<and> opens (snd s) f row)"

definition photos_ok :: "'r \<Rightarrow> bool" where
  "photos_ok r \<longleftrightarrow>
     (\<forall>u f. avatar r u = Some f \<longrightarrow>
        (\<exists>row. rows r f = Some row \<and> fl_OrganizationID row = None \<and> fl_UploadedBy row = u))"

definition stored :: "'r \<times> 'b \<Rightarrow> bool" where
  "stored s \<longleftrightarrow> sound (fst s) \<and> usable (snd s) \<and> rows_open s \<and> photos_ok (fst s)"

lemma photo_row:
  assumes "photos_ok r" "avatar r u = Some f"
  obtains row where "rows r f = Some row" "fl_OrganizationID row = None" "fl_UploadedBy row = u"
  using assms unfolding photos_ok_def by blast

lemma opens_blob:
  "blob b' (fl_OrganizationID row, f) = blob b (fl_OrganizationID row, f) \<Longrightarrow> opens b' f row \<longleftrightarrow> opens b f row"
  by (simp add: opens_def)

lemma rows_open_frame:
  assumes "rows_open (r, b)"
    and "\<And>f row. rows r' f = Some row \<Longrightarrow>
      rows r f = Some row \<and> blob b' (fl_OrganizationID row, f) = blob b (fl_OrganizationID row, f) \<or>
      fl_ID row = f \<and> opens b' f row"
  shows "rows_open (r', b')"
  using assms opens_blob unfolding rows_open_def fst_conv snd_conv by metis

lemma rows_open_add:
  assumes "rows_open (r, b)" "fl_ID row = f" "rows r' = (rows r)(f \<mapsto> row)" "blob b' = (blob b)((org, f) \<mapsto> x)"
    and "opens b' f row"
  shows "rows_open (r', b')"
  by (rule rows_open_frame[OF assms(1)]) (use assms(2-5) in \<open>simp split: if_split_asm\<close>)

lemma photos_ok_add:
  assumes "photos_ok r" "rows r f = None" "rows r' = (rows r)(f \<mapsto> row)" "avatar r' = avatar r"
  shows "photos_ok r'"
  unfolding photos_ok_def assms(3,4)
proof (intro allI impI)
  fix u g
  assume "avatar r u = Some g"
  then obtain row' where "rows r g = Some row'" "fl_OrganizationID row' = None" "fl_UploadedBy row' = u"
    using assms(1) by (auto simp: photos_ok_def)
  then show "\<exists>row'. ((rows r)(f \<mapsto> row)) g = Some row' \<and> fl_OrganizationID row' = None \<and> fl_UploadedBy row' = u"
    using assms(2) by (cases "g = f") simp_all
qed

text \<open>A row that no account's photo is may go, and its blob with it.\<close>

lemma rows_open_drop:
  assumes "rows_open (r, b)" "rows r' = (rows r)(f := None)" "blob b' = blob b \<or> blob b' = (blob b)((org, f) := None)"
  shows "rows_open (r', b')"
  by (rule rows_open_frame[OF assms(1)]) (use assms(2,3) in \<open>auto split: if_split_asm\<close>)

lemma photos_ok_drop:
  assumes "photos_ok r" "rows r' = (rows r)(f := None)" "\<And>u. avatar r u \<noteq> Some f" "avatar r' = avatar r"
  shows "photos_ok r'"
  using assms(1,3) unfolding photos_ok_def assms(2,4) by (metis fun_upd_other)

lemma prepared_opens:
  assumes "prepare S c n d content m al = Inr prep" "blob b (fl_OrganizationID row, f) = Some (pu_ciphertext prep)"
    and "fl_SizeBytes row = pu_size prep" "fl_Sha256 row = pu_sha256 prep"
  shows "opens b f row"
proof -
  have "Open key (pu_ciphertext prep) = Inr content" using prepare_ok(8)[OF assms(1)] by (rule Open_Seal)
  moreover have "describes row content" using prepare_ok(9,10)[OF assms(1)] assms(3,4) by (simp add: describes_def)
  ultimately show ?thesis using assms(2) unfolding opens_def by blast
qed

text \<open>Uploading keeps what is stored, whether it goes through or not.\<close>

lemma stored_upload:
  assumes "stored s" and fresh: "c_newID c DrawFile \<noteq> uuid_Nil" "rows (fst s) (c_newID c DrawFile) = None"
  shows "stored (snd (Upload S c org actor n d content s))"
proof -
  obtain r b where s: "s = (r, b)" by (cases s)
  have ok: "sound r" "usable b" "rows_open (r, b)" "photos_ok r" using assms(1) by (simp_all add: stored_def s)
  obtain q r' b' where up: "Upload S c org actor n d content (r, b) = (q, (r', b'))" by (metis prod.exhaust)
  let ?f = "c_newID c DrawFile"
  show ?thesis
  proof (cases q)
    case (Inl e)
    note refused = upload_refused_effect[OF up[unfolded Inl] ok(1,2)]
    obtain x where u: "sound r'" "usable b'" "rows r' = rows r" "avatar r' = avatar r"
      "blob b' = (blob b)((Some org, ?f) := x)" using refused(1-5) by blast
    have "rows_open (r', b')" by (rule rows_open_frame[OF ok(3)]) (use u fresh s in auto)
    then show ?thesis using u ok(4) by (simp add: s up stored_def photos_ok_def)
  next
    case (Inr row)
    obtain prep created updated storageKey where
      u: "org \<noteq> uuid_Nil" "prepare S c n d content (st_MaxBytes (sf_settings S)) (sf_allowed S) = Inr prep"
      "row = (row_of S ?f (Some org) actor prep storageKey)\<lparr>fl_CreatedAt := created, fl_UpdatedAt := updated\<rparr>"
      "sound r'" "usable b'" "healthy b \<longrightarrow> healthy b'" "rows r' = (rows r)(?f \<mapsto> row)"
      "blob b' = (blob b)((Some org, ?f) \<mapsto> pu_ciphertext prep)" "avatar r' = avatar r"
      by (rule upload_done[OF up[unfolded Inr] ok(1,2) fresh(1)])
    have "opens b' ?f row" by (rule prepared_opens[OF u(2)]) (simp_all add: u(3,8) row_of_def)
    moreover have "fl_ID row = ?f" by (simp add: u(3) row_of_def)
    ultimately have "rows_open (r', b')" by (intro rows_open_add[OF ok(3) _ u(7,8)])
    moreover have "photos_ok r'" by (rule photos_ok_add[OF ok(4) _ u(7,9)]) (use fresh(2) s in simp)
    ultimately show ?thesis using u(4,5) by (simp add: s up stored_def)
  qed
qed

text \<open>What is stored can be read, and is what its row says.\<close>

lemma content_of_stored:
  assumes "stored (r, b)" "healthy b" "rows r f = Some row" "fl_OrganizationID row = Some org"
  obtains content where "Content S org f (r, b) = Inr (row, content)" "describes row content"
proof -
  obtain x content where x: "blob b (Some org, f) = Some x" "Open key x = Inr content" "describes row content"
  proof -
    have "opens b f row" using assms(1,3) unfolding stored_def rows_open_def fst_conv snd_conv by blast
    then show thesis using assms(4) that unfolding opens_def by auto
  qed
  have "usable b" using assms(1) by (simp add: stored_def)
  then have "open_at B (Some org, f) b = Inr x" using x(1) assms(2) open_healthy by blast
  then have "Content S org f (r, b) = Inr (row, content)"
    using x(2) assms(1,3,4) by (simp add: Content_def wired File stored_def at_simps)
  then show ?thesis using x(3) that by blast
qed

lemma stored_delete:
  assumes "stored s"
  shows "stored (snd (FilesDelete S c org f s))"
proof -
  obtain r b where s: "s = (r, b)" by (cases s)
  have ok: "sound r" "usable b" "rows_open (r, b)" "photos_ok r" using assms by (simp_all add: stored_def s)
  show ?thesis
  proof (cases "\<exists>row. rows r f = Some row \<and> fl_OrganizationID row = Some org")
    case False
    then show ?thesis using foreign_file(3)[OF ok(1), of f org c b] assms s by auto
  next
    case True
    then obtain row where row: "rows r f = Some row" "fl_OrganizationID row = Some org" by blast
    then have here: "FilesFile S org f (r, b) = Inr row" by (simp add: FilesFile_def wired File[OF ok(1)])
    obtain q b' where rm: "remove_at B (Some org, f) b = (q, b')" by force
    show ?thesis
    proof (cases rule: remove_cases[OF ok(2) rm])
      case 1
      obtain q' r' where del: "fr_DeleteFile R c org f r = (q', r')" by force
      then have r': "sound r'" "avatar r' = avatar r" "rows r' = (rows r)(f := None)"
        using delete[OF ok(1) del] row by auto
      have out: "snd (FilesDelete S c org f s) = (r', b')"
        using here rm 1(1) del by (simp add: s FilesDelete_def bindp_def query_def on_blobs_def on_rows_def at_simps wired)
      have "rows_open (r', b')" using 1(4) by (intro rows_open_drop[OF ok(3) r'(3)]) blast
      moreover have "avatar r u \<noteq> Some f" for u using row by (auto elim: photo_row[OF ok(4)])
      then have "photos_ok r'" by (rule photos_ok_drop[OF ok(4) r'(3) _ r'(2)])
      ultimately show ?thesis using r' 1(2) by (simp add: out stored_def)
    next
      case (2 e)
      have out: "snd (FilesDelete S c org f s) = (r, b')"
        using here rm 2(1) by (simp add: s FilesDelete_def bindp_def query_def on_blobs_def at_simps wired)
      have "rows_open (r, b')" by (rule rows_open_frame[OF ok(3)]) (simp add: 2(4))
      then show ?thesis using ok 2(3) by (simp add: out stored_def)
    qed
  qed
qed

text \<open>An account file that is nobody's photo may be taken out.\<close>

lemma stored_discarded:
  assumes "stored (r, b)" "\<And>u. avatar r u \<noteq> Some f" and d: "discarded f (r, b) = (r', b')"
  shows "stored (r', b')" "avatar r' = avatar r" "healthy b \<Longrightarrow> healthy b'"
    and "g \<noteq> f \<Longrightarrow> rows r' g = rows r g" "g \<noteq> f \<Longrightarrow> blob b' (org, g) = blob b (org, g)"
    and "rows r f = Some row \<Longrightarrow> fl_OrganizationID row = None \<Longrightarrow> rows r' f = None"
proof -
  have ok: "sound r" "usable b" "rows_open (r, b)" "photos_ok r" using assms(1) by (simp_all add: stored_def)
  obtain q where del: "af_DeleteAccountFile A f r = (q, r')"
    using d by (cases "af_DeleteAccountFile A f r") (simp add: discarded_def)
  obtain p where rm: "remove_at B (None, f) b = (p, b')"
    using d by (cases "remove_at B (None, f) b") (simp add: discarded_def)
  have d: "sound r'" "avatar r' = avatar r" using delete_account[OF ok(1) del] by blast+
  then show "avatar r' = avatar r" by simp
  have b': "usable b'" "blob b' = blob b \<or> blob b' = (blob b)((None, f) := None)" "healthy b \<Longrightarrow> healthy b'"
    by (cases rule: remove_cases[OF ok(2) rm]; simp)+
  then show "healthy b \<Longrightarrow> healthy b'" by blast
  show "g \<noteq> f \<Longrightarrow> blob b' (org, g) = blob b (org, g)" using b'(2) by auto
  show "rows r f = Some row \<Longrightarrow> fl_OrganizationID row = None \<Longrightarrow> rows r' f = None"
    using delete_account[OF ok(1) del] by auto
  have "rows_open (r', b') \<and> photos_ok r' \<and> (\<forall>g. g \<noteq> f \<longrightarrow> rows r' g = rows r g)"
  proof (cases "\<exists>row. rows r f = Some row \<and> fl_OrganizationID row = None")
    case True
    then have r': "rows r' = (rows r)(f := None)" using delete_account[OF ok(1) del] by auto
    show ?thesis
      using rows_open_drop[OF ok(3) r' b'(2)] photos_ok_drop[OF ok(4) r' assms(2) d(2)] r' by simp
  next
    case False
    then have r': "rows r' = rows r" using delete_account[OF ok(1) del] by auto
    have "rows_open (r', b')"
      by (rule rows_open_frame[OF ok(3)]) (use False b'(2) r' in \<open>auto split: if_split_asm\<close>)
    then show ?thesis using ok(4) r' d(2) by (simp add: photos_ok_def)
  qed
  then show "stored (r', b')" and "g \<noteq> f \<Longrightarrow> rows r' g = rows r g"
    using d(1) b'(1) by (simp_all add: stored_def)
qed

text \<open>The three stages of setting a photo: the file is there; the account points at it; the old one goes.\<close>

lemma photo_created:
  assumes st: "stored (r, b)" and fresh: "f \<noteq> uuid_Nil" "rows r f = None"
    and prep: "prepare S c n d content m al = Inr prep"
    and at: "put_at B (None, f) (pu_ciphertext prep) b = (Inr k, b')"
      "af_CreateAccountFile A c (row_of S f None u prep k) r = (Inr row, r')"
  shows "stored (r', b')" "rows r' = (rows r)(f \<mapsto> row)" "avatar r' = avatar r" "healthy b \<longrightarrow> healthy b'"
    and "blob b' = (blob b)((None, f) \<mapsto> pu_ciphertext prep)"
    and "fl_ID row = f" "fl_OrganizationID row = None" "fl_UploadedBy row = u"
proof -
  have ok: "sound r" "usable b" "rows_open (r, b)" "photos_ok r" using st by (simp_all add: stored_def)
  show b': "healthy b \<longrightarrow> healthy b'" "blob b' = (blob b)((None, f) \<mapsto> pu_ciphertext prep)"
    using put[OF ok(2) at(1)] by blast+
  have "fl_ID (row_of S f None u prep k) = f" by (simp add: row_of_def)
  with create_account[OF ok(1) at(2)] fresh(1) obtain created updated where
    r': "sound r'" "rows r' = (rows r)(f \<mapsto> row)" "avatar r' = avatar r" and
    row: "row = (row_of S f None u prep k)\<lparr>fl_OrganizationID := None, fl_CreatedAt := created, fl_UpdatedAt := updated\<rparr>"
    by auto
  show "rows r' = (rows r)(f \<mapsto> row)" "avatar r' = avatar r" by (fact r')+
  show fl: "fl_ID row = f" "fl_OrganizationID row = None" "fl_UploadedBy row = u" by (simp_all add: row row_of_def)
  have "opens b' f row" by (rule prepared_opens[OF prep]) (simp_all add: row b'(2) row_of_def)
  then have "rows_open (r', b')" by (rule rows_open_add[OF ok(3) fl(1) r'(2) b'(2)])
  moreover have "photos_ok r'" by (rule photos_ok_add[OF ok(4) fresh(2) r'(2,3)])
  ultimately show "stored (r', b')" using r'(1) put[OF ok(2) at(1)] by (simp add: stored_def)
qed

lemma photo_attached:
  assumes st: "stored (r, b)" and row: "rows r f = Some row" "fl_OrganizationID row = None" "fl_UploadedBy row = u"
    and alone: "\<And>v. avatar r v \<noteq> Some f" and at: "af_AttachAvatar A u f r = (Inr previous, r')"
  shows "stored (r', b)" "rows r' = rows r" "avatar r' = (avatar r)(u \<mapsto> f)"
    and "previous \<noteq> uuid_Nil \<Longrightarrow> avatar r u = Some previous" "previous \<noteq> uuid_Nil \<Longrightarrow> avatar r' v \<noteq> Some previous"
proof -
  have ok: "sound r" "usable b" "rows_open (r, b)" "photos_ok r" using st by (simp_all add: stored_def)
  have r': "sound r'" "rows r' = rows r" "avatar r' = (avatar r)(u \<mapsto> f)"
    and previous: "previous = (case avatar r u of None \<Rightarrow> uuid_Nil | Some p \<Rightarrow> p)"
    using attach[OF ok(1) at] by blast+
  show "rows r' = rows r" "avatar r' = (avatar r)(u \<mapsto> f)" by (fact r')+
  show was: "previous \<noteq> uuid_Nil \<Longrightarrow> avatar r u = Some previous" using previous by (cases "avatar r u") simp_all
  have "photos_ok r'" using ok(4) row unfolding photos_ok_def r'(2,3) by simp
  moreover have "rows_open (r', b)" using ok(3) by (simp add: rows_open_def r'(2))
  ultimately show "stored (r', b)" using r'(1) ok(2) by (simp add: stored_def)
  assume "previous \<noteq> uuid_Nil"
  then have p: "avatar r u = Some previous" by (rule was)
  show "avatar r' v \<noteq> Some previous"
  proof (cases "v = u")
    case True
    then show ?thesis using p alone[of u] r'(3) by auto
  next
    case False
    then show ?thesis using p r'(3) by (auto elim!: photo_row[OF ok(4)])
  qed
qed

lemma stored_set_avatar:
  assumes st: "stored s" and fresh: "c_newID c DrawFile \<noteq> uuid_Nil" "rows (fst s) (c_newID c DrawFile) = None"
  shows "stored (snd (SetAvatar S c u n d content s))"
proof -
  obtain r b where s: "s = (r, b)" by (cases s)
  have ok: "sound r" "usable b" "rows_open (r, b)" "photos_ok r" using st by (simp_all add: stored_def s)
  let ?f = "c_newID c DrawFile"
  obtain q t where run: "SetAvatar S c u n d content (r, b) = (q, t)" by (meson surj_pair)
  have alone: "avatar r v \<noteq> Some ?f" for v using fresh(2) by (auto simp: s elim: photo_row[OF ok(4)])
  from run have "stored t"
  proof (cases rule: set_avatar_stages)
    case (1 e)
    then show ?thesis using st s by simp
  next
    case (2 x e b1)
    then show ?thesis using put_fails[OF ok(2) 2(2)] ok rows_open_frame[OF ok(3), of r b1] by (simp add: stored_def)
  next
    case (3 prep k b1 e r1)
    have b1: "usable b1" "blob b1 = (blob b)((None, ?f) \<mapsto> pu_ciphertext prep)" using put[OF ok(2) 3(3)] by blast+
    have r1: "sound r1" "rows r1 = rows r" "avatar r1 = avatar r" using create_account_fails[OF ok(1) 3(4)] by blast+
    obtain p b2 where rm: "remove_at B (None, ?f) b1 = (p, b2)" by force
    have "usable b2 \<and> (\<exists>x. blob b2 = (blob b)((None, ?f) := x))"
      by (cases rule: remove_cases[OF b1(1) rm]) (auto simp: b1(2) intro: exI[of _ "blob b (None, ?f)"])
    then obtain x where b2: "usable b2" "blob b2 = (blob b)((None, ?f) := x)" by blast
    have "rows_open (r1, b2)"
      by (rule rows_open_frame[OF ok(3)]) (use r1 b2 fresh(2) s in auto)
    then show ?thesis using ok(4) r1 b2 3(5) rm by (simp add: stored_def photos_ok_def)
  next
    case (4 prep k b1 row r1 e r2)
    note new = photo_created[OF st[unfolded s] fresh(1) fresh(2)[unfolded s fst_conv] 4(2-4)]
    have r2: "sound r2" "rows r2 = rows r1" "avatar r2 = avatar r1"
      using attach_fails[OF _ 4(5)] new(1) by (auto simp: stored_def)
    then have "stored (r2, b1)" using new(1) by (simp add: stored_def rows_open_def photos_ok_def)
    moreover have "avatar r2 v \<noteq> Some ?f" for v using alone r2(3) new(3) by simp
    ultimately have "stored (discarded ?f (r2, b1))"
      using stored_discarded(1)[OF _ _ surjective_pairing] by simp
    then show ?thesis using 4(6) new(6) by (simp add: discarded_def)
  next
    case (5 prep k b1 row r1 previous r2)
    note new = photo_created[OF st[unfolded s] fresh(1) fresh(2)[unfolded s fst_conv] 5(3-5)]
    have "rows r1 ?f = Some row" "avatar r1 v \<noteq> Some ?f" for v using new(2,3) alone by simp_all
    note att = photo_attached[OF new(1) this(1) new(7,8) this(2) 5(6)[unfolded new(6)]]
    show ?thesis using 5(7) att(1) stored_discarded(1)[OF att(1) att(5) surjective_pairing] by auto
  qed
  then show ?thesis using run s by simp
qed

text \<open>After a photo is set it is the account's photo, it opens to what was sent, and the one before is gone.\<close>

lemma photo_replaced:
  assumes st: "stored (r, b)" "healthy b"
    and fresh: "c_newID c DrawFile \<noteq> uuid_Nil" "rows r (c_newID c DrawFile) = None"
    and run: "SetAvatar S c u n d content (r, b) = (Inr row, (r', b'))"
  obtains prep where "prepare S c n d content (st_AvatarMaxBytes (sf_settings S)) (sf_avatarAllowed S) = Inr prep"
    "rows r' (c_newID c DrawFile) = Some row" "avatar r' = (avatar r)(u \<mapsto> c_newID c DrawFile)"
    "blob b' (None, c_newID c DrawFile) = Some (pu_ciphertext prep)" "usable b'" "healthy b'"
    "fl_ID row = c_newID c DrawFile" "fl_OrganizationID row = None" "fl_UploadedBy row = u"
    "\<And>old. avatar r u = Some old \<Longrightarrow> old \<noteq> uuid_Nil \<Longrightarrow> rows r' old = None"
  using run
proof (cases rule: set_avatar_stages)
  case (5 prep k b1 row' r1 previous r2)
  let ?f = "c_newID c DrawFile"
  have rr: "row' = row" using 5(1) by simp
  note new = photo_created[OF st(1) fresh 5(3-5), unfolded rr]
  have ok: "photos_ok r" using st(1) by (simp add: stored_def)
  have alone: "avatar r v \<noteq> Some ?f" for v using fresh(2) by (auto elim: photo_row[OF ok])
  have here: "rows r1 ?f = Some row" "avatar r1 v \<noteq> Some ?f" for v using new(2,3) alone by simp_all
  note att = photo_attached[OF new(1) here(1) new(7,8) here(2) 5(6)[unfolded rr new(6)]]
  have base: "rows r2 ?f = Some row" "blob b1 (None, ?f) = Some (pu_ciphertext prep)" "usable b1" "healthy b1"
    "avatar r2 = (avatar r)(u \<mapsto> ?f)" using att(1,2,3) here(1) new(3,4,5) st(2) by (simp_all add: stored_def)
  have old: "old = previous \<and> (\<exists>orow. rows r2 old = Some orow \<and> fl_OrganizationID orow = None)"
    if was: "avatar r u = Some old" for old
  proof -
    obtain orow where "rows r old = Some orow" "fl_OrganizationID orow = None" using photo_row[OF ok was] by blast
    then show ?thesis
      using attach[OF _ 5(6)] new(1,2,3) was att(2) fresh(2) by (cases "old = ?f") (auto simp: stored_def)
  qed
  show ?thesis
  proof (cases "previous = uuid_Nil")
    case True
    then show ?thesis using that[OF 5(3) _ _ _ _ _ new(6-8)] 5(7) base old by simp
  next
    case False
    then have t: "discarded previous (r2, b1) = (r', b')" using 5(7) by simp
    have ne: "?f \<noteq> previous" using att(4)[OF False] alone[of u] new(3) by auto
    note gone = stored_discarded[OF att(1) att(5)[OF False] t]
    show ?thesis
      by (rule that[OF 5(3) _ _ _ _ _ new(6-8)])
        (use gone(1-3) gone(4,5)[OF ne] gone(6) base old in \<open>auto simp: stored_def\<close>)
  qed
qed simp_all

lemma avatar_after_set:
  assumes "stored (r, b)" "healthy b" "c_newID c DrawFile \<noteq> uuid_Nil" "rows r (c_newID c DrawFile) = None"
    and "SetAvatar S c u n d content (r, b) = (Inr row, (r', b'))"
  shows "Avatar S u (r', b') = Inr (row, content)"
proof -
  let ?f = "c_newID c DrawFile"
  obtain prep where p: "prepare S c n d content (st_AvatarMaxBytes (sf_settings S)) (sf_avatarAllowed S) = Inr prep"
    "rows r' ?f = Some row" "avatar r' = (avatar r)(u \<mapsto> ?f)" "blob b' (None, ?f) = Some (pu_ciphertext prep)"
    "usable b'" "healthy b'" "fl_ID row = ?f" "fl_OrganizationID row = None"
    by (rule photo_replaced[OF assms])
  have "af_AvatarFile A u r' = Inr row" using p by (auto simp: avatar_file)
  moreover have "open_at B (None, ?f) b' = Inr (pu_ciphertext prep)" using open_healthy[OF p(5,6)] p(4) by simp
  moreover have "Open key (pu_ciphertext prep) = Inr content" using prepare_ok(8)[OF p(1)] by (rule Open_Seal)
  ultimately show ?thesis using p(7) by (simp add: Avatar_def wired at_simps)
qed

lemma stored_delete_avatar:
  assumes "stored s"
  shows "stored (snd (DeleteAvatar S u s))"
proof -
  obtain r b where s: "s = (r, b)" by (cases s)
  have ok: "sound r" "usable b" "rows_open (r, b)" "photos_ok r" using assms by (simp_all add: stored_def s)
  obtain q t where run: "DeleteAvatar S u (r, b) = (q, t)" by (meson surj_pair)
  obtain p r1 where det: "af_DetachAvatar A u r = (p, r1)" by force
  show ?thesis
  proof (cases p)
    case (Inl e)
    have "snd (DeleteAvatar S u s) = (r1, b)"
      using det Inl by (simp add: s DeleteAvatar_def bindp_def on_rows_def wired)
    then show ?thesis
      using detach_fails[OF ok(1) det[unfolded Inl]] ok by (simp add: stored_def rows_open_def photos_ok_def)
  next
    case (Inr f)
    have r1: "sound r1" "rows r1 = rows r" "avatar r u = Some f" "avatar r1 = (avatar r)(u := None)"
      using detach[OF ok(1) det[unfolded Inr]] by blast+
    have alone: "avatar r1 v \<noteq> Some f" for v
      using r1(3,4) by (auto elim!: photo_row[OF ok(4)])
    have st: "stored (r1, b)" using ok r1 by (simp add: stored_def rows_open_def photos_ok_def)
    obtain x b1 where rm: "remove_at B (None, f) b = (x, b1)" by force
    show ?thesis
    proof (cases x)
      case Inl': (Inl e)
      have "snd (DeleteAvatar S u s) = (r1, b1)"
        using det Inr rm Inl' by (simp add: s DeleteAvatar_def bindp_def on_rows_def on_blobs_def wired at_simps)
      moreover have "usable b1" "blob b1 = blob b" using remove_fails[OF ok(2) rm[unfolded Inl']] by blast+
      ultimately show ?thesis using st rows_open_frame[of r1 b r1 b1] by (simp add: stored_def)
    next
      case Inr': (Inr y)
      have "snd (DeleteAvatar S u s) = discarded f (r1, b)"
        using det Inr rm Inr'
        by (simp add: s DeleteAvatar_def bindp_def on_rows_def on_blobs_def wired at_simps discarded_def split: prod.splits)
      then show ?thesis using stored_discarded(1)[OF st alone surjective_pairing] by simp
    qed
  qed
qed

end

end
