(* ===== verification/Files_Memory.thy ===== *)
theory Files_Memory
  imports Files_Service Memory_Authz
begin

text \<open>
  The stores behind the upload pipeline: rows in memory
  (\<open>internal/store/repositories/memory/files.go\<close>, with the avatar methods of \<open>users.go\<close>), blobs in
  memory (\<open>internal/domain/files/memory.go\<close>) and blobs on disk (\<open>internal/filestore/local.go\<close>).
\<close>

section \<open>Rows\<close>

text \<open>The map of files is a field of the authorization store, next to the others.\<close>

record FileStore =
  fs_authz :: AuthzStore
  fs_files :: "(uuid, File) amap"

type_synonym 'a fprog = "(FileStore, err, 'a) prog"

definition belongsToOrg :: "File \<Rightarrow> uuid \<Rightarrow> bool" where
  "belongsToOrg row orgID \<longleftrightarrow> fl_OrganizationID row = Some orgID"

definition MemFile :: "uuid \<Rightarrow> uuid \<Rightarrow> FileStore \<Rightarrow> err + File" where
  "MemFile orgID fileID m =
     (case map_of (fs_files m) fileID of
        None \<Rightarrow> Inl files_not_found
      | Some row \<Rightarrow> if \<not> belongsToOrg row orgID then Inl files_not_found else Inr row)"

text \<open>Newest first: the identifiers' strings are compared, which compares the identifiers.\<close>

definition MemFiles :: "uuid \<Rightarrow> int \<Rightarrow> int \<Rightarrow> FileStore \<Rightarrow> err + File list" where
  "MemFiles orgID limit offset m =
     (let out = rev (sort_key fl_ID (filter (\<lambda>row. belongsToOrg row orgID) (avals (fs_files m))))
      in page out limit offset)"

definition stamped :: "Call \<Rightarrow> uuid option \<Rightarrow> File \<Rightarrow> File" where
  "stamped c org row =
     (let row = (if fl_ID row = uuid_Nil then row\<lparr>fl_ID := c_newID c DrawFile\<rparr> else row);
          now = c_now c ClockRow;
          row = (if fl_CreatedAt row = zero_time then row\<lparr>fl_CreatedAt := now\<rparr> else row)
      in row\<lparr>fl_UpdatedAt := now, fl_OrganizationID := org\<rparr>)"

definition MemCreateFile :: "Call \<Rightarrow> uuid \<Rightarrow> File \<Rightarrow> File fprog" where
  "MemCreateFile c orgID file m =
     (let row = stamped c (Some orgID) file in
      ok row (m\<lparr>fs_files := AList.update (fl_ID row) row (fs_files m),
        fs_authz := recordLocked c (no_event\<lparr>ev_OrganizationID := Some orgID, ev_SubjectID := Some (fl_ID row),
          ev_Action := ActionFileUploaded, ev_Detail := fl_OriginalName row\<rparr>) (fs_authz m)\<rparr>))"

definition MemDeleteFile :: "Call \<Rightarrow> uuid \<Rightarrow> uuid \<Rightarrow> unit fprog" where
  "MemDeleteFile c orgID fileID m =
     (case map_of (fs_files m) fileID of
        None \<Rightarrow> refuse files_not_found m
      | Some row \<Rightarrow>
          if \<not> belongsToOrg row orgID then refuse files_not_found m
          else ok () (m\<lparr>fs_files := AList.delete fileID (fs_files m),
            fs_authz := recordLocked c (no_event\<lparr>ev_OrganizationID := Some orgID, ev_SubjectID := Some fileID,
              ev_Action := ActionFileDeleted, ev_Detail := fl_OriginalName row\<rparr>) (fs_authz m)\<rparr>))"

definition MemCreateAccountFile :: "Call \<Rightarrow> File \<Rightarrow> File fprog" where
  "MemCreateAccountFile c file m =
     (let row = stamped c None file in ok row (m\<lparr>fs_files := AList.update (fl_ID row) row (fs_files m)\<rparr>))"

definition MemAccountFile :: "uuid \<Rightarrow> FileStore \<Rightarrow> err + File" where
  "MemAccountFile fileID m =
     (case map_of (fs_files m) fileID of
        None \<Rightarrow> Inl files_not_found
      | Some row \<Rightarrow> if fl_OrganizationID row \<noteq> None then Inl files_not_found else Inr row)"

definition MemDeleteAccountFile :: "uuid \<Rightarrow> unit fprog" where
  "MemDeleteAccountFile fileID m =
     (case map_of (fs_files m) fileID of
        None \<Rightarrow> refuse files_not_found m
      | Some row \<Rightarrow>
          if fl_OrganizationID row \<noteq> None then refuse files_not_found m
          else ok () (m\<lparr>fs_files := AList.delete fileID (fs_files m)\<rparr>))"

subsection \<open>The pointer an account keeps\<close>

definition attachAvatar :: "uuid \<Rightarrow> uuid \<Rightarrow> uuid uprog" where
  "attachAvatar userID fileID m =
     (case map_of (us_users m) userID of
        None \<Rightarrow> refuse user_not_found m
      | Some u \<Rightarrow>
          if UserIsDeleted u then refuse user_not_found m
          else ok (case u_AvatarID u of None \<Rightarrow> uuid_Nil | Some previous \<Rightarrow> previous)
            (m\<lparr>us_users := AList.update userID (u\<lparr>u_AvatarID := Some fileID\<rparr>) (us_users m)\<rparr>))"

definition detachAvatar :: "uuid \<Rightarrow> uuid uprog" where
  "detachAvatar userID m =
     (case map_of (us_users m) userID of
        None \<Rightarrow> refuse user_not_found m
      | Some u \<Rightarrow>
          if UserIsDeleted u then refuse user_not_found m
          else (case u_AvatarID u of
              None \<Rightarrow> refuse files_not_found m
            | Some previous \<Rightarrow>
                ok previous (m\<lparr>us_users := AList.update userID (u\<lparr>u_AvatarID := None\<rparr>) (us_users m)\<rparr>)))"

definition avatarID :: "uuid \<Rightarrow> Users \<Rightarrow> err + uuid" where
  "avatarID userID m =
     (case map_of (us_users m) userID of
        None \<Rightarrow> Inl user_not_found
      | Some u \<Rightarrow>
          if UserIsDeleted u then Inl user_not_found
          else (case u_AvatarID u of None \<Rightarrow> Inl files_not_found | Some fileID \<Rightarrow> Inr fileID))"

definition on_users :: "'a uprog \<Rightarrow> 'a fprog" where
  "on_users p m =
     (case ma_users (fs_authz m) of
        None \<Rightarrow> refuse user_not_found m
      | Some users \<Rightarrow>
          (case p users of (x, users') \<Rightarrow> (x, m\<lparr>fs_authz := fs_authz m\<lparr>ma_users := Some users'\<rparr>\<rparr>)))"

definition MemAttachAvatar :: "uuid \<Rightarrow> uuid \<Rightarrow> uuid fprog" where
  "MemAttachAvatar userID fileID m =
     (case map_of (fs_files m) fileID of
        None \<Rightarrow> refuse files_not_found m
      | Some row \<Rightarrow>
          if fl_OrganizationID row \<noteq> None then refuse files_not_found m
          else on_users (attachAvatar userID fileID) m)"

definition MemDetachAvatar :: "uuid \<Rightarrow> uuid fprog" where
  "MemDetachAvatar userID = on_users (detachAvatar userID)"

definition MemAvatarFile :: "uuid \<Rightarrow> FileStore \<Rightarrow> err + File" where
  "MemAvatarFile userID m =
     (case ma_users (fs_authz m) of
        None \<Rightarrow> Inl user_not_found
      | Some users \<Rightarrow>
          (case avatarID userID users of Inl e \<Rightarrow> Inl e | Inr fileID \<Rightarrow> MemAccountFile fileID m))"

definition mem_files :: "FileStore FilesRepository" where
  "mem_files = \<lparr>fr_File = MemFile, fr_Files = MemFiles, fr_CreateFile = MemCreateFile, fr_DeleteFile = MemDeleteFile\<rparr>"

definition mem_account_files :: "FileStore AccountFiles" where
  "mem_account_files = \<lparr>af_CreateAccountFile = MemCreateAccountFile, af_AccountFile = MemAccountFile,
     af_DeleteAccountFile = MemDeleteAccountFile, af_AttachAvatar = MemAttachAvatar,
     af_DetachAvatar = MemDetachAvatar, af_AvatarFile = MemAvatarFile\<rparr>"

section \<open>Blobs in memory\<close>

text \<open>\<open>str\<close> is \<open>uuid.UUID.String\<close>.\<close>

type_synonym MemoryBlobs = "(string, string) amap"

definition NewMemoryBlobs :: MemoryBlobs where
  "NewMemoryBlobs = []"

definition blobKey :: "(uuid \<Rightarrow> string) \<Rightarrow> uuid \<Rightarrow> uuid \<Rightarrow> string" where
  "blobKey str orgID fileID = str orgID @ ''/'' @ str fileID"

definition accountKey :: "(uuid \<Rightarrow> string) \<Rightarrow> uuid \<Rightarrow> string" where
  "accountKey str fileID = ''account/'' @ str fileID"

definition blob_put :: "string \<Rightarrow> string \<Rightarrow> (MemoryBlobs, err, string) prog" where
  "blob_put key ciphertext m = ok key (AList.update key ciphertext m)"

definition blob_open :: "string \<Rightarrow> MemoryBlobs \<Rightarrow> err + string" where
  "blob_open key m = (case map_of m key of None \<Rightarrow> Inl files_not_found | Some raw \<Rightarrow> Inr raw)"

definition blob_remove :: "string \<Rightarrow> (MemoryBlobs, err, unit) prog" where
  "blob_remove key m = ok () (AList.delete key m)"

definition mem_blobs :: "(uuid \<Rightarrow> string) \<Rightarrow> MemoryBlobs Blobs" where
  "mem_blobs str = \<lparr>bl_Put = (\<lambda>org f. blob_put (blobKey str org f)), bl_Open = (\<lambda>org f. blob_open (blobKey str org f)),
     bl_Remove = (\<lambda>org f. blob_remove (blobKey str org f)),
     bl_PutAccount = (\<lambda>f. blob_put (accountKey str f)), bl_OpenAccount = (\<lambda>f. blob_open (accountKey str f)),
     bl_RemoveAccount = (\<lambda>f. blob_remove (accountKey str f))\<rparr>"

section \<open>Blobs on disk\<close>

text \<open>
  A disk is the contents of its files by path; any system call may fail. \<open>dk_fault call path\<close> says
  whether it does, and a write that fails has written the first \<open>dk_partial\<close> bytes. Directories are
  there once \<open>MkdirAll\<close> has succeeded, which is all the code does with them.
\<close>

datatype syscall = SysMkdir | SysWrite | SysRename | SysRemove | SysOpen

record Disk =
  dk_files :: "(string, string) amap"
  dk_fault :: "syscall \<Rightarrow> string \<Rightarrow> bool"
  dk_partial :: nat

definition os_MkdirAll :: "string \<Rightarrow> (Disk, err, unit) prog" where
  "os_MkdirAll path d = (if dk_fault d SysMkdir path then refuse (DriverErr ''mkdir'') d else ok () d)"

definition os_WriteFile :: "string \<Rightarrow> string \<Rightarrow> (Disk, err, unit) prog" where
  "os_WriteFile path bytes d =
     (if dk_fault d SysWrite path
      then refuse (DriverErr ''write'') (d\<lparr>dk_files := AList.update path (take (dk_partial d) bytes) (dk_files d)\<rparr>)
      else ok () (d\<lparr>dk_files := AList.update path bytes (dk_files d)\<rparr>))"

definition os_Rename :: "string \<Rightarrow> string \<Rightarrow> (Disk, err, unit) prog" where
  "os_Rename old new d =
     (if dk_fault d SysRename old then refuse (DriverErr ''rename'') d
      else (case map_of (dk_files d) old of
          None \<Rightarrow> refuse (DriverErr ''not exist'') d
        | Some bytes \<Rightarrow> ok () (d\<lparr>dk_files := AList.update new bytes (AList.delete old (dk_files d))\<rparr>)))"

definition os_Remove :: "string \<Rightarrow> (Disk, err, unit) prog" where
  "os_Remove path d =
     (if dk_fault d SysRemove path then refuse (DriverErr ''remove'') d
      else (case map_of (dk_files d) path of
          None \<Rightarrow> refuse (DriverErr ''not exist'') d
        | Some _ \<Rightarrow> ok () (d\<lparr>dk_files := AList.delete path (dk_files d)\<rparr>)))"

definition os_Open :: "string \<Rightarrow> Disk \<Rightarrow> err + string" where
  "os_Open path d =
     (if dk_fault d SysOpen path then Inl (DriverErr ''open'')
      else (case map_of (dk_files d) path of None \<Rightarrow> Inl (DriverErr ''not exist'') | Some bytes \<Rightarrow> Inr bytes))"

text \<open>
  \<open>filepath.Join\<close> on a root that is clean and elements that are plain names puts a separator between
  them; \<open>root\<close> stands for the cleaned root.
\<close>

definition NewLocal :: "string \<Rightarrow> (Disk, err, string) prog" where
  "NewLocal root =
     (if root = [] then refuse (InvalidErr ''filestore: storage path is empty'')
      else bindp (os_MkdirAll root) (\<lambda>_. ok root))"

definition local_path :: "(uuid \<Rightarrow> string) \<Rightarrow> string \<Rightarrow> uuid \<Rightarrow> uuid \<Rightarrow> string" where
  "local_path str root orgID fileID = root @ ''/'' @ str orgID @ ''/'' @ str fileID"

definition accountPath :: "(uuid \<Rightarrow> string) \<Rightarrow> string \<Rightarrow> uuid \<Rightarrow> string" where
  "accountPath str root fileID = root @ ''/'' @ ''account'' @ ''/'' @ str fileID"

text \<open>\<open>Put\<close> and \<open>PutAccount\<close> differ in the directory, the path and the key they answer with.\<close>

definition replace_file :: "string \<Rightarrow> string \<Rightarrow> string \<Rightarrow> string \<Rightarrow> (Disk, err, string) prog" where
  "replace_file dir path key ciphertext =
     bindp (os_MkdirAll dir) (\<lambda>_.
     let tmp = path @ ''.tmp'' in
     bindp (os_WriteFile tmp ciphertext) (\<lambda>_.
     attempt (os_Rename tmp path) (\<lambda>r. case r of
        Inl e \<Rightarrow> attempt (os_Remove tmp) (\<lambda>_. refuse e)
      | Inr _ \<Rightarrow> ok key)))"

definition LocalPut :: "(uuid \<Rightarrow> string) \<Rightarrow> string \<Rightarrow> uuid \<Rightarrow> uuid \<Rightarrow> string \<Rightarrow> (Disk, err, string) prog" where
  "LocalPut str root orgID fileID =
     replace_file (root @ ''/'' @ str orgID) (local_path str root orgID fileID) (str orgID @ ''/'' @ str fileID)"

definition LocalPutAccount :: "(uuid \<Rightarrow> string) \<Rightarrow> string \<Rightarrow> uuid \<Rightarrow> string \<Rightarrow> (Disk, err, string) prog" where
  "LocalPutAccount str root fileID =
     replace_file (root @ ''/'' @ ''account'') (accountPath str root fileID) (''account/'' @ str fileID)"

definition read_path :: "string \<Rightarrow> Disk \<Rightarrow> err + string" where
  "read_path path d =
     (case os_Open path d of
        Inl e \<Rightarrow> if e = DriverErr ''not exist'' then Inl files_not_found else Inl e
      | Inr bytes \<Rightarrow> Inr bytes)"

definition remove_path :: "string \<Rightarrow> (Disk, err, unit) prog" where
  "remove_path path =
     attempt (os_Remove path) (\<lambda>r. case r of
        Inl e \<Rightarrow> if e = DriverErr ''not exist'' then ok () else refuse e
      | Inr _ \<Rightarrow> ok ())"

definition local_blobs :: "(uuid \<Rightarrow> string) \<Rightarrow> string \<Rightarrow> Disk Blobs" where
  "local_blobs str root = \<lparr>bl_Put = LocalPut str root, bl_Open = (\<lambda>org f. read_path (local_path str root org f)),
     bl_Remove = (\<lambda>org f. remove_path (local_path str root org f)),
     bl_PutAccount = LocalPutAccount str root, bl_OpenAccount = (\<lambda>f. read_path (accountPath str root f)),
     bl_RemoveAccount = (\<lambda>f. remove_path (accountPath str root f))\<rparr>"

end
