(* ===== verification/Files_Stores.thy ===== *)
theory Files_Stores
  imports Files_Contract Files_Memory Authz_Wf
begin

text \<open>
  The stores of the repository keep the pipeline's contract: rows in memory, and blobs in memory or
  on disk. What the contract needs of \<open>uuid.UUID.String\<close> is that it tells identifiers apart and
  writes neither a slash nor a dot nor the word \<open>account\<close>.
\<close>

definition uuid_text :: "(uuid \<Rightarrow> string) \<Rightarrow> bool" where
  "uuid_text str \<longleftrightarrow> inj str \<and> (\<forall>u. str u \<noteq> ''account'' \<and> CHR ''/'' \<notin> set (str u) \<and> CHR ''.'' \<notin> set (str u))"

definition key_at :: "(uuid \<Rightarrow> string) \<Rightarrow> blob_key \<Rightarrow> string" where
  "key_at str k = (case k of (Some org, f) \<Rightarrow> blobKey str org f | (None, f) \<Rightarrow> accountKey str f)"

lemma slash_apart:
  assumes "CHR ''/'' \<notin> set a" "CHR ''/'' \<notin> set a'" "a @ CHR ''/'' # b = a' @ CHR ''/'' # b'"
  shows "a = a' \<and> b = b'"
proof -
  have cut: "takeWhile (\<lambda>c. c \<noteq> CHR ''/'') (x @ CHR ''/'' # y) = x" if "CHR ''/'' \<notin> set x" for x y
    using that by (induction x) auto
  from cut[OF assms(1)] cut[OF assms(2)] assms(3) have "a = a'" by metis
  then show ?thesis using assms(3) by simp
qed

lemma key_at_parts:
  "key_at str (org, f) = (case org of None \<Rightarrow> ''account'' | Some org \<Rightarrow> str org) @ CHR ''/'' # str f"
  by (simp add: key_at_def blobKey_def accountKey_def split: option.split)

lemma key_at_eq: "uuid_text str \<Longrightarrow> key_at str k = key_at str k' \<longleftrightarrow> k = k'"
proof -
  assume str: "uuid_text str"
  obtain o1 f1 o2 f2 where k: "k = (o1, f1)" "k' = (o2, f2)" by (metis prod.exhaust)
  have dir: "CHR ''/'' \<notin> set (case org of None \<Rightarrow> ''account'' | Some org \<Rightarrow> str org)" for org
    using str by (simp add: uuid_text_def split: option.split)
  have "o1 = o2 \<and> f1 = f2" if "key_at str k = key_at str k'"
  proof -
    have "(case o1 of None \<Rightarrow> ''account'' | Some org \<Rightarrow> str org) = (case o2 of None \<Rightarrow> ''account'' | Some org \<Rightarrow> str org) \<and>
        str f1 = str f2"
      using that by (intro slash_apart[OF dir dir]) (simp only: k key_at_parts)
    then show ?thesis
      using str unfolding uuid_text_def inj_def by (cases o1; cases o2) (auto dest: sym)
  qed
  then show ?thesis using k by auto
qed

lemma key_at_no_dot: "uuid_text str \<Longrightarrow> CHR ''.'' \<notin> set (key_at str k)"
  by (cases k) (auto simp: key_at_parts uuid_text_def split: option.split)

section \<open>In memory\<close>

lemma mem_at:
  "put_at (mem_blobs str) k = blob_put (key_at str k)" "open_at (mem_blobs str) k = blob_open (key_at str k)"
  "remove_at (mem_blobs str) k = blob_remove (key_at str k)"
  by (auto simp: put_at_def open_at_def remove_at_def mem_blobs_def key_at_def split: prod.split option.split)

interpretation memory: blob_store "mem_blobs str" "\<lambda>_. uuid_text str" "\<lambda>_. True" "\<lambda>b k. map_of b (key_at str k)"
  by unfold_locales
    (auto simp: mem_at blob_put_def blob_open_def blob_remove_def ok_def fun_eq_iff amap_simps key_at_eq split: option.splits if_split_asm)

section \<open>On disk\<close>

definition disk_path :: "(uuid \<Rightarrow> string) \<Rightarrow> string \<Rightarrow> blob_key \<Rightarrow> string" where
  "disk_path str root k = root @ CHR ''/'' # key_at str k"

definition disk_dir :: "(uuid \<Rightarrow> string) \<Rightarrow> string \<Rightarrow> blob_key \<Rightarrow> string" where
  "disk_dir str root k = root @ CHR ''/'' # (case fst k of None \<Rightarrow> ''account'' | Some org \<Rightarrow> str org)"

lemma local_at:
  "put_at (local_blobs str root) k = replace_file (disk_dir str root k) (disk_path str root k) (key_at str k)"
  "open_at (local_blobs str root) k = read_path (disk_path str root k)"
  "remove_at (local_blobs str root) k = remove_path (disk_path str root k)"
  by (auto simp: put_at_def open_at_def remove_at_def local_blobs_def key_at_def disk_path_def disk_dir_def LocalPut_def
      LocalPutAccount_def local_path_def accountPath_def blobKey_def accountKey_def split: prod.split option.split)

definition no_faults :: "Disk \<Rightarrow> bool" where
  "no_faults d \<longleftrightarrow> (\<forall>call path. \<not> dk_fault d call path)"

lemma disk_path_eq:
  "uuid_text str \<Longrightarrow> disk_path str root k = disk_path str root k' \<longleftrightarrow> k = k'"
  "uuid_text str \<Longrightarrow> disk_path str root k \<noteq> disk_path str root k' @ ''.tmp''"
proof -
  assume str: "uuid_text str"
  show "disk_path str root k = disk_path str root k' \<longleftrightarrow> k = k'" by (simp add: disk_path_def key_at_eq[OF str])
  have "key_at str k \<noteq> key_at str k' @ ''.tmp''" using key_at_no_dot[OF str, of k] by auto
  then show "disk_path str root k \<noteq> disk_path str root k' @ ''.tmp''" by (simp add: disk_path_def)
qed

text \<open>
  A file is replaced whole or not at all: whichever system call fails, and however much of the
  temporary file it wrote, the path reads as before.
\<close>

lemma replace_file_effect:
  assumes "replace_file dir path key x d = (r, d')"
  shows "dk_fault d' = dk_fault d"
    and "q \<noteq> path \<Longrightarrow> q \<noteq> path @ ''.tmp'' \<Longrightarrow> map_of (dk_files d') q = map_of (dk_files d) q"
    and "r = Inr k \<Longrightarrow> map_of (dk_files d') path = Some x"
    and "r = Inl e \<Longrightarrow> map_of (dk_files d') path = map_of (dk_files d) path \<and> \<not> no_faults d"
  using assms
  by (auto simp: replace_file_def os_MkdirAll_def os_WriteFile_def os_Rename_def os_Remove_def bindp_def attempt_def
      ok_def refuse_def Let_def amap_simps no_faults_def split: if_splits option.splits sum.splits prod.splits)

lemma read_path_eq:
  "read_path path d = Inr x \<Longrightarrow> map_of (dk_files d) path = Some x"
  "no_faults d \<Longrightarrow> map_of (dk_files d) path = Some x \<Longrightarrow> read_path path d = Inr x"
  by (auto simp: read_path_def os_Open_def no_faults_def split: if_splits option.splits)

lemma remove_path_effect:
  assumes "remove_path path d = (r, d')"
  shows "dk_fault d' = dk_fault d" "q \<noteq> path \<Longrightarrow> map_of (dk_files d') q = map_of (dk_files d) q"
    and "r = Inr u \<Longrightarrow> map_of (dk_files d') path = None"
    and "r = Inl e \<Longrightarrow> d' = d \<and> \<not> no_faults d" "r = Inl e \<Longrightarrow> dk_fault d SysRemove path"
  using assms
  by (auto simp: remove_path_def os_Remove_def attempt_def ok_def refuse_def amap_simps no_faults_def
      split: if_splits option.splits)

interpretation disk: blob_store "local_blobs str root" "\<lambda>_. uuid_text str" no_faults
  "\<lambda>d k. map_of (dk_files d) (disk_path str root k)"
proof unfold_locales
  fix d k x key d'
  assume str: "uuid_text str" and run: "put_at (local_blobs str root) k x d = (Inr key, d')"
  note eff = replace_file_effect[OF run[unfolded local_at]]
  have "map_of (dk_files d') (disk_path str root k') = (if k' = k then Some x else map_of (dk_files d) (disk_path str root k'))" for k'
    using eff(2)[of "disk_path str root k'"] eff(3) disk_path_eq[OF str] by (cases "k' = k") auto
  then show "uuid_text str \<and> (no_faults d \<longrightarrow> no_faults d') \<and>
      (\<lambda>k. map_of (dk_files d') (disk_path str root k)) = (\<lambda>k. map_of (dk_files d) (disk_path str root k))(k \<mapsto> x)"
    using str eff(1) by (auto simp: no_faults_def fun_eq_iff)
next
  fix d k x e d'
  assume str: "uuid_text str" and run: "put_at (local_blobs str root) k x d = (Inl e, d')"
  note eff = replace_file_effect[OF run[unfolded local_at]]
  have "map_of (dk_files d') (disk_path str root k') = map_of (dk_files d) (disk_path str root k')" for k'
    using eff(2)[of "disk_path str root k'"] eff(4)[OF refl] disk_path_eq[OF str] by (cases "k' = k") auto
  then show "uuid_text str \<and> (\<lambda>k. map_of (dk_files d') (disk_path str root k)) =
      (\<lambda>k. map_of (dk_files d) (disk_path str root k)) \<and> \<not> no_faults d"
    using str eff(4)[OF refl] by auto
next
  fix d k u d'
  assume str: "uuid_text str" and run: "remove_at (local_blobs str root) k d = (Inr u, d')"
  note eff = remove_path_effect[OF run[unfolded local_at]]
  have "map_of (dk_files d') (disk_path str root k') = (if k' = k then None else map_of (dk_files d) (disk_path str root k'))" for k'
    using eff(2)[of "disk_path str root k'"] eff(3) disk_path_eq[OF str] by (cases "k' = k") auto
  then show "uuid_text str \<and> (no_faults d \<longrightarrow> no_faults d') \<and>
      (\<lambda>k. map_of (dk_files d') (disk_path str root k)) = (\<lambda>k. map_of (dk_files d) (disk_path str root k))(k := None)"
    using str eff(1) by (auto simp: no_faults_def fun_eq_iff)
next
  fix d k e d'
  assume str: "uuid_text str" and run: "remove_at (local_blobs str root) k d = (Inl e, d')"
  from remove_path_effect(4)[OF run[unfolded local_at] refl] str
  show "uuid_text str \<and> (\<lambda>k. map_of (dk_files d') (disk_path str root k)) =
      (\<lambda>k. map_of (dk_files d) (disk_path str root k)) \<and> \<not> no_faults d"
    by blast
next
  fix d k x
  show "open_at (local_blobs str root) k d = Inr x \<Longrightarrow> map_of (dk_files d) (disk_path str root k) = Some x"
    by (simp add: local_at read_path_eq(1))
  show "no_faults d \<Longrightarrow> map_of (dk_files d) (disk_path str root k) = Some x \<Longrightarrow>
      open_at (local_blobs str root) k d = Inr x"
    by (simp add: local_at read_path_eq(2))
qed

text \<open>A file that was put and then removed again: no other file changes, and it is gone unless removing it failed.\<close>

lemma put_undone:
  assumes "uuid_text str" "put_at (local_blobs str root) k x d = (Inr key, d1)" "d' = snd (remove_at (local_blobs str root) k d1)"
  shows "k' \<noteq> k \<Longrightarrow> map_of (dk_files d') (disk_path str root k') = map_of (dk_files d) (disk_path str root k')"
    and "\<not> dk_fault d SysRemove (disk_path str root k) \<Longrightarrow> map_of (dk_files d') (disk_path str root k) = None"
proof -
  obtain r where rm: "remove_path (disk_path str root k) d1 = (r, d')"
    using assms(3) by (cases "remove_path (disk_path str root k) d1") (simp add: local_at)
  note p = replace_file_effect[OF assms(2)[unfolded local_at]] and q = remove_path_effect[OF rm]
  show "map_of (dk_files d') (disk_path str root k') = map_of (dk_files d) (disk_path str root k')" if "k' \<noteq> k"
    using p(2) q(2) disk_path_eq[OF assms(1)] that by metis
  show "map_of (dk_files d') (disk_path str root k) = None" if "\<not> dk_fault d SysRemove (disk_path str root k)"
    using p(1) q(3,5) that by (cases r) auto
qed

section \<open>Rows\<close>

definition photo_of :: "Users \<Rightarrow> uuid \<Rightarrow> uuid option" where
  "photo_of users userID =
     (case map_of (us_users users) userID of
        None \<Rightarrow> None
      | Some u \<Rightarrow> if UserIsDeleted u then None else u_AvatarID u)"

definition avatar_of :: "FileStore \<Rightarrow> uuid \<Rightarrow> uuid option" where
  "avatar_of m userID = (case ma_users (fs_authz m) of None \<Rightarrow> None | Some users \<Rightarrow> photo_of users userID)"

lemma photo_of_set:
  "map_of (us_users m) u = Some row \<Longrightarrow> \<not> UserIsDeleted row \<Longrightarrow>
     photo_of (m\<lparr>us_users := AList.update u (row\<lparr>u_AvatarID := x\<rparr>) (us_users m)\<rparr>) = (photo_of m)(u := x)"
  by (auto simp: photo_of_def UserIsDeleted_def amap_simps fun_eq_iff)

lemma attachAvatar_effect:
  assumes "attachAvatar u f m = (r, m')"
  shows "r = Inr p \<Longrightarrow> photo_of m' = (photo_of m)(u \<mapsto> f) \<and> p = (case photo_of m u of None \<Rightarrow> uuid_Nil | Some p \<Rightarrow> p)"
    and "r = Inl e \<Longrightarrow> m' = m"
proof -
  consider "r = Inl user_not_found" "m' = m"
    | row where "map_of (us_users m) u = Some row" "\<not> UserIsDeleted row"
        "r = Inr (case u_AvatarID row of None \<Rightarrow> uuid_Nil | Some p \<Rightarrow> p)"
        "m' = m\<lparr>us_users := AList.update u (row\<lparr>u_AvatarID := Some f\<rparr>) (us_users m)\<rparr>"
    using assms by (auto simp: attachAvatar_def ok_def refuse_def split: option.splits if_splits)
  then show "r = Inr p \<Longrightarrow> photo_of m' = (photo_of m)(u \<mapsto> f) \<and> p = (case photo_of m u of None \<Rightarrow> uuid_Nil | Some p \<Rightarrow> p)"
    and "r = Inl e \<Longrightarrow> m' = m"
    by (cases; simp add: photo_of_set; simp add: photo_of_def)+
qed

lemma detachAvatar_effect:
  assumes "detachAvatar u m = (r, m')"
  shows "r = Inr p \<Longrightarrow> photo_of m u = Some p \<and> photo_of m' = (photo_of m)(u := None)"
    and "r = Inl e \<Longrightarrow> m' = m"
proof -
  consider e where "r = Inl e" "m' = m"
    | row p where "map_of (us_users m) u = Some row" "\<not> UserIsDeleted row" "u_AvatarID row = Some p"
        "r = Inr p" "m' = m\<lparr>us_users := AList.update u (row\<lparr>u_AvatarID := None\<rparr>) (us_users m)\<rparr>"
    using assms by (auto simp: detachAvatar_def ok_def refuse_def split: option.splits if_splits)
  then show "r = Inr p \<Longrightarrow> photo_of m u = Some p \<and> photo_of m' = (photo_of m)(u := None)"
    and "r = Inl e \<Longrightarrow> m' = m"
    by (cases; simp add: photo_of_set; simp add: photo_of_def)+
qed

lemma on_users_eq:
  "on_users p m = (q, m') \<longleftrightarrow>
     (case ma_users (fs_authz m) of
        None \<Rightarrow> q = Inl user_not_found \<and> m' = m
      | Some users \<Rightarrow> \<exists>users'. p users = (q, users') \<and> m' = m\<lparr>fs_authz := fs_authz m\<lparr>ma_users := Some users'\<rparr>\<rparr>)"
  by (auto simp: on_users_def refuse_def split: option.splits prod.splits)

lemma avatar_of_users:
  "ma_users (fs_authz m) = Some users \<Longrightarrow> avatar_of m = photo_of users"
  "avatar_of (m\<lparr>fs_authz := fs_authz m\<lparr>ma_users := Some users'\<rparr>\<rparr>) = photo_of users'"
  by (simp_all add: avatar_of_def fun_eq_iff)

lemma same_users: "ma_users (fs_authz m) = Some users \<Longrightarrow> m\<lparr>fs_authz := fs_authz m\<lparr>ma_users := Some users\<rparr>\<rparr> = m"
  by (cases m; cases "fs_authz m") simp

lemma avatar_of_record [simp]: "avatar_of (m\<lparr>fs_files := fm, fs_authz := recordLocked c e (fs_authz m)\<rparr>) = avatar_of m"
  "avatar_of (m\<lparr>fs_files := fm\<rparr>) = avatar_of m"
  by (simp_all add: avatar_of_def fun_eq_iff)

lemma stamped_eq:
  "fl_ID row \<noteq> uuid_Nil \<Longrightarrow> fl_ID (stamped c org row) = fl_ID row"
  "fl_ID row \<noteq> uuid_Nil \<Longrightarrow> \<exists>created updated. stamped c org row =
     row\<lparr>fl_OrganizationID := org, fl_CreatedAt := created, fl_UpdatedAt := updated\<rparr>"
  by (cases row; auto simp: stamped_def Let_def)+

lemmas mem_file_defs = mem_files_def mem_account_files_def ok_def refuse_def amap_simps Let_def

interpretation table: file_rows mem_files mem_account_files "\<lambda>_. True" "\<lambda>m. map_of (fs_files m)" avatar_of
proof unfold_locales
  fix org f and r :: FileStore
  show "fr_File mem_files org f r =
      (case map_of (fs_files r) f of Some row \<Rightarrow> if fl_OrganizationID row = Some org then Inr row else Inl files_not_found
       | None \<Rightarrow> Inl files_not_found)"
    by (simp add: mem_files_def MemFile_def belongsToOrg_def split: option.split)
next
  fix r r' :: FileStore and c org row row'
  assume "fr_CreateFile mem_files c org row r = (Inr row', r')" "fl_ID row \<noteq> uuid_Nil"
  then show "True \<and> map_of (fs_files r') = (map_of (fs_files r))(fl_ID row \<mapsto> row') \<and> avatar_of r' = avatar_of r \<and>
      (\<exists>created updated. row' = row\<lparr>fl_OrganizationID := Some org, fl_CreatedAt := created, fl_UpdatedAt := updated\<rparr>)"
    using stamped_eq[of row c "Some org"] by (auto simp: mem_file_defs MemCreateFile_def)
next
  fix r r' :: FileStore and c org row e
  assume "fr_CreateFile mem_files c org row r = (Inl e, r')"
  then show "True \<and> map_of (fs_files r') = map_of (fs_files r) \<and> avatar_of r' = avatar_of r"
    by (simp add: mem_file_defs MemCreateFile_def)
next
  fix r r' :: FileStore and c org f q
  assume "fr_DeleteFile mem_files c org f r = (q, r')"
  then show "True \<and> avatar_of r' = avatar_of r \<and>
      (if \<exists>row. map_of (fs_files r) f = Some row \<and> fl_OrganizationID row = Some org
       then q = Inr () \<and> map_of (fs_files r') = (map_of (fs_files r))(f := None)
       else q = Inl files_not_found \<and> map_of (fs_files r') = map_of (fs_files r))"
    by (auto simp: mem_file_defs MemDeleteFile_def belongsToOrg_def split: option.splits if_splits)
next
  fix r r' :: FileStore and c row row'
  assume "af_CreateAccountFile mem_account_files c row r = (Inr row', r')" "fl_ID row \<noteq> uuid_Nil"
  then show "True \<and> map_of (fs_files r') = (map_of (fs_files r))(fl_ID row \<mapsto> row') \<and> avatar_of r' = avatar_of r \<and>
      (\<exists>created updated. row' = row\<lparr>fl_OrganizationID := None, fl_CreatedAt := created, fl_UpdatedAt := updated\<rparr>)"
    using stamped_eq[of row c None] by (auto simp: mem_file_defs MemCreateAccountFile_def)
next
  fix r r' :: FileStore and c row e
  assume "af_CreateAccountFile mem_account_files c row r = (Inl e, r')"
  then show "True \<and> map_of (fs_files r') = map_of (fs_files r) \<and> avatar_of r' = avatar_of r"
    by (simp add: mem_file_defs MemCreateAccountFile_def)
next
  fix r r' :: FileStore and f q
  assume "af_DeleteAccountFile mem_account_files f r = (q, r')"
  then show "True \<and> avatar_of r' = avatar_of r \<and>
      (if \<exists>row. map_of (fs_files r) f = Some row \<and> fl_OrganizationID row = None
       then q = Inr () \<and> map_of (fs_files r') = (map_of (fs_files r))(f := None)
       else q = Inl files_not_found \<and> map_of (fs_files r') = map_of (fs_files r))"
    by (auto simp: mem_file_defs MemDeleteAccountFile_def split: option.splits if_splits)
next
  fix r r' :: FileStore and u f previous
  assume "af_AttachAvatar mem_account_files u f r = (Inr previous, r')"
  then show "True \<and> map_of (fs_files r') = map_of (fs_files r) \<and> avatar_of r' = (avatar_of r)(u \<mapsto> f) \<and>
      previous = (case avatar_of r u of None \<Rightarrow> uuid_Nil | Some p \<Rightarrow> p)"
    by (auto simp: mem_account_files_def MemAttachAvatar_def refuse_def on_users_eq avatar_of_users
        dest!: attachAvatar_effect(1)[OF _ refl] split: option.split_asm if_split_asm)
next
  fix r r' :: FileStore and u f e
  assume "af_AttachAvatar mem_account_files u f r = (Inl e, r')"
  then show "True \<and> map_of (fs_files r') = map_of (fs_files r) \<and> avatar_of r' = avatar_of r"
    by (auto simp: mem_account_files_def MemAttachAvatar_def refuse_def on_users_eq same_users
        dest!: attachAvatar_effect(2)[OF _ refl] split: option.splits if_splits)
next
  fix r r' :: FileStore and u previous
  assume "af_DetachAvatar mem_account_files u r = (Inr previous, r')"
  then show "True \<and> map_of (fs_files r') = map_of (fs_files r) \<and> avatar_of r u = Some previous \<and>
      avatar_of r' = (avatar_of r)(u := None)"
    by (auto simp: mem_account_files_def MemDetachAvatar_def on_users_eq avatar_of_users
        dest!: detachAvatar_effect(1)[OF _ refl] split: option.split_asm)
next
  fix r r' :: FileStore and u e
  assume "af_DetachAvatar mem_account_files u r = (Inl e, r')"
  then show "True \<and> map_of (fs_files r') = map_of (fs_files r) \<and> avatar_of r' = avatar_of r"
    by (auto simp: mem_account_files_def MemDetachAvatar_def on_users_eq same_users
        dest!: detachAvatar_effect(2)[OF _ refl] split: option.splits)
next
  fix u row and r :: FileStore
  show "af_AvatarFile mem_account_files u r = Inr row \<longleftrightarrow>
      (\<exists>f. avatar_of r u = Some f \<and> map_of (fs_files r) f = Some row \<and> fl_OrganizationID row = None)"
    by (auto simp: mem_file_defs MemAvatarFile_def MemAccountFile_def avatarID_def avatar_of_def photo_of_def
        split: option.splits if_splits)
qed

section \<open>The pipeline over both\<close>

definition on_memory :: "(uuid \<Rightarrow> string) \<Rightarrow> (FileStore, MemoryBlobs) FileService \<Rightarrow> (FileStore, MemoryBlobs) FileService" where
  "on_memory str S = \<lparr>sf_repo = mem_files, sf_blobs = mem_blobs str, sf_account = mem_account_files,
     sf_scanner = sf_scanner S, sf_settings = sf_settings S, sf_allowed = sf_allowed S,
     sf_avatarAllowed = sf_avatarAllowed S, sf_libs = sf_libs S\<rparr>"

definition on_disk :: "(uuid \<Rightarrow> string) \<Rightarrow> string \<Rightarrow> (FileStore, Disk) FileService \<Rightarrow> (FileStore, Disk) FileService" where
  "on_disk str root S = \<lparr>sf_repo = mem_files, sf_blobs = local_blobs str root, sf_account = mem_account_files,
     sf_scanner = sf_scanner S, sf_settings = sf_settings S, sf_allowed = sf_allowed S,
     sf_avatarAllowed = sf_avatarAllowed S, sf_libs = sf_libs S\<rparr>"

interpretation mem_pipe: file_pipeline "mem_blobs str" "\<lambda>_. uuid_text str" "\<lambda>_. True" "\<lambda>b k. map_of b (key_at str k)"
    mem_files mem_account_files "\<lambda>_. True" "\<lambda>m. map_of (fs_files m)" avatar_of "on_memory str S"
  by unfold_locales (simp_all add: on_memory_def)

interpretation disk_pipe: file_pipeline "local_blobs str root" "\<lambda>_. uuid_text str" no_faults
    "\<lambda>d k. map_of (dk_files d) (disk_path str root k)"
    mem_files mem_account_files "\<lambda>_. True" "\<lambda>m. map_of (fs_files m)" avatar_of "on_disk str root S"
  by unfold_locales (simp_all add: on_disk_def)

end
