(* ===== verification/Files_Scanner.thy ===== *)
theory Files_Scanner
  imports Files_Service
begin

text \<open>
  The malware scanner's client, \<open>internal/filestore/clamav.go\<close>: a payload is sent in chunks, each after
  its length, a length of zero ending it, and the daemon's answer is read. \<open>instream_decode\<close> is the
  daemon's side of the protocol.
\<close>

definition clam_chunk :: nat where "clam_chunk = 8192"

text \<open>\<open>binary.BigEndian.PutUint32\<close>.\<close>

definition be32 :: "nat \<Rightarrow> string" where
  "be32 n = map char_of [n div 16777216 mod 256, n div 65536 mod 256, n div 256 mod 256, n mod 256]"

text \<open>What the loop writes, one write at a time.\<close>

function clam_frames :: "string \<Rightarrow> string list" where
  "clam_frames content =
     (if content = [] then []
      else be32 (length (take clam_chunk content)) # take clam_chunk content # clam_frames (drop clam_chunk content))"
  by pat_completeness auto
termination
  by (relation "measure length") (auto simp: clam_chunk_def)

declare clam_frames.simps [simp del]

definition clam_writes :: "string \<Rightarrow> string list" where
  "clam_writes content = [''zINSTREAM'' @ [CHR 0x00]] @ clam_frames content @ [be32 0]"

text \<open>
  What the network does: whether the dial and setting the deadline succeed, which write fails, and what
  can be read before an error (\<open>None\<close>).
\<close>

record Conn =
  cn_dial :: bool
  cn_deadline :: bool
  cn_write :: "nat \<Rightarrow> bool"
  cn_reply :: "string option"

definition trim_zeros :: "string \<Rightarrow> string" where
  "trim_zeros s = rev (dropWhile (\<lambda>c. c = CHR 0x00) (rev (dropWhile (\<lambda>c. c = CHR 0x00) s)))"

definition ClamScan :: "string \<Rightarrow> Conn \<Rightarrow> Scanner" where
  "ClamScan engine conn content =
     (let outcome = \<lparr>so_Status = [], so_Engine = engine\<rparr>;
          unavailable = (outcome, Some (FilesErr ErrScanUnavailable)) in
      if \<not> cn_dial conn then unavailable
      else if \<not> cn_deadline conn then unavailable
      else if \<not> list_all (cn_write conn) [0..<length (clam_writes content)] then unavailable
      else (case cn_reply conn of
          None \<Rightarrow> unavailable
        | Some reply \<Rightarrow>
            let text = trim_space (trim_zeros (take 1024 reply)) in
            if contains text ''FOUND'' then (outcome, Some (FilesErr ErrInfected))
            else if contains text ''OK'' then (outcome\<lparr>so_Status := ScanClean\<rparr>, None)
            else unavailable))"

definition NewClamAV :: "Conn \<Rightarrow> Scanner" where
  "NewClamAV = ClamScan ''clamav''"

section \<open>The daemon's side\<close>

definition read32 :: "string \<Rightarrow> nat" where
  "read32 s = foldl (\<lambda>acc c. acc * 256 + of_char c) 0 (take 4 s)"

text \<open>Fuel is the number of chunks; the length of the stream is enough.\<close>

fun decode_chunks :: "nat \<Rightarrow> string \<Rightarrow> string option" where
  "decode_chunks 0 s = None"
| "decode_chunks (Suc n) s =
     (if length s < 4 then None
      else let k = read32 s; rest = drop 4 s in
        if k = 0 then (if rest = [] then Some [] else None)
        else if length rest < k then None
        else map_option (\<lambda>m. take k rest @ m) (decode_chunks n (drop k rest)))"

definition instream_decode :: "string \<Rightarrow> string option" where
  "instream_decode s =
     (if has_prefix s (''zINSTREAM'' @ [CHR 0x00]) then decode_chunks (length s) (drop 10 s) else None)"

lemma read32_be32: "n < 4294967296 \<Longrightarrow> read32 (be32 n @ s) = n"
proof -
  assume n: "n < 4294967296"
  define q where "q = n div 256"
  define p where "p = q div 256"
  have div: "n div 65536 = p" "n div 16777216 = p div 256" by (simp_all add: p_def q_def flip: div_mult2_eq)
  have "p div 256 < 256" using n by (simp add: p_def q_def flip: div_mult2_eq)
  then have "((p div 256 mod 256 * 256 + p mod 256) * 256 + q mod 256) * 256 + n mod 256 = n"
    by (simp add: p_def q_def)
  then show ?thesis by (simp add: read32_def be32_def div q_def algebra_simps)
qed

lemma length_be32 [simp]: "length (be32 n) = 4"
  by (simp add: be32_def)

lemma decode_frames:
  "length content < n \<Longrightarrow> decode_chunks n (concat (clam_frames content) @ be32 0) = Some content"
proof (induction content arbitrary: n rule: clam_frames.induct)
  case (1 content)
  obtain m where n: "n = Suc m" using "1.prems" by (cases n) simp_all
  show ?case
  proof (cases "content = []")
    case True
    then show ?thesis using read32_be32[of 0 "[]"] by (simp add: n clam_frames.simps)
  next
    case False
    let ?k = "length (take clam_chunk content)" and ?rest = "concat (clam_frames (drop clam_chunk content)) @ be32 0"
    have k: "0 < ?k" "?k < 4294967296" using False by (auto simp: clam_chunk_def)
    have stream: "concat (clam_frames content) @ be32 0 = be32 ?k @ take clam_chunk content @ ?rest"
      using False by (subst clam_frames.simps) simp
    have "length (drop clam_chunk content) < m"
      using "1.prems" n False by (cases content) (simp_all add: clam_chunk_def)
    then have "decode_chunks m ?rest = Some (drop clam_chunk content)" using "1.IH" False by blast
    moreover have "take (min (length content) clam_chunk) content = take clam_chunk content" by (simp add: min_def)
    ultimately show ?thesis
      using k read32_be32[OF k(2), of "take clam_chunk content @ ?rest"] unfolding stream n
      by (simp add: Let_def)
  qed
qed

lemma frames_longer: "length content \<le> length (concat (clam_frames content))"
proof (induction content rule: clam_frames.induct)
  case (1 content)
  then show ?case by (subst clam_frames.simps) (auto simp: min_def)
qed

theorem instream_round_trip: "instream_decode (concat (clam_writes content)) = Some content"
proof -
  have "length content < length (concat (clam_writes content))"
    using frames_longer[of content] by (simp add: clam_writes_def)
  from decode_frames[OF this] show ?thesis
    by (simp add: instream_decode_def clam_writes_def has_prefix_def)
qed

lemma ClamScan_clean:
  assumes "ClamScan engine conn content = (outcome, None)"
  shows "so_Status outcome = ScanClean" "so_Engine outcome = engine"
    and "list_all (cn_write conn) [0..<length (clam_writes content)]"
    and "\<exists>reply. cn_reply conn = Some reply \<and>
      (let text = trim_space (trim_zeros (take 1024 reply)) in contains text ''OK'' \<and> \<not> contains text ''FOUND'')"
  using assms by (auto simp: ClamScan_def Let_def split: if_splits option.splits)

lemma ClamScan_errors:
  "snd (ClamScan engine conn content) \<in> {None, Some (FilesErr ErrInfected), Some (FilesErr ErrScanUnavailable)}"
  by (auto simp: ClamScan_def Let_def split: option.splits)

end
