(* ===== verification/Files_Properties.thy ===== *)
theory Files_Properties
  imports Files_Stores Files_Scanner Demo_Store
begin

text \<open>
  The properties of the files component, with a concrete upload for each: to the disk of a demonstration
  service that lets plain text and photos in.
\<close>

section \<open>A concrete upload\<close>

definition demo_key :: string where "demo_key = replicate 32 CHR ''k''"

definition demo_file_libs :: FileLibs where
  "demo_file_libs = \<lparr>fx_lower = id, fx_print = (\<lambda>_. True), fx_zip = (\<lambda>_. None)\<rparr>"

definition demo_settings :: Settings where
  "demo_settings = \<lparr>st_MaxBytes = 100, st_AvatarMaxBytes = 100, st_AllowedTypes = [], st_RequireDeclaredMatch = True,
     st_RequireExtensionMatch = True, st_BlockExecutables = True, st_EncryptionKey = demo_key, st_ScanRequired = True\<rparr>"

definition demo_file_service :: "(FileStore, Disk) FileService" where
  "demo_file_service = \<lparr>sf_repo = mem_files, sf_blobs = local_blobs (\<lambda>_. []) [], sf_account = mem_account_files,
     sf_scanner = NopScanner, sf_settings = demo_settings, sf_allowed = [''text/plain''],
     sf_avatarAllowed = [''image/gif''], sf_libs = demo_file_libs\<rparr>"

definition demo_str :: "uuid \<Rightarrow> string" where
  "demo_str u = (case u of UUID n \<Rightarrow> replicate n CHR ''a'')"

lemma demo_str_set: "set (demo_str u) \<subseteq> {CHR ''a''}"
  by (cases u) (auto simp: demo_str_def)

lemma demo_str_text: "uuid_text demo_str"
proof -
  have "u = v" if "demo_str u = demo_str v" for u v
    using that by (cases u; cases v) (simp add: demo_str_def replicate_eq_replicate)
  moreover have "demo_str u \<noteq> ''account''" for u using demo_str_set[of u] by auto
  moreover have "CHR ''/'' \<notin> set (demo_str u)" "CHR ''.'' \<notin> set (demo_str u)" for u
    using demo_str_set[of u] by auto
  ultimately show ?thesis unfolding uuid_text_def inj_def by blast
qed

definition demo_disk :: Disk where
  "demo_disk = \<lparr>dk_files = [], dk_fault = (\<lambda>_ _. False), dk_partial = 0\<rparr>"

definition demo_rows :: FileStore where
  "demo_rows = \<lparr>fs_authz = NewAuthz (Some (NewUsers)), fs_files = []\<rparr>"

lemma demo_no_faults: "no_faults demo_disk"
  by (simp add: no_faults_def demo_disk_def)

definition demo_upload_call :: Call where
  "demo_upload_call = (demo_call 20)\<lparr>c_token := Some ''0123456789ab''\<rparr>"

lemma demo_upload_fresh: "c_newID demo_upload_call DrawFile \<noteq> uuid_Nil" "map_of (fs_files demo_rows) f = None"
  by (simp_all add: demo_upload_call_def demo_call_def demo_rows_def)

lemmas text_eval = sanitizeName_def path_base_def trim_space_def ascii_space_def space2_def space3_def byte_in_def
  all_runes_step rune_ok_def is_ascii_def rune_value_def unicode_print_def rune_count.simps FilesMaxNameLength_def
  utf8_valid_def isMostlyText_def is_json_like_def has_prefix_def has_suffix_def path_ext_def before_byte_def
  to_lower_def ascii_lower_def Let_def

lemmas type_eval = Detect_def sniffExecutable_def isMachO_def isWebP_def isZip_def isBlockedExecutable_def
  CanonicalMediaType_def NormalizeMediaType_def mediaAliases_def typesCompatible_def executableTypes_def
  ExecutableExtension_def TypeForExtension_def executableExtensions_def extensionTypes_def text_eval

lemma demo_libs_sel: "fx_lower demo_file_libs = id" "fx_print demo_file_libs = (\<lambda>_. True)"
  by (simp_all add: demo_file_libs_def)

lemma demo_checks:
  "sanitizeName demo_file_libs ''notes.txt'' = Inr ''notes.txt''"
  "Detect demo_file_libs ''hello'' = ''text/plain''"
  "isBlockedExecutable demo_file_libs ''text/plain'' ''notes.txt'' = False"
  "CanonicalMediaType demo_file_libs ''text/plain'' = ''text/plain''"
  "typesCompatible demo_file_libs ''text/plain'' ''text/plain''"
  "to_lower (fx_lower demo_file_libs) (path_ext ''notes.txt'') = ''.txt''"
  "ExecutableExtension demo_file_libs ''.txt'' = False" "TypeForExtension demo_file_libs ''.txt'' = Some ''text/plain''"
  by (simp_all add: demo_libs_sel type_eval)

lemma demo_prepare:
  "\<exists>prep. prepare (on_disk str root demo_file_service) demo_upload_call ''notes.txt'' ''text/plain'' ''hello'' 100 [''text/plain''] =
     Inr prep"
  by (simp add: prepare_def on_disk_def demo_file_service_def demo_settings_def demo_checks extension_check_def scan_def
      NopScanner_def Seal_def gcm_def keySize_def nonceSize_def demo_key_def demo_upload_call_def ScanSkipped_def Let_def)

abbreviation demo_upload :: "(FileStore \<times> Disk, err, File) prog" where
  "demo_upload \<equiv> Upload (on_disk demo_str ''/data'' demo_file_service) demo_upload_call (UUID 1) (UUID 2)
     ''notes.txt'' ''text/plain'' ''hello''"

lemma demo_upload_succeeds: "\<exists>row r' d'. demo_upload (demo_rows, demo_disk) = (Inr row, (r', d'))"
proof -
  obtain prep where "prepare (on_disk demo_str ''/data'' demo_file_service) demo_upload_call ''notes.txt'' ''text/plain''
      ''hello'' 100 [''text/plain''] = Inr prep" using demo_prepare by blast
  then show ?thesis
    by (simp add: Upload_def on_disk_def demo_file_service_def demo_settings_def local_blobs_def LocalPut_def
        replace_file_def prog_defs on_blobs_def on_rows_def os_MkdirAll_def os_WriteFile_def os_Rename_def demo_disk_def
        mem_files_def MemCreateFile_def Let_def amap_simps)
qed

text \<open>What the demonstration leaves.\<close>

lemma demo_uploaded:
  obtains row m d where "demo_upload (demo_rows, demo_disk) = (Inr row, (m, d))"
    "map_of (fs_files m) (fl_ID row) = Some row" "fl_OrganizationID row = Some (UUID 1)"
proof -
  obtain row m d where up: "demo_upload (demo_rows, demo_disk) = (Inr row, (m, d))" using demo_upload_succeeds by blast
  show ?thesis
  proof (rule disk_pipe.upload_done[OF up TrueI demo_str_text demo_upload_fresh(1)])
    fix prep created updated k
    assume row: "row = (row_of (on_disk demo_str ''/data'' demo_file_service) (c_newID demo_upload_call DrawFile)
        (Some (UUID 1)) (UUID 2) prep k)\<lparr>fl_CreatedAt := created, fl_UpdatedAt := updated\<rparr>"
      and m: "map_of (fs_files m) = (map_of (fs_files demo_rows))(c_newID demo_upload_call DrawFile \<mapsto> row)"
    have "fl_ID row = c_newID demo_upload_call DrawFile" "fl_OrganizationID row = Some (UUID 1)"
      by (simp_all add: row row_of_def)
    then show thesis using that up m by simp
  qed
qed

section \<open>Reading back\<close>

text \<open>C16. What was uploaded is what is downloaded. On a disk whose calls succeed, a file whose upload went
  through is read back by its organization byte for byte, through encryption and decryption, with a
  row that names its organization, who sent it, its size and its hash.\<close>

theorem uploaded_is_downloaded:
  assumes "Upload (on_disk str root S) c org actor filename declared content (rows, d) = (Inr row, (rows', d'))"
    and "uuid_text str" "no_faults d" "c_newID c DrawFile \<noteq> uuid_Nil"
  shows "Content (on_disk str root S) org (fl_ID row) (rows', d') = Inr (row, content) \<and>
    fl_OrganizationID row = Some org \<and> fl_UploadedBy row = actor \<and>
    fl_SizeBytes row = int (length content) \<and> fl_Sha256 row = hex_encode (sha256 content)"
proof -
  obtain prep created updated storageKey where
    prep: "prepare (on_disk str root S) c filename declared content (st_MaxBytes (sf_settings (on_disk str root S)))
      (sf_allowed (on_disk str root S)) = Inr prep" and
    row: "row = (row_of (on_disk str root S) (c_newID c DrawFile) (Some org) actor prep storageKey)
      \<lparr>fl_CreatedAt := created, fl_UpdatedAt := updated\<rparr>"
    using disk_pipe.upload_done[OF assms(1) TrueI assms(2,4)] by metis
  show ?thesis
    using disk_pipe.content_after_upload[OF assms(1) TrueI assms(2-4)] prepare_ok(9,10)[OF prep]
    by (simp add: row row_of_def)
qed

lemma uploaded_is_downloaded_witness:
  "\<exists>row s'. demo_upload (demo_rows, demo_disk) = (Inr row, s') \<and>
     Content (on_disk demo_str ''/data'' demo_file_service) (UUID 1) (fl_ID row) s' = Inr (row, ''hello'')"
  using demo_upload_succeeds uploaded_is_downloaded[OF _ demo_str_text demo_no_faults demo_upload_fresh(1)] by metis

section \<open>What gets in\<close>

lemma upload_scanned:
  assumes "fst (Upload S c org actor filename declared content s) = Inr row"
  shows "snd (sf_scanner S content) = None \<or>
    snd (sf_scanner S content) = Some (FilesErr ErrScanUnavailable) \<and> \<not> st_ScanRequired (sf_settings S)"
proof -
  obtain prep where "prepare S c filename declared content (st_MaxBytes (sf_settings S)) (sf_allowed S) = Inr prep"
    using assms by (auto simp: Upload_def refuse_def split: if_splits sum.splits)
  from prepare_ok(7)[OF this] show ?thesis by (auto simp: scan_def split: prod.splits option.splits if_splits)
qed

text \<open>A required scan is a scan. Where scanning is required, a file that went in was sent to the daemon
  whole, in chunks it reads back to the very bytes of the file, every write succeeded, and the
  daemon answered that it is fine; an answer that names a finding, any other answer, or none, keeps the file
  out.\<close>

theorem required_scan:
  assumes "fst (Upload S c org actor filename declared content s) = Inr row"
    and "sf_scanner S = NewClamAV conn" "st_ScanRequired (sf_settings S)"
  shows "cn_dial conn \<and> list_all (cn_write conn) [0..<length (clam_writes content)] \<and>
    instream_decode (concat (clam_writes content)) = Some content \<and>
    (\<exists>reply. cn_reply conn = Some reply \<and>
       contains (trim_space (trim_zeros (take 1024 reply))) ''OK'' \<and>
       \<not> contains (trim_space (trim_zeros (take 1024 reply))) ''FOUND'')"
proof -
  have "snd (sf_scanner S content) = None" using upload_scanned[OF assms(1)] assms(3) by blast
  then obtain outcome where "ClamScan ''clamav'' conn content = (outcome, None)"
    unfolding assms(2) NewClamAV_def by (metis prod.collapse)
  then show ?thesis
    using ClamScan_clean[of "''clamav''" conn content outcome] instream_round_trip[of content]
    by (auto simp: Let_def ClamScan_def split: if_splits)
qed

definition demo_conn :: Conn where
  "demo_conn = \<lparr>cn_dial = True, cn_deadline = True, cn_write = (\<lambda>_. True), cn_reply = Some (''stream: OK'' @ [CHR 0x00])\<rparr>"

lemma demo_conn_clean: "ClamScan ''clamav'' demo_conn ''hello'' = (\<lparr>so_Status = ScanClean, so_Engine = ''clamav''\<rparr>, None)"
proof -
  have "trim_space (trim_zeros (take 1024 (''stream: OK'' @ [CHR 0x00]))) = ''stream: OK''"
    by (simp add: trim_zeros_def text_eval)
  moreover have "\<not> contains ''stream: OK'' ''FOUND''" "contains ''stream: OK'' ''OK''" by (simp_all add: has_prefix_def)
  ultimately show ?thesis by (simp add: ClamScan_def demo_conn_def list_all_iff)
qed

lemma required_scan_witness:
  "\<exists>s row. fst (Upload ((on_disk demo_str ''/data'' demo_file_service)\<lparr>sf_scanner := NewClamAV demo_conn\<rparr>)
      demo_upload_call (UUID 1) (UUID 2) ''notes.txt'' ''text/plain'' ''hello'' s) = Inr row \<and>
     list_all (cn_write demo_conn) [0..<length (clam_writes ''hello'')]"
proof -
  let ?S = "(on_disk demo_str ''/data'' demo_file_service)\<lparr>sf_scanner := NewClamAV demo_conn\<rparr>"
  have "\<exists>prep. prepare ?S demo_upload_call ''notes.txt'' ''text/plain'' ''hello'' 100 [''text/plain''] = Inr prep"
    by (simp add: prepare_def on_disk_def demo_file_service_def demo_settings_def demo_checks extension_check_def scan_def
      NewClamAV_def demo_conn_clean Seal_def gcm_def keySize_def nonceSize_def demo_key_def demo_upload_call_def ScanClean_def Let_def)
  then have "\<exists>row. fst (Upload ?S demo_upload_call (UUID 1) (UUID 2) ''notes.txt'' ''text/plain'' ''hello'' (demo_rows, demo_disk)) = Inr row"
    by (auto simp add: Upload_def on_disk_def demo_file_service_def demo_settings_def local_blobs_def LocalPut_def
        replace_file_def prog_defs on_blobs_def on_rows_def os_MkdirAll_def os_WriteFile_def os_Rename_def demo_disk_def
        mem_files_def MemCreateFile_def Let_def amap_simps)
  then obtain row where up: "fst (Upload ?S demo_upload_call (UUID 1) (UUID 2) ''notes.txt'' ''text/plain'' ''hello''
      (demo_rows, demo_disk)) = Inr row" by blast
  show ?thesis using required_scan[OF up] up by (auto simp: on_disk_def demo_file_service_def demo_settings_def)
qed

text \<open>C17. Only what the settings allow gets in. A file that went in is not empty, within the limit, of a type on
  the list that its own bytes show (a text named \<open>.csv\<close> counting as CSV), under a printable name of
  at most 255 runes that is not empty, \<open>.\<close> or \<open>..\<close> (it can be \<open>/\<close>, see \<open>slash_is_a_name\<close>); where
  executables are blocked, neither its first bytes nor its name's extension are an executable's. The configured scanner found
  nothing in it, or could not be asked while scanning is not required; where the scanner is the daemon's client and
  scanning is required, the daemon was sent the file whole and answered that it is fine. (With no scanner configured the
  answer is the one of \<open>NopScanner\<close>, that nothing was found.)\<close>

theorem upload_screened:
  assumes "fst (Upload S c org actor filename declared content s) = Inr row"
  shows "content \<noteq> [] \<and> int (length content) \<le> st_MaxBytes (sf_settings S) \<and>
    (\<exists>detected. CanonicalMediaType (sf_libs S) detected \<in> set (sf_allowed S) \<and>
       (detected = Detect (sf_libs S) content \<or>
        detected = ''text/csv'' \<and> typesCompatible (sf_libs S) (Detect (sf_libs S) content) ''text/plain'')) \<and>
    (\<exists>name. sanitizeName (sf_libs S) filename = Inr name \<and>
       all_runes (unicode_print (fx_print (sf_libs S))) name \<and> rune_count name \<le> 255 \<and>
       name \<notin> {[], ''.'', ''..''} \<and>
       (st_BlockExecutables (sf_settings S) \<longrightarrow>
          sniffExecutable content = [] \<and> \<not> ExecutableExtension (sf_libs S) (path_ext name))) \<and>
    (snd (sf_scanner S content) = None \<or>
     snd (sf_scanner S content) = Some (FilesErr ErrScanUnavailable) \<and> \<not> st_ScanRequired (sf_settings S)) \<and>
    (\<forall>conn. sf_scanner S = NewClamAV conn \<longrightarrow> st_ScanRequired (sf_settings S) \<longrightarrow>
       list_all (cn_write conn) [0..<length (clam_writes content)] \<and>
       instream_decode (concat (clam_writes content)) = Some content \<and>
       (\<exists>reply. cn_reply conn = Some reply \<and>
          contains (trim_space (trim_zeros (take 1024 reply))) ''OK'' \<and>
          \<not> contains (trim_space (trim_zeros (take 1024 reply))) ''FOUND''))"
proof -
  obtain prep where prep: "prepare S c filename declared content (st_MaxBytes (sf_settings S)) (sf_allowed S) = Inr prep"
    using assms by (auto simp: Upload_def refuse_def split: if_splits sum.splits)
  have "sniffExecutable content = []" if "st_BlockExecutables (sf_settings S)"
  proof (rule ccontr)
    assume exe: "sniffExecutable content \<noteq> []"
    then have "Detect (sf_libs S) content \<in> set executableTypes"
      using sniffExecutable_type by (simp add: Detect_executable)
    then have "isBlockedExecutable (sf_libs S) (Detect (sf_libs S) content) (pu_name prep)"
      by (simp add: isBlockedExecutable_def executable_types_canonical)
    then show False using prepare_ok(6)[OF prep that] by simp
  qed
  then have checked: "content \<noteq> [] \<and> int (length content) \<le> st_MaxBytes (sf_settings S) \<and>
    (\<exists>detected. CanonicalMediaType (sf_libs S) detected \<in> set (sf_allowed S) \<and>
       (detected = Detect (sf_libs S) content \<or>
        detected = ''text/csv'' \<and> typesCompatible (sf_libs S) (Detect (sf_libs S) content) ''text/plain'')) \<and>
    (\<exists>name. sanitizeName (sf_libs S) filename = Inr name \<and>
       all_runes (unicode_print (fx_print (sf_libs S))) name \<and> rune_count name \<le> 255 \<and>
       name \<notin> {[], ''.'', ''..''} \<and>
       (st_BlockExecutables (sf_settings S) \<longrightarrow>
          sniffExecutable content = [] \<and> \<not> ExecutableExtension (sf_libs S) (path_ext name)))"
    using prepare_ok(1-6)[OF prep] sanitizeName_ok[OF prepare_ok(1)[OF prep]]
    by (auto simp: isBlockedExecutable_def intro!: exI[of _ "pu_detected prep"])
  show ?thesis using checked upload_scanned[OF assms] required_scan[OF assms] by blast
qed

text \<open>Once with no scanner, once with the daemon, which is required and answers.\<close>

lemma upload_screened_witness:
  "(\<exists>row s'. demo_upload (demo_rows, demo_disk) = (Inr row, s') \<and> sniffExecutable ''hello'' = [] \<and> ''hello'' \<noteq> []) \<and>
   (\<exists>s row. fst (Upload ((on_disk demo_str ''/data'' demo_file_service)\<lparr>sf_scanner := NewClamAV demo_conn\<rparr>)
      demo_upload_call (UUID 1) (UUID 2) ''notes.txt'' ''text/plain'' ''hello'' s) = Inr row \<and>
     instream_decode (concat (clam_writes ''hello'')) = Some ''hello'')"
proof
  show "\<exists>row s'. demo_upload (demo_rows, demo_disk) = (Inr row, s') \<and> sniffExecutable ''hello'' = [] \<and> ''hello'' \<noteq> []"
  proof -
    obtain row s' where up: "demo_upload (demo_rows, demo_disk) = (Inr row, s')" using demo_upload_succeeds by blast
    then have "fst (demo_upload (demo_rows, demo_disk)) = Inr row" by simp
    from upload_screened[OF this] show ?thesis
      using up by (auto simp: on_disk_def demo_file_service_def demo_settings_def)
  qed
next
  obtain s row where up: "fst (Upload ((on_disk demo_str ''/data'' demo_file_service)\<lparr>sf_scanner := NewClamAV demo_conn\<rparr>)
      demo_upload_call (UUID 1) (UUID 2) ''notes.txt'' ''text/plain'' ''hello'' s) = Inr row" using required_scan_witness by blast
  then have "instream_decode (concat (clam_writes ''hello'')) = Some ''hello''"
    using upload_screened[OF up] by (simp add: on_disk_def demo_file_service_def demo_settings_def)
  then show "\<exists>s row. fst (Upload ((on_disk demo_str ''/data'' demo_file_service)\<lparr>sf_scanner := NewClamAV demo_conn\<rparr>)
      demo_upload_call (UUID 1) (UUID 2) ''notes.txt'' ''text/plain'' ''hello'' s) = Inr row \<and>
     instream_decode (concat (clam_writes ''hello'')) = Some ''hello''"
    using up by blast
qed

section \<open>Tenants\<close>

text \<open>C18. One organization's files are nobody else's. To any other organization a file answers as one that does
  not exist, to its content and its deletion too, which then changes nothing; a listing has only the
  organization's own, and an account's photo is in no organization's.\<close>

theorem files_of_others:
  assumes "\<And>row. map_of (fs_files m) fileID = Some row \<Longrightarrow> fl_OrganizationID row \<noteq> Some org"
  shows "FilesFile (on_disk str root S) org fileID (m, d) = Inl files_not_found \<and>
    Content (on_disk str root S) org fileID (m, d) = Inl files_not_found \<and>
    FilesDelete (on_disk str root S) c org fileID (m, d) = (Inl files_not_found, (m, d)) \<and>
    (\<forall>limit offset. \<exists>page. FilesList (on_disk str root S) org limit offset (m, d) = Inr page \<and>
       length page \<le> 100 \<and> list_all (\<lambda>row. fl_OrganizationID row = Some org) page)"
proof -
  have "\<exists>page. FilesList (on_disk str root S) org limit offset (m, d) = Inr page \<and> length page \<le> 100 \<and>
      list_all (\<lambda>row. fl_OrganizationID row = Some org) page" for limit offset
  proof -
    let ?out = "rev (sort_key fl_ID (filter (\<lambda>row. belongsToOrg row org) (avals (fs_files m))))"
    let ?limit = "if limit \<le> 0 \<or> FilesMaxPage < limit then FilesMaxPage else limit"
    let ?offset = "if offset < 0 then 0 else offset"
    have bounds: "0 \<le> ?limit" "?limit \<le> 100" "0 \<le> ?offset" by (simp_all add: FilesMaxPage_def)
    then have "FilesList (on_disk str root S) org limit offset (m, d) = Inr (take (nat ?limit) (drop (nat ?offset) ?out))"
      by (simp only: FilesList_def Let_def on_disk_def FileService.simps mem_files_def FilesRepository.simps MemFiles_def
          fst_conv page_ok)
    moreover have "list_all (\<lambda>row. fl_OrganizationID row = Some org) ?out"
      by (auto simp: list_all_iff belongsToOrg_def)
    then have "list_all (\<lambda>row. fl_OrganizationID row = Some org) (take (nat ?limit) (drop (nat ?offset) ?out))"
      unfolding list_all_iff by (meson in_set_dropD in_set_takeD)
    ultimately show ?thesis using bounds(1,2) by (intro exI conjI) (assumption, simp_all)
  qed
  then show ?thesis using disk_pipe.foreign_file[where f = fileID and r = m, OF TrueI assms] by blast
qed

lemma files_of_others_witness:
  "\<exists>row m d. demo_upload (demo_rows, demo_disk) = (Inr row, (m, d)) \<and>
     Content (on_disk demo_str ''/data'' demo_file_service) (UUID 7) (fl_ID row) (m, d) = Inl files_not_found"
proof -
  obtain row m d where up: "demo_upload (demo_rows, demo_disk) = (Inr row, (m, d))"
    and row: "map_of (fs_files m) (fl_ID row) = Some row" "fl_OrganizationID row = Some (UUID 1)"
    by (rule demo_uploaded)
  have "Content (on_disk demo_str ''/data'' demo_file_service) (UUID 7) (fl_ID row) (m, d) = Inl files_not_found"
    using files_of_others[where m = m and fileID = "fl_ID row" and org = "UUID 7"] row by simp
  then show ?thesis using up by blast
qed

section \<open>Every run\<close>

text \<open>
  What happens to the files: the four operations that change them, each with a fresh identifier where
  it draws one; changes of the other tables, accounts included, that attach no photo; and a disk whose
  calls begin or cease to fail.
\<close>

inductive files_step ::
    "(uuid \<Rightarrow> string) \<Rightarrow> string \<Rightarrow> (FileStore, Disk) FileService \<Rightarrow> FileStore \<times> Disk \<Rightarrow> FileStore \<times> Disk \<Rightarrow> bool"
  for str root S where
  StepUpload: "c_newID c DrawFile \<noteq> uuid_Nil \<Longrightarrow> map_of (fs_files (fst s)) (c_newID c DrawFile) = None \<Longrightarrow>
     files_step str root S s (snd (Upload (on_disk str root S) c org actor name declared content s))"
| StepDelete: "files_step str root S s (snd (FilesDelete (on_disk str root S) c org f s))"
| StepAvatar: "c_newID c DrawFile \<noteq> uuid_Nil \<Longrightarrow> map_of (fs_files (fst s)) (c_newID c DrawFile) = None \<Longrightarrow>
     files_step str root S s (snd (SetAvatar (on_disk str root S) c u name declared content s))"
| StepNoAvatar: "files_step str root S s (snd (DeleteAvatar (on_disk str root S) u s))"
| StepTables: "(\<And>u f. avatar_of (m\<lparr>fs_authz := a\<rparr>) u = Some f \<Longrightarrow> avatar_of m u = Some f) \<Longrightarrow>
     files_step str root S (m, d) (m\<lparr>fs_authz := a\<rparr>, d)"
| StepDisk: "files_step str root S (m, d) (m, d\<lparr>dk_fault := faults, dk_partial := n\<rparr>)"

lemma files_step_stored:
  assumes "files_step str root S s s'" "disk_pipe.stored str root S s"
  shows "disk_pipe.stored str root S s'"
  using assms
proof (induction rule: files_step.induct)
  case (StepUpload c s org actor name declared content)
  then show ?case by (intro disk_pipe.stored_upload)
next
  case (StepDelete s c org f)
  then show ?case by (rule disk_pipe.stored_delete)
next
  case (StepAvatar c s u name declared content)
  then show ?case by (intro disk_pipe.stored_set_avatar)
next
  case (StepNoAvatar s u)
  then show ?case by (rule disk_pipe.stored_delete_avatar)
next
  case (StepTables m a d)
  then show ?case
    unfolding disk_pipe.stored_def disk_pipe.rows_open_def disk_pipe.photos_ok_def by auto
next
  case (StepDisk m d faults n)
  then show ?case
    unfolding disk_pipe.stored_def disk_pipe.rows_open_def disk_pipe.opens_def disk_pipe.photos_ok_def by auto
qed

lemma files_run_stored:
  assumes "(files_step str root S)\<^sup>*\<^sup>* (m, d) (m', d')" "uuid_text str" "fs_files m = []" "\<And>u. avatar_of m u = None"
  shows "disk_pipe.stored str root S (m', d')"
proof -
  have "disk_pipe.stored str root S (m, d)"
    using assms(2-4) unfolding disk_pipe.stored_def disk_pipe.rows_open_def disk_pipe.photos_ok_def by simp
  then show ?thesis by (rule runs_invariant[OF assms(1)]) (rule files_step_stored)
qed

text \<open>C15. The two stores never come apart. However uploads, deletions and changes of photos follow one
  another, whatever the rest of the tables does and whichever system calls fail: every row's file is
  on disk and decrypts to a content of the row's size and hash, and the photo an account points at is
  an account file it sent itself, so no two accounts share one and replacing a photo takes nobody
  else's away.\<close>

theorem stored_files_open:
  assumes "(files_step str root S)\<^sup>*\<^sup>* (m, d) (m', d')" "uuid_text str" "fs_files m = []" "\<And>u. avatar_of m u = None"
  shows "(\<forall>f row. map_of (fs_files m') f = Some row \<longrightarrow> fl_ID row = f \<and>
       (\<exists>envelope content. map_of (dk_files d') (disk_path str root (fl_OrganizationID row, f)) = Some envelope \<and>
          Open (st_EncryptionKey (sf_settings S)) envelope = Inr content \<and>
          fl_SizeBytes row = int (length content) \<and> fl_Sha256 row = hex_encode (sha256 content))) \<and>
    (\<forall>u f. avatar_of m' u = Some f \<longrightarrow> (\<exists>row. map_of (fs_files m') f = Some row \<and>
       fl_OrganizationID row = None \<and> fl_UploadedBy row = u))"
proof -
  have "disk_pipe.stored str root S (m', d')" by (rule files_run_stored[OF assms])
  then have "disk_pipe.rows_open str root S (m', d')" "disk_pipe.photos_ok m'"
    unfolding disk_pipe.stored_def by simp_all
  then show ?thesis
    unfolding disk_pipe.rows_open_def disk_pipe.opens_def disk_pipe.describes_def disk_pipe.photos_ok_def fst_conv snd_conv
    by (simp add: on_disk_def)
qed

lemma stored_files_open_witness:
  "\<exists>row m d. demo_upload (demo_rows, demo_disk) = (Inr row, (m, d)) \<and>
     (\<exists>envelope content. map_of (dk_files d) (disk_path demo_str ''/data'' (Some (UUID 1), fl_ID row)) = Some envelope \<and>
        Open demo_key envelope = Inr content \<and> fl_SizeBytes row = int (length content))"
proof -
  obtain row m d where up: "demo_upload (demo_rows, demo_disk) = (Inr row, (m, d))"
    and row: "map_of (fs_files m) (fl_ID row) = Some row" "fl_OrganizationID row = Some (UUID 1)"
    by (rule demo_uploaded)
  have "files_step demo_str ''/data'' demo_file_service (demo_rows, demo_disk) (m, d)"
    using StepUpload[of demo_upload_call "(demo_rows, demo_disk)" demo_str "''/data''" demo_file_service "UUID 1" "UUID 2"
        "''notes.txt''" "''text/plain''" "''hello''"] up demo_upload_fresh by simp
  then have run: "(files_step demo_str ''/data'' demo_file_service)\<^sup>*\<^sup>* (demo_rows, demo_disk) (m, d)" by blast
  have "fs_files demo_rows = []" "avatar_of demo_rows u = None" for u
    by (simp_all add: demo_rows_def avatar_of_def NewAuthz_def photo_of_def NewUsers_def)
  from stored_files_open[OF run demo_str_text this, THEN conjunct1, rule_format, OF row(1)]
  have "\<exists>envelope content. map_of (dk_files d) (disk_path demo_str ''/data'' (Some (UUID 1), fl_ID row)) = Some envelope \<and>
      Open demo_key envelope = Inr content \<and> fl_SizeBytes row = int (length content)"
    unfolding row(2) by (auto simp: demo_file_service_def demo_settings_def)
  then show ?thesis using up by blast
qed

section \<open>Photos\<close>

text \<open>Setting a photo replaces it. After a photo was set, on a disk whose calls succeed, it is the one the
  account points at, it opens to what was sent, it belongs to no organization; the photo it replaces
  is gone, and every other account points at what it pointed at before.\<close>

theorem photo_set:
  assumes "(files_step str root S)\<^sup>*\<^sup>* (m0, d0) (m, d)" "uuid_text str" "fs_files m0 = []" "\<And>u. avatar_of m0 u = None"
    and "SetAvatar (on_disk str root S) c u name declared content (m, d) = (Inr row, (m', d'))" "no_faults d"
    and "c_newID c DrawFile \<noteq> uuid_Nil" "map_of (fs_files m) (c_newID c DrawFile) = None"
  shows "Avatar (on_disk str root S) u (m', d') = Inr (row, content) \<and>
    fl_OrganizationID row = None \<and> fl_UploadedBy row = u \<and> avatar_of m' = (avatar_of m)(u \<mapsto> fl_ID row) \<and>
    (\<forall>old. avatar_of m u = Some old \<longrightarrow> old \<noteq> uuid_Nil \<longrightarrow> map_of (fs_files m') old = None)"
proof -
  have st: "disk_pipe.stored str root S (m, d)" by (rule files_run_stored[OF assms(1-4)])
  show ?thesis
  proof (rule disk_pipe.photo_replaced[OF st assms(6-8,5)])
    assume "fl_ID row = c_newID c DrawFile" "fl_OrganizationID row = None" "fl_UploadedBy row = u"
      and "avatar_of m' = (avatar_of m)(u \<mapsto> c_newID c DrawFile)"
      and "\<And>old. avatar_of m u = Some old \<Longrightarrow> old \<noteq> uuid_Nil \<Longrightarrow> map_of (fs_files m') old = None"
    then show ?thesis using disk_pipe.avatar_after_set[OF st assms(6-8,5)] by simp
  qed
qed

definition demo_people :: FileStore where
  "demo_people = \<lparr>fs_authz = NewAuthz (Some (NewUsers\<lparr>us_users := [(UUID 10, \<lparr>u_ID = UUID 10, u_CreatedAt = 100,
     u_DeletedAt = None, u_IsProtected = False, u_Name = ''Al'', u_Email = ''al@x.io'', u_PasswordHash = [],
     u_Locale = [], u_SessionEpoch = 0, u_TwoFactorEnabled = False, u_SuspendedAt = None, u_AvatarID = None\<rparr>)]\<rparr>)),
     fs_files = []\<rparr>"

lemma demo_photo_checks:
  "sanitizeName demo_file_libs ''me.gif'' = Inr ''me.gif''"
  "Detect demo_file_libs ''GIF89a'' = ''image/gif''"
  "isBlockedExecutable demo_file_libs ''image/gif'' ''me.gif'' = False"
  "CanonicalMediaType demo_file_libs ''image/gif'' = ''image/gif''"
  "typesCompatible demo_file_libs ''image/gif'' ''image/gif''"
  "typesCompatible demo_file_libs ''image/gif'' ''text/plain'' = False"
  "to_lower (fx_lower demo_file_libs) (path_ext ''me.gif'') = ''.gif''"
  "ExecutableExtension demo_file_libs ''.gif'' = False" "TypeForExtension demo_file_libs ''.gif'' = Some ''image/gif''"
  by (simp_all add: demo_libs_sel type_eval)

lemma demo_photo_succeeds:
  "\<exists>row m d. SetAvatar (on_disk demo_str ''/data'' demo_file_service) demo_upload_call (UUID 10) ''me.gif'' ''image/gif''
     ''GIF89a'' (demo_people, demo_disk) = (Inr row, (m, d))"
proof -
  have "\<exists>prep. prepare (on_disk demo_str ''/data'' demo_file_service) demo_upload_call ''me.gif'' ''image/gif'' ''GIF89a''
      100 [''image/gif''] = Inr prep"
    by (simp add: prepare_def on_disk_def demo_file_service_def demo_settings_def demo_photo_checks extension_check_def
        scan_def NopScanner_def Seal_def gcm_def keySize_def nonceSize_def demo_key_def demo_upload_call_def
        ScanSkipped_def Let_def)
  then obtain prep where "prepare (on_disk demo_str ''/data'' demo_file_service) demo_upload_call ''me.gif'' ''image/gif''
      ''GIF89a'' 100 [''image/gif''] = Inr prep" by blast
  then show ?thesis
    by (simp add: SetAvatar_def on_disk_def demo_file_service_def demo_settings_def local_blobs_def LocalPutAccount_def
        replace_file_def prog_defs on_blobs_def on_rows_def os_MkdirAll_def os_WriteFile_def os_Rename_def demo_disk_def
        mem_account_files_def MemCreateAccountFile_def MemAttachAvatar_def on_users_def attachAvatar_def demo_people_def
        NewAuthz_def NewUsers_def UserIsDeleted_def stamped_def row_of_def demo_upload_call_def demo_call_def
        Let_def amap_simps)
qed

lemma photo_set_witness:
  "\<exists>row s. SetAvatar (on_disk demo_str ''/data'' demo_file_service) demo_upload_call (UUID 10) ''me.gif'' ''image/gif''
     ''GIF89a'' (demo_people, demo_disk) = (Inr row, s) \<and>
     Avatar (on_disk demo_str ''/data'' demo_file_service) (UUID 10) s = Inr (row, ''GIF89a'')"
proof -
  obtain row m d where run: "SetAvatar (on_disk demo_str ''/data'' demo_file_service) demo_upload_call (UUID 10) ''me.gif''
      ''image/gif'' ''GIF89a'' (demo_people, demo_disk) = (Inr row, (m, d))" using demo_photo_succeeds by blast
  have "fs_files demo_people = []" "avatar_of demo_people u = None" for u
    by (simp_all add: demo_people_def avatar_of_def NewAuthz_def photo_of_def NewUsers_def)
  then have "Avatar (on_disk demo_str ''/data'' demo_file_service) (UUID 10) (m, d) = Inr (row, ''GIF89a'')"
    using photo_set[OF rtranclp.rtrancl_refl demo_str_text _ _ run demo_no_faults demo_upload_fresh(1)]
    by simp
  then show ?thesis using run by blast
qed

end
