(* ===== verification/Go_Parse.thy ===== *)
theory Go_Parse
  imports Go_Net Go_Encoding Go_Bytes
begin

text \<open>
  Reading settings with Go's standard library: \<open>strconv.Atoi\<close>, \<open>time.ParseDuration\<close>,
  \<open>net.ParseCIDR\<close>, \<open>hex.Decode\<close>; and writing a connection string with \<open>net.JoinHostPort\<close>, the
  escaping of \<open>net/url\<close> and \<open>url.URL.String\<close>. A fraction of a duration's unit is computed in
  floating point, so it is a parameter.
\<close>

section \<open>Numbers and durations\<close>

text \<open>A sign is optional; no digits, another character or a value outside 64 bits is an error.\<close>

definition Atoi :: "string \<Rightarrow> int option" where
  "Atoi s =
     (let digits = (if s \<noteq> [] \<and> (hd s = CHR ''+'' \<or> hd s = CHR ''-'') then tl s else s) in
      if digits = [] \<or> \<not> list_all is_decimal digits then None
      else
        let i = (if hd s = CHR ''-'' then - int (decimal_value digits) else int (decimal_value digits))
        in if min_int64 \<le> i \<and> i \<le> max_int64 then Some i else None)"

definition duration_units :: "(string \<times> int) list" where
  "duration_units =
     [(''ns'', 1), (''us'', 1000), ([CHR 0xC2, CHR 0xB5, CHR ''s''], 1000), ([CHR 0xCE, CHR 0xBC, CHR ''s''], 1000),
      (''ms'', 1000000), (''s'', 1000000000), (''m'', 60000000000), (''h'', 3600000000000)]"

text \<open>
  \<open>leadingFraction\<close>: digits are taken in until the value would leave 63 bits, the later ones are
  read and ignored. The result is the value and the power of ten it is a fraction of.
\<close>

fun leading_fraction :: "int \<Rightarrow> int \<Rightarrow> bool \<Rightarrow> string \<Rightarrow> int \<times> int" where
  "leading_fraction f scale overflow [] = (f, scale)"
| "leading_fraction f scale overflow (c # s) =
     (if overflow then leading_fraction f scale overflow s
      else if (2 ^ 63 - 1) div 10 < f then leading_fraction f scale True s
      else
        let y = f * 10 + int (of_char c - 48) in
        if 2 ^ 63 < y then leading_fraction f scale True s
        else leading_fraction y (scale * 10) False s)"

text \<open>
  One number with its unit, and what is left. The whole part and each sum stay within
  \<open>2 ^ 63\<close>; \<open>frac f scale unit\<close> is the truncated \<open>f * unit / scale\<close>.
\<close>

definition duration_part :: "(int \<Rightarrow> int \<Rightarrow> int \<Rightarrow> int) \<Rightarrow> string \<Rightarrow> (int \<times> string) option" where
  "duration_part frac s =
     (let whole = takeWhile is_decimal s; s1 = dropWhile is_decimal s;
          point = s1 \<noteq> [] \<and> hd s1 = CHR ''.'';
          s2 = (if point then tl s1 else s1);
          part = (if point then takeWhile is_decimal s2 else []);
          s3 = (if point then dropWhile is_decimal s2 else s1);
          unit_name = takeWhile (\<lambda>c. \<not> (c = CHR ''.'' \<or> is_decimal c)) s3;
          rest = dropWhile (\<lambda>c. \<not> (c = CHR ''.'' \<or> is_decimal c)) s3;
          v = int (decimal_value whole)
      in if s = [] \<or> \<not> (hd s = CHR ''.'' \<or> is_decimal (hd s)) then None
         else if 2 ^ 63 < v then None
         else if whole = [] \<and> part = [] then None
         else if unit_name = [] then None
         else (case map_of duration_units unit_name of
             None \<Rightarrow> None
           | Some u \<Rightarrow>
               if 2 ^ 63 div u < v then None
               else
                 let (f, scale) = leading_fraction 0 1 False part;
                     d = (if 0 < f then v * u + frac f scale u else v * u)
                 in if 2 ^ 63 < d then None else Some (d, rest)))"

lemma duration_part_shorter: "duration_part frac s = Some (d, rest) \<Longrightarrow> length rest < length s"
proof -
  assume eq: "duration_part frac s = Some (d, rest)"
  define s3 where "s3 = (let s1 = dropWhile is_decimal s in
    if s1 \<noteq> [] \<and> hd s1 = CHR ''.'' then dropWhile is_decimal (tl s1) else s1)"
  have shorter: "length s3 \<le> length s"
  proof -
    have "length (dropWhile is_decimal (tl (dropWhile is_decimal s))) \<le> length (tl (dropWhile is_decimal s))"
      by (rule length_dropWhile_le)
    also have "\<dots> \<le> length (dropWhile is_decimal s)" by simp
    also have "\<dots> \<le> length s" by (rule length_dropWhile_le)
    finally show ?thesis using length_dropWhile_le[of is_decimal s] by (simp add: s3_def Let_def)
  qed
  define stop where "stop = (\<lambda>c. \<not> (c = CHR ''.'' \<or> is_decimal c))"
  have name: "takeWhile stop s3 \<noteq> []" and rest: "rest = dropWhile stop s3"
    using eq by (auto simp: duration_part_def s3_def stop_def Let_def split: if_splits option.splits prod.splits)
  have "length s3 = length (takeWhile stop s3) + length (dropWhile stop s3)"
    by (metis length_append takeWhile_dropWhile_id)
  moreover have "0 < length (takeWhile stop s3)" using name by (rule length_greater_0_conv[THEN iffD2])
  ultimately show ?thesis using shorter unfolding rest by linarith
qed

function duration_sum :: "(int \<Rightarrow> int \<Rightarrow> int \<Rightarrow> int) \<Rightarrow> int \<Rightarrow> string \<Rightarrow> int option" where
  "duration_sum frac d s =
     (if s = [] then Some d
      else (case duration_part frac s of
          None \<Rightarrow> None
        | Some (v, rest) \<Rightarrow> if 2 ^ 63 < d + v then None else duration_sum frac (d + v) rest))"
  by pat_completeness auto
termination
  by (relation "measure (\<lambda>(frac, d, s). length s)") (auto dest: duration_part_shorter)

declare duration_sum.simps [simp del]

definition ParseDuration :: "(int \<Rightarrow> int \<Rightarrow> int \<Rightarrow> int) \<Rightarrow> string \<Rightarrow> int option" where
  "ParseDuration frac s =
     (let neg = s \<noteq> [] \<and> hd s = CHR ''-'';
          s = (if s \<noteq> [] \<and> (hd s = CHR ''-'' \<or> hd s = CHR ''+'') then tl s else s)
      in if s = ''0'' then Some 0
         else if s = [] then None
         else (case duration_sum frac 0 s of
             None \<Rightarrow> None
           | Some d \<Rightarrow> if neg then Some (- d) else if max_int64 < d then None else Some d))"

section \<open>Networks\<close>

text \<open>\<open>netip.ParseAddr\<close> without a zone: four bytes for dotted text, sixteen for text with colons.\<close>

definition parse_addr :: "string \<Rightarrow> nat list option" where
  "parse_addr s =
     (case List.find (\<lambda>c. c \<in> set ''.:%'') s of
        None \<Rightarrow> None
      | Some c \<Rightarrow>
          if c = CHR ''.'' then parse_ipv4 s
          else if CHR ''%'' \<in> set s then None
          else parse_ipv6 s)"

text \<open>The \<open>k\<close>-th byte of a mask of \<open>n\<close> ones.\<close>

definition mask_byte :: "nat \<Rightarrow> nat \<Rightarrow> nat" where
  "mask_byte n k = (let ones = min 8 (n - 8 * k) in 256 - 2 ^ (8 - ones))"

definition cidr_mask :: "nat \<Rightarrow> nat \<Rightarrow> nat list" where
  "cidr_mask n bytes = map (mask_byte n) [0..<bytes]"

definition ParseCIDR :: "string \<Rightarrow> IPNet option" where
  "ParseCIDR s =
     (if CHR ''/'' \<notin> set s then None
      else
        let addr = takeWhile (\<lambda>c. c \<noteq> CHR ''/'') s; bits = tl (dropWhile (\<lambda>c. c \<noteq> CHR ''/'') s) in
        case parse_addr addr of
          None \<Rightarrow> None
        | Some ip \<Rightarrow>
            if bits = [] \<or> \<not> list_all is_decimal bits \<or> 8 * length ip < decimal_value bits then None
            else
              let mask = cidr_mask (decimal_value bits) (length ip)
              in Some \<lparr>nt_IP = map2 (\<lambda>a m. and a m) ip mask, nt_Mask = mask\<rparr>)"

text \<open>\<open>net.IP.IsLoopback\<close>: 127/8, or \<open>::1\<close>.\<close>

definition IsLoopback :: "nat list \<Rightarrow> bool" where
  "IsLoopback ip = (case to_v4 ip of Some v4 \<Rightarrow> hd v4 = 127 | None \<Rightarrow> ip = replicate 15 0 @ [1])"

section \<open>Hexadecimal\<close>

fun hex_decode :: "string \<Rightarrow> string option" where
  "hex_decode [] = Some []"
| "hex_decode [_] = None"
| "hex_decode (a # b # s) =
     (if is_hex a \<and> is_hex b
      then map_option ((#) (char_of (16 * hex_val a + hex_val b))) (hex_decode s) else None)"

lemma hex_val_digit:
  assumes "n < 16"
  shows "is_hex (hex_digit n)" "hex_val (hex_digit n) = n"
proof -
  have "list_all (\<lambda>n. is_hex (hex_digit n) \<and> hex_val (hex_digit n) = n) [0..<16]"
    by (simp add: upt_rec hex_digit_def is_hex_def is_digit_def hex_val_def byte_in_def)
  moreover have "n \<in> set [0..<16]" using assms by simp
  ultimately have "is_hex (hex_digit n) \<and> hex_val (hex_digit n) = n" by (simp only: list_all_iff)
  then show "is_hex (hex_digit n)" "hex_val (hex_digit n) = n" by simp_all
qed

lemma hex_decode_encode: "hex_decode (hex_encode s) = Some s"
proof (induction s)
  case (Cons c s)
  have "(of_char c div 16 :: nat) < 16" "(of_char c mod 16 :: nat) < 16"
    using nat_of_char_less_256[of c] by (simp_all add: less_mult_imp_div_less)
  then show ?case using Cons by (simp add: hex_encode_def hex_val_digit)
qed (simp add: hex_encode_def)

section \<open>Escaping\<close>

datatype url_part = InPath | InUser | InHost | InQuery

definition alphanumeric :: "char \<Rightarrow> bool" where
  "alphanumeric c \<longleftrightarrow> byte_in 97 122 c \<or> byte_in 65 90 c \<or> byte_in 48 57 c"

text \<open>\<open>shouldEscape\<close> of \<open>net/url\<close>, for the parts a connection string has.\<close>

definition should_escape :: "url_part \<Rightarrow> char \<Rightarrow> bool" where
  "should_escape part c \<longleftrightarrow>
     (if alphanumeric c then False
      else if part = InHost \<and> c \<in> set ''!$&()*+,;=:[]<>'' \<union> {CHR 0x22, CHR 0x27} then False
      else if c \<in> set ''-_.~'' then False
      else if c \<in> set ''$&+,/:;=?@'' then
        (case part of
           InPath \<Rightarrow> c = CHR ''?''
         | InUser \<Rightarrow> c \<in> set ''@/?:''
         | InQuery \<Rightarrow> True
         | InHost \<Rightarrow> True)
      else True)"

definition upper_hex :: "nat \<Rightarrow> char" where
  "upper_hex n = ''0123456789ABCDEF'' ! n"

definition escape_char :: "url_part \<Rightarrow> char \<Rightarrow> string" where
  "escape_char part c =
     (if should_escape part c then
        (if c = CHR '' '' \<and> part = InQuery then ''+''
         else [CHR ''%'', upper_hex (of_char c div 16), upper_hex (of_char c mod 16)])
      else [c])"

definition url_escape :: "url_part \<Rightarrow> string \<Rightarrow> string" where
  "url_escape part s = concat (map (escape_char part) s)"

text \<open>\<open>net.JoinHostPort\<close>.\<close>

definition JoinHostPort :: "string \<Rightarrow> string \<Rightarrow> string" where
  "JoinHostPort host port =
     (if CHR '':'' \<in> set host \<or> CHR ''%'' \<in> set host then ''['' @ host @ '']:'' @ port else host @ '':'' @ port)"

text \<open>
  \<open>url.URL.String\<close> of a URL with a scheme, user and password, a host and a query of one value
  (\<open>url.Values.Encode\<close>).
\<close>

definition url_string :: "string \<Rightarrow> string \<Rightarrow> string \<Rightarrow> string \<Rightarrow> string \<Rightarrow> string \<Rightarrow> string \<Rightarrow> string" where
  "url_string scheme user password host path key val =
     (let p = (if path = ''*'' then path else url_escape InPath path) in
      scheme @ ''://'' @ url_escape InUser user @ '':'' @ url_escape InUser password @ ''@'' @
      url_escape InHost host @ (if p \<noteq> [] \<and> hd p \<noteq> CHR ''/'' \<and> host \<noteq> [] then ''/'' else []) @ p @
      ''?'' @ url_escape InQuery key @ ''='' @ url_escape InQuery val)"

end
