(* ===== verification/Config.thy ===== *)
theory Config
  imports Complex_Main Go_Parse
begin

text \<open>
  The configuration, \<open>internal/config/config.go\<close> and \<open>logger.go\<close>: the settings, how they are read
  from the environment, and what they have to satisfy. The environment is a function from names to values, the
  empty string for a name that is not set (\<open>os.Getenv\<close>). \<open>url.Parse\<close>, \<open>strconv.ParseFloat\<close>, the case
  table above ASCII and the rounding of a fractional duration are parameters.
\<close>

section \<open>Settings\<close>

type_synonym environment = "string \<Rightarrow> string"

type_synonym Env = string

definition EnvDevelopment :: Env where "EnvDevelopment = ''development''"
definition EnvProduction :: Env where "EnvProduction = ''production''"

definition IsProduction :: "Env \<Rightarrow> bool" where
  "IsProduction e \<longleftrightarrow> e = EnvProduction"

definition devAuthTokenSecret :: string where
  "devAuthTokenSecret = ''dev-only-not-for-production-use-32bytes''"

definition devAuthResetSecret :: string where
  "devAuthResetSecret = ''dev-only-reset-pepper-not-for-prod-32b''"

definition minAuthTokenSecretBytes :: nat where "minAuthTokenSecretBytes = 32"

definition devFilesEncryptionKey :: string where
  "devFilesEncryptionKey = ''dev-only-files-enc-key-32bytes!!''"

definition maxFilesBytes :: int where "maxFilesBytes = 512 * 2 ^ 20"
definition defaultFilesBytes :: int where "defaultFilesBytes = 10 * 2 ^ 20"
definition defaultAvatarBytes :: int where "defaultAvatarBytes = 2 * 2 ^ 20"

text \<open>Scan modes and log formats are strings the environment supplies; any other value is refused.\<close>

definition ScanOff :: string where "ScanOff = ''off''"
definition ScanOptional :: string where "ScanOptional = ''optional''"
definition ScanRequired :: string where "ScanRequired = ''required''"

definition LogFormatConsole :: string where "LogFormatConsole = ''console''"
definition LogFormatJSON :: string where "LogFormatJSON = ''json''"

datatype Level = LevelDebug | LevelInfo | LevelWarn | LevelError

text \<open>A \<open>float64\<close>: not a number, an infinity, or the number it is written as.\<close>

datatype float64 = NaN | Infinite bool | Finite rat

fun float_less :: "float64 \<Rightarrow> float64 \<Rightarrow> bool" where
  "float_less NaN _ = False"
| "float_less _ NaN = False"
| "float_less (Infinite a) (Infinite b) = (\<not> a \<and> b)"
| "float_less (Infinite a) (Finite _) = (\<not> a)"
| "float_less (Finite _) (Infinite b) = b"
| "float_less (Finite x) (Finite y) = (x < y)"

record Config =
  cf_Env :: Env
  cf_APIName :: string
  cf_APIHost :: string
  cf_APIPort :: int
  cf_TLSCertFile :: string
  cf_TLSKeyFile :: string
  cf_AuthTokenSecret :: string
  cf_AuthTokenTTL :: int
  cf_AuthResetSecret :: string
  cf_AuthTokenIssuer :: string
  cf_RegisterPerMinute :: int
  cf_LoginPerMinute :: int
  cf_ResetPerMinute :: int
  cf_InvitePerMinute :: int
  cf_FilesUploadPerMinute :: int
  cf_FilesStorageBackend :: string
  cf_FilesStoragePath :: string
  cf_FilesMaxBytes :: int
  cf_FilesAvatarMaxBytes :: int
  cf_FilesAllowedTypes :: "string list"
  cf_FilesScanMode :: string
  cf_FilesClamAVAddr :: string
  cf_FilesClamAVTimeout :: int
  cf_FilesEncryptionKey :: string
  cf_FilesRequireDeclaredMatch :: bool
  cf_FilesRequireExtensionMatch :: bool
  cf_FilesBlockExecutables :: bool
  cf_MaxRequestBytes :: int
  cf_LogFormat :: string
  cf_LogLevel :: Level
  cf_LogColour :: string
  cf_OTLPEndpoint :: string
  cf_OTLPInsecure :: bool
  cf_ServiceName :: string
  cf_ServiceVersion :: string
  cf_TraceSampleRatio :: float64
  cf_ReadHeaderTimeout :: int
  cf_ReadTimeout :: int
  cf_WriteTimeout :: int
  cf_IdleTimeout :: int
  cf_ShutdownTimeout :: int
  cf_HealthTimeout :: int
  cf_PostgresHost :: string
  cf_PostgresPort :: int
  cf_PostgresUser :: string
  cf_PostgresPassword :: string
  cf_PostgresDatabaseName :: string
  cf_PostgresSSLMode :: string
  cf_DBMaxOpenConns :: int
  cf_DBMaxIdleConns :: int
  cf_DBConnMaxLifetime :: int
  cf_DBConnMaxIdleTime :: int
  cf_DBSlowQueryThreshold :: int
  cf_DBConnectTimeout :: int
  cf_SMTPHost :: string
  cf_SMTPPort :: int
  cf_SMTPUser :: string
  cf_SMTPPassword :: string
  cf_SMTPFrom :: string
  cf_TrustedProxies :: "IPNet list"
  cf_CORSAllowedOrigins :: "string list"
  cf_MailLogCodes :: bool

text \<open>The messages, each with the values it prints.\<close>

datatype config_error =
    NotInteger string string | NotDuration string string | NotBool string string
  | Wildcard string | NotMediaType string | BadKeyText nat | BadHex
  | NotOrigin string | OriginTail string | BadAddress string | BadCIDR string
  | UnknownEnv string | MustNotBeEmpty string | TLSPair | TLSRequired
  | TooShort string nat | DevelopmentDefault string | NotPositive string int | NegativeLimit string int
  | UnknownBackend string | OutOfRange string int int int | UnknownScanMode string | NoScannerAddress
  | KeyLength nat | UnknownLogFormat string | NotEndpoint string | TooSmall string int int
  | InsecureSSLMode string | WeakPassword | PlainOrigin string | SMTPRequired | NoSMTPFrom
  | IdleConns int int

section \<open>What the standard library supplies\<close>

text \<open>The parts of a parsed URL the program looks at.\<close>

record Url =
  url_Scheme :: string
  url_Host :: string
  url_Path :: string
  url_RawQuery :: string
  url_Fragment :: string
  url_HasUser :: bool

record ConfigLibs =
  cl_lower :: "string \<Rightarrow> string"
  cl_fraction :: "int \<Rightarrow> int \<Rightarrow> int \<Rightarrow> int"
  cl_ParseFloat :: "string \<Rightarrow> float64 option"
  cl_urlParse :: "string \<Rightarrow> Url option"

text \<open>\<open>url.URL.Hostname\<close>: the host without a port and without brackets.\<close>

definition Hostname :: "Url \<Rightarrow> string" where
  "Hostname u =
     (let host = url_Host u;
          host = (case last_index CHR '':'' host of
              None \<Rightarrow> host
            | Some i \<Rightarrow> if list_all is_decimal (drop (Suc i) host) then take i host else host)
      in if has_prefix host ''['' \<and> has_suffix host '']'' then butlast (tl host) else host)"

section \<open>Reading one variable\<close>

definition getEnv :: "environment \<Rightarrow> string \<Rightarrow> string \<Rightarrow> string" where
  "getEnv env key defaultValue = (if env key \<noteq> [] then env key else defaultValue)"

definition getEnvInt :: "environment \<Rightarrow> string \<Rightarrow> int \<Rightarrow> config_error list \<times> int" where
  "getEnvInt env key defaultValue =
     (if env key = [] then ([], defaultValue)
      else (case Atoi (env key) of
          None \<Rightarrow> ([NotInteger key (env key)], defaultValue)
        | Some i \<Rightarrow> ([], i)))"

definition getEnvDuration :: "ConfigLibs \<Rightarrow> environment \<Rightarrow> string \<Rightarrow> int \<Rightarrow> config_error list \<times> int" where
  "getEnvDuration L env key defaultValue =
     (if env key = [] then ([], defaultValue)
      else (case ParseDuration (cl_fraction L) (env key) of
          None \<Rightarrow> ([NotDuration key (env key)], defaultValue)
        | Some d \<Rightarrow> ([], d)))"

definition getFloat :: "ConfigLibs \<Rightarrow> environment \<Rightarrow> string \<Rightarrow> float64 \<Rightarrow> float64" where
  "getFloat L env key defaultValue =
     (let raw = trim_space (env key) in
      if raw = [] then defaultValue
      else (case cl_ParseFloat L raw of
          None \<Rightarrow> defaultValue
        | Some v \<Rightarrow> if float_less v (Finite 0) \<or> float_less (Finite 1) v then defaultValue else v))"

definition getEnvBool :: "ConfigLibs \<Rightarrow> environment \<Rightarrow> string \<Rightarrow> bool" where
  "getEnvBool L env key \<longleftrightarrow> to_lower (cl_lower L) (trim_space (env key)) \<in> {''1'', ''true'', ''yes''}"

definition getEnvBoolValue :: "ConfigLibs \<Rightarrow> environment \<Rightarrow> string \<Rightarrow> bool \<Rightarrow> config_error list \<times> bool" where
  "getEnvBoolValue L env key defaultValue =
     (let raw = trim_space (env key); low = to_lower (cl_lower L) raw in
      if raw = [] then ([], defaultValue)
      else if low \<in> {''1'', ''true'', ''yes''} then ([], True)
      else if low \<in> {''0'', ''false'', ''no''} then ([], False)
      else ([NotBool key raw], defaultValue))"

definition defaultLogFormat :: "Env \<Rightarrow> string" where
  "defaultLogFormat env = (if IsProduction env then LogFormatJSON else LogFormatConsole)"

definition defaultLogLevel :: "Env \<Rightarrow> string" where
  "defaultLogLevel env = (if IsProduction env then ''info'' else ''debug'')"

definition defaultSampleRatio :: "Env \<Rightarrow> float64" where
  "defaultSampleRatio env = (if IsProduction env then Finite (1 / 10) else Finite 1)"

definition ParseLogLevel :: "ConfigLibs \<Rightarrow> string \<Rightarrow> Level" where
  "ParseLogLevel L name =
     (let n = to_lower (cl_lower L) (trim_space name) in
      if n = ''debug'' then LevelDebug
      else if n = ''warn'' \<or> n = ''warning'' then LevelWarn
      else if n = ''error'' then LevelError
      else LevelInfo)"

section \<open>Reading a list\<close>

text \<open>
  The loops over the comma-separated parts: a part of white space is skipped, the first part that is
  wrong ends the loop with its error.
\<close>

fun parse_parts :: "(string \<Rightarrow> config_error + 'a) \<Rightarrow> string list \<Rightarrow> config_error + 'a list" where
  "parse_parts f [] = Inr []"
| "parse_parts f (part # parts) =
     (if part = [] then parse_parts f parts
      else (case f part of
          Inl e \<Rightarrow> Inl e
        | Inr x \<Rightarrow> (case parse_parts f parts of Inl e \<Rightarrow> Inl e | Inr xs \<Rightarrow> Inr (x # xs))))"

definition parse_list ::
    "(string \<Rightarrow> string) \<Rightarrow> (string \<Rightarrow> config_error + 'a) \<Rightarrow> string \<Rightarrow> config_error + 'a list" where
  "parse_list prep f v =
     (if trim_space v = [] then Inr [] else parse_parts f (map prep (split_at CHR '','' v)))"

definition allowed_origin :: "ConfigLibs \<Rightarrow> string \<Rightarrow> config_error + string" where
  "allowed_origin L part =
     (if part = ''*'' then Inl (Wildcard ''CORS_ALLOWED_ORIGINS'')
      else (case cl_urlParse L part of
          None \<Rightarrow> Inl (NotOrigin part)
        | Some u \<Rightarrow>
            if url_Host u = [] \<or> url_Scheme u \<noteq> ''http'' \<and> url_Scheme u \<noteq> ''https'' then Inl (NotOrigin part)
            else if url_Path u \<noteq> [] \<or> url_RawQuery u \<noteq> [] \<or> url_Fragment u \<noteq> [] \<or> url_HasUser u
            then Inl (OriginTail part)
            else Inr (to_lower (cl_lower L) (url_Scheme u) @ ''://'' @ to_lower (cl_lower L) (url_Host u))))"

definition parseAllowedOrigins :: "ConfigLibs \<Rightarrow> string \<Rightarrow> config_error + string list" where
  "parseAllowedOrigins L = parse_list trim_space (allowed_origin L)"

text \<open>An address without a prefix length gets the one of its family: 32 when \<open>To4\<close> is not nil, else 128.\<close>

definition trusted_proxy :: "string \<Rightarrow> config_error + IPNet" where
  "trusted_proxy part =
     (let cidr = (\<lambda>part. case ParseCIDR part of None \<Rightarrow> Inl (BadCIDR part) | Some n \<Rightarrow> Inr n) in
      if CHR ''/'' \<in> set part then cidr part
      else (case ParseIP part of
          None \<Rightarrow> Inl (BadAddress part)
        | Some ip \<Rightarrow> cidr (part @ (if to_v4 ip \<noteq> None then ''/32'' else ''/128''))))"

definition parseTrustedProxies :: "string \<Rightarrow> config_error + IPNet list" where
  "parseTrustedProxies = parse_list trim_space trusted_proxy"

definition mediaTypeLooksWrong :: "string \<Rightarrow> bool" where
  "mediaTypeLooksWrong v \<longleftrightarrow>
     (case first_index CHR ''/'' v of
        None \<Rightarrow> True
      | Some slash \<Rightarrow>
          if slash = 0 \<or> slash = length v - 1 then True
          else if \<exists>c \<in> set v. c = CHR '' '' \<or> c = CHR 0x09 \<or> c = CHR '';'' then True
          else length (filter (\<lambda>c. c = CHR ''/'') v) \<noteq> 1)"

definition allowed_type :: "string \<Rightarrow> config_error + string" where
  "allowed_type part =
     (if part = ''*'' then Inl (Wildcard ''FILES_ALLOWED_TYPES'')
      else if mediaTypeLooksWrong part then Inl (NotMediaType part)
      else Inr part)"

definition parseAllowedTypes :: "ConfigLibs \<Rightarrow> string \<Rightarrow> config_error + string list" where
  "parseAllowedTypes L = parse_list (\<lambda>part. to_lower (cl_lower L) (trim_space part)) allowed_type"

definition isHex :: "string \<Rightarrow> bool" where
  "isHex v \<longleftrightarrow> list_all is_hex v"

definition parseEncryptionKey :: "string \<Rightarrow> config_error + string" where
  "parseEncryptionKey v =
     (let v = trim_space v in
      if v = [] then Inr []
      else if length v = 64 \<and> isHex v then (case hex_decode v of None \<Rightarrow> Inl BadHex | Some key \<Rightarrow> Inr key)
      else if length v = 32 then Inr v
      else Inl (BadKeyText (length v)))"

section \<open>Questions about a configuration\<close>

definition loopback_host :: "string \<Rightarrow> bool" where
  "loopback_host host \<longleftrightarrow>
     host = ''localhost'' \<or> (case ParseIP host of None \<Rightarrow> False | Some ip \<Rightarrow> IsLoopback ip)"

definition BindsLoopback :: "Config \<Rightarrow> bool" where
  "BindsLoopback c \<longleftrightarrow> loopback_host (cf_APIHost c)"

definition TLSEnabled :: "Config \<Rightarrow> bool" where
  "TLSEnabled c \<longleftrightarrow> cf_TLSCertFile c \<noteq> [] \<and> cf_TLSKeyFile c \<noteq> []"

definition Addr :: "Config \<Rightarrow> string" where
  "Addr c = JoinHostPort (cf_APIHost c) (show_int (cf_APIPort c))"

definition postgresSSLModeSecure :: "string \<Rightarrow> bool" where
  "postgresSSLModeSecure mode \<longleftrightarrow> mode \<in> {''require'', ''verify-ca'', ''verify-full''}"

definition weakPostgresPassword :: "string \<Rightarrow> bool" where
  "weakPostgresPassword password \<longleftrightarrow>
     password \<in> {'''', ''postgres'', ''password'', ''change-me'', ''changeme'', ''admin'', ''secret''}"

definition DSN :: "Config \<Rightarrow> string" where
  "DSN c = url_string ''postgres'' (cf_PostgresUser c) (cf_PostgresPassword c)
     (JoinHostPort (cf_PostgresHost c) (show_int (cf_PostgresPort c))) (cf_PostgresDatabaseName c)
     ''sslmode'' (cf_PostgresSSLMode c)"

definition originIsLoopback :: "ConfigLibs \<Rightarrow> string \<Rightarrow> bool" where
  "originIsLoopback L origin \<longleftrightarrow>
     (case cl_urlParse L origin of None \<Rightarrow> False | Some u \<Rightarrow> loopback_host (Hostname u))"

section \<open>Checking\<close>

definition problem :: "bool \<Rightarrow> config_error \<Rightarrow> config_error list" where
  "problem bad e = (if bad then [e] else [])"

lemma problem_Nil [simp]: "problem bad e = [] \<longleftrightarrow> \<not> bad"
  by (simp add: problem_def)

text \<open>\<open>validate\<close>: one entry per rule, in the order of the code, every broken rule reported.\<close>

definition validate_secrets :: "Config \<Rightarrow> config_error list" where
  "validate_secrets c =
     (let exposed = IsProduction (cf_Env c) \<or> \<not> BindsLoopback c in
      problem (length (cf_AuthTokenSecret c) < minAuthTokenSecretBytes)
        (TooShort ''AUTH_TOKEN_SECRET'' minAuthTokenSecretBytes) @
      problem (cf_AuthTokenSecret c = devAuthTokenSecret \<and> exposed) (DevelopmentDefault ''AUTH_TOKEN_SECRET'') @
      problem (length (cf_AuthResetSecret c) < minAuthTokenSecretBytes)
        (TooShort ''AUTH_RESET_SECRET'' minAuthTokenSecretBytes) @
      problem (cf_AuthResetSecret c = devAuthResetSecret \<and> exposed) (DevelopmentDefault ''AUTH_RESET_SECRET'') @
      problem (cf_AuthTokenIssuer c = []) (MustNotBeEmpty ''AUTH_TOKEN_ISSUER'') @
      problem (cf_AuthTokenTTL c \<le> 0) (NotPositive ''AUTH_TOKEN_TTL'' (cf_AuthTokenTTL c)))"

definition validate_limits :: "Config \<Rightarrow> config_error list" where
  "validate_limits c =
     problem (cf_RegisterPerMinute c < 0) (NegativeLimit ''REGISTER_PER_MINUTE'' (cf_RegisterPerMinute c)) @
     problem (cf_LoginPerMinute c < 0) (NegativeLimit ''LOGIN_PER_MINUTE'' (cf_LoginPerMinute c)) @
     problem (cf_ResetPerMinute c < 0) (NegativeLimit ''RESET_PER_MINUTE'' (cf_ResetPerMinute c)) @
     problem (cf_InvitePerMinute c < 0) (NegativeLimit ''INVITE_PER_MINUTE'' (cf_InvitePerMinute c)) @
     problem (cf_FilesUploadPerMinute c < 0)
       (NegativeLimit ''FILES_UPLOAD_PER_MINUTE'' (cf_FilesUploadPerMinute c))"

definition validate_files :: "Config \<Rightarrow> config_error list" where
  "validate_files c =
     (let exposed = IsProduction (cf_Env c) \<or> \<not> BindsLoopback c;
          out_of_range = (\<lambda>n. n < 1024 \<or> maxFilesBytes < n) in
      problem (cf_FilesStorageBackend c \<noteq> ''local'') (UnknownBackend (cf_FilesStorageBackend c)) @
      problem (cf_FilesStoragePath c = []) (MustNotBeEmpty ''FILES_STORAGE_PATH'') @
      problem (out_of_range (cf_FilesMaxBytes c))
        (OutOfRange ''FILES_MAX_BYTES'' 1024 maxFilesBytes (cf_FilesMaxBytes c)) @
      problem (out_of_range (cf_FilesAvatarMaxBytes c))
        (OutOfRange ''FILES_AVATAR_MAX_BYTES'' 1024 maxFilesBytes (cf_FilesAvatarMaxBytes c)) @
      problem (cf_FilesScanMode c \<notin> {ScanOff, ScanOptional, ScanRequired}) (UnknownScanMode (cf_FilesScanMode c)) @
      problem (cf_FilesScanMode c = ScanRequired \<and> cf_FilesClamAVAddr c = []) NoScannerAddress @
      problem (cf_FilesClamAVTimeout c \<le> 0) (NotPositive ''FILES_CLAMAV_TIMEOUT'' (cf_FilesClamAVTimeout c)) @
      problem (length (cf_FilesEncryptionKey c) \<noteq> 32) (KeyLength (length (cf_FilesEncryptionKey c))) @
      problem (cf_FilesEncryptionKey c = devFilesEncryptionKey \<and> exposed)
        (DevelopmentDefault ''FILES_ENCRYPTION_KEY'') @
      concat (map (\<lambda>t. problem (mediaTypeLooksWrong t) (NotMediaType t)) (cf_FilesAllowedTypes c)))"

definition validate_ports :: "Config \<Rightarrow> config_error list" where
  "validate_ports c =
     (let bad = (\<lambda>p. p < 1 \<or> 65535 < p) in
      concat (map (\<lambda>(key, p). problem (bad p) (OutOfRange key 1 65535 p))
        [(''API_PORT'', cf_APIPort c), (''POSTGRES_PORT'', cf_PostgresPort c)]) @
      problem (cf_SMTPHost c \<noteq> [] \<and> bad (cf_SMTPPort c)) (OutOfRange ''SMTP_PORT'' 1 65535 (cf_SMTPPort c)))"

definition validate_postgres :: "Config \<Rightarrow> config_error list" where
  "validate_postgres c =
     problem (cf_PostgresDatabaseName c = []) (MustNotBeEmpty ''POSTGRES_DATABASE_NAME'') @
     problem (IsProduction (cf_Env c) \<and> \<not> postgresSSLModeSecure (cf_PostgresSSLMode c))
       (InsecureSSLMode (cf_PostgresSSLMode c)) @
     problem (IsProduction (cf_Env c) \<and> weakPostgresPassword (cf_PostgresPassword c)) WeakPassword"

definition validate :: "ConfigLibs \<Rightarrow> Config \<Rightarrow> config_error list" where
  "validate L c =
     problem (cf_Env c \<notin> {EnvDevelopment, EnvProduction}) (UnknownEnv (cf_Env c)) @
     problem (cf_APIName c = []) (MustNotBeEmpty ''API_NAME'') @
     problem (cf_APIHost c = []) (MustNotBeEmpty ''API_HOST'') @
     problem ((cf_TLSCertFile c = []) \<noteq> (cf_TLSKeyFile c = [])) TLSPair @
     problem (IsProduction (cf_Env c) \<and> \<not> BindsLoopback c \<and> \<not> TLSEnabled c) TLSRequired @
     validate_secrets c @ validate_limits c @ validate_files c @
     problem (cf_LogFormat c \<noteq> LogFormatConsole \<and> cf_LogFormat c \<noteq> LogFormatJSON)
       (UnknownLogFormat (cf_LogFormat c)) @
     problem (cf_OTLPEndpoint c \<noteq> [] \<and>
         (case cl_urlParse L (cf_OTLPEndpoint c) of None \<Rightarrow> True | Some u \<Rightarrow> url_Host u = []))
       (NotEndpoint (cf_OTLPEndpoint c)) @
     problem (cf_MaxRequestBytes c < 1024) (TooSmall ''MAX_REQUEST_BYTES'' 1024 (cf_MaxRequestBytes c)) @
     validate_ports c @ validate_postgres c @
     concat (map (\<lambda>origin.
       problem (IsProduction (cf_Env c) \<and> has_prefix origin ''http://'' \<and> \<not> originIsLoopback L origin)
         (PlainOrigin origin)) (cf_CORSAllowedOrigins c)) @
     problem (IsProduction (cf_Env c) \<and> cf_SMTPHost c = []) SMTPRequired @
     problem (cf_SMTPHost c \<noteq> [] \<and> cf_SMTPFrom c = []) NoSMTPFrom @
     problem (cf_DBMaxOpenConns c < 1) (TooSmall ''DB_MAX_OPEN_CONNS'' 1 (cf_DBMaxOpenConns c)) @
     problem (cf_DBMaxIdleConns c < 1 \<or> cf_DBMaxOpenConns c < cf_DBMaxIdleConns c)
       (IdleConns (cf_DBMaxOpenConns c) (cf_DBMaxIdleConns c))"

section \<open>Loading\<close>

definition seconds :: "int \<Rightarrow> int" where "seconds n = n * 1000000000"

text \<open>An assignment that is made only when the read went well; the field is the zero value otherwise.\<close>

definition when_read :: "'a \<Rightarrow> config_error + 'a \<Rightarrow> 'a" where
  "when_read zero r = (case r of Inl _ \<Rightarrow> zero | Inr x \<Rightarrow> x)"

definition read_error :: "config_error + 'a \<Rightarrow> config_error list" where
  "read_error r = (case r of Inl e \<Rightarrow> [e] | Inr _ \<Rightarrow> [])"

definition flag :: "config_error list \<times> bool \<Rightarrow> config_error + bool" where
  "flag r = (case fst r of [] \<Rightarrow> Inr (snd r) | e # _ \<Rightarrow> Inl e)"

text \<open>The errors of the reads, in the order of the code.\<close>

definition read_errors :: "ConfigLibs \<Rightarrow> environment \<Rightarrow> config_error list" where
  "read_errors L env =
     (let int_error = (\<lambda>key. fst (getEnvInt env key 0)); time_error = (\<lambda>key. fst (getEnvDuration L env key 0)) in
      int_error ''API_PORT'' @ time_error ''AUTH_TOKEN_TTL'' @ int_error ''REGISTER_PER_MINUTE'' @
      int_error ''LOGIN_PER_MINUTE'' @ int_error ''RESET_PER_MINUTE'' @ int_error ''INVITE_PER_MINUTE'' @
      int_error ''MAX_REQUEST_BYTES'' @ int_error ''FILES_UPLOAD_PER_MINUTE'' @ int_error ''FILES_MAX_BYTES'' @
      int_error ''FILES_AVATAR_MAX_BYTES'' @ time_error ''FILES_CLAMAV_TIMEOUT'' @ int_error ''POSTGRES_PORT'' @
      int_error ''DB_MAX_OPEN_CONNS'' @ int_error ''DB_MAX_IDLE_CONNS'' @ int_error ''SMTP_PORT'' @
      read_error (flag (getEnvBoolValue L env ''FILES_REQUIRE_DECLARED_MATCH'' True)) @
      read_error (flag (getEnvBoolValue L env ''FILES_REQUIRE_EXTENSION_MATCH'' True)) @
      read_error (flag (getEnvBoolValue L env ''FILES_BLOCK_EXECUTABLES'' True)) @
      read_error (parseAllowedTypes L (env ''FILES_ALLOWED_TYPES'')) @
      read_error (parseEncryptionKey (env ''FILES_ENCRYPTION_KEY'')) @
      read_error (parseTrustedProxies (env ''TRUSTED_PROXIES'')) @
      read_error (parseAllowedOrigins L (env ''CORS_ALLOWED_ORIGINS'')))"

text \<open>The values: an integer or a duration that could not be read is its default.\<close>

definition read_settings :: "ConfigLibs \<Rightarrow> environment \<Rightarrow> Config" where
  "read_settings L env =
     (let e = env ''ENV''; str = getEnv env; num = (\<lambda>key d. snd (getEnvInt env key d));
          dur = (\<lambda>key d. snd (getEnvDuration L env key d));
          sw = (\<lambda>key. when_read False (flag (getEnvBoolValue L env key True))) in
      \<lparr>cf_Env = e, cf_APIName = str ''API_NAME'' ''Example'', cf_APIHost = str ''API_HOST'' ''127.0.0.1'',
       cf_APIPort = num ''API_PORT'' 8000, cf_TLSCertFile = str ''TLS_CERT_FILE'' [],
       cf_TLSKeyFile = str ''TLS_KEY_FILE'' [], cf_AuthTokenSecret = env ''AUTH_TOKEN_SECRET'',
       cf_AuthTokenTTL = dur ''AUTH_TOKEN_TTL'' (hours 1), cf_AuthResetSecret = env ''AUTH_RESET_SECRET'',
       cf_AuthTokenIssuer = str ''AUTH_TOKEN_ISSUER'' ''multi-tenant-go-service'',
       cf_RegisterPerMinute = num ''REGISTER_PER_MINUTE'' 5, cf_LoginPerMinute = num ''LOGIN_PER_MINUTE'' 5,
       cf_ResetPerMinute = num ''RESET_PER_MINUTE'' 5, cf_InvitePerMinute = num ''INVITE_PER_MINUTE'' 30,
       cf_FilesUploadPerMinute = num ''FILES_UPLOAD_PER_MINUTE'' 20,
       cf_FilesStorageBackend = str ''FILES_STORAGE_BACKEND'' ''local'',
       cf_FilesStoragePath = str ''FILES_STORAGE_PATH'' [],
       cf_FilesMaxBytes = num ''FILES_MAX_BYTES'' defaultFilesBytes,
       cf_FilesAvatarMaxBytes = num ''FILES_AVATAR_MAX_BYTES'' defaultAvatarBytes,
       cf_FilesAllowedTypes = when_read [] (parseAllowedTypes L (env ''FILES_ALLOWED_TYPES'')),
       cf_FilesScanMode = str ''FILES_SCAN_MODE'' ScanOff,
       cf_FilesClamAVAddr = trim_space (str ''FILES_CLAMAV_ADDR'' []),
       cf_FilesClamAVTimeout = dur ''FILES_CLAMAV_TIMEOUT'' (seconds 10),
       cf_FilesEncryptionKey = when_read [] (parseEncryptionKey (env ''FILES_ENCRYPTION_KEY'')),
       cf_FilesRequireDeclaredMatch = sw ''FILES_REQUIRE_DECLARED_MATCH'',
       cf_FilesRequireExtensionMatch = sw ''FILES_REQUIRE_EXTENSION_MATCH'',
       cf_FilesBlockExecutables = sw ''FILES_BLOCK_EXECUTABLES'',
       cf_MaxRequestBytes = num ''MAX_REQUEST_BYTES'' (2 ^ 20),
       cf_LogFormat = str ''LOG_FORMAT'' (defaultLogFormat e),
       cf_LogLevel = ParseLogLevel L (str ''LOG_LEVEL'' (defaultLogLevel e)),
       cf_LogColour = str ''LOG_COLOR'' ''auto'',
       cf_OTLPEndpoint = trim_space (str ''OTEL_EXPORTER_OTLP_ENDPOINT'' []),
       cf_OTLPInsecure = getEnvBool L env ''OTEL_EXPORTER_OTLP_INSECURE'',
       cf_ServiceName = str ''OTEL_SERVICE_NAME'' ''multi-tenant-go-service'',
       cf_ServiceVersion = str ''OTEL_SERVICE_VERSION'' ''dev'',
       cf_TraceSampleRatio = getFloat L env ''OTEL_TRACES_SAMPLER_ARG'' (defaultSampleRatio e),
       cf_ReadHeaderTimeout = seconds 5, cf_ReadTimeout = seconds 15, cf_WriteTimeout = seconds 30,
       cf_IdleTimeout = seconds 60, cf_ShutdownTimeout = seconds 15, cf_HealthTimeout = seconds 2,
       cf_PostgresHost = str ''POSTGRES_HOST'' ''localhost'', cf_PostgresPort = num ''POSTGRES_PORT'' 5432,
       cf_PostgresUser = str ''POSTGRES_USER'' ''postgres'',
       cf_PostgresPassword = str ''POSTGRES_PASSWORD'' ''postgres'',
       cf_PostgresDatabaseName = str ''POSTGRES_DATABASE_NAME'' ''postgres'',
       cf_PostgresSSLMode = str ''POSTGRES_SSL_MODE'' ''disable'',
       cf_DBMaxOpenConns = num ''DB_MAX_OPEN_CONNS'' 25, cf_DBMaxIdleConns = num ''DB_MAX_IDLE_CONNS'' 25,
       cf_DBConnMaxLifetime = minutes 30, cf_DBConnMaxIdleTime = minutes 5,
       cf_DBSlowQueryThreshold = 200000000, cf_DBConnectTimeout = seconds 10,
       cf_SMTPHost = str ''SMTP_HOST'' [], cf_SMTPPort = num ''SMTP_PORT'' 587, cf_SMTPUser = str ''SMTP_USER'' [],
       cf_SMTPPassword = str ''SMTP_PASSWORD'' [], cf_SMTPFrom = str ''SMTP_FROM'' [],
       cf_TrustedProxies = when_read [] (parseTrustedProxies (env ''TRUSTED_PROXIES'')),
       cf_CORSAllowedOrigins = when_read [] (parseAllowedOrigins L (env ''CORS_ALLOWED_ORIGINS'')),
       cf_MailLogCodes = getEnvBool L env ''MAIL_LOG_CODES''\<rparr>)"

text \<open>The development defaults, filled in on loopback only.\<close>

definition development_defaults :: "Config \<Rightarrow> Config" where
  "development_defaults c =
     (let laptop = cf_Env c = EnvDevelopment \<and> BindsLoopback c;
          c = (if cf_AuthTokenSecret c = [] \<and> laptop then c\<lparr>cf_AuthTokenSecret := devAuthTokenSecret\<rparr> else c);
          c = (if cf_AuthResetSecret c = [] \<and> laptop then c\<lparr>cf_AuthResetSecret := devAuthResetSecret\<rparr> else c);
          c = (if cf_FilesEncryptionKey c = [] \<and> laptop
               then c\<lparr>cf_FilesEncryptionKey := devFilesEncryptionKey\<rparr> else c)
      in if cf_FilesStoragePath c = [] \<and> cf_Env c = EnvDevelopment
         then c\<lparr>cf_FilesStoragePath := ''var/files''\<rparr> else c)"

definition Load :: "ConfigLibs \<Rightarrow> environment \<Rightarrow> config_error list + Config" where
  "Load L env =
     (let c = development_defaults (read_settings L env); errs = read_errors L env @ validate L c
      in if errs = [] then Inr c else Inl errs)"

end
