(* ===== verification/Config_Properties.thy ===== *)
theory Config_Properties
  imports Config Auth_Token Files_Scanner Files_Memory
begin

text \<open>
  What a configuration that loads is worth: no well-known secret and no plaintext beyond the machine, parts that
  accept it when the process is put together, and a connection string that says what was configured.
\<close>

section \<open>What is left when nothing is wrong\<close>

lemma Load_ok:
  "Load L env = Inr c \<longleftrightarrow>
     read_errors L env = [] \<and> validate L c = [] \<and> c = development_defaults (read_settings L env)"
  by (auto simp: Load_def Let_def)

lemmas rules = validate_def validate_secrets_def validate_limits_def validate_files_def validate_ports_def
  validate_postgres_def Let_def

text \<open>Every part of a list that was read is the image of a part that was written.\<close>

lemma parse_parts_in:
  assumes "parse_parts f parts = Inr xs" "x \<in> set xs"
  shows "\<exists>part \<in> set parts. f part = Inr x"
  using assms by (induction parts arbitrary: xs) (auto split: if_splits sum.splits)

lemma parse_list_in:
  assumes "parse_list prep f v = Inr xs" "x \<in> set xs"
  shows "\<exists>part. f part = Inr x"
  using assms parse_parts_in[of f _ xs x] by (auto simp: parse_list_def split: if_splits)

lemma allowed_origin_ok:
  assumes "allowed_origin L part = Inr origin"
  shows "\<exists>scheme host. scheme \<in> {''http'', ''https''} \<and> host \<noteq> [] \<and>
     origin = scheme @ ''://'' @ to_lower (cl_lower L) host"
proof -
  have lower: "to_lower lu ''http'' = ''http''" "to_lower lu ''https'' = ''https''" for lu
    by (simp_all add: to_lower_def is_ascii_def ascii_lower_def byte_in_def)
  obtain u where u: "cl_urlParse L part = Some u" using assms by (auto simp: allowed_origin_def split: if_splits option.splits)
  then have "url_Host u \<noteq> []" "url_Scheme u = ''http'' \<or> url_Scheme u = ''https''"
      "origin = to_lower (cl_lower L) (url_Scheme u) @ ''://'' @ to_lower (cl_lower L) (url_Host u)"
    using assms by (auto simp: allowed_origin_def split: if_splits)
  then have "url_Host u \<noteq> [] \<and> (origin = ''http'' @ ''://'' @ to_lower (cl_lower L) (url_Host u) \<or>
      origin = ''https'' @ ''://'' @ to_lower (cl_lower L) (url_Host u))"
    by (auto simp only: lower)
  then show ?thesis by blast
qed

lemma development_defaults_sel:
  "cf_CORSAllowedOrigins (development_defaults c) = cf_CORSAllowedOrigins c"
  by (simp add: development_defaults_def Let_def)

lemma origins_read:
  assumes "Load L env = Inr c" "origin \<in> set (cf_CORSAllowedOrigins c)"
  shows "\<exists>part. allowed_origin L part = Inr origin"
proof -
  have "cf_CORSAllowedOrigins c = when_read [] (parseAllowedOrigins L (env ''CORS_ALLOWED_ORIGINS''))"
    using assms(1) by (simp add: Load_ok development_defaults_sel) (simp add: read_settings_def Let_def)
  then show ?thesis
    using assms(2) parse_list_in[of trim_space "allowed_origin L"]
    by (auto simp: parseAllowedOrigins_def when_read_def split: sum.splits)
qed

section \<open>Secrets and plaintext\<close>

text \<open>C32. What can be reached is protected. When a configuration loads, the three secrets have their
  length; in production, and on any address other machines reach, none of them is the well-known one of the
  source; in production the traffic is encrypted or stays on the machine, the database is reached over TLS with a
  password that is none of the usual ones and codes are mailed; and a page may read the answers only from a
  listed origin, lower-case and without a path, which in production is \<open>https\<close> or on the machine.\<close>

theorem loaded_config_protected:
  assumes "Load L env = Inr c"
  shows "32 \<le> length (cf_AuthTokenSecret c) \<and> 32 \<le> length (cf_AuthResetSecret c) \<and>
     length (cf_FilesEncryptionKey c) = 32 \<and>
     (IsProduction (cf_Env c) \<or> \<not> BindsLoopback c \<longrightarrow>
        cf_AuthTokenSecret c \<noteq> devAuthTokenSecret \<and> cf_AuthResetSecret c \<noteq> devAuthResetSecret \<and>
        cf_FilesEncryptionKey c \<noteq> devFilesEncryptionKey) \<and>
     (IsProduction (cf_Env c) \<longrightarrow>
        (BindsLoopback c \<or> TLSEnabled c) \<and> postgresSSLModeSecure (cf_PostgresSSLMode c) \<and>
        \<not> weakPostgresPassword (cf_PostgresPassword c) \<and> cf_SMTPHost c \<noteq> [] \<and> cf_SMTPFrom c \<noteq> []) \<and>
     (\<forall>origin \<in> set (cf_CORSAllowedOrigins c). \<exists>scheme host.
        scheme \<in> {''http'', ''https''} \<and> host \<noteq> [] \<and>
        origin = scheme @ ''://'' @ to_lower (cl_lower L) host \<and>
        (IsProduction (cf_Env c) \<longrightarrow> scheme = ''https'' \<or> originIsLoopback L origin))"
proof -
  have valid: "validate L c = []" using assms by (auto simp only: Load_ok)
  then have sizes: "32 \<le> length (cf_AuthTokenSecret c) \<and> 32 \<le> length (cf_AuthResetSecret c) \<and>
      length (cf_FilesEncryptionKey c) = 32"
    by (simp add: rules minAuthTokenSecretBytes_def)
  have origins: "\<exists>scheme host. scheme \<in> {''http'', ''https''} \<and> host \<noteq> [] \<and>
      origin = scheme @ ''://'' @ to_lower (cl_lower L) host \<and>
      (IsProduction (cf_Env c) \<longrightarrow> scheme = ''https'' \<or> originIsLoopback L origin)"
    if origin: "origin \<in> set (cf_CORSAllowedOrigins c)" for origin
  proof -
    obtain scheme host where sh: "scheme \<in> {''http'', ''https''}" "host \<noteq> []"
        "origin = scheme @ ''://'' @ to_lower (cl_lower L) host"
      using origins_read[OF assms origin] allowed_origin_ok by metis
    moreover have "IsProduction (cf_Env c) \<longrightarrow> \<not> has_prefix origin ''http://'' \<or> originIsLoopback L origin"
      using valid origin by (auto simp: rules)
    moreover have "has_prefix (''http'' @ ''://'' @ h) ''http://''" for h by (simp add: has_prefix_def)
    ultimately show ?thesis by blast
  qed
  show ?thesis
    using valid sizes origins by (simp add: rules) blast
qed

text \<open>A production environment: a public address with TLS, its own secrets, one page that may call.\<close>

definition demo_config_libs :: ConfigLibs where
  "demo_config_libs = \<lparr>cl_lower = id, cl_fraction = (\<lambda>f scale u. f * u div scale), cl_ParseFloat = (\<lambda>_. None),
     cl_urlParse = (\<lambda>s. if s = ''https://app.io''
       then Some \<lparr>url_Scheme = ''https'', url_Host = ''app.io'', url_Path = [], url_RawQuery = [],
         url_Fragment = [], url_HasUser = False\<rparr> else None)\<rparr>"

definition demo_variables :: "(string \<times> string) list" where
  "demo_variables =
     [(''ENV'', ''production''), (''API_HOST'', ''0.0.0.0''), (''TLS_CERT_FILE'', ''c''), (''TLS_KEY_FILE'', ''k''),
      (''AUTH_TOKEN_SECRET'', replicate 32 CHR ''t''), (''AUTH_RESET_SECRET'', replicate 32 CHR ''r''),
      (''FILES_ENCRYPTION_KEY'', replicate 32 CHR ''e''), (''FILES_STORAGE_PATH'', ''/data''),
      (''POSTGRES_SSL_MODE'', ''require''), (''POSTGRES_PASSWORD'', ''p@ss/word''),
      (''CORS_ALLOWED_ORIGINS'', ''https://app.io''), (''SMTP_HOST'', ''mail''), (''SMTP_FROM'', ''me@x.io'')]"

definition demo_environment :: environment where
  "demo_environment key = (case map_of demo_variables key of None \<Rightarrow> [] | Some v \<Rightarrow> v)"

lemma demo_loads_eval:
  "case Load demo_config_libs demo_environment of
     Inl _ \<Rightarrow> False
   | Inr c \<Rightarrow> IsProduction (cf_Env c) \<and> \<not> BindsLoopback c \<and> cf_CORSAllowedOrigins c = [''https://app.io'']"
  by code_simp

lemma demo_loads:
  obtains c where "Load demo_config_libs demo_environment = Inr c" "IsProduction (cf_Env c)" "\<not> BindsLoopback c"
    "cf_CORSAllowedOrigins c = [''https://app.io'']"
  using demo_loads_eval by (auto split: sum.splits)

lemma loaded_config_protected_witness:
  "\<exists>c. Load demo_config_libs demo_environment = Inr c \<and> cf_AuthTokenSecret c \<noteq> devAuthTokenSecret \<and> TLSEnabled c \<and>
     cf_CORSAllowedOrigins c = [''https://app.io'']"
proof -
  obtain c where c: "Load demo_config_libs demo_environment = Inr c" "IsProduction (cf_Env c)" "\<not> BindsLoopback c"
    "cf_CORSAllowedOrigins c = [''https://app.io'']" by (rule demo_loads)
  show ?thesis using loaded_config_protected[OF c(1)] c by blast
qed

section \<open>Putting the process together\<close>

text \<open>The part of \<open>run\<close> of \<open>cmd/api\<close> that hands the settings to the token signer and the file service.\<close>

definition main_signer :: "Config \<Rightarrow> auth_error + Signer" where
  "main_signer c = NewSigner (cf_AuthTokenSecret c) (cf_AuthTokenTTL c) (cf_AuthTokenIssuer c)"

definition main_files ::
    "FileLibs \<Rightarrow> Conn \<Rightarrow> Config \<Rightarrow> 'r FilesRepository \<Rightarrow> 'r AccountFiles \<Rightarrow> 'b Blobs \<Rightarrow> err + ('r, 'b) FileService" where
  "main_files libs conn c fileRepo accountFiles blobs =
     (let scanner = (if cf_FilesScanMode c \<noteq> ScanOff then NewClamAV conn else NopScanner) in
      NewFileService libs (Some fileRepo) (Some blobs) (Some accountFiles) (Some scanner)
        \<lparr>st_MaxBytes = cf_FilesMaxBytes c, st_AvatarMaxBytes = cf_FilesAvatarMaxBytes c,
         st_AllowedTypes = cf_FilesAllowedTypes c, st_RequireDeclaredMatch = cf_FilesRequireDeclaredMatch c,
         st_RequireExtensionMatch = cf_FilesRequireExtensionMatch c,
         st_BlockExecutables = cf_FilesBlockExecutables c, st_EncryptionKey = cf_FilesEncryptionKey c,
         st_ScanRequired = (cf_FilesScanMode c = ScanRequired)\<rparr>)"

text \<open>A media type that looks right has a slash, so it is not empty after normalization.\<close>

lemma space_not_ascii:
  "space2 a b \<Longrightarrow> \<not> is_ascii a \<and> \<not> is_ascii b" "space3 a b c \<Longrightarrow> \<not> is_ascii a \<and> \<not> is_ascii b \<and> \<not> is_ascii c"
  by (auto simp: is_ascii_def space2_def space3_def byte_in_def)

lemma trim_left_keeps: "\<not> ascii_space c \<Longrightarrow> is_ascii c \<Longrightarrow> c \<in> set s \<Longrightarrow> c \<in> set (trim_left s)"
  by (induction s rule: trim_left.induct) (auto dest: space_not_ascii)

lemma trim_left_rev_keeps: "\<not> ascii_space c \<Longrightarrow> is_ascii c \<Longrightarrow> c \<in> set s \<Longrightarrow> c \<in> set (trim_left_rev s)"
  by (induction s rule: trim_left_rev.induct) (auto dest: space_not_ascii)

lemma trim_space_keeps: "\<not> ascii_space c \<Longrightarrow> is_ascii c \<Longrightarrow> c \<in> set s \<Longrightarrow> c \<in> set (trim_space s)"
  by (simp add: trim_space_def trim_left_keeps trim_left_rev_keeps)

lemma slash_plain: "\<not> ascii_space CHR ''/''" "is_ascii CHR ''/''"
  by (simp_all add: ascii_space_def byte_in_def is_ascii_def)

lemma canonical_nonempty:
  assumes lower: "\<And>s. fx_lower libs s = [] \<Longrightarrow> s = []" and t: "\<not> mediaTypeLooksWrong t"
  shows "CanonicalMediaType libs t \<noteq> []"
proof -
  have slash: "CHR ''/'' \<in> set t" and semi: "CHR '';'' \<notin> set t"
    using t by (auto simp: mediaTypeLooksWrong_def first_index_def split: if_splits)
  have "CHR '';'' \<notin> set (trim_space t)"
  proof -
    have "set (trim_left s) \<subseteq> set s" for s using trim_left_suffix[of s] by (metis Un_upper2 set_append)
    moreover have "set (trim_left_rev s) \<subseteq> set s" for s by (induction s rule: trim_left_rev.induct) auto
    ultimately have "set (trim_space t) \<subseteq> set t" unfolding trim_space_def by (metis set_rev subset_trans)
    then show ?thesis using semi by blast
  qed
  then have "before_byte CHR '';'' (trim_space t) = trim_space t"
    by (auto simp: before_byte_def takeWhile_eq_all_conv)
  moreover have "CHR ''/'' \<in> set (trim_space (trim_space t))"
    using slash slash_plain by (simp add: trim_space_keeps)
  moreover from this have "trim_space (trim_space t) \<noteq> []" by auto
  ultimately have "NormalizeMediaType libs t \<noteq> []"
    using lower[of "trim_space (trim_space t)"] by (auto simp: NormalizeMediaType_def to_lower_def)
  moreover have "\<forall>(k, v) \<in> set mediaAliases. v \<noteq> []" by (simp add: mediaAliases_def)
  ultimately show ?thesis
    by (auto simp: CanonicalMediaType_def Let_def dest: map_of_SomeD split: option.splits)
qed

lemma indexTypes_ok:
  assumes "list_all (\<lambda>t. CanonicalMediaType libs t \<noteq> []) ts"
  shows "indexTypes libs ts = Inr (map (CanonicalMediaType libs) ts)"
  using assms by (induction ts) (simp_all add: Let_def)

text \<open>C33. A configuration that loads is one the process starts with. The token signer and the file service, whose own
  constructors refuse short secrets, empty issuers, unusable types and keys of the wrong size, accept every
  configuration that \<open>Load\<close> returns, and are given its settings: where scanning is required, uploads
  depend on a scanner that asks the daemon.\<close>

theorem loaded_config_assembles:
  assumes "Load L env = Inr c" and "\<And>s. fx_lower libs s = [] \<Longrightarrow> s = []"
  shows "\<exists>signer files. main_signer c = Inr signer \<and> sg_secret signer = cf_AuthTokenSecret c \<and>
     sg_ttl signer = cf_AuthTokenTTL c \<and> sg_issuer signer = cf_AuthTokenIssuer c \<and>
     main_files libs conn c fileRepo accountFiles blobs = Inr files \<and>
     st_EncryptionKey (sf_settings files) = cf_FilesEncryptionKey c \<and>
     st_MaxBytes (sf_settings files) = cf_FilesMaxBytes c \<and>
     (cf_FilesScanMode c = ScanRequired \<longrightarrow>
        st_ScanRequired (sf_settings files) \<and> sf_scanner files = NewClamAV conn)"
proof -
  have valid: "validate L c = []" using assms(1) by (auto simp only: Load_ok)
  then have parts: "main_signer c = Inr \<lparr>sg_secret = cf_AuthTokenSecret c, sg_ttl = cf_AuthTokenTTL c, sg_issuer = cf_AuthTokenIssuer c\<rparr>"
      "length (cf_FilesEncryptionKey c) = 32" "1024 \<le> cf_FilesMaxBytes c" "1024 \<le> cf_FilesAvatarMaxBytes c"
      "list_all (\<lambda>t. \<not> mediaTypeLooksWrong t) (cf_FilesAllowedTypes c)"
    by (auto simp: rules main_signer_def NewSigner_def minAuthTokenSecretBytes_def list_all_iff)
  have default: "list_all (\<lambda>t. CanonicalMediaType libs t \<noteq> []) DefaultAllowedTypes"
      "list_all (\<lambda>t. CanonicalMediaType libs t \<noteq> []) DefaultAvatarTypes"
    by (simp_all add: canonical_nonempty[OF assms(2)] DefaultAllowedTypes_def DefaultAvatarTypes_def
        mediaTypeLooksWrong_def first_index_def wordType_def excelType_def pptType_def)
  have own: "list_all (\<lambda>t. CanonicalMediaType libs t \<noteq> []) (cf_FilesAllowedTypes c)"
    using parts(5) canonical_nonempty[OF assms(2)] by (simp add: list_all_iff)
  have signer: "sg_secret \<lparr>sg_secret = cf_AuthTokenSecret c, sg_ttl = cf_AuthTokenTTL c, sg_issuer = cf_AuthTokenIssuer c\<rparr> =
      cf_AuthTokenSecret c" by simp
  have "\<exists>files. main_files libs conn c fileRepo accountFiles blobs = Inr files \<and>
     st_EncryptionKey (sf_settings files) = cf_FilesEncryptionKey c \<and>
     st_MaxBytes (sf_settings files) = cf_FilesMaxBytes c \<and>
     (cf_FilesScanMode c = ScanRequired \<longrightarrow>
        st_ScanRequired (sf_settings files) \<and> sf_scanner files = NewClamAV conn)"
  proof (cases "cf_FilesAllowedTypes c = []")
    case True
    then show ?thesis using parts(2-4)
      by (simp add: main_files_def NewFileService_def indexTypes_ok[OF default(1)] indexTypes_ok[OF default(2)]
          keySize_def ScanOff_def ScanRequired_def)
  next
    case False
    then show ?thesis using parts(2-4)
      by (simp add: main_files_def NewFileService_def indexTypes_ok[OF own] indexTypes_ok[OF default(2)]
          keySize_def ScanOff_def ScanRequired_def)
  qed
  then show ?thesis using parts(1) by auto
qed

definition demo_conf_file_libs :: FileLibs where
  "demo_conf_file_libs = \<lparr>fx_lower = id, fx_print = (\<lambda>_. True), fx_zip = (\<lambda>_. None)\<rparr>"

lemma loaded_config_assembles_witness:
  "\<exists>c signer. Load demo_config_libs demo_environment = Inr c \<and> main_signer c = Inr signer \<and>
     sg_secret signer = cf_AuthTokenSecret c"
proof -
  obtain c where c: "Load demo_config_libs demo_environment = Inr c" by (rule demo_loads)
  have lower: "fx_lower demo_conf_file_libs s = [] \<Longrightarrow> s = []" for s by (simp add: demo_conf_file_libs_def)
  show ?thesis using loaded_config_assembles[OF c, of demo_conf_file_libs] c lower by blast
qed

section \<open>The connection string\<close>

text \<open>
  How a client reads a connection string (RFC 3986): the authority ends at the first slash, question mark
  or hash, the host begins after its last \<open>@\<close>, the user name ends at the first colon, and percent signs
  stand for bytes.
\<close>

fun percent_decode :: "string \<Rightarrow> string" where
  "percent_decode (c # a # b # s) =
     (if c = CHR ''%'' then char_of (16 * hex_val a + hex_val b) # percent_decode s
      else c # percent_decode (a # b # s))"
| "percent_decode s = s"

definition read_credentials :: "string \<Rightarrow> (string \<times> string) option" where
  "read_credentials dsn =
     (let authority = takeWhile (\<lambda>c. c \<notin> set ''/?#'') (drop (length ''postgres://'') dsn) in
      case last_index CHR ''@'' authority of
        None \<Rightarrow> None
      | Some i \<Rightarrow>
          let userinfo = take i authority in
          Some (percent_decode (takeWhile (\<lambda>c. c \<noteq> CHR '':'') userinfo),
                percent_decode (tl (dropWhile (\<lambda>c. c \<noteq> CHR '':'') userinfo))))"

lemma last_index_append: "x \<notin> set ys \<Longrightarrow> last_index x (xs @ x # ys) = Some (length xs)"
proof -
  assume "x \<notin> set ys"
  then have "takeWhile (\<lambda>y. y \<noteq> x) (rev ys @ x # rev xs) = rev ys" by (auto simp: takeWhile_tail)
  then show ?thesis by (simp add: last_index_def)
qed

lemma url_tail:
  "host \<noteq> [] \<Longrightarrow> \<exists>r rest. r \<in> set ''/?#'' \<and>
     (if p \<noteq> [] \<and> hd p \<noteq> CHR ''/'' \<and> host \<noteq> [] then ''/'' else []) @ p @ ''?'' @ q = r # rest"
  by (cases p) auto

lemma upper_hex_facts:
  assumes "n < 16"
  shows "hex_val (upper_hex n) = n" "alphanumeric (upper_hex n)"
proof -
  have "list_all (\<lambda>n. hex_val (upper_hex n) = n \<and> alphanumeric (upper_hex n)) [0..<16]"
    by (simp add: upt_rec upper_hex_def hex_val_def is_digit_def byte_in_def alphanumeric_def)
  moreover have "n \<in> set [0..<16]" using assms by simp
  ultimately have "hex_val (upper_hex n) = n \<and> alphanumeric (upper_hex n)" by (simp only: list_all_iff)
  then show "hex_val (upper_hex n) = n" "alphanumeric (upper_hex n)" by simp_all
qed

lemma byte_halves: "of_char c div 16 < (16 :: nat)" "of_char c mod 16 < (16 :: nat)"
  using nat_of_char_less_256[of c] by (simp_all add: less_mult_imp_div_less)

text \<open>What escaped text is made of.\<close>

lemma url_escape_chars:
  assumes "x \<in> set (url_escape part s)" "part \<noteq> InQuery"
  shows "x = CHR ''%'' \<or> alphanumeric x \<or> \<not> should_escape part x"
  using assms byte_halves upper_hex_facts(2)
  by (auto simp: url_escape_def escape_char_def split: if_splits)

lemma percent_decode_plain: "c \<noteq> CHR ''%'' \<Longrightarrow> percent_decode (c # s) = c # percent_decode s"
  by (cases "c # s" rule: percent_decode.cases) auto

lemma percent_decode_escape: "percent_decode (url_escape InUser s) = s"
proof (induction s)
  case (Cons c s)
  show ?case
  proof (cases "should_escape InUser c")
    case True
    have "16 * (of_char c div 16) + of_char c mod 16 = (of_char c :: nat)" by simp
    then show ?thesis using True Cons byte_halves[of c]
      by (simp add: url_escape_def escape_char_def upper_hex_facts)
  next
    case False
    then have "c \<noteq> CHR ''%''" by (auto simp: should_escape_def alphanumeric_def byte_in_def)
    then show ?thesis using False Cons
      by (simp add: url_escape_def escape_char_def percent_decode_plain)
  qed
qed (simp add: url_escape_def)

lemma escaped_apart:
  "x \<in> set (url_escape InUser s) \<Longrightarrow> x \<notin> set ''@/?#:''"
  "x \<in> set (url_escape InHost s) \<Longrightarrow> x \<notin> set ''@/?#''"
  using url_escape_chars[of x InUser s] url_escape_chars[of x InHost s]
  by (auto simp: should_escape_def alphanumeric_def byte_in_def)

text \<open>C34. The connection string keeps the credentials. Whatever bytes the user name and the password are made of,
  a client that reads the string finds exactly them: no \<open>@\<close>, slash or colon in a password moves the host or
  ends the user name.\<close>

theorem dsn_round_trip:
  "read_credentials (DSN c) = Some (cf_PostgresUser c, cf_PostgresPassword c)"
proof -
  let ?U = "url_escape InUser (cf_PostgresUser c)" and ?P = "url_escape InUser (cf_PostgresPassword c)"
  let ?host = "JoinHostPort (cf_PostgresHost c) (show_int (cf_PostgresPort c))"
  let ?H = "url_escape InHost ?host"
  have host: "?host \<noteq> []" by (simp add: JoinHostPort_def)
  define p where "p = (if cf_PostgresDatabaseName c = ''*'' then cf_PostgresDatabaseName c
    else url_escape InPath (cf_PostgresDatabaseName c))"
  define q where "q = url_escape InQuery ''sslmode'' @ ''='' @ url_escape InQuery (cf_PostgresSSLMode c)"
  obtain r rest where r: "r \<in> set ''/?#''"
      and tail: "(if p \<noteq> [] \<and> hd p \<noteq> CHR ''/'' \<and> ?host \<noteq> [] then ''/'' else []) @ p @ ''?'' @ q = r # rest"
    using url_tail[OF host] by blast
  have "DSN c = ''postgres'' @ ''://'' @ ?U @ '':'' @ ?P @ ''@'' @ ?H @
      (if p \<noteq> [] \<and> hd p \<noteq> CHR ''/'' \<and> ?host \<noteq> [] then ''/'' else []) @ p @ ''?'' @ q"
    by (simp only: DSN_def url_string_def Let_def p_def q_def append_assoc)
  then have dsn: "DSN c = ''postgres://'' @ (?U @ '':'' @ ?P @ ''@'' @ ?H) @ r # rest"
    unfolding tail by simp
  have clean: "\<forall>x \<in> set (?U @ '':'' @ ?P @ ''@'' @ ?H). x \<notin> set ''/?#''"
    using escaped_apart(1)[of _ "cf_PostgresUser c"] escaped_apart(1)[of _ "cf_PostgresPassword c"] escaped_apart(2)[of _ ?host]
    by auto
  have authority: "takeWhile (\<lambda>x. x \<notin> set ''/?#'') (drop (length ''postgres://'') (DSN c)) = ?U @ '':'' @ ?P @ ''@'' @ ?H"
    unfolding dsn using clean r by (simp add: takeWhile_append2)
  have "last_index CHR ''@'' ((?U @ '':'' @ ?P) @ CHR ''@'' # ?H) = Some (length (?U @ '':'' @ ?P))"
    using escaped_apart(2)[of "CHR ''@''" ?host] by (intro last_index_append) auto
  moreover have "takeWhile (\<lambda>x. x \<noteq> CHR '':'') (?U @ CHR '':'' # ?P) = ?U" "dropWhile (\<lambda>x. x \<noteq> CHR '':'') (?U @ CHR '':'' # ?P) = CHR '':'' # ?P"
    using escaped_apart(1)[of "CHR '':''" "cf_PostgresUser c"] by (auto simp: takeWhile_tail dropWhile_append3)
  ultimately show ?thesis
    unfolding read_credentials_def authority Let_def by (simp add: percent_decode_escape)
qed

end
