(* ===== verification/Seed.thy ===== *)
theory Seed
  imports Config User_Service Orgs_Service
begin

text \<open>
  The development seeder's ways out, \<open>internal/seed/guard.go\<close> and \<open>reset.go\<close>: when it refuses to run, and how
  it removes what it made. Both loops of \<open>Reset\<close> run until a condition holds, so they are partial
  functions into an option: \<open>None\<close> is a loop that does not end.
\<close>

section \<open>The world\<close>

definition SeedDomain :: string where "SeedDomain = ''seed.test''"
definition SlugPrefix :: string where "SlugPrefix = ''seed-''"

definition seed_suffix :: string where "seed_suffix = ''@'' @ SeedDomain"

text \<open>What \<open>Guard\<close> and \<open>Reset\<close> use of the world the seeder works in.\<close>

record 's World =
  wd_Orgs :: "'s OrgsService"
  wd_Prov :: "'s Provisioner"
  wd_UserRepo :: "'s UserRepository"

section \<open>Refusing to run\<close>

datatype seed_error = ErrProduction | ErrNotConfirmed | ErrForeignData string | SeedFailed err

definition foreignScanLimit :: int where "foreignScanLimit = 500"

text \<open>The scan of \<open>foreignAccount\<close>: the fuel is the pages within the limit.\<close>

fun foreign_scan :: "'s UserRepository \<Rightarrow> nat \<Rightarrow> int \<Rightarrow> 's \<Rightarrow> err + string" where
  "foreign_scan R 0 offset s = Inr []"
| "foreign_scan R (Suc pages) offset s =
     (if \<not> offset < foreignScanLimit then Inr []
      else (case ur_All R MaxUserPage offset s of
          Inl e \<Rightarrow> Inl e
        | Inr rows \<Rightarrow>
            (case List.find (\<lambda>u. \<not> has_suffix (u_Email u) seed_suffix) rows of
               Some u \<Rightarrow> Inr (u_Email u)
             | None \<Rightarrow>
                 if int (length rows) < MaxUserPage then Inr []
                 else foreign_scan R pages (offset + MaxUserPage) s)))"

text \<open>More fuel changes nothing: five pages reach the limit.\<close>

lemma foreign_scan_fuel:
  "foreignScanLimit \<le> offset + MaxUserPage * int pages \<Longrightarrow>
   foreign_scan R (pages + extra) offset s = foreign_scan R pages offset s"
proof (induction pages arbitrary: offset)
  case 0
  then show ?case by (cases extra) simp_all
next
  case (Suc pages)
  then have "foreign_scan R (pages + extra) (offset + MaxUserPage) s = foreign_scan R pages (offset + MaxUserPage) s"
    by (simp add: algebra_simps)
  then show ?case by (simp split: sum.split option.split)
qed

definition foreignAccount :: "'s UserRepository \<Rightarrow> 's \<Rightarrow> err + string" where
  "foreignAccount R s = foreign_scan R 5 0 s"

definition Guard :: "Config \<Rightarrow> 's UserRepository \<Rightarrow> bool \<Rightarrow> bool \<Rightarrow> 's \<Rightarrow> seed_error + unit" where
  "Guard cfg users confirmed force s =
     (if IsProduction (cf_Env cfg) then Inl ErrProduction
      else if \<not> confirmed then Inl ErrNotConfirmed
      else if force then Inr ()
      else (case foreignAccount users s of
          Inl e \<Rightarrow> Inl (SeedFailed e)
        | Inr foreign \<Rightarrow> if foreign \<noteq> [] then Inl (ErrForeignData foreign) else Inr ()))"

section \<open>Removing the seed data\<close>

text \<open>
  One page of a loop: what does not carry the mark is skipped, a refusal ends the page. The counters are what was
  found on the page and what was deleted so far; the \<open>k\<close>-th deletion is the call \<open>calls k\<close>.
\<close>

fun delete_marked ::
    "('a \<Rightarrow> bool) \<Rightarrow> (nat \<Rightarrow> 'a \<Rightarrow> ('s, err, unit) prog) \<Rightarrow> 'a list \<Rightarrow> nat \<Rightarrow> nat \<Rightarrow> ('s, err, nat \<times> nat) prog" where
  "delete_marked mark del [] found deleted = ok (found, deleted)"
| "delete_marked mark del (x # rows) found deleted =
     (if \<not> mark x then delete_marked mark del rows found deleted
      else bindp (del deleted x) (\<lambda>_. delete_marked mark del rows (Suc found) (Suc deleted)))"

definition seed_account :: "User \<Rightarrow> bool" where
  "seed_account u \<longleftrightarrow> has_suffix (u_Email u) seed_suffix"

definition seed_organization :: "Organization \<Rightarrow> bool" where
  "seed_organization org \<longleftrightarrow> has_prefix (org_Slug org) SlugPrefix"

definition delete_accounts ::
    "'s World \<Rightarrow> (nat \<Rightarrow> Call) \<Rightarrow> User list \<Rightarrow> nat \<Rightarrow> nat \<Rightarrow> ('s, err, nat \<times> nat) prog" where
  "delete_accounts W calls = delete_marked seed_account (\<lambda>k u. ur_Delete (wd_UserRepo W) (calls k) (u_ID u))"

definition delete_organizations ::
    "'s World \<Rightarrow> (nat \<Rightarrow> Call) \<Rightarrow> Organization list \<Rightarrow> nat \<Rightarrow> nat \<Rightarrow> ('s, err, nat \<times> nat) prog" where
  "delete_organizations W calls =
     delete_marked seed_organization (\<lambda>k org. DeleteOrganizationByID (wd_Orgs W) (calls k) (org_ID org))"

partial_function (option) reset_accounts ::
    "'s World \<Rightarrow> (nat \<Rightarrow> Call) \<Rightarrow> nat \<Rightarrow> 's \<Rightarrow> ((err + nat) \<times> 's) option" where
  [code]: "reset_accounts W calls deleted s =
     (case bindp (query (ur_All (wd_UserRepo W) 100 0)) (\<lambda>rows. delete_accounts W calls rows 0 deleted) s of
        (Inl e, s') \<Rightarrow> Some (Inl e, s')
      | (Inr (found, deleted), s') \<Rightarrow>
          if found = 0 then Some (Inr deleted, s') else reset_accounts W calls deleted s')"

partial_function (option) reset_organizations ::
    "'s World \<Rightarrow> (nat \<Rightarrow> Call) \<Rightarrow> int \<Rightarrow> nat \<Rightarrow> 's \<Rightarrow> ((err + nat) \<times> 's) option" where
  [code]: "reset_organizations W calls offset deleted s =
     (case op_AllOrganizations (wd_Prov W) \<lparr>of_WithoutOwner = False\<rparr> MaxOrganizationPage offset s of
        Inl e \<Rightarrow> Some (Inl e, s)
      | Inr rows \<Rightarrow>
          if rows = [] then Some (Inr deleted, s)
          else (case delete_organizations W calls (map os_Organization rows) 0 deleted s of
              (Inl e, s') \<Rightarrow> Some (Inl e, s')
            | (Inr (removed, deleted), s') \<Rightarrow>
                reset_organizations W calls (if removed = 0 then offset + int (length rows) else offset) deleted s'))"

text \<open>Accounts first, then organizations; the result is how many of each.\<close>

definition Reset ::
    "'s World \<Rightarrow> (nat \<Rightarrow> Call) \<Rightarrow> (nat \<Rightarrow> Call) \<Rightarrow> 's \<Rightarrow> ((err + nat \<times> nat) \<times> 's) option" where
  "Reset W accountCalls orgCalls s =
     (case reset_accounts W accountCalls 0 s of
        None \<Rightarrow> None
      | Some (Inl e, s') \<Rightarrow> Some (Inl e, s')
      | Some (Inr accounts, s') \<Rightarrow>
          (case reset_organizations W orgCalls 0 0 s' of
             None \<Rightarrow> None
           | Some (Inl e, s'') \<Rightarrow> Some (Inl e, s'')
           | Some (Inr organizations, s'') \<Rightarrow> Some (Inr (accounts, organizations), s'')))"

section \<open>The loops end\<close>

text \<open>
  A page of deletions over a store that has a view of the live rows: the marked ones on the page are gone, everything
  else stays.
\<close>

lemma delete_marked_ok:
  assumes step: "\<And>k x s s'. good s \<Longrightarrow> x \<in> set (view s) \<Longrightarrow> del k x s = (Inr (), s') \<Longrightarrow>
      good s' \<and> view s' = filter (\<lambda>y. key y \<noteq> key x) (view s) \<and> other s' = other s"
    and dist: "\<And>s. good s \<Longrightarrow> distinct (map key (view s))"
    and here: "good s" "distinct (map key rows)" "set rows \<subseteq> set (view s)"
    and went: "delete_marked mark del rows found deleted s = (Inr (found', deleted'), s')"
  shows "good s' \<and> other s' = other s \<and>
     view s' = filter (\<lambda>x. \<not> (mark x \<and> key x \<in> key ` set rows)) (view s) \<and>
     found' = found + length (filter mark rows)"
  using here went
proof (induction rows arbitrary: s found deleted)
  case Nil
  then show ?case by (simp add: ok_def)
next
  case (Cons u rows)
  have same: "v = u" if "v \<in> set (view s)" "key v = key u" for v
    using dist[OF Cons.prems(1)] that Cons.prems(3) by (auto simp: distinct_map inj_on_def)
  show ?case
  proof (cases "mark u")
    case False
    have "good s' \<and> other s' = other s \<and>
        view s' = filter (\<lambda>v. \<not> (mark v \<and> key v \<in> key ` set rows)) (view s) \<and>
        found' = found + length (filter mark rows)"
      using Cons.IH[of s found deleted] Cons.prems False by simp
    moreover have "filter (\<lambda>v. \<not> (mark v \<and> key v \<in> key ` set rows)) (view s) =
        filter (\<lambda>v. \<not> (mark v \<and> key v \<in> key ` set (u # rows))) (view s)"
      using same False by (intro filter_cong) auto
    ultimately show ?thesis using False by simp
  next
    case True
    obtain s1 where del: "del deleted u s = (Inr (), s1)"
        and rest: "delete_marked mark del rows (Suc found) (Suc deleted) s1 = (Inr (found', deleted'), s')"
      using Cons.prems(4) True by (auto simp: bindp_Inr)
    have s1: "good s1" "view s1 = filter (\<lambda>v. key v \<noteq> key u) (view s)" "other s1 = other s"
      using step[OF Cons.prems(1) _ del] Cons.prems(3) by auto
    have "key v \<noteq> key u" if "v \<in> set rows" for v
      using Cons.prems(2) that by (metis distinct.simps(2) image_eqI list.set_map list.simps(9))
    then have "set rows \<subseteq> set (view s1)" using Cons.prems(3) by (auto simp: s1(2))
    from Cons.IH[OF s1(1) _ this rest] Cons.prems(2) have ih: "good s' \<and> other s' = other s1 \<and>
        view s' = filter (\<lambda>v. \<not> (mark v \<and> key v \<in> key ` set rows)) (view s1) \<and>
        found' = Suc found + length (filter mark rows)" by simp
    have "filter (\<lambda>v. \<not> (mark v \<and> key v \<in> key ` set rows)) (view s1) =
        filter (\<lambda>v. \<not> (mark v \<and> key v \<in> key ` set (u # rows))) (view s)"
      unfolding s1(2) filter_filter using same True by (intro filter_cong) auto
    with ih s1(3) True show ?thesis by simp
  qed
qed

text \<open>
  What the loops rely on: a view of the live accounts and organizations in the order the listings have them, listings that are pages
  of the view, and deletions that, when they succeed, take exactly the named row out of it.
\<close>

locale resettable =
  fixes W :: "'s World" and accounts :: "'s \<Rightarrow> User list" and organizations :: "'s \<Rightarrow> Organization list"
    and good :: "'s \<Rightarrow> bool"
  assumes distinct_accounts: "good s \<Longrightarrow> distinct (map u_ID (accounts s))"
    and distinct_organizations: "good s \<Longrightarrow> distinct (map org_ID (organizations s))"
    and accounts_page: "good s \<Longrightarrow> ur_All (wd_UserRepo W) 100 0 s = Inr (take 100 (accounts s))"
    and account_deleted: "good s \<Longrightarrow> u \<in> set (accounts s) \<Longrightarrow>
      ur_Delete (wd_UserRepo W) c (u_ID u) s = (Inr (), s') \<Longrightarrow>
      good s' \<and> accounts s' = filter (\<lambda>v. u_ID v \<noteq> u_ID u) (accounts s) \<and> organizations s' = organizations s"
    and organizations_page: "good s \<Longrightarrow> 0 \<le> offset \<Longrightarrow>
      \<exists>rows. op_AllOrganizations (wd_Prov W) \<lparr>of_WithoutOwner = False\<rparr> MaxOrganizationPage offset s = Inr rows \<and>
        map os_Organization rows = take 100 (drop (nat offset) (organizations s))"
    and organization_deleted: "good s \<Longrightarrow> org \<in> set (organizations s) \<Longrightarrow>
      DeleteOrganizationByID (wd_Orgs W) c (org_ID org) s = (Inr (), s') \<Longrightarrow>
      good s' \<and> organizations s' = filter (\<lambda>x. org_ID x \<noteq> org_ID org) (organizations s) \<and> accounts s' = accounts s"
begin

lemma accounts_step:
  assumes "good s" "delete_accounts W calls (take 100 (accounts s)) 0 deleted s = (Inr (found, deleted'), s')"
  shows "good s' \<and> organizations s' = organizations s \<and>
     accounts s' = filter (\<lambda>u. \<not> (seed_account u \<and> u_ID u \<in> u_ID ` set (take 100 (accounts s)))) (accounts s) \<and>
     found = length (filter seed_account (take 100 (accounts s)))"
proof -
  have dist: "distinct (map u_ID (take 100 (accounts s)))"
    using distinct_accounts[OF assms(1)] by (metis distinct_take take_map)
  have step: "good s' \<and> accounts s' = filter (\<lambda>v. u_ID v \<noteq> u_ID u) (accounts s) \<and> organizations s' = organizations s"
    if "good s" "u \<in> set (accounts s)" "ur_Delete (wd_UserRepo W) (calls k) (u_ID u) s = (Inr (), s')" for k u s s'
    using that by (rule account_deleted)
  show ?thesis
    using delete_marked_ok[where good = good and view = accounts and key = u_ID and other = organizations
        and del = "\<lambda>k u. ur_Delete (wd_UserRepo W) (calls k) (u_ID u)",
        OF step distinct_accounts assms(1) dist set_take_subset assms(2)[unfolded delete_accounts_def]]
    by simp
qed

lemma organizations_step:
  assumes "good s" "delete_organizations W calls (take 100 (drop n (organizations s))) 0 deleted s = (Inr (removed, deleted'), s')"
  shows "good s' \<and> accounts s' = accounts s \<and>
     organizations s' = filter (\<lambda>x. \<not> (seed_organization x \<and>
       org_ID x \<in> org_ID ` set (take 100 (drop n (organizations s))))) (organizations s) \<and>
     removed = length (filter seed_organization (take 100 (drop n (organizations s))))"
proof -
  have dist: "distinct (map org_ID (take 100 (drop n (organizations s))))"
    using distinct_organizations[OF assms(1)] by (metis distinct_drop distinct_take drop_map take_map)
  have step: "good s' \<and> organizations s' = filter (\<lambda>x. org_ID x \<noteq> org_ID org) (organizations s) \<and> accounts s' = accounts s"
    if "good s" "org \<in> set (organizations s)" "DeleteOrganizationByID (wd_Orgs W) (calls k) (org_ID org) s = (Inr (), s')"
    for k org s s'
    using that by (rule organization_deleted)
  have "set (take 100 (drop n (organizations s))) \<subseteq> set (organizations s)"
    by (meson order_trans set_drop_subset set_take_subset)
  from delete_marked_ok[where good = good and view = organizations and key = org_ID and other = accounts
      and del = "\<lambda>k org. DeleteOrganizationByID (wd_Orgs W) (calls k) (org_ID org)",
      OF step distinct_organizations assms(1) dist this assms(2)[unfolded delete_organizations_def]]
  show ?thesis by simp
qed

text \<open>Every page with a seed account on it takes one out of the listing, so the first loop ends.\<close>

lemma reset_accounts_ends:
  assumes "good s"
  shows "\<exists>r s'. reset_accounts W calls deleted s = Some (r, s') \<and>
     (\<not> isl r \<longrightarrow> good s' \<and> organizations s' = organizations s \<and>
        filter (\<lambda>u. \<not> seed_account u) (accounts s') = filter (\<lambda>u. \<not> seed_account u) (accounts s) \<and>
        set (accounts s') \<subseteq> set (accounts s) \<and>
        (\<forall>u \<in> set (take 100 (accounts s')). \<not> seed_account u))"
  using assms
proof (induction "length (accounts s)" arbitrary: s deleted rule: less_induct)
  case less
  let ?rows = "take 100 (accounts s)"
  have page: "bindp (query (ur_All (wd_UserRepo W) 100 0)) (\<lambda>rows. delete_accounts W calls rows 0 deleted) s =
      delete_accounts W calls ?rows 0 deleted s"
    using accounts_page[OF less.prems] by (simp add: bindp_def query_def)
  obtain r1 s1 where run: "delete_accounts W calls ?rows 0 deleted s = (r1, s1)" by force
  show ?case
  proof (cases r1)
    case (Inl e)
    then show ?thesis using page run by (subst reset_accounts.simps) simp
  next
    case (Inr counts)
    obtain found deleted' where counts: "counts = (found, deleted')" by force
    note step = accounts_step[OF less.prems run[unfolded Inr counts]]
    show ?thesis
    proof (cases "found = 0")
      case True
      then have none: "\<forall>u \<in> set ?rows. \<not> seed_account u"
        using step by (metis filter_empty_conv length_0_conv)
      then have same: "accounts s1 = accounts s"
      proof -
        have "v \<in> set ?rows \<or> u_ID v \<notin> u_ID ` set ?rows" if "v \<in> set (accounts s)" for v
          using distinct_accounts[OF less.prems] that set_take_subset[of 100 "accounts s"]
          by (auto simp: distinct_map inj_on_def)
        then show ?thesis using step none by (auto simp: filter_id_conv)
      qed
      have "reset_accounts W calls deleted s = Some (Inr deleted', s1)"
        using page run Inr counts True by (subst reset_accounts.simps) simp
      then show ?thesis using step same none by auto
    next
      case False
      then obtain u where u: "u \<in> set ?rows" "seed_account u"
        using step by (metis filter_False length_0_conv)
      then have inside: "u \<in> set (accounts s)" by (meson in_set_takeD)
      have "length (accounts s1) < length (accounts s)"
        using step u inside by (metis (mono_tags, lifting) imageI length_filter_less)
      from less.hyps[OF this] step obtain r s' where rest: "reset_accounts W calls deleted' s1 = Some (r, s')"
        and after: "\<not> isl r \<longrightarrow> good s' \<and> organizations s' = organizations s1 \<and>
        filter (\<lambda>u. \<not> seed_account u) (accounts s') = filter (\<lambda>u. \<not> seed_account u) (accounts s1) \<and>
        set (accounts s') \<subseteq> set (accounts s1) \<and>
        (\<forall>u \<in> set (take 100 (accounts s')). \<not> seed_account u)" by blast
      have "reset_accounts W calls deleted s = Some (r, s')"
        using page run Inr counts False rest by (subst reset_accounts.simps) simp
      moreover have "filter (\<lambda>u. \<not> seed_account u) (accounts s1) = filter (\<lambda>u. \<not> seed_account u) (accounts s)"
        using step by (auto intro: filter_cong)
      moreover have "set (accounts s1) \<subseteq> set (accounts s)" using step by auto
      ultimately show ?thesis using after step by auto
    qed
  qed
qed

text \<open>
  The second loop steps over a page only when it holds no seed organization, so what lies before the offset never
  holds one, and each turn removes a row or moves the offset on.
\<close>

lemma reset_organizations_ends:
  assumes "good s" "\<forall>x \<in> set (take n (organizations s)). \<not> seed_organization x"
  shows "\<exists>r s'. reset_organizations W calls (int n) deleted s = Some (r, s') \<and>
     (\<not> isl r \<longrightarrow> good s' \<and> accounts s' = accounts s \<and>
        organizations s' = filter (\<lambda>x. \<not> seed_organization x) (organizations s))"
  using assms
proof (induction "length (organizations s) - n" arbitrary: s n deleted rule: less_induct)
  case less
  let ?rows = "take 100 (drop n (organizations s))"
  obtain summaries where page: "op_AllOrganizations (wd_Prov W) \<lparr>of_WithoutOwner = False\<rparr> MaxOrganizationPage (int n) s = Inr summaries"
    and rows: "map os_Organization summaries = ?rows"
    using organizations_page[OF less.prems(1), of "int n"] by auto
  show ?case
  proof (cases "n < length (organizations s)")
    case False
    then have "filter (\<lambda>x. \<not> seed_organization x) (organizations s) = organizations s"
      using less.prems(2) by (simp add: filter_id_conv)
    moreover have "summaries = []" using rows False by simp
    ultimately show ?thesis using page less.prems(1) by (subst reset_organizations.simps) simp
  next
    case True
    then have nonempty: "summaries \<noteq> []" using rows by auto
    have len: "length summaries = length ?rows" using rows by (metis length_map)
    obtain r1 s1 where run: "delete_organizations W calls ?rows 0 deleted s = (r1, s1)" by force
    show ?thesis
    proof (cases r1)
      case (Inl e)
      then show ?thesis using page run nonempty rows by (subst reset_organizations.simps) simp
    next
      case (Inr counts)
      obtain removed deleted' where counts: "counts = (removed, deleted')" by force
      note step = organizations_step[OF less.prems(1) run[unfolded Inr counts]]
      let ?next = "if removed = 0 then n + length summaries else n"
      have turn: "reset_organizations W calls (int n) deleted s = reset_organizations W calls (int ?next) deleted' s1"
        using page run nonempty rows Inr counts by (subst reset_organizations.simps) simp
      have split: "take n (organizations s) @ ?rows @ drop 100 (drop n (organizations s)) = organizations s"
        by (metis append_take_drop_id)
      have keys: "x = y" if "x \<in> set (organizations s)" "y \<in> set (organizations s)" "org_ID x = org_ID y" for x y
        using distinct_organizations[OF less.prems(1)] that by (auto simp: distinct_map inj_on_def)
      have seeds: "filter (\<lambda>x. \<not> seed_organization x) (organizations s1) = filter (\<lambda>x. \<not> seed_organization x) (organizations s)"
        using step by (auto intro: filter_cong)
      have "length (organizations s1) - ?next < length (organizations s) - n \<and>
          (\<forall>x \<in> set (take ?next (organizations s1)). \<not> seed_organization x)"
      proof (cases "removed = 0")
        case none: True
        then have clear: "\<forall>x \<in> set ?rows. \<not> seed_organization x"
          using step by (metis filter_empty_conv length_0_conv)
        have "organizations s1 = organizations s"
          using step clear keys in_set_takeD in_set_dropD by (smt (verit) filter_True imageE)
        moreover have "take (n + length summaries) (organizations s) = take n (organizations s) @ ?rows"
          unfolding len by (simp add: take_add) (simp add: min_def)
        moreover have "length (organizations s) - (n + length summaries) < length (organizations s) - n"
          using nonempty True by (simp add: diff_less_mono2)
        ultimately show ?thesis using none clear less.prems(2) by auto
      next
        case some: False
        then obtain x where x: "x \<in> set ?rows" "seed_organization x"
          using step by (metis filter_False length_0_conv)
        then have "x \<in> set (organizations s)" by (meson in_set_dropD in_set_takeD)
        then have "length (organizations s1) < length (organizations s)"
          using step x by (metis (mono_tags, lifting) imageI length_filter_less)
        moreover have "take n (organizations s1) = take n (organizations s)"
        proof -
          have "organizations s1 = filter (\<lambda>x. \<not> (seed_organization x \<and> org_ID x \<in> org_ID ` set ?rows))
              (take n (organizations s) @ drop n (organizations s))" using step by simp
          moreover have "filter (\<lambda>x. \<not> (seed_organization x \<and> org_ID x \<in> org_ID ` set ?rows)) (take n (organizations s)) =
              take n (organizations s)" using less.prems(2) by (simp add: filter_id_conv)
          ultimately show ?thesis using True by (simp only: filter_append) simp
        qed
        ultimately show ?thesis using some less.prems(2) True by auto
      qed
      then obtain r s' where "reset_organizations W calls (int ?next) deleted' s1 = Some (r, s')"
        "\<not> isl r \<longrightarrow> good s' \<and> accounts s' = accounts s1 \<and>
          organizations s' = filter (\<lambda>x. \<not> seed_organization x) (organizations s1)"
        using less.hyps[of s1 ?next deleted'] step by blast
      then show ?thesis unfolding turn using step seeds by simp
    qed
  qed
qed

text \<open>Both loops end, whatever the calls answer; when none is refused, no seed organization is left.\<close>

lemma Reset_ends:
  assumes "good s"
  shows "\<exists>r s'. Reset W accountCalls orgCalls s = Some (r, s') \<and>
     (\<not> isl r \<longrightarrow> good s' \<and>
        organizations s' = filter (\<lambda>x. \<not> seed_organization x) (organizations s) \<and>
        filter (\<lambda>u. \<not> seed_account u) (accounts s') = filter (\<lambda>u. \<not> seed_account u) (accounts s) \<and>
        set (accounts s') \<subseteq> set (accounts s) \<and>
        (\<forall>u \<in> set (take 100 (accounts s')). \<not> seed_account u))"
proof -
  obtain r1 s1 where first: "reset_accounts W accountCalls 0 s = Some (r1, s1)"
    and after: "\<not> isl r1 \<longrightarrow> good s1 \<and> organizations s1 = organizations s \<and>
        filter (\<lambda>u. \<not> seed_account u) (accounts s1) = filter (\<lambda>u. \<not> seed_account u) (accounts s) \<and>
        set (accounts s1) \<subseteq> set (accounts s) \<and>
        (\<forall>u \<in> set (take 100 (accounts s1)). \<not> seed_account u)"
    using reset_accounts_ends[OF assms] by blast
  show ?thesis
  proof (cases r1)
    case (Inl e)
    then show ?thesis using first by (simp add: Reset_def)
  next
    case (Inr accounts_gone)
    then have "good s1" using after by simp
    from reset_organizations_ends[OF this, of 0 orgCalls 0] obtain r s' where
      "reset_organizations W orgCalls 0 0 s1 = Some (r, s')"
      "\<not> isl r \<longrightarrow> good s' \<and> accounts s' = accounts s1 \<and>
        organizations s' = filter (\<lambda>x. \<not> seed_organization x) (organizations s1)" by auto
    then show ?thesis using first after Inr by (cases r) (auto simp: Reset_def)
  qed
qed

end

section \<open>What the loops leave alone\<close>

text \<open>
  Whatever every deletion of a listed row with the mark keeps is kept by \<open>Reset\<close>, refused or not. \<open>account\<close> and
  \<open>organization\<close> are what the rows of a listing are known to be.
\<close>

lemma delete_marked_keeps:
  assumes "\<And>k x s. x \<in> set rows \<Longrightarrow> mark x \<Longrightarrow> kept s \<Longrightarrow> kept (snd (del k x s))" "kept s"
  shows "kept (snd (delete_marked mark del rows found deleted s))"
  using assms
proof (induction rows arbitrary: found deleted s)
  case (Cons x rows)
  have rest: "kept (snd (delete_marked mark del rows found' deleted' s'))" if "kept s'" for found' deleted' s'
    using Cons.IH[OF _ that] Cons.prems(1) by simp
  show ?case
  proof (cases "mark x")
    case True
    then have "kept (snd (del deleted x s))" using Cons.prems by simp
    then show ?thesis
      using rest True by (cases "del deleted x s"; cases "fst (del deleted x s)") (auto simp: bindp_def)
  qed (use rest Cons.prems(2) in simp)
qed (simp add: ok_def)

locale reset_frame =
  fixes W :: "'s World" and kept :: "'s \<Rightarrow> bool" and account :: "User \<Rightarrow> bool" and organization :: "Organization \<Rightarrow> bool"
  assumes accounts_listed: "kept s \<Longrightarrow> ur_All (wd_UserRepo W) 100 0 s = Inr us \<Longrightarrow> u \<in> set us \<Longrightarrow> account u"
    and account_kept: "kept s \<Longrightarrow> account u \<Longrightarrow> seed_account u \<Longrightarrow> kept (snd (ur_Delete (wd_UserRepo W) c (u_ID u) s))"
    and organizations_listed: "kept s \<Longrightarrow> op_AllOrganizations (wd_Prov W) \<lparr>of_WithoutOwner = False\<rparr> MaxOrganizationPage offset s = Inr xs \<Longrightarrow>
      listed \<in> set xs \<Longrightarrow> organization (os_Organization listed)"
    and organization_kept: "kept s \<Longrightarrow> organization x \<Longrightarrow> seed_organization x \<Longrightarrow>
      kept (snd (DeleteOrganizationByID (wd_Orgs W) c (org_ID x) s))"
begin

lemma accounts_page_keeps:
  assumes "kept s"
  shows "kept (snd (bindp (query (ur_All (wd_UserRepo W) 100 0)) (\<lambda>rows. delete_accounts W calls rows 0 deleted) s))"
proof (cases "ur_All (wd_UserRepo W) 100 0 s")
  case (Inl e)
  then show ?thesis using assms by (simp add: bindp_def query_def)
next
  case (Inr rows)
  have "kept (snd (delete_accounts W calls rows 0 deleted s))"
    unfolding delete_accounts_def
    by (rule delete_marked_keeps) (use account_kept accounts_listed[OF assms Inr] assms in \<open>simp_all\<close>)
  then show ?thesis using Inr by (simp add: bindp_def query_def)
qed

lemma reset_accounts_keeps:
  assumes "reset_accounts W calls deleted s = Some y" "kept s"
  shows "kept (snd y)"
proof -
  have "V = W \<longrightarrow> kept s \<longrightarrow> kept (snd y)" if "reset_accounts V calls deleted s = Some y" for V
    using that
  proof (rule reset_accounts.raw_induct[where P = "\<lambda>V calls deleted s y. V = W \<longrightarrow> kept s \<longrightarrow> kept (snd y)", rotated])
    fix again V calls deleted s y
    assume IH: "\<And>V calls deleted s y. again V calls deleted s = Some y \<Longrightarrow> V = W \<longrightarrow> kept s \<longrightarrow> kept (snd y)"
      and body: "(case bindp (query (ur_All (wd_UserRepo V) 100 0)) (\<lambda>rows. delete_accounts V calls rows 0 deleted) s of
        (Inl e, s') \<Rightarrow> Some (Inl e, s')
      | (Inr (found, deleted), s') \<Rightarrow> if found = 0 then Some (Inr deleted, s') else again V calls deleted s') = Some y"
    show "V = W \<longrightarrow> kept s \<longrightarrow> kept (snd y)"
    proof (intro impI)
      assume V: "V = W" and here: "kept s"
      obtain r s1 where page: "bindp (query (ur_All (wd_UserRepo W) 100 0)) (\<lambda>rows. delete_accounts W calls rows 0 deleted) s = (r, s1)"
        by force
      then have "kept s1" using accounts_page_keeps[OF here, of calls deleted] by simp
      then show "kept (snd y)"
        using IH[of V calls _ s1 y] body page V by (auto split: sum.splits if_splits)
    qed
  qed
  then show ?thesis using assms by blast
qed

lemma reset_organizations_keeps:
  assumes "reset_organizations W calls offset deleted s = Some y" "kept s"
  shows "kept (snd y)"
proof -
  have "V = W \<longrightarrow> kept s \<longrightarrow> kept (snd y)" if "reset_organizations V calls offset deleted s = Some y" for V
    using that
  proof (rule reset_organizations.raw_induct[where P = "\<lambda>V calls offset deleted s y. V = W \<longrightarrow> kept s \<longrightarrow> kept (snd y)", rotated])
    fix again V calls offset deleted s y
    assume IH: "\<And>V calls offset deleted s y. again V calls offset deleted s = Some y \<Longrightarrow> V = W \<longrightarrow> kept s \<longrightarrow> kept (snd y)"
      and body: "(case op_AllOrganizations (wd_Prov V) \<lparr>of_WithoutOwner = False\<rparr> MaxOrganizationPage offset s of
        Inl e \<Rightarrow> Some (Inl e, s)
      | Inr rows \<Rightarrow>
          if rows = [] then Some (Inr deleted, s)
          else (case delete_organizations V calls (map os_Organization rows) 0 deleted s of
              (Inl e, s') \<Rightarrow> Some (Inl e, s')
            | (Inr (removed, deleted), s') \<Rightarrow>
                again V calls (if removed = 0 then offset + int (length rows) else offset) deleted s')) = Some y"
    show "V = W \<longrightarrow> kept s \<longrightarrow> kept (snd y)"
    proof (intro impI)
      assume V: "V = W" and here: "kept s"
      show "kept (snd y)"
      proof (cases "op_AllOrganizations (wd_Prov W) \<lparr>of_WithoutOwner = False\<rparr> MaxOrganizationPage offset s")
        case (Inl e)
        then show ?thesis using body V here by auto
      next
        case (Inr rows)
        obtain r s1 where page: "delete_organizations W calls (map os_Organization rows) 0 deleted s = (r, s1)" by force
        have "kept (snd (delete_organizations W calls (map os_Organization rows) 0 deleted s))"
          unfolding delete_organizations_def
          by (rule delete_marked_keeps) (use organization_kept organizations_listed[OF here Inr] here in auto)
        then have "kept s1" using page by simp
        then show ?thesis
          using IH[of V calls _ _ s1 y] body Inr page V here by (auto split: sum.splits if_split_asm)
      qed
    qed
  qed
  then show ?thesis using assms by blast
qed

lemma Reset_keeps:
  assumes "Reset W accountCalls orgCalls s = Some (r, s')" "kept s"
  shows "kept s'"
proof -
  obtain r1 s1 where first: "reset_accounts W accountCalls 0 s = Some (r1, s1)"
    using assms(1) by (auto simp: Reset_def split: option.splits)
  then have "kept s1" using reset_accounts_keeps[OF first assms(2)] by simp
  then show ?thesis
    using assms(1) first reset_organizations_keeps[of orgCalls 0 0 s1]
    by (auto simp: Reset_def split: sum.splits option.splits prod.splits)
qed

end

end
