(* ===== verification/Seed_Memory.thy ===== *)
theory Seed_Memory
  imports Seed Users_Memory Orgs_Memory Demo_Store Demo_Users
begin

text \<open>
  The seeder over the in-memory stores: the listings are the live rows, newest id first, the deletions retire exactly
  one of them, so the contract of \<open>Seed\<close> holds and its loops end.
\<close>

section \<open>The live rows of a table\<close>

definition live_rows :: "('v \<Rightarrow> 'k::linorder) \<Rightarrow> ('v \<Rightarrow> bool) \<Rightarrow> ('k, 'v) amap \<Rightarrow> 'v list" where
  "live_rows key live rows = rev (sort_key key (filter live (avals rows)))"

lemma live_rows_distinct:
  assumes "rows_ok key rows"
  shows "distinct (map key (live_rows key live rows))"
proof -
  have "map key (avals rows) = akeys rows"
    using assms by (auto simp: rows_ok_def adistinct_in[symmetric])
  then have "distinct (map key (avals rows))" using rows_ok_adistinct[OF assms] by metis
  then show ?thesis by (auto simp: live_rows_def distinct_map rev_map[symmetric] inj_on_def)
qed

lemma live_rows_in: "rows_ok key rows \<Longrightarrow> v \<in> set (live_rows key live rows) \<longleftrightarrow> map_of rows (key v) = Some v \<and> live v"
  by (auto simp: live_rows_def rows_ok_vals)

lemma retired_vals:
  "adistinct rows \<Longrightarrow> (\<And>k v. (k, v) \<in> set rows \<Longrightarrow> key v = k) \<Longrightarrow> k \<in> fst ` set rows \<Longrightarrow> \<not> live v \<Longrightarrow>
   filter live (map snd (AList.update k v rows)) = filter (\<lambda>x. key x \<noteq> k) (filter live (map snd rows))"
proof (induction rows)
  case (Cons row rows)
  obtain k' v' where row: "row = (k', v')" by force
  have key: "key v' = k'" using Cons.prems(2) row by simp
  show ?case
  proof (cases "k = k'")
    case True
    then have "\<forall>x \<in> set (map snd rows). key x \<noteq> k"
      using Cons.prems(1,2) row by force
    then show ?thesis using True key row Cons.prems(4) by (auto intro!: filter_cong)
  next
    case False
    then show ?thesis using Cons row key by auto
  qed
qed simp

lemma live_rows_retired:
  assumes "rows_ok key rows" "map_of rows k = Some v" "\<not> live v'"
  shows "live_rows key live (AList.update k v' rows) = filter (\<lambda>x. key x \<noteq> k) (live_rows key live rows)"
proof -
  have ids: "key x = i" if "(i, x) \<in> set rows" for i x
    using rows_ok_id[OF assms(1)] adistinct_in[OF rows_ok_adistinct[OF assms(1)]] that by blast
  have "k \<in> fst ` set rows" using assms(2) by (metis domI dom_map_of_conv_image_fst)
  from retired_vals[where key = key and live = live, OF rows_ok_adistinct[OF assms(1)] ids this assms(3)]
  have "filter live (avals (AList.update k v' rows)) = filter (\<lambda>x. key x \<noteq> k) (filter live (avals rows))" .
  then show ?thesis by (simp add: live_rows_def rev_filter[symmetric] filter_sort)
qed

lemma insort_key_image: "insort_key f (g x) (map g xs) = map g (insort_key (f \<circ> g) x xs)"
  by (induction xs) auto

lemma sort_key_image: "sort_key f (map g xs) = map g (sort_key (\<lambda>x. f (g x)) xs)"
  by (induction xs) (simp_all add: insort_key_image comp_def)

section \<open>The account repository inside the authorization store\<close>

text \<open>
  Both repositories over one state: the account table is \<open>ma_users\<close> of the authorization store. A store built without
  one has no accounts.
\<close>

definition user_query :: "(Users \<Rightarrow> err + 'a) \<Rightarrow> AuthzStore \<Rightarrow> err + 'a" where
  "user_query f m = (case ma_users m of None \<Rightarrow> Inl user_not_found | Some users \<Rightarrow> f users)"

definition user_call :: "'a uprog \<Rightarrow> (AuthzStore, err, 'a) prog" where
  "user_call p m =
     (case ma_users m of
        None \<Rightarrow> refuse user_not_found m
      | Some users \<Rightarrow> (case p users of (x, users') \<Rightarrow> (x, m\<lparr>ma_users := Some users'\<rparr>)))"

definition both_users :: "AuthzStore UserRepository" where
  "both_users =
     \<lparr>ur_Create = (\<lambda>c u. user_call (UsersCreate c u)), ur_ByID = (\<lambda>k. user_query (UsersByID k)),
      ur_ByEmail = (\<lambda>x. user_query (UsersByEmail x)), ur_All = (\<lambda>limit offset. user_query (UsersAll limit offset)),
      ur_Delete = (\<lambda>c k. user_call (UsersDelete c k)),
      ur_UpdateProfile = (\<lambda>k x y. user_call (UsersUpdateProfile k x y)),
      ur_SetPassword = (\<lambda>k x. user_call (UsersSetPassword k x)),
      ur_BumpSessionEpoch = (\<lambda>k. user_call (UsersBumpSessionEpoch k)),
      ur_SetSuspended = (\<lambda>k t. user_call (UsersSetSuspended k t)),
      ur_ReplacePasswordReset = (\<lambda>c r. user_call (UsersReplacePasswordReset c r)),
      ur_ActivePasswordReset = (\<lambda>k t. user_query (UsersActivePasswordReset k t)),
      ur_FailPasswordReset = (\<lambda>k n t. user_call (UsersFailPasswordReset k n t)),
      ur_ConsumePasswordReset = (\<lambda>r x. user_call (UsersConsumePasswordReset r x)),
      ur_ReplaceEmailChange = (\<lambda>c r. user_call (UsersReplaceEmailChange c r)),
      ur_ActiveEmailChange = (\<lambda>k t. user_query (UsersActiveEmailChange k t)),
      ur_FailEmailChange = (\<lambda>k n t. user_call (UsersFailEmailChange k n t)),
      ur_ConsumeEmailChange = (\<lambda>r x. user_call (UsersConsumeEmailChange r x)),
      ur_DeviceByFingerprint = (\<lambda>k x. user_query (UsersDeviceByFingerprint k x)),
      ur_CreateDevice = (\<lambda>c d. user_call (UsersCreateDevice c d)),
      ur_TouchDevice = (\<lambda>k t x y. user_call (UsersTouchDevice k t x y)),
      ur_TrustDevice = (\<lambda>c k. user_call (UsersTrustDevice c k)),
      ur_Devices = (\<lambda>k. user_query (UsersDevices k)),
      ur_RevokeDevice = (\<lambda>c k d. user_call (UsersRevokeDevice c k d)),
      ur_ActiveDevice = (\<lambda>k d. user_query (UsersActiveDevice k d)),
      ur_RecordLoginEvent = (\<lambda>c e. user_call (UsersRecordLoginEvent c e)),
      ur_LoginEvents = (\<lambda>k n. user_query (UsersLoginEvents k n)),
      ur_SetTwoFactorEnabled = (\<lambda>k b. user_call (UsersSetTwoFactorEnabled k b)),
      ur_ReplaceTwoFactorChallenge = (\<lambda>c r. user_call (UsersReplaceTwoFactorChallenge c r)),
      ur_ActiveTwoFactorChallenge = (\<lambda>k t. user_query (UsersActiveTwoFactorChallenge k t)),
      ur_FailTwoFactorChallenge = (\<lambda>k n t. user_call (UsersFailTwoFactorChallenge k n t)),
      ur_ConsumeTwoFactorChallenge = (\<lambda>c k d t. user_call (UsersConsumeTwoFactorChallenge c k d t))\<rparr>"

definition mem_world :: "AuthzStore World" where
  "mem_world = \<lparr>wd_Orgs = mem_orgs, wd_Prov = mem_provisioner, wd_UserRepo = both_users\<rparr>"

section \<open>The contract holds\<close>

definition live_accounts :: "AuthzStore \<Rightarrow> User list" where
  "live_accounts m = (case ma_users m of None \<Rightarrow> [] | Some users \<Rightarrow>
     live_rows u_ID (\<lambda>u. \<not> UserIsDeleted u) (us_users users))"

definition live_organizations :: "AuthzStore \<Rightarrow> Organization list" where
  "live_organizations m = live_rows org_ID (\<lambda>x. \<not> OrganizationIsDeleted x) (ma_orgs m)"

definition resettable_store :: "AuthzStore \<Rightarrow> bool" where
  "resettable_store m \<longleftrightarrow> rows_ok org_ID (ma_orgs m) \<and>
     (\<exists>users. ma_users m = Some users \<and> rows_ok u_ID (us_users users))"

lemma listed_accounts:
  assumes "resettable_store m"
  shows "ur_All (wd_UserRepo mem_world) 100 0 m = Inr (take 100 (live_accounts m))"
  using assms
  by (auto simp: resettable_store_def mem_world_def both_users_def user_query_def UsersAll_def Let_def
      live_accounts_def live_rows_def)

lemma retired_account:
  assumes "resettable_store m" "u \<in> set (live_accounts m)"
    and "ur_Delete (wd_UserRepo mem_world) c (u_ID u) m = (Inr (), m')"
  shows "resettable_store m' \<and>
     live_accounts m' = filter (\<lambda>v. u_ID v \<noteq> u_ID u) (live_accounts m) \<and>
     live_organizations m' = live_organizations m"
proof -
  obtain users where users: "ma_users m = Some users" "rows_ok u_ID (us_users users)" and orgs: "rows_ok org_ID (ma_orgs m)"
    using assms(1) by (auto simp: resettable_store_def)
  have row: "map_of (us_users users) (u_ID u) = Some u"
    using assms(2) users by (simp add: live_accounts_def live_rows_in)
  obtain users' where run: "UsersDelete c (u_ID u) users = (Inr (), users')" and m': "m' = m\<lparr>ma_users := Some users'\<rparr>"
    using assms(3) users by (auto simp: mem_world_def both_users_def user_call_def split: prod.splits)
  have table: "us_users users' = AList.update (u_ID u) (u\<lparr>u_DeletedAt := Some (c_now c ClockRow)\<rparr>) (us_users users)"
    using run row by (auto simp: UsersDelete_def UserDelete_ok refuse_def ok_def split: sum.splits)
  have "rows_ok u_ID (us_users users')" unfolding table using users(2) by (intro rows_ok_update) simp_all
  moreover have "live_rows u_ID (\<lambda>u. \<not> UserIsDeleted u) (us_users users') =
      filter (\<lambda>v. u_ID v \<noteq> u_ID u) (live_rows u_ID (\<lambda>u. \<not> UserIsDeleted u) (us_users users))"
    unfolding table by (rule live_rows_retired[OF users(2) row]) (simp add: UserIsDeleted_def)
  ultimately show ?thesis using users orgs
    by (simp add: m' resettable_store_def live_accounts_def live_organizations_def)
qed

lemma listed_organizations:
  assumes "0 \<le> offset"
  shows "\<exists>rows. op_AllOrganizations (wd_Prov mem_world) \<lparr>of_WithoutOwner = False\<rparr> MaxOrganizationPage offset m = Inr rows \<and>
     map os_Organization rows = take 100 (drop (nat offset) (live_organizations m))"
proof -
  let ?live = "filter (\<lambda>x. \<not> OrganizationIsDeleted x) (avals (ma_orgs m))"
  let ?summary = "\<lambda>x. \<lparr>os_Organization = x, os_Owners = ownerCountLocked m (org_ID x)\<rparr>"
  let ?rows = "rev (sort_key (\<lambda>s. org_ID (os_Organization s)) (map ?summary ?live))"
  have "map os_Organization ?rows = live_organizations m"
    by (simp add: live_organizations_def live_rows_def rev_map[symmetric] sort_key_image comp_def)
  moreover have "page ?rows MaxOrganizationPage offset = Inr (take 100 (drop (nat offset) ?rows))"
    using assms by (auto simp: page_def MaxOrganizationPage_def Let_def)
  ultimately show ?thesis
    by (simp add: mem_world_def AuthzAllOrganizations_def take_map[symmetric] drop_map[symmetric])
qed

lemma retired_organization:
  assumes "resettable_store m" "x \<in> set (live_organizations m)"
    and "DeleteOrganizationByID (wd_Orgs mem_world) c (org_ID x) m = (Inr (), m')"
  shows "resettable_store m' \<and>
     live_organizations m' = filter (\<lambda>y. org_ID y \<noteq> org_ID x) (live_organizations m) \<and>
     live_accounts m' = live_accounts m"
proof -
  have orgs: "rows_ok org_ID (ma_orgs m)" using assms(1) by (simp add: resettable_store_def)
  have row: "map_of (ma_orgs m) (org_ID x) = Some x"
    using assms(2) orgs by (simp add: live_organizations_def live_rows_in)
  have table: "ma_orgs m' = AList.update (org_ID x) (x\<lparr>org_DeletedAt := Some (c_now c ClockRow)\<rparr>) (ma_orgs m)"
    and users: "ma_users m' = ma_users m"
    using assms(3) row
    by (auto simp: DeleteOrganizationByID_def mem_world_def AuthzDeleteOrganization_def organizationLocked_def
        OrganizationDelete_def OrganizationRefuseIfProtected_def refuse_def ok_def split: sum.splits if_splits)
  have "rows_ok org_ID (ma_orgs m')" unfolding table using orgs by (intro rows_ok_update) simp_all
  moreover have "live_organizations m' = filter (\<lambda>y. org_ID y \<noteq> org_ID x) (live_organizations m)"
    unfolding live_organizations_def table by (rule live_rows_retired[OF orgs row]) (simp add: OrganizationIsDeleted_def)
  ultimately show ?thesis using users assms(1) by (simp add: resettable_store_def live_accounts_def)
qed

interpretation mr: resettable mem_world live_accounts live_organizations resettable_store
proof (unfold_locales, goal_cases)
  case (1 m)
  then show ?case by (auto simp: resettable_store_def live_accounts_def intro: live_rows_distinct)
next
  case (2 m)
  then show ?case by (auto simp: resettable_store_def live_organizations_def intro: live_rows_distinct)
next
  case (3 m)
  then show ?case by (rule listed_accounts)
next
  case (4 m u c m')
  then show ?case by (rule retired_account)
next
  case (5 m offset)
  then show ?case by (intro listed_organizations)
next
  case (6 m x c m')
  then show ?case by (rule retired_organization)
qed

section \<open>What Reset leaves alone\<close>

text \<open>
  \<open>accounts_spared U U'\<close> says that from \<open>U\<close> to \<open>U'\<close> accounts of the seed domain were deleted and nothing else
  happened: codes and sign-ins are the same; a row is the same or is that of a live seed account, now marked deleted; only
  seed addresses left the index; only the devices of live seed accounts changed. \<open>seed_only\<close> says it of the whole store:
  memberships, roles, permissions, assignments, invitations and system roles are the same, the trail only grew, and a row of
  the organizations is the same or that of a live organization with the seeder's prefix, now marked deleted.
\<close>

definition accounts_spared :: "Users \<Rightarrow> Users \<Rightarrow> bool" where
  "accounts_spared U U' \<longleftrightarrow>
     U' = U\<lparr>us_users := us_users U', us_byEmail := us_byEmail U', us_devices := us_devices U'\<rparr> \<and>
     (\<forall>k. map_of (us_users U') k = map_of (us_users U) k \<or>
        (\<exists>u t. map_of (us_users U) k = Some u \<and> seed_account u \<and> \<not> UserIsDeleted u \<and>
           map_of (us_users U') k = Some (u\<lparr>u_DeletedAt := Some t\<rparr>))) \<and>
     (\<forall>address. \<not> has_suffix address seed_suffix \<longrightarrow> map_of (us_byEmail U') address = map_of (us_byEmail U) address) \<and>
     (\<forall>k. map_of (us_devices U') k = map_of (us_devices U) k \<or>
        (\<exists>d u. map_of (us_devices U) k = Some d \<and> map_of (us_users U) (dv_UserID d) = Some u \<and>
           seed_account u \<and> \<not> UserIsDeleted u))"

definition seed_only :: "AuthzStore \<Rightarrow> AuthzStore \<Rightarrow> bool" where
  "seed_only m m' \<longleftrightarrow>
     (\<exists>entries. m' = m\<lparr>ma_orgs := ma_orgs m', ma_users := ma_users m', ma_events := ma_events m @ entries\<rparr>) \<and>
     (\<forall>k. map_of (ma_orgs m') k = map_of (ma_orgs m) k \<or>
        (\<exists>x t. map_of (ma_orgs m) k = Some x \<and> seed_organization x \<and> \<not> OrganizationIsDeleted x \<and>
           map_of (ma_orgs m') k = Some (x\<lparr>org_DeletedAt := Some t\<rparr>))) \<and>
     (\<exists>U U'. ma_users m = Some U \<and> ma_users m' = Some U' \<and> accounts_spared U U')"

lemma accounts_spared_refl [simp]: "accounts_spared U U"
  by (simp add: accounts_spared_def)

lemma seed_only_refl: "resettable_store m \<Longrightarrow> seed_only m m"
  by (cases m) (auto simp: seed_only_def resettable_store_def)

lemma map_of_revoked: "map_of (revoke_all_of t k devices) j =
    map_option (\<lambda>d. if dv_UserID d = k \<and> \<not> DeviceIsRevoked d then d\<lparr>dv_RevokedAt := Some t, dv_TrustedAt := None\<rparr> else d)
      (map_of devices j)"
  by (simp add: revoke_all_of_rows map_of_map)

text \<open>A listed seed account is deleted once more.\<close>

lemma accounts_spared_step:
  assumes "accounts_spared U0 U" "map_of (us_users U0) (u_ID u) = Some u" "\<not> UserIsDeleted u" "seed_account u"
    and "UsersDelete c (u_ID u) U = (r, U')"
  shows "accounts_spared U0 U'"
proof -
  have frame: "U = U0\<lparr>us_users := us_users U, us_byEmail := us_byEmail U, us_devices := us_devices U\<rparr>"
    and rows: "\<And>k. map_of (us_users U) k = map_of (us_users U0) k \<or>
        (\<exists>u t. map_of (us_users U0) k = Some u \<and> seed_account u \<and> \<not> UserIsDeleted u \<and>
           map_of (us_users U) k = Some (u\<lparr>u_DeletedAt := Some t\<rparr>))"
    and index: "\<And>address. \<not> has_suffix address seed_suffix \<Longrightarrow> map_of (us_byEmail U) address = map_of (us_byEmail U0) address"
    and devices: "\<And>k. map_of (us_devices U) k = map_of (us_devices U0) k \<or>
        (\<exists>d u. map_of (us_devices U0) k = Some d \<and> map_of (us_users U0) (dv_UserID d) = Some u \<and>
           seed_account u \<and> \<not> UserIsDeleted u)"
    using assms(1) unfolding accounts_spared_def by blast+
  obtain v where v: "map_of (us_users U) (u_ID u) = Some v" "v = u \<or> (\<exists>t. v = u\<lparr>u_DeletedAt := Some t\<rparr>)"
    using rows[of "u_ID u"] assms(2) by auto
  consider "U' = U" | "U' = U\<lparr>us_users := AList.update (u_ID u) (v\<lparr>u_DeletedAt := Some (c_now c ClockRow)\<rparr>) (us_users U),
      us_byEmail := AList.delete (u_Email v) (us_byEmail U), us_devices := revoke_all_of (c_now c ClockDevice) (u_ID u) (us_devices U)\<rparr>"
    using assms(5) v(1) by (auto simp: UsersDelete_def UserDelete_ok ok_def refuse_def split: sum.splits)
  then show ?thesis
  proof cases
    case 1
    then show ?thesis using assms(1) by simp
  next
    case 2
    have email: "has_suffix (u_Email v) seed_suffix" using v(2) assms(4) by (auto simp: seed_account_def)
    have retired: "v\<lparr>u_DeletedAt := Some (c_now c ClockRow)\<rparr> = u\<lparr>u_DeletedAt := Some (c_now c ClockRow)\<rparr>" using v(2) by auto
    have "U' = U0\<lparr>us_users := us_users U', us_byEmail := us_byEmail U', us_devices := us_devices U'\<rparr>"
      unfolding 2 by (subst frame) simp
    moreover have "map_of (us_users U') k = map_of (us_users U0) k \<or>
        (\<exists>u t. map_of (us_users U0) k = Some u \<and> seed_account u \<and> \<not> UserIsDeleted u \<and>
           map_of (us_users U') k = Some (u\<lparr>u_DeletedAt := Some t\<rparr>))" for k
      using rows[of k] assms(2-4) by (cases "k = u_ID u") (auto simp: 2 retired amap_simps)
    moreover have "map_of (us_byEmail U') address = map_of (us_byEmail U0) address" if "\<not> has_suffix address seed_suffix" for address
      using index[OF that] email that by (auto simp: 2 amap_simps)
    moreover have "map_of (us_devices U') k = map_of (us_devices U0) k \<or>
        (\<exists>d u. map_of (us_devices U0) k = Some d \<and> map_of (us_users U0) (dv_UserID d) = Some u \<and>
           seed_account u \<and> \<not> UserIsDeleted u)" for k
    proof (cases "map_of (us_devices U) k = map_of (us_devices U0) k")
      case same: True
      have after: "map_of (us_devices U') k = map_option (\<lambda>d. if dv_UserID d = u_ID u \<and> \<not> DeviceIsRevoked d
          then d\<lparr>dv_RevokedAt := Some (c_now c ClockDevice), dv_TrustedAt := None\<rparr> else d) (map_of (us_devices U0) k)"
        by (simp add: 2 map_of_revoked same)
      show ?thesis
      proof (cases "\<exists>d. map_of (us_devices U0) k = Some d \<and> dv_UserID d = u_ID u")
        case True
        then show ?thesis using assms(2-4) by auto
      next
        case False
        then show ?thesis unfolding after by (cases "map_of (us_devices U0) k") simp_all
      qed
    next
      case False
      then show ?thesis using devices[of k] by blast
    qed
    ultimately show ?thesis unfolding accounts_spared_def by blast
  qed
qed

lemma recordLocked_entries: "\<exists>entries. recordLocked c e m = m\<lparr>ma_events := ma_events m @ entries\<rparr>"
  by (cases m) (auto simp: recordLocked_def Let_def)

lemma rest_kept_trans:
  assumes "m = m0\<lparr>ma_orgs := ma_orgs m, ma_users := ma_users m, ma_events := ma_events m0 @ es\<rparr>"
    and "m' = m\<lparr>ma_orgs := ma_orgs m', ma_users := ma_users m', ma_events := ma_events m @ es'\<rparr>"
  shows "m' = m0\<lparr>ma_orgs := ma_orgs m', ma_users := ma_users m', ma_events := ma_events m0 @ es @ es'\<rparr>"
proof -
  have "ma_events m = ma_events m0 @ es" by (subst assms(1)) simp
  then show ?thesis by (subst assms(2), subst assms(1)) simp
qed

text \<open>The loops keep it: what they are given to delete was a live row when they began.\<close>

definition spared :: "AuthzStore \<Rightarrow> AuthzStore \<Rightarrow> bool" where
  "spared m0 m \<longleftrightarrow> resettable_store m \<and> seed_only m0 m"

definition was_account :: "AuthzStore \<Rightarrow> User \<Rightarrow> bool" where
  "was_account m0 u \<longleftrightarrow> (\<exists>U. ma_users m0 = Some U \<and> map_of (us_users U) (u_ID u) = Some u \<and> \<not> UserIsDeleted u)"

definition was_organization :: "AuthzStore \<Rightarrow> Organization \<Rightarrow> bool" where
  "was_organization m0 x \<longleftrightarrow> map_of (ma_orgs m0) (org_ID x) = Some x \<and> \<not> OrganizationIsDeleted x"

lemma spared_account:
  assumes "spared m0 m" "was_account m0 u" "seed_account u"
  shows "spared m0 (snd (ur_Delete (wd_UserRepo mem_world) c (u_ID u) m))"
proof -
  obtain U0 U where users: "ma_users m0 = Some U0" "ma_users m = Some U" "accounts_spared U0 U"
    using assms(1) by (auto simp: spared_def seed_only_def)
  obtain r U' where run: "UsersDelete c (u_ID u) U = (r, U')" by force
  have out: "snd (ur_Delete (wd_UserRepo mem_world) c (u_ID u) m) = m\<lparr>ma_users := Some U'\<rparr>"
    using run users(2) by (simp add: mem_world_def both_users_def user_call_def)
  have "accounts_spared U0 U'"
    using assms(2,3) users by (intro accounts_spared_step[OF users(3) _ _ _ run]) (auto simp: was_account_def)
  moreover have rows: "rows_ok u_ID (us_users U)" using assms(1) users(2) by (auto simp: spared_def resettable_store_def)
  then have "u_ID v = u_ID u" if "map_of (us_users U) (u_ID u) = Some v" for v using that by (simp add: rows_ok_def)
  then have "rows_ok u_ID (us_users U')"
    using rows run
    by (auto simp: UsersDelete_def UserDelete_ok ok_def refuse_def intro!: rows_ok_update split: option.splits sum.splits)
  moreover obtain es where "m = m0\<lparr>ma_orgs := ma_orgs m, ma_users := ma_users m, ma_events := ma_events m0 @ es\<rparr>"
    using assms(1) unfolding spared_def seed_only_def by blast
  from rest_kept_trans[OF this, of "m\<lparr>ma_users := Some U'\<rparr>" "[]"]
  have "m\<lparr>ma_users := Some U'\<rparr> = m0\<lparr>ma_orgs := ma_orgs m, ma_users := Some U', ma_events := ma_events m0 @ es\<rparr>" by simp
  ultimately show ?thesis
    using assms(1) users(1) unfolding out spared_def seed_only_def resettable_store_def by auto
qed

lemma spared_organization:
  assumes "spared m0 m" "was_organization m0 x" "seed_organization x"
  shows "spared m0 (snd (DeleteOrganizationByID (wd_Orgs mem_world) c (org_ID x) m))"
proof -
  let ?x = "x\<lparr>org_DeletedAt := Some (c_now c ClockRow)\<rparr>"
  have orgs: "rows_ok org_ID (ma_orgs m)" using assms(1) by (simp add: spared_def resettable_store_def)
  have was: "map_of (ma_orgs m0) (org_ID x) = Some x" "\<not> OrganizationIsDeleted x" using assms(2) by (simp_all add: was_organization_def)
  have rows: "map_of (ma_orgs m) k = map_of (ma_orgs m0) k \<or>
        (\<exists>x t. map_of (ma_orgs m0) k = Some x \<and> seed_organization x \<and> \<not> OrganizationIsDeleted x \<and>
           map_of (ma_orgs m) k = Some (x\<lparr>org_DeletedAt := Some t\<rparr>))" for k
    using assms(1) unfolding spared_def seed_only_def by blast
  obtain es where rest: "m = m0\<lparr>ma_orgs := ma_orgs m, ma_users := ma_users m, ma_events := ma_events m0 @ es\<rparr>"
    using assms(1) unfolding spared_def seed_only_def by blast
  obtain r m' where run: "DeleteOrganizationByID (wd_Orgs mem_world) c (org_ID x) m = (r, m')" by force
  consider "m' = m" | event where "m' = recordLocked c event (m\<lparr>ma_orgs := AList.update (org_ID x) ?x (ma_orgs m)\<rparr>)"
    using run rows[of "org_ID x"] was
    by (auto simp: DeleteOrganizationByID_def mem_world_def AuthzDeleteOrganization_def organizationLocked_def OrganizationIsDeleted_def
        OrganizationDelete_def OrganizationRefuseIfProtected_def refuse_def ok_def split: sum.splits if_splits)
  then show ?thesis
  proof cases
    case 1
    then show ?thesis using run assms(1) by simp
  next
    case (2 event)
    then obtain es' where m': "m' = m\<lparr>ma_orgs := AList.update (org_ID x) ?x (ma_orgs m), ma_events := ma_events m @ es'\<rparr>"
      using recordLocked_entries[of c event "m\<lparr>ma_orgs := AList.update (org_ID x) ?x (ma_orgs m)\<rparr>"] by auto
    have "m' = m0\<lparr>ma_orgs := ma_orgs m', ma_users := ma_users m', ma_events := ma_events m0 @ es @ es'\<rparr>"
      by (rule rest_kept_trans[OF rest]) (simp add: m')
    moreover have "map_of (ma_orgs m') k = map_of (ma_orgs m0) k \<or>
        (\<exists>x t. map_of (ma_orgs m0) k = Some x \<and> seed_organization x \<and> \<not> OrganizationIsDeleted x \<and>
           map_of (ma_orgs m') k = Some (x\<lparr>org_DeletedAt := Some t\<rparr>))" for k
      using rows[of k] was assms(3) by (cases "k = org_ID x") (auto simp: m' amap_simps)
    moreover have "resettable_store m'"
      using assms(1) orgs by (auto simp: spared_def resettable_store_def m' intro: rows_ok_update)
    ultimately show ?thesis
      using run assms(1) unfolding spared_def seed_only_def by (simp add: m') blast
  qed
qed

interpretation mf: reset_frame mem_world "spared m0" "was_account m0" "was_organization m0"
proof (unfold_locales, goal_cases)
  case (1 m rows u)
  then have "u \<in> set (live_accounts m)"
    using listed_accounts[of m] by (auto simp: spared_def dest: in_set_takeD)
  moreover obtain U0 U where users: "ma_users m0 = Some U0" "ma_users m = Some U" "accounts_spared U0 U"
    using 1(1) by (auto simp: spared_def seed_only_def)
  moreover have "rows_ok u_ID (us_users U)" using 1(1) users(2) by (auto simp: spared_def resettable_store_def)
  ultimately have "map_of (us_users U) (u_ID u) = Some u" "\<not> UserIsDeleted u"
    by (simp_all add: live_accounts_def live_rows_in)
  moreover have "map_of (us_users U) (u_ID u) = map_of (us_users U0) (u_ID u) \<or>
      (\<exists>v t. map_of (us_users U) (u_ID u) = Some (v\<lparr>u_DeletedAt := Some t\<rparr>))"
    using users(3) unfolding accounts_spared_def by blast
  ultimately show ?case using users(1) by (auto simp: was_account_def UserIsDeleted_def)
next
  case (2 m u c)
  then show ?case by (rule spared_account)
next
  case (3 m offset rows row)
  have sub: "set out' \<subseteq> set out" if "page out limit offset = Inr out'" for out out' :: "OrganizationSummary list" and limit
    using that by (auto simp: page_def Let_def split: if_splits dest: in_set_takeD in_set_dropD)
  let ?live = "filter (\<lambda>x. \<not> OrganizationIsDeleted x) (avals (ma_orgs m))"
  let ?summary = "\<lambda>x. \<lparr>os_Organization = x, os_Owners = ownerCountLocked m (org_ID x)\<rparr>"
  have "page (rev (sort_key (\<lambda>s. org_ID (os_Organization s)) (map ?summary ?live))) MaxOrganizationPage offset = Inr rows"
    using 3(2) by (simp add: mem_world_def AuthzAllOrganizations_def)
  from sub[OF this] 3(3) have "row \<in> ?summary ` set ?live" by (simp only: set_rev set_sort set_map) blast
  then have "os_Organization row \<in> set (live_organizations m)" by (auto simp: live_organizations_def live_rows_def image_iff) (metis snd_conv)
  moreover have "rows_ok org_ID (ma_orgs m)" using 3(1) by (simp add: spared_def resettable_store_def)
  ultimately have row: "map_of (ma_orgs m) (org_ID (os_Organization row)) = Some (os_Organization row)"
    "\<not> OrganizationIsDeleted (os_Organization row)" by (simp_all add: live_organizations_def live_rows_in)
  moreover have "map_of (ma_orgs m) k = map_of (ma_orgs m0) k \<or> (\<exists>x t. map_of (ma_orgs m) k = Some (x\<lparr>org_DeletedAt := Some t\<rparr>))" for k
    using 3(1) unfolding spared_def seed_only_def by blast
  from this[of "org_ID (os_Organization row)"] row show ?case by (auto simp: was_organization_def OrganizationIsDeleted_def)
next
  case (4 m x c)
  then show ?case by (rule spared_organization)
qed

section \<open>The seeder's way out\<close>

text \<open>C35. 
  \<open>Reset\<close> returns on every well-formed store, whatever its calls answer: neither of its loops runs for ever. Refused
  or not, it has done nothing but delete what is the seeder's (\<open>seed_only\<close>, spelled out above): live accounts of
  the seed domain, their addresses in the index and their devices, and live organizations with the seeder's prefix. Every
  other row is as it was: accounts and organizations that were deleted before, accounts and devices of other people, and all
  memberships, roles, permissions, assignments, invitations, codes and sign-ins. When no call was refused, no live
  organization carries the prefix any more, and a store that held the seeder's accounts only holds no live account.
\<close>

theorem reset_terminates:
  assumes "authz_wf m" "ma_users m = Some users" "users_wf users"
  shows "\<exists>r m'. Reset mem_world accountCalls orgCalls m = Some (r, m') \<and> seed_only m m' \<and>
     (\<not> isl r \<longrightarrow>
        live_organizations m' = filter (\<lambda>x. \<not> has_prefix (org_Slug x) SlugPrefix) (live_organizations m) \<and>
        filter (\<lambda>u. \<not> has_suffix (u_Email u) seed_suffix) (live_accounts m') =
          filter (\<lambda>u. \<not> has_suffix (u_Email u) seed_suffix) (live_accounts m) \<and>
        set (live_accounts m') \<subseteq> set (live_accounts m) \<and>
        ((\<forall>u \<in> set (live_accounts m). has_suffix (u_Email u) seed_suffix) \<longrightarrow> live_accounts m' = []))"
proof -
  have wf: "resettable_store m"
    using assms authz_wf_tables(1) users_wfD(1) by (auto simp: resettable_store_def)
  then have "spared m m" by (simp add: spared_def seed_only_refl)
  note kept = mf.Reset_keeps[OF _ this]
  from mr.Reset_ends[OF wf, of accountCalls orgCalls] obtain r m' where
    run: "Reset mem_world accountCalls orgCalls m = Some (r, m')" and
    after: "\<not> isl r \<longrightarrow> resettable_store m' \<and>
       live_organizations m' = filter (\<lambda>x. \<not> seed_organization x) (live_organizations m) \<and>
       filter (\<lambda>u. \<not> seed_account u) (live_accounts m') = filter (\<lambda>u. \<not> seed_account u) (live_accounts m) \<and>
       set (live_accounts m') \<subseteq> set (live_accounts m) \<and>
       (\<forall>u \<in> set (take 100 (live_accounts m')). \<not> seed_account u)" by blast
  have "live_accounts m' = []"
    if "\<forall>u \<in> set (live_accounts m). seed_account u" "set (live_accounts m') \<subseteq> set (live_accounts m)"
      "\<forall>u \<in> set (take 100 (live_accounts m')). \<not> seed_account u"
    using that by (metis in_set_takeD last_in_set subsetD take_eq_Nil zero_neq_numeral)
  moreover have "seed_only m m'" using kept[OF run] by (simp add: spared_def)
  ultimately show ?thesis using run after unfolding seed_account_def seed_organization_def by blast
qed

definition seed_demo :: AuthzStore where
  "seed_demo = demo\<lparr>
     ma_orgs := ma_orgs demo @ [(UUID 50, \<lparr>org_ID = UUID 50, org_DeletedAt = None, org_IsProtected = False,
       org_Slug = ''seed-beta'', org_Name = ''Beta''\<rparr>)],
     ma_roles := ma_roles demo @ [(UUID 51, (demo_role 51 RoleOwner True)\<lparr>r_OrganizationID := UUID 50\<rparr>)],
     ma_users := Some (demo_users\<lparr>us_users := us_users demo_users @
         [(UUID 60, demo_user\<lparr>u_ID := UUID 60, u_Email := ''a@seed.test''\<rparr>)],
       us_byEmail := us_byEmail demo_users @ [(''a@seed.test'', UUID 60)]\<rparr>)\<rparr>"

lemma seed_demo_wf: "authz_wf seed_demo"
proof (rule authz_wfI)
  show "tables_ok seed_demo" by (simp add: tables_ok_def rows_ok_def demo_defs seed_demo_def)
  show "unique_memberships seed_demo" by (simp add: unique_memberships_def demo_defs seed_demo_def)
  show "unique_role_keys seed_demo" by (simp add: unique_role_keys_def demo_defs role_key_defs seed_demo_def)
  show "unique_slugs seed_demo" by (simp add: unique_slugs_def demo_defs seed_demo_def OrganizationIsDeleted_def)
  show "unique_invitations seed_demo" by (simp add: unique_invitations_def demo_defs seed_demo_def)
  show "member_roles_ok seed_demo" by (simp add: member_roles_ok_def roles_of_org_def alist_at_def demo_defs seed_demo_def)
  show "invite_roles_ok seed_demo" by (simp add: invite_roles_ok_def roles_of_org_def alist_at_def demo_defs seed_demo_def)
  show "owner_roles_ok seed_demo" by (auto simp: owner_roles_ok_def demo_defs seed_demo_def intro!: exI[of _ "UUID 4"])
qed

lemma seed_demo_users: "ma_users seed_demo = Some (the (ma_users seed_demo))" "users_wf (the (ma_users seed_demo))"
  by (simp_all add: seed_demo_def users_wf_def user_tables_ok_def rows_ok_def index_sound_def codes_capped_def
      attempt_caps devices_ok_def DeviceIsRevoked_def open_codes_ok_def one_open_def demo_user_defs)

lemma seed_demo_reset:
  "map_option fst (Reset mem_world demo_call demo_call seed_demo) = Some (Inr (1, 1))"
  by code_simp

theorem reset_terminates_witness:
  "\<exists>m'. Reset mem_world demo_call demo_call seed_demo = Some (Inr (1, 1), m') \<and>
     live_organizations m' = filter (\<lambda>x. \<not> has_prefix (org_Slug x) SlugPrefix) (live_organizations seed_demo) \<and>
     ma_memberships m' = ma_memberships seed_demo"
proof -
  obtain r m' where run: "Reset mem_world demo_call demo_call seed_demo = Some (r, m')" "seed_only seed_demo m'"
    and after: "\<not> isl r \<longrightarrow>
      live_organizations m' = filter (\<lambda>x. \<not> has_prefix (org_Slug x) SlugPrefix) (live_organizations seed_demo)"
    using reset_terminates[OF seed_demo_wf seed_demo_users, of demo_call demo_call] by blast
  obtain entries where "m' = seed_demo\<lparr>ma_orgs := ma_orgs m', ma_users := ma_users m', ma_events := ma_events seed_demo @ entries\<rparr>"
    using run(2) unfolding seed_only_def by blast
  then have "ma_memberships m' = ma_memberships seed_demo" by (metis AuthzStore.select_convs(3) AuthzStore.surjective AuthzStore.update_convs(1,2,12))
  then show ?thesis using run(1) after seed_demo_reset by auto
qed

end
