(* ===== verification/Pg_Tables.thy ===== *)
theory Pg_Tables
  imports Memory_Users
begin

text \<open>
  What the Postgres repositories say to the database: statements over tables, each one atomic step, inside transactions
  that are undone as a whole (\<open>enttx.go\<close>), answered with the client's errors (\<open>enterrors.go\<close>). A table is the
  list of its rows in the order they were inserted; the unique indexes and foreign keys of \<open>internal/store/ent/schema\<close> are
  checked where a row is written, its field rules before.
\<close>

section \<open>Errors\<close>

text \<open>
  What the client answers: nothing found, more than one row for \<open>Only\<close>, an integrity violation with its code, a field that
  does not pass its rules, or what the function inside the transaction returned.
\<close>

datatype ent_failure = RowNotFound | RowNotSingular | PgError string | FieldInvalid string | Raised err

definition pgUniqueViolation :: string where "pgUniqueViolation = ''23505''"
definition pgForeignKeyViolation :: string where "pgForeignKeyViolation = ''23503''"

fun hasPGCode :: "ent_failure \<Rightarrow> string \<Rightarrow> bool" where
  "hasPGCode (PgError found) code \<longleftrightarrow> found = code"
| "hasPGCode _ code \<longleftrightarrow> False"

definition isNotFound :: "ent_failure \<Rightarrow> bool" where "isNotFound e \<longleftrightarrow> e = RowNotFound"
definition isUniqueViolation :: "ent_failure \<Rightarrow> bool" where "isUniqueViolation e \<longleftrightarrow> hasPGCode e pgUniqueViolation"
definition isForeignKeyViolation :: "ent_failure \<Rightarrow> bool" where
  "isForeignKeyViolation e \<longleftrightarrow> hasPGCode e pgForeignKeyViolation"

lemma violation_simps [simp]:
  "isNotFound RowNotFound" "\<not> isNotFound RowNotSingular" "\<not> isNotFound (PgError code)" "\<not> isNotFound (FieldInvalid field)"
  "\<not> isNotFound (Raised e)" "isUniqueViolation (PgError pgUniqueViolation)" "\<not> isUniqueViolation RowNotFound"
  "\<not> isUniqueViolation (FieldInvalid field)" "\<not> isUniqueViolation (Raised e)"
  "\<not> isUniqueViolation (PgError pgForeignKeyViolation)"
  by (simp_all add: isNotFound_def isUniqueViolation_def pgUniqueViolation_def pgForeignKeyViolation_def)

section \<open>Statements\<close>

text \<open>\<open>Only\<close> and \<open>First\<close> of a query's rows.\<close>

fun only_row :: "'r list \<Rightarrow> ent_failure + 'r" where
  "only_row [] = Inl RowNotFound"
| "only_row [r] = Inr r"
| "only_row (r # r' # rows) = Inl RowNotSingular"

fun first_row :: "'r list \<Rightarrow> ent_failure + 'r" where
  "first_row [] = Inl RowNotFound"
| "first_row (r # rows) = Inr r"

text \<open>\<open>LIMIT\<close> and \<open>OFFSET\<close>: the client leaves a zero out of the statement; the database refuses a negative number.\<close>

definition limit_rows :: "int \<Rightarrow> int \<Rightarrow> 'r list \<Rightarrow> ent_failure + 'r list" where
  "limit_rows limit offset rows =
     (if limit < 0 then Inl (PgError ''2201W'')
      else if offset < 0 then Inl (PgError ''2201X'')
      else let rows = drop (nat offset) rows in Inr (if limit = 0 then rows else take (nat limit) rows))"

text \<open>\<open>UPDATE \<dots> SET \<dots> WHERE \<dots>\<close>: every row the condition selects, and how many there were.\<close>

definition set_where :: "('r \<Rightarrow> bool) \<Rightarrow> ('r \<Rightarrow> 'r) \<Rightarrow> 'r list \<Rightarrow> 'r list" where
  "set_where P f rows = map (\<lambda>r. if P r then f r else r) rows"

definition affected :: "('r \<Rightarrow> bool) \<Rightarrow> 'r list \<Rightarrow> nat" where
  "affected P rows = length (filter P rows)"

text \<open>The rules of a string field: \<open>NotEmpty\<close> and \<open>MaxLen\<close>, which counts bytes.\<close>

definition field_ok :: "nat \<Rightarrow> string \<Rightarrow> bool" where
  "field_ok max' s \<longleftrightarrow> s \<noteq> [] \<and> length s \<le> max'"

section \<open>Transactions\<close>

text \<open>\<open>withEntTx\<close>: when the function fails, everything it wrote is undone.\<close>

definition withEntTx :: "('s, ent_failure, 'a) prog \<Rightarrow> ('s, ent_failure, 'a) prog" where
  "withEntTx p s = (case p s of (Inl e, _) \<Rightarrow> (Inl e, s) | (Inr x, s') \<Rightarrow> (Inr x, s'))"

lemma withEntTx_eq:
  "withEntTx p s = (Inr x, s') \<longleftrightarrow> p s = (Inr x, s')"
  "withEntTx p s = (Inl e, s') \<longleftrightarrow> s' = s \<and> fst (p s) = Inl e"
  by (auto simp: withEntTx_def split: prod.splits sum.splits)

text \<open>A repository method's last lines: the client's error becomes the domain's.\<close>

definition translate :: "(ent_failure \<Rightarrow> err) \<Rightarrow> ('s, ent_failure, 'a) prog \<Rightarrow> ('s, err, 'a) prog" where
  "translate f p = attempt p (\<lambda>r. case r of Inl e \<Rightarrow> refuse (f e) | Inr x \<Rightarrow> ok x)"

lemma translate_run: "translate f p s = (case p s of (Inl e, s') \<Rightarrow> (Inl (f e), s') | (Inr x, s') \<Rightarrow> (Inr x, s'))"
  by (auto simp: translate_def attempt_def refuse_def ok_def split: prod.split sum.split)

lemma translate_eq:
  "translate f p s = (Inr x, s') \<longleftrightarrow> p s = (Inr x, s')"
  "translate f p s = (Inl d, s') \<longleftrightarrow> (\<exists>e. p s = (Inl e, s') \<and> d = f e)"
  by (auto simp: translate_run split: prod.splits sum.splits)

text \<open>\<open>isNotFound\<close> first, otherwise the wrapped error.\<close>

definition or_not_found :: "string \<Rightarrow> ent_failure \<Rightarrow> err" where
  "or_not_found op e = (if isNotFound e then user_not_found else DriverErr (''store: '' @ op))"

definition wrapped :: "string \<Rightarrow> ent_failure \<Rightarrow> err" where
  "wrapped op e = DriverErr (''store: '' @ op)"

end
