(* ===== verification/Pg_Users.thy ===== *)
theory Pg_Users
  imports Pg_Tables User_Service "HOL-Library.Product_Lexorder"
begin

text \<open>
  The Postgres account repository: \<open>user.go\<close>, \<open>user_sign_in.go\<close> and \<open>user_email_change.go\<close> of
  \<open>internal/store/repositories\<close>, statement by statement. Accounts are soft-deleted (\<open>schema/softdelete.go\<close>): a query
  sees live rows only and a delete is an update, while an update sees every row it does not exclude itself.
\<close>

section \<open>The tables\<close>

text \<open>The three tables of codes keep \<open>created_at\<close> beside the row; it orders them.\<close>

record PgUsers =
  pt_users :: "User list"
  pt_resets :: "(time \<times> PasswordReset) list"
  pt_changes :: "(time \<times> EmailChange) list"
  pt_devices :: "Device list"
  pt_challenges :: "(time \<times> TwoFactorChallenge) list"
  pt_events :: "LoginEvent list"

type_synonym 'a sql = "(PgUsers, ent_failure, 'a) prog"
type_synonym 'a pprog = "(PgUsers, err, 'a) prog"

definition NewPgUsers :: PgUsers where
  "NewPgUsers = \<lparr>pt_users = [], pt_resets = [], pt_changes = [], pt_devices = [], pt_challenges = [], pt_events = []\<rparr>"

text \<open>The primary key, and the partial unique index on the addresses of live accounts.\<close>

definition users_unique :: "User list \<Rightarrow> bool" where
  "users_unique rows \<longleftrightarrow> distinct (map u_ID rows) \<and> distinct (map u_Email (filter (\<lambda>u. \<not> UserIsDeleted u) rows))"

definition user_row_exists :: "uuid \<Rightarrow> PgUsers \<Rightarrow> bool" where
  "user_row_exists k s \<longleftrightarrow> (\<exists>u \<in> set (pt_users s). u_ID u = k)"

text \<open>The interceptor: what a query on the accounts sees.\<close>

definition live_users :: "PgUsers \<Rightarrow> User list" where
  "live_users s = filter (\<lambda>u. \<not> UserIsDeleted u) (pt_users s)"

definition write_users :: "User list \<Rightarrow> 'a \<Rightarrow> 'a sql" where
  "write_users rows x s =
     (if users_unique rows then ok x (s\<lparr>pt_users := rows\<rparr>) else refuse (PgError pgUniqueViolation) s)"

definition update_users :: "(User \<Rightarrow> bool) \<Rightarrow> (User \<Rightarrow> User) \<Rightarrow> nat sql" where
  "update_users P f s = write_users (set_where P f (pt_users s)) (affected P (pt_users s)) s"

section \<open>Accounts\<close>

definition PgCreate :: "Call \<Rightarrow> User \<Rightarrow> User pprog" where
  "PgCreate c u =
     translate (\<lambda>e. if isUniqueViolation e then UserErr ErrEmailTaken else DriverErr ''store: create user'')
       (\<lambda>s. let row = u\<lparr>u_ID := (if u_ID u \<noteq> uuid_Nil then u_ID u else c_newID c DrawUser),
                   u_CreatedAt := c_now c ClockRow, u_DeletedAt := None, u_AvatarID := None\<rparr> in
            if \<not> field_ok 100 (u_Name u) \<or> \<not> field_ok 255 (u_Email u) \<or> \<not> field_ok 255 (u_PasswordHash u) \<or>
               10 < length (u_Locale u)
            then refuse (FieldInvalid ''users'') s
            else write_users (pt_users s @ [row]) (u\<lparr>u_ID := u_ID row, u_CreatedAt := u_CreatedAt row\<rparr>) s)"

definition PgByID :: "uuid \<Rightarrow> PgUsers \<Rightarrow> err + User" where
  "PgByID k s =
     (case only_row (filter (\<lambda>u. u_ID u = k) (live_users s)) of
        Inl e \<Rightarrow> Inl (or_not_found ''user by id'' e)
      | Inr u \<Rightarrow> Inr u)"

definition PgAll :: "int \<Rightarrow> int \<Rightarrow> PgUsers \<Rightarrow> err + User list" where
  "PgAll limit offset s =
     (case limit_rows limit offset (rev (sort_key u_ID (live_users s))) of
        Inl e \<Rightarrow> Inl (wrapped ''all users'' e)
      | Inr rows \<Rightarrow> Inr rows)"

text \<open>
  \<open>DeleteOneID\<close> through the hook of \<open>SoftDelete\<close>: an update of the row while it is live; no row is not found.
\<close>

definition soft_delete_user :: "time \<Rightarrow> uuid \<Rightarrow> unit sql" where
  "soft_delete_user now k =
     bindp (update_users (\<lambda>u. u_ID u = k \<and> \<not> UserIsDeleted u) (\<lambda>u. u\<lparr>u_DeletedAt := Some now\<rparr>)) (\<lambda>n.
     if n = 0 then refuse RowNotFound else ok ())"

definition PgDelete :: "Call \<Rightarrow> uuid \<Rightarrow> unit pprog" where
  "PgDelete c k =
     bindp (query (PgByID k)) (\<lambda>u.
     bindp (ensure (UserRefuseDelete u)) (\<lambda>_.
     translate (or_not_found ''delete user'')
       (withEntTx
         (bindp (\<lambda>s. ok () (s\<lparr>pt_devices := set_where (\<lambda>d. dv_UserID d = k \<and> dv_RevokedAt d = None)
                   (\<lambda>d. d\<lparr>dv_RevokedAt := Some (c_now c ClockDevice)\<rparr>) (pt_devices s)\<rparr>)) (\<lambda>_.
          soft_delete_user (c_now c ClockRow) k)))))"

text \<open>An update of one live account; no row is not found.\<close>

definition update_live :: "string \<Rightarrow> bool \<Rightarrow> uuid \<Rightarrow> (User \<Rightarrow> User) \<Rightarrow> unit pprog" where
  "update_live op valid k f =
     bindp (translate (wrapped op) (\<lambda>s. if valid then update_users (\<lambda>u. u_ID u = k \<and> \<not> UserIsDeleted u) f s
                                        else refuse (FieldInvalid op) s)) (\<lambda>n.
     if n = 0 then refuse user_not_found else ok ())"

definition PgUpdateProfile :: "uuid \<Rightarrow> string \<Rightarrow> string \<Rightarrow> unit pprog" where
  "PgUpdateProfile k name locale =
     update_live ''update profile'' (field_ok 100 name \<and> length locale \<le> 10) k
       (\<lambda>u. u\<lparr>u_Name := name, u_Locale := locale\<rparr>)"

text \<open>\<open>bumpEpoch\<close>: the given columns and the session epoch in one statement.\<close>

definition bumpEpoch :: "string \<Rightarrow> bool \<Rightarrow> uuid \<Rightarrow> (User \<Rightarrow> User) \<Rightarrow> unit pprog" where
  "bumpEpoch op valid k extra = update_live op valid k (\<lambda>u. extra (u\<lparr>u_SessionEpoch := u_SessionEpoch u + 1\<rparr>))"

definition PgSetPassword :: "uuid \<Rightarrow> string \<Rightarrow> unit pprog" where
  "PgSetPassword k hash =
     bumpEpoch ''set password'' (field_ok 255 hash) k (\<lambda>u. u\<lparr>u_PasswordHash := hash\<rparr>)"

definition PgBumpSessionEpoch :: "uuid \<Rightarrow> unit pprog" where
  "PgBumpSessionEpoch k = bumpEpoch ''bump session epoch'' True k (\<lambda>u. u)"

definition PgSetSuspended :: "uuid \<Rightarrow> time option \<Rightarrow> unit pprog" where
  "PgSetSuspended k at =
     update_live ''set suspended'' True k
       (\<lambda>u. case at of
          Some t \<Rightarrow> u\<lparr>u_SuspendedAt := Some t, u_SessionEpoch := u_SessionEpoch u + 1\<rparr>
        | None \<Rightarrow> u\<lparr>u_SuspendedAt := None\<rparr>)"

definition PgByEmail :: "string \<Rightarrow> PgUsers \<Rightarrow> err + User" where
  "PgByEmail email s =
     (case first_row (filter (\<lambda>u. u_Email u = email) (live_users s)) of
        Inl e \<Rightarrow> Inl (or_not_found ''user by email'' e)
      | Inr u \<Rightarrow> Inr u)"

text \<open>No condition on \<open>deleted_at\<close>, and nobody looks at how many rows there were.\<close>

definition PgSetTwoFactorEnabled :: "uuid \<Rightarrow> bool \<Rightarrow> unit pprog" where
  "PgSetTwoFactorEnabled k enabled =
     bindp (translate (wrapped ''set two factor'')
       (update_users (\<lambda>u. u_ID u = k) (\<lambda>u. u\<lparr>u_TwoFactorEnabled := enabled\<rparr>))) (\<lambda>_. ok ())"

section \<open>Password resets\<close>

text \<open>\<open>ORDER BY created_at DESC\<close> and the first row.\<close>

definition newest :: "(time \<times> 'r) list \<Rightarrow> ent_failure + 'r" where
  "newest rows = (case first_row (sort_key (\<lambda>r. - fst r) rows) of Inl e \<Rightarrow> Inl e | Inr r \<Rightarrow> Inr (snd r))"

text \<open>The two statements of \<open>ReplacePasswordReset\<close>.\<close>

definition delete_open_resets :: "uuid \<Rightarrow> unit sql" where
  "delete_open_resets userID s =
     ok () (s\<lparr>pt_resets := filter (\<lambda>(_, r). \<not> (pr_UserID r = userID \<and> pr_ConsumedAt r = None)) (pt_resets s)\<rparr>)"

definition insert_reset :: "Call \<Rightarrow> PasswordReset \<Rightarrow> PasswordReset sql" where
  "insert_reset c reset s =
     (let row = reset\<lparr>pr_ID := c_newID c DrawCode, pr_ConsumedAt := None\<rparr> in
      if \<not> field_ok 64 (pr_CodeHash reset) then refuse (FieldInvalid ''code_hash'') s
      else if \<not> user_row_exists (pr_UserID reset) s then refuse (PgError pgForeignKeyViolation) s
      else if pr_ID row \<in> set (map (\<lambda>(_, r). pr_ID r) (pt_resets s)) then refuse (PgError pgUniqueViolation) s
      else ok (reset\<lparr>pr_ID := pr_ID row\<rparr>) (s\<lparr>pt_resets := pt_resets s @ [(c_now c ClockRow, row)]\<rparr>))"

definition PgReplacePasswordReset :: "Call \<Rightarrow> PasswordReset \<Rightarrow> PasswordReset pprog" where
  "PgReplacePasswordReset c reset =
     translate (wrapped ''replace password reset'')
       (withEntTx (bindp (delete_open_resets (pr_UserID reset)) (\<lambda>_. insert_reset c reset)))"

definition PgActivePasswordReset :: "uuid \<Rightarrow> time \<Rightarrow> PgUsers \<Rightarrow> err + PasswordReset" where
  "PgActivePasswordReset userID now s =
     (case newest (filter (\<lambda>(_, r). pr_UserID r = userID \<and> pr_ConsumedAt r = None \<and> now < pr_ExpiresAt r) (pt_resets s)) of
        Inl e \<Rightarrow> Inl (or_not_found ''active password reset'' e)
      | Inr r \<Rightarrow> Inr r)"

text \<open>Every \<open>SET\<close> expression reads the row as it was before the update.\<close>

definition PgFailPasswordReset :: "uuid \<Rightarrow> int \<Rightarrow> time \<Rightarrow> unit pprog" where
  "PgFailPasswordReset resetID maxAttempts now s =
     ok () (s\<lparr>pt_resets := set_where (\<lambda>(_, r). pr_ID r = resetID \<and> pr_ConsumedAt r = None)
       (\<lambda>(at, r). (at, r\<lparr>pr_Attempts := pr_Attempts r + 1,
          pr_ConsumedAt := (if maxAttempts \<le> pr_Attempts r + 1 then Some now else pr_ConsumedAt r)\<rparr>))
       (pt_resets s)\<rparr>)"

text \<open>\<open>SetNillableConsumedAt\<close> leaves the column alone when it is given nothing.\<close>

definition set_nillable :: "time option \<Rightarrow> time option \<Rightarrow> time option" where
  "set_nillable new old = (case new of None \<Rightarrow> old | Some t \<Rightarrow> Some t)"

definition update_reset :: "PasswordReset \<Rightarrow> unit sql" where
  "update_reset reset s =
     (let P = (\<lambda>(_, r). pr_ID r = pr_ID reset) in
      if affected P (pt_resets s) = 0 then refuse RowNotFound s
      else ok () (s\<lparr>pt_resets := set_where P (\<lambda>(at, r). (at, r\<lparr>pr_ConsumedAt := set_nillable (pr_ConsumedAt reset) (pr_ConsumedAt r),
             pr_Attempts := pr_Attempts reset\<rparr>)) (pt_resets s)\<rparr>))"

definition PgConsumePasswordReset :: "PasswordReset \<Rightarrow> string \<Rightarrow> unit pprog" where
  "PgConsumePasswordReset reset hash =
     translate (or_not_found ''consume password reset'')
       (withEntTx
         (bindp (\<lambda>s. if field_ok 255 hash
            then update_users (\<lambda>u. u_ID u = pr_UserID reset \<and> \<not> UserIsDeleted u)
              (\<lambda>u. u\<lparr>u_PasswordHash := hash, u_SessionEpoch := u_SessionEpoch u + 1\<rparr>) s
            else refuse (FieldInvalid ''password_hash'') s) (\<lambda>_.
          update_reset reset)))"

section \<open>Email changes\<close>

definition delete_open_changes :: "uuid \<Rightarrow> unit sql" where
  "delete_open_changes userID s =
     ok () (s\<lparr>pt_changes := filter (\<lambda>(_, r). \<not> (ec_UserID r = userID \<and> ec_ConsumedAt r = None)) (pt_changes s)\<rparr>)"

definition insert_change :: "Call \<Rightarrow> EmailChange \<Rightarrow> EmailChange sql" where
  "insert_change c change s =
     (let row = change\<lparr>ec_ID := c_newID c DrawCode, ec_ConsumedAt := None\<rparr> in
      if \<not> field_ok 255 (ec_NewEmail change) \<or> \<not> field_ok 64 (ec_CodeHash change) then refuse (FieldInvalid ''email_changes'') s
      else if \<not> user_row_exists (ec_UserID change) s then refuse (PgError pgForeignKeyViolation) s
      else if ec_ID row \<in> set (map (\<lambda>(_, r). ec_ID r) (pt_changes s)) then refuse (PgError pgUniqueViolation) s
      else ok (change\<lparr>ec_ID := ec_ID row\<rparr>) (s\<lparr>pt_changes := pt_changes s @ [(c_now c ClockRow, row)]\<rparr>))"

definition PgReplaceEmailChange :: "Call \<Rightarrow> EmailChange \<Rightarrow> EmailChange pprog" where
  "PgReplaceEmailChange c change =
     translate (wrapped ''replace email change'')
       (withEntTx (bindp (delete_open_changes (ec_UserID change)) (\<lambda>_. insert_change c change)))"

definition PgActiveEmailChange :: "uuid \<Rightarrow> time \<Rightarrow> PgUsers \<Rightarrow> err + EmailChange" where
  "PgActiveEmailChange userID now s =
     (case newest (filter (\<lambda>(_, r). ec_UserID r = userID \<and> ec_ConsumedAt r = None \<and> now < ec_ExpiresAt r) (pt_changes s)) of
        Inl e \<Rightarrow> Inl (or_not_found ''active email change'' e)
      | Inr r \<Rightarrow> Inr r)"

definition PgFailEmailChange :: "uuid \<Rightarrow> int \<Rightarrow> time \<Rightarrow> unit pprog" where
  "PgFailEmailChange changeID maxAttempts now s =
     ok () (s\<lparr>pt_changes := set_where (\<lambda>(_, r). ec_ID r = changeID \<and> ec_ConsumedAt r = None)
       (\<lambda>(at, r). (at, r\<lparr>ec_Attempts := ec_Attempts r + 1,
          ec_ConsumedAt := (if maxAttempts \<le> ec_Attempts r + 1 then Some now else ec_ConsumedAt r)\<rparr>))
       (pt_changes s)\<rparr>)"

definition update_change :: "EmailChange \<Rightarrow> unit sql" where
  "update_change change s =
     (let P = (\<lambda>(_, r). ec_ID r = ec_ID change) in
      if affected P (pt_changes s) = 0 then refuse RowNotFound s
      else ok () (s\<lparr>pt_changes := set_where P (\<lambda>(at, r). (at, r\<lparr>ec_ConsumedAt := set_nillable (ec_ConsumedAt change) (ec_ConsumedAt r),
             ec_Attempts := ec_Attempts change\<rparr>)) (pt_changes s)\<rparr>))"

text \<open>The unique index on the addresses of live accounts decides whether the address is free.\<close>

definition PgConsumeEmailChange :: "EmailChange \<Rightarrow> string \<Rightarrow> unit pprog" where
  "PgConsumeEmailChange change email =
     translate (\<lambda>e. if isUniqueViolation e then UserErr ErrEmailTaken
                    else if isNotFound e \<or> e = Raised user_not_found then user_not_found
                    else DriverErr ''store: consume email change'')
       (withEntTx
         (bindp (\<lambda>s. if field_ok 255 email
            then update_users (\<lambda>u. u_ID u = ec_UserID change) (\<lambda>u. u\<lparr>u_Email := email\<rparr>) s
            else refuse (FieldInvalid ''email'') s) (\<lambda>n.
          if n = 0 then refuse (Raised user_not_found) else update_change change)))"

section \<open>Devices and the login history\<close>

definition PgDeviceByFingerprint :: "uuid \<Rightarrow> string \<Rightarrow> PgUsers \<Rightarrow> err + Device" where
  "PgDeviceByFingerprint userID fingerprint s =
     (case first_row (filter (\<lambda>d. dv_UserID d = userID \<and> dv_Fingerprint d = fingerprint) (pt_devices s)) of
        Inl e \<Rightarrow> Inl (or_not_found ''device by fingerprint'' e)
      | Inr d \<Rightarrow> Inr d)"

definition PgActiveDevice :: "uuid \<Rightarrow> uuid \<Rightarrow> PgUsers \<Rightarrow> err + Device" where
  "PgActiveDevice userID deviceID s =
     (case first_row (filter (\<lambda>d. dv_ID d = deviceID \<and> dv_UserID d = userID \<and> dv_RevokedAt d = None) (pt_devices s)) of
        Inl e \<Rightarrow> Inl (or_not_found ''active device'' e)
      | Inr d \<Rightarrow> Inr d)"

text \<open>Unique: the primary key, and the fingerprint within an account.\<close>

definition PgCreateDevice :: "Call \<Rightarrow> Device \<Rightarrow> Device pprog" where
  "PgCreateDevice c d =
     translate (wrapped ''create device'')
       (\<lambda>s. let row = d\<lparr>dv_ID := c_newID c DrawDevice, dv_CreatedAt := c_now c ClockDevice\<rparr> in
            if \<not> field_ok 64 (dv_Fingerprint d) \<or> 512 < length (dv_UserAgent d) then refuse (FieldInvalid ''devices'') s
            else if \<not> user_row_exists (dv_UserID d) s then refuse (PgError pgForeignKeyViolation) s
            else if dv_ID row \<in> set (map dv_ID (pt_devices s)) \<or>
              (dv_UserID d, dv_Fingerprint d) \<in> set (map (\<lambda>d. (dv_UserID d, dv_Fingerprint d)) (pt_devices s))
            then refuse (PgError pgUniqueViolation) s
            else ok row (s\<lparr>pt_devices := pt_devices s @ [row]\<rparr>))"

text \<open>\<open>UpdateOneID\<close>: no row is not found.\<close>

definition update_device :: "uuid \<Rightarrow> (Device \<Rightarrow> Device) \<Rightarrow> unit sql" where
  "update_device deviceID f s =
     (let P = (\<lambda>d. dv_ID d = deviceID) in
      if affected P (pt_devices s) = 0 then refuse RowNotFound s
      else ok () (s\<lparr>pt_devices := set_where P f (pt_devices s)\<rparr>))"

definition PgTouchDevice :: "uuid \<Rightarrow> time \<Rightarrow> string \<Rightarrow> string \<Rightarrow> unit pprog" where
  "PgTouchDevice deviceID seenAt ip userAgent =
     attempt (\<lambda>s. if 512 < length userAgent then refuse (FieldInvalid ''user_agent'') s
        else update_device deviceID
          (\<lambda>d. d\<lparr>dv_LastSeenAt := Some seenAt, dv_UserAgent := userAgent, dv_LastIP := Some ip\<rparr>) s) (\<lambda>r. case r of
        Inl e \<Rightarrow> if isNotFound e then ok () else refuse (DriverErr ''store: touch device'')
      | Inr _ \<Rightarrow> ok ())"

text \<open>A device read \<open>FOR UPDATE\<close>: nobody else writes it until the transaction ends.\<close>

definition lockDevice :: "(Device \<Rightarrow> bool) \<Rightarrow> Device sql" where
  "lockDevice P = query (\<lambda>s. only_row (filter P (pt_devices s)))"

definition translateDeviceError :: "string \<Rightarrow> ent_failure \<Rightarrow> err" where
  "translateDeviceError op e =
     (if isNotFound e then user_not_found
      else if e = Raised (EntErr EntErrDeviceRevoked) then UserErr UserErrDeviceRevoked
      else if e = Raised (UserErr ErrInvalidTwoFactorCode) then UserErr ErrInvalidTwoFactorCode
      else DriverErr (''store: '' @ op))"

text \<open>A rule of the entity inside a transaction.\<close>

definition entity_rule :: "err + 'a \<Rightarrow> 'a sql" where
  "entity_rule r s = (case r of Inl e \<Rightarrow> refuse (Raised e) s | Inr x \<Rightarrow> ok x s)"

definition trust_device :: "Call \<Rightarrow> uuid \<Rightarrow> unit sql" where
  "trust_device c deviceID =
     bindp (lockDevice (\<lambda>d. dv_ID d = deviceID)) (\<lambda>row.
     bindp (entity_rule (DeviceTrust (c_now c ClockDevice) row)) (\<lambda>d.
     update_device (dv_ID row) (\<lambda>r. r\<lparr>dv_TrustedAt := set_nillable (dv_TrustedAt d) (dv_TrustedAt r)\<rparr>)))"

definition PgTrustDevice :: "Call \<Rightarrow> uuid \<Rightarrow> unit pprog" where
  "PgTrustDevice c deviceID = translate (translateDeviceError ''trust device'') (withEntTx (trust_device c deviceID))"

definition PgRevokeDevice :: "Call \<Rightarrow> uuid \<Rightarrow> uuid \<Rightarrow> unit pprog" where
  "PgRevokeDevice c userID deviceID =
     attempt (withEntTx
       (bindp (lockDevice (\<lambda>d. dv_ID d = deviceID \<and> dv_UserID d = userID)) (\<lambda>row.
        bindp (entity_rule (DeviceRevoke (c_now c ClockDevice) row)) (\<lambda>d.
        update_device (dv_ID row) (\<lambda>r. r\<lparr>dv_RevokedAt := set_nillable (dv_RevokedAt d) (dv_RevokedAt r),
          dv_TrustedAt := dv_TrustedAt d\<rparr>))))) (\<lambda>r. case r of
        Inl e \<Rightarrow> if e = Raised (EntErr EntErrDeviceRevoked) then ok ()
                 else refuse (translateDeviceError ''revoke device'' e)
      | Inr _ \<Rightarrow> ok ())"

text \<open>\<open>last_seen_at DESC NULLS LAST\<close>, then \<open>created_at DESC\<close>.\<close>

definition device_order :: "Device \<Rightarrow> bool \<times> time \<times> time" where
  "device_order d = (dv_LastSeenAt d = None, - (case dv_LastSeenAt d of None \<Rightarrow> 0 | Some t \<Rightarrow> t), - dv_CreatedAt d)"

definition PgDevices :: "uuid \<Rightarrow> PgUsers \<Rightarrow> err + Device list" where
  "PgDevices userID s = Inr (sort_key device_order (filter (\<lambda>d. dv_UserID d = userID) (pt_devices s)))"

definition PgRecordLoginEvent :: "Call \<Rightarrow> LoginEvent \<Rightarrow> unit pprog" where
  "PgRecordLoginEvent c event =
     translate (wrapped ''record login event'')
       (\<lambda>s. let row = event\<lparr>le_ID := c_newID c DrawLogin, le_CreatedAt := c_now c ClockEvent\<rparr> in
            if 512 < length (le_UserAgent event) then refuse (FieldInvalid ''user_agent'') s
            else if \<not> user_row_exists (le_UserID event) s then refuse (PgError pgForeignKeyViolation) s
            else if le_ID row \<in> set (map le_ID (pt_events s)) then refuse (PgError pgUniqueViolation) s
            else ok () (s\<lparr>pt_events := pt_events s @ [row]\<rparr>))"

definition PgLoginEvents :: "uuid \<Rightarrow> int \<Rightarrow> PgUsers \<Rightarrow> err + LoginEvent list" where
  "PgLoginEvents userID limit s =
     (case limit_rows limit 0 (sort_key (\<lambda>e. - le_CreatedAt e) (filter (\<lambda>e. le_UserID e = userID) (pt_events s))) of
        Inl e \<Rightarrow> Inl (wrapped ''login events'' e)
      | Inr rows \<Rightarrow> Inr rows)"

section \<open>Two-factor challenges\<close>

definition delete_open_challenges :: "uuid \<Rightarrow> unit sql" where
  "delete_open_challenges userID s =
     ok () (s\<lparr>pt_challenges := filter (\<lambda>(_, r). \<not> (tc_UserID r = userID \<and> tc_ConsumedAt r = None)) (pt_challenges s)\<rparr>)"

definition insert_challenge :: "Call \<Rightarrow> TwoFactorChallenge \<Rightarrow> TwoFactorChallenge sql" where
  "insert_challenge c challenge s =
     (let row = challenge\<lparr>tc_ID := c_newID c DrawCode, tc_ConsumedAt := None\<rparr> in
      if \<not> field_ok 64 (tc_CodeHash challenge) then refuse (FieldInvalid ''code_hash'') s
      else if \<not> user_row_exists (tc_UserID challenge) s \<or> tc_DeviceID challenge \<notin> set (map dv_ID (pt_devices s))
      then refuse (PgError pgForeignKeyViolation) s
      else if tc_ID row \<in> set (map (\<lambda>(_, r). tc_ID r) (pt_challenges s)) then refuse (PgError pgUniqueViolation) s
      else ok (challenge\<lparr>tc_ID := tc_ID row\<rparr>) (s\<lparr>pt_challenges := pt_challenges s @ [(c_now c ClockRow, row)]\<rparr>))"

definition PgReplaceTwoFactorChallenge :: "Call \<Rightarrow> TwoFactorChallenge \<Rightarrow> TwoFactorChallenge pprog" where
  "PgReplaceTwoFactorChallenge c challenge =
     translate (wrapped ''replace two factor challenge'')
       (withEntTx (bindp (delete_open_challenges (tc_UserID challenge)) (\<lambda>_. insert_challenge c challenge)))"

definition PgActiveTwoFactorChallenge :: "uuid \<Rightarrow> time \<Rightarrow> PgUsers \<Rightarrow> err + TwoFactorChallenge" where
  "PgActiveTwoFactorChallenge userID now s =
     (case newest (filter (\<lambda>(_, r). tc_UserID r = userID \<and> tc_ConsumedAt r = None \<and> now < tc_ExpiresAt r) (pt_challenges s)) of
        Inl e \<Rightarrow> Inl (or_not_found ''active two factor challenge'' e)
      | Inr r \<Rightarrow> Inr r)"

definition PgFailTwoFactorChallenge :: "uuid \<Rightarrow> int \<Rightarrow> time \<Rightarrow> unit pprog" where
  "PgFailTwoFactorChallenge challengeID maxAttempts now s =
     ok () (s\<lparr>pt_challenges := set_where (\<lambda>(_, r). tc_ID r = challengeID \<and> tc_ConsumedAt r = None)
       (\<lambda>(at, r). (at, r\<lparr>tc_Attempts := tc_Attempts r + 1,
          tc_ConsumedAt := (if maxAttempts \<le> tc_Attempts r + 1 then Some now else tc_ConsumedAt r)\<rparr>))
       (pt_challenges s)\<rparr>)"

definition PgConsumeTwoFactorChallenge :: "Call \<Rightarrow> uuid \<Rightarrow> uuid \<Rightarrow> time \<Rightarrow> unit pprog" where
  "PgConsumeTwoFactorChallenge c challengeID deviceID at =
     translate (translateDeviceError ''consume two factor challenge'')
       (withEntTx
         (bindp (\<lambda>s. let P = (\<lambda>(_, r). tc_ID r = challengeID \<and> tc_ConsumedAt r = None) in
            ok (affected P (pt_challenges s))
              (s\<lparr>pt_challenges := set_where P (\<lambda>(t, r). (t, r\<lparr>tc_ConsumedAt := Some at\<rparr>)) (pt_challenges s)\<rparr>)) (\<lambda>spent.
          if spent = 0 then refuse (Raised (UserErr ErrInvalidTwoFactorCode))
          else trust_device c deviceID)))"

section \<open>The repository\<close>

definition pg_users :: "PgUsers UserRepository" where
  "pg_users =
     \<lparr>ur_Create = PgCreate, ur_ByID = PgByID, ur_ByEmail = PgByEmail, ur_All = PgAll, ur_Delete = PgDelete,
      ur_UpdateProfile = PgUpdateProfile, ur_SetPassword = PgSetPassword, ur_BumpSessionEpoch = PgBumpSessionEpoch,
      ur_SetSuspended = PgSetSuspended,
      ur_ReplacePasswordReset = PgReplacePasswordReset, ur_ActivePasswordReset = PgActivePasswordReset,
      ur_FailPasswordReset = PgFailPasswordReset, ur_ConsumePasswordReset = PgConsumePasswordReset,
      ur_ReplaceEmailChange = PgReplaceEmailChange, ur_ActiveEmailChange = PgActiveEmailChange,
      ur_FailEmailChange = PgFailEmailChange, ur_ConsumeEmailChange = PgConsumeEmailChange,
      ur_DeviceByFingerprint = PgDeviceByFingerprint, ur_CreateDevice = PgCreateDevice, ur_TouchDevice = PgTouchDevice,
      ur_TrustDevice = PgTrustDevice, ur_Devices = PgDevices, ur_RevokeDevice = PgRevokeDevice,
      ur_ActiveDevice = PgActiveDevice, ur_RecordLoginEvent = PgRecordLoginEvent, ur_LoginEvents = PgLoginEvents,
      ur_SetTwoFactorEnabled = PgSetTwoFactorEnabled,
      ur_ReplaceTwoFactorChallenge = PgReplaceTwoFactorChallenge,
      ur_ActiveTwoFactorChallenge = PgActiveTwoFactorChallenge,
      ur_FailTwoFactorChallenge = PgFailTwoFactorChallenge,
      ur_ConsumeTwoFactorChallenge = PgConsumeTwoFactorChallenge\<rparr>"

end
