(* ===== verification/Pg_Refinement.thy ===== *)
theory Pg_Refinement
  imports Pg_Users Users_Memory
begin

text \<open>
  The Postgres repository against the in-memory one: the tables as the maps of the memory store, and one lemma per
  method that both answer the same and stay related.
\<close>

section \<open>Tables as maps\<close>

definition keyed :: "('v \<Rightarrow> 'k) \<Rightarrow> 'v list \<Rightarrow> ('k, 'v) amap" where
  "keyed key rows = map (\<lambda>v. (key v, v)) rows"

lemma keyed_simps [simp]:
  "map fst (keyed key rows) = map key rows" "map snd (keyed key rows) = rows"
  "keyed key [] = []" "keyed key (rows @ rows') = keyed key rows @ keyed key rows'"
  by (simp_all add: keyed_def comp_def)

lemma keyed_Cons [simp]: "keyed key (v # rows) = (key v, v) # keyed key rows"
  by (simp add: keyed_def)

lemma keyed_in: "map_of (keyed key rows) k = Some v \<Longrightarrow> v \<in> set rows \<and> key v = k"
  by (auto simp: keyed_def dest: map_of_SomeD)

lemma keyed_None: "map_of (keyed key rows) k = None \<longleftrightarrow> k \<notin> key ` set rows"
  by (simp add: map_of_eq_None_iff keyed_def image_image)

lemma keyed_rows_ok: "rows_ok key (keyed key rows) \<longleftrightarrow> distinct (map key rows)"
  using keyed_in[of key rows] by (auto simp: rows_ok_def)

lemma keyed_lookup: "distinct (map key rows) \<Longrightarrow> v \<in> set rows \<Longrightarrow> map_of (keyed key rows) (key v) = Some v"
proof (induction rows)
  case (Cons r rows)
  have "key r \<noteq> key v" if "v \<in> set rows" using Cons.prems(1) that by (simp add: image_iff)
  with Cons show ?case by auto
qed simp

lemma keyed_append: "k \<notin> key ` set rows \<Longrightarrow> key v = k \<Longrightarrow> AList.update k v (keyed key rows) = keyed key (rows @ [v])"
  by (induction rows) auto

lemma keyed_filter: "filter (\<lambda>(_, v). P v) (keyed key rows) = keyed key (filter P rows)"
  by (induction rows) auto

lemma set_where_id: "(\<And>r. r \<in> set rows \<Longrightarrow> P r \<Longrightarrow> f r = r) \<Longrightarrow> set_where P f rows = rows"
  by (auto simp: set_where_def intro!: map_idI)

lemma set_where_cong:
  "(\<And>r. r \<in> set rows \<Longrightarrow> P r \<longleftrightarrow> Q r) \<Longrightarrow> (\<And>r. r \<in> set rows \<Longrightarrow> P r \<Longrightarrow> f r = g r) \<Longrightarrow>
   set_where P f rows = set_where Q g rows"
  by (auto simp: set_where_def)

lemma keyed_update:
  "distinct (map key rows) \<Longrightarrow> map_of (keyed key rows) k = Some v \<Longrightarrow> key w = k \<Longrightarrow>
   AList.update k w (keyed key rows) = keyed key (set_where (\<lambda>r. key r = k) (\<lambda>_. w) rows)"
proof (induction rows)
  case (Cons r rows)
  show ?case
  proof (cases "key r = k")
    case True
    then have "key r' \<noteq> k" if "r' \<in> set rows" for r'
      using Cons.prems(1) that by (simp add: image_iff) metis
    then have "set_where (\<lambda>r. key r = k) (\<lambda>_. w) rows = rows" by (intro set_where_id) blast
    then show ?thesis using True Cons.prems(3) by (simp add: set_where_def)
  next
    case False
    then show ?thesis using Cons by (simp add: set_where_def)
  qed
qed simp

lemma distinct_filter_one: "distinct rows \<Longrightarrow> v \<in> set rows \<Longrightarrow> filter (\<lambda>r. r = v) rows = [v]"
proof (induction rows)
  case (Cons r rows)
  show ?case
  proof (cases "r = v")
    case True
    then have "filter (\<lambda>r. r = v) rows = []" using Cons.prems(1) by (auto simp: filter_empty_conv)
    then show ?thesis using True by simp
  next
    case False
    then show ?thesis using Cons by simp
  qed
qed simp

text \<open>An update of the one row with a key, if it satisfies a condition.\<close>

lemma where_hit:
  assumes "distinct (map key rows)" "map_of (keyed key rows) k = Some v" "P v"
  shows "set_where (\<lambda>r. key r = k \<and> P r) f rows = set_where (\<lambda>r. key r = k) (\<lambda>_. f v) rows"
    and "affected (\<lambda>r. key r = k \<and> P r) rows = 1"
    and "filter (\<lambda>r. key r = k \<and> P r) rows = [v]"
proof -
  have only: "r = v" if "r \<in> set rows" "key r = k" for r
    using keyed_lookup[OF assms(1) that(1)] that(2) assms(2) by simp
  have v: "v \<in> set rows" "key v = k" using keyed_in[OF assms(2)] by simp_all
  show "set_where (\<lambda>r. key r = k \<and> P r) f rows = set_where (\<lambda>r. key r = k) (\<lambda>_. f v) rows"
    using only assms(3) by (intro set_where_cong) metis+
  have "distinct rows" using assms(1) by (simp add: distinct_map)
  then have "filter (\<lambda>r. r = v) rows = [v]" using v(1) by (rule distinct_filter_one)
  moreover have "(key r = k \<and> P r) = (r = v)" if "r \<in> set rows" for r
    using only[OF that] v(2) assms(3) by blast
  then have "filter (\<lambda>r. key r = k \<and> P r) rows = filter (\<lambda>r. r = v) rows"
    by (intro filter_cong refl)
  ultimately show "filter (\<lambda>r. key r = k \<and> P r) rows = [v]" by simp
  then show "affected (\<lambda>r. key r = k \<and> P r) rows = 1" by (simp add: affected_def)
qed

lemma where_miss:
  assumes "distinct (map key rows)" "\<And>v. map_of (keyed key rows) k = Some v \<Longrightarrow> \<not> P v"
  shows "set_where (\<lambda>r. key r = k \<and> P r) f rows = rows" "affected (\<lambda>r. key r = k \<and> P r) rows = 0"
    "filter (\<lambda>r. key r = k \<and> P r) rows = []"
proof -
  have none: "\<not> (key r = k \<and> P r)" if "r \<in> set rows" for r
    using keyed_lookup[OF assms(1) that] assms(2) by auto
  then show "set_where (\<lambda>r. key r = k \<and> P r) f rows = rows" by (intro set_where_id) auto
  show "filter (\<lambda>r. key r = k \<and> P r) rows = []" using none by (auto simp: filter_empty_conv)
  then show "affected (\<lambda>r. key r = k \<and> P r) rows = 0" by (simp add: affected_def)
qed

lemmas where_hit_key = where_hit[where P = "\<lambda>_. True", simplified]
lemmas where_miss_key = where_miss[where P = "\<lambda>_. True", simplified]

text \<open>The time stamp beside a row is not looked at.\<close>

lemma stamped:
  "map snd (filter (\<lambda>(_, r). P r) rows) = filter P (map snd rows)"
  "map snd (set_where (\<lambda>(_, r). P r) (\<lambda>(at, r). (at, f r)) rows) = set_where P f (map snd rows)"
  "affected (\<lambda>(_, r). P r) rows = affected P (map snd rows)"
  "map (\<lambda>(_, r). g r) rows = map g (map snd rows)"
  by (induction rows) (auto simp: set_where_def affected_def)

lemma first_row_find: "first_row (filter P rows) = (case List.find P rows of None \<Rightarrow> Inl RowNotFound | Some r \<Rightarrow> Inr r)"
  by (induction rows) auto

text \<open>With at most one row that qualifies, no order matters.\<close>

lemma newest_unique:
  assumes "\<And>r r'. r \<in> set (map snd rows) \<Longrightarrow> r' \<in> set (map snd rows) \<Longrightarrow> P r \<Longrightarrow> P r' \<Longrightarrow> r = r'"
  shows "newest (filter (\<lambda>(_, r). P r) rows) =
     (case List.find P (map snd rows) of None \<Rightarrow> Inl RowNotFound | Some r \<Rightarrow> Inr r)"
proof -
  let ?found = "sort_key (\<lambda>r. - fst r) (filter (\<lambda>(_, r). P r) rows)"
  have members: "set ?found = {r \<in> set rows. P (snd r)}" by (auto simp: split_beta)
  show ?thesis
  proof (cases ?found)
    case Nil
    then have "\<not> (\<exists>r \<in> set (map snd rows). P r)" using members by auto
    then have "List.find P (map snd rows) = None" by (auto simp: find_None_iff)
    then show ?thesis using Nil by (simp add: newest_def)
  next
    case (Cons r rest)
    then have r: "r \<in> set rows" "P (snd r)" using members by (auto dest: equalityD1)
    then have "List.find P (map snd rows) = Some (snd r)"
      using assms by (intro find_Some_unique) auto
    then show ?thesis using Cons by (simp add: newest_def)
  qed
qed

section \<open>The relation\<close>

text \<open>
  Deleting an account in Postgres revokes its devices but leaves them marked as trusted, which the memory store does
  not; no rule tells the two apart, so a revoked device is read as one that is not trusted.
\<close>

definition norm_device :: "Device \<Rightarrow> Device" where
  "norm_device d = (if DeviceIsRevoked d then d\<lparr>dv_TrustedAt := None\<rparr> else d)"

definition pg_memory :: "PgUsers \<Rightarrow> Users" where
  "pg_memory s =
     \<lparr>us_users = keyed u_ID (pt_users s), us_byEmail = map (\<lambda>u. (u_Email u, u_ID u)) (live_users s),
      us_resets = keyed pr_ID (map snd (pt_resets s)), us_emailChg = keyed ec_ID (map snd (pt_changes s)),
      us_devices = keyed dv_ID (map norm_device (pt_devices s)),
      us_challenges = keyed tc_ID (map snd (pt_challenges s)), us_events = pt_events s\<rparr>"

text \<open>The address index of the memory store holds exactly the live accounts.\<close>

definition index_exact :: "Users \<Rightarrow> bool" where
  "index_exact m \<longleftrightarrow> (\<forall>email k. map_of (us_byEmail m) email = Some k \<longleftrightarrow>
     (\<exists>u. map_of (us_users m) k = Some u \<and> \<not> UserIsDeleted u \<and> u_Email u = email))"

definition related :: "PgUsers \<Rightarrow> Users \<Rightarrow> bool" where
  "related s m \<longleftrightarrow> m = (pg_memory s)\<lparr>us_byEmail := us_byEmail m\<rparr> \<and> index_exact m"

definition simulates :: "PgUsers \<Rightarrow> Users \<Rightarrow> bool" where
  "simulates s m \<longleftrightarrow> accounts_wf m \<and> related s m"

text \<open>Two calls answer the same and leave related states.\<close>

definition agree :: "'a pprog \<Rightarrow> 'a uprog \<Rightarrow> PgUsers \<Rightarrow> Users \<Rightarrow> bool" where
  "agree p q s m \<longleftrightarrow> fst (p s) = fst (q m) \<and> related (snd (p s)) (snd (q m))"

lemma pg_memory_sel [simp]:
  "us_users (pg_memory s) = keyed u_ID (pt_users s)"
  "us_byEmail (pg_memory s) = map (\<lambda>u. (u_Email u, u_ID u)) (live_users s)"
  "us_resets (pg_memory s) = keyed pr_ID (map snd (pt_resets s))"
  "us_emailChg (pg_memory s) = keyed ec_ID (map snd (pt_changes s))"
  "us_devices (pg_memory s) = keyed dv_ID (map norm_device (pt_devices s))"
  "us_challenges (pg_memory s) = keyed tc_ID (map snd (pt_challenges s))"
  "us_events (pg_memory s) = pt_events s"
  by (simp_all add: pg_memory_def)

lemma related_sel:
  assumes "related s m"
  shows "us_users m = keyed u_ID (pt_users s)" "us_resets m = keyed pr_ID (map snd (pt_resets s))"
    "us_emailChg m = keyed ec_ID (map snd (pt_changes s))" "us_devices m = keyed dv_ID (map norm_device (pt_devices s))"
    "us_challenges m = keyed tc_ID (map snd (pt_challenges s))" "us_events m = pt_events s" "index_exact m"
proof -
  have m: "m = (pg_memory s)\<lparr>us_byEmail := us_byEmail m\<rparr>" using assms unfolding related_def by blast
  show "us_users m = keyed u_ID (pt_users s)" by (subst m) simp
  show "us_resets m = keyed pr_ID (map snd (pt_resets s))" by (subst m) simp
  show "us_emailChg m = keyed ec_ID (map snd (pt_changes s))" by (subst m) simp
  show "us_devices m = keyed dv_ID (map norm_device (pt_devices s))" by (subst m) simp
  show "us_challenges m = keyed tc_ID (map snd (pt_challenges s))" by (subst m) simp
  show "us_events m = pt_events s" by (subst m) simp
  show "index_exact m" using assms unfolding related_def by blast
qed

lemma relatedI:
  assumes "us_users m = keyed u_ID (pt_users s)" "us_resets m = keyed pr_ID (map snd (pt_resets s))"
    "us_emailChg m = keyed ec_ID (map snd (pt_changes s))" "us_devices m = keyed dv_ID (map norm_device (pt_devices s))"
    "us_challenges m = keyed tc_ID (map snd (pt_challenges s))" "us_events m = pt_events s" "index_exact m"
  shows "related s m"
  using assms unfolding related_def by (cases m) (simp add: pg_memory_def)

lemma simulatesD:
  assumes "simulates s m"
  shows "accounts_wf m" "related s m" "distinct (map u_ID (pt_users s))" "distinct (map pr_ID (map snd (pt_resets s)))"
    "distinct (map ec_ID (map snd (pt_changes s)))" "distinct (map dv_ID (pt_devices s))"
    "distinct (map tc_ID (map snd (pt_challenges s)))"
proof -
  show wf: "accounts_wf m" and rel: "related s m" using assms by (simp_all add: simulates_def)
  have same: "map dv_ID (map norm_device ds) = map dv_ID ds" for ds by (auto simp: norm_device_def)
  show "distinct (map u_ID (pt_users s))" "distinct (map pr_ID (map snd (pt_resets s)))"
    "distinct (map ec_ID (map snd (pt_changes s)))" "distinct (map dv_ID (pt_devices s))"
    "distinct (map tc_ID (map snd (pt_challenges s)))"
    using accounts_wfD[OF wf] unfolding related_sel[OF rel] keyed_rows_ok same by blast+
qed

lemma simulates_unique: "simulates s m \<Longrightarrow> users_unique (pt_users s)"
proof -
  assume sim: "simulates s m"
  have "u = v" if "u \<in> set (pt_users s)" "v \<in> set (pt_users s)" "\<not> UserIsDeleted u" "\<not> UserIsDeleted v"
    "u_Email u = u_Email v" for u v
  proof -
    have rows: "map_of (us_users m) (u_ID u) = Some u" "map_of (us_users m) (u_ID v) = Some v"
      using keyed_lookup[OF simulatesD(3)[OF sim]] that by (simp_all add: related_sel[OF simulatesD(2)[OF sim]])
    have exact: "map_of (us_byEmail m) (u_Email w) = Some (u_ID w)"
      if "map_of (us_users m) (u_ID w) = Some w" "\<not> UserIsDeleted w" for w
      using related_sel(7)[OF simulatesD(2)[OF sim]] that unfolding index_exact_def by blast
    have "u_ID u = u_ID v" using exact[OF rows(1) that(3)] exact[OF rows(2) that(4)] that(5) by (metis option.inject)
    then show ?thesis using rows by (metis option.inject)
  qed
  then have "inj_on u_Email (set (filter (\<lambda>u. \<not> UserIsDeleted u) (pt_users s)))"
    unfolding inj_on_def set_filter by blast
  moreover have "distinct (pt_users s)" using simulatesD(3)[OF sim] by (simp add: distinct_map)
  ultimately show ?thesis using simulatesD(3)[OF sim] by (simp add: users_unique_def distinct_map)
qed

lemma index_exactD:
  "index_exact m \<Longrightarrow> map_of (us_users m) k = Some u \<Longrightarrow> \<not> UserIsDeleted u \<Longrightarrow> map_of (us_byEmail m) (u_Email u) = Some k"
  unfolding index_exact_def by blast

lemma index_exact_update:
  assumes "index_exact m" "map_of (us_users m) k = Some u" "u_Email u' = u_Email u" "UserIsDeleted u' = UserIsDeleted u"
  shows "index_exact (m\<lparr>us_users := AList.update k u' (us_users m)\<rparr>)"
  using assms unfolding index_exact_def by (auto simp: amap_simps)

lemma index_exact_other [simp]:
  "index_exact (m\<lparr>us_resets := a\<rparr>) = index_exact m" "index_exact (m\<lparr>us_emailChg := b\<rparr>) = index_exact m"
  "index_exact (m\<lparr>us_devices := d\<rparr>) = index_exact m" "index_exact (m\<lparr>us_challenges := e\<rparr>) = index_exact m"
  "index_exact (m\<lparr>us_events := f\<rparr>) = index_exact m"
  by (simp_all add: index_exact_def)

section \<open>Accounts\<close>

lemma users_unique_set_where:
  assumes "\<And>u. u_ID (f u) = u_ID u \<and> u_Email (f u) = u_Email u \<and> u_DeletedAt (f u) = u_DeletedAt u"
  shows "users_unique (set_where P f rows) = users_unique rows"
proof -
  have "map u_ID (set_where P f rows) = map u_ID rows" using assms by (auto simp: set_where_def)
  moreover have "map u_Email (filter (\<lambda>u. \<not> UserIsDeleted u) (set_where P f rows)) =
      map u_Email (filter (\<lambda>u. \<not> UserIsDeleted u) rows)"
    using assms by (induction rows) (auto simp: set_where_def UserIsDeleted_def)
  ultimately show ?thesis by (simp add: users_unique_def)
qed

lemma update_users_run:
  "users_unique (set_where P f (pt_users s)) \<Longrightarrow>
   update_users P f s = (Inr (affected P (pt_users s)), s\<lparr>pt_users := set_where P f (pt_users s)\<rparr>)"
  by (simp add: update_users_def write_users_def ok_def)

text \<open>A live row updated in both stores.\<close>

lemma live_row_updated:
  assumes sim: "simulates s m" and u: "map_of (us_users m) k = Some u" "\<not> UserIsDeleted u"
    and f: "u_ID (f u) = u_ID u" "u_Email (f u) = u_Email u" "u_DeletedAt (f u) = u_DeletedAt u"
  shows "related (s\<lparr>pt_users := set_where (\<lambda>u. u_ID u = k \<and> \<not> UserIsDeleted u) f (pt_users s)\<rparr>)
     (m\<lparr>us_users := AList.update k (f u) (us_users m)\<rparr>)"
    and "affected (\<lambda>u. u_ID u = k \<and> \<not> UserIsDeleted u) (pt_users s) = 1"
proof -
  note rel = related_sel[OF simulatesD(2)[OF sim]]
  note hit = where_hit[where P = "\<lambda>u. \<not> UserIsDeleted u", OF simulatesD(3)[OF sim] u(1)[unfolded rel(1)] u(2)]
  have id: "u_ID (f u) = k" using keyed_in[OF u(1)[unfolded rel(1)]] f by simp
  show "related (s\<lparr>pt_users := set_where (\<lambda>u. u_ID u = k \<and> \<not> UserIsDeleted u) f (pt_users s)\<rparr>)
      (m\<lparr>us_users := AList.update k (f u) (us_users m)\<rparr>)"
  proof (rule relatedI)
    show "index_exact (m\<lparr>us_users := AList.update k (f u) (us_users m)\<rparr>)"
      using rel(7) u f by (intro index_exact_update[where u = u]) (auto simp: UserIsDeleted_def)
  qed (simp_all add: rel hit(1)[of f] keyed_update[OF simulatesD(3)[OF sim] u(1)[unfolded rel(1)] id])
  show "affected (\<lambda>u. u_ID u = k \<and> \<not> UserIsDeleted u) (pt_users s) = 1" by (rule hit(2))
qed

text \<open>The shape the account updates share, in both stores.\<close>

lemma update_live_agrees:
  assumes sim: "simulates s m" and valid: "valid"
    and f: "\<And>u. u_ID (f u) = u_ID u \<and> u_Email (f u) = u_Email u \<and> u_DeletedAt (f u) = u_DeletedAt u"
  shows "agree (update_live op valid k f) (with_user UserIsDeleted f k) s m"
proof -
  note rel = related_sel[OF simulatesD(2)[OF sim]]
  let ?P = "\<lambda>u. u_ID u = k \<and> \<not> UserIsDeleted u"
  have run: "update_live op valid k f s =
      ((if affected ?P (pt_users s) = 0 then Inl user_not_found else Inr ()), s\<lparr>pt_users := set_where ?P f (pt_users s)\<rparr>)"
    using valid simulates_unique[OF sim]
    by (simp add: update_live_def bindp_def translate_run update_users_run users_unique_set_where[OF f] refuse_def ok_def)
  show ?thesis
  proof (cases "\<exists>u. map_of (us_users m) k = Some u \<and> \<not> UserIsDeleted u")
    case True
    then obtain u where u: "map_of (us_users m) k = Some u" "\<not> UserIsDeleted u" by blast
    have mem: "with_user UserIsDeleted f k m = (Inr (), m\<lparr>us_users := AList.update k (f u) (us_users m)\<rparr>)"
      using u by (simp add: with_user_def ok_def)
    then show ?thesis using live_row_updated[OF sim u, of f] f by (simp add: agree_def run)
  next
    case False
    then have "\<not> \<not> UserIsDeleted u" if "map_of (keyed u_ID (pt_users s)) k = Some u" for u
      using that by (auto simp: rel(1))
    note miss = where_miss[where P = "\<lambda>u. \<not> UserIsDeleted u", OF simulatesD(3)[OF sim] this]
    have "with_user UserIsDeleted f k m = (Inl user_not_found, m)"
      using False by (auto simp: with_user_def refuse_def split: option.split)
    then show ?thesis using simulatesD(2)[OF sim] by (simp add: agree_def run miss)
  qed
qed

lemmas account_updates = PgUpdateProfile_def UsersUpdateProfile_def PgSetPassword_def UsersSetPassword_def
  PgBumpSessionEpoch_def UsersBumpSessionEpoch_def bumpEpoch_def

lemma UpdateProfile_agrees:
  assumes "simulates s m" "field_ok 100 name" "length locale \<le> 10"
  shows "agree (PgUpdateProfile k name locale) (UsersUpdateProfile k name locale) s m"
  unfolding account_updates using assms by (intro update_live_agrees) auto

lemma SetPassword_agrees:
  assumes "simulates s m" "field_ok 255 hash"
  shows "agree (PgSetPassword k hash) (UsersSetPassword k hash) s m"
proof -
  have same: "(\<lambda>u. u\<lparr>u_PasswordHash := hash, u_SessionEpoch := u_SessionEpoch u + 1\<rparr>) =
      (\<lambda>u. u\<lparr>u_SessionEpoch := u_SessionEpoch u + 1\<rparr>\<lparr>u_PasswordHash := hash\<rparr>)" by (intro ext) simp
  show ?thesis unfolding account_updates same by (intro update_live_agrees assms) simp
qed

lemma BumpSessionEpoch_agrees: "simulates s m \<Longrightarrow> agree (PgBumpSessionEpoch k) (UsersBumpSessionEpoch k) s m"
  unfolding account_updates by (intro update_live_agrees) auto

text \<open>On a deleted account the two differ: the memory store suspends it, Postgres does not find it.\<close>

lemma SetSuspended_agrees:
  assumes "simulates s m" "\<not> UsersIsSoftDeleted k m"
  shows "agree (PgSetSuspended k at) (UsersSetSuspended k at) s m"
proof -
  let ?f = "\<lambda>u. case at of Some t \<Rightarrow> u\<lparr>u_SuspendedAt := Some t, u_SessionEpoch := u_SessionEpoch u + 1\<rparr>
      | None \<Rightarrow> u\<lparr>u_SuspendedAt := None\<rparr>"
  have "UsersSetSuspended k at m = with_user UserIsDeleted ?f k m"
    using assms(2) by (cases at) (auto simp: UsersSetSuspended_def with_user_def UsersIsSoftDeleted_def split: option.split)
  moreover have "agree (PgSetSuspended k at) (with_user UserIsDeleted ?f k) s m"
    unfolding PgSetSuspended_def by (intro update_live_agrees assms) (auto split: option.split)
  ultimately show ?thesis by (simp add: agree_def)
qed

lemma SetTwoFactorEnabled_agrees:
  assumes sim: "simulates s m" and u: "map_of (us_users m) k = Some u"
  shows "agree (PgSetTwoFactorEnabled k enabled) (UsersSetTwoFactorEnabled k enabled) s m"
proof -
  note rel = related_sel[OF simulatesD(2)[OF sim]]
  note hit = where_hit_key[OF simulatesD(3)[OF sim] u[unfolded rel(1)]]
  let ?f = "\<lambda>u. u\<lparr>u_TwoFactorEnabled := enabled\<rparr>"
  have id: "u_ID (?f u) = k" using keyed_in[OF u[unfolded rel(1)]] by simp
  have run: "PgSetTwoFactorEnabled k enabled s = (Inr (), s\<lparr>pt_users := set_where (\<lambda>u. u_ID u = k) ?f (pt_users s)\<rparr>)"
    using simulates_unique[OF sim]
    by (simp add: PgSetTwoFactorEnabled_def bindp_def translate_run update_users_run users_unique_set_where ok_def)
  have mem: "UsersSetTwoFactorEnabled k enabled m = (Inr (), m\<lparr>us_users := AList.update k (?f u) (us_users m)\<rparr>)"
    using u by (simp add: UsersSetTwoFactorEnabled_def with_user_def ok_def)
  have "related (s\<lparr>pt_users := set_where (\<lambda>u. u_ID u = k) ?f (pt_users s)\<rparr>)
      (m\<lparr>us_users := AList.update k (?f u) (us_users m)\<rparr>)"
  proof (rule relatedI)
    show "index_exact (m\<lparr>us_users := AList.update k (?f u) (us_users m)\<rparr>)"
      using rel(7) u by (intro index_exact_update[where u = u]) (auto simp: UserIsDeleted_def)
  qed (simp_all add: rel hit(1)[of ?f] keyed_update[OF simulatesD(3)[OF sim] u[unfolded rel(1)] id])
  then show ?thesis by (simp add: agree_def run mem)
qed

lemma ByID_agrees: "simulates s m \<Longrightarrow> PgByID k s = UsersByID k m"
proof -
  assume sim: "simulates s m"
  note rel = related_sel[OF simulatesD(2)[OF sim]]
  have rows: "filter (\<lambda>u. u_ID u = k) (live_users s) = filter (\<lambda>u. u_ID u = k \<and> \<not> UserIsDeleted u) (pt_users s)"
    by (auto simp: live_users_def intro: filter_cong)
  show ?thesis
  proof (cases "\<exists>u. map_of (us_users m) k = Some u \<and> \<not> UserIsDeleted u")
    case True
    then obtain u where u: "map_of (us_users m) k = Some u" "\<not> UserIsDeleted u" by blast
    then show ?thesis
      using where_hit(3)[where P = "\<lambda>u. \<not> UserIsDeleted u", OF simulatesD(3)[OF sim] u(1)[unfolded rel(1)] u(2)]
      by (simp add: PgByID_def UsersByID_def rows)
  next
    case False
    then have "\<not> \<not> UserIsDeleted u" if "map_of (keyed u_ID (pt_users s)) k = Some u" for u
      using that by (auto simp: rel(1))
    note miss = where_miss(3)[where P = "\<lambda>u. \<not> UserIsDeleted u", OF simulatesD(3)[OF sim] this]
    then show ?thesis using False by (auto simp: PgByID_def UsersByID_def rows or_not_found_def split: option.split)
  qed
qed

lemma ByEmail_agrees: "simulates s m \<Longrightarrow> PgByEmail email s = UsersByEmail email m"
proof -
  assume sim: "simulates s m"
  note rel = related_sel[OF simulatesD(2)[OF sim]]
  have find: "first_row (filter (\<lambda>u. u_Email u = email) (live_users s)) =
      (case List.find (\<lambda>u. \<not> UserIsDeleted u \<and> u_Email u = email) (pt_users s) of None \<Rightarrow> Inl RowNotFound | Some r \<Rightarrow> Inr r)"
    by (simp only: live_users_def filter_filter first_row_find)
  show ?thesis
  proof (cases "List.find (\<lambda>u. \<not> UserIsDeleted u \<and> u_Email u = email) (pt_users s)")
    case None
    then have none: "\<not> (\<exists>u \<in> set (pt_users s). u_Email u = email \<and> \<not> UserIsDeleted u)"
      by (auto simp: find_None_iff)
    have "map_of (us_byEmail m) email = None"
    proof (rule ccontr)
      assume "map_of (us_byEmail m) email \<noteq> None"
      then obtain k u where "map_of (us_users m) k = Some u" "\<not> UserIsDeleted u" "u_Email u = email"
        using rel(7) unfolding index_exact_def by blast
      then show False using none keyed_in unfolding rel(1) by metis
    qed
    then show ?thesis using None by (simp add: PgByEmail_def UsersByEmail_def find or_not_found_def)
  next
    case (Some u)
    then have u: "u \<in> set (pt_users s)" "u_Email u = email" "\<not> UserIsDeleted u"
      using find_Some_in[OF Some] by auto
    then have row: "map_of (us_users m) (u_ID u) = Some u" using keyed_lookup[OF simulatesD(3)[OF sim]] by (simp add: rel(1))
    then have "map_of (us_byEmail m) email = Some (u_ID u)" using rel(7) u unfolding index_exact_def by blast
    then show ?thesis using Some row u by (simp add: PgByEmail_def UsersByEmail_def find)
  qed
qed

lemma All_agrees:
  assumes "simulates s m" "0 < limit" "0 \<le> offset"
  shows "PgAll limit offset s = UsersAll limit offset m"
proof -
  have "filter (\<lambda>u. \<not> UserIsDeleted u) (avals (us_users m)) = live_users s"
    by (simp add: related_sel[OF simulatesD(2)[OF assms(1)]] live_users_def)
  then show ?thesis using assms(2,3) by (auto simp: PgAll_def UsersAll_def limit_rows_def Let_def)
qed

definition account_fields_ok :: "User \<Rightarrow> bool" where
  "account_fields_ok u \<longleftrightarrow> field_ok 100 (u_Name u) \<and> field_ok 255 (u_Email u) \<and> field_ok 255 (u_PasswordHash u) \<and>
     length (u_Locale u) \<le> 10"

lemma index_entry:
  assumes "simulates s m"
  shows "map_of (us_byEmail m) email = Some k \<longleftrightarrow> (\<exists>u \<in> set (pt_users s). u_ID u = k \<and> \<not> UserIsDeleted u \<and> u_Email u = email)"
proof -
  note rel = related_sel[OF simulatesD(2)[OF assms]]
  have "map_of (us_users m) k = Some u \<longleftrightarrow> u \<in> set (pt_users s) \<and> u_ID u = k" for u
    using keyed_in[of u_ID "pt_users s" k u] keyed_lookup[OF simulatesD(3)[OF assms], of u] by (auto simp: rel(1))
  then show ?thesis using rel(7) unfolding index_exact_def by auto
qed

lemma index_exact_taken:
  assumes "simulates s m"
  shows "map_of (us_byEmail m) email \<noteq> None \<longleftrightarrow> email \<in> u_Email ` set (live_users s)"
proof -
  have "map_of (us_byEmail m) email \<noteq> None \<longleftrightarrow> (\<exists>k. map_of (us_byEmail m) email = Some k)" by auto
  then show ?thesis unfolding index_entry[OF assms] by (auto simp: live_users_def)
qed

lemma Create_agrees:
  assumes sim: "simulates s m" and u: "u_ID u = uuid_Nil" "u_CreatedAt u = zero_time" "u_DeletedAt u = None"
      "u_AvatarID u = None" "account_fields_ok u"
    and fresh: "map_of (us_users m) (c_newID c DrawUser) = None"
  shows "agree (PgCreate c u) (UsersCreate c u) s m"
proof -
  note rel = related_sel[OF simulatesD(2)[OF sim]]
  let ?id = "c_newID c DrawUser"
  let ?row = "u\<lparr>u_ID := ?id, u_CreatedAt := c_now c ClockRow\<rparr>"
  have row: "u\<lparr>u_ID := ?id, u_CreatedAt := c_now c ClockRow, u_DeletedAt := None, u_AvatarID := None\<rparr> = ?row"
    using u(3,4) by (cases u) simp
  have new: "?id \<notin> u_ID ` set (pt_users s)" using fresh by (simp add: rel(1) keyed_None)
  have live: "filter (\<lambda>u. \<not> UserIsDeleted u) (pt_users s @ [?row]) = live_users s @ [?row]"
    using u(3) by (simp add: live_users_def UserIsDeleted_def)
  have unique: "users_unique (pt_users s @ [?row]) \<longleftrightarrow> u_Email u \<notin> u_Email ` set (live_users s)"
    using simulates_unique[OF sim] new unfolding users_unique_def live by (auto simp: live_users_def)
  have run: "PgCreate c u s = (if u_Email u \<in> u_Email ` set (live_users s) then (Inl (UserErr ErrEmailTaken), s)
      else (Inr ?row, s\<lparr>pt_users := pt_users s @ [?row]\<rparr>))"
    using u(1,5) unique
    by (simp add: PgCreate_def translate_run Let_def account_fields_ok_def write_users_def row refuse_def ok_def)
  show ?thesis
  proof (cases "map_of (us_byEmail m) (u_Email u) \<noteq> None")
    case True
    then show ?thesis
      using run simulatesD(2)[OF sim] index_exact_taken[OF sim, of "u_Email u"]
      by (simp add: agree_def UsersCreate_def refuse_def)
  next
    case False
    let ?m = "m\<lparr>us_users := AList.update ?id ?row (us_users m),
        us_byEmail := AList.update (u_Email u) ?id (us_byEmail m)\<rparr>"
    have mem: "UsersCreate c u m = (Inr ?row, ?m)"
      using False u(1,2) by (simp add: UsersCreate_def Let_def ok_def)
    have "related (s\<lparr>pt_users := pt_users s @ [?row]\<rparr>) ?m"
    proof (rule relatedI)
      show "us_users ?m = keyed u_ID (pt_users (s\<lparr>pt_users := pt_users s @ [?row]\<rparr>))"
        using keyed_append[OF new, of ?row] by (simp add: rel(1))
      show "index_exact ?m"
        using rel(7) fresh False u(3) unfolding index_exact_def by (auto simp: amap_simps UserIsDeleted_def)
    qed (simp_all add: rel)
    then show ?thesis using run mem False index_exact_taken[OF sim, of "u_Email u"] by (simp add: agree_def)
  qed
qed

lemma norm_device_sel [simp]:
  "dv_ID (norm_device d) = dv_ID d" "dv_UserID (norm_device d) = dv_UserID d" "dv_RevokedAt (norm_device d) = dv_RevokedAt d"
  "dv_Fingerprint (norm_device d) = dv_Fingerprint d" "dv_LastSeenAt (norm_device d) = dv_LastSeenAt d"
  "DeviceIsRevoked (norm_device d) = DeviceIsRevoked d"
  by (simp_all add: norm_device_def DeviceIsRevoked_def)

text \<open>The device loop of a deletion, as one update.\<close>

lemma revoke_all_keyed:
  "revoke_all_of now k (keyed dv_ID (map norm_device ds)) =
     keyed dv_ID (map norm_device (set_where (\<lambda>d. dv_UserID d = k \<and> dv_RevokedAt d = None)
       (\<lambda>d. d\<lparr>dv_RevokedAt := Some now\<rparr>) ds))"
  by (auto simp: revoke_all_of_rows keyed_def set_where_def norm_device_def DeviceIsRevoked_def)

lemma index_exact_deleted:
  assumes "index_exact m" "map_of (us_users m) k = Some u" "\<not> UserIsDeleted u"
  shows "index_exact (m\<lparr>us_users := AList.update k (u\<lparr>u_DeletedAt := Some now\<rparr>) (us_users m),
    us_byEmail := AList.delete (u_Email u) (us_byEmail m), us_devices := ds\<rparr>)" (is "index_exact ?m")
proof -
  have gone: "map_of (us_byEmail m) (u_Email u) = Some k" by (rule index_exactD[OF assms])
  have alone: "j = k" if "map_of (us_users m) j = Some v" "\<not> UserIsDeleted v" "u_Email v = u_Email u" for j v
    using index_exactD[OF assms(1) that(1,2)] gone that(3) by simp
  have others: "map_of (us_byEmail m) email = Some j \<longleftrightarrow>
      (\<exists>v. map_of (us_users m) j = Some v \<and> \<not> UserIsDeleted v \<and> u_Email v = email)" for email j
    using assms(1) unfolding index_exact_def by blast
  have both: "(email \<noteq> u_Email u \<and> map_of (us_byEmail m) email = Some j) \<longleftrightarrow>
      (j \<noteq> k \<and> (\<exists>v. map_of (us_users m) j = Some v \<and> \<not> UserIsDeleted v \<and> u_Email v = email))" for email j
  proof (cases "j = k")
    case True
    then show ?thesis using others[of email k] assms(2) by auto
  next
    case False
    then show ?thesis using others[of email j] alone by metis
  qed
  have entry: "map_of (us_byEmail ?m) email = Some j \<longleftrightarrow> email \<noteq> u_Email u \<and> map_of (us_byEmail m) email = Some j" for email j
    by (simp add: amap_simps)
  have row: "(\<exists>v. map_of (us_users ?m) j = Some v \<and> \<not> UserIsDeleted v \<and> u_Email v = email) \<longleftrightarrow>
      j \<noteq> k \<and> (\<exists>v. map_of (us_users m) j = Some v \<and> \<not> UserIsDeleted v \<and> u_Email v = email)" for email j
    by (auto simp: amap_simps UserIsDeleted_def)
  show "index_exact ?m" unfolding index_exact_def entry row both by blast
qed

lemma Delete_agrees:
  assumes sim: "simulates s m" and k: "\<not> UsersIsSoftDeleted k m" "k \<noteq> uuid_Nil"
  shows "agree (PgDelete c k) (UsersDelete c k) s m"
proof (cases "map_of (us_users m) k")
  case None
  then have "PgDelete c k s = (Inl user_not_found, s)"
    using ByID_agrees[OF sim, of k] by (simp add: PgDelete_def bindp_def query_def UsersByID_def)
  then show ?thesis using None simulatesD(2)[OF sim] by (simp add: agree_def UsersDelete_def refuse_def)
next
  case (Some u)
  note rel = related_sel[OF simulatesD(2)[OF sim]]
  have live: "\<not> UserIsDeleted u" using k Some by (simp add: UsersIsSoftDeleted_def)
  have id: "u_ID u = k" using keyed_in[OF Some[unfolded rel(1)]] by simp
  have byID: "PgByID k s = Inr u" using ByID_agrees[OF sim, of k] Some live by (simp add: UsersByID_def)
  show ?thesis
  proof (cases "u_IsProtected u")
    case True
    then show ?thesis using byID Some simulatesD(2)[OF sim]
      by (simp add: agree_def PgDelete_def bindp_def query_def ensure_def UserRefuseDelete_def UserRefuseIfProtected_def
          UsersDelete_def UserDelete_def refuse_def)
  next
    case False
    let ?now = "c_now c ClockRow" and ?ds = "set_where (\<lambda>d. dv_UserID d = k \<and> dv_RevokedAt d = None)
       (\<lambda>d. d\<lparr>dv_RevokedAt := Some (c_now c ClockDevice)\<rparr>) (pt_devices s)"
    let ?u = "u\<lparr>u_DeletedAt := Some ?now\<rparr>" and ?P = "\<lambda>u. u_ID u = k \<and> \<not> UserIsDeleted u"
    note hit = where_hit[where P = "\<lambda>u. \<not> UserIsDeleted u", OF simulatesD(3)[OF sim] Some[unfolded rel(1)] live]
    let ?us = "set_where ?P (\<lambda>u. u\<lparr>u_DeletedAt := Some ?now\<rparr>) (pt_users s)"
    have "map u_ID ?us = map u_ID (pt_users s)" by (auto simp: set_where_def)
    moreover have "filter (\<lambda>u. \<not> UserIsDeleted u) (set_where ?P (\<lambda>u. u\<lparr>u_DeletedAt := Some ?now\<rparr>) rows) =
        filter (\<lambda>v. u_ID v \<noteq> k) (filter (\<lambda>u. \<not> UserIsDeleted u) rows)" for rows
      by (induction rows) (auto simp: set_where_def UserIsDeleted_def)
    ultimately have unique: "users_unique ?us"
      using simulates_unique[OF sim]
        distinct_map_filter[of u_Email "filter (\<lambda>u. \<not> UserIsDeleted u) (pt_users s)" "\<lambda>v. u_ID v \<noteq> k"]
      by (simp add: users_unique_def)
    have run: "PgDelete c k s = (Inr (), s\<lparr>pt_devices := ?ds, pt_users := ?us\<rparr>)"
      using byID False id k(2) unique hit(2)
      by (simp add: PgDelete_def bindp_def query_def ensure_def UserRefuseDelete_def UserRefuseIfProtected_def
          translate_run withEntTx_def soft_delete_user_def update_users_run ok_def)
    let ?m = "m\<lparr>us_users := AList.update k ?u (us_users m), us_byEmail := AList.delete (u_Email u) (us_byEmail m),
        us_devices := revoke_all_of (c_now c ClockDevice) k (us_devices m)\<rparr>"
    have mem: "UsersDelete c k m = (Inr (), ?m)"
      using Some False by (simp add: UsersDelete_def UserDelete_def UserRefuseIfProtected_def ok_def)
    have "related (s\<lparr>pt_devices := ?ds, pt_users := ?us\<rparr>) ?m"
    proof (rule relatedI)
      show "us_users ?m = keyed u_ID (pt_users (s\<lparr>pt_devices := ?ds, pt_users := ?us\<rparr>))"
        using keyed_update[OF simulatesD(3)[OF sim] Some[unfolded rel(1)], of ?u] id hit(1)[of "\<lambda>u. u\<lparr>u_DeletedAt := Some ?now\<rparr>"]
        by (simp add: rel(1))
      show "us_devices ?m = keyed dv_ID (map norm_device (pt_devices (s\<lparr>pt_devices := ?ds, pt_users := ?us\<rparr>)))"
        by (simp add: rel(4) revoke_all_keyed)
      show "index_exact ?m" by (rule index_exact_deleted[OF rel(7) Some live])
    qed (simp_all add: rel)
    then show ?thesis by (simp add: agree_def run mem)
  qed
qed

end
