(* ===== verification/Pg_Codes.thy ===== *)
theory Pg_Codes
  imports Pg_Refinement "HOL-Library.Multiset"
begin

text \<open>
  The Postgres repository against the in-memory one, continued: the three tables of codes, which share one contract,
  the devices and the login history.
\<close>

section \<open>Codes\<close>

text \<open>One row changed, in a table that keeps the time beside the row, and in its map.\<close>

lemma changed_row:
  assumes dist: "distinct (map key (map snd ts))" and row: "map_of (keyed key (map snd ts)) k = Some r" "P r" "key (f r) = k"
  shows "keyed key (map snd (set_where (\<lambda>(_, r). key r = k \<and> P r) (\<lambda>(at, r). (at, f r)) ts)) =
     AList.update k (f r) (keyed key (map snd ts))"
    and "affected (\<lambda>(_, r). key r = k \<and> P r) ts = 1"
  using where_hit[where P = P, OF dist row(1,2)] keyed_update[OF dist row(1,3)]
  by (simp_all only: stamped(2)[where P = "\<lambda>r. key r = k \<and> P r"] stamped(3)[where P = "\<lambda>r. key r = k \<and> P r"])

lemma unchanged_rows:
  assumes "distinct (map key (map snd ts))" "\<And>r. map_of (keyed key (map snd ts)) k = Some r \<Longrightarrow> \<not> P r"
  shows "set_where (\<lambda>(_, r). key r = k \<and> P r) f ts = ts" "affected (\<lambda>(_, r). key r = k \<and> P r) ts = 0"
proof -
  have none: "\<not> (key (snd t) = k \<and> P (snd t))" if "t \<in> set ts" for t
    using keyed_lookup[OF assms(1), of "snd t"] assms(2) that by auto
  show "set_where (\<lambda>(_, r). key r = k \<and> P r) f ts = ts" using none by (intro set_where_id) auto
  show "affected (\<lambda>(_, r). key r = k \<and> P r) ts = 0"
    using where_miss(2)[where P = P, OF assms] by (simp only: stamped(3)[where P = "\<lambda>r. key r = k \<and> P r"])
qed

text \<open>The three tables of codes are one shape: rows with an owner and a mark that they are spent.\<close>

locale code_table =
  fixes rows :: "PgUsers \<Rightarrow> (time \<times> 'r) list" and put_rows :: "(time \<times> 'r) list \<Rightarrow> PgUsers \<Rightarrow> PgUsers"
    and table :: "Users \<Rightarrow> (uuid, 'r) amap" and put_table :: "(uuid, 'r) amap \<Rightarrow> Users \<Rightarrow> Users"
    and key owner :: "'r \<Rightarrow> uuid" and consumed :: "'r \<Rightarrow> time option"
  assumes tied: "related s m \<Longrightarrow> table m = keyed key (map snd (rows s))"
    and keys: "simulates s m \<Longrightarrow> distinct (map key (map snd (rows s)))"
    and one: "simulates s m \<Longrightarrow> one_open owner consumed (table m)"
    and put: "related s m \<Longrightarrow> t = keyed key (map snd ts) \<Longrightarrow> related (put_rows ts s) (put_table t m)"
    and put_same: "put_rows (rows s) s = s"
begin

lemma fresh_key:
  assumes "simulates s m" "map_of (table m) i = None"
  shows "i \<notin> set (map (\<lambda>(_, r). key r) (filter (\<lambda>(_, r). Q r) (rows s)))"
  using assms(2) tied[OF simulatesD(2)[OF assms(1)]] unfolding stamped(1,4) by (auto simp: keyed_None)

text \<open>Replacing the open codes of an account by a new one.\<close>

lemma replaced:
  assumes "simulates s m" "map_of (table m) (key row) = None"
  shows "related (put_rows (filter (\<lambda>(_, r). Q r) (rows s) @ [(at, row)]) s)
     (put_table (AList.update (key row) row (filter (\<lambda>(_, r). Q r) (table m))) m)"
proof (rule put[OF simulatesD(2)[OF assms(1)]])
  note tied = tied[OF simulatesD(2)[OF assms(1)]]
  have "key row \<notin> key ` set (filter Q (map snd (rows s)))" using assms(2) by (auto simp: tied keyed_None)
  from keyed_append[OF this refl]
  show "AList.update (key row) row (filter (\<lambda>(_, r). Q r) (table m)) =
      keyed key (map snd (filter (\<lambda>(_, r). Q r) (rows s) @ [(at, row)]))"
    by (simp only: tied keyed_filter stamped(1) map_append list.map snd_conv)
qed

text \<open>At most one code of an account can be tried, so the newest is the only one.\<close>

lemma found:
  assumes sim: "simulates s m" and P: "\<And>r. P r \<Longrightarrow> owner r = k \<and> consumed r = None"
  shows "newest (filter (\<lambda>(_, r). P r) (rows s)) =
     (case List.find P (avals (table m)) of None \<Rightarrow> Inl RowNotFound | Some r \<Rightarrow> Inr r)"
proof -
  note tied = tied[OF simulatesD(2)[OF sim]]
  have "r = r'" if "r \<in> set (map snd (rows s))" "r' \<in> set (map snd (rows s))" "P r" "P r'" for r r'
  proof -
    note row = keyed_lookup[OF keys[OF sim] that(1)] keyed_lookup[OF keys[OF sim] that(2)]
    then have "key r = key r'" using one[OF sim] P[OF that(3)] P[OF that(4)] unfolding one_open_def tied by metis
    then show ?thesis using row by (metis option.inject)
  qed
  from newest_unique[where P = P, OF this] show ?thesis by (simp add: tied)
qed

text \<open>An update of one open code.\<close>

lemma counted:
  assumes sim: "simulates s m" and f: "\<And>r. key (f r) = key r"
  shows "related (put_rows (set_where (\<lambda>(_, r). key r = i \<and> consumed r = None) (\<lambda>(at, r). (at, f r)) (rows s)) s)
     (case map_of (table m) i of None \<Rightarrow> m
      | Some r \<Rightarrow> if consumed r \<noteq> None then m else put_table (AList.update i (f r) (table m)) m)"
proof (cases "\<exists>r. map_of (table m) i = Some r \<and> consumed r = None")
  case True
  then obtain r where r: "map_of (table m) i = Some r" "consumed r = None" by blast
  note tied = tied[OF simulatesD(2)[OF sim]]
  have id: "key (f r) = i" using keyed_in[OF r(1)[unfolded tied]] f by simp
  note changed = changed_row(1)[where P = "\<lambda>r. consumed r = None" and f = f and key = key,
      OF keys[OF sim] r(1)[unfolded tied] r(2) id]
  show ?thesis using put[OF simulatesD(2)[OF sim] changed[symmetric]] r tied by simp
next
  case False
  then have "\<not> consumed r = None" if "map_of (keyed key (map snd (rows s))) i = Some r" for r
    using that by (auto simp: tied[OF simulatesD(2)[OF sim]])
  from unchanged_rows(1)[where P = "\<lambda>r. consumed r = None", OF keys[OF sim] this] show ?thesis
    using False simulatesD(2)[OF sim] by (auto simp: put_same split: option.split)
qed

lemma affected_open:
  assumes sim: "simulates s m"
  shows "affected (\<lambda>(_, r). key r = i \<and> consumed r = None) (rows s) =
     (if \<exists>r. map_of (table m) i = Some r \<and> consumed r = None then 1 else 0)"
proof (cases "\<exists>r. map_of (table m) i = Some r \<and> consumed r = None")
  case True
  then obtain r where r: "map_of (table m) i = Some r" "consumed r = None" by blast
  note tied = tied[OF simulatesD(2)[OF sim]]
  have id: "key r = i" using keyed_in[OF r(1)[unfolded tied]] by simp
  show ?thesis
    using True changed_row(2)[where P = "\<lambda>r. consumed r = None" and f = "\<lambda>r. r" and key = key,
      OF keys[OF sim] r(1)[unfolded tied] r(2) id] by simp
next
  case False
  then have "\<not> consumed r = None" if "map_of (keyed key (map snd (rows s))) i = Some r" for r
    using that by (auto simp: tied[OF simulatesD(2)[OF sim]])
  from unchanged_rows(2)[where P = "\<lambda>r. consumed r = None", OF keys[OF sim] this] False show ?thesis by simp
qed

text \<open>An update of the row with an identifier, whatever it holds.\<close>

lemma spent:
  assumes sim: "simulates s m" and r: "map_of (table m) i = Some r" "key (f r) = i"
  shows "keyed key (map snd (set_where (\<lambda>(_, r). key r = i) (\<lambda>(at, r). (at, f r)) (rows s))) = AList.update i (f r) (table m)"
    and "affected (\<lambda>(_, r). key r = i) (rows s) = 1"
  using changed_row[where P = "\<lambda>_. True" and f = f and key = key, OF keys[OF sim]
      r(1)[unfolded tied[OF simulatesD(2)[OF sim]]] TrueI r(2)]
  by (simp_all add: tied[OF simulatesD(2)[OF sim]])

end

lemma related_tables:
  assumes "related s m"
  shows "t = keyed pr_ID (map snd ts) \<Longrightarrow> related (s\<lparr>pt_resets := ts\<rparr>) (m\<lparr>us_resets := t\<rparr>)"
    "u = keyed ec_ID (map snd us) \<Longrightarrow> related (s\<lparr>pt_changes := us\<rparr>) (m\<lparr>us_emailChg := u\<rparr>)"
    "v = keyed tc_ID (map snd vs) \<Longrightarrow> related (s\<lparr>pt_challenges := vs\<rparr>) (m\<lparr>us_challenges := v\<rparr>)"
    "d = keyed dv_ID (map norm_device ds) \<Longrightarrow> related (s\<lparr>pt_devices := ds\<rparr>) (m\<lparr>us_devices := d\<rparr>)"
    "related (s\<lparr>pt_events := es\<rparr>) (m\<lparr>us_events := es\<rparr>)"
  using related_sel[OF assms] by (auto intro!: relatedI)

lemma simulates_open:
  assumes "simulates s m"
  shows "one_open pr_UserID pr_ConsumedAt (us_resets m)" "one_open ec_UserID ec_ConsumedAt (us_emailChg m)"
    "one_open tc_UserID tc_ConsumedAt (us_challenges m)"
  using users_wfD(10)[OF accounts_wfD(1)[OF simulatesD(1)[OF assms]]] by (simp_all add: open_codes_ok_def)

interpretation resets: code_table pt_resets "\<lambda>ts s. s\<lparr>pt_resets := ts\<rparr>" us_resets "\<lambda>t m. m\<lparr>us_resets := t\<rparr>"
  pr_ID pr_UserID pr_ConsumedAt
  by unfold_locales (blast intro: related_sel simulatesD simulates_open related_tables, (blast intro: related_sel
      simulatesD simulates_open related_tables | simp)+)

interpretation changes: code_table pt_changes "\<lambda>ts s. s\<lparr>pt_changes := ts\<rparr>" us_emailChg "\<lambda>t m. m\<lparr>us_emailChg := t\<rparr>"
  ec_ID ec_UserID ec_ConsumedAt
  by unfold_locales (blast intro: related_sel simulatesD simulates_open related_tables, (blast intro: related_sel
      simulatesD simulates_open related_tables | simp)+)

interpretation challenges: code_table pt_challenges "\<lambda>ts s. s\<lparr>pt_challenges := ts\<rparr>" us_challenges
  "\<lambda>t m. m\<lparr>us_challenges := t\<rparr>" tc_ID tc_UserID tc_ConsumedAt
  by unfold_locales (blast intro: related_sel simulatesD simulates_open related_tables, (blast intro: related_sel
      simulatesD simulates_open related_tables | simp)+)

lemma user_exists: "related s m \<Longrightarrow> map_of (us_users m) k \<noteq> None \<longleftrightarrow> k \<in> u_ID ` set (pt_users s)"
  by (simp add: related_sel(1) keyed_None)

lemma ReplacePasswordReset_agrees:
  assumes sim: "simulates s m" and r: "pr_ID r = uuid_Nil" "pr_ConsumedAt r = None" "field_ok 64 (pr_CodeHash r)"
      "map_of (us_users m) (pr_UserID r) \<noteq> None"
    and fresh: "map_of (us_resets m) (c_newID c DrawCode) = None"
  shows "agree (PgReplacePasswordReset c r) (UsersReplacePasswordReset c r) s m"
proof -
  have row: "r\<lparr>pr_ID := x, pr_ConsumedAt := None\<rparr> = r\<lparr>pr_ID := x\<rparr>" for x using r(2) by (cases r) simp
  have user: "user_row_exists (pr_UserID r) (s\<lparr>pt_resets := x\<rparr>)" for x
    using r(4) user_exists[OF simulatesD(2)[OF sim]] by (auto simp: user_row_exists_def)
  show ?thesis
    using r(1,3) user resets.fresh_key[OF sim fresh] resets.replaced[OF sim, of "r\<lparr>pr_ID := c_newID c DrawCode\<rparr>"] fresh
    by (simp add: agree_def PgReplacePasswordReset_def UsersReplacePasswordReset_def translate_run withEntTx_def bindp_def
        delete_open_resets_def insert_reset_def Let_def row ok_def)
qed

lemma ActivePasswordReset_agrees:
  assumes "simulates s m"
  shows "PgActivePasswordReset k now s = UsersActivePasswordReset k now m"
  using resets.found[OF assms, of "active_reset k now" k]
  by (simp add: PgActivePasswordReset_def UsersActivePasswordReset_def active_reset_def[abs_def] or_not_found_def
      split: option.split)

lemma FailPasswordReset_agrees:
  assumes "simulates s m"
  shows "agree (PgFailPasswordReset i max' now) (UsersFailPasswordReset i max' now) s m"
proof -
  have step: "(\<lambda>(at, r). (at, r\<lparr>pr_Attempts := pr_Attempts r + 1,
      pr_ConsumedAt := (if max' \<le> pr_Attempts r + 1 then Some now else pr_ConsumedAt r)\<rparr>)) =
      (\<lambda>(at, r). (at, fail_reset max' now r))"
    by (auto simp: fail_reset_def Let_def fun_eq_iff)
  show ?thesis
    using resets.counted[OF assms, of "fail_reset max' now" i]
    by (auto simp: agree_def PgFailPasswordReset_def UsersFailPasswordReset_def step ok_def fail_reset_def Let_def
        split: option.splits if_splits)
qed

lemma ConsumePasswordReset_agrees:
  assumes sim: "simulates s m" and u: "map_of (us_users m) (pr_UserID r) = Some u" "\<not> UserIsDeleted u"
    and r: "map_of (us_resets m) (pr_ID r) = Some r0" "pr_ConsumedAt r \<noteq> None" and hash: "field_ok 255 hash"
  shows "agree (PgConsumePasswordReset r hash) (UsersConsumePasswordReset r hash) s m"
proof -
  note rel = related_sel[OF simulatesD(2)[OF sim]]
  let ?P = "\<lambda>u. u_ID u = pr_UserID r \<and> \<not> UserIsDeleted u"
  let ?f = "\<lambda>u. u\<lparr>u_PasswordHash := hash, u_SessionEpoch := u_SessionEpoch u + 1\<rparr>"
  let ?g = "\<lambda>x. x\<lparr>pr_ConsumedAt := set_nillable (pr_ConsumedAt r) (pr_ConsumedAt x), pr_Attempts := pr_Attempts r\<rparr>"
  have rid: "pr_ID (?g r0) = pr_ID r" using keyed_in[OF r(1)[unfolded rel(2)]] by simp
  note row = resets.spent[OF sim r(1), of ?g, OF rid]
  let ?us = "set_where ?P ?f (pt_users s)" and ?ts = "set_where (\<lambda>(_, x). pr_ID x = pr_ID r) (\<lambda>(at, x). (at, ?g x)) (pt_resets s)"
  have run: "PgConsumePasswordReset r hash s = (Inr (), s\<lparr>pt_users := ?us, pt_resets := ?ts\<rparr>)"
    using simulates_unique[OF sim] hash row(2)
    by (simp add: PgConsumePasswordReset_def translate_run withEntTx_def bindp_def update_users_run users_unique_set_where
        update_reset_def Let_def ok_def)
  have g: "?g r0 = r0\<lparr>pr_ConsumedAt := pr_ConsumedAt r, pr_Attempts := pr_Attempts r\<rparr>"
    using r(2) by (auto simp: set_nillable_def)
  let ?m = "m\<lparr>us_users := AList.update (pr_UserID r) (?f u) (us_users m), us_resets := AList.update (pr_ID r) (?g r0) (us_resets m)\<rparr>"
  have mem: "UsersConsumePasswordReset r hash m = (Inr (), ?m)"
    using u(1) r(1) unfolding g by (simp add: UsersConsumePasswordReset_def Let_def ok_def)
  note users = live_row_updated[OF sim u, of ?f, simplified]
  have "related (s\<lparr>pt_users := ?us, pt_resets := ?ts\<rparr>) ?m"
    using related_tables(1)[OF users(1) row(1)[symmetric]] by simp
  then show ?thesis by (simp add: agree_def run mem)
qed

lemma ReplaceEmailChange_agrees:
  assumes sim: "simulates s m" and r: "ec_ID r = uuid_Nil" "ec_ConsumedAt r = None" "field_ok 64 (ec_CodeHash r)"
      "field_ok 255 (ec_NewEmail r)" "map_of (us_users m) (ec_UserID r) \<noteq> None"
    and fresh: "map_of (us_emailChg m) (c_newID c DrawCode) = None"
  shows "agree (PgReplaceEmailChange c r) (UsersReplaceEmailChange c r) s m"
proof -
  have row: "r\<lparr>ec_ID := x, ec_ConsumedAt := None\<rparr> = r\<lparr>ec_ID := x\<rparr>" for x using r(2) by (cases r) simp
  have user: "user_row_exists (ec_UserID r) (s\<lparr>pt_changes := x\<rparr>)" for x
    using r(5) user_exists[OF simulatesD(2)[OF sim]] by (auto simp: user_row_exists_def)
  show ?thesis
    using r(1,3,4) user changes.fresh_key[OF sim fresh] changes.replaced[OF sim, of "r\<lparr>ec_ID := c_newID c DrawCode\<rparr>"] fresh
    by (simp add: agree_def PgReplaceEmailChange_def UsersReplaceEmailChange_def translate_run withEntTx_def bindp_def
        delete_open_changes_def insert_change_def Let_def row ok_def)
qed

lemma ActiveEmailChange_agrees:
  assumes "simulates s m"
  shows "PgActiveEmailChange k now s = UsersActiveEmailChange k now m"
  using changes.found[OF assms, of "active_change k now" k]
  by (simp add: PgActiveEmailChange_def UsersActiveEmailChange_def active_change_def[abs_def] or_not_found_def
      split: option.split)

lemma FailEmailChange_agrees:
  assumes "simulates s m"
  shows "agree (PgFailEmailChange i max' now) (UsersFailEmailChange i max' now) s m"
proof -
  have step: "(\<lambda>(at, r). (at, r\<lparr>ec_Attempts := ec_Attempts r + 1,
      ec_ConsumedAt := (if max' \<le> ec_Attempts r + 1 then Some now else ec_ConsumedAt r)\<rparr>)) =
      (\<lambda>(at, r). (at, fail_change max' now r))"
    by (auto simp: fail_change_def Let_def fun_eq_iff)
  show ?thesis
    using changes.counted[OF assms, of "fail_change max' now" i]
    by (auto simp: agree_def PgFailEmailChange_def UsersFailEmailChange_def step ok_def fail_change_def Let_def
        split: option.splits if_splits)
qed

text \<open>The unique index refuses an address exactly when a live account other than the one that moves has it.\<close>

lemma distinct_moved:
  assumes "distinct (map key rows)" "distinct (map g rows)" "\<exists>v \<in> set rows. key v = k"
  shows "distinct (map (\<lambda>v. if key v = k then e else g v) rows) \<longleftrightarrow> (\<forall>v \<in> set rows. g v = e \<longrightarrow> key v = k)"
  using assms
proof (induction rows)
  case (Cons r rows)
  show ?case
  proof (cases "key r = k")
    case True
    have others: "key v \<noteq> k" if "v \<in> set rows" for v using Cons.prems(1) True that by (simp add: image_iff) metis
    then have same: "map (\<lambda>v. if key v = k then e else g v) rows = map g rows" by simp
    have "distinct (map (\<lambda>v. if key v = k then e else g v) (r # rows)) \<longleftrightarrow> e \<notin> g ` set rows"
      using Cons.prems(2) unfolding list.map distinct.simps same by (simp add: True)
    then show ?thesis using True others by auto
  next
    case False
    have "g r \<notin> g ` set rows" using Cons.prems(2) by simp
    then show ?thesis using False Cons by (auto simp: image_iff)
  qed
qed simp

lemma address_moves:
  assumes sim: "simulates s m" and u: "map_of (us_users m) k = Some u" "\<not> UserIsDeleted u"
  shows "users_unique (set_where (\<lambda>u. u_ID u = k) (\<lambda>u. u\<lparr>u_Email := e\<rparr>) (pt_users s)) \<longleftrightarrow>
     (\<forall>j. map_of (us_byEmail m) e = Some j \<longrightarrow> j = k)"
proof -
  note rel = related_sel[OF simulatesD(2)[OF sim]]
  let ?live = "filter (\<lambda>u. \<not> UserIsDeleted u)" and ?us = "set_where (\<lambda>u. u_ID u = k) (\<lambda>u. u\<lparr>u_Email := e\<rparr>)"
  have ids: "map u_ID (?us (pt_users s)) = map u_ID (pt_users s)" by (auto simp: set_where_def)
  have live: "map u_Email (?live (?us rows)) = map (\<lambda>v. if u_ID v = k then e else u_Email v) (?live rows)" for rows
    by (induction rows) (auto simp: set_where_def UserIsDeleted_def)
  have "u \<in> set (?live (pt_users s))" "u_ID u = k" using keyed_in[OF u(1)[unfolded rel(1)]] u(2) by simp_all
  then have "\<exists>v \<in> set (?live (pt_users s)). u_ID v = k" by blast
  then have "users_unique (?us (pt_users s)) \<longleftrightarrow> (\<forall>v \<in> set (?live (pt_users s)). u_Email v = e \<longrightarrow> u_ID v = k)"
    using distinct_moved[of u_ID "?live (pt_users s)" u_Email k e] simulates_unique[OF sim]
      distinct_map_filter[of u_ID "pt_users s"]
    unfolding users_unique_def ids live by blast
  also have "\<dots> \<longleftrightarrow> (\<forall>j. map_of (us_byEmail m) e = Some j \<longrightarrow> j = k)"
    unfolding index_entry[OF sim] by auto
  finally show ?thesis .
qed

lemma index_exact_moved:
  assumes "index_exact m" "map_of (us_users m) k = Some u" "\<not> UserIsDeleted u"
    and free: "\<forall>j. map_of (us_byEmail m) e = Some j \<longrightarrow> j = k"
  shows "index_exact (m\<lparr>us_users := AList.update k (u\<lparr>u_Email := e\<rparr>) (us_users m),
    us_byEmail := AList.update e k (AList.delete (u_Email u) (us_byEmail m)), us_emailChg := cs\<rparr>)" (is "index_exact ?m")
proof -
  have exact: "map_of (us_byEmail m) email = Some j \<longleftrightarrow>
      (\<exists>v. map_of (us_users m) j = Some v \<and> \<not> UserIsDeleted v \<and> u_Email v = email)" for email j
    using assms(1) unfolding index_exact_def by blast
  have gone: "map_of (us_byEmail m) (u_Email u) = Some k" by (rule index_exactD[OF assms(1-3)])
  have entry: "map_of (us_byEmail ?m) email = Some j \<longleftrightarrow>
      (if email = e then j = k else email \<noteq> u_Email u \<and> map_of (us_byEmail m) email = Some j)" for email j
    by (auto simp: amap_simps)
  have row: "(\<exists>v. map_of (us_users ?m) j = Some v \<and> \<not> UserIsDeleted v \<and> u_Email v = email) \<longleftrightarrow>
      (if j = k then email = e else map_of (us_byEmail m) email = Some j)" for email j
    unfolding exact using assms(3) by (auto simp: amap_simps UserIsDeleted_def)
  have "(if email = e then j = k else email \<noteq> u_Email u \<and> map_of (us_byEmail m) email = Some j) \<longleftrightarrow>
      (if j = k then email = e else map_of (us_byEmail m) email = Some j)" for email j
  proof (cases "j = k")
    case True
    have "email = u_Email u" if "map_of (us_byEmail m) email = Some k"
      using that assms(2) unfolding exact by auto
    then show ?thesis using True by auto
  next
    case False
    have "email \<noteq> u_Email u" if "map_of (us_byEmail m) email = Some j" using gone that False by auto
    then show ?thesis using False free by auto
  qed
  then show ?thesis unfolding index_exact_def entry row by blast
qed

lemma ConsumeEmailChange_agrees:
  assumes sim: "simulates s m" and u: "map_of (us_users m) (ec_UserID r) = Some u" "\<not> UserIsDeleted u"
    and r: "map_of (us_emailChg m) (ec_ID r) = Some r0" "ec_ConsumedAt r \<noteq> None" and email: "field_ok 255 e"
  shows "agree (PgConsumeEmailChange r e) (UsersConsumeEmailChange r e) s m"
proof -
  note rel = related_sel[OF simulatesD(2)[OF sim]]
  let ?k = "ec_UserID r" and ?us = "set_where (\<lambda>u. u_ID u = ec_UserID r) (\<lambda>u. u\<lparr>u_Email := e\<rparr>) (pt_users s)"
  let ?g = "\<lambda>x. x\<lparr>ec_ConsumedAt := set_nillable (ec_ConsumedAt r) (ec_ConsumedAt x), ec_Attempts := ec_Attempts r\<rparr>"
  note hit = where_hit_key[OF simulatesD(3)[OF sim] u(1)[unfolded rel(1)]]
  have uid: "u_ID u = ?k" using keyed_in[OF u(1)[unfolded rel(1)]] by simp
  have rid: "ec_ID (?g r0) = ec_ID r" using keyed_in[OF r(1)[unfolded rel(3)]] by simp
  note row = changes.spent[OF sim r(1), of ?g, OF rid]
  note moves = address_moves[OF sim u, of e]
  show ?thesis
  proof (cases "\<forall>j. map_of (us_byEmail m) e = Some j \<longrightarrow> j = ?k")
    case False
    then have "\<not> users_unique ?us" using moves by blast
    then have "PgConsumeEmailChange r e s = (Inl (UserErr ErrEmailTaken), s)"
      using email
      by (simp add: PgConsumeEmailChange_def translate_run withEntTx_def bindp_def update_users_def write_users_def refuse_def)
    moreover have "UsersConsumeEmailChange r e m = (Inl (UserErr ErrEmailTaken), m)"
      using False u(1) uid by (auto simp: UsersConsumeEmailChange_def refuse_def)
    ultimately show ?thesis using simulatesD(2)[OF sim] by (simp add: agree_def)
  next
    case True
    let ?ts = "set_where (\<lambda>(_, x). ec_ID x = ec_ID r) (\<lambda>(at, x). (at, ?g x)) (pt_changes s)"
    have run: "PgConsumeEmailChange r e s = (Inr (), s\<lparr>pt_users := ?us, pt_changes := ?ts\<rparr>)"
      using email True moves hit(2) row(2)
      by (simp add: PgConsumeEmailChange_def translate_run withEntTx_def bindp_def update_users_run update_change_def
          Let_def ok_def)
    have g: "?g r0 = r0\<lparr>ec_ConsumedAt := ec_ConsumedAt r, ec_Attempts := ec_Attempts r\<rparr>"
      using r(2) by (auto simp: set_nillable_def)
    let ?m = "m\<lparr>us_users := AList.update ?k (u\<lparr>u_Email := e\<rparr>) (us_users m),
        us_byEmail := AList.update e ?k (AList.delete (u_Email u) (us_byEmail m)),
        us_emailChg := AList.update (ec_ID r) (?g r0) (us_emailChg m)\<rparr>"
    have mem: "UsersConsumeEmailChange r e m = (Inr (), ?m)"
      using True u(1) uid r(1) unfolding g by (auto simp: UsersConsumeEmailChange_def Let_def ok_def split: option.split)
    have "related (s\<lparr>pt_users := ?us, pt_changes := ?ts\<rparr>) ?m"
    proof (rule relatedI)
      show "us_users ?m = keyed u_ID (pt_users (s\<lparr>pt_users := ?us, pt_changes := ?ts\<rparr>))"
        using keyed_update[OF simulatesD(3)[OF sim] u(1)[unfolded rel(1)], of "u\<lparr>u_Email := e\<rparr>"] uid
          hit(1)[of "\<lambda>u. u\<lparr>u_Email := e\<rparr>"] by (simp add: rel(1))
      show "us_emailChg ?m = keyed ec_ID (map snd (pt_changes (s\<lparr>pt_users := ?us, pt_changes := ?ts\<rparr>)))"
        using row(1) by simp
      show "index_exact ?m" by (rule index_exact_moved[OF rel(7) u True])
    qed (simp_all add: rel)
    then show ?thesis by (simp add: agree_def run mem)
  qed
qed

section \<open>Devices and the login history\<close>

lemma keyed_norm: "map_of (keyed dv_ID (map norm_device ds)) k = map_option norm_device (map_of (keyed dv_ID ds) k)"
  by (induction ds) auto

lemma find_norm: "(\<And>d. P (norm_device d) = P d) \<Longrightarrow> List.find P (map norm_device ds) = map_option norm_device (List.find P ds)"
  by (induction ds) auto

lemma norm_device_unrevoked: "\<not> DeviceIsRevoked d \<Longrightarrow> norm_device d = d"
  by (simp add: norm_device_def)

lemma DeviceByFingerprint_agrees:
  assumes "simulates s m"
  shows "map_sum id norm_device (PgDeviceByFingerprint k fp s) = UsersDeviceByFingerprint k fp m"
  using find_norm[of "\<lambda>d. dv_UserID d = k \<and> dv_Fingerprint d = fp" "pt_devices s"]
  by (auto simp: PgDeviceByFingerprint_def UsersDeviceByFingerprint_def first_row_find or_not_found_def
      related_sel[OF simulatesD(2)[OF assms]] split: option.splits)

lemma ActiveDevice_agrees:
  assumes sim: "simulates s m"
  shows "PgActiveDevice k i s = UsersActiveDevice k i m"
proof -
  note rel = related_sel[OF simulatesD(2)[OF sim]]
  let ?P = "\<lambda>d. dv_UserID d = k \<and> dv_RevokedAt d = None"
  show ?thesis
  proof (cases "\<exists>d. map_of (keyed dv_ID (pt_devices s)) i = Some d \<and> ?P d")
    case True
    then obtain d where d: "map_of (keyed dv_ID (pt_devices s)) i = Some d" "?P d" by blast
    note hit = where_hit(3)[where P = ?P, OF simulatesD(6)[OF sim] d]
    have "norm_device d = d" using d(2) by (intro norm_device_unrevoked) (simp add: DeviceIsRevoked_def)
    then show ?thesis using d hit
      by (simp add: PgActiveDevice_def UsersActiveDevice_def rel(4) keyed_norm DeviceIsRevoked_def)
  next
    case False
    then have "\<not> ?P d" if "map_of (keyed dv_ID (pt_devices s)) i = Some d" for d using that by blast
    note miss = where_miss(3)[where P = ?P, OF simulatesD(6)[OF sim] this]
    then show ?thesis using False
      by (auto simp: PgActiveDevice_def UsersActiveDevice_def rel(4) keyed_norm or_not_found_def DeviceIsRevoked_def
          split: option.split)
  qed
qed

lemma CreateDevice_agrees:
  assumes sim: "simulates s m" and d: "dv_ID d = uuid_Nil" "dv_CreatedAt d = zero_time" "dv_RevokedAt d = None"
      "field_ok 64 (dv_Fingerprint d)" "length (dv_UserAgent d) \<le> 512" "map_of (us_users m) (dv_UserID d) \<noteq> None"
    and fresh: "map_of (us_devices m) (c_newID c DrawDevice) = None"
      "UsersDeviceByFingerprint (dv_UserID d) (dv_Fingerprint d) m = Inl user_not_found"
  shows "agree (PgCreateDevice c d) (UsersCreateDevice c d) s m"
proof -
  note rel = related_sel[OF simulatesD(2)[OF sim]]
  let ?row = "d\<lparr>dv_ID := c_newID c DrawDevice, dv_CreatedAt := c_now c ClockDevice\<rparr>"
  have user: "user_row_exists (dv_UserID d) s"
    using d(6) user_exists[OF simulatesD(2)[OF sim]] by (auto simp: user_row_exists_def)
  have new: "c_newID c DrawDevice \<notin> dv_ID ` set (map norm_device (pt_devices s))"
    using fresh(1) by (simp add: rel(4) keyed_None)
  then have id: "c_newID c DrawDevice \<notin> set (map dv_ID (pt_devices s))" by (simp add: image_image)
  have "List.find (\<lambda>x. dv_UserID x = dv_UserID d \<and> dv_Fingerprint x = dv_Fingerprint d) (pt_devices s) = None"
    using fresh(2) find_norm[of "\<lambda>x. dv_UserID x = dv_UserID d \<and> dv_Fingerprint x = dv_Fingerprint d" "pt_devices s"]
    by (auto simp: UsersDeviceByFingerprint_def rel(4) split: option.splits)
  then have fp: "(dv_UserID d, dv_Fingerprint d) \<notin> set (map (\<lambda>x. (dv_UserID x, dv_Fingerprint x)) (pt_devices s))"
    by (auto simp: find_None_iff)
  have norm: "norm_device ?row = ?row" using d(3) by (intro norm_device_unrevoked) (simp add: DeviceIsRevoked_def)
  have "related (s\<lparr>pt_devices := pt_devices s @ [?row]\<rparr>)
      (m\<lparr>us_devices := AList.update (c_newID c DrawDevice) ?row (us_devices m)\<rparr>)"
    using keyed_append[OF new, of ?row] norm by (intro related_tables(4)[OF simulatesD(2)[OF sim]]) (simp add: rel(4))
  then show ?thesis
    using d(1,2,4,5) user id fp
    by (simp add: agree_def PgCreateDevice_def UsersCreateDevice_def translate_run Let_def ok_def)
qed

lemma device_updated:
  assumes sim: "simulates s m" and d: "map_of (keyed dv_ID (pt_devices s)) k = Some d" "dv_ID (f d) = k"
  shows "keyed dv_ID (map norm_device (set_where (\<lambda>d. dv_ID d = k) f (pt_devices s))) =
     AList.update k (norm_device (f d)) (us_devices m)"
    and "affected (\<lambda>d. dv_ID d = k) (pt_devices s) = 1"
proof -
  note hit = where_hit_key[OF simulatesD(6)[OF sim] d(1)]
  have "map norm_device (set_where (\<lambda>d. dv_ID d = k) (\<lambda>_. f d) (pt_devices s)) =
      set_where (\<lambda>d. dv_ID d = k) (\<lambda>_. norm_device (f d)) (map norm_device (pt_devices s))"
    by (simp add: set_where_def)
  moreover have "distinct (map dv_ID (map norm_device (pt_devices s)))"
    using simulatesD(6)[OF sim] by (simp add: comp_def)
  ultimately show "keyed dv_ID (map norm_device (set_where (\<lambda>d. dv_ID d = k) f (pt_devices s))) =
      AList.update k (norm_device (f d)) (us_devices m)"
    using keyed_update[of dv_ID "map norm_device (pt_devices s)" k "norm_device d" "norm_device (f d)"] d hit(1)[of f]
    by (simp add: related_sel(4)[OF simulatesD(2)[OF sim]] keyed_norm)
  show "affected (\<lambda>d. dv_ID d = k) (pt_devices s) = 1" using hit(2) by simp
qed

lemma TouchDevice_agrees:
  assumes sim: "simulates s m" and d: "map_of (us_devices m) k \<noteq> None" "length ua \<le> 512"
  shows "agree (PgTouchDevice k at ip ua) (UsersTouchDevice k at ip ua) s m"
proof -
  note rel = related_sel[OF simulatesD(2)[OF sim]]
  let ?f = "\<lambda>d. d\<lparr>dv_LastSeenAt := Some at, dv_UserAgent := ua, dv_LastIP := Some ip\<rparr>"
  obtain x where x: "map_of (keyed dv_ID (pt_devices s)) k = Some x" using d(1) by (auto simp: rel(4) keyed_norm)
  have "dv_ID (?f x) = k" using keyed_in[OF x] by simp
  note upd = device_updated[OF sim x, of ?f, OF this]
  have "norm_device (?f x) = (norm_device x)\<lparr>dv_LastSeenAt := Some at, dv_LastIP := Some ip, dv_UserAgent := ua\<rparr>"
    by (simp add: norm_device_def DeviceIsRevoked_def)
  then show ?thesis
    using d(2) x upd(2) related_tables(4)[OF simulatesD(2)[OF sim] upd(1)[symmetric]]
    by (simp add: agree_def PgTouchDevice_def UsersTouchDevice_def attempt_def update_device_def Let_def ok_def
        rel(4) keyed_norm)
qed

lemma trust_device_run:
  assumes dist: "distinct (map dv_ID (pt_devices s))"
  shows "trust_device c k s =
     (case map_of (keyed dv_ID (pt_devices s)) k of
        None \<Rightarrow> (Inl RowNotFound, s)
      | Some d \<Rightarrow> if DeviceIsRevoked d then (Inl (Raised (EntErr EntErrDeviceRevoked)), s)
          else (Inr (), s\<lparr>pt_devices := set_where (\<lambda>d. dv_ID d = k)
                  (\<lambda>d. d\<lparr>dv_TrustedAt := Some (c_now c ClockDevice)\<rparr>) (pt_devices s)\<rparr>))"
proof (cases "map_of (keyed dv_ID (pt_devices s)) k")
  case None
  then have "filter (\<lambda>d. dv_ID d = k) (pt_devices s) = []" using where_miss_key(3)[OF dist, of k] by simp
  then show ?thesis using None by (simp add: trust_device_def bindp_def lockDevice_def query_def)
next
  case (Some d)
  note hit = where_hit_key[OF dist Some]
  have "dv_ID d = k" using keyed_in[OF Some] by simp
  then show ?thesis using Some hit(2,3)
    by (simp add: trust_device_def bindp_def lockDevice_def query_def entity_rule_def DeviceTrust_def refuse_def ok_def
        update_device_def Let_def set_nillable_def)
qed

lemma TrustDevice_agrees:
  assumes sim: "simulates s m"
  shows "agree (PgTrustDevice c k) (UsersTrustDevice c k) s m"
proof (cases "map_of (keyed dv_ID (pt_devices s)) k")
  case None
  then show ?thesis using simulatesD(2)[OF sim]
    by (simp add: agree_def PgTrustDevice_def UsersTrustDevice_def translate_run withEntTx_def
        trust_device_run[OF simulatesD(6)[OF sim]] related_sel(4)[OF simulatesD(2)[OF sim]] keyed_norm refuse_def
        translateDeviceError_def)
next
  case (Some d)
  note rel = related_sel[OF simulatesD(2)[OF sim]]
  let ?f = "\<lambda>d. d\<lparr>dv_TrustedAt := Some (c_now c ClockDevice)\<rparr>"
  have "dv_ID (?f d) = k" using keyed_in[OF Some] by simp
  note upd = device_updated[OF sim Some, of ?f, OF this]
  show ?thesis
    using Some related_tables(4)[OF simulatesD(2)[OF sim] upd(1)[symmetric]] simulatesD(2)[OF sim]
    by (cases "dv_RevokedAt d") (simp_all add: agree_def PgTrustDevice_def UsersTrustDevice_def translate_run withEntTx_def
        trust_device_run[OF simulatesD(6)[OF sim]] rel(4) keyed_norm refuse_def ok_def translateDeviceError_def
        DeviceTrust_def norm_device_def DeviceIsRevoked_def)
qed

lemma RevokeDevice_agrees:
  assumes sim: "simulates s m"
  shows "agree (PgRevokeDevice c u k) (UsersRevokeDevice c u k) s m"
proof -
  note rel = related_sel[OF simulatesD(2)[OF sim]]
  let ?P = "\<lambda>d. dv_UserID d = u"
  show ?thesis
  proof (cases "\<exists>d. map_of (keyed dv_ID (pt_devices s)) k = Some d \<and> ?P d")
    case False
    then have "\<not> ?P d" if "map_of (keyed dv_ID (pt_devices s)) k = Some d" for d using that by blast
    note miss = where_miss(3)[where P = ?P, OF simulatesD(6)[OF sim] this]
    have "UsersRevokeDevice c u k m = (Inl user_not_found, m)"
      using False by (auto simp: UsersRevokeDevice_def rel(4) keyed_norm refuse_def split: option.split)
    then show ?thesis using miss simulatesD(2)[OF sim]
      by (simp add: agree_def PgRevokeDevice_def attempt_def withEntTx_def bindp_def lockDevice_def query_def refuse_def
          translateDeviceError_def)
  next
    case True
    then obtain d where d: "map_of (keyed dv_ID (pt_devices s)) k = Some d" "?P d" by blast
    note hit = where_hit(3)[where P = ?P, OF simulatesD(6)[OF sim] d]
    let ?f = "\<lambda>d. d\<lparr>dv_RevokedAt := Some (c_now c ClockDevice), dv_TrustedAt := None\<rparr>"
    have id: "dv_ID d = k" "dv_ID (?f d) = k" using keyed_in[OF d(1)] by simp_all
    note upd = device_updated[OF sim d(1), of ?f, OF id(2)]
    have "norm_device (?f d) = ?f d" by (simp add: norm_device_def)
    then show ?thesis
      using d hit id upd(2) related_tables(4)[OF simulatesD(2)[OF sim] upd(1)[symmetric]] simulatesD(2)[OF sim]
      by (simp add: agree_def PgRevokeDevice_def UsersRevokeDevice_def attempt_def withEntTx_def bindp_def lockDevice_def
          query_def entity_rule_def rel(4) keyed_norm DeviceRevoke_def norm_device_def DeviceIsRevoked_def refuse_def ok_def
          update_device_def Let_def set_nillable_def)
  qed
qed

lemma Devices_agrees:
  assumes "simulates s m" "PgDevices k s = Inr ds" "UsersDevices k m = Inr ds'"
  shows "mset (map norm_device ds) = mset ds'"
proof -
  have "filter (\<lambda>d. dv_UserID d = k) (map norm_device rows) = map norm_device (filter (\<lambda>d. dv_UserID d = k) rows)" for rows
    by (induction rows) auto
  then have "ds' = sort_key (\<lambda>d. - lastSeen d) (map norm_device (filter (\<lambda>d. dv_UserID d = k) (pt_devices s)))"
    using assms(3) by (simp add: UsersDevices_def related_sel(4)[OF simulatesD(2)[OF assms(1)]])
  then show ?thesis using assms(2) by (auto simp: PgDevices_def)
qed

lemma RecordLoginEvent_agrees:
  assumes sim: "simulates s m" and e: "le_ID e = uuid_Nil" "le_CreatedAt e = zero_time" "length (le_UserAgent e) \<le> 512"
      "map_of (us_users m) (le_UserID e) \<noteq> None"
    and fresh: "c_newID c DrawLogin \<notin> le_ID ` set (us_events m)"
  shows "agree (PgRecordLoginEvent c e) (UsersRecordLoginEvent c e) s m"
proof -
  note rel = related_sel[OF simulatesD(2)[OF sim]]
  have "user_row_exists (le_UserID e) s"
    using e(4) user_exists[OF simulatesD(2)[OF sim]] by (auto simp: user_row_exists_def)
  then show ?thesis
    using e(1-3) fresh related_tables(5)[OF simulatesD(2)[OF sim]]
    by (simp add: agree_def PgRecordLoginEvent_def UsersRecordLoginEvent_def translate_run Let_def ok_def rel(6))
qed

text \<open>Rows recorded at different times come back newest first from either store.\<close>

lemma sort_recorded:
  fixes f :: "'a \<Rightarrow> int"
  assumes "sorted_wrt (\<lambda>a b. f a < f b) rows"
  shows "sort_key (\<lambda>a. - f a) rows = rev rows"
  using assms
proof (induction rows rule: rev_induct)
  case (snoc r rows)
  have less: "f a < f r" if "a \<in> set rows" for a using snoc.prems that by (simp add: sorted_wrt_append)
  have ih: "sort_key (\<lambda>a. - f a) rows = rev rows" using snoc by (simp add: sorted_wrt_append)
  have "sort_key (\<lambda>a. - f a) (rows @ [r]) = r # rev rows"
  proof (rule sort_key_inj_key_eq)
    show "mset (rows @ [r]) = mset (r # rev rows)" by simp
    show "inj_on (\<lambda>a. - f a) (set (rows @ [r]))"
    proof -
      have "inj_on f (set xs)" if "sorted_wrt (\<lambda>a b. f a < f b) xs" for xs
        using that
      proof (induction xs)
        case (Cons x xs)
        then have "f x < f y" if "y \<in> set xs" for y using that by simp
        then have "f x \<notin> f ` set xs" by force
        then show ?case using Cons by (auto simp: image_iff)
      qed simp
      from this[OF snoc.prems] show ?thesis unfolding inj_on_def by simp
    qed
    show "sorted (map (\<lambda>a. - f a) (r # rev rows))"
    proof -
      have "sorted (map (\<lambda>a. - f a) (rev rows))" by (metis ih sorted_sort_key)
      then show ?thesis using less by (auto intro: less_imp_le)
    qed
  qed
  then show ?case by simp
qed simp

lemma LoginEvents_agrees:
  assumes sim: "simulates s m" and limit: "0 < limit"
    and order: "sorted_wrt (\<lambda>a b. le_CreatedAt a < le_CreatedAt b) (filter (\<lambda>e. le_UserID e = k) (us_events m))"
  shows "PgLoginEvents k limit s = UsersLoginEvents k limit m"
proof -
  have same: "pt_events s = us_events m" by (simp add: related_sel(6)[OF simulatesD(2)[OF sim]])
  show ?thesis
    using limit sort_recorded[OF order]
    by (simp add: PgLoginEvents_def UsersLoginEvents_def limit_rows_def Let_def same rev_filter[symmetric])
qed

section \<open>Two-factor challenges\<close>

lemma ReplaceTwoFactorChallenge_agrees:
  assumes sim: "simulates s m" and r: "tc_ID r = uuid_Nil" "tc_ConsumedAt r = None" "field_ok 64 (tc_CodeHash r)"
      "map_of (us_users m) (tc_UserID r) \<noteq> None" "map_of (us_devices m) (tc_DeviceID r) \<noteq> None"
    and fresh: "map_of (us_challenges m) (c_newID c DrawCode) = None"
  shows "agree (PgReplaceTwoFactorChallenge c r) (UsersReplaceTwoFactorChallenge c r) s m"
proof -
  have row: "r\<lparr>tc_ID := x, tc_ConsumedAt := None\<rparr> = r\<lparr>tc_ID := x\<rparr>" for x using r(2) by (cases r) simp
  have user: "user_row_exists (tc_UserID r) (s\<lparr>pt_challenges := x\<rparr>)" for x
    using r(4) user_exists[OF simulatesD(2)[OF sim]] by (auto simp: user_row_exists_def)
  have device: "tc_DeviceID r \<in> set (map dv_ID (pt_devices s))"
    using r(5) unfolding related_sel(4)[OF simulatesD(2)[OF sim]] keyed_norm option.map_disc_iff keyed_None by simp
  show ?thesis
    using r(1,3) user device challenges.fresh_key[OF sim fresh]
      challenges.replaced[OF sim, of "r\<lparr>tc_ID := c_newID c DrawCode\<rparr>"] fresh
    by (simp add: agree_def PgReplaceTwoFactorChallenge_def UsersReplaceTwoFactorChallenge_def translate_run withEntTx_def
        bindp_def delete_open_challenges_def insert_challenge_def Let_def row ok_def)
qed

lemma ActiveTwoFactorChallenge_agrees:
  assumes "simulates s m"
  shows "PgActiveTwoFactorChallenge k now s = UsersActiveTwoFactorChallenge k now m"
  using challenges.found[OF assms, of "active_challenge k now" k]
  by (simp add: PgActiveTwoFactorChallenge_def UsersActiveTwoFactorChallenge_def active_challenge_def[abs_def]
      or_not_found_def split: option.split)

lemma FailTwoFactorChallenge_agrees:
  assumes "simulates s m"
  shows "agree (PgFailTwoFactorChallenge i max' now) (UsersFailTwoFactorChallenge i max' now) s m"
proof -
  have step: "(\<lambda>(at, r). (at, r\<lparr>tc_Attempts := tc_Attempts r + 1,
      tc_ConsumedAt := (if max' \<le> tc_Attempts r + 1 then Some now else tc_ConsumedAt r)\<rparr>)) =
      (\<lambda>(at, r). (at, fail_challenge max' now r))"
    by (auto simp: fail_challenge_def Let_def fun_eq_iff)
  show ?thesis
    using challenges.counted[OF assms, of "fail_challenge max' now" i]
    by (auto simp: agree_def PgFailTwoFactorChallenge_def UsersFailTwoFactorChallenge_def step ok_def fail_challenge_def
        Let_def split: option.splits if_splits)
qed

lemma ConsumeTwoFactorChallenge_agrees:
  assumes sim: "simulates s m"
  shows "agree (PgConsumeTwoFactorChallenge c i k at) (UsersConsumeTwoFactorChallenge c i k at) s m"
proof -
  note rel = related_sel[OF simulatesD(2)[OF sim]]
  let ?ts = "set_where (\<lambda>(_, r). tc_ID r = i \<and> tc_ConsumedAt r = None) (\<lambda>(t, r). (t, r\<lparr>tc_ConsumedAt := Some at\<rparr>)) (pt_challenges s)"
  note trust = trust_device_run[of "s\<lparr>pt_challenges := ?ts\<rparr>" c k, simplified, OF simulatesD(6)[OF sim]]
  show ?thesis
  proof (cases "\<exists>r. map_of (us_challenges m) i = Some r \<and> tc_ConsumedAt r = None")
    case False
    then have "UsersConsumeTwoFactorChallenge c i k at m = (Inl (UserErr ErrInvalidTwoFactorCode), m)"
      by (auto simp: UsersConsumeTwoFactorChallenge_def refuse_def split: option.split)
    moreover have "affected (\<lambda>(_, r). tc_ID r = i \<and> tc_ConsumedAt r = None) (pt_challenges s) = 0"
      using challenges.affected_open[OF sim, of i] False by (simp only: if_False)
    ultimately show ?thesis
      using simulatesD(2)[OF sim]
      by (simp add: agree_def PgConsumeTwoFactorChallenge_def translate_run withEntTx_def bindp_def Let_def ok_def refuse_def
          translateDeviceError_def)
  next
    case True
    then obtain r where r: "map_of (us_challenges m) i = Some r" "tc_ConsumedAt r = None" by blast
    have run: "PgConsumeTwoFactorChallenge c i k at s =
        translate (translateDeviceError ''consume two factor challenge'')
          (withEntTx (\<lambda>s. trust_device c k (s\<lparr>pt_challenges := ?ts\<rparr>))) s"
      using True challenges.affected_open[OF sim, of i]
      by (simp add: PgConsumeTwoFactorChallenge_def translate_run withEntTx_def bindp_def Let_def ok_def)
    show ?thesis
    proof (cases "map_of (keyed dv_ID (pt_devices s)) k")
      case None
      then show ?thesis using r simulatesD(2)[OF sim]
        by (simp add: agree_def run translate_run withEntTx_def trust UsersConsumeTwoFactorChallenge_def rel(4) keyed_norm
            refuse_def translateDeviceError_def)
    next
      case (Some d)
      let ?f = "\<lambda>d. d\<lparr>dv_TrustedAt := Some (c_now c ClockDevice)\<rparr>"
      have "dv_ID (?f d) = k" using keyed_in[OF Some] by simp
      note upd = device_updated[OF sim Some, of ?f, OF this]
      have spent: "related (s\<lparr>pt_challenges := ?ts\<rparr>)
          (m\<lparr>us_challenges := AList.update i (r\<lparr>tc_ConsumedAt := Some at\<rparr>) (us_challenges m)\<rparr>)"
        using challenges.counted[OF sim, of "\<lambda>r. r\<lparr>tc_ConsumedAt := Some at\<rparr>" i] r by simp
      have swap: "m\<lparr>us_challenges := a\<rparr>\<lparr>us_devices := b\<rparr> = m\<lparr>us_devices := b\<rparr>\<lparr>us_challenges := a\<rparr>" for a b by simp
      note both = related_tables(4)[OF spent upd(1)[symmetric], unfolded swap]
      show ?thesis
        using Some r both simulatesD(2)[OF sim]
        by (cases "dv_RevokedAt d") (simp_all add: agree_def run translate_run withEntTx_def trust
            UsersConsumeTwoFactorChallenge_def rel(4) keyed_norm refuse_def ok_def translateDeviceError_def
            DeviceTrust_def norm_device_def DeviceIsRevoked_def)
    qed
  qed
qed

end
