(* ===== verification/Pg_Contract.thy ===== *)
theory Pg_Contract
  imports Pg_Codes
begin

text \<open>
  The account service over Postgres: the repository keeps the contract of \<open>Users_Contract\<close>, so what follows from it for any
  store holds for the one that is deployed.
\<close>

section \<open>The store\<close>

definition pg_accounts :: "Libs \<Rightarrow> int \<Rightarrow> string \<Rightarrow> string \<Rightarrow> PgUsers UserService" where
  "pg_accounts libs cost pepper dummy =
     \<lparr>vs_repo = pg_users, vs_libs = libs, vs_cost = cost, vs_pepper = pepper, vs_dummyHash = dummy\<rparr>"

text \<open>Tables that hold what some well-formed memory store holds.\<close>

definition pg_wf :: "PgUsers \<Rightarrow> bool" where
  "pg_wf s \<longleftrightarrow> (\<exists>m. simulates s m)"

definition pg_account :: "PgUsers \<Rightarrow> uuid \<Rightarrow> User option" where
  "pg_account s k = mem_account (pg_memory s) k"

definition pg_device :: "PgUsers \<Rightarrow> uuid \<Rightarrow> Device option" where
  "pg_device s = map_of (keyed dv_ID (pt_devices s))"

lemma pg_users_sel [simp]:
  "ur_Create pg_users = PgCreate" "ur_ByID pg_users = PgByID" "ur_ByEmail pg_users = PgByEmail" "ur_All pg_users = PgAll"
  "ur_Delete pg_users = PgDelete" "ur_UpdateProfile pg_users = PgUpdateProfile" "ur_SetPassword pg_users = PgSetPassword"
  "ur_BumpSessionEpoch pg_users = PgBumpSessionEpoch" "ur_SetSuspended pg_users = PgSetSuspended"
  "ur_ReplacePasswordReset pg_users = PgReplacePasswordReset" "ur_ActivePasswordReset pg_users = PgActivePasswordReset"
  "ur_FailPasswordReset pg_users = PgFailPasswordReset" "ur_ConsumePasswordReset pg_users = PgConsumePasswordReset"
  "ur_ReplaceEmailChange pg_users = PgReplaceEmailChange" "ur_ActiveEmailChange pg_users = PgActiveEmailChange"
  "ur_FailEmailChange pg_users = PgFailEmailChange" "ur_ConsumeEmailChange pg_users = PgConsumeEmailChange"
  "ur_DeviceByFingerprint pg_users = PgDeviceByFingerprint" "ur_CreateDevice pg_users = PgCreateDevice"
  "ur_TouchDevice pg_users = PgTouchDevice" "ur_TrustDevice pg_users = PgTrustDevice" "ur_Devices pg_users = PgDevices"
  "ur_RevokeDevice pg_users = PgRevokeDevice" "ur_ActiveDevice pg_users = PgActiveDevice"
  "ur_RecordLoginEvent pg_users = PgRecordLoginEvent" "ur_LoginEvents pg_users = PgLoginEvents"
  "ur_SetTwoFactorEnabled pg_users = PgSetTwoFactorEnabled"
  "ur_ReplaceTwoFactorChallenge pg_users = PgReplaceTwoFactorChallenge"
  "ur_ActiveTwoFactorChallenge pg_users = PgActiveTwoFactorChallenge"
  "ur_FailTwoFactorChallenge pg_users = PgFailTwoFactorChallenge"
  "ur_ConsumeTwoFactorChallenge pg_users = PgConsumeTwoFactorChallenge"
  by (simp_all add: pg_users_def)

lemma pg_accounts_sel [simp]:
  "vs_repo (pg_accounts l k p d) = pg_users" "vs_libs (pg_accounts l k p d) = l" "vs_pepper (pg_accounts l k p d) = p"
  by (simp_all add: pg_accounts_def)

section \<open>The views\<close>

lemma views:
  assumes "related s m"
  shows "pg_account s = mem_account m" "us_resets m = us_resets (pg_memory s)"
    "us_emailChg m = us_emailChg (pg_memory s)" "us_challenges m = us_challenges (pg_memory s)"
    "map_of (us_devices m) = (\<lambda>k. map_option norm_device (pg_device s k))"
  using related_sel[OF assms] by (auto simp: pg_account_def mem_account_def fun_eq_iff pg_device_def keyed_norm)

lemma stays_wf:
  assumes "agree p q s m" "p s = (Inr x, s')" "(user_step False)\<^sup>*\<^sup>* m (snd (q m))" "simulates s m"
  shows "\<exists>m'. q m = (Inr x, m') \<and> simulates s' m'"
  using assms steps_accounts_wf[OF assms(3) simulatesD(1)[OF assms(4)]]
  by (cases "q m") (auto simp: agree_def simulates_def)

lemma found_device:
  assumes "pg_wf s" "PgDeviceByFingerprint k fp s = Inr dv"
  shows "pg_device s (dv_ID dv) = Some dv \<and> dv_UserID dv = k \<and> dv_Fingerprint dv = fp"
proof -
  obtain m where sim: "simulates s m" using assms(1) by (auto simp: pg_wf_def)
  have "dv \<in> set (pt_devices s) \<and> dv_UserID dv = k \<and> dv_Fingerprint dv = fp"
    using assms(2) by (auto simp: PgDeviceByFingerprint_def first_row_find split: option.splits dest: find_Some_in)
  then show ?thesis using keyed_lookup[OF simulatesD(6)[OF sim]] by (simp add: pg_device_def)
qed

lemma active_device_row:
  assumes "pg_wf s" "PgActiveDevice k i s = Inr dv"
  shows "pg_device s i = Some dv \<and> dv_UserID dv = k \<and> \<not> DeviceIsRevoked dv"
proof -
  obtain m where sim: "simulates s m" using assms(1) by (auto simp: pg_wf_def)
  have "dv \<in> set (pt_devices s) \<and> dv_ID dv = i \<and> dv_UserID dv = k \<and> dv_RevokedAt dv = None"
    using assms(2) by (auto simp: PgActiveDevice_def first_row_find split: option.splits dest: find_Some_in)
  then show ?thesis using keyed_lookup[OF simulatesD(6)[OF sim]] by (auto simp: pg_device_def DeviceIsRevoked_def)
qed

lemma recorded_login:
  assumes sim: "simulates s m" and run: "PgRecordLoginEvent c ev s = (res, s')"
  shows "pg_wf s' \<and> pt_challenges s' = pt_challenges s \<and> pt_devices s' = pt_devices s"
proof -
  let ?row = "ev\<lparr>le_ID := c_newID c DrawLogin, le_CreatedAt := c_now c ClockEvent\<rparr>"
  consider "s' = s" | "s' = s\<lparr>pt_events := pt_events s @ [?row]\<rparr>"
    using run by (auto simp: PgRecordLoginEvent_def translate_run Let_def refuse_def ok_def split: if_splits)
  then show ?thesis
  proof cases
    case 1
    then show ?thesis using sim by (auto simp: pg_wf_def)
  next
    case 2
    let ?m = "m\<lparr>us_events := us_events m @ [?row]\<rparr>"
    have "snd (UsersRecordLoginEvent c (ev\<lparr>le_ID := uuid_Nil, le_CreatedAt := zero_time\<rparr>) m) = ?m"
      by (simp add: UsersRecordLoginEvent_def Let_def ok_def)
    then have "user_step False m ?m" by (metis user_step.RecordLoginEvent)
    then have "accounts_wf ?m" using steps_accounts_wf[of m ?m] simulatesD(1)[OF sim] by blast
    moreover have "related s' ?m"
      using related_tables(5)[OF simulatesD(2)[OF sim]] related_sel(6)[OF simulatesD(2)[OF sim]] 2 by simp
    ultimately show ?thesis using 2 by (auto simp: pg_wf_def simulates_def)
  qed
qed

lemma spent_challenge:
  assumes sim: "simulates s m" and run: "PgConsumeTwoFactorChallenge c i j now s = (Inr x, s')"
  shows "pg_wf s' \<and> (\<exists>ch. map_of (keyed tc_ID (map snd (pt_challenges s'))) i = Some ch \<and> tc_ConsumedAt ch \<noteq> None) \<and>
     (\<exists>dv. pg_device s' j = Some dv \<and> dv_TrustedAt dv \<noteq> None)"
proof -
  have "(user_step False)\<^sup>*\<^sup>* m (snd (UsersConsumeTwoFactorChallenge c i j now m))"
    by (blast intro: user_step.ConsumeTwoFactorChallenge)
  from stays_wf[OF ConsumeTwoFactorChallenge_agrees[OF sim] run this sim]
  obtain m' where m': "UsersConsumeTwoFactorChallenge c i j now m = (Inr x, m')" and sim': "simulates s' m'" by blast
  obtain ch dv where "map_of (us_challenges m') i = Some ch" "tc_ConsumedAt ch \<noteq> None"
    "map_of (us_devices m') j = Some dv" "dv_TrustedAt dv \<noteq> None"
    using m' by (auto simp: ConsumeTwoFactorChallenge_ok amap_simps)
  moreover have "dv_TrustedAt d \<noteq> None" if "dv_TrustedAt (norm_device d) \<noteq> None" for d
    using that by (auto simp: norm_device_def split: if_splits)
  ultimately show ?thesis
    using sim' views[OF simulatesD(2)[OF sim']] related_sel(5)[OF simulatesD(2)[OF sim']]
    by (fastforce simp: pg_wf_def)
qed

lemma hash_accepted:
  "PgSetPassword k h s = (Inr x, s') \<Longrightarrow> field_ok 255 h"
  "PgConsumePasswordReset r h s = (Inr x, s') \<Longrightarrow> field_ok 255 h"
  "PgConsumeEmailChange ec e s = (Inr x, s') \<Longrightarrow> field_ok 255 e"
  by (auto simp: PgSetPassword_def bumpEpoch_def update_live_def PgConsumePasswordReset_def PgConsumeEmailChange_def
      bindp_def translate_run withEntTx_def refuse_def split: if_splits)

section \<open>The contract holds\<close>

interpretation pg_store: account_store "pg_accounts libs cost pepper dummy" pg_wf pg_account pg_device
  "\<lambda>s. map_of (keyed tc_ID (map snd (pt_challenges s)))" "\<lambda>s. map_of (keyed pr_ID (map snd (pt_resets s)))"
  "\<lambda>s. map_of (keyed ec_ID (map snd (pt_changes s)))"
  for libs cost pepper dummy
proof (unfold_locales, goal_cases)
  case (1 s k)
  then obtain m where sim: "simulates s m" by (auto simp: pg_wf_def)
  then show ?case using ByID_agrees[OF sim] views(1)[OF simulatesD(2)[OF sim]] by (simp add: UsersByID_ok)
next
  case (2 s email u)
  then obtain m where sim: "simulates s m" by (auto simp: pg_wf_def)
  then show ?case
    using 2 ByEmail_agrees[OF sim] views(1)[OF simulatesD(2)[OF sim]] UsersByEmail_ok[OF accounts_wfD(1)[OF simulatesD(1)[OF sim]]]
    by simp
next
  case (3 s k fp dv)
  then show ?case using found_device by simp
next
  case (4 s k j dv)
  then show ?case using active_device_row by simp
next
  case (5 s c dv dv' s')
  then show ?case by (auto simp: PgCreateDevice_def translate_run Let_def ok_def refuse_def split: if_splits)
next
  case (6 s k now ch)
  then obtain m where sim: "simulates s m" by (auto simp: pg_wf_def)
  then show ?case
    using 6 ActiveTwoFactorChallenge_agrees[OF sim] UsersActiveTwoFactorChallenge_ok[OF accounts_wfD(7)[OF simulatesD(1)[OF sim]]]
      related_sel(5)[OF simulatesD(2)[OF sim]] by (simp add: active_challenge_def)
next
  case (7 s c i j now x s')
  then show ?case using spent_challenge by (auto simp: pg_wf_def)
next
  case (8 s c ev res s')
  then obtain m where sim: "simulates s m" by (auto simp: pg_wf_def)
  then show ?case using recorded_login[OF sim] 8 by (auto simp: pg_device_def)
next
  case (9 s k u h x s')
  then obtain m where sim: "simulates s m" by (auto simp: pg_wf_def)
  have run: "PgSetPassword k h s = (Inr x, s')" using 9 by simp
  have "(user_step False)\<^sup>*\<^sup>* m (snd (UsersSetPassword k h m))" by (blast intro: user_step.SetPassword)
  from stays_wf[OF SetPassword_agrees[OF sim hash_accepted(1)[OF run]] run this sim] obtain m' where
    m': "UsersSetPassword k h m = (Inr x, m')" "simulates s' m'" by blast
  show ?case
    using SetPassword_account[OF _ m'(1), of u] 9(2) views(1)[OF simulatesD(2)[OF sim]] views(1)[OF simulatesD(2)[OF m'(2)]]
    by simp
next
  case (10 s k now r)
  then obtain m where sim: "simulates s m" by (auto simp: pg_wf_def)
  then show ?case
    using 10 ActivePasswordReset_agrees[OF sim] UsersActivePasswordReset_ok[OF accounts_wfD(5)[OF simulatesD(1)[OF sim]]]
      related_sel(2)[OF simulatesD(2)[OF sim]] by (simp add: active_reset_def)
next
  case (11 s r u r0 h x s')
  then obtain m where sim: "simulates s m" by (auto simp: pg_wf_def)
  note rel = simulatesD(2)[OF sim]
  have run: "PgConsumePasswordReset r h s = (Inr x, s')" using 11 by simp
  have u: "mem_account m (pr_UserID r) = Some u" using 11(2) views(1)[OF rel] by simp
  have row: "map_of (us_resets m) (pr_ID r) = Some r0" using 11(3) by (simp add: related_sel(2)[OF rel])
  have "(user_step False)\<^sup>*\<^sup>* m (snd (UsersConsumePasswordReset r h m))"
    using 11(4) by (blast intro: user_step.ConsumePasswordReset)
  from stays_wf[OF ConsumePasswordReset_agrees[OF sim _ _ row 11(4) hash_accepted(2)[OF run], of u] run this sim] u
  obtain m' where m': "UsersConsumePasswordReset r h m = (Inr x, m')" "simulates s' m'" by (auto simp: mem_account_Some)
  show ?case
    using ConsumePasswordReset_account[OF u row m'(1)] views(1)[OF rel] views(1)[OF simulatesD(2)[OF m'(2)]]
      related_sel(2)[OF rel] related_sel(2)[OF simulatesD(2)[OF m'(2)]] by simp
next
  case (12 s k now ec)
  then obtain m where sim: "simulates s m" by (auto simp: pg_wf_def)
  then show ?case
    using 12 ActiveEmailChange_agrees[OF sim] UsersActiveEmailChange_ok[OF accounts_wfD(6)[OF simulatesD(1)[OF sim]]]
      related_sel(3)[OF simulatesD(2)[OF sim]] by (simp add: active_change_def)
next
  case (13 s ec u ec0 email x s')
  then obtain m where sim: "simulates s m" by (auto simp: pg_wf_def)
  note rel = simulatesD(2)[OF sim]
  have run: "PgConsumeEmailChange ec email s = (Inr x, s')" using 13 by simp
  have u: "mem_account m (ec_UserID ec) = Some u" using 13(2) views(1)[OF rel] by simp
  have row: "map_of (us_emailChg m) (ec_ID ec) = Some ec0" using 13(3) by (simp add: related_sel(3)[OF rel])
  have "live_user m (ec_UserID ec)" using u by (auto simp: live_user_def mem_account_Some)
  then have "(user_step False)\<^sup>*\<^sup>* m (snd (UsersConsumeEmailChange ec email m))"
    using 13(4) by (blast intro: user_step.ConsumeEmailChange)
  from stays_wf[OF ConsumeEmailChange_agrees[OF sim _ _ row 13(4) hash_accepted(3)[OF run], of u] run this sim] u
  obtain m' where m': "UsersConsumeEmailChange ec email m = (Inr x, m')" "simulates s' m'" by (auto simp: mem_account_Some)
  show ?case
    using ConsumeEmailChange_account[OF simulatesD(1)[OF sim] u row m'(1)] views(1)[OF rel] views(1)[OF simulatesD(2)[OF m'(2)]]
      related_sel(3)[OF rel] related_sel(3)[OF simulatesD(2)[OF m'(2)]] by simp
qed

end
