(* ===== verification/Pg_Properties.thy ===== *)
theory Pg_Properties
  imports Pg_Contract Demo_Users
begin

text \<open>
  The Postgres account repository is a refinement of the in-memory one, and keeps the contract the account service
  relies on.
\<close>

section \<open>Histories of calls\<close>

text \<open>The calls of \<open>user.Repository\<close> as values, and making one on any implementation.\<close>

datatype account_call =
    CallCreate Call User | CallByID uuid | CallByEmail string | CallAll int int | CallDelete Call uuid
  | CallUpdateProfile uuid string string | CallSetPassword uuid string | CallBumpSessionEpoch uuid
  | CallSetSuspended uuid "time option" | CallSetTwoFactorEnabled uuid bool
  | CallReplacePasswordReset Call PasswordReset | CallActivePasswordReset uuid time
  | CallFailPasswordReset uuid time | CallConsumePasswordReset PasswordReset string
  | CallReplaceEmailChange Call EmailChange | CallActiveEmailChange uuid time
  | CallFailEmailChange uuid time | CallConsumeEmailChange EmailChange string
  | CallDeviceByFingerprint uuid string | CallCreateDevice Call Device | CallTouchDevice uuid time string string
  | CallTrustDevice Call uuid | CallDevices uuid | CallRevokeDevice Call uuid uuid | CallActiveDevice uuid uuid
  | CallRecordLoginEvent Call LoginEvent | CallLoginEvents uuid int
  | CallReplaceTwoFactorChallenge Call TwoFactorChallenge | CallActiveTwoFactorChallenge uuid time
  | CallFailTwoFactorChallenge uuid time | CallConsumeTwoFactorChallenge Call uuid uuid time

datatype reply =
    Done | AUser User | SomeUsers "User list" | AReset PasswordReset | AChange EmailChange | ADevice Device
  | SomeDevices "Device list" | SomeEvents "LoginEvent list" | AChallenge TwoFactorChallenge

definition with_reply :: "('a \<Rightarrow> reply) \<Rightarrow> ('s, err, 'a) prog \<Rightarrow> ('s, err, reply) prog" where
  "with_reply f p s = (case p s of (Inl e, s') \<Rightarrow> (Inl e, s') | (Inr x, s') \<Rightarrow> (Inr (f x), s'))"

fun do_call :: "'s UserRepository \<Rightarrow> account_call \<Rightarrow> ('s, err, reply) prog" where
  "do_call R (CallCreate c u) = with_reply AUser (ur_Create R c u)"
| "do_call R (CallByID k) = with_reply AUser (query (ur_ByID R k))"
| "do_call R (CallByEmail email) = with_reply AUser (query (ur_ByEmail R email))"
| "do_call R (CallAll limit offset) = with_reply SomeUsers (query (ur_All R limit offset))"
| "do_call R (CallDelete c k) = with_reply (\<lambda>_. Done) (ur_Delete R c k)"
| "do_call R (CallUpdateProfile k name locale) = with_reply (\<lambda>_. Done) (ur_UpdateProfile R k name locale)"
| "do_call R (CallSetPassword k hash) = with_reply (\<lambda>_. Done) (ur_SetPassword R k hash)"
| "do_call R (CallBumpSessionEpoch k) = with_reply (\<lambda>_. Done) (ur_BumpSessionEpoch R k)"
| "do_call R (CallSetSuspended k at) = with_reply (\<lambda>_. Done) (ur_SetSuspended R k at)"
| "do_call R (CallSetTwoFactorEnabled k enabled) = with_reply (\<lambda>_. Done) (ur_SetTwoFactorEnabled R k enabled)"
| "do_call R (CallReplacePasswordReset c r) = with_reply AReset (ur_ReplacePasswordReset R c r)"
| "do_call R (CallActivePasswordReset k now) = with_reply AReset (query (ur_ActivePasswordReset R k now))"
| "do_call R (CallFailPasswordReset i now) = with_reply (\<lambda>_. Done) (ur_FailPasswordReset R i resetMaxAttempts now)"
| "do_call R (CallConsumePasswordReset r hash) = with_reply (\<lambda>_. Done) (ur_ConsumePasswordReset R r hash)"
| "do_call R (CallReplaceEmailChange c r) = with_reply AChange (ur_ReplaceEmailChange R c r)"
| "do_call R (CallActiveEmailChange k now) = with_reply AChange (query (ur_ActiveEmailChange R k now))"
| "do_call R (CallFailEmailChange i now) = with_reply (\<lambda>_. Done) (ur_FailEmailChange R i emailChangeMaxAttempts now)"
| "do_call R (CallConsumeEmailChange r email) = with_reply (\<lambda>_. Done) (ur_ConsumeEmailChange R r email)"
| "do_call R (CallDeviceByFingerprint k fp) = with_reply ADevice (query (ur_DeviceByFingerprint R k fp))"
| "do_call R (CallCreateDevice c d) = with_reply ADevice (ur_CreateDevice R c d)"
| "do_call R (CallTouchDevice i at ip ua) = with_reply (\<lambda>_. Done) (ur_TouchDevice R i at ip ua)"
| "do_call R (CallTrustDevice c i) = with_reply (\<lambda>_. Done) (ur_TrustDevice R c i)"
| "do_call R (CallDevices k) = with_reply SomeDevices (query (ur_Devices R k))"
| "do_call R (CallRevokeDevice c k i) = with_reply (\<lambda>_. Done) (ur_RevokeDevice R c k i)"
| "do_call R (CallActiveDevice k i) = with_reply ADevice (query (ur_ActiveDevice R k i))"
| "do_call R (CallRecordLoginEvent c e) = with_reply (\<lambda>_. Done) (ur_RecordLoginEvent R c e)"
| "do_call R (CallLoginEvents k limit) = with_reply SomeEvents (query (ur_LoginEvents R k limit))"
| "do_call R (CallReplaceTwoFactorChallenge c r) = with_reply AChallenge (ur_ReplaceTwoFactorChallenge R c r)"
| "do_call R (CallActiveTwoFactorChallenge k now) = with_reply AChallenge (query (ur_ActiveTwoFactorChallenge R k now))"
| "do_call R (CallFailTwoFactorChallenge i now) =
     with_reply (\<lambda>_. Done) (ur_FailTwoFactorChallenge R i twoFactorMaxAttempts now)"
| "do_call R (CallConsumeTwoFactorChallenge c i k at) = with_reply (\<lambda>_. Done) (ur_ConsumeTwoFactorChallenge R c i k at)"

fun history :: "'s UserRepository \<Rightarrow> account_call list \<Rightarrow> 's \<Rightarrow> (err + reply) list \<times> 's" where
  "history R [] s = ([], s)"
| "history R (call # calls) s =
     (case do_call R call s of (r, s') \<Rightarrow> (case history R calls s' of (rs, s'') \<Rightarrow> (r # rs, s'')))"

text \<open>
  Where the two stores are meant to do the same: identifiers and times are left to the store and the drawn ones are
  new, what is written passes the field rules of the schema and refers to rows that exist, and the accounts that are
  written are not deleted ones.
\<close>

fun comparable :: "Users \<Rightarrow> account_call \<Rightarrow> bool" where
  "comparable m (CallCreate c u) \<longleftrightarrow> u_ID u = uuid_Nil \<and> u_CreatedAt u = zero_time \<and> u_DeletedAt u = None \<and>
     u_AvatarID u = None \<and> account_fields_ok u \<and> map_of (us_users m) (c_newID c DrawUser) = None"
| "comparable m (CallAll limit offset) \<longleftrightarrow> 0 < limit \<and> 0 \<le> offset"
| "comparable m (CallDelete c k) \<longleftrightarrow> \<not> UsersIsSoftDeleted k m \<and> k \<noteq> uuid_Nil"
| "comparable m (CallUpdateProfile k name locale) \<longleftrightarrow> field_ok 100 name \<and> length locale \<le> 10"
| "comparable m (CallSetPassword k hash) \<longleftrightarrow> field_ok 255 hash"
| "comparable m (CallSetSuspended k at) \<longleftrightarrow> \<not> UsersIsSoftDeleted k m"
| "comparable m (CallSetTwoFactorEnabled k enabled) \<longleftrightarrow> map_of (us_users m) k \<noteq> None"
| "comparable m (CallReplacePasswordReset c r) \<longleftrightarrow> pr_ID r = uuid_Nil \<and> pr_ConsumedAt r = None \<and> pr_Attempts r = 0 \<and>
     field_ok 64 (pr_CodeHash r) \<and> map_of (us_users m) (pr_UserID r) \<noteq> None \<and>
     map_of (us_resets m) (c_newID c DrawCode) = None"
| "comparable m (CallConsumePasswordReset r hash) \<longleftrightarrow> mem_account m (pr_UserID r) \<noteq> None \<and>
     map_of (us_resets m) (pr_ID r) \<noteq> None \<and> pr_ConsumedAt r \<noteq> None \<and> field_ok 255 hash"
| "comparable m (CallReplaceEmailChange c r) \<longleftrightarrow> ec_ID r = uuid_Nil \<and> ec_ConsumedAt r = None \<and> ec_Attempts r = 0 \<and>
     field_ok 64 (ec_CodeHash r) \<and> field_ok 255 (ec_NewEmail r) \<and> map_of (us_users m) (ec_UserID r) \<noteq> None \<and>
     map_of (us_emailChg m) (c_newID c DrawCode) = None"
| "comparable m (CallConsumeEmailChange r email) \<longleftrightarrow> mem_account m (ec_UserID r) \<noteq> None \<and>
     map_of (us_emailChg m) (ec_ID r) \<noteq> None \<and> ec_ConsumedAt r \<noteq> None \<and> field_ok 255 email"
| "comparable m (CallCreateDevice c d) \<longleftrightarrow> dv_ID d = uuid_Nil \<and> dv_CreatedAt d = zero_time \<and> dv_TrustedAt d = None \<and>
     dv_RevokedAt d = None \<and> field_ok 64 (dv_Fingerprint d) \<and> length (dv_UserAgent d) \<le> 512 \<and>
     map_of (us_users m) (dv_UserID d) \<noteq> None \<and> map_of (us_devices m) (c_newID c DrawDevice) = None \<and>
     UsersDeviceByFingerprint (dv_UserID d) (dv_Fingerprint d) m = Inl user_not_found"
| "comparable m (CallTouchDevice i at ip ua) \<longleftrightarrow> map_of (us_devices m) i \<noteq> None \<and> length ua \<le> 512"
| "comparable m (CallRecordLoginEvent c e) \<longleftrightarrow> le_ID e = uuid_Nil \<and> le_CreatedAt e = zero_time \<and>
     length (le_UserAgent e) \<le> 512 \<and> map_of (us_users m) (le_UserID e) \<noteq> None \<and>
     c_newID c DrawLogin \<notin> le_ID ` set (us_events m)"
| "comparable m (CallLoginEvents k limit) \<longleftrightarrow> 0 < limit \<and>
     sorted_wrt (\<lambda>a b. le_CreatedAt a < le_CreatedAt b) (filter (\<lambda>e. le_UserID e = k) (us_events m))"
| "comparable m (CallReplaceTwoFactorChallenge c r) \<longleftrightarrow> tc_ID r = uuid_Nil \<and> tc_ConsumedAt r = None \<and> tc_Attempts r = 0 \<and>
     field_ok 64 (tc_CodeHash r) \<and> map_of (us_users m) (tc_UserID r) \<noteq> None \<and>
     map_of (us_devices m) (tc_DeviceID r) \<noteq> None \<and> map_of (us_challenges m) (c_newID c DrawCode) = None"
| "comparable m call \<longleftrightarrow> True"

fun comparable_history :: "Users \<Rightarrow> account_call list \<Rightarrow> bool" where
  "comparable_history m [] \<longleftrightarrow> True"
| "comparable_history m (call # calls) \<longleftrightarrow>
     comparable m call \<and> comparable_history (snd (do_call mem_users call m)) calls"

text \<open>The same answer: the devices of an account in any order, a revoked device trusted or not.\<close>

fun same_reply :: "err + reply \<Rightarrow> err + reply \<Rightarrow> bool" where
  "same_reply (Inr (ADevice d)) r \<longleftrightarrow> r = Inr (ADevice (norm_device d))"
| "same_reply (Inr (SomeDevices ds)) r \<longleftrightarrow> (\<exists>ds'. r = Inr (SomeDevices ds') \<and> mset (map norm_device ds) = mset ds')"
| "same_reply r r' \<longleftrightarrow> r = r'"

lemma same_reply_refl: "(\<And>d. r \<noteq> Inr (ADevice d)) \<Longrightarrow> (\<And>ds. r \<noteq> Inr (SomeDevices ds)) \<Longrightarrow> same_reply r r"
  by (cases "(r, r)" rule: same_reply.cases) auto

section \<open>One call\<close>

lemma with_reply_snd: "snd (with_reply f p s) = snd (p s)"
  by (simp add: with_reply_def split: prod.split sum.split)

lemma with_reply_query: "with_reply f (query q) s = (case q s of Inl e \<Rightarrow> (Inl e, s) | Inr x \<Rightarrow> (Inr (f x), s))"
  by (simp add: with_reply_def query_def split: sum.split)

definition alike :: "account_call \<Rightarrow> PgUsers \<Rightarrow> Users \<Rightarrow> bool" where
  "alike call s m \<longleftrightarrow> same_reply (fst (do_call pg_users call s)) (fst (do_call mem_users call m)) \<and>
     related (snd (do_call pg_users call s)) (snd (do_call mem_users call m))"

lemma alike_write:
  assumes "agree p q s m" "do_call pg_users call = with_reply f p" "do_call mem_users call = with_reply f q"
    "\<And>x ds d. f x \<noteq> SomeDevices ds \<and> f x \<noteq> ADevice d"
  shows "alike call s m"
proof -
  have same: "fst (with_reply f p s) = fst (with_reply f q m)"
    using assms(1) by (auto simp: agree_def with_reply_def split: prod.split sum.split)
  have "same_reply (fst (with_reply f q m)) (fst (with_reply f q m))"
    using assms(4) by (intro same_reply_refl) (auto simp: with_reply_def split: prod.splits sum.splits)
  then show ?thesis using assms(1) same by (simp add: alike_def assms(2,3) with_reply_snd agree_def)
qed

lemma alike_read:
  assumes "related s m" "p s = q m" "do_call pg_users call = with_reply f (query p)" "do_call mem_users call = with_reply f (query q)"
    "\<And>x ds d. f x \<noteq> SomeDevices ds \<and> f x \<noteq> ADevice d"
  shows "alike call s m"
proof -
  have "agree (query p) (query q) s m" using assms(1,2) by (simp add: agree_def query_def)
  from alike_write[OF this assms(3,4,5)] show ?thesis .
qed

lemma device_calls_alike:
  assumes sim: "simulates s m"
  shows "alike (CallDeviceByFingerprint k fp) s m" "alike (CallDevices k) s m" "alike (CallActiveDevice k i) s m"
    "comparable m (CallCreateDevice c d) \<Longrightarrow> alike (CallCreateDevice c d) s m"
proof -
  note rel = simulatesD(2)[OF sim]
  show "alike (CallDeviceByFingerprint k fp) s m"
    using DeviceByFingerprint_agrees[OF sim, of k fp] rel
    by (cases "PgDeviceByFingerprint k fp s"; cases "UsersDeviceByFingerprint k fp m")
      (auto simp: alike_def with_reply_query)
  obtain ds ds' where "PgDevices k s = Inr ds" "UsersDevices k m = Inr ds'" by (simp add: PgDevices_def UsersDevices_def)
  then show "alike (CallDevices k) s m"
    using Devices_agrees[OF sim] rel by (simp add: alike_def with_reply_query)
  have "norm_device dv = dv" if "PgActiveDevice k i s = Inr dv" for dv
  proof -
    have "dv \<in> set (filter (\<lambda>d. dv_ID d = i \<and> dv_UserID d = k \<and> dv_RevokedAt d = None) (pt_devices s))"
      using that by (auto simp: PgActiveDevice_def first_row_find split: option.splits dest: find_Some_in)
    then show ?thesis by (intro norm_device_unrevoked) (simp add: DeviceIsRevoked_def)
  qed
  then show "alike (CallActiveDevice k i) s m"
    using ActiveDevice_agrees[OF sim, of k i] rel
    by (cases "UsersActiveDevice k i m") (auto simp: alike_def with_reply_query)
  assume c: "comparable m (CallCreateDevice c d)"
  have "agree (PgCreateDevice c d) (UsersCreateDevice c d) s m"
    using c by (intro CreateDevice_agrees[OF sim]) simp_all
  moreover have "fst (UsersCreateDevice c d m) = Inr (norm_device (d\<lparr>dv_ID := c_newID c DrawDevice, dv_CreatedAt := c_now c ClockDevice\<rparr>))"
    using c by (simp add: UsersCreateDevice_def Let_def ok_def norm_device_def DeviceIsRevoked_def)
  ultimately show "alike (CallCreateDevice c d) s m"
    using c by (cases "PgCreateDevice c d s"; cases "UsersCreateDevice c d m")
      (auto simp: alike_def agree_def with_reply_def norm_device_def DeviceIsRevoked_def)
qed

lemma call_alike:
  assumes sim: "simulates s m" and c: "comparable m call"
  shows "alike call s m"
proof (cases call)
  case (CallCreate c u)
  then show ?thesis using c Create_agrees[OF sim, of u c] by (intro alike_write[where f = AUser]) simp_all
next
  case (CallByID k)
  then show ?thesis using ByID_agrees[OF sim] by (intro alike_read[OF simulatesD(2)[OF sim], where f = AUser]) simp_all
next
  case (CallByEmail email)
  then show ?thesis using ByEmail_agrees[OF sim] by (intro alike_read[OF simulatesD(2)[OF sim], where f = AUser]) simp_all
next
  case (CallAll limit offset)
  then show ?thesis using c All_agrees[OF sim] by (intro alike_read[OF simulatesD(2)[OF sim], where f = SomeUsers]) simp_all
next
  case (CallDelete c k)
  then show ?thesis using c Delete_agrees[OF sim] by (intro alike_write[where f = "\<lambda>_. Done"]) simp_all
next
  case (CallUpdateProfile k name lang)
  then show ?thesis using c UpdateProfile_agrees[OF sim] by (intro alike_write[where f = "\<lambda>_. Done"]) simp_all
next
  case (CallSetPassword k hash)
  then show ?thesis using c SetPassword_agrees[OF sim] by (intro alike_write[where f = "\<lambda>_. Done"]) simp_all
next
  case (CallBumpSessionEpoch k)
  then show ?thesis using BumpSessionEpoch_agrees[OF sim] by (intro alike_write[where f = "\<lambda>_. Done"]) simp_all
next
  case (CallSetSuspended k t)
  then show ?thesis using c SetSuspended_agrees[OF sim] by (intro alike_write[where f = "\<lambda>_. Done"]) simp_all
next
  case (CallSetTwoFactorEnabled k enabled)
  then show ?thesis using c SetTwoFactorEnabled_agrees[OF sim] by (intro alike_write[where f = "\<lambda>_. Done"]) auto
next
  case (CallReplacePasswordReset c r)
  then show ?thesis using c ReplacePasswordReset_agrees[OF sim, of r c] by (intro alike_write[where f = AReset]) simp_all
next
  case (CallActivePasswordReset k now)
  then show ?thesis using ActivePasswordReset_agrees[OF sim]
    by (intro alike_read[OF simulatesD(2)[OF sim], where f = AReset]) simp_all
next
  case (CallFailPasswordReset i now)
  then show ?thesis using FailPasswordReset_agrees[OF sim] by (intro alike_write[where f = "\<lambda>_. Done"]) simp_all
next
  case (CallConsumePasswordReset r hash)
  then show ?thesis using c ConsumePasswordReset_agrees[OF sim, of r]
    by (intro alike_write[where f = "\<lambda>_. Done"]) (auto simp: mem_account_Some)
next
  case (CallReplaceEmailChange c r)
  then show ?thesis using c ReplaceEmailChange_agrees[OF sim, of r c] by (intro alike_write[where f = AChange]) simp_all
next
  case (CallActiveEmailChange k now)
  then show ?thesis using ActiveEmailChange_agrees[OF sim]
    by (intro alike_read[OF simulatesD(2)[OF sim], where f = AChange]) simp_all
next
  case (CallFailEmailChange i now)
  then show ?thesis using FailEmailChange_agrees[OF sim] by (intro alike_write[where f = "\<lambda>_. Done"]) simp_all
next
  case (CallConsumeEmailChange r email)
  then show ?thesis using c ConsumeEmailChange_agrees[OF sim, of r]
    by (intro alike_write[where f = "\<lambda>_. Done"]) (auto simp: mem_account_Some)
next
  case (CallTouchDevice i t ip ua)
  then show ?thesis using c TouchDevice_agrees[OF sim] by (intro alike_write[where f = "\<lambda>_. Done"]) simp_all
next
  case (CallTrustDevice c i)
  then show ?thesis using TrustDevice_agrees[OF sim] by (intro alike_write[where f = "\<lambda>_. Done"]) simp_all
next
  case (CallRevokeDevice c k i)
  then show ?thesis using RevokeDevice_agrees[OF sim] by (intro alike_write[where f = "\<lambda>_. Done"]) simp_all
next
  case (CallRecordLoginEvent c e)
  then show ?thesis using c RecordLoginEvent_agrees[OF sim, of e c] by (intro alike_write[where f = "\<lambda>_. Done"]) simp_all
next
  case (CallLoginEvents k limit)
  then show ?thesis using c LoginEvents_agrees[OF sim]
    by (intro alike_read[OF simulatesD(2)[OF sim], where f = SomeEvents]) simp_all
next
  case (CallReplaceTwoFactorChallenge c r)
  then show ?thesis using c ReplaceTwoFactorChallenge_agrees[OF sim, of r c]
    by (intro alike_write[where f = AChallenge]) simp_all
next
  case (CallActiveTwoFactorChallenge k now)
  then show ?thesis using ActiveTwoFactorChallenge_agrees[OF sim]
    by (intro alike_read[OF simulatesD(2)[OF sim], where f = AChallenge]) simp_all
next
  case (CallFailTwoFactorChallenge i now)
  then show ?thesis using FailTwoFactorChallenge_agrees[OF sim] by (intro alike_write[where f = "\<lambda>_. Done"]) simp_all
next
  case (CallConsumeTwoFactorChallenge c i k t)
  then show ?thesis using ConsumeTwoFactorChallenge_agrees[OF sim] by (intro alike_write[where f = "\<lambda>_. Done"]) simp_all
qed (use c device_calls_alike[OF sim] in simp_all)

section \<open>Histories\<close>

text \<open>What a comparable call does to the memory store is a step of its runs.\<close>

lemma comparable_keeps:
  assumes "accounts_wf m" "comparable m call"
  shows "accounts_wf (snd (do_call mem_users call m))"
proof -
  have step: "accounts_wf m'" if "user_step False m m'" for m'
    using steps_accounts_wf[of m m'] assms(1) that by blast
  have live: "UsersIsSoftDeleted k m \<or> live_user m k \<or> map_of (us_users m) k = None" for k
    by (auto simp: UsersIsSoftDeleted_def live_user_def split: option.split)
  show ?thesis
  proof (cases call)
    case (CallDelete c k)
    then show ?thesis
      using assms live[of k] step[OF user_step.Delete[of False m k c]]
      by (auto simp: with_reply_snd UsersDelete_def refuse_def)
  next
    case (CallConsumeEmailChange r email)
    then have "live_user m (ec_UserID r)" using assms(2) by (auto simp: live_user_def mem_account_Some)
    then show ?thesis
      using CallConsumeEmailChange assms(2) step[OF user_step.ConsumeEmailChange[of r False m email]]
      by (simp add: with_reply_snd)
  qed (use assms in \<open>auto simp: with_reply_snd query_def intro!: step user_step.intros\<close>)
qed

lemma history_alike:
  assumes "simulates s m" "comparable_history m calls"
  shows "list_all2 same_reply (fst (history pg_users calls s)) (fst (history mem_users calls m)) \<and>
     simulates (snd (history pg_users calls s)) (snd (history mem_users calls m))"
  using assms
proof (induction calls arbitrary: s m)
  case (Cons call calls)
  have c: "comparable m call" "comparable_history (snd (do_call mem_users call m)) calls" using Cons.prems(2) by simp_all
  have now: "alike call s m" by (rule call_alike[OF Cons.prems(1) c(1)])
  then have "simulates (snd (do_call pg_users call s)) (snd (do_call mem_users call m))"
    using comparable_keeps[OF simulatesD(1)[OF Cons.prems(1)] c(1)] by (simp add: simulates_def alike_def)
  from Cons.IH[OF this c(2)] show ?case using now by (auto simp: alike_def split: prod.splits)
qed simp

lemma simulates_new: "simulates NewPgUsers NewUsers"
proof -
  have "related NewPgUsers NewUsers"
    by (rule relatedI) (simp_all add: NewPgUsers_def NewUsers_def index_exact_def)
  then show ?thesis by (simp add: simulates_def accounts_wf_new)
qed

text \<open>C36. 
  The Postgres account repository refines the in-memory one. From two empty stores, every history of repository calls
  that is comparable gets the same answers from both, call by call: the same accounts, codes, devices and refusals, the
  transactions, row locks and unique indexes of the one standing for the mutex and the maps of the other. Afterwards
  the tables hold what the maps hold, which is a well-formed store.
\<close>

theorem postgres_refines_memory:
  assumes "comparable_history NewUsers calls"
  shows "list_all2 same_reply (fst (history pg_users calls NewPgUsers)) (fst (history mem_users calls NewUsers)) \<and>
     related (snd (history pg_users calls NewPgUsers)) (snd (history mem_users calls NewUsers)) \<and>
     accounts_wf (snd (history mem_users calls NewUsers))"
  using history_alike[OF simulates_new assms] by (simp add: simulates_def)

text \<open>A history with a registration, a second one refused, a reset and a wrong guess, a device that is trusted, and a deletion.\<close>

definition demo_history :: "account_call list" where
  "demo_history =
     [CallCreate (demo_call 100) (demo_user\<lparr>u_ID := uuid_Nil, u_CreatedAt := zero_time\<rparr>),
      CallByEmail ''al@x.io'',
      CallCreate (demo_call 200) (demo_user\<lparr>u_ID := uuid_Nil, u_CreatedAt := zero_time\<rparr>),
      CallReplacePasswordReset (demo_call 300) (demo_reset\<lparr>pr_ID := uuid_Nil, pr_UserID := c_newID (demo_call 100) DrawUser,
        pr_Attempts := 0, pr_CodeHash := ''hash''\<rparr>),
      CallFailPasswordReset (c_newID (demo_call 300) DrawCode) 1500,
      CallCreateDevice (demo_call 400) ((demo_device 11 ''phone'' None None)\<lparr>dv_ID := uuid_Nil, dv_CreatedAt := zero_time,
        dv_UserID := c_newID (demo_call 100) DrawUser, dv_Fingerprint := ''phone''\<rparr>),
      CallTrustDevice (demo_call 500) (c_newID (demo_call 400) DrawDevice),
      CallDelete (demo_call 600) (c_newID (demo_call 100) DrawUser),
      CallDevices (c_newID (demo_call 100) DrawUser)]"

theorem postgres_refines_memory_witness:
  "length (fst (history mem_users demo_history NewUsers)) = 9 \<and>
   list_all2 same_reply (fst (history pg_users demo_history NewPgUsers)) (fst (history mem_users demo_history NewUsers)) \<and>
   related (snd (history pg_users demo_history NewPgUsers)) (snd (history mem_users demo_history NewUsers))"
proof -
  have "comparable_history NewUsers demo_history" by code_simp
  moreover have "length (fst (history R calls s)) = length calls" for R :: "'s UserRepository" and calls s
    by (induction calls arbitrary: s) (simp_all add: split_beta)
  moreover have "length demo_history = 9" by (simp add: demo_history_def)
  ultimately show ?thesis using postgres_refines_memory[of demo_history] by metis
qed

section \<open>Signing in over Postgres\<close>

text \<open>C37. 
  Signing in over Postgres, after any history of repository calls from empty tables that compares with the in-memory
  store: whoever gets a session or a challenge has shown the password of a row of the accounts table that is neither
  deleted nor suspended and has the address that was typed; the device of the session belongs to that account and is not
  revoked; and an account with a second factor gets past it without a code only from a device whose row is trusted and
  has the hash of the presented token.
\<close>

theorem postgres_sign_in_guarded:
  assumes "comparable_history NewUsers calls" "s = snd (history pg_users calls NewPgUsers)"
    "SignIn (pg_accounts l k p d) c email password sc s = (Inr res, s')"
  shows "\<exists>u \<in> set (pt_users s). \<not> UserIsDeleted u \<and> \<not> UserIsSuspended u \<and> u_Email u = NormalizeEmail l email \<and>
    bc_Compare l (u_PasswordHash u) password \<and> sr_User res = u \<and>
    dv_UserID (sr_Device res) = u_ID u \<and> \<not> DeviceIsRevoked (sr_Device res) \<and>
    (\<not> sr_Challenged res \<longrightarrow> u_TwoFactorEnabled u \<longrightarrow>
       (\<exists>dv \<in> set (pt_devices s). dv_UserID dv = u_ID u \<and> DeviceIsTrusted dv \<and>
          sc_DeviceToken sc \<noteq> [] \<and> dv_Fingerprint dv = deviceFingerprint (sc_DeviceToken sc)))"
proof -
  have "pg_wf s" using history_alike[OF simulates_new assms(1)] assms(2) by (auto simp: pg_wf_def)
  from pg_store.SignIn_granted[OF this assms(3)] obtain u where
    "pg_account s (u_ID u) = Some u" and granted: "u_Email u = NormalizeEmail l email"
    "bc_Compare l (u_PasswordHash u) password" "\<not> UserIsSuspended u" "sr_User res = u"
    "dv_UserID (sr_Device res) = u_ID u" "\<not> DeviceIsRevoked (sr_Device res)"
    "\<not> sr_Challenged res \<longrightarrow> u_TwoFactorEnabled u \<longrightarrow>
       (\<exists>dv. pg_device s (dv_ID dv) = Some dv \<and> dv_UserID dv = u_ID u \<and> DeviceIsTrusted dv \<and>
          sc_DeviceToken sc \<noteq> [] \<and> dv_Fingerprint dv = deviceFingerprint (sc_DeviceToken sc))"
    by auto
  moreover from this(1) have "u \<in> set (pt_users s) \<and> \<not> UserIsDeleted u"
    by (auto simp: pg_account_def mem_account_Some pg_memory_def dest: keyed_in)
  moreover have "dv \<in> set (pt_devices s)" if "pg_device s (dv_ID dv) = Some dv" for dv
    using that by (auto simp: pg_device_def dest: keyed_in)
  ultimately show ?thesis by blast
qed

text \<open>A registration, a device of it, and its trust.\<close>

definition demo_sign_up :: "account_call list" where
  "demo_sign_up =
     [CallCreate (demo_call 100) (demo_user\<lparr>u_ID := uuid_Nil, u_CreatedAt := zero_time\<rparr>),
      CallCreateDevice (demo_call 400) ((demo_device 11 ''phone'' None None)\<lparr>dv_ID := uuid_Nil, dv_CreatedAt := zero_time,
        dv_UserID := c_newID (demo_call 100) DrawUser\<rparr>),
      CallTrustDevice (demo_call 500) (c_newID (demo_call 400) DrawDevice)]"

definition demo_signed_up :: PgUsers where
  "demo_signed_up =
     \<lparr>pt_users = [demo_user\<lparr>u_ID := c_newID (demo_call 100) DrawUser, u_CreatedAt := 1000\<rparr>], pt_resets = [], pt_changes = [],
      pt_devices = [(demo_device 11 ''phone'' (Some 1000) None)\<lparr>dv_ID := c_newID (demo_call 400) DrawDevice, dv_CreatedAt := 1000,
        dv_UserID := c_newID (demo_call 100) DrawUser\<rparr>],
      pt_challenges = [], pt_events = []\<rparr>"

lemma length_fingerprint: "length (deviceFingerprint token) = 64" "deviceFingerprint token \<noteq> []"
proof -
  show len: "length (deviceFingerprint token) = 64" by (simp add: deviceFingerprint_def)
  show "deviceFingerprint token \<noteq> []" using len by auto
qed

lemmas demo_sign_up_simps = demo_sign_up_def demo_user_def demo_device_def demo_clock length_fingerprint field_ok_def
  UserIsDeleted_def DeviceIsTrusted_def DeviceIsRevoked_def with_reply_def ok_def refuse_def Let_def DeviceTrust_def

lemma demo_sign_up_comparable: "comparable_history NewUsers demo_sign_up"
  by (simp add: demo_sign_up_simps account_fields_ok_def NewUsers_def UsersCreate_def UsersDeviceByFingerprint_def
      UsersCreateDevice_def)

lemma demo_sign_up_tables: "snd (history pg_users demo_sign_up NewPgUsers) = demo_signed_up"
  by (simp add: demo_sign_up_simps demo_signed_up_def NewPgUsers_def PgCreate_def PgCreateDevice_def PgTrustDevice_def
      translate_run withEntTx_def write_users_def users_unique_def trust_device_def lockDevice_def entity_rule_def
      update_device_def affected_def set_where_def user_row_exists_def query_def bindp_def set_nillable_def)

lemma demo_bcrypt:
  "vs_libs (pg_accounts demo_libs 10 ''pepper'' ''h:none'') = demo_libs"
  "bc_Compare demo_libs ''h:correct horse'' ''correct horse''"
  by (simp_all add: demo_libs_def)

lemma demo_signed_up_in:
  "succeeds (SignIn (pg_accounts demo_libs 10 ''pepper'' ''h:none'') (demo_call 20) ''al@x.io'' ''correct horse'' demo_sc
     demo_signed_up)"
proof -
  have "length (truncate_string ''browser'' maxUserAgentLength) = 7" by code_simp
  then show ?thesis by (simp add: demo_signed_up_def demo_sign_up_simps SignIn_def demo_sc_def admit_device_def resolveDevice_def
      PgByEmail_def live_users_def PgDeviceByFingerprint_def PgTouchDevice_def update_device_def affected_def set_where_def
      recordLogin_def PgRecordLoginEvent_def translate_run user_row_exists_def succeeds_def demo_email prog_defs call_simps
      compareHash_def acquire_def UserIsSuspended_def demo_bcrypt)
qed

lemma postgres_sign_in_guarded_witness:
  "\<exists>res s'. SignIn (pg_accounts demo_libs 10 ''pepper'' ''h:none'') (demo_call 20) ''al@x.io'' ''correct horse'' demo_sc
     demo_signed_up = (Inr res, s') \<and> u_Email (sr_User res) = ''al@x.io'' \<and> dv_UserID (sr_Device res) = u_ID (sr_User res)"
proof -
  obtain res s' where r: "SignIn (pg_accounts demo_libs 10 ''pepper'' ''h:none'') (demo_call 20) ''al@x.io''
      ''correct horse'' demo_sc demo_signed_up = (Inr res, s')"
    using demo_signed_up_in by (rule succeedsE)
  show ?thesis using postgres_sign_in_guarded[OF demo_sign_up_comparable demo_sign_up_tables[symmetric] r] r
    by (auto simp: demo_email)
qed

end
