(* ===== verification/Divergences.thy ===== *)
theory Divergences
  imports Config_Properties Seed_Memory Pg_Contract Users_Memory Orgs_Memory API_Edge Files_Service
begin

text \<open>
  Where the code does something its documents do not say, or that it cannot mean: each as a lemma
  over the same definitions the properties are about, so that a change of the code shows here.
\<close>

section \<open>Accounts\<close>

text \<open>
  Deleting an account that is already deleted goes through in the in-memory store, and takes the
  address away from whoever registered it since: that account can no longer sign in, and the address
  can be registered again beside it.
\<close>

lemma second_delete_frees_live_address:
  assumes "map_of (us_users m) gone = Some old" "u_DeletedAt old \<noteq> None" "\<not> u_IsProtected old"
    and "distinct (map fst (us_byEmail m))" "u_Email u = u_Email old"
  shows "fst (UsersDelete c gone m) = Inr ()"
    and "UsersByEmail (u_Email old) (snd (UsersDelete c gone m)) = Inl user_not_found"
    and "\<exists>again. fst (UsersCreate c u (snd (UsersDelete c gone m))) = Inr again"
  using assms
  by (auto simp: UsersDelete_def UserDelete_def UserRefuseIfProtected_def ok_def UsersByEmail_def UsersCreate_def
      Let_def delete_conv' split: option.splits)

text \<open>Revoking a device that is revoked succeeds; the interface documents \<open>ErrDeviceRevoked\<close>.\<close>

lemma revoking_twice_succeeds:
  assumes "map_of (us_devices m) d = Some device" "dv_UserID device = userID" "DeviceIsRevoked device"
  shows "UsersRevokeDevice c userID d m = (Inr (), m)"
  using assms by (auto simp: UsersRevokeDevice_def DeviceRevoke_def DeviceIsRevoked_def ok_def)

text \<open>
  \<open>VerifyTwoFactor\<close> tells a suspended account from any other before it looks at the code or at
  the device: an address and any device token are enough.
\<close>

lemma suspension_told_without_code:
  assumes "UsersByEmail (NormalizeEmail libs email) m = Inr u" "UserIsSuspended u" "sc_DeviceToken sc \<noteq> []"
  shows "VerifyTwoFactor (mem_accounts libs cost pepper dummy) c email code sc m = (Inl (UserErr ErrSuspended), m)"
  using assms by (simp add: VerifyTwoFactor_def mem_accounts_def prog_defs)

text \<open>
  Completing a reset does not look at whether the stored code is spent: a caller that read the row
  while it was open writes its password over that of the caller that spent it in between.
\<close>

lemma reset_spent_twice:
  assumes "map_of (us_users m) (pr_UserID reset) = Some u"
    and "UsersConsumePasswordReset reset first m = (Inr (), m')"
  shows "fst (UsersConsumePasswordReset reset second m') = Inr ()"
  using assms by (auto simp: UsersConsumePasswordReset_def ok_def Let_def amap_simps)

section \<open>Invitations\<close>

text \<open>
  At the very moment an invitation expires it is neither pending nor expired: the caller is told the
  link is wrong.
\<close>

lemma expiring_invitation_not_found:
  assumes "od_InvitationByToken (sv_dir S) (HashInvitationToken token) (c_now c ClockService) s = Inl orgs_not_found"
    and "od_InvitationByToken (sv_dir S) (HashInvitationToken token) zero_time s = Inr iv"
    and "iv_ExpiresAt iv = c_now c ClockService"
  shows "pendingInvitation S c token s = Inl orgs_not_found"
  using assms by (simp add: pendingInvitation_def)

section \<open>The edge\<close>

text \<open>
  A path that starts with the prefix and ends with the suffix, the two sharing the slash between
  them: the bounds of the slice cross, and the slice panics, in a middleware outside the recoverer.
\<close>

lemma short_organization_path_panics:
  "limiter_for ''POST'' ''/v1/orgs/members'' = None" "limiter_for ''POST'' ''/v1/orgs/reissue'' = None"
  "requestBodyLimit 0 0 0 ''POST'' ''/v1/orgs/files'' = None"
  by code_simp+

text \<open>The router cleans the path it matches; the limiter matches the path as it was sent.\<close>

lemma doubled_slash_not_charged:
  "limiter_for ''POST'' ''/v1/sessions'' \<noteq> Some None" "limiter_for ''POST'' ''/v1//sessions'' = Some None"
  by code_simp+

text \<open>
  Only the first line of the forwarding header is read: behind a proxy that adds a line of its own
  instead of appending to the caller's, the caller names its address.
\<close>

lemma first_forwarded_line_believed:
  "remoteIP [\<lparr>nt_IP = [10, 0, 0, 0], nt_Mask = [255, 0, 0, 0]\<rparr>]
     \<lparr>hr_Method = ''GET'', hr_Path = ''/'', hr_Header = [(''X-Forwarded-For'', [''6.6.6.6'', ''1.2.3.4''])],
      hr_RemoteAddr = ''10.1.2.3:5000''\<rparr> = ''6.6.6.6''"
  by code_simp

section \<open>Files\<close>

text \<open>
  A name of slashes alone has the base name \<open>/\<close>, which none of the checks refuses: the name of a file
  can be the separator it is meant to be free of.
\<close>

lemma slash_is_a_name: "sanitizeName libs ''///'' = Inr ''/''" "sanitizeName libs [CHR 0x5C] = Inr ''/''"
  by (simp_all add: sanitizeName_def path_base_def trim_space_def ascii_space_def byte_in_def all_runes_step rune_ok_def
      is_ascii_def rune_value_def unicode_print_def rune_count.simps FilesMaxNameLength_def Let_def)

section \<open>Configuration\<close>

text \<open>
  An IPv4 address written in its IPv6 form and listed as a proxy gets the prefix length of an IPv4 address on
  an IPv6 network: the address is not trusted, and half of the loopback block is.
\<close>

lemma mapped_proxy_trusts_prefix:
  "\<exists>n. parseTrustedProxies ''::ffff:10.0.0.1'' = Inr [n] \<and>
     \<not> trustedProxy [n] ''10.0.0.1'' \<and> \<not> trustedProxy [n] ''::ffff:10.0.0.1'' \<and> trustedProxy [n] ''::1''"
proof -
  let ?n = "\<lparr>nt_IP = [0, 0, 0, 0, 0, 0, 0, 0, 0, 0, 0, 0, 0, 0, 0, 0],
    nt_Mask = [255, 255, 255, 255, 0, 0, 0, 0, 0, 0, 0, 0, 0, 0, 0, 0]\<rparr>"
  have v4: "v4_prefix = [0, 0, 0, 0, 0, 0, 0, 0, 0, 0, 255, 255]"
    by (simp add: v4_prefix_def numeral_eq_Suc)
  have zeros: "replicate 10 (0 :: nat) = [0, 0, 0, 0, 0, 0, 0, 0, 0, 0]" by (simp add: numeral_eq_Suc)
  have mapped: "parse_ipv6 ''::ffff:10.0.0.1'' = Some (v4_prefix @ [10, 0, 0, 1])"
    by (simp add: parse_ipv6_def parse_groups.simps is_hex_def is_digit_def byte_in_def read_hex_def hex_val_def
        parse_ipv4_def dec_field_def read_dec_def v4 zeros)
  have ips: "ParseIP ''::ffff:10.0.0.1'' = Some (v4_prefix @ [10, 0, 0, 1])"
      "parse_addr ''::ffff:10.0.0.1'' = Some (v4_prefix @ [10, 0, 0, 1])"
    by (simp_all add: ParseIP_def parse_addr_def mapped)
  have plain: "ParseIP ''10.0.0.1'' = Some (v4_prefix @ [10, 0, 0, 1])" "ParseIP ''::1'' = Some [0, 0, 0, 0, 0, 0, 0, 0, 0, 0, 0, 0, 0, 0, 0, 1]"
      "trim_space ''::ffff:10.0.0.1'' = ''::ffff:10.0.0.1''"
    by code_simp+
  have mask: "cidr_mask 32 16 = [255, 255, 255, 255, 0, 0, 0, 0, 0, 0, 0, 0, 0, 0, 0, 0]"
    by (simp add: cidr_mask_def mask_byte_def upt_rec)
  have size: "16 = length (v4_prefix @ [10, 0, 0, 1])" by (simp add: v4)
  have "decimal_value ''32'' = 32" "list_all is_decimal ''32''"
    by (simp_all add: decimal_value_def is_decimal_def byte_in_def)
  then have "ParseCIDR ''::ffff:10.0.0.1/32'' = Some ?n"
    by (simp add: ParseCIDR_def ips v4 Let_def mask[unfolded size, simplified v4, simplified])
  then have "parseTrustedProxies ''::ffff:10.0.0.1'' = Inr [?n]"
    by (simp add: parseTrustedProxies_def parse_list_def trusted_proxy_def ips plain to_v4_def v4)
  moreover have "\<not> trustedProxy [?n] ''10.0.0.1''" "\<not> trustedProxy [?n] ''::ffff:10.0.0.1''" "trustedProxy [?n] ''::1''"
    by (simp_all add: trustedProxy_def ips plain net_contains_def network_mask_def shorten_def to_v4_def v4)
  ultimately show ?thesis by blast
qed

text \<open>A sampling ratio that is not a number passes both comparisons with the bounds.\<close>

lemma sampling_ratio_not_a_number:
  "cl_ParseFloat L ''NaN'' = Some NaN \<Longrightarrow>
     getFloat L (\<lambda>_. ''NaN'') ''OTEL_TRACES_SAMPLER_ARG'' (Finite 1) = NaN"
proof -
  have "trim_space ''NaN'' = ''NaN''" by code_simp
  then show "cl_ParseFloat L ''NaN'' = Some NaN \<Longrightarrow> ?thesis" by (simp add: getFloat_def)
qed


section \<open>A reset that looks at one page\<close>

text \<open>
  The first loop of \<open>Reset\<close> stops when a page held nothing to delete, and it always reads the first page: with the
  hundred newest accounts somebody else's, every seed account behind them stays.
\<close>

lemma reset_reads_one_page:
  assumes "resettable_store m" "\<forall>u \<in> set (take 100 (live_accounts m)). \<not> seed_account u"
  shows "reset_accounts mem_world calls 0 m = Some (Inr 0, m)"
proof -
  have "delete_marked seed_account del rows found deleted m = (Inr (found, deleted), m)"
    if "\<forall>u \<in> set rows. \<not> seed_account u" for del rows found deleted
    using that by (induction rows) (simp_all add: ok_def)
  from this[OF assms(2)] show ?thesis
    by (subst reset_accounts.simps) (simp add: bindp_def query_def listed_accounts[OF assms(1)] delete_accounts_def)
qed

section \<open>The Postgres account repository\<close>

lemma open_filtered:
  "filter (\<lambda>(_, r). pr_UserID r = k \<and> pr_ConsumedAt r = None \<and> now < pr_ExpiresAt r)
     (filter (\<lambda>(_, r). \<not> (pr_UserID r = k \<and> pr_ConsumedAt r = None)) rows) = []"
  by (auto simp: filter_empty_conv)

text \<open>
  Two requests for a code at the same time: a transaction does not see what another has not committed yet, so both
  delete the open codes before either has inserted its own, and the account has two. When the newer one is spent the
  older one is the active code again, although asking again is meant to supersede, and a reset to end what was asked
  before it. The in-memory store replaces under its mutex.
\<close>

lemma second_code_outlives_reset:
  fixes s :: PgUsers
  defines "ids \<equiv> (\<lambda>(_, r). pr_ID r) ` set (pt_resets s)"
  assumes account: "user_row_exists k s" and owner: "pr_UserID r = k" "pr_UserID r' = k"
    and hashes: "field_ok 64 (pr_CodeHash r)" "field_ok 64 (pr_CodeHash r')"
    and ids: "c_newID c DrawCode \<notin> ids" "c_newID c' DrawCode \<notin> ids" "c_newID c DrawCode \<noteq> c_newID c' DrawCode"
    and times: "c_now c ClockRow < c_now c' ClockRow" "now < pr_ExpiresAt r" "now < pr_ExpiresAt r'"
  shows "\<exists>x s1 second. bindp (delete_open_resets k) (\<lambda>_. bindp (delete_open_resets k) (\<lambda>_. bindp (insert_reset c r) (\<lambda>_.
      insert_reset c' r'))) s = (Inr x, s1) \<and>
    PgActivePasswordReset k now s1 = Inr second \<and> pr_CodeHash second = pr_CodeHash r' \<and>
    (\<forall>h s2. PgConsumePasswordReset (second\<lparr>pr_ConsumedAt := Some now\<rparr>) h s1 = (Inr (), s2) \<longrightarrow>
       (\<exists>first. PgActivePasswordReset k now s2 = Inr first \<and> pr_CodeHash first = pr_CodeHash r))"
proof -
  define rows where "rows = filter (\<lambda>(_, r). \<not> (pr_UserID r = k \<and> pr_ConsumedAt r = None)) (pt_resets s)"
  define r1 where "r1 = r\<lparr>pr_ID := c_newID c DrawCode, pr_ConsumedAt := None\<rparr>"
  define r2 where "r2 = r'\<lparr>pr_ID := c_newID c' DrawCode, pr_ConsumedAt := None\<rparr>"
  define s1 where "s1 = s\<lparr>pt_resets := rows @ [(c_now c ClockRow, r1), (c_now c' ClockRow, r2)]\<rparr>"
  have sub: "set rows \<subseteq> set (pt_resets s)" by (auto simp: rows_def)
  then have fresh: "c_newID c DrawCode \<notin> (\<lambda>(_, r). pr_ID r) ` set rows" "c_newID c' DrawCode \<notin> (\<lambda>(_, r). pr_ID r) ` set rows"
    using ids unfolding ids_def by blast+
  let ?s = "s\<lparr>pt_resets := rows\<rparr>"
  have deleted: "delete_open_resets k s = (Inr (), ?s)" "delete_open_resets k ?s = (Inr (), ?s)"
    by (simp_all add: delete_open_resets_def ok_def rows_def)
  have first: "insert_reset c r ?s = (Inr (r\<lparr>pr_ID := c_newID c DrawCode\<rparr>), ?s\<lparr>pt_resets := rows @ [(c_now c ClockRow, r1)]\<rparr>)"
    using account hashes(1) owner(1) fresh(1) by (simp add: insert_reset_def ok_def Let_def r1_def user_row_exists_def)
  have second: "insert_reset c' r' (?s\<lparr>pt_resets := rows @ [(c_now c ClockRow, r1)]\<rparr>) = (Inr (r'\<lparr>pr_ID := c_newID c' DrawCode\<rparr>), s1)"
    using account hashes(2) owner(2) fresh(2) ids(3)
    by (simp add: insert_reset_def ok_def Let_def r1_def r2_def user_row_exists_def s1_def)
  have run: "bindp (delete_open_resets k) (\<lambda>_. bindp (delete_open_resets k) (\<lambda>_. bindp (insert_reset c r) (\<lambda>_.
      insert_reset c' r'))) s = (Inr (r'\<lparr>pr_ID := c_newID c' DrawCode\<rparr>), s1)"
    by (simp only: bindp_def deleted first second sum.case prod.case)
  have none: "filter (\<lambda>(_, r). pr_UserID r = k \<and> pr_ConsumedAt r = None \<and> now < pr_ExpiresAt r) rows = []"
    unfolding rows_def by (rule open_filtered)
  have active: "PgActivePasswordReset k now s1 = Inr r2"
    using times owner by (simp add: PgActivePasswordReset_def s1_def newest_def none r1_def r2_def)
  have after: "\<exists>first. PgActivePasswordReset k now s2 = Inr first \<and> pr_CodeHash first = pr_CodeHash r"
    if "PgConsumePasswordReset (r2\<lparr>pr_ConsumedAt := Some now\<rparr>) h s1 = (Inr (), s2)" for h s2
  proof -
    have "set_where (\<lambda>(_, r). pr_ID r = c_newID c' DrawCode) f rows = rows" for f
      using fresh(2) by (intro set_where_id) force
    then have "pt_resets s2 = rows @ [(c_now c ClockRow, r1), (c_now c' ClockRow, r2\<lparr>pr_ConsumedAt := Some now\<rparr>)]"
      using that ids(3)
      by (auto simp: PgConsumePasswordReset_def translate_eq withEntTx_eq bindp_def update_reset_def s1_def ok_def refuse_def
          Let_def update_users_def write_users_def set_where_def r1_def r2_def set_nillable_def split: if_splits prod.splits sum.splits)
    then show ?thesis using times owner
      by (simp add: PgActivePasswordReset_def newest_def none r1_def r2_def)
  qed
  show ?thesis using run active after by (auto simp: r2_def intro!: exI[of _ s1])
qed

text \<open>
  Deleting an account revokes its devices in a statement of its own, which leaves the trust in the rows that the rule
  of the entity would clear.
\<close>

lemma deleted_devices_keep_trust:
  assumes "dv \<in> set (pt_devices s)" "dv_UserID dv = k" "dv_TrustedAt dv \<noteq> None" "PgDelete c k s = (Inr (), s')"
  shows "\<exists>dv' \<in> set (pt_devices s'). dv_ID dv' = dv_ID dv \<and> DeviceIsRevoked dv' \<and> dv_TrustedAt dv' \<noteq> None"
proof -
  have "pt_devices s' = set_where (\<lambda>d. dv_UserID d = k \<and> dv_RevokedAt d = None)
      (\<lambda>d. d\<lparr>dv_RevokedAt := Some (c_now c ClockDevice)\<rparr>) (pt_devices s)"
    using assms(4)
    by (auto simp: PgDelete_def soft_delete_user_def update_users_def write_users_def translate_eq withEntTx_eq
        ok_def refuse_def prog_defs split: if_splits prod.splits sum.splits)
  then have "(if dv_UserID dv = k \<and> dv_RevokedAt dv = None then dv\<lparr>dv_RevokedAt := Some (c_now c ClockDevice)\<rparr> else dv)
      \<in> set (pt_devices s')" (is "?dv \<in> _") using assms(1) by (simp add: set_where_def)
  then show ?thesis using assms(2,3) by (intro bexI[of _ ?dv]) (auto simp: DeviceIsRevoked_def)
qed

text \<open>
  A name is counted in characters by the service and in bytes by the schema: sixty accented letters pass the one and
  are an unexpected error, answered 500, of the other.
\<close>

lemma long_name:
  "rune_count (concat (replicate 60 [CHR 0xC3, CHR 0xA9])) = 60"
  "trim_space (concat (replicate 60 [CHR 0xC3, CHR 0xA9])) = concat (replicate 60 [CHR 0xC3, CHR 0xA9])"
  "length (concat (replicate 60 [CHR 0xC3, CHR 0xA9])) = 120"
  by code_simp+

lemma long_name_refused:
  assumes "live_users s = [u]" "u_ID u = k" "name = concat (replicate 60 [CHR 0xC3, CHR 0xA9])"
  shows "UpdateProfile (pg_accounts libs cost pepper dummy) k (Some name) None s = (Inl (DriverErr ''store: update profile''), s)"
    and "map_of (us_users m) k = Some v \<Longrightarrow> \<not> UserIsDeleted v \<Longrightarrow>
      fst (UpdateProfile (mem_accounts libs cost pepper dummy) k (Some name) None m) = Inr (v\<lparr>u_Name := name\<rparr>)"
  using assms long_name
  by (auto simp: UpdateProfile_def prog_defs PgByID_def PgUpdateProfile_def update_live_def translate_run field_ok_def
     wrapped_def MaxNameLength_def mem_accounts_def mem_users_def UsersByID_def UsersUpdateProfile_def Let_def
     with_user_def)

end
