(* ===== verification/Pg_Orgs.thy ===== *)
theory Pg_Orgs
  imports Pg_Users Orgs_Service Go_Encoding
begin

text \<open>
  The organization repository over Postgres, \<open>internal/store/repositories/orgs.go\<close> with the audit trail's \<open>recordEnt\<close>
  (\<open>audit.go\<close>): organizations, memberships, roles and the provisioner, statement by statement. Organizations are
  soft-deleted like accounts. A predicate over an edge (\<open>HasUserWith\<close>) is a sub-select, which the interceptor of the
  other table does not see: it finds retired rows unless \<open>deleted_at\<close> is part of it.
\<close>

section \<open>The tables\<close>

text \<open>The three join tables are pairs; the grant of a system role has what its holders are listed with.\<close>

record SystemRoleRow =
  usr_UserID :: uuid
  usr_RoleKey :: string
  usr_GrantedBy :: "uuid option"
  usr_CreatedAt :: time

record PgTables =
  db_accounts :: PgUsers
  db_orgs :: "Organization list"
  db_memberships :: "Membership list"
  db_roles :: "Role list"
  db_rolePermissions :: "(uuid \<times> string) list"
  db_membershipRoles :: "(uuid \<times> uuid) list"
  db_systemRoles :: "SystemRoleRow list"
  db_invitations :: "Invitation list"
  db_invitationRoles :: "(uuid \<times> uuid) list"
  db_events :: "AuthzEvent list"

type_synonym 'a dsql = "(PgTables, ent_failure, 'a) prog"
type_synonym 'a dprog = "(PgTables, err, 'a) prog"

definition NewPgTables :: PgTables where
  "NewPgTables =
     \<lparr>db_accounts = NewPgUsers, db_orgs = [], db_memberships = [], db_roles = [], db_rolePermissions = [],
      db_membershipRoles = [], db_systemRoles = [], db_invitations = [], db_invitationRoles = [], db_events = []\<rparr>"

definition db_users :: "PgTables \<Rightarrow> User list" where
  "db_users s = pt_users (db_accounts s)"

text \<open>What a query on the organizations sees.\<close>

definition live_orgs :: "PgTables \<Rightarrow> Organization list" where
  "live_orgs s = filter (\<lambda>o'. \<not> OrganizationIsDeleted o') (db_orgs s)"

definition org_row_exists :: "uuid \<Rightarrow> PgTables \<Rightarrow> bool" where
  "org_row_exists k s \<longleftrightarrow> (\<exists>o' \<in> set (db_orgs s). org_ID o' = k)"

definition role_row_exists :: "uuid \<Rightarrow> PgTables \<Rightarrow> bool" where
  "role_row_exists k s \<longleftrightarrow> (\<exists>r \<in> set (db_roles s). r_ID r = k)"

text \<open>\<open>liveUser\<close>: the account is still there.\<close>

definition liveUser :: "PgTables \<Rightarrow> Membership \<Rightarrow> bool" where
  "liveUser s ms \<longleftrightarrow> (\<exists>u \<in> set (db_users s). u_ID u = ms_UserID ms \<and> \<not> UserIsDeleted u)"

section \<open>Errors\<close>

text \<open>A sentinel that is wrapped is still that sentinel, so the last case of the switch keeps it.\<close>

definition translateOrgError :: "string \<Rightarrow> ent_failure \<Rightarrow> err" where
  "translateOrgError op e =
     (if isNotFound e then orgs_not_found
      else if isUniqueViolation e then OrgsErr ErrRoleKeyTaken
      else case e of Raised e \<Rightarrow> e | _ \<Rightarrow> DriverErr (''store: '' @ op))"

definition raised :: "err + 'a \<Rightarrow> 'a dsql" where
  "raised r s = (case r of Inl e \<Rightarrow> refuse (Raised e) s | Inr x \<Rightarrow> ok x s)"

section \<open>The audit trail\<close>

definition truncateUserAgent :: "string \<Rightarrow> string" where
  "truncateUserAgent s = (if length s \<le> 512 then s else take 512 s)"

definition no_entry :: AuthzEvent where
  "no_entry = \<lparr>ev_ID = uuid_Nil, ev_CreatedAt = zero_time, ev_OrganizationID = None, ev_ActorID = uuid_Nil,
     ev_SubjectID = None, ev_Action = [], ev_RoleID = None, ev_IP = [], ev_UserAgent = [], ev_Detail = []\<rparr>"

definition recordEnt :: "Call \<Rightarrow> AuthzEvent \<Rightarrow> unit dsql" where
  "recordEnt c event s =
     (let actor = ActorFrom (c_actor c) in
      if ActorIsZero actor then ok () s
      else
        let row = event\<lparr>ev_ID := c_newID c DrawEvent, ev_CreatedAt := c_now c ClockEvent, ev_ActorID := ac_ID actor,
              ev_IP := (if ac_IP actor = [] then ''0.0.0.0'' else ac_IP actor),
              ev_UserAgent := truncateUserAgent (ac_UserAgent actor)\<rparr>
        in (case AuthzEventValidate row of
              Inl e \<Rightarrow> refuse (Raised e) s
            | Inr _ \<Rightarrow>
                if \<not> field_ok 40 (ev_Action row) \<or> 500 < length (ev_Detail row) then refuse (FieldInvalid ''authz_events'') s
                else if ev_ID row \<in> set (map ev_ID (db_events s)) then refuse (PgError pgUniqueViolation) s
                else ok () (s\<lparr>db_events := db_events s @ [row]\<rparr>)))"

definition recordAboutMemberEnt :: "Call \<Rightarrow> uuid \<Rightarrow> uuid \<Rightarrow> AuthzEvent \<Rightarrow> unit dsql" where
  "recordAboutMemberEnt c orgID memberID event =
     (if ActorIsZero (ActorFrom (c_actor c)) then ok ()
      else bindp (query (\<lambda>s. only_row (filter (\<lambda>ms. ms_ID ms = memberID \<and> ms_OrganizationID ms = orgID)
             (db_memberships s)))) (\<lambda>row.
           recordEnt c (event\<lparr>ev_SubjectID := Some (ms_UserID row)\<rparr>)))"

section \<open>Organizations\<close>

definition PgOrganization :: "uuid \<Rightarrow> PgTables \<Rightarrow> err + Organization" where
  "PgOrganization orgID s =
     (case only_row (filter (\<lambda>o'. org_ID o' = orgID) (live_orgs s)) of
        Inl e \<Rightarrow> Inl (translateOrgError ''organization'' e)
      | Inr row \<Rightarrow> Inr row)"

text \<open>A name on its way into the database: the hook counts characters, the field bytes.\<close>

definition name_rules :: "string \<Rightarrow> string \<Rightarrow> unit dsql" where
  "name_rules what name =
     (if name = [] \<or> 100 < rune_count name then refuse (Raised (InvalidErr what))
      else if \<not> field_ok 100 name then refuse (FieldInvalid what)
      else ok ())"

definition update_live_org :: "uuid \<Rightarrow> (Organization \<Rightarrow> Organization) \<Rightarrow> nat dsql" where
  "update_live_org orgID f s =
     (let P = (\<lambda>o'. org_ID o' = orgID \<and> \<not> OrganizationIsDeleted o') in
      ok (affected P (db_orgs s)) (s\<lparr>db_orgs := set_where P f (db_orgs s)\<rparr>))"

definition PgUpdateOrganization :: "Call \<Rightarrow> uuid \<Rightarrow> string \<Rightarrow> unit dprog" where
  "PgUpdateOrganization c orgID name =
     translate (translateOrgError ''update organization'') (withEntTx
       (bindp (name_rules ''organization name'' name) (\<lambda>_.
        bindp (update_live_org orgID (\<lambda>o'. o'\<lparr>org_Name := name\<rparr>)) (\<lambda>n.
        if n = 0 then refuse (Raised orgs_not_found)
        else recordEnt c (no_entry\<lparr>ev_OrganizationID := Some orgID, ev_Action := ActionOrganizationUpdated,
               ev_Detail := name\<rparr>)))))"

definition PgDeleteOrganization :: "Call \<Rightarrow> uuid \<Rightarrow> unit dprog" where
  "PgDeleteOrganization c orgID =
     bindp (query (PgOrganization orgID)) (\<lambda>org.
     bindp (ensure (OrganizationRefuseIfProtected org)) (\<lambda>_.
     translate (translateOrgError ''delete organization'') (withEntTx
       (bindp (update_live_org (org_ID org) (\<lambda>o'. o'\<lparr>org_DeletedAt := Some (c_now c ClockRow)\<rparr>)) (\<lambda>n.
        if n = 0 then refuse RowNotFound
        else recordEnt c (no_entry\<lparr>ev_OrganizationID := Some orgID, ev_Action := ActionOrganizationDeleted,
               ev_Detail := org_Slug org\<rparr>))))))"

section \<open>Reading members\<close>

text \<open>\<open>memberRows\<close>: memberships with a live account, by the account's name and then by identifier.\<close>

definition memberRows :: "(Membership \<Rightarrow> bool) \<Rightarrow> PgTables \<Rightarrow> (Membership \<times> User) list" where
  "memberRows P s =
     sort_key (\<lambda>(ms, u). (u_Name u, ms_ID ms))
       (List.map_filter (\<lambda>ms. map_option (Pair ms) (List.find (\<lambda>u. u_ID u = ms_UserID ms) (live_users (db_accounts s))))
         (filter (\<lambda>ms. P ms \<and> liveUser s ms) (db_memberships s)))"

definition roles_of_member :: "PgTables \<Rightarrow> uuid \<Rightarrow> Role list" where
  "roles_of_member s memberID =
     sort_key r_Key (List.map_filter (\<lambda>(_, roleID). List.find (\<lambda>r. r_ID r = roleID) (db_roles s))
       (filter (\<lambda>(k, _). k = memberID) (db_membershipRoles s)))"

definition attachRoles :: "PgTables \<Rightarrow> (Membership \<times> User) list \<Rightarrow> Member list" where
  "attachRoles s rows =
     map (\<lambda>(ms, u). \<lparr>mb_ID = ms_ID ms, mb_UserID = ms_UserID ms, mb_Name = u_Name u, mb_Email = u_Email u,
        mb_Status = ms_Status ms, mb_JoinedAt = ms_JoinedAt ms,
        mb_Roles = map (\<lambda>r. \<lparr>rs_ID = r_ID r, rs_Key = r_Key r, rs_Name = r_Name r, rs_IsSystem = r_IsSystem r\<rparr>)
          (roles_of_member s (ms_ID ms))\<rparr>) rows"

definition PgMembers :: "uuid \<Rightarrow> int \<Rightarrow> int \<Rightarrow> PgTables \<Rightarrow> err + Member list" where
  "PgMembers orgID limit offset s =
     (case limit_rows limit offset (memberRows (\<lambda>ms. ms_OrganizationID ms = orgID) s) of
        Inl e \<Rightarrow> Inl (wrapped ''members'' e)
      | Inr rows \<Rightarrow> Inr (attachRoles s rows))"

definition first_member :: "PgTables \<Rightarrow> (Membership \<times> User) list \<Rightarrow> err + Member" where
  "first_member s rows = (if rows = [] then Inl orgs_not_found else Inr (hd (attachRoles s rows)))"

definition PgMember :: "uuid \<Rightarrow> uuid \<Rightarrow> PgTables \<Rightarrow> err + Member" where
  "PgMember orgID memberID s =
     first_member s (memberRows (\<lambda>ms. ms_OrganizationID ms = orgID \<and> ms_ID ms = memberID) s)"

definition PgMemberByUser :: "uuid \<Rightarrow> uuid \<Rightarrow> PgTables \<Rightarrow> err + Member" where
  "PgMemberByUser orgID userID s =
     first_member s (memberRows (\<lambda>ms. ms_OrganizationID ms = orgID \<and> ms_UserID ms = userID) s)"

text \<open>\<open>SELECT DISTINCT \<dots> ORDER BY\<close> of the permission keys of the membership's roles.\<close>

definition PgMemberPermissions :: "uuid \<Rightarrow> uuid \<Rightarrow> PgTables \<Rightarrow> err + permission list" where
  "PgMemberPermissions orgID memberID s =
     Inr (sort (keep_first [] (map snd (filter (\<lambda>(roleID, _).
       \<exists>(k, held) \<in> set (db_membershipRoles s). held = roleID \<and> k = memberID \<and>
         (\<exists>ms \<in> set (db_memberships s). ms_ID ms = memberID \<and> ms_OrganizationID ms = orgID))
       (db_rolePermissions s)))))"

section \<open>Assigning roles\<close>

text \<open>A count of the named roles that belong to the organization.\<close>

definition ownedRoleIDs :: "uuid \<Rightarrow> uuid list \<Rightarrow> PgTables \<Rightarrow> ent_failure + uuid list" where
  "ownedRoleIDs orgID roleIDs s =
     (let unique = keep_first [] roleIDs in
      if unique = [] then Inr unique
      else if length (filter (\<lambda>r. r_OrganizationID r = orgID \<and> r_ID r \<in> set unique) (db_roles s)) \<noteq> length unique
      then Inl (Raised orgs_not_found)
      else Inr unique)"

definition insert_membership_roles :: "uuid \<Rightarrow> uuid list \<Rightarrow> unit dsql" where
  "insert_membership_roles memberID roleIDs s =
     (if \<exists>roleID \<in> set roleIDs. (memberID, roleID) \<in> set (db_membershipRoles s) then refuse (PgError pgUniqueViolation) s
      else if (\<exists>roleID \<in> set roleIDs. \<not> role_row_exists roleID s) \<or> (\<forall>ms \<in> set (db_memberships s). ms_ID ms \<noteq> memberID)
      then refuse (PgError pgForeignKeyViolation) s
      else ok () (s\<lparr>db_membershipRoles := db_membershipRoles s @ map (Pair memberID) roleIDs\<rparr>))"

definition assignMembershipRoles :: "uuid \<Rightarrow> uuid \<Rightarrow> uuid list \<Rightarrow> unit dsql" where
  "assignMembershipRoles orgID memberID roleIDs =
     bindp (query (ownedRoleIDs orgID roleIDs)) (\<lambda>unique.
     if unique = [] then ok () else insert_membership_roles memberID unique)"

text \<open>The statement \<open>AddMember\<close> and \<open>AcceptInvitation\<close> share, with the hook and the indexes of the table.\<close>

definition insert_membership :: "Call \<Rightarrow> Membership \<Rightarrow> Membership dsql" where
  "insert_membership c ms s =
     (let row = ms\<lparr>ms_ID := c_newID c DrawMembership\<rparr> in
      case MembershipValidate row of
        Inl e \<Rightarrow> refuse (Raised e) s
      | Inr _ \<Rightarrow>
          if ms_ID row \<in> set (map ms_ID (db_memberships s)) \<or>
            (\<exists>other \<in> set (db_memberships s). ms_UserID other = ms_UserID row \<and> ms_OrganizationID other = ms_OrganizationID row)
          then refuse (PgError pgUniqueViolation) s
          else if \<not> user_row_exists (ms_UserID row) (db_accounts s) \<or> \<not> org_row_exists (ms_OrganizationID row) s
          then refuse (PgError pgForeignKeyViolation) s
          else ok row (s\<lparr>db_memberships := db_memberships s @ [row]\<rparr>))"

definition PgAddMember :: "Call \<Rightarrow> uuid \<Rightarrow> uuid \<Rightarrow> uuid list \<Rightarrow> uuid \<Rightarrow> time \<Rightarrow> Member dprog" where
  "PgAddMember c orgID userID roleIDs invitedBy at =
     (let m = MembershipActivate at
            \<lparr>ms_ID = uuid_Nil, ms_UserID = userID, ms_OrganizationID = orgID, ms_Status = MembershipActive,
             ms_InvitedBy = (if invitedBy \<noteq> uuid_Nil then Some invitedBy else None), ms_JoinedAt = None\<rparr> in
      bindp (translate (translateOrgError ''add member'') (withEntTx
        (bindp (attempt (insert_membership c m) (\<lambda>r. case r of
             Inl e \<Rightarrow> if isUniqueViolation e then refuse (Raised (OrgsErr ErrAlreadyMember))
                      else if isForeignKeyViolation e then refuse (Raised orgs_not_found) else refuse e
           | Inr row \<Rightarrow> ok row)) (\<lambda>created.
         bindp (assignMembershipRoles orgID (ms_ID created) roleIDs) (\<lambda>_.
         bindp (recordEnt c (no_entry\<lparr>ev_OrganizationID := Some orgID, ev_SubjectID := Some userID,
           ev_Action := ActionMemberJoined\<rparr>)) (\<lambda>_.
         ok (ms_ID created))))))) (\<lambda>memberID.
      query (PgMember orgID memberID)))"

section \<open>The last owner\<close>

text \<open>\<open>lockOrganization\<close>: a live row, locked until the transaction ends.\<close>

definition lockOrganization :: "uuid \<Rightarrow> unit dsql" where
  "lockOrganization orgID =
     bindp (query (\<lambda>s. only_row (filter (\<lambda>o'. org_ID o' = orgID) (live_orgs s)))) (\<lambda>_. ok ())"

definition holds_owner_role :: "PgTables \<Rightarrow> uuid \<Rightarrow> bool" where
  "holds_owner_role s memberID \<longleftrightarrow>
     (\<exists>(k, roleID) \<in> set (db_membershipRoles s). k = memberID \<and>
        (\<exists>r \<in> set (db_roles s). r_ID r = roleID \<and> r_Key r = RoleOwner))"

definition owner_rows :: "uuid \<Rightarrow> PgTables \<Rightarrow> Membership list" where
  "owner_rows orgID s =
     filter (\<lambda>ms. ms_OrganizationID ms = orgID \<and> ms_Status ms = MembershipActive \<and> liveUser s ms \<and>
       holds_owner_role s (ms_ID ms)) (db_memberships s)"

definition ownerStateTx :: "uuid \<Rightarrow> uuid \<Rightarrow> PgTables \<Rightarrow> ent_failure + OwnerState" where
  "ownerStateTx orgID memberID s =
     (let ids = map ms_ID (owner_rows orgID s) in
      Inr \<lparr>ow_Owners = int (length ids), ow_SubjectHoldsOwner = (memberID \<in> set ids)\<rparr>)"

definition applyOwnerGuard :: "uuid \<Rightarrow> uuid \<Rightarrow> OwnerGuard \<Rightarrow> unit dsql" where
  "applyOwnerGuard orgID memberID guard =
     bindp (lockOrganization orgID) (\<lambda>_.
     bindp (query (ownerStateTx orgID memberID)) (\<lambda>state.
     raised (guard state)))"

section \<open>Changing members\<close>

definition status_text :: "MembershipStatus \<Rightarrow> string" where
  "status_text status =
     (case status of MembershipActive \<Rightarrow> ''active'' | MembershipSuspended \<Rightarrow> ''suspended'' | MembershipOther x \<Rightarrow> x)"

text \<open>The column takes the two values of its enumeration. Activating keeps a join date that is there.\<close>

definition update_status :: "uuid \<Rightarrow> uuid \<Rightarrow> MembershipStatus \<Rightarrow> time \<Rightarrow> nat dsql" where
  "update_status orgID memberID status at s =
     (if status \<noteq> MembershipActive \<and> status \<noteq> MembershipSuspended then refuse (FieldInvalid ''status'') s
      else let P = (\<lambda>ms. ms_ID ms = memberID \<and> ms_OrganizationID ms = orgID) in
        ok (affected P (db_memberships s)) (s\<lparr>db_memberships := set_where P (\<lambda>ms. ms\<lparr>ms_Status := status,
          ms_JoinedAt := (if GrantsPermissions status
             then Some (case ms_JoinedAt ms of None \<Rightarrow> at | Some t \<Rightarrow> t) else ms_JoinedAt ms)\<rparr>) (db_memberships s)\<rparr>))"

definition PgSetMemberStatus :: "Call \<Rightarrow> uuid \<Rightarrow> uuid \<Rightarrow> MembershipStatus \<Rightarrow> time \<Rightarrow> OwnerGuard \<Rightarrow> unit dprog" where
  "PgSetMemberStatus c orgID memberID status at guard =
     translate (translateOrgError ''set member status'') (withEntTx
       (bindp (applyOwnerGuard orgID memberID guard) (\<lambda>_.
        bindp (update_status orgID memberID status at) (\<lambda>n.
        if n = 0 then refuse (Raised orgs_not_found)
        else recordAboutMemberEnt c orgID memberID (no_entry\<lparr>ev_OrganizationID := Some orgID,
               ev_Action := (if GrantsPermissions status then ActionMemberReinstated else ActionMemberSuspended),
               ev_Detail := status_text status\<rparr>)))))"

text \<open>Deleting a membership takes its assignments along.\<close>

definition delete_membership :: "uuid \<Rightarrow> uuid \<Rightarrow> nat dsql" where
  "delete_membership orgID memberID s =
     (let P = (\<lambda>ms. ms_ID ms = memberID \<and> ms_OrganizationID ms = orgID) in
      ok (affected P (db_memberships s))
        (if affected P (db_memberships s) = 0 then s
         else s\<lparr>db_memberships := filter (\<lambda>ms. \<not> P ms) (db_memberships s),
                db_membershipRoles := filter (\<lambda>(k, _). k \<noteq> memberID) (db_membershipRoles s)\<rparr>))"

definition PgRemoveMember :: "Call \<Rightarrow> uuid \<Rightarrow> uuid \<Rightarrow> string \<Rightarrow> OwnerGuard \<Rightarrow> unit dprog" where
  "PgRemoveMember c orgID memberID action guard =
     translate (translateOrgError ''remove member'') (withEntTx
       (bindp (applyOwnerGuard orgID memberID guard) (\<lambda>_.
        bindp (recordAboutMemberEnt c orgID memberID (no_entry\<lparr>ev_OrganizationID := Some orgID, ev_Action := action\<rparr>)) (\<lambda>_.
        bindp (delete_membership orgID memberID) (\<lambda>n.
        if n = 0 then refuse (Raised orgs_not_found) else ok ())))))"

definition delete_assignments :: "uuid \<Rightarrow> unit dsql" where
  "delete_assignments memberID s =
     ok () (s\<lparr>db_membershipRoles := filter (\<lambda>(k, _). k \<noteq> memberID) (db_membershipRoles s)\<rparr>)"

definition PgReplaceMemberRoles :: "Call \<Rightarrow> uuid \<Rightarrow> uuid \<Rightarrow> uuid list \<Rightarrow> OwnerGuard \<Rightarrow> unit dprog" where
  "PgReplaceMemberRoles c orgID memberID roleIDs guard =
     translate (translateOrgError ''replace member roles'') (withEntTx
       (bindp (applyOwnerGuard orgID memberID guard) (\<lambda>_.
        bindp (query (\<lambda>s. if affected (\<lambda>ms. ms_ID ms = memberID \<and> ms_OrganizationID ms = orgID) (db_memberships s) = 0
             then Inl (Raised orgs_not_found) else Inr ())) (\<lambda>_.
        bindp (delete_assignments memberID) (\<lambda>_.
        bindp (assignMembershipRoles orgID memberID roleIDs) (\<lambda>_.
        recordAboutMemberEnt c orgID memberID (no_entry\<lparr>ev_OrganizationID := Some orgID,
          ev_Action := ActionMemberRolesChanged\<rparr>)))))))"

end
