(* ===== verification/Pg_Roles.thy ===== *)
theory Pg_Roles
  imports Pg_Orgs
begin

text \<open>
  The organization repository over Postgres, continued: roles, the listing of an account's memberships and the
  provisioner (\<open>internal/store/repositories/orgs.go\<close>).
\<close>

section \<open>Reading roles\<close>

definition decorateRole :: "PgTables \<Rightarrow> Role \<Rightarrow> RoleView" where
  "decorateRole s r =
     \<lparr>rv_Role = r, rv_Permissions = sort (map snd (filter (\<lambda>(roleID, _). roleID = r_ID r) (db_rolePermissions s))),
      rv_Members = int (length (filter (\<lambda>(_, roleID). roleID = r_ID r) (db_membershipRoles s)))\<rparr>"

definition PgRoles :: "uuid \<Rightarrow> int \<Rightarrow> int \<Rightarrow> PgTables \<Rightarrow> err + RoleView list" where
  "PgRoles orgID limit offset s =
     (case limit_rows limit offset (sort_key (\<lambda>r. (\<not> r_IsSystem r, r_Key r))
         (filter (\<lambda>r. r_OrganizationID r = orgID) (db_roles s))) of
        Inl e \<Rightarrow> Inl (wrapped ''roles'' e)
      | Inr rows \<Rightarrow> Inr (map (decorateRole s) rows))"

definition one_role :: "string \<Rightarrow> (Role \<Rightarrow> bool) \<Rightarrow> PgTables \<Rightarrow> err + RoleView" where
  "one_role op P s =
     (case only_row (filter P (db_roles s)) of
        Inl e \<Rightarrow> Inl (translateOrgError op e)
      | Inr row \<Rightarrow> Inr (decorateRole s row))"

definition PgRole :: "uuid \<Rightarrow> uuid \<Rightarrow> PgTables \<Rightarrow> err + RoleView" where
  "PgRole orgID roleID = one_role ''role'' (\<lambda>r. r_ID r = roleID \<and> r_OrganizationID r = orgID)"

definition PgRoleByKey :: "uuid \<Rightarrow> string \<Rightarrow> PgTables \<Rightarrow> err + RoleView" where
  "PgRoleByKey orgID key = one_role ''role by key'' (\<lambda>r. r_OrganizationID r = orgID \<and> r_Key r = key)"

section \<open>Changing roles\<close>

text \<open>A new role: the hook, the fields, the key's index within the organization, the organization's row.\<close>

definition insert_role :: "Role \<Rightarrow> unit dsql" where
  "insert_role row s =
     (case RoleValidate row of
        Inl e \<Rightarrow> refuse (Raised e) s
      | Inr _ \<Rightarrow>
          if \<not> field_ok 64 (r_Key row) \<or> \<not> field_ok 100 (r_Name row) \<or> 255 < length (r_Description row)
          then refuse (FieldInvalid ''roles'') s
          else if r_ID row \<in> set (map r_ID (db_roles s)) \<or>
            (\<exists>r \<in> set (db_roles s). r_OrganizationID r = r_OrganizationID row \<and> r_Key r = r_Key row)
          then refuse (PgError pgUniqueViolation) s
          else if \<not> org_row_exists (r_OrganizationID row) s then refuse (PgError pgForeignKeyViolation) s
          else ok () (s\<lparr>db_roles := db_roles s @ [row]\<rparr>))"

definition insertRolePermissions :: "uuid \<Rightarrow> permission list \<Rightarrow> unit dsql" where
  "insertRolePermissions roleID permissions s =
     (if permissions = [] then ok () s
      else if \<exists>p \<in> set permissions. \<not> field_ok 100 p then refuse (FieldInvalid ''permission_key'') s
      else if \<not> distinct permissions \<or> (\<exists>p \<in> set permissions. (roleID, p) \<in> set (db_rolePermissions s))
      then refuse (PgError pgUniqueViolation) s
      else if \<not> role_row_exists roleID s then refuse (PgError pgForeignKeyViolation) s
      else ok () (s\<lparr>db_rolePermissions := db_rolePermissions s @ map (Pair roleID) permissions\<rparr>))"

definition PgCreateRole :: "Call \<Rightarrow> uuid \<Rightarrow> Role \<Rightarrow> permission list \<Rightarrow> RoleView dprog" where
  "PgCreateRole c orgID role permissions =
     (let row = role\<lparr>r_ID := (if r_ID role \<noteq> uuid_Nil then r_ID role else c_newID c (DrawRole 0)), r_OrganizationID := orgID\<rparr> in
      bindp (translate (translateOrgError ''create role'') (withEntTx
        (bindp (insert_role row) (\<lambda>_.
         bindp (insertRolePermissions (r_ID row) permissions) (\<lambda>_.
         recordEnt c (no_entry\<lparr>ev_OrganizationID := Some orgID, ev_Action := ActionRoleCreated,
           ev_RoleID := Some (r_ID row), ev_Detail := r_Key row\<rparr>)))))) (\<lambda>_.
      query (PgRole orgID (r_ID row))))"

definition update_role :: "uuid \<Rightarrow> uuid \<Rightarrow> string \<Rightarrow> string \<Rightarrow> nat dsql" where
  "update_role orgID roleID name description s =
     (if 255 < length description then refuse (FieldInvalid ''description'') s
      else let P = (\<lambda>r. r_ID r = roleID \<and> r_OrganizationID r = orgID \<and> \<not> r_IsSystem r) in
        ok (affected P (db_roles s))
          (s\<lparr>db_roles := set_where P (\<lambda>r. r\<lparr>r_Name := name, r_Description := description\<rparr>) (db_roles s)\<rparr>))"

definition PgUpdateRole :: "Call \<Rightarrow> uuid \<Rightarrow> uuid \<Rightarrow> string \<Rightarrow> string \<Rightarrow> unit dprog" where
  "PgUpdateRole c orgID roleID name description =
     translate (translateOrgError ''update role'') (withEntTx
       (bindp (name_rules ''role name'' name) (\<lambda>_.
        bindp (update_role orgID roleID name description) (\<lambda>n.
        if n = 0 then refuse (Raised orgs_not_found)
        else recordEnt c (no_entry\<lparr>ev_OrganizationID := Some orgID, ev_Action := ActionRoleUpdated,
               ev_RoleID := Some roleID, ev_Detail := name\<rparr>)))))"

text \<open>Deleting a role takes along its permissions and every assignment of it.\<close>

definition delete_role_row :: "uuid \<Rightarrow> unit dsql" where
  "delete_role_row roleID s =
     (if affected (\<lambda>r. r_ID r = roleID) (db_roles s) = 0 then refuse RowNotFound s
      else ok () (s\<lparr>db_roles := filter (\<lambda>r. r_ID r \<noteq> roleID) (db_roles s),
             db_rolePermissions := filter (\<lambda>(k, _). k \<noteq> roleID) (db_rolePermissions s),
             db_membershipRoles := filter (\<lambda>(_, k). k \<noteq> roleID) (db_membershipRoles s),
             db_invitationRoles := filter (\<lambda>(_, k). k \<noteq> roleID) (db_invitationRoles s)\<rparr>))"

text \<open>The checks of \<open>DeleteRole\<close>, which are its statements before the one that deletes.\<close>

definition delete_role_checks :: "Call \<Rightarrow> uuid \<Rightarrow> uuid \<Rightarrow> RoleGuard \<Rightarrow> Role dsql" where
  "delete_role_checks c orgID roleID guard =
     bindp (lockOrganization orgID) (\<lambda>_.
     bindp (query (\<lambda>s. only_row (filter (\<lambda>r. r_ID r = roleID \<and> r_OrganizationID r = orgID) (db_roles s)))) (\<lambda>row.
     bindp (raised (RoleRefuseDelete row)) (\<lambda>_.
     bindp (query (\<lambda>s. Inr (int (affected (\<lambda>(_, k). k = roleID) (db_membershipRoles s))))) (\<lambda>holders.
     bindp (raised (guard holders)) (\<lambda>_.
     bindp (recordEnt c (no_entry\<lparr>ev_OrganizationID := Some orgID, ev_Action := ActionRoleDeleted,
       ev_RoleID := Some roleID, ev_Detail := r_Key row\<rparr>)) (\<lambda>_.
     ok row))))))"

definition PgDeleteRole :: "Call \<Rightarrow> uuid \<Rightarrow> uuid \<Rightarrow> RoleGuard \<Rightarrow> unit dprog" where
  "PgDeleteRole c orgID roleID guard =
     translate (translateOrgError ''delete role'') (withEntTx
       (bindp (delete_role_checks c orgID roleID guard) (\<lambda>row. delete_role_row (r_ID row))))"

definition delete_permissions :: "uuid \<Rightarrow> unit dsql" where
  "delete_permissions roleID s =
     ok () (s\<lparr>db_rolePermissions := filter (\<lambda>(k, _). k \<noteq> roleID) (db_rolePermissions s)\<rparr>)"

definition PgReplaceRolePermissions :: "Call \<Rightarrow> uuid \<Rightarrow> uuid \<Rightarrow> permission list \<Rightarrow> unit dprog" where
  "PgReplaceRolePermissions c orgID roleID permissions =
     translate (translateOrgError ''replace role permissions'') (withEntTx
       (bindp (query (\<lambda>s. if affected (\<lambda>r. r_ID r = roleID \<and> r_OrganizationID r = orgID) (db_roles s) = 0
             then Inl (Raised orgs_not_found) else Inr ())) (\<lambda>_.
        bindp (delete_permissions roleID) (\<lambda>_.
        bindp (insertRolePermissions roleID permissions) (\<lambda>_.
        recordEnt c (no_entry\<lparr>ev_OrganizationID := Some orgID, ev_Action := ActionRolePermissionsChanged,
          ev_RoleID := Some roleID, ev_Detail := show_nat (length permissions) @ '' permissions''\<rparr>))))))"

section \<open>The memberships of an account\<close>

definition PgMembershipsForUser :: "uuid \<Rightarrow> PgTables \<Rightarrow> err + MembershipView list" where
  "PgMembershipsForUser userID s =
     Inr (map (\<lambda>(ms, org). \<lparr>mv_ID = ms_ID ms, mv_Organization = org, mv_Status = ms_Status ms,
         mv_RoleKeys = map r_Key (roles_of_member s (ms_ID ms))\<rparr>)
       (sort_key (\<lambda>(_, org). org_Name org)
         (List.map_filter (\<lambda>ms. map_option (Pair ms) (List.find (\<lambda>o'. org_ID o' = ms_OrganizationID ms) (live_orgs s)))
           (filter (\<lambda>ms. ms_UserID ms = userID) (db_memberships s)))))"

section \<open>The provisioner\<close>

definition PgOrganizationBySlug :: "string \<Rightarrow> PgTables \<Rightarrow> err + Organization" where
  "PgOrganizationBySlug slug s =
     (case only_row (filter (\<lambda>o'. org_Slug o' = slug) (live_orgs s)) of
        Inl e \<Rightarrow> Inl (translateOrgError ''organization by slug'' e)
      | Inr row \<Rightarrow> Inr row)"

text \<open>The slug's index is on live rows only.\<close>

definition insert_org :: "Organization \<Rightarrow> unit dsql" where
  "insert_org row s =
     (case OrganizationValidate row of
        Inl e \<Rightarrow> refuse (Raised e) s
      | Inr _ \<Rightarrow>
          if \<not> field_ok 63 (org_Slug row) \<or> \<not> field_ok 100 (org_Name row) then refuse (FieldInvalid ''organizations'') s
          else if org_ID row \<in> set (map org_ID (db_orgs s)) \<or> org_Slug row \<in> set (map org_Slug (live_orgs s))
          then refuse (PgError pgUniqueViolation) s
          else ok () (s\<lparr>db_orgs := db_orgs s @ [row]\<rparr>))"

text \<open>The loop that materialises the shipped roles.\<close>

fun insert_shipped_roles :: "Call \<Rightarrow> uuid \<Rightarrow> nat \<Rightarrow> RoleDefinition list \<Rightarrow> unit dsql" where
  "insert_shipped_roles c orgID i [] = ok ()"
| "insert_shipped_roles c orgID i (def # defs) =
     (let row = \<lparr>r_ID = c_newID c (DrawRole i), r_OrganizationID = orgID, r_Key = rd_Key def, r_Name = rd_Name def,
            r_Description = rd_Description def, r_IsSystem = True\<rparr> in
      bindp (insert_role row) (\<lambda>_.
      bindp (insertRolePermissions (r_ID row) (rd_Permissions def)) (\<lambda>_.
      insert_shipped_roles c orgID (Suc i) defs)))"

definition PgCreateOrganization :: "Call \<Rightarrow> Organization \<Rightarrow> RoleDefinition list \<Rightarrow> Organization dprog" where
  "PgCreateOrganization c org roles =
     (let row = org\<lparr>org_ID := (if org_ID org \<noteq> uuid_Nil then org_ID org else c_newID c DrawOrganization),
            org_DeletedAt := None\<rparr> in
      translate (translateOrgError ''create organization'') (withEntTx
        (bindp (attempt (insert_org row) (\<lambda>r. case r of
             Inl e \<Rightarrow> if isUniqueViolation e then refuse (Raised (OrgsErr ErrSlugTaken)) else refuse e
           | Inr _ \<Rightarrow> ok ())) (\<lambda>_.
         bindp (insert_shipped_roles c (org_ID row) 0 roles) (\<lambda>_.
         bindp (recordEnt c (no_entry\<lparr>ev_OrganizationID := Some (org_ID row), ev_Action := ActionOrganizationCreated,
           ev_Detail := org_Slug row\<rparr>)) (\<lambda>_.
         ok (org\<lparr>org_ID := org_ID row\<rparr>)))))))"

text \<open>\<open>activeOwners\<close>: the distinct memberships the three joins find.\<close>

definition activeOwners :: "PgTables \<Rightarrow> uuid \<Rightarrow> int" where
  "activeOwners s orgID =
     int (length (keep_first [] (concat (map (\<lambda>(memberID, roleID).
       map ms_ID (filter (\<lambda>ms. ms_ID ms = memberID \<and> ms_OrganizationID ms = orgID \<and> ms_Status ms = MembershipActive \<and>
         liveUser s ms \<and> (\<exists>r \<in> set (db_roles s). r_ID r = roleID \<and> r_Key r = ''owner'')) (db_memberships s)))
       (db_membershipRoles s)))))"

text \<open>\<open>LIMIT\<close> and \<open>OFFSET\<close> as parameters of a statement written out: zero rows are none.\<close>

definition sql_page :: "int \<Rightarrow> int \<Rightarrow> 'r list \<Rightarrow> ent_failure + 'r list" where
  "sql_page limit offset rows =
     (if limit < 0 then Inl (PgError ''2201W'')
      else if offset < 0 then Inl (PgError ''2201X'')
      else Inr (take (nat limit) (drop (nat offset) rows)))"

definition PgAllOrganizations :: "OrganizationFilter \<Rightarrow> int \<Rightarrow> int \<Rightarrow> PgTables \<Rightarrow> err + OrganizationSummary list" where
  "PgAllOrganizations flt limit offset s =
     (case sql_page limit offset (rev (sort_key org_ID (filter (\<lambda>o'.
         \<not> OrganizationIsDeleted o' \<and> (of_WithoutOwner flt \<longrightarrow> activeOwners s (org_ID o') = 0)) (db_orgs s)))) of
        Inl e \<Rightarrow> Inl (wrapped ''all organizations'' e)
      | Inr rows \<Rightarrow> Inr (map (\<lambda>o'. \<lparr>os_Organization = o', os_Owners = activeOwners s (org_ID o')\<rparr>) rows))"

text \<open>\<open>ON CONFLICT DO NOTHING \<dots> RETURNING\<close>: no row comes back when there is one already.\<close>

definition insert_system_role :: "SystemRoleRow \<Rightarrow> unit dsql" where
  "insert_system_role row s =
     (case UserSystemRoleValidate (usr_RoleKey row) of
        Inl e \<Rightarrow> refuse (Raised e) s
      | Inr _ \<Rightarrow>
          if \<not> field_ok 64 (usr_RoleKey row) then refuse (FieldInvalid ''role_key'') s
          else if \<exists>r \<in> set (db_systemRoles s). usr_UserID r = usr_UserID row \<and> usr_RoleKey r = usr_RoleKey row
          then refuse RowNotFound s
          else if \<not> user_row_exists (usr_UserID row) (db_accounts s) then refuse (PgError pgForeignKeyViolation) s
          else ok () (s\<lparr>db_systemRoles := db_systemRoles s @ [row]\<rparr>))"

definition PgGrantSystemRole :: "Call \<Rightarrow> uuid \<Rightarrow> role_key \<Rightarrow> uuid \<Rightarrow> unit dprog" where
  "PgGrantSystemRole c userID key grantedBy =
     translate (translateOrgError ''grant system role'') (withEntTx
       (attempt (insert_system_role \<lparr>usr_UserID = userID, usr_RoleKey = key,
            usr_GrantedBy = (if grantedBy = uuid_Nil then None else Some grantedBy), usr_CreatedAt = c_now c ClockRow\<rparr>)
          (\<lambda>r. case r of
             Inl e \<Rightarrow> if isNotFound e then ok () else refuse e
           | Inr _ \<Rightarrow> recordEnt c (no_entry\<lparr>ev_SubjectID := Some userID, ev_Action := ActionSystemRoleGranted,
               ev_Detail := key\<rparr>))))"

definition delete_system_role :: "uuid \<Rightarrow> role_key \<Rightarrow> nat dsql" where
  "delete_system_role userID key s =
     (let P = (\<lambda>r. usr_UserID r = userID \<and> usr_RoleKey r = key) in
      ok (affected P (db_systemRoles s)) (s\<lparr>db_systemRoles := filter (\<lambda>r. \<not> P r) (db_systemRoles s)\<rparr>))"

definition PgRevokeSystemRole :: "Call \<Rightarrow> uuid \<Rightarrow> role_key \<Rightarrow> unit dprog" where
  "PgRevokeSystemRole c userID key =
     translate (translateOrgError ''revoke system role'') (withEntTx
       (bindp (delete_system_role userID key) (\<lambda>n.
        if n = 0 then ok ()
        else recordEnt c (no_entry\<lparr>ev_SubjectID := Some userID, ev_Action := ActionSystemRoleRevoked,
               ev_Detail := key\<rparr>))))"

definition PgSystemRoleHolders :: "PgTables \<Rightarrow> err + SystemRoleHolder list" where
  "PgSystemRoleHolders s =
     Inr (map (\<lambda>(row, u). \<lparr>sh_UserID = usr_UserID row, sh_Name = u_Name u, sh_Email = u_Email u,
         sh_RoleKey = usr_RoleKey row, sh_GrantedBy = usr_GrantedBy row, sh_GrantedAt = usr_CreatedAt row\<rparr>)
       (sort_key (\<lambda>(row, u). (u_Name u, usr_RoleKey row))
         (List.map_filter (\<lambda>row. map_option (Pair row) (List.find (\<lambda>u. u_ID u = usr_UserID row) (live_users (db_accounts s))))
           (db_systemRoles s))))"

end
