(* ===== verification/Pg_Invitations.thy ===== *)
theory Pg_Invitations
  imports Pg_Roles Memory_Authz
begin

text \<open>
  Invitations and the audit trail's readers over Postgres (\<open>internal/store/repositories/invitations.go\<close>, \<open>audit.go\<close>), and
  the three queries of \<open>authz.go\<close> that decide what an account may do; the repositories as the records the services use.
\<close>

section \<open>Reading invitations\<close>

text \<open>An invitation is read back with its organization, which has to be live, and the keys of its roles.\<close>

definition read_invitation :: "uuid \<Rightarrow> PgTables \<Rightarrow> err + InvitationView" where
  "read_invitation invitationID s =
     (case only_row (filter (\<lambda>i. inv_ID i = invitationID) (db_invitations s)) of
        Inl e \<Rightarrow> Inl (translateOrgError ''invitation'' e)
      | Inr row \<Rightarrow>
          (case only_row (filter (\<lambda>o'. org_ID o' = inv_OrganizationID row) (live_orgs s)) of
             Inl e \<Rightarrow> Inl (translateOrgError ''invitation organization'' e)
           | Inr org \<Rightarrow>
               Inr \<lparr>iv_ID = inv_ID row, iv_Organization = org, iv_Email = inv_Email row, iv_InvitedBy = inv_InvitedBy row,
                 iv_ExpiresAt = inv_ExpiresAt row,
                 iv_RoleKeys = sort (map r_Key (filter (\<lambda>r. (invitationID, r_ID r) \<in> set (db_invitationRoles s)) (db_roles s)))\<rparr>))"

text \<open>The loop over the rows: the first that cannot be read ends it.\<close>

fun read_invitations :: "Invitation list \<Rightarrow> PgTables \<Rightarrow> err + InvitationView list" where
  "read_invitations [] s = Inr []"
| "read_invitations (row # rows) s =
     (case read_invitation (inv_ID row) s of
        Inl e \<Rightarrow> Inl e
      | Inr view \<Rightarrow> (case read_invitations rows s of Inl e \<Rightarrow> Inl e | Inr views \<Rightarrow> Inr (view # views)))"

text \<open>
  \<open>HasOrganization\<close> asks for the edge alone, which every row has. A zero time leaves the clock out.
\<close>

definition PgInvitationByToken :: "string \<Rightarrow> time \<Rightarrow> PgTables \<Rightarrow> err + InvitationView" where
  "PgInvitationByToken tokenHash now s =
     (case first_row (filter (\<lambda>i. inv_TokenHash i = tokenHash \<and> inv_AcceptedAt i = None \<and>
         (now \<noteq> zero_time \<longrightarrow> now < inv_ExpiresAt i)) (db_invitations s)) of
        Inl e \<Rightarrow> Inl (translateOrgError ''invitation by token'' e)
      | Inr row \<Rightarrow> read_invitation (inv_ID row) s)"

definition PgInvitationsForEmail :: "string \<Rightarrow> time \<Rightarrow> PgTables \<Rightarrow> err + InvitationView list" where
  "PgInvitationsForEmail email now s =
     read_invitations (sort_key (\<lambda>i. - inv_CreatedAt i) (filter (\<lambda>i. inv_Email i = email \<and> inv_AcceptedAt i = None \<and>
       now < inv_ExpiresAt i) (db_invitations s))) s"

definition PgInvitationsForOrganization :: "uuid \<Rightarrow> time \<Rightarrow> PgTables \<Rightarrow> err + InvitationView list" where
  "PgInvitationsForOrganization orgID now s =
     read_invitations (sort_key (\<lambda>i. - inv_CreatedAt i) (filter (\<lambda>i. inv_OrganizationID i = orgID \<and> inv_AcceptedAt i = None \<and>
       now < inv_ExpiresAt i) (db_invitations s))) s"

section \<open>Inviting\<close>

text \<open>The address is counted over every account, retired ones included: the predicate is a sub-select.\<close>

definition address_is_member :: "uuid \<Rightarrow> string \<Rightarrow> PgTables \<Rightarrow> bool" where
  "address_is_member orgID email s \<longleftrightarrow>
     (\<exists>ms \<in> set (db_memberships s). ms_OrganizationID ms = orgID \<and>
        (\<exists>u \<in> set (db_users s). u_ID u = ms_UserID ms \<and> u_Email u = email))"

text \<open>Unique: the address within the organization, accepted or not, and the hash of the token.\<close>

definition insert_invitation :: "Invitation \<Rightarrow> unit dsql" where
  "insert_invitation row s =
     (case InvitationValidate row of
        Inl e \<Rightarrow> refuse (Raised e) s
      | Inr _ \<Rightarrow>
          if \<not> field_ok 255 (inv_Email row) \<or> \<not> field_ok 64 (inv_TokenHash row) then refuse (FieldInvalid ''invitations'') s
          else if inv_ID row \<in> set (map inv_ID (db_invitations s)) \<or> inv_TokenHash row \<in> set (map inv_TokenHash (db_invitations s)) \<or>
            (\<exists>i \<in> set (db_invitations s). inv_OrganizationID i = inv_OrganizationID row \<and> inv_Email i = inv_Email row)
          then refuse (PgError pgUniqueViolation) s
          else if \<not> org_row_exists (inv_OrganizationID row) s then refuse (PgError pgForeignKeyViolation) s
          else ok () (s\<lparr>db_invitations := db_invitations s @ [row]\<rparr>))"

definition insert_invitation_roles :: "uuid \<Rightarrow> uuid list \<Rightarrow> unit dsql" where
  "insert_invitation_roles invitationID roleIDs s =
     (if \<exists>roleID \<in> set roleIDs. (invitationID, roleID) \<in> set (db_invitationRoles s) then refuse (PgError pgUniqueViolation) s
      else if (\<exists>roleID \<in> set roleIDs. \<not> role_row_exists roleID s) \<or> (\<forall>i \<in> set (db_invitations s). inv_ID i \<noteq> invitationID)
      then refuse (PgError pgForeignKeyViolation) s
      else ok () (s\<lparr>db_invitationRoles := db_invitationRoles s @ map (Pair invitationID) roleIDs\<rparr>))"

definition assignInvitationRoles :: "uuid \<Rightarrow> uuid \<Rightarrow> uuid list \<Rightarrow> unit dsql" where
  "assignInvitationRoles orgID invitationID roleIDs =
     bindp (query (ownedRoleIDs orgID roleIDs)) (\<lambda>unique.
     if unique = [] then ok () else insert_invitation_roles invitationID unique)"

definition PgInviteMember ::
    "Call \<Rightarrow> uuid \<Rightarrow> string \<Rightarrow> string \<Rightarrow> uuid list \<Rightarrow> uuid \<Rightarrow> time \<Rightarrow> time \<Rightarrow> InvitationView dprog" where
  "PgInviteMember c orgID email tokenHash roleIDs invitedBy expiresAt at =
     (let row = \<lparr>inv_ID = c_newID c DrawInvitation, inv_CreatedAt = (if at \<noteq> zero_time then at else c_now c ClockRow),
            inv_OrganizationID = orgID, inv_Email = email, inv_TokenHash = tokenHash,
            inv_InvitedBy = (if invitedBy = uuid_Nil then None else Some invitedBy), inv_ExpiresAt = expiresAt,
            inv_AcceptedAt = None\<rparr> in
      bindp (translate (translateOrgError ''invite member'') (withEntTx
        (bindp (query (\<lambda>s. if address_is_member orgID email s then Inl (Raised (OrgsErr ErrAlreadyMember)) else Inr ())) (\<lambda>_.
         bindp (attempt (insert_invitation row) (\<lambda>r. case r of
             Inl e \<Rightarrow> if isUniqueViolation e then refuse (Raised (OrgsErr ErrAlreadyMember)) else refuse e
           | Inr _ \<Rightarrow> ok ())) (\<lambda>_.
         bindp (assignInvitationRoles orgID (inv_ID row) roleIDs) (\<lambda>_.
         recordEnt c (no_entry\<lparr>ev_OrganizationID := Some orgID, ev_Action := ActionMemberInvited, ev_Detail := email\<rparr>))))))) (\<lambda>_.
      query (read_invitation (inv_ID row))))"

section \<open>Answering an invitation\<close>

text \<open>The open row, locked.\<close>

definition open_invitation :: "(Invitation \<Rightarrow> bool) \<Rightarrow> Invitation dsql" where
  "open_invitation P = query (\<lambda>s. only_row (filter (\<lambda>i. P i \<and> inv_AcceptedAt i = None) (db_invitations s)))"

definition update_invitation :: "uuid \<Rightarrow> (Invitation \<Rightarrow> Invitation) \<Rightarrow> unit dsql" where
  "update_invitation invitationID f s =
     (let P = (\<lambda>i. inv_ID i = invitationID) in
      if affected P (db_invitations s) = 0 then refuse RowNotFound s
      else ok () (s\<lparr>db_invitations := set_where P f (db_invitations s)\<rparr>))"

definition PgAcceptInvitation :: "Call \<Rightarrow> uuid \<Rightarrow> uuid \<Rightarrow> time \<Rightarrow> unit dprog" where
  "PgAcceptInvitation c invitationID userID at =
     translate (translateOrgError ''accept invitation'') (withEntTx
       (bindp (open_invitation (\<lambda>i. inv_ID i = invitationID)) (\<lambda>inv.
        bindp (query (\<lambda>s. if affected (\<lambda>o'. org_ID o' = inv_OrganizationID inv) (live_orgs s) = 0
             then Inl (Raised orgs_not_found) else Inr ())) (\<lambda>_.
        bindp (query (\<lambda>s. Inr (map snd (filter (\<lambda>(k, _). k = invitationID) (db_invitationRoles s))))) (\<lambda>roleIDs.
        bindp (attempt (insert_membership c (MembershipActivate at
               \<lparr>ms_ID = uuid_Nil, ms_UserID = userID, ms_OrganizationID = inv_OrganizationID inv, ms_Status = MembershipOther [],
                ms_InvitedBy = inv_InvitedBy inv, ms_JoinedAt = None\<rparr>)) (\<lambda>r. case r of
             Inl e \<Rightarrow> if isUniqueViolation e then refuse (Raised (OrgsErr ErrAlreadyMember)) else refuse e
           | Inr row \<Rightarrow> ok row)) (\<lambda>created.
        bindp (assignMembershipRoles (inv_OrganizationID inv) (ms_ID created) roleIDs) (\<lambda>_.
        bindp (update_invitation (inv_ID inv) (\<lambda>i. i\<lparr>inv_AcceptedAt := Some at\<rparr>)) (\<lambda>_.
        recordEnt c (no_entry\<lparr>ev_OrganizationID := Some (inv_OrganizationID inv), ev_SubjectID := Some userID,
          ev_Action := ActionMemberAccepted\<rparr>)))))))))"

text \<open>Deleting an invitation takes its roles along.\<close>

definition delete_invitation :: "uuid \<Rightarrow> unit dsql" where
  "delete_invitation invitationID s =
     (if affected (\<lambda>i. inv_ID i = invitationID) (db_invitations s) = 0 then refuse RowNotFound s
      else ok () (s\<lparr>db_invitations := filter (\<lambda>i. inv_ID i \<noteq> invitationID) (db_invitations s),
             db_invitationRoles := filter (\<lambda>(k, _). k \<noteq> invitationID) (db_invitationRoles s)\<rparr>))"

definition PgDeclineInvitation :: "Call \<Rightarrow> uuid \<Rightarrow> unit dprog" where
  "PgDeclineInvitation c invitationID =
     translate (translateOrgError ''decline invitation'') (withEntTx
       (bindp (open_invitation (\<lambda>i. inv_ID i = invitationID)) (\<lambda>inv.
        bindp (recordEnt c (no_entry\<lparr>ev_OrganizationID := Some (inv_OrganizationID inv),
          ev_Action := ActionMemberInvitationDeclined, ev_Detail := inv_Email inv\<rparr>)) (\<lambda>_.
        delete_invitation (inv_ID inv)))))"

definition PgWithdrawInvitation :: "Call \<Rightarrow> uuid \<Rightarrow> uuid \<Rightarrow> unit dprog" where
  "PgWithdrawInvitation c orgID invitationID =
     translate (translateOrgError ''withdraw invitation'') (withEntTx
       (bindp (open_invitation (\<lambda>i. inv_ID i = invitationID \<and> inv_OrganizationID i = orgID)) (\<lambda>inv.
        bindp (recordEnt c (no_entry\<lparr>ev_OrganizationID := Some orgID,
          ev_Action := ActionMemberInvitationWithdrawn, ev_Detail := inv_Email inv\<rparr>)) (\<lambda>_.
        delete_invitation (inv_ID inv)))))"

text \<open>A new hash that another invitation has already violates the index.\<close>

definition renew_invitation :: "uuid \<Rightarrow> string \<Rightarrow> time \<Rightarrow> unit dsql" where
  "renew_invitation invitationID tokenHash expiresAt s =
     (if \<not> field_ok 64 tokenHash then refuse (FieldInvalid ''token_hash'') s
      else if \<exists>i \<in> set (db_invitations s). inv_ID i \<noteq> invitationID \<and> inv_TokenHash i = tokenHash
      then refuse (PgError pgUniqueViolation) s
      else update_invitation invitationID (\<lambda>i. i\<lparr>inv_TokenHash := tokenHash, inv_ExpiresAt := expiresAt\<rparr>) s)"

definition PgReissueInvitation :: "Call \<Rightarrow> uuid \<Rightarrow> uuid \<Rightarrow> string \<Rightarrow> time \<Rightarrow> InvitationView dprog" where
  "PgReissueInvitation c orgID invitationID tokenHash expiresAt =
     bindp (translate (translateOrgError ''reissue invitation'') (withEntTx
       (bindp (open_invitation (\<lambda>i. inv_ID i = invitationID \<and> inv_OrganizationID i = orgID)) (\<lambda>inv.
        bindp (renew_invitation (inv_ID inv) tokenHash expiresAt) (\<lambda>_.
        recordEnt c (no_entry\<lparr>ev_OrganizationID := Some orgID, ev_Action := ActionMemberInvited,
          ev_Detail := inv_Email inv\<rparr>)))))) (\<lambda>_.
     query (read_invitation invitationID))"

section \<open>The audit trail\<close>

text \<open>Three \<open>LEFT JOIN\<close>s, to accounts of any kind and to the roles that still exist.\<close>

definition joined_party :: "PgTables \<Rightarrow> uuid \<Rightarrow> Party" where
  "joined_party s k =
     (case List.find (\<lambda>u. u_ID u = k) (db_users s) of
        None \<Rightarrow> \<lparr>pt_ID = k, pt_Name = [], pt_Email = []\<rparr>
      | Some u \<Rightarrow> \<lparr>pt_ID = k, pt_Name = u_Name u, pt_Email = u_Email u\<rparr>)"

definition toEvent :: "PgTables \<Rightarrow> AuthzEvent \<Rightarrow> AuditEvent" where
  "toEvent s row =
     \<lparr>ae_ID = ev_ID row, ae_At = ev_CreatedAt row, ae_OrganizationID = ev_OrganizationID row, ae_Action = ev_Action row,
      ae_Actor = joined_party s (ev_ActorID row), ae_Subject = map_option (joined_party s) (ev_SubjectID row),
      ae_RoleID = ev_RoleID row,
      ae_RoleKey = (case ev_RoleID row of None \<Rightarrow> [] | Some k \<Rightarrow>
        (case List.find (\<lambda>r. r_ID r = k) (db_roles s) of None \<Rightarrow> [] | Some r \<Rightarrow> r_Key r)),
      ae_Detail = ev_Detail row, ae_IP = ev_IP row, ae_UserAgent = ev_UserAgent row\<rparr>"

text \<open>\<open>make\<close> with the limit as the capacity panics on a negative one, but the statement has failed by then.\<close>

definition read_events :: "(AuthzEvent \<Rightarrow> bool) \<Rightarrow> int \<Rightarrow> int \<Rightarrow> PgTables \<Rightarrow> err + AuditEvent list" where
  "read_events P limit offset s =
     (case sql_page limit offset (rev (sort_key (\<lambda>e. (ev_CreatedAt e, ev_ID e)) (filter P (db_events s)))) of
        Inl e \<Rightarrow> Inl (wrapped ''audit events'' e)
      | Inr rows \<Rightarrow> Inr (map (toEvent s) rows))"

definition PgEvents :: "uuid \<Rightarrow> int \<Rightarrow> int \<Rightarrow> PgTables \<Rightarrow> err + AuditEvent list" where
  "PgEvents orgID = read_events (\<lambda>e. ev_OrganizationID e = Some orgID)"

definition PgAllEvents :: "int \<Rightarrow> int \<Rightarrow> PgTables \<Rightarrow> err + AuditEvent list" where
  "PgAllEvents = read_events (\<lambda>_. True)"

section \<open>What an account may do\<close>

text \<open>\<open>LEFT JOIN\<close>: a row without a partner is kept, with \<open>NULL\<close>.\<close>

definition left_join :: "'b list \<Rightarrow> 'b option list" where
  "left_join rows = (if rows = [] then [None] else map Some rows)"

definition roles_of :: "PgTables \<Rightarrow> uuid \<Rightarrow> uuid list" where
  "roles_of s memberID = map snd (filter (\<lambda>(k, roleID). k = memberID \<and> role_row_exists roleID s) (db_membershipRoles s))"

definition keys_of :: "PgTables \<Rightarrow> uuid \<Rightarrow> string list" where
  "keys_of s roleID = map snd (filter (\<lambda>(k, _). k = roleID) (db_rolePermissions s))"

definition active_rows :: "PgTables \<Rightarrow> uuid \<Rightarrow> Membership list" where
  "active_rows s userID =
     filter (\<lambda>ms. ms_UserID ms = userID \<and> ms_Status ms = MembershipActive \<and> liveUser s ms \<and>
       (\<exists>o' \<in> set (live_orgs s). org_ID o' = ms_OrganizationID ms)) (db_memberships s)"

definition permission_rows :: "PgTables \<Rightarrow> Membership \<Rightarrow> string option list" where
  "permission_rows s ms =
     concat (map (\<lambda>r. case r of None \<Rightarrow> [None] | Some roleID \<Rightarrow> left_join (keys_of s roleID)) (left_join (roles_of s (ms_ID ms))))"

text \<open>No row at all means no active membership; a row without a key is a member who holds nothing.\<close>

definition PgOrganizationPermissionKeys :: "uuid \<Rightarrow> uuid \<Rightarrow> PgTables \<Rightarrow> err + string list" where
  "PgOrganizationPermissionKeys userID orgID s =
     (let rows = keep_first [] (concat (map (permission_rows s)
            (filter (\<lambda>ms. ms_OrganizationID ms = orgID) (active_rows s userID)))) in
      if rows = [] then Inl (AuthzErr ErrNotMember) else Inr (List.map_filter id rows))"

text \<open>The inner joins of the snapshot's query, distinct, folded into a map.\<close>

fun fold_keys :: "(uuid, string list) amap \<Rightarrow> (uuid \<times> string) list \<Rightarrow> (uuid, string list) amap" where
  "fold_keys out [] = out"
| "fold_keys out ((orgID, key) # rows) = fold_keys (AList.update orgID (alist_at out orgID @ [key]) out) rows"

definition PgPermissionKeysByOrganization :: "uuid \<Rightarrow> PgTables \<Rightarrow> err + (uuid, string list) amap" where
  "PgPermissionKeysByOrganization userID s =
     Inr (fold_keys [] (keep_first [] (concat (map (\<lambda>ms.
       concat (map (\<lambda>roleID. map (Pair (ms_OrganizationID ms)) (keys_of s roleID)) (roles_of s (ms_ID ms))))
       (active_rows s userID)))))"

definition PgSystemRoleKeys :: "uuid \<Rightarrow> PgTables \<Rightarrow> err + string list" where
  "PgSystemRoleKeys userID s =
     Inr (map usr_RoleKey (filter (\<lambda>r. usr_UserID r = userID \<and>
       (\<exists>u \<in> set (db_users s). u_ID u = userID \<and> \<not> UserIsDeleted u)) (db_systemRoles s)))"

section \<open>The repositories\<close>

definition pg_authz_repo :: "PgTables authz_repo" where
  "pg_authz_repo =
     \<lparr>ar_OrganizationPermissionKeys = PgOrganizationPermissionKeys,
      ar_PermissionKeysByOrganization = PgPermissionKeysByOrganization, ar_SystemRoleKeys = PgSystemRoleKeys\<rparr>"

definition pg_repository :: "PgTables Repository" where
  "pg_repository =
     \<lparr>or_Organization = PgOrganization, or_UpdateOrganization = PgUpdateOrganization,
      or_DeleteOrganization = PgDeleteOrganization, or_Members = PgMembers, or_Member = PgMember,
      or_MemberByUser = PgMemberByUser, or_MemberPermissions = PgMemberPermissions, or_AddMember = PgAddMember,
      or_SetMemberStatus = PgSetMemberStatus, or_RemoveMember = PgRemoveMember,
      or_ReplaceMemberRoles = PgReplaceMemberRoles, or_Roles = PgRoles, or_Role = PgRole, or_RoleByKey = PgRoleByKey,
      or_CreateRole = PgCreateRole, or_UpdateRole = PgUpdateRole, or_DeleteRole = PgDeleteRole,
      or_ReplaceRolePermissions = PgReplaceRolePermissions, or_InviteMember = PgInviteMember,
      or_InvitationsForOrganization = PgInvitationsForOrganization, or_ReissueInvitation = PgReissueInvitation,
      or_WithdrawInvitation = PgWithdrawInvitation\<rparr>"

definition pg_directory :: "PgTables Directory" where
  "pg_directory =
     \<lparr>od_MembershipsForUser = PgMembershipsForUser, od_InvitationByToken = PgInvitationByToken,
      od_AcceptInvitation = PgAcceptInvitation, od_DeclineInvitation = PgDeclineInvitation,
      od_InvitationsForEmail = PgInvitationsForEmail\<rparr>"

definition pg_provisioner :: "PgTables Provisioner" where
  "pg_provisioner =
     \<lparr>op_OrganizationBySlug = PgOrganizationBySlug, op_CreateOrganization = PgCreateOrganization,
      op_AllOrganizations = PgAllOrganizations, op_GrantSystemRole = PgGrantSystemRole,
      op_RevokeSystemRole = PgRevokeSystemRole, op_SystemRoleHolders = PgSystemRoleHolders\<rparr>"

definition pg_orgs :: "PgTables OrgsService" where
  "pg_orgs = \<lparr>sv_repo = pg_repository, sv_dir = pg_directory, sv_provisioner = pg_provisioner\<rparr>"

end
