(* ===== verification/Pg_Wf.thy ===== *)
theory Pg_Wf
  imports Pg_Invitations
begin

text \<open>
  The tables of the organization repository under its statements: keys stay unique, references resolved, and a role is
  only ever assigned or offered within its organization. A transaction that fails leaves nothing, so it is enough to
  follow the runs that go through: a small logic of such runs, a rule per statement, and the repository's methods from it.
\<close>

section \<open>Runs that go through\<close>

text \<open>If \<open>P\<close> holds before and the program returns \<open>x\<close>, then \<open>Q x\<close> holds after.\<close>

definition hoare :: "('s \<Rightarrow> bool) \<Rightarrow> ('s, 'e, 'a) prog \<Rightarrow> ('a \<Rightarrow> 's \<Rightarrow> bool) \<Rightarrow> bool" where
  "hoare P p Q \<longleftrightarrow> (\<forall>s x s'. P s \<longrightarrow> p s = (Inr x, s') \<longrightarrow> Q x s')"

named_theorems hoare_rules \<open>rules for programs that return\<close>

lemma hoareI: "(\<And>s x s'. P s \<Longrightarrow> p s = (Inr x, s') \<Longrightarrow> Q x s') \<Longrightarrow> hoare P p Q"
  by (simp add: hoare_def)

lemma hoareD: "hoare P p Q \<Longrightarrow> P s \<Longrightarrow> p s = (Inr x, s') \<Longrightarrow> Q x s'"
  by (simp add: hoare_def)

lemma hoare_weaken: "hoare P' p Q' \<Longrightarrow> (\<And>s. P s \<Longrightarrow> P' s) \<Longrightarrow> (\<And>x s. Q' x s \<Longrightarrow> Q x s) \<Longrightarrow> hoare P p Q"
  unfolding hoare_def by blast

lemma hoare_post: "hoare P p Q' \<Longrightarrow> (\<And>x s. Q' x s \<Longrightarrow> Q x s) \<Longrightarrow> hoare P p Q"
  unfolding hoare_def by blast

lemma hoare_bindp: "hoare P p R \<Longrightarrow> (\<And>x. hoare (R x) (f x) Q) \<Longrightarrow> hoare P (bindp p f) Q"
  unfolding hoare_def by (auto simp: bindp_Inr)

lemma hoare_keep_bindp [hoare_rules]: "hoare P p (\<lambda>_. P) \<Longrightarrow> (\<And>x. hoare P (f x) Q) \<Longrightarrow> hoare P (bindp p f) Q"
  by (rule hoare_bindp)

lemma hoare_ok [hoare_rules]: "(\<And>s. P s \<Longrightarrow> Q x s) \<Longrightarrow> hoare P (ok x) Q"
  by (simp add: hoare_def ok_def)

lemma hoare_refuse [hoare_rules]: "hoare P (refuse e) Q"
  by (simp add: hoare_def refuse_def)

lemma hoare_query [hoare_rules]: "(\<And>s x. P s \<Longrightarrow> g s = Inr x \<Longrightarrow> Q x s) \<Longrightarrow> hoare P (query g) Q"
  by (simp add: hoare_def query_def)

lemma hoare_raised [hoare_rules]: "(\<And>s x. P s \<Longrightarrow> r = Inr x \<Longrightarrow> Q x s) \<Longrightarrow> hoare P (raised r) Q"
  by (auto simp: hoare_def raised_def ok_def refuse_def split: sum.splits)

lemma hoare_if [hoare_rules]: "(b \<Longrightarrow> hoare P p Q) \<Longrightarrow> (\<not> b \<Longrightarrow> hoare P q Q) \<Longrightarrow> hoare P (if b then p else q) Q"
  by simp

text \<open>An attempt whose handler passes an error on under another name.\<close>

lemma hoare_attempt:
  assumes "hoare P p R" "\<And>x. hoare (R x) (f (Inr x)) Q" "\<And>e s y t. f (Inl e) s \<noteq> (Inr y, t)"
  shows "hoare P (attempt p f) Q"
  unfolding hoare_def
proof (intro allI impI)
  fix s y t assume P: "P s" and run: "attempt p f s = (Inr y, t)"
  then obtain q s' where q: "p s = (q, s')" "f q s' = (Inr y, t)" by (auto simp: attempt_eq)
  then obtain x where "q = Inr x" using assms(3) by (cases q) auto
  then show "Q y t" using q P assms(1,2) unfolding hoare_def by blast
qed

lemma tx_keeps: "hoare P p (\<lambda>_. P) \<Longrightarrow> keeps P (translate f (withEntTx p))"
  by (auto simp: keeps_def hoare_def translate_run withEntTx_def split: prod.split sum.split)

lemma tx_cases:
  assumes "P s" "\<And>x s'. p s = (Inr x, s') \<Longrightarrow> P s'"
  shows "P (snd (translate f (withEntTx p) s))"
  using assms by (auto simp: translate_run withEntTx_def split: prod.split sum.split)

lemma keeps_then_query [keeps_intros]: "keeps P p \<Longrightarrow> keeps P (bindp p (\<lambda>x. query (g x)))"
  by (intro keeps_intros)

section \<open>The invariant\<close>

text \<open>What the invariant reads of a table: the columns of its keys and references.\<close>

definition member_keys :: "PgTables \<Rightarrow> (uuid \<times> uuid \<times> uuid) list" where
  "member_keys s = map (\<lambda>ms. (ms_ID ms, ms_UserID ms, ms_OrganizationID ms)) (db_memberships s)"

definition role_columns :: "PgTables \<Rightarrow> (uuid \<times> uuid \<times> string) list" where
  "role_columns s = map (\<lambda>r. (r_ID r, r_OrganizationID r, r_Key r)) (db_roles s)"

definition invite_keys :: "PgTables \<Rightarrow> (uuid \<times> uuid) list" where
  "invite_keys s = map (\<lambda>i. (inv_ID i, inv_OrganizationID i)) (db_invitations s)"

definition members_ok :: "uuid list \<Rightarrow> uuid list \<Rightarrow> (uuid \<times> uuid \<times> uuid) list \<Rightarrow> bool" where
  "members_ok us os ms \<longleftrightarrow> distinct us \<and> distinct os \<and> distinct (map fst ms) \<and> distinct (map snd ms) \<and>
     (\<forall>(_, u, org) \<in> set ms. u \<in> set us \<and> org \<in> set os)"

definition roles_ok :: "(uuid \<times> uuid \<times> string) list \<Rightarrow> (uuid \<times> string) list \<Rightarrow> bool" where
  "roles_ok rs ps \<longleftrightarrow> distinct (map fst rs) \<and> distinct (map snd rs) \<and> distinct ps \<and> fst ` set ps \<subseteq> fst ` set rs"

text \<open>An assignment joins a membership and a role that exist, of one organization.\<close>

definition assigned_ok :: "(uuid \<times> uuid \<times> uuid) list \<Rightarrow> (uuid \<times> uuid \<times> string) list \<Rightarrow> (uuid \<times> uuid) list \<Rightarrow> bool" where
  "assigned_ok ms rs as \<longleftrightarrow> distinct as \<and>
     (\<forall>(m, r) \<in> set as. \<exists>u org key. (m, u, org) \<in> set ms \<and> (r, org, key) \<in> set rs)"

definition offered_ok :: "(uuid \<times> uuid) list \<Rightarrow> (uuid \<times> uuid \<times> string) list \<Rightarrow> (uuid \<times> uuid) list \<Rightarrow> bool" where
  "offered_ok is rs as \<longleftrightarrow> distinct (map fst is) \<and> distinct as \<and>
     (\<forall>(i, r) \<in> set as. \<exists>org key. (i, org) \<in> set is \<and> (r, org, key) \<in> set rs)"

definition db_wf :: "PgTables \<Rightarrow> bool" where
  "db_wf s \<longleftrightarrow>
     members_ok (map u_ID (db_users s)) (map org_ID (db_orgs s)) (member_keys s) \<and>
     roles_ok (role_columns s) (db_rolePermissions s) \<and>
     assigned_ok (member_keys s) (role_columns s) (db_membershipRoles s) \<and>
     offered_ok (invite_keys s) (role_columns s) (db_invitationRoles s)"

lemmas key_lists = member_keys_def role_columns_def invite_keys_def
lemmas parts_ok = members_ok_def roles_ok_def assigned_ok_def offered_ok_def

lemma db_wf_new: "db_wf NewPgTables"
  by (simp add: db_wf_def parts_ok key_lists NewPgTables_def NewPgUsers_def db_users_def)

section \<open>The parts under inserts and deletes\<close>

lemma distinct_filter_map: "distinct (map f xs) \<Longrightarrow> distinct (map f (filter P xs))"
  by (induction xs) auto

lemma members_ok_add_org: "members_ok us os ms \<Longrightarrow> k \<notin> set os \<Longrightarrow> members_ok us (os @ [k]) ms"
  by (auto simp: members_ok_def)

lemma members_ok_add:
  "members_ok us os ms \<Longrightarrow> k \<notin> fst ` set ms \<Longrightarrow> (u, org) \<notin> snd ` set ms \<Longrightarrow> u \<in> set us \<Longrightarrow> org \<in> set os \<Longrightarrow>
     members_ok us os (ms @ [(k, u, org)])"
  by (auto simp: members_ok_def)

lemma members_ok_filter: "members_ok us os ms \<Longrightarrow> members_ok us os (filter P ms)"
  by (auto simp: members_ok_def distinct_filter_map)

lemma roles_ok_add:
  "roles_ok rs ps \<Longrightarrow> k \<notin> fst ` set rs \<Longrightarrow> (org, key) \<notin> snd ` set rs \<Longrightarrow> roles_ok (rs @ [(k, org, key)]) ps"
  by (auto simp: roles_ok_def)

lemma roles_ok_add_permissions:
  "roles_ok rs ps \<Longrightarrow> distinct keys \<Longrightarrow> (\<And>key. key \<in> set keys \<Longrightarrow> (k, key) \<notin> set ps) \<Longrightarrow> k \<in> fst ` set rs \<Longrightarrow>
     roles_ok rs (ps @ map (Pair k) keys)"
  by (auto simp: roles_ok_def distinct_map inj_on_def image_Un image_image)

lemma roles_ok_filter_permissions: "roles_ok rs ps \<Longrightarrow> roles_ok rs (filter P ps)"
  by (auto simp: roles_ok_def)

lemma roles_ok_delete: "roles_ok rs ps \<Longrightarrow> roles_ok (filter (\<lambda>r. fst r \<noteq> k) rs) (filter (\<lambda>(j, _). j \<noteq> k) ps)"
  by (auto simp: roles_ok_def distinct_filter_map image_iff) force

lemma assigned_ok_more_members: "assigned_ok ms rs as \<Longrightarrow> assigned_ok (ms @ ms') rs as"
  by (fastforce simp: assigned_ok_def)

lemma assigned_ok_more_roles: "assigned_ok ms rs as \<Longrightarrow> assigned_ok ms (rs @ rs') as"
  by (fastforce simp: assigned_ok_def)

lemma assigned_ok_add:
  "assigned_ok ms rs as \<Longrightarrow> distinct roleIDs \<Longrightarrow> (\<And>r. r \<in> set roleIDs \<Longrightarrow> (m, r) \<notin> set as) \<Longrightarrow> (m, u, org) \<in> set ms \<Longrightarrow>
     (\<And>r. r \<in> set roleIDs \<Longrightarrow> \<exists>key. (r, org, key) \<in> set rs) \<Longrightarrow> assigned_ok ms rs (as @ map (Pair m) roleIDs)"
  by (fastforce simp: assigned_ok_def distinct_map inj_on_def)

lemma assigned_ok_filter: "assigned_ok ms rs as \<Longrightarrow> assigned_ok ms rs (filter P as)"
  by (auto simp: assigned_ok_def)

lemma assigned_ok_delete_member:
  "assigned_ok ms rs as \<Longrightarrow> assigned_ok (filter (\<lambda>m. fst m \<noteq> k) ms) rs (filter (\<lambda>(m, _). m \<noteq> k) as)"
  by (fastforce simp: assigned_ok_def)

lemma assigned_ok_delete_role:
  "assigned_ok ms rs as \<Longrightarrow> assigned_ok ms (filter (\<lambda>r. fst r \<noteq> k) rs) (filter (\<lambda>(_, r). r \<noteq> k) as)"
  by (fastforce simp: assigned_ok_def)

lemma offered_ok_add_invitation: "offered_ok is rs as \<Longrightarrow> i \<notin> fst ` set is \<Longrightarrow> offered_ok (is @ [(i, org)]) rs as"
  by (fastforce simp: offered_ok_def)

lemma offered_ok_more_roles: "offered_ok is rs as \<Longrightarrow> offered_ok is (rs @ rs') as"
  by (fastforce simp: offered_ok_def)

lemma offered_ok_add:
  "offered_ok is rs as \<Longrightarrow> distinct roleIDs \<Longrightarrow> (\<And>r. r \<in> set roleIDs \<Longrightarrow> (i, r) \<notin> set as) \<Longrightarrow> (i, org) \<in> set is \<Longrightarrow>
     (\<And>r. r \<in> set roleIDs \<Longrightarrow> \<exists>key. (r, org, key) \<in> set rs) \<Longrightarrow> offered_ok is rs (as @ map (Pair i) roleIDs)"
  by (fastforce simp: offered_ok_def distinct_map inj_on_def)

lemma offered_ok_delete_role:
  "offered_ok is rs as \<Longrightarrow> offered_ok is (filter (\<lambda>r. fst r \<noteq> k) rs) (filter (\<lambda>(_, r). r \<noteq> k) as)"
  by (fastforce simp: offered_ok_def)

lemma offered_ok_delete_invitation:
  "offered_ok is rs as \<Longrightarrow> offered_ok (filter (\<lambda>i. fst i \<noteq> k) is) rs (filter (\<lambda>(i, _). i \<noteq> k) as)"
  by (fastforce simp: offered_ok_def distinct_filter_map)

section \<open>Statements\<close>

text \<open>What a change of some rows leaves alone.\<close>

lemma map_set_where: "(\<And>r. key (f r) = key r) \<Longrightarrow> map key (set_where P f rows) = map key rows"
  by (simp add: set_where_def)

lemma org_key: "org_row_exists k s \<longleftrightarrow> k \<in> set (map org_ID (db_orgs s))"
  by (auto simp: org_row_exists_def)

lemma user_key: "user_row_exists k (db_accounts s) \<longleftrightarrow> k \<in> set (map u_ID (db_users s))"
  by (auto simp: user_row_exists_def db_users_def)

lemma role_key: "role_row_exists k s \<longleftrightarrow> k \<in> fst ` set (role_columns s)"
  by (force simp: role_row_exists_def role_columns_def)

lemma recordEnt_events: "recordEnt c event s = (Inr x, s') \<Longrightarrow> \<exists>es. s' = s\<lparr>db_events := db_events s @ es\<rparr> \<and> length es \<le> 1"
  by (auto simp: recordEnt_def Let_def ok_def refuse_def split: if_splits sum.splits intro: exI[of _ "[]"])

lemma recordAboutMemberEnt_events:
  "recordAboutMemberEnt c orgID memberID event s = (Inr x, s') \<Longrightarrow> \<exists>es. s' = s\<lparr>db_events := db_events s @ es\<rparr> \<and> length es \<le> 1"
  using recordEnt_events by (auto simp: recordAboutMemberEnt_def prog_simps split: if_splits intro: exI[of _ "[]"])

text \<open>Nothing else reads the trail.\<close>

definition trail_free :: "(PgTables \<Rightarrow> bool) \<Rightarrow> bool" where
  "trail_free P \<longleftrightarrow> (\<forall>s es. P (s\<lparr>db_events := es\<rparr>) = P s)"

lemma trail_free_wf [simp]: "trail_free db_wf"
  by (simp add: trail_free_def db_wf_def key_lists db_users_def)

lemma trail_free_conj [intro]: "trail_free P \<Longrightarrow> trail_free Q \<Longrightarrow> trail_free (\<lambda>s. P s \<and> Q s)"
  by (simp add: trail_free_def)

lemma hoare_recordEnt [hoare_rules]: "trail_free P \<Longrightarrow> hoare P (recordEnt c event) (\<lambda>_. P)"
  by (intro hoareI) (auto simp: trail_free_def dest!: recordEnt_events)

lemma hoare_recordAboutMemberEnt [hoare_rules]:
  "trail_free P \<Longrightarrow> hoare P (recordAboutMemberEnt c orgID memberID event) (\<lambda>_. P)"
  by (intro hoareI) (auto simp: trail_free_def dest!: recordAboutMemberEnt_events)

lemma hoare_name_rules [hoare_rules]: "hoare P (name_rules what name) (\<lambda>_. P)"
  unfolding name_rules_def by (intro hoare_rules)

lemma hoare_update_live_org [hoare_rules]:
  "(\<And>o'. org_ID (f o') = org_ID o') \<Longrightarrow> hoare db_wf (update_live_org orgID f) (\<lambda>_. db_wf)"
  by (intro hoareI) (auto simp: update_live_org_def Let_def ok_def db_wf_def key_lists db_users_def map_set_where)

lemma hoare_lockOrganization [hoare_rules]: "hoare P (lockOrganization orgID) (\<lambda>_. P)"
  unfolding lockOrganization_def by (intro hoare_rules)

lemma hoare_applyOwnerGuard [hoare_rules]: "hoare P (applyOwnerGuard orgID memberID guard) (\<lambda>_. P)"
  unfolding applyOwnerGuard_def by (intro hoare_rules)

lemma hoare_update_status [hoare_rules]: "hoare db_wf (update_status orgID memberID status at) (\<lambda>_. db_wf)"
  by (intro hoareI)
    (auto simp: update_status_def Let_def ok_def refuse_def db_wf_def key_lists db_users_def map_set_where split: if_splits)

lemma filter_keys: "filter P (map key rows) = map key (filter (\<lambda>r. P (key r)) rows)"
  by (simp add: filter_map comp_def)

lemma hoare_delete_membership [hoare_rules]: "hoare db_wf (delete_membership orgID memberID) (\<lambda>_. db_wf)"
proof (intro hoareI)
  fix s n s' assume wf: "db_wf s" and run: "delete_membership orgID memberID s = (Inr n, s')"
  show "db_wf s'"
  proof (cases "affected (\<lambda>ms. ms_ID ms = memberID \<and> ms_OrganizationID ms = orgID) (db_memberships s) = 0")
    case False
    have dist: "distinct (map ms_ID (db_memberships s))"
      using wf by (simp add: db_wf_def members_ok_def member_keys_def comp_def)
    obtain ms where ms: "ms \<in> set (db_memberships s)" "ms_ID ms = memberID" "ms_OrganizationID ms = orgID"
      using False by (auto simp: affected_def filter_empty_conv)
    have "filter (\<lambda>x. \<not> (ms_ID x = memberID \<and> ms_OrganizationID x = orgID)) (db_memberships s) =
      filter (\<lambda>x. ms_ID x \<noteq> memberID) (db_memberships s)"
      using ms dist by (intro filter_cong refl) (auto simp: distinct_map inj_on_def)
    then have "member_keys s' = filter (\<lambda>m. fst m \<noteq> memberID) (member_keys s)"
      using run False by (auto simp: delete_membership_def Let_def ok_def member_keys_def filter_keys)
    then show ?thesis
      using wf run False members_ok_filter assigned_ok_delete_member[of "member_keys s" "role_columns s" "db_membershipRoles s" memberID]
      by (auto simp: delete_membership_def Let_def ok_def db_wf_def role_columns_def invite_keys_def db_users_def)
  qed (use wf run in \<open>simp add: delete_membership_def Let_def ok_def\<close>)
qed

lemma hoare_delete_assignments [hoare_rules]: "hoare db_wf (delete_assignments memberID) (\<lambda>_. db_wf)"
  by (intro hoareI)
    (auto simp: delete_assignments_def ok_def db_wf_def key_lists db_users_def intro: assigned_ok_filter)

text \<open>The counted identifiers are roles of the organization.\<close>

lemma ownedRoleIDs_ok:
  assumes "db_wf s" "ownedRoleIDs orgID roleIDs s = Inr ids"
  shows "distinct ids" "set ids = set roleIDs" "\<And>k. k \<in> set roleIDs \<Longrightarrow> \<exists>r \<in> set (db_roles s). r_ID r = k \<and> r_OrganizationID r = orgID"
proof -
  let ?unique = "keep_first [] roleIDs"
  let ?owned = "filter (\<lambda>r. r_OrganizationID r = orgID \<and> r_ID r \<in> set roleIDs) (db_roles s)"
  have set: "set ?unique = set roleIDs" by simp
  have "ids = ?unique" using assms(2) by (simp add: ownedRoleIDs_def Let_def split: if_splits)
  then show ids: "distinct ids" "set ids = set roleIDs" using set by simp_all
  fix k assume k: "k \<in> set roleIDs"
  then have "?unique \<noteq> []" by (metis set_keep_first empty_iff empty_set Un_iff)
  then have len: "length (map r_ID ?owned) = length ?unique"
    using assms(2) by (simp add: ownedRoleIDs_def Let_def split: if_splits)
  have "distinct (map r_ID ?owned)"
    using assms(1) by (intro distinct_filter_map) (simp add: db_wf_def roles_ok_def role_columns_def comp_def)
  then have "card (set (map r_ID ?owned)) = card (set ?unique)"
    using len distinct_card[of "map r_ID ?owned"] distinct_card[of ?unique] by simp
  moreover have "set (map r_ID ?owned) \<subseteq> set ?unique" by auto
  ultimately have "set (map r_ID ?owned) = set ?unique" by (meson card_subset_eq List.finite_set)
  then have "k \<in> set (map r_ID ?owned)" using k by simp
  then show "\<exists>r \<in> set (db_roles s). r_ID r = k \<and> r_OrganizationID r = orgID" by auto
qed

text \<open>A row of the membership table with a given key, which assigning needs.\<close>

definition member_in :: "uuid \<Rightarrow> uuid \<Rightarrow> PgTables \<Rightarrow> bool" where
  "member_in orgID memberID s \<longleftrightarrow> (\<exists>ms \<in> set (db_memberships s). ms_ID ms = memberID \<and> ms_OrganizationID ms = orgID)"

lemma trail_free_member_in [simp]: "trail_free (member_in orgID memberID)"
  by (simp add: trail_free_def member_in_def)

lemma assignMembershipRoles_run:
  assumes "db_wf s" "assignMembershipRoles orgID memberID roleIDs s = (Inr x, s')"
  shows "\<exists>ids. set ids = set roleIDs \<and> distinct ids \<and> s' = s\<lparr>db_membershipRoles := db_membershipRoles s @ map (Pair memberID) ids\<rparr> \<and>
    (\<forall>k \<in> set ids. (memberID, k) \<notin> set (db_membershipRoles s) \<and> (\<exists>r \<in> set (db_roles s). r_ID r = k \<and> r_OrganizationID r = orgID))"
proof -
  obtain ids where owned: "ownedRoleIDs orgID roleIDs s = Inr ids"
    and run: "(if ids = [] then ok () else insert_membership_roles memberID ids) s = (Inr x, s')"
    using assms(2) by (auto simp: assignMembershipRoles_def bindp_Inr query_eq)
  note ids = ownedRoleIDs_ok[OF assms(1) owned]
  have "s' = s\<lparr>db_membershipRoles := db_membershipRoles s @ map (Pair memberID) ids\<rparr>"
    "\<forall>k \<in> set ids. (memberID, k) \<notin> set (db_membershipRoles s)"
    using run by (auto simp: insert_membership_roles_def ok_def refuse_def split: if_splits)
  then show ?thesis using ids by (intro exI[of _ ids]) auto
qed

lemma hoare_assignMembershipRoles [hoare_rules]:
  "hoare (\<lambda>s. db_wf s \<and> member_in orgID memberID s) (assignMembershipRoles orgID memberID roleIDs)
     (\<lambda>_ s. db_wf s \<and> member_in orgID memberID s)"
proof (intro hoareI)
  fix s x s' assume pre: "db_wf s \<and> member_in orgID memberID s"
    and run: "assignMembershipRoles orgID memberID roleIDs s = (Inr x, s')"
  from pre obtain u where u: "(memberID, u, orgID) \<in> set (member_keys s)"
    by (force simp: member_in_def member_keys_def)
  have cols: "\<exists>key. (k, orgID, key) \<in> set (role_columns s)"
    if "\<exists>r \<in> set (db_roles s). r_ID r = k \<and> r_OrganizationID r = orgID" for k
    using that by (auto simp: role_columns_def)
  from assignMembershipRoles_run[OF _ run] pre obtain ids where
    ids: "distinct ids" "s' = s\<lparr>db_membershipRoles := db_membershipRoles s @ map (Pair memberID) ids\<rparr>"
    "\<And>k. k \<in> set ids \<Longrightarrow> (memberID, k) \<notin> set (db_membershipRoles s)"
    "\<And>k. k \<in> set ids \<Longrightarrow> \<exists>r \<in> set (db_roles s). r_ID r = k \<and> r_OrganizationID r = orgID" by blast
  have "assigned_ok (member_keys s) (role_columns s) (db_membershipRoles s @ map (Pair memberID) ids)"
    using pre ids u cols by (intro assigned_ok_add) (auto simp: db_wf_def)
  then show "db_wf s' \<and> member_in orgID memberID s'"
    using pre ids(2) by (simp add: db_wf_def key_lists db_users_def member_in_def)
qed

lemma insert_membership_run:
  assumes "insert_membership c ms s = (Inr row, s')"
  shows "row = ms\<lparr>ms_ID := c_newID c DrawMembership\<rparr>" "s' = s\<lparr>db_memberships := db_memberships s @ [row]\<rparr>"
    "ms_ID row \<notin> set (map ms_ID (db_memberships s))"
    "(ms_UserID row, ms_OrganizationID row) \<notin> set (map (\<lambda>m. (ms_UserID m, ms_OrganizationID m)) (db_memberships s))"
    "user_row_exists (ms_UserID row) (db_accounts s)" "org_row_exists (ms_OrganizationID row) s"
  using assms by (auto simp: insert_membership_def Let_def ok_def refuse_def split: if_splits sum.splits)

lemma hoare_insert_membership [hoare_rules]:
  "hoare db_wf (insert_membership c ms) (\<lambda>row s. db_wf s \<and> member_in (ms_OrganizationID ms) (ms_ID row) s)"
proof (intro hoareI)
  fix s row s' assume wf: "db_wf s" and run: "insert_membership c ms s = (Inr row, s')"
  note ins = insert_membership_run[OF run]
  have "members_ok (map u_ID (db_users s)) (map org_ID (db_orgs s))
      (member_keys s @ [(ms_ID row, ms_UserID row, ms_OrganizationID row)])"
    using wf ins by (intro members_ok_add) (auto simp: db_wf_def user_key org_key member_keys_def image_image)
  then show "db_wf s' \<and> member_in (ms_OrganizationID ms) (ms_ID row) s'"
    using wf ins by (auto simp: db_wf_def key_lists db_users_def member_in_def intro: assigned_ok_more_members)
qed

text \<open>The statements on roles.\<close>

lemma insert_role_run:
  assumes "insert_role row s = (Inr x, s')"
  shows "s' = s\<lparr>db_roles := db_roles s @ [row]\<rparr>" "r_ID row \<notin> set (map r_ID (db_roles s))"
    "(r_OrganizationID row, r_Key row) \<notin> set (map (\<lambda>r. (r_OrganizationID r, r_Key r)) (db_roles s))"
  using assms by (auto simp: insert_role_def ok_def refuse_def split: if_splits sum.splits)

definition role_in :: "uuid \<Rightarrow> uuid \<Rightarrow> PgTables \<Rightarrow> bool" where
  "role_in orgID roleID s \<longleftrightarrow> (\<exists>r \<in> set (db_roles s). r_ID r = roleID \<and> r_OrganizationID r = orgID)"

lemma trail_free_role_in [simp]: "trail_free (role_in orgID roleID)"
  by (simp add: trail_free_def role_in_def)

lemma hoare_insert_role [hoare_rules]:
  "hoare db_wf (insert_role row) (\<lambda>_ s. db_wf s \<and> role_in (r_OrganizationID row) (r_ID row) s)"
proof (intro hoareI)
  fix s x s' assume wf: "db_wf s" and run: "insert_role row s = (Inr x, s')"
  note ins = insert_role_run[OF run]
  have "roles_ok (role_columns s @ [(r_ID row, r_OrganizationID row, r_Key row)]) (db_rolePermissions s)"
    using wf ins by (intro roles_ok_add) (auto simp: db_wf_def role_columns_def image_image)
  then show "db_wf s' \<and> role_in (r_OrganizationID row) (r_ID row) s'"
    using wf ins by (auto simp: db_wf_def key_lists db_users_def role_in_def intro: assigned_ok_more_roles offered_ok_more_roles)
qed

lemma insertRolePermissions_run:
  assumes "insertRolePermissions roleID keys s = (Inr x, s')"
  shows "s' = s\<lparr>db_rolePermissions := db_rolePermissions s @ map (Pair roleID) keys\<rparr>" "distinct keys"
    "\<forall>key \<in> set keys. (roleID, key) \<notin> set (db_rolePermissions s)" "keys \<noteq> [] \<Longrightarrow> role_row_exists roleID s"
  using assms by (auto simp: insertRolePermissions_def ok_def refuse_def split: if_splits)

lemma wf_insertRolePermissions:
  assumes "db_wf s" "insertRolePermissions roleID keys s = (Inr x, s')"
  shows "db_wf s'"
proof (cases "keys = []")
  case False
  note ins = insertRolePermissions_run[OF assms(2)]
  have "roles_ok (role_columns s) (db_rolePermissions s @ map (Pair roleID) keys)"
    using assms(1) ins False by (intro roles_ok_add_permissions) (auto simp: db_wf_def role_key)
  then show ?thesis using assms(1) ins(1) by (simp add: db_wf_def key_lists db_users_def)
qed (use assms in \<open>simp add: insertRolePermissions_def ok_def\<close>)

lemma hoare_insertRolePermissions [hoare_rules]: "hoare db_wf (insertRolePermissions roleID keys) (\<lambda>_. db_wf)"
  by (rule hoareI) (rule wf_insertRolePermissions)

lemma hoare_insert_shipped_roles [hoare_rules]: "hoare db_wf (insert_shipped_roles c orgID i defs) (\<lambda>_. db_wf)"
proof (induction defs arbitrary: i)
  case (Cons def defs)
  show ?case unfolding insert_shipped_roles.simps Let_def
    by (intro hoare_keep_bindp hoare_insertRolePermissions Cons.IH hoare_post[OF hoare_insert_role]) simp
qed (auto intro!: hoare_rules)

lemma hoare_update_role [hoare_rules]: "hoare db_wf (update_role orgID roleID name description) (\<lambda>_. db_wf)"
  by (intro hoareI)
    (auto simp: update_role_def Let_def ok_def refuse_def db_wf_def key_lists db_users_def map_set_where split: if_splits)

lemma hoare_delete_role_row [hoare_rules]: "hoare db_wf (delete_role_row roleID) (\<lambda>_. db_wf)"
proof (intro hoareI)
  fix s x s' assume wf: "db_wf s" and run: "delete_role_row roleID s = (Inr x, s')"
  then have s': "s' = s\<lparr>db_roles := filter (\<lambda>r. r_ID r \<noteq> roleID) (db_roles s),
      db_rolePermissions := filter (\<lambda>(k, _). k \<noteq> roleID) (db_rolePermissions s),
      db_membershipRoles := filter (\<lambda>(_, k). k \<noteq> roleID) (db_membershipRoles s),
      db_invitationRoles := filter (\<lambda>(_, k). k \<noteq> roleID) (db_invitationRoles s)\<rparr>"
    by (simp add: delete_role_row_def ok_def refuse_def split: if_splits)
  have "role_columns s' = filter (\<lambda>r. fst r \<noteq> roleID) (role_columns s)"
    by (simp add: s' role_columns_def filter_keys)
  then show "db_wf s'"
    using wf s' roles_ok_delete assigned_ok_delete_role offered_ok_delete_role
    by (simp add: db_wf_def member_keys_def invite_keys_def db_users_def)
qed

lemma hoare_delete_role_checks [hoare_rules]: "trail_free P \<Longrightarrow> hoare P (delete_role_checks c orgID roleID guard) (\<lambda>_. P)"
  unfolding delete_role_checks_def by (intro hoare_rules)

lemma hoare_delete_permissions [hoare_rules]: "hoare db_wf (delete_permissions roleID) (\<lambda>_. db_wf)"
  by (intro hoareI)
    (auto simp: delete_permissions_def ok_def db_wf_def key_lists db_users_def intro: roles_ok_filter_permissions)

text \<open>The provisioner's.\<close>

lemma hoare_insert_org [hoare_rules]: "hoare db_wf (insert_org row) (\<lambda>_. db_wf)"
proof (intro hoareI)
  fix s x s' assume wf: "db_wf s" and run: "insert_org row s = (Inr x, s')"
  then have "s' = s\<lparr>db_orgs := db_orgs s @ [row]\<rparr>" "org_ID row \<notin> set (map org_ID (db_orgs s))"
    by (auto simp: insert_org_def ok_def refuse_def split: if_splits sum.splits)
  then show "db_wf s'" using wf members_ok_add_org by (simp add: db_wf_def key_lists db_users_def)
qed

lemma hoare_insert_system_role [hoare_rules]: "hoare db_wf (insert_system_role row) (\<lambda>_. db_wf)"
  by (intro hoareI) (auto simp: insert_system_role_def ok_def refuse_def db_wf_def key_lists db_users_def split: if_splits sum.splits)

lemma hoare_delete_system_role [hoare_rules]: "hoare db_wf (delete_system_role userID key) (\<lambda>_. db_wf)"
  by (intro hoareI) (auto simp: delete_system_role_def Let_def ok_def db_wf_def key_lists db_users_def)

text \<open>The statements on invitations.\<close>

definition invited_in :: "uuid \<Rightarrow> uuid \<Rightarrow> PgTables \<Rightarrow> bool" where
  "invited_in orgID k s \<longleftrightarrow> (\<exists>i \<in> set (db_invitations s). inv_ID i = k \<and> inv_OrganizationID i = orgID)"

lemma trail_free_invited_in [simp]: "trail_free (invited_in orgID k)"
  by (simp add: trail_free_def invited_in_def)

lemma hoare_insert_invitation [hoare_rules]:
  "hoare db_wf (insert_invitation row) (\<lambda>_ s. db_wf s \<and> invited_in (inv_OrganizationID row) (inv_ID row) s)"
proof (intro hoareI)
  fix s x s' assume wf: "db_wf s" and run: "insert_invitation row s = (Inr x, s')"
  then have ins: "s' = s\<lparr>db_invitations := db_invitations s @ [row]\<rparr>" "inv_ID row \<notin> set (map inv_ID (db_invitations s))"
    by (auto simp: insert_invitation_def ok_def refuse_def split: if_splits sum.splits)
  have "offered_ok (invite_keys s @ [(inv_ID row, inv_OrganizationID row)]) (role_columns s) (db_invitationRoles s)"
    using wf ins(2) by (intro offered_ok_add_invitation) (auto simp: db_wf_def invite_keys_def)
  then show "db_wf s' \<and> invited_in (inv_OrganizationID row) (inv_ID row) s'"
    using wf ins by (auto simp: db_wf_def key_lists db_users_def invited_in_def)
qed

lemma hoare_assignInvitationRoles [hoare_rules]:
  "hoare (\<lambda>s. db_wf s \<and> invited_in orgID k s) (assignInvitationRoles orgID k roleIDs) (\<lambda>_ s. db_wf s \<and> invited_in orgID k s)"
proof (intro hoareI)
  fix s x s' assume pre: "db_wf s \<and> invited_in orgID k s" and run: "assignInvitationRoles orgID k roleIDs s = (Inr x, s')"
  then obtain ids where owned: "ownedRoleIDs orgID roleIDs s = Inr ids"
    and ins: "(if ids = [] then ok () else insert_invitation_roles k ids) s = (Inr x, s')"
    by (auto simp: assignInvitationRoles_def bindp_Inr query_eq)
  have s': "s' = s\<lparr>db_invitationRoles := db_invitationRoles s @ map (Pair k) ids\<rparr>"
    "\<forall>j \<in> set ids. (k, j) \<notin> set (db_invitationRoles s)"
    using ins by (auto simp: insert_invitation_roles_def ok_def refuse_def split: if_splits)
  note ids = ownedRoleIDs_ok[OF conjunct1[OF pre] owned]
  have "(k, orgID) \<in> set (invite_keys s)" using pre by (force simp: invited_in_def invite_keys_def)
  moreover have "\<exists>key. (j, orgID, key) \<in> set (role_columns s)" if "j \<in> set ids" for j
    using ids(2) ids(3)[of j] that by (auto simp: role_columns_def)
  ultimately have "offered_ok (invite_keys s) (role_columns s) (db_invitationRoles s @ map (Pair k) ids)"
    using pre ids(1) s'(2) by (intro offered_ok_add) (auto simp: db_wf_def)
  then show "db_wf s' \<and> invited_in orgID k s'"
    using pre s'(1) by (simp add: db_wf_def key_lists db_users_def invited_in_def)
qed

lemma hoare_open_invitation: "hoare P (open_invitation Q) (\<lambda>i s. P s \<and> i \<in> set (db_invitations s) \<and> Q i \<and> inv_AcceptedAt i = None)"
proof (intro hoareI)
  fix s i s' assume "P s" "open_invitation Q s = (Inr i, s')"
  then have "filter (\<lambda>i. Q i \<and> inv_AcceptedAt i = None) (db_invitations s) = [i]" "s' = s"
    by (auto simp: open_invitation_def query_def elim: only_row.elims)
  then show "P s' \<and> i \<in> set (db_invitations s') \<and> Q i \<and> inv_AcceptedAt i = None"
    using \<open>P s\<close> by (auto dest!: arg_cong[where f = set])
qed

lemma hoare_open_keeps [hoare_rules]: "hoare P (open_invitation Q) (\<lambda>_. P)"
  by (rule hoare_post[OF hoare_open_invitation]) simp

lemma hoare_update_invitation [hoare_rules]:
  "(\<And>i. inv_ID (f i) = inv_ID i \<and> inv_OrganizationID (f i) = inv_OrganizationID i) \<Longrightarrow> hoare db_wf (update_invitation k f) (\<lambda>_. db_wf)"
  by (intro hoareI)
    (auto simp: update_invitation_def Let_def ok_def refuse_def db_wf_def key_lists db_users_def map_set_where split: if_splits)

lemma hoare_renew_invitation [hoare_rules]: "hoare db_wf (renew_invitation k hash expires) (\<lambda>_. db_wf)"
proof (intro hoareI)
  fix s x s' assume "db_wf s" "renew_invitation k hash expires s = (Inr x, s')"
  then show "db_wf s'"
    using hoareD[OF hoare_update_invitation[of "\<lambda>i. i\<lparr>inv_TokenHash := hash, inv_ExpiresAt := expires\<rparr>" k]]
    by (simp add: renew_invitation_def refuse_def split: if_splits)
qed

lemma hoare_delete_invitation [hoare_rules]: "hoare db_wf (delete_invitation k) (\<lambda>_. db_wf)"
proof (intro hoareI)
  fix s x s' assume wf: "db_wf s" and run: "delete_invitation k s = (Inr x, s')"
  then have s': "s' = s\<lparr>db_invitations := filter (\<lambda>i. inv_ID i \<noteq> k) (db_invitations s),
      db_invitationRoles := filter (\<lambda>(j, _). j \<noteq> k) (db_invitationRoles s)\<rparr>"
    by (simp add: delete_invitation_def ok_def refuse_def split: if_splits)
  have "invite_keys s' = filter (\<lambda>i. fst i \<noteq> k) (invite_keys s)"
    by (simp add: s' invite_keys_def filter_keys)
  then show "db_wf s'"
    using wf s' offered_ok_delete_invitation by (simp add: db_wf_def member_keys_def role_columns_def db_users_def)
qed

section \<open>Methods\<close>

text \<open>Every method of the repository keeps the invariant, whether it succeeds or fails.\<close>

lemma organization_methods_keep:
  "keeps db_wf (PgUpdateOrganization c orgID name)" "keeps db_wf (PgDeleteOrganization c orgID)"
  "keeps db_wf (PgCreateOrganization c org defs)"
proof -
  show "keeps db_wf (PgUpdateOrganization c orgID name)"
    unfolding PgUpdateOrganization_def by (intro keeps_intros tx_keeps hoare_rules trail_free_wf) simp
  show "keeps db_wf (PgDeleteOrganization c orgID)"
    unfolding PgDeleteOrganization_def by (intro keeps_intros tx_keeps hoare_rules trail_free_wf) simp
  have slug: "hoare db_wf (attempt (insert_org row) (\<lambda>r. case r of
       Inl e \<Rightarrow> if isUniqueViolation e then refuse (Raised (OrgsErr ErrSlugTaken)) else refuse e
     | Inr _ \<Rightarrow> ok ())) (\<lambda>_. db_wf)" for row
    by (rule hoare_attempt[OF hoare_insert_org]) (auto simp: refuse_def intro: hoare_ok)
  show "keeps db_wf (PgCreateOrganization c org defs)"
    unfolding PgCreateOrganization_def Let_def by (intro tx_keeps hoare_keep_bindp[OF slug] hoare_rules trail_free_wf)
qed

lemma membership_inserted:
  assumes "\<And>e s y t. f (Inl e) s \<noteq> (Inr y, t)" "\<And>row. f (Inr row) = ok row"
  shows "hoare db_wf (attempt (insert_membership c ms) f) (\<lambda>row s. db_wf s \<and> member_in (ms_OrganizationID ms) (ms_ID row) s)"
  using assms by (intro hoare_attempt[OF hoare_insert_membership]) (auto intro: hoare_ok)

lemma member_methods_keep:
  "keeps db_wf (PgAddMember c orgID userID roleIDs invitedBy at)"
  "keeps db_wf (PgSetMemberStatus c orgID memberID status at guard)" "keeps db_wf (PgRemoveMember c orgID memberID action guard)"
  "keeps db_wf (PgReplaceMemberRoles c orgID memberID roleIDs guard)"
proof -
  have assigned: "hoare (\<lambda>s. db_wf s \<and> member_in orgID k s)
      (bindp (assignMembershipRoles orgID k roleIDs) (\<lambda>_. bindp (recordEnt c e) (\<lambda>_. ok x))) (\<lambda>_. db_wf)" for k e and x :: 'x
    by (intro hoare_rules trail_free_conj trail_free_wf trail_free_member_in) simp
  show "keeps db_wf (PgAddMember c orgID userID roleIDs invitedBy at)"
    unfolding PgAddMember_def Let_def
    by (intro keeps_intros tx_keeps hoare_bindp[OF membership_inserted])
      (auto simp: refuse_def intro!: hoare_weaken[OF assigned])
  show "keeps db_wf (PgSetMemberStatus c orgID memberID status at guard)"
    unfolding PgSetMemberStatus_def by (intro tx_keeps hoare_rules trail_free_wf)
  show "keeps db_wf (PgRemoveMember c orgID memberID action guard)"
    unfolding PgRemoveMember_def by (intro tx_keeps hoare_rules trail_free_wf) simp
  have found: "hoare db_wf (query (\<lambda>s. if affected (\<lambda>ms. ms_ID ms = memberID \<and> ms_OrganizationID ms = orgID) (db_memberships s) = 0
       then Inl (Raised orgs_not_found) else Inr ())) (\<lambda>_ s. db_wf s \<and> member_in orgID memberID s)"
    by (rule hoare_query) (auto simp: affected_def filter_empty_conv member_in_def split: if_splits)
  have deleted: "hoare (\<lambda>s. db_wf s \<and> member_in orgID memberID s) (delete_assignments memberID) (\<lambda>_ s. db_wf s \<and> member_in orgID memberID s)"
    using hoareD[OF hoare_delete_assignments] by (intro hoareI) (auto simp: delete_assignments_def ok_def member_in_def)
  have replaced: "hoare (\<lambda>s. db_wf s \<and> member_in orgID memberID s)
      (bindp (delete_assignments memberID) (\<lambda>_. bindp (assignMembershipRoles orgID memberID roleIDs) (\<lambda>_.
        recordAboutMemberEnt c orgID memberID e))) (\<lambda>_ s. db_wf s \<and> member_in orgID memberID s)" for e
    by (intro hoare_keep_bindp deleted hoare_assignMembershipRoles hoare_recordAboutMemberEnt trail_free_conj trail_free_wf
        trail_free_member_in)
  show "keeps db_wf (PgReplaceMemberRoles c orgID memberID roleIDs guard)"
    unfolding PgReplaceMemberRoles_def
    by (intro tx_keeps hoare_keep_bindp hoare_applyOwnerGuard hoare_bindp[OF found] hoare_post[OF replaced]) simp
qed

lemma role_methods_keep:
  "keeps db_wf (PgCreateRole c orgID role keys)" "keeps db_wf (PgUpdateRole c orgID roleID name description)"
  "keeps db_wf (PgDeleteRole c orgID roleID roleGuard)" "keeps db_wf (PgReplaceRolePermissions c orgID roleID keys)"
proof -
  have inserted: "hoare db_wf (insert_role row) (\<lambda>_. db_wf)" for row
    by (rule hoare_post[OF hoare_insert_role]) simp
  show "keeps db_wf (PgCreateRole c orgID role keys)"
    unfolding PgCreateRole_def Let_def by (intro keeps_intros tx_keeps hoare_keep_bindp[OF inserted] hoare_rules trail_free_wf)
  show "keeps db_wf (PgUpdateRole c orgID roleID name description)"
    unfolding PgUpdateRole_def by (intro tx_keeps hoare_rules trail_free_wf)
  show "keeps db_wf (PgDeleteRole c orgID roleID roleGuard)"
    unfolding PgDeleteRole_def by (intro tx_keeps hoare_rules trail_free_wf)
  show "keeps db_wf (PgReplaceRolePermissions c orgID roleID keys)"
    unfolding PgReplaceRolePermissions_def by (intro tx_keeps hoare_rules trail_free_wf)
qed

lemma system_role_methods_keep:
  "keeps db_wf (PgGrantSystemRole c userID key grantedBy)" "keeps db_wf (PgRevokeSystemRole c userID key)"
proof -
  have granted: "hoare db_wf (attempt (insert_system_role row) (\<lambda>r. case r of
      Inl e \<Rightarrow> if isNotFound e then ok () else refuse e | Inr _ \<Rightarrow> recordEnt c event)) (\<lambda>_. db_wf)" for row event
  proof (intro hoareI)
    fix s x s' assume wf: "db_wf s" and run: "attempt (insert_system_role row) (\<lambda>r. case r of
      Inl e \<Rightarrow> if isNotFound e then ok () else refuse e | Inr _ \<Rightarrow> recordEnt c event) s = (Inr x, s')"
    obtain q s1 where q: "insert_system_role row s = (q, s1)" by force
    show "db_wf s'"
    proof (cases q)
      case (Inl e)
      then have "s1 = s" using q by (auto simp: insert_system_role_def ok_def refuse_def split: if_splits sum.splits)
      then show ?thesis using run q Inl wf by (auto simp: attempt_def ok_def refuse_def split: if_splits)
    next
      case (Inr u)
      then show ?thesis
        using run q hoareD[OF hoare_insert_system_role wf, of row u s1] hoareD[OF hoare_recordEnt[OF trail_free_wf], of s1 c event]
        by (simp add: attempt_def)
    qed
  qed
  then show "keeps db_wf (PgGrantSystemRole c userID key grantedBy)"
    unfolding PgGrantSystemRole_def by (intro tx_keeps)
  show "keeps db_wf (PgRevokeSystemRole c userID key)"
    unfolding PgRevokeSystemRole_def by (intro tx_keeps hoare_rules trail_free_wf) simp
qed

lemma invitation_methods_keep:
  "keeps db_wf (PgInviteMember c orgID email hash roleIDs invitedBy expiresAt at)"
  "keeps db_wf (PgDeclineInvitation c invitationID)" "keeps db_wf (PgWithdrawInvitation c orgID invitationID)"
  "keeps db_wf (PgReissueInvitation c orgID invitationID hash expiresAt)"
proof -
  have inserted: "hoare db_wf (attempt (insert_invitation row) (\<lambda>r. case r of
      Inl e \<Rightarrow> if isUniqueViolation e then refuse (Raised (OrgsErr ErrAlreadyMember)) else refuse e
    | Inr _ \<Rightarrow> ok ())) (\<lambda>_ s. db_wf s \<and> invited_in (inv_OrganizationID row) (inv_ID row) s)" for row
    by (rule hoare_attempt[OF hoare_insert_invitation]) (auto simp: refuse_def intro: hoare_ok)
  have offered: "hoare (\<lambda>s. db_wf s \<and> invited_in orgID k s)
      (bindp (assignInvitationRoles orgID k roleIDs) (\<lambda>_. recordEnt c e)) (\<lambda>_. db_wf)" for k e
    by (rule hoare_post[where Q' = "\<lambda>_ s. db_wf s \<and> invited_in orgID k s"])
      (intro hoare_rules trail_free_conj trail_free_wf trail_free_invited_in, simp)
  show "keeps db_wf (PgInviteMember c orgID email hash roleIDs invitedBy expiresAt at)"
    unfolding PgInviteMember_def Let_def
    by (intro keeps_intros tx_keeps, rule hoare_keep_bindp, rule hoare_query, assumption,
        rule hoare_bindp[OF inserted], rule hoare_weaken[OF offered]) simp_all
  show "keeps db_wf (PgDeclineInvitation c invitationID)"
    unfolding PgDeclineInvitation_def by (intro tx_keeps hoare_rules trail_free_wf)
  show "keeps db_wf (PgWithdrawInvitation c orgID invitationID)"
    unfolding PgWithdrawInvitation_def by (intro tx_keeps hoare_rules trail_free_wf)
  show "keeps db_wf (PgReissueInvitation c orgID invitationID hash expiresAt)"
    unfolding PgReissueInvitation_def by (intro keeps_intros tx_keeps hoare_rules trail_free_wf)
qed

lemma AcceptInvitation_keeps: "keeps db_wf (PgAcceptInvitation c invitationID userID at)"
proof -
  have spent: "hoare (\<lambda>s. db_wf s \<and> member_in orgID k s) (bindp (assignMembershipRoles orgID k roleIDs) (\<lambda>_.
      bindp (update_invitation j (\<lambda>i. i\<lparr>inv_AcceptedAt := Some at\<rparr>)) (\<lambda>_. recordEnt c e))) (\<lambda>_. db_wf)" for orgID k roleIDs j e
    by (rule hoare_bindp[OF hoare_post[where Q' = "\<lambda>_ s. db_wf s \<and> member_in orgID k s" and Q = "\<lambda>_. db_wf"]])
      (intro hoare_rules trail_free_wf | simp)+
  show ?thesis
    unfolding PgAcceptInvitation_def
    by (rule tx_keeps, rule hoare_keep_bindp, rule hoare_open_keeps, rule hoare_keep_bindp, rule hoare_query, assumption,
        rule hoare_keep_bindp, rule hoare_query, assumption, rule hoare_bindp[OF membership_inserted],
        simp add: refuse_def, simp, rule hoare_weaken[OF spent]) simp_all
qed

lemmas methods_keep = organization_methods_keep member_methods_keep role_methods_keep system_role_methods_keep
  invitation_methods_keep AcceptInvitation_keeps

end
