(* ===== verification/Pg_Authority.thy ===== *)
theory Pg_Authority
  imports Pg_Wf Authz Orgs_Contract
begin

text \<open>
  The contracts of the authorization service and of the organization service on the Postgres repositories: what the three
  permission queries read and what the organization repository does with roles are the views the two services rely on.
\<close>

section \<open>Reading a run\<close>

text \<open>A method that returned has done every statement of its transaction.\<close>

lemma tx_ran: "translate f (withEntTx p) s = (Inr x, s') \<longleftrightarrow> p s = (Inr x, s')"
  by (simp add: translate_eq withEntTx_eq)

lemma raised_eq: "raised r s = (Inr x, s') \<longleftrightarrow> r = Inr x \<and> s' = s"
  by (auto simp: raised_def ok_def refuse_def split: sum.splits)

lemma only_row_eq: "only_row rows = Inr r \<longleftrightarrow> rows = [r]"
  by (cases rows rule: only_row.cases) auto

lemma only_row_in: "filter P rows = [r] \<Longrightarrow> r \<in> set rows \<and> P r"
proof -
  assume "filter P rows = [r]"
  then have "r \<in> set (filter P rows)" by simp
  then show ?thesis by simp
qed

lemma lockOrganization_eq:
  "lockOrganization orgID s = (Inr x, s') \<Longrightarrow> s' = s \<and> (\<exists>o' \<in> set (live_orgs s). org_ID o' = orgID)"
  by (auto simp: lockOrganization_def prog_simps only_row_eq dest!: only_row_in)

lemma applyOwnerGuard_eq:
  "applyOwnerGuard orgID memberID guard s = (Inr x, s') \<Longrightarrow>
     s' = s \<and> guard \<lparr>ow_Owners = int (length (owner_rows orgID s)), ow_SubjectHoldsOwner = (memberID \<in> ms_ID ` set (owner_rows orgID s))\<rparr> = Inr x"
  by (auto simp: applyOwnerGuard_def bindp_Inr query_eq raised_eq ownerStateTx_def Let_def dest!: lockOrganization_eq)

section \<open>The views\<close>

definition pg_active :: "PgTables \<Rightarrow> uuid \<Rightarrow> uuid \<Rightarrow> bool" where
  "pg_active s userID orgID \<longleftrightarrow> (\<exists>ms \<in> set (active_rows s userID). ms_OrganizationID ms = orgID)"

definition pg_keys :: "PgTables \<Rightarrow> uuid \<Rightarrow> uuid \<Rightarrow> string set" where
  "pg_keys s userID orgID = {key. \<exists>ms roleID. ms \<in> set (active_rows s userID) \<and> ms_OrganizationID ms = orgID \<and>
     (ms_ID ms, roleID) \<in> set (db_membershipRoles s) \<and> (roleID, key) \<in> set (db_rolePermissions s)}"

definition pg_system_keys :: "PgTables \<Rightarrow> uuid \<Rightarrow> string set" where
  "pg_system_keys s userID = {key. \<exists>r u. r \<in> set (db_systemRoles s) \<and> usr_UserID r = userID \<and> usr_RoleKey r = key \<and>
     u \<in> set (db_users s) \<and> u_ID u = userID \<and> \<not> UserIsDeleted u}"

definition pg_role_keys :: "PgTables \<Rightarrow> uuid \<Rightarrow> uuid \<Rightarrow> string set option" where
  "pg_role_keys s orgID roleID =
     (if role_in orgID roleID s then Some {key. (roleID, key) \<in> set (db_rolePermissions s)} else None)"

definition pg_member_user :: "PgTables \<Rightarrow> uuid \<Rightarrow> uuid \<Rightarrow> uuid option" where
  "pg_member_user s orgID memberID =
     map_option ms_UserID (List.find (\<lambda>ms. ms_OrganizationID ms = orgID \<and> ms_ID ms = memberID \<and> liveUser s ms) (db_memberships s))"

definition pg_member_keys :: "PgTables \<Rightarrow> uuid \<Rightarrow> uuid \<Rightarrow> string set" where
  "pg_member_keys s orgID memberID = {key. member_in orgID memberID s \<and>
     (\<exists>roleID. (memberID, roleID) \<in> set (db_membershipRoles s) \<and> (roleID, key) \<in> set (db_rolePermissions s))}"

section \<open>The permission queries\<close>

text \<open>A permission of a role that is not there cannot be.\<close>

lemma permission_role: "db_wf s \<Longrightarrow> (roleID, key) \<in> set (db_rolePermissions s) \<Longrightarrow> role_row_exists roleID s"
  by (force simp: db_wf_def roles_ok_def role_key)

lemma member_key_unique:
  "db_wf s \<Longrightarrow> ms \<in> set (db_memberships s) \<Longrightarrow> ms' \<in> set (db_memberships s) \<Longrightarrow> ms_ID ms = ms_ID ms' \<Longrightarrow> ms = ms'"
  by (auto simp: db_wf_def members_ok_def member_keys_def comp_def distinct_map inj_on_def)

lemma set_keys_of: "set (keys_of s roleID) = {key. (roleID, key) \<in> set (db_rolePermissions s)}"
  by (force simp: keys_of_def)

lemma set_roles_of:
  "set (roles_of s memberID) = {roleID. (memberID, roleID) \<in> set (db_membershipRoles s) \<and> role_row_exists roleID s}"
  by (force simp: roles_of_def)

lemma set_left_join: "Some x \<in> set (left_join xs) \<longleftrightarrow> x \<in> set xs" "left_join xs \<noteq> []"
  by (auto simp: left_join_def)

lemma set_permission_rows:
  "Some key \<in> set (permission_rows s ms) \<longleftrightarrow> (\<exists>roleID \<in> set (roles_of s (ms_ID ms)). key \<in> set (keys_of s roleID))"
proof -
  have "Some key \<in> set (permission_rows s ms) \<longleftrightarrow>
      (\<exists>roleID. Some roleID \<in> set (left_join (roles_of s (ms_ID ms))) \<and> Some key \<in> set (left_join (keys_of s roleID)))"
    by (force simp: permission_rows_def split: option.splits)
  then show ?thesis by (auto simp: set_left_join)
qed

lemma permission_rows_nonempty: "permission_rows s ms \<noteq> []"
proof -
  have "\<exists>r. r \<in> set (left_join (roles_of s (ms_ID ms)))" by (simp add: ex_in_conv set_left_join)
  then show ?thesis
    by (force simp: permission_rows_def set_left_join split: option.splits)
qed

lemma set_map_filter_id: "set (List.map_filter id xs) = {x. Some x \<in> set xs}"
  by (force simp: List.map_filter_def)

lemma row_keys:
  assumes "db_wf s"
  shows "key \<in> pg_keys s userID orgID \<longleftrightarrow>
    (\<exists>ms \<in> set (active_rows s userID). ms_OrganizationID ms = orgID \<and> (\<exists>roleID \<in> set (roles_of s (ms_ID ms)). key \<in> set (keys_of s roleID)))"
  using permission_role[OF assms] by (auto simp: pg_keys_def set_roles_of set_keys_of)

text \<open>The fold gathers, under each organization, the keys of its rows.\<close>

lemma fold_keys_ok:
  "adistinct m \<Longrightarrow> adistinct (fold_keys m rows) \<and>
     set (alist_at (fold_keys m rows) orgID) = set (alist_at m orgID) \<union> {key. (orgID, key) \<in> set rows}"
  by (induction m rows rule: fold_keys.induct) (auto simp: alist_at_update distinct_update)

interpretation pg_authz: authz_repository pg_authz_repo db_wf pg_active pg_keys pg_system_keys
proof
  fix s u org
  assume wf: "db_wf s"
  let ?rows = "filter (\<lambda>ms. ms_OrganizationID ms = org) (active_rows s u)"
  show "ar_OrganizationPermissionKeys pg_authz_repo u org s = Inl (AuthzErr ErrNotMember)" if "\<not> pg_active s u org"
  proof -
    have "?rows = []" using that by (auto simp: pg_active_def filter_empty_conv)
    then show ?thesis by (simp add: pg_authz_repo_def PgOrganizationPermissionKeys_def Let_def)
  qed
  show "\<exists>keys. ar_OrganizationPermissionKeys pg_authz_repo u org s = Inr keys \<and> set keys = pg_keys s u org" if act: "pg_active s u org"
  proof -
    let ?all = "keep_first [] (concat (map (permission_rows s) ?rows))"
    have set: "set ?all = (\<Union>ms \<in> set ?rows. set (permission_rows s ms))" by simp
    obtain ms where "ms \<in> set ?rows" using act by (auto simp: pg_active_def)
    then have "?all \<noteq> []" using set permission_rows_nonempty[of s ms] by (metis UN_I empty_iff hd_in_set set_empty)
    then have "ar_OrganizationPermissionKeys pg_authz_repo u org s = Inr (List.map_filter id ?all)"
      by (simp add: pg_authz_repo_def PgOrganizationPermissionKeys_def Let_def)
    moreover have "set (List.map_filter id ?all) = pg_keys s u org"
      by (rule set_eqI) (simp only: set_map_filter_id set mem_Collect_eq UN_iff set_permission_rows row_keys[OF wf] set_filter bex_simps, blast)
    ultimately show ?thesis by blast
  qed
  show "\<exists>m. ar_PermissionKeysByOrganization pg_authz_repo u s = Inr m \<and> adistinct m \<and>
      (\<forall>org. set (alist_at m org) = (if pg_active s u org then pg_keys s u org else {}))"
  proof -
    let ?rows = "keep_first [] (concat (map (\<lambda>ms. concat (map (\<lambda>roleID. map (Pair (ms_OrganizationID ms)) (keys_of s roleID))
      (roles_of s (ms_ID ms)))) (active_rows s u)))"
    have "{key. (org, key) \<in> set ?rows} = pg_keys s u org" for org
      by (rule set_eqI) (simp add: row_keys[OF wf], blast)
    moreover have "\<not> pg_active s u org \<Longrightarrow> pg_keys s u org = {}" for org
      by (auto simp: pg_active_def pg_keys_def)
    ultimately show ?thesis
      using fold_keys_ok[of "[]" ?rows] by (auto simp: pg_authz_repo_def PgPermissionKeysByOrganization_def alist_at_Nil)
  qed
  show "\<exists>keys. ar_SystemRoleKeys pg_authz_repo u s = Inr keys \<and> set keys = pg_system_keys s u"
    by (auto simp: pg_authz_repo_def PgSystemRoleKeys_def pg_system_keys_def)
qed

section \<open>The organization repository\<close>

lemma pg_orgs_sel [simp]:
  "sv_repo pg_orgs = pg_repository" "sv_dir pg_orgs = pg_directory" "sv_provisioner pg_orgs = pg_provisioner"
  "or_Role pg_repository = PgRole" "or_Member pg_repository = PgMember"
  "or_MemberPermissions pg_repository = PgMemberPermissions" "or_ReplaceMemberRoles pg_repository = PgReplaceMemberRoles"
  "or_CreateRole pg_repository = PgCreateRole" "or_ReplaceRolePermissions pg_repository = PgReplaceRolePermissions"
  by (simp_all add: pg_orgs_def pg_repository_def)

lemma PgRole_ok:
  assumes "PgRole orgID roleID s = Inr v"
  shows "role_in orgID roleID s" "r_ID (rv_Role v) = roleID" "set (rv_Permissions v) = {key. (roleID, key) \<in> set (db_rolePermissions s)}"
proof -
  obtain row where row: "filter (\<lambda>r. r_ID r = roleID \<and> r_OrganizationID r = orgID) (db_roles s) = [row]" "v = decorateRole s row"
    using assms by (auto simp: PgRole_def one_role_def only_row_eq split: sum.splits)
  have "row \<in> set (db_roles s) \<and> r_ID row = roleID \<and> r_OrganizationID row = orgID"
    using only_row_in[OF row(1)] by simp
  then show "role_in orgID roleID s" "r_ID (rv_Role v) = roleID" "set (rv_Permissions v) = {key. (roleID, key) \<in> set (db_rolePermissions s)}"
    using row(2) by (auto simp: role_in_def decorateRole_def) force
qed

lemma set_memberRows: "(ms, u) \<in> set (memberRows P s) \<Longrightarrow> ms \<in> set (db_memberships s) \<and> P ms \<and> liveUser s ms"
  by (auto simp: memberRows_def List.map_filter_def)

lemma PgMember_ok:
  assumes "db_wf s" "PgMember orgID memberID s = Inr mb"
  shows "mb_ID mb = memberID" "pg_member_user s orgID memberID = Some (mb_UserID mb)"
proof -
  let ?rows = "memberRows (\<lambda>ms. ms_OrganizationID ms = orgID \<and> ms_ID ms = memberID) s"
  have "?rows \<noteq> []" "mb = hd (attachRoles s ?rows)"
    using assms(2) by (auto simp: PgMember_def first_member_def split: if_splits)
  then obtain ms u rest where rows: "?rows = (ms, u) # rest" "mb_ID mb = ms_ID ms" "mb_UserID mb = ms_UserID ms"
    by (cases ?rows) (auto simp: attachRoles_def)
  then have ms: "ms \<in> set (db_memberships s)" "ms_OrganizationID ms = orgID" "ms_ID ms = memberID" "liveUser s ms"
    using set_memberRows[of ms u "\<lambda>ms. ms_OrganizationID ms = orgID \<and> ms_ID ms = memberID" s] by auto
  show "mb_ID mb = memberID" using rows ms by simp
  have "List.find (\<lambda>ms. ms_OrganizationID ms = orgID \<and> ms_ID ms = memberID \<and> liveUser s ms) (db_memberships s) = Some ms"
  proof (cases "List.find (\<lambda>ms. ms_OrganizationID ms = orgID \<and> ms_ID ms = memberID \<and> liveUser s ms) (db_memberships s)")
    case None
    then show ?thesis using ms by (auto simp: find_None_iff)
  next
    case (Some x)
    then show ?thesis using ms member_key_unique[OF assms(1), of x ms] by (auto simp: find_Some_iff)
  qed
  then show "pg_member_user s orgID memberID = Some (mb_UserID mb)" using rows by (simp add: pg_member_user_def)
qed

lemma pg_member_permissions:
  "PgMemberPermissions orgID memberID s = Inr ps \<Longrightarrow> set ps = pg_member_keys s orgID memberID"
  by (force simp: PgMemberPermissions_def pg_member_keys_def member_in_def)
text \<open>The runs of the three methods that write roles.\<close>

lemma PgReplaceMemberRoles_run:
  assumes "db_wf s" "PgReplaceMemberRoles c orgID memberID roleIDs guard s = (Inr x, s')"
  obtains ids es where "set ids = set roleIDs" "distinct ids" "member_in orgID memberID s"
    "\<And>k. k \<in> set roleIDs \<Longrightarrow> role_in orgID k s"
    "guard \<lparr>ow_Owners = int (length (owner_rows orgID s)), ow_SubjectHoldsOwner = (memberID \<in> ms_ID ` set (owner_rows orgID s))\<rparr> = Inr ()"
    "s' = s\<lparr>db_membershipRoles := filter (\<lambda>(k, _). k \<noteq> memberID) (db_membershipRoles s) @ map (Pair memberID) ids, db_events := es\<rparr>"
proof -
  let ?s = "s\<lparr>db_membershipRoles := filter (\<lambda>(k, _). k \<noteq> memberID) (db_membershipRoles s)\<rparr>"
  obtain s1 s2 u where guard: "applyOwnerGuard orgID memberID guard s = (Inr u, s2)"
    and found': "affected (\<lambda>ms. ms_ID ms = memberID \<and> ms_OrganizationID ms = orgID) (db_memberships s2) \<noteq> 0"
    and assigned': "assignMembershipRoles orgID memberID roleIDs
      (s2\<lparr>db_membershipRoles := filter (\<lambda>(k, _). k \<noteq> memberID) (db_membershipRoles s2)\<rparr>) = (Inr (), s1)"
    and event: "recordAboutMemberEnt c orgID memberID (no_entry\<lparr>ev_OrganizationID := Some orgID, ev_Action := ActionMemberRolesChanged\<rparr>) s1 = (Inr x, s')"
    using assms(2) unfolding PgReplaceMemberRoles_def tx_ran
    by (auto simp: bindp_Inr query_eq delete_assignments_def ok_def split: if_splits)
  have "s2 = s" using applyOwnerGuard_eq[OF guard] by simp
  note found = found'[unfolded this] and assigned = assigned'[unfolded this]
  have wf: "db_wf ?s" using hoareD[OF hoare_delete_assignments assms(1)] by (simp add: delete_assignments_def ok_def)
  from assignMembershipRoles_run[OF wf assigned] obtain ids where
    ids: "set ids = set roleIDs" "distinct ids" "s1 = ?s\<lparr>db_membershipRoles := db_membershipRoles ?s @ map (Pair memberID) ids\<rparr>"
    "\<forall>k \<in> set ids. \<exists>r \<in> set (db_roles ?s). r_ID r = k \<and> r_OrganizationID r = orgID" by blast
  obtain es where "s' = s1\<lparr>db_events := db_events s1 @ es\<rparr>" using recordAboutMemberEnt_events[OF event] by blast
  moreover have "member_in orgID memberID s" using found by (auto simp: affected_def filter_empty_conv member_in_def)
  ultimately show thesis
    using that[of ids "db_events s @ es"] ids applyOwnerGuard_eq[OF guard] by (auto simp: role_in_def)
qed

lemma PgCreateRole_run:
  assumes "PgCreateRole c orgID role keys s = (Inr v, s')"
  obtains row es where "r_OrganizationID row = orgID" "r_ID row \<notin> set (map r_ID (db_roles s))"
    "r_ID row = (if r_ID role \<noteq> uuid_Nil then r_ID role else c_newID c (DrawRole 0))" "r_IsSystem row = r_IsSystem role"
    "(orgID, r_Key row) \<notin> set (map (\<lambda>r. (r_OrganizationID r, r_Key r)) (db_roles s))"
    "s' = s\<lparr>db_roles := db_roles s @ [row], db_rolePermissions := db_rolePermissions s @ map (Pair (r_ID row)) keys, db_events := es\<rparr>"
    "PgRole orgID (r_ID row) s' = Inr v"
proof -
  define row where "row = role\<lparr>r_ID := (if r_ID role \<noteq> uuid_Nil then r_ID role else c_newID c (DrawRole 0)), r_OrganizationID := orgID\<rparr>"
  obtain s1 s2 x where ins: "insert_role row s = (Inr (), s1)" "insertRolePermissions (r_ID row) keys s1 = (Inr (), s2)"
    "recordEnt c (no_entry\<lparr>ev_OrganizationID := Some orgID, ev_Action := ActionRoleCreated,
      ev_RoleID := Some (r_ID row), ev_Detail := r_Key row\<rparr>) s2 = (Inr x, s')" "PgRole orgID (r_ID row) s' = Inr v"
    using assms unfolding PgCreateRole_def Let_def row_def[symmetric]
    by (auto simp: bindp_Inr tx_ran query_eq)
  note role = insert_role_run[OF ins(1)]
  obtain es where "s' = s2\<lparr>db_events := db_events s2 @ es\<rparr>" using recordEnt_events[OF ins(3)] by blast
  then show thesis
    using that[of row "db_events s @ es"] role insertRolePermissions_run(1)[OF ins(2)] ins(4) by (simp add: row_def)
qed

lemma PgReplaceRolePermissions_run:
  assumes "PgReplaceRolePermissions c orgID roleID keys s = (Inr x, s')"
  obtains es where "role_in orgID roleID s"
    "s' = s\<lparr>db_rolePermissions := filter (\<lambda>(k, _). k \<noteq> roleID) (db_rolePermissions s) @ map (Pair roleID) keys, db_events := es\<rparr>"
proof -
  let ?s = "s\<lparr>db_rolePermissions := filter (\<lambda>(k, _). k \<noteq> roleID) (db_rolePermissions s)\<rparr>"
  obtain s1 where found: "affected (\<lambda>r. r_ID r = roleID \<and> r_OrganizationID r = orgID) (db_roles s) \<noteq> 0"
    and ins: "insertRolePermissions roleID keys ?s = (Inr (), s1)"
    and event: "recordEnt c (no_entry\<lparr>ev_OrganizationID := Some orgID, ev_Action := ActionRolePermissionsChanged,
      ev_RoleID := Some roleID, ev_Detail := show_nat (length keys) @ '' permissions''\<rparr>) s1 = (Inr x, s')"
    using assms unfolding PgReplaceRolePermissions_def tx_ran
    by (auto simp: bindp_Inr query_eq delete_permissions_def ok_def split: if_splits)
  obtain es where "s' = s1\<lparr>db_events := db_events s1 @ es\<rparr>" using recordEnt_events[OF event] by blast
  moreover have "role_in orgID roleID s" using found by (auto simp: affected_def filter_empty_conv role_in_def)
  ultimately show thesis using that[of "db_events s @ es"] insertRolePermissions_run(1)[OF ins] by simp
qed

interpretation pg_authority: orgs_authority pg_orgs db_wf pg_role_keys pg_member_user pg_member_keys
proof
  fix s :: PgTables and org rid mid ids guard u c r perms v mb s'
  assume wf: "db_wf s"
  show "pg_role_keys s org rid = Some (set (rv_Permissions v))" if "or_Role (sv_repo pg_orgs) org rid s = Inr v"
    using PgRole_ok[of org rid s v] that by (simp add: pg_role_keys_def)
  show "mb_ID mb = mid \<and> pg_member_user s org mid = Some (mb_UserID mb)" if "or_Member (sv_repo pg_orgs) org mid s = Inr mb"
    using PgMember_ok[OF wf, of org mid mb] that by simp
  show "\<exists>ps. or_MemberPermissions (sv_repo pg_orgs) org mid s = Inr ps \<and> set ps = pg_member_keys s org mid"
    using pg_member_permissions[of org mid s] by (simp add: PgMemberPermissions_def)
  show "pg_member_keys s' org mid = (\<Union>rid \<in> set ids. case pg_role_keys s org rid of None \<Rightarrow> {} | Some ks \<Rightarrow> ks)"
    if "or_ReplaceMemberRoles (sv_repo pg_orgs) c org mid ids guard s = (Inr u, s')"
  proof -
    from that have run: "PgReplaceMemberRoles c org mid ids guard s = (Inr u, s')" by simp
    obtain ids' es where *: "set ids' = set ids" "member_in org mid s" "\<And>k. k \<in> set ids \<Longrightarrow> role_in org k s"
      "s' = s\<lparr>db_membershipRoles := filter (\<lambda>(k, _). k \<noteq> mid) (db_membershipRoles s) @ map (Pair mid) ids', db_events := es\<rparr>"
      by (rule PgReplaceMemberRoles_run[OF wf run]) (blast intro: that)
    have "member_in org mid s'" using *(2,4) by (simp add: member_in_def)
    then show ?thesis using * by (auto simp: pg_member_keys_def pg_role_keys_def split: if_splits)
  qed
  show "pg_role_keys s' org (r_ID (rv_Role v)) = Some (set perms)" if "or_CreateRole (sv_repo pg_orgs) c org r perms s = (Inr v, s')"
  proof -
    from that have run: "PgCreateRole c org r perms s = (Inr v, s')" by simp
    obtain row es where *: "r_OrganizationID row = org" "r_ID row \<notin> set (map r_ID (db_roles s))"
      "s' = s\<lparr>db_roles := db_roles s @ [row], db_rolePermissions := db_rolePermissions s @ map (Pair (r_ID row)) perms, db_events := es\<rparr>"
      "PgRole org (r_ID row) s' = Inr v"
      by (rule PgCreateRole_run[OF run])
    have "(r_ID row, key) \<notin> set (db_rolePermissions s)" for key
      using permission_role[OF wf, of "r_ID row" key] *(2) by (metis role_row_exists_def image_eqI set_map)
    then show ?thesis using PgRole_ok(1,2)[OF *(4)] *(3) by (auto simp: pg_role_keys_def)
  qed
  show "pg_role_keys s' org rid = Some (set perms)" if "or_ReplaceRolePermissions (sv_repo pg_orgs) c org rid perms s = (Inr u, s')"
  proof -
    from that have run: "PgReplaceRolePermissions c org rid perms s = (Inr u, s')" by simp
    obtain es where "role_in org rid s"
      "s' = s\<lparr>db_rolePermissions := filter (\<lambda>(k, _). k \<noteq> rid) (db_rolePermissions s) @ map (Pair rid) perms, db_events := es\<rparr>"
      by (rule PgReplaceRolePermissions_run[OF run])
    then show ?thesis by (auto simp: pg_role_keys_def role_in_def)
  qed
qed

end
