(* ===== verification/Pg_Machine.thy ===== *)
theory Pg_Machine
  imports Pg_Authority
begin

text \<open>
  The organization repository's step relation and what every run of it keeps: the tables stay well formed, and an organization
  that has an owner keeps one. A method is one atomic step: the methods that could take an owner away lock the organization's
  row first, and what runs between another method's statements only adds owners. Accounts change beside it by any
  step that keeps them.
\<close>

section \<open>Owners\<close>

definition owned_rows :: "PgTables \<Rightarrow> uuid \<Rightarrow> bool" where
  "owned_rows s orgID \<longleftrightarrow> owner_rows orgID s \<noteq> []"

definition is_owner_row :: "PgTables \<Rightarrow> uuid \<Rightarrow> Membership \<Rightarrow> bool" where
  "is_owner_row s orgID ms \<longleftrightarrow> ms \<in> set (db_memberships s) \<and> ms_OrganizationID ms = orgID \<and> ms_Status ms = MembershipActive \<and>
     liveUser s ms \<and> holds_owner_role s (ms_ID ms)"

lemma set_owner_rows: "ms \<in> set (owner_rows orgID s) \<longleftrightarrow> is_owner_row s orgID ms"
  by (auto simp: owner_rows_def is_owner_row_def)

lemma owned_rows_iff: "owned_rows s orgID \<longleftrightarrow> (\<exists>ms. is_owner_row s orgID ms)"
  using set_owner_rows[of _ orgID s] by (auto simp: owned_rows_def simp flip: ex_in_conv set_empty)

lemma holds_owner_columns:
  "holds_owner_role s memberID \<longleftrightarrow>
     (\<exists>roleID org. (memberID, roleID) \<in> set (db_membershipRoles s) \<and> (roleID, org, RoleOwner) \<in> set (role_columns s))"
  by (force simp: holds_owner_role_def role_columns_def)

text \<open>The guard passes only when another owner remains.\<close>

lemma guard_leaves_owner_row:
  assumes wf: "db_wf s" and owned: "owned_rows s orgID"
    and guard: "RefuseLastOwnerLoss True \<lparr>ow_Owners = int (length (owner_rows orgID s)),
      ow_SubjectHoldsOwner = (memberID \<in> ms_ID ` set (owner_rows orgID s))\<rparr> = Inr u"
  shows "\<exists>ms. is_owner_row s orgID ms \<and> ms_ID ms \<noteq> memberID"
proof (rule ccontr)
  assume "\<not> ?thesis"
  then have only: "ms_ID ` set (owner_rows orgID s) \<subseteq> {memberID}" by (auto simp: set_owner_rows)
  have "distinct (map ms_ID (owner_rows orgID s))"
    unfolding owner_rows_def
    using wf by (intro distinct_filter_map) (simp add: db_wf_def members_ok_def member_keys_def comp_def)
  then have "length (owner_rows orgID s) = card (ms_ID ` set (owner_rows orgID s))"
    using distinct_card by fastforce
  also have "\<dots> \<le> 1" using card_mono[OF _ only] by simp
  finally have "int (length (owner_rows orgID s)) \<le> 1" by simp
  moreover have "memberID \<in> ms_ID ` set (owner_rows orgID s)"
    using owned only by (auto simp: owned_rows_def) (metis insert_iff empty_iff image_eqI list.set_intros(1) neq_Nil_conv subsetD)
  ultimately show False using guard by (simp add: RefuseLastOwnerLoss_ok)
qed

section \<open>Statements that only add\<close>

definition grown :: "PgTables \<Rightarrow> PgTables \<Rightarrow> bool" where
  "grown s0 s \<longleftrightarrow> db_accounts s = db_accounts s0 \<and> set (db_memberships s0) \<subseteq> set (db_memberships s) \<and>
     set (db_membershipRoles s0) \<subseteq> set (db_membershipRoles s) \<and> set (role_columns s0) \<subseteq> set (role_columns s)"

lemma grown_refl [simp]: "grown s s"
  by (simp add: grown_def)

lemma grown_owned: "grown s0 s \<Longrightarrow> owned_rows s0 orgID \<Longrightarrow> owned_rows s orgID"
proof -
  assume grown: "grown s0 s" and "owned_rows s0 orgID"
  then obtain ms where "is_owner_row s0 orgID ms" by (auto simp: owned_rows_iff)
  then have "is_owner_row s orgID ms"
    using grown by (auto simp: is_owner_row_def grown_def holds_owner_columns liveUser_def db_users_def) blast
  then show ?thesis by (auto simp: owned_rows_iff)
qed

named_theorems grow_rules \<open>statements that only add\<close>

lemma trail_free_grown [simp]: "trail_free (grown s0)"
  by (simp add: trail_free_def grown_def role_columns_def)

lemma grow_name_rules [grow_rules]: "hoare P (name_rules what name) (\<lambda>_. P)"
  by (rule hoare_name_rules)

lemma grow_recordEnt [grow_rules]: "hoare (grown s0) (recordEnt c event) (\<lambda>_. grown s0)"
  by (rule hoare_recordEnt) simp

lemma grow_update_live_org [grow_rules]: "hoare (grown s0) (update_live_org orgID f) (\<lambda>_. grown s0)"
  by (intro hoareI) (auto simp: update_live_org_def Let_def ok_def grown_def role_columns_def)

lemma grow_insert_org [grow_rules]: "hoare (grown s0) (insert_org row) (\<lambda>_. grown s0)"
  by (intro hoareI) (auto simp: insert_org_def ok_def refuse_def grown_def role_columns_def split: if_splits sum.splits)

lemma grow_insert_role [grow_rules]: "hoare (grown s0) (insert_role row) (\<lambda>_. grown s0)"
  by (intro hoareI) (auto dest!: insert_role_run(1) simp: grown_def role_columns_def)

lemma grow_insertRolePermissions [grow_rules]: "hoare (grown s0) (insertRolePermissions roleID keys) (\<lambda>_. grown s0)"
  by (intro hoareI) (auto dest!: insertRolePermissions_run(1) simp: grown_def role_columns_def)

lemma grow_delete_permissions [grow_rules]: "hoare (grown s0) (delete_permissions roleID) (\<lambda>_. grown s0)"
  by (intro hoareI) (auto simp: delete_permissions_def ok_def grown_def role_columns_def)

lemma grow_update_role [grow_rules]: "hoare (grown s0) (update_role orgID roleID name description) (\<lambda>_. grown s0)"
  by (intro hoareI)
    (auto simp: update_role_def Let_def ok_def refuse_def grown_def role_columns_def map_set_where simp del: set_map split: if_splits)

lemma grow_insert_shipped_roles [grow_rules]: "hoare (grown s0) (insert_shipped_roles c orgID i defs) (\<lambda>_. grown s0)"
proof (induction defs arbitrary: i)
  case (Cons def defs)
  show ?case unfolding insert_shipped_roles.simps Let_def
    by (intro hoare_keep_bindp grow_insertRolePermissions Cons.IH grow_insert_role)
qed (auto intro!: hoare_rules)

lemma grow_insert_membership [grow_rules]: "hoare (grown s0) (insert_membership c ms) (\<lambda>_. grown s0)"
  by (intro hoareI) (auto dest!: insert_membership_run(2) simp: grown_def role_columns_def)

lemma grow_assignMembershipRoles [grow_rules]:
  "hoare (grown s0) (assignMembershipRoles orgID memberID roleIDs) (\<lambda>_. grown s0)"
  by (intro hoareI)
    (auto simp: assignMembershipRoles_def insert_membership_roles_def prog_simps ok_def refuse_def grown_def role_columns_def split: if_splits)

lemma grow_insert_system_role [grow_rules]: "hoare (grown s0) (insert_system_role row) (\<lambda>_. grown s0)"
  by (intro hoareI) (auto simp: insert_system_role_def ok_def refuse_def grown_def role_columns_def split: if_splits sum.splits)

lemma grow_delete_system_role [grow_rules]: "hoare (grown s0) (delete_system_role userID key) (\<lambda>_. grown s0)"
  by (intro hoareI) (auto simp: delete_system_role_def Let_def ok_def grown_def role_columns_def)

lemma grow_insert_invitation [grow_rules]: "hoare (grown s0) (insert_invitation row) (\<lambda>_. grown s0)"
  by (intro hoareI) (auto simp: insert_invitation_def ok_def refuse_def grown_def role_columns_def split: if_splits sum.splits)

lemma grow_assignInvitationRoles [grow_rules]:
  "hoare (grown s0) (assignInvitationRoles orgID k roleIDs) (\<lambda>_. grown s0)"
  by (intro hoareI)
    (auto simp: assignInvitationRoles_def insert_invitation_roles_def prog_simps ok_def refuse_def grown_def role_columns_def split: if_splits)

lemma grow_update_invitation [grow_rules]: "hoare (grown s0) (update_invitation k f) (\<lambda>_. grown s0)"
  by (intro hoareI) (auto simp: update_invitation_def Let_def ok_def refuse_def grown_def role_columns_def split: if_splits)

lemma grow_renew_invitation [grow_rules]: "hoare (grown s0) (renew_invitation k hash expires) (\<lambda>_. grown s0)"
  by (intro hoareI)
    (auto simp: renew_invitation_def update_invitation_def Let_def ok_def refuse_def grown_def role_columns_def split: if_splits)

lemma grow_delete_invitation [grow_rules]: "hoare (grown s0) (delete_invitation k) (\<lambda>_. grown s0)"
  by (intro hoareI) (auto simp: delete_invitation_def ok_def refuse_def grown_def role_columns_def split: if_splits)

lemmas grow_control = hoare_keep_bindp hoare_open_keeps hoare_if hoare_refuse

lemma methods_grow:
  "keeps (grown s0) (PgUpdateOrganization c orgID name)" "keeps (grown s0) (PgDeleteOrganization c orgID)"
  "keeps (grown s0) (PgCreateOrganization c org defs)" "keeps (grown s0) (PgAddMember c orgID userID roleIDs invitedBy at)"
  "keeps (grown s0) (PgCreateRole c orgID role keys)" "keeps (grown s0) (PgUpdateRole c orgID roleID name description)"
  "keeps (grown s0) (PgReplaceRolePermissions c orgID roleID keys)"
proof -
  show "keeps (grown s0) (PgUpdateOrganization c orgID name)"
    unfolding PgUpdateOrganization_def by (intro tx_keeps grow_control grow_rules)
  show "keeps (grown s0) (PgDeleteOrganization c orgID)"
    unfolding PgDeleteOrganization_def by (intro keeps_intros tx_keeps grow_control grow_rules)
  have slug: "hoare (grown s0) (attempt (insert_org row) (\<lambda>r. case r of
       Inl e \<Rightarrow> if isUniqueViolation e then refuse (Raised (OrgsErr ErrSlugTaken)) else refuse e
     | Inr _ \<Rightarrow> ok ())) (\<lambda>_. grown s0)" for row
    by (rule hoare_attempt[OF grow_insert_org]) (auto simp: refuse_def intro: hoare_ok)
  show "keeps (grown s0) (PgCreateOrganization c org defs)"
    unfolding PgCreateOrganization_def Let_def by (intro tx_keeps hoare_keep_bindp[OF slug] grow_control grow_rules hoare_ok)
  have row: "hoare (grown s0) (attempt (insert_membership c ms) (\<lambda>r. case r of
       Inl e \<Rightarrow> if isUniqueViolation e then refuse (Raised (OrgsErr ErrAlreadyMember))
                else if isForeignKeyViolation e then refuse (Raised orgs_not_found) else refuse e
     | Inr row \<Rightarrow> ok row)) (\<lambda>_. grown s0)" for ms
    by (rule hoare_attempt[OF grow_insert_membership]) (auto simp: refuse_def intro: hoare_ok)
  show "keeps (grown s0) (PgAddMember c orgID userID roleIDs invitedBy at)"
    unfolding PgAddMember_def Let_def by (intro keeps_intros tx_keeps hoare_keep_bindp[OF row] grow_control grow_rules hoare_ok)
  show "keeps (grown s0) (PgCreateRole c orgID role keys)"
    unfolding PgCreateRole_def Let_def by (intro keeps_intros tx_keeps grow_control grow_rules)
  show "keeps (grown s0) (PgUpdateRole c orgID roleID name description)"
    unfolding PgUpdateRole_def by (intro tx_keeps grow_control grow_rules)
  show "keeps (grown s0) (PgReplaceRolePermissions c orgID roleID keys)"
    unfolding PgReplaceRolePermissions_def by (intro tx_keeps grow_control grow_rules hoare_query)
qed

lemma other_methods_grow:
  "keeps (grown s0) (PgGrantSystemRole c userID key grantedBy)" "keeps (grown s0) (PgRevokeSystemRole c userID key)"
  "keeps (grown s0) (PgInviteMember c orgID email hash roleIDs invitedBy expiresAt at)"
  "keeps (grown s0) (PgAcceptInvitation c invitationID userID at)" "keeps (grown s0) (PgDeclineInvitation c invitationID)"
  "keeps (grown s0) (PgWithdrawInvitation c orgID invitationID)"
  "keeps (grown s0) (PgReissueInvitation c orgID invitationID hash expiresAt)"
proof -
  have granted: "hoare (grown s0) (attempt (insert_system_role row) (\<lambda>r. case r of
      Inl e \<Rightarrow> if isNotFound e then ok () else refuse e | Inr _ \<Rightarrow> recordEnt c event)) (\<lambda>_. grown s0)" for row event
    by (intro hoareI) (auto simp: attempt_eq insert_system_role_def ok_def refuse_def grown_def role_columns_def
        dest!: recordEnt_events split: if_splits sum.splits)
  show "keeps (grown s0) (PgGrantSystemRole c userID key grantedBy)"
    unfolding PgGrantSystemRole_def by (intro tx_keeps granted)
  show "keeps (grown s0) (PgRevokeSystemRole c userID key)"
    unfolding PgRevokeSystemRole_def by (intro tx_keeps grow_control grow_rules hoare_ok)
  have inserted: "hoare (grown s0) (attempt (insert_invitation row) (\<lambda>r. case r of
      Inl e \<Rightarrow> if isUniqueViolation e then refuse (Raised (OrgsErr ErrAlreadyMember)) else refuse e
    | Inr _ \<Rightarrow> ok ())) (\<lambda>_. grown s0)" for row
    by (rule hoare_attempt[OF grow_insert_invitation]) (auto simp: refuse_def intro: hoare_ok)
  show "keeps (grown s0) (PgInviteMember c orgID email hash roleIDs invitedBy expiresAt at)"
    unfolding PgInviteMember_def Let_def
    by (intro keeps_intros tx_keeps hoare_keep_bindp[OF inserted] grow_control grow_rules hoare_query)
  have row: "hoare (grown s0) (attempt (insert_membership c ms) (\<lambda>r. case r of
       Inl e \<Rightarrow> if isUniqueViolation e then refuse (Raised (OrgsErr ErrAlreadyMember)) else refuse e
     | Inr row \<Rightarrow> ok row)) (\<lambda>_. grown s0)" for ms
    by (rule hoare_attempt[OF grow_insert_membership]) (auto simp: refuse_def intro: hoare_ok)
  show "keeps (grown s0) (PgAcceptInvitation c invitationID userID at)"
    unfolding PgAcceptInvitation_def
    by (intro tx_keeps hoare_keep_bindp[OF row] grow_control grow_rules hoare_query)
  show "keeps (grown s0) (PgDeclineInvitation c invitationID)"
    unfolding PgDeclineInvitation_def by (intro tx_keeps grow_control grow_rules)
  show "keeps (grown s0) (PgWithdrawInvitation c orgID invitationID)"
    unfolding PgWithdrawInvitation_def by (intro tx_keeps grow_control grow_rules)
  show "keeps (grown s0) (PgReissueInvitation c orgID invitationID hash expiresAt)"
    unfolding PgReissueInvitation_def by (intro keeps_intros tx_keeps grow_control grow_rules)
qed

section \<open>Statements behind the guard\<close>

lemma owner_stays:
  assumes "is_owner_row s org ms" "ms' \<in> set (db_memberships s')" "ms_ID ms' = ms_ID ms" "ms_UserID ms' = ms_UserID ms"
    "ms_OrganizationID ms' = ms_OrganizationID ms" "ms_Status ms' = MembershipActive" "db_accounts s' = db_accounts s"
    "\<And>r o'. (ms_ID ms, r) \<in> set (db_membershipRoles s) \<Longrightarrow> (r, o', RoleOwner) \<in> set (role_columns s) \<Longrightarrow>
       (ms_ID ms, r) \<in> set (db_membershipRoles s') \<and> (r, o', RoleOwner) \<in> set (role_columns s')"
  shows "owned_rows s' org"
proof -
  obtain r o' where "(ms_ID ms, r) \<in> set (db_membershipRoles s)" "(r, o', RoleOwner) \<in> set (role_columns s)"
    using assms(1) by (auto simp: is_owner_row_def holds_owner_columns)
  then have "holds_owner_role s' (ms_ID ms')" using assms(3,8) unfolding holds_owner_columns by metis
  then have "is_owner_row s' org ms'"
    using assms(1-7) by (simp add: is_owner_row_def liveUser_def db_users_def)
  then show ?thesis by (auto simp: owned_rows_iff)
qed

text \<open>An owner of the organization that the subject's change does not reach.\<close>

lemma other_owner:
  assumes "db_wf s" "owned_rows s org"
    "RefuseLastOwnerLoss losing \<lparr>ow_Owners = int (length (owner_rows orgID s)),
      ow_SubjectHoldsOwner = (memberID \<in> ms_ID ` set (owner_rows orgID s))\<rparr> = Inr u" "losing"
  obtains ms where "is_owner_row s org ms" "\<not> (ms_ID ms = memberID \<and> ms_OrganizationID ms = orgID)"
proof (cases "org = orgID")
  case True
  then show ?thesis using guard_leaves_owner_row[OF assms(1,2)] assms(3,4) that by auto
next
  case False
  obtain ms where "is_owner_row s org ms" using assms(2) by (auto simp: owned_rows_iff)
  then show ?thesis using False that by (auto simp: is_owner_row_def)
qed

lemma set_where_in: "r \<in> set rows \<Longrightarrow> (if P r then f r else r) \<in> set (set_where P f rows)"
  by (simp add: set_where_def)

lemma SetMemberStatus_rows:
  assumes wf: "db_wf s" and owned: "owned_rows s org"
  shows "owned_rows (snd (PgSetMemberStatus c orgID memberID status at (RefuseLastOwnerLoss (\<not> GrantsPermissions status)) s)) org"
  unfolding PgSetMemberStatus_def
proof (rule tx_cases, fact owned)
  fix x s' assume run: "bindp (applyOwnerGuard orgID memberID (RefuseLastOwnerLoss (\<not> GrantsPermissions status))) (\<lambda>_.
    bindp (update_status orgID memberID status at) (\<lambda>n.
      if n = 0 then refuse (Raised orgs_not_found)
      else recordAboutMemberEnt c orgID memberID (no_entry\<lparr>ev_OrganizationID := Some orgID,
        ev_Action := (if GrantsPermissions status then ActionMemberReinstated else ActionMemberSuspended),
        ev_Detail := status_text status\<rparr>))) s = (Inr x, s')"
  let ?P = "\<lambda>ms. ms_ID ms = memberID \<and> ms_OrganizationID ms = orgID"
  let ?f = "\<lambda>ms. ms\<lparr>ms_Status := status, ms_JoinedAt := (if GrantsPermissions status
    then Some (case ms_JoinedAt ms of None \<Rightarrow> at | Some t \<Rightarrow> t) else ms_JoinedAt ms)\<rparr>"
  from run obtain u s0 n s1 where guard: "applyOwnerGuard orgID memberID (RefuseLastOwnerLoss (\<not> GrantsPermissions status)) s = (Inr u, s0)"
    and upd: "update_status orgID memberID status at s0 = (Inr n, s1)"
    and rest: "(if n = 0 then refuse (Raised orgs_not_found)
      else recordAboutMemberEnt c orgID memberID (no_entry\<lparr>ev_OrganizationID := Some orgID,
        ev_Action := (if GrantsPermissions status then ActionMemberReinstated else ActionMemberSuspended),
        ev_Detail := status_text status\<rparr>)) s1 = (Inr x, s')"
    by (auto simp: bindp_Inr)
  note passed = applyOwnerGuard_eq[OF guard]
  have s1: "s1 = s\<lparr>db_memberships := set_where ?P ?f (db_memberships s)\<rparr>"
    using upd passed by (auto simp: update_status_def Let_def ok_def refuse_def split: if_splits)
  obtain es where s': "s' = s1\<lparr>db_events := db_events s1 @ es\<rparr>"
    using rest by (auto simp: refuse_def dest!: recordAboutMemberEnt_events split: if_splits)
  obtain ms where ms: "is_owner_row s org ms" "GrantsPermissions status \<or> \<not> ?P ms"
  proof (cases "GrantsPermissions status")
    case True
    then show ?thesis using owned that by (auto simp: owned_rows_iff)
  next
    case False
    then show ?thesis using other_owner[OF wf owned, of "\<not> GrantsPermissions status" orgID memberID u] passed that by auto
  qed
  have there: "(if ?P ms then ?f ms else ms) \<in> set (db_memberships s')"
    using ms(1) set_where_in[of ms "db_memberships s" ?P ?f] by (simp add: s' s1 is_owner_row_def)
  show "owned_rows s' org"
    using ms by (intro owner_stays[OF ms(1) there]) (auto simp: s' s1 role_columns_def is_owner_row_def GrantsPermissions_def)
qed

lemma RemoveMember_rows:
  assumes wf: "db_wf s" and owned: "owned_rows s org"
  shows "owned_rows (snd (PgRemoveMember c orgID memberID action (RefuseLastOwnerLoss True) s)) org"
  unfolding PgRemoveMember_def
proof (rule tx_cases, fact owned)
  let ?e = "no_entry\<lparr>ev_OrganizationID := Some orgID, ev_Action := action\<rparr>"
  fix x s' assume run: "bindp (applyOwnerGuard orgID memberID (RefuseLastOwnerLoss True)) (\<lambda>_.
    bindp (recordAboutMemberEnt c orgID memberID ?e) (\<lambda>_. bindp (delete_membership orgID memberID) (\<lambda>n.
      if n = 0 then refuse (Raised orgs_not_found) else ok ()))) s = (Inr x, s')"
  let ?P = "\<lambda>ms. ms_ID ms = memberID \<and> ms_OrganizationID ms = orgID"
  from run obtain u s0 s1 n s2 where guard: "applyOwnerGuard orgID memberID (RefuseLastOwnerLoss True) s = (Inr u, s0)"
    and entry: "recordAboutMemberEnt c orgID memberID ?e s0 = (Inr (), s1)"
    and del: "delete_membership orgID memberID s1 = (Inr n, s2)" "n \<noteq> 0" "s' = s2"
    by (auto simp: bindp_Inr ok_def refuse_def split: if_splits)
  note passed = applyOwnerGuard_eq[OF guard]
  obtain es where "s1 = s\<lparr>db_events := es\<rparr>" using recordAboutMemberEnt_events[OF entry] passed by auto
  then have s': "s' = s\<lparr>db_events := es, db_memberships := filter (\<lambda>ms. \<not> ?P ms) (db_memberships s),
      db_membershipRoles := filter (\<lambda>(k, _). k \<noteq> memberID) (db_membershipRoles s)\<rparr>"
    using del by (auto simp: delete_membership_def Let_def ok_def split: if_splits)
  obtain gone where gone: "gone \<in> set (db_memberships s)" "?P gone"
    using del \<open>s1 = _\<close> by (auto simp: delete_membership_def Let_def ok_def affected_def filter_empty_conv split: if_splits)
  obtain ms where ms: "is_owner_row s org ms" "\<not> ?P ms"
    using other_owner[OF wf owned, of True orgID memberID u] passed by auto
  moreover have "ms_ID ms \<noteq> memberID"
    using member_key_unique[OF wf, of ms gone] ms gone by (auto simp: is_owner_row_def)
  ultimately show "owned_rows s' org"
    by (intro owner_stays[OF ms(1), of ms]) (auto simp: s' role_columns_def is_owner_row_def)
qed

lemma ReplaceMemberRoles_rows:
  assumes wf: "db_wf s" and owned: "owned_rows s org"
    and losing: "\<not> losing \<Longrightarrow> \<forall>r \<in> set (db_roles s). r_OrganizationID r = orgID \<and> r_Key r = RoleOwner \<longrightarrow> r_ID r \<in> set roleIDs"
  shows "owned_rows (snd (PgReplaceMemberRoles c orgID memberID roleIDs (RefuseLastOwnerLoss losing) s)) org"
proof (cases "fst (PgReplaceMemberRoles c orgID memberID roleIDs (RefuseLastOwnerLoss losing) s)")
  case (Inl e)
  then show ?thesis using owned
    by (simp add: PgReplaceMemberRoles_def translate_run withEntTx_def split: prod.splits sum.splits)
next
  case (Inr x)
  then obtain s' where run: "PgReplaceMemberRoles c orgID memberID roleIDs (RefuseLastOwnerLoss losing) s = (Inr x, s')"
    by (metis prod.collapse)
  from PgReplaceMemberRoles_run[OF wf run] obtain ids es where *: "set ids = set roleIDs" "member_in orgID memberID s"
    "RefuseLastOwnerLoss losing \<lparr>ow_Owners = int (length (owner_rows orgID s)),
      ow_SubjectHoldsOwner = (memberID \<in> ms_ID ` set (owner_rows orgID s))\<rparr> = Inr ()"
    "s' = s\<lparr>db_membershipRoles := filter (\<lambda>(k, _). k \<noteq> memberID) (db_membershipRoles s) @ map (Pair memberID) ids, db_events := es\<rparr>"
    by blast
  obtain subject where subject: "subject \<in> set (db_memberships s)" "ms_ID subject = memberID" "ms_OrganizationID subject = orgID"
    using *(2) by (auto simp: member_in_def)
  have "owned_rows s' org"
  proof (cases losing)
    case True
    then obtain ms where ms: "is_owner_row s org ms" "\<not> (ms_ID ms = memberID \<and> ms_OrganizationID ms = orgID)"
      using other_owner[OF wf owned *(3)] by auto
    moreover have "ms_ID ms \<noteq> memberID"
      using member_key_unique[OF wf, of ms subject] ms subject by (auto simp: is_owner_row_def)
    ultimately show ?thesis
      by (intro owner_stays[OF ms(1), of ms]) (auto simp: *(4) role_columns_def is_owner_row_def)
  next
    case False
    obtain ms where ms: "is_owner_row s org ms" using owned by (auto simp: owned_rows_iff)
    have "r \<in> set roleIDs" if "ms_ID ms = memberID" "(memberID, r) \<in> set (db_membershipRoles s)" "(r, o', RoleOwner) \<in> set (role_columns s)" for r o'
    proof -
      note held = that
      have "assigned_ok (member_keys s) (role_columns s) (db_membershipRoles s)" using wf by (simp add: db_wf_def)
      then obtain u o'' key where a: "(memberID, u, o'') \<in> set (member_keys s)" "(r, o'', key) \<in> set (role_columns s)"
        using held(2) by (force simp: assigned_ok_def)
      from a(1) obtain m where "m \<in> set (db_memberships s)" "ms_ID m = memberID" "ms_OrganizationID m = o''"
        by (auto simp: member_keys_def)
      then have "o'' = orgID" using subject member_key_unique[OF wf, of m subject] by simp
      moreover have "distinct (map fst (role_columns s))" using wf by (simp add: db_wf_def roles_ok_def)
      then have "(o'', key) = (o', RoleOwner)" by (rule eq_key_imp_eq_value[OF _ a(2) held(3)])
      ultimately show ?thesis using losing[OF False] a(2) by (force simp: role_columns_def)
    qed
    then show ?thesis using ms
      by (intro owner_stays[OF ms, of ms]) (auto simp: *(1,4) role_columns_def is_owner_row_def)
  qed
  then show ?thesis using run by simp
qed

lemma DeleteRole_rows:
  assumes owned: "owned_rows s org"
  shows "owned_rows (snd (PgDeleteRole c orgID roleID RefuseRoleInUse s)) org"
  unfolding PgDeleteRole_def
proof (rule tx_cases, fact owned)
  fix x s' assume "bindp (delete_role_checks c orgID roleID RefuseRoleInUse) (\<lambda>row. delete_role_row (r_ID row)) s = (Inr x, s')"
  then obtain row s1 where checks: "delete_role_checks c orgID roleID RefuseRoleInUse s = (Inr row, s1)"
    and del: "delete_role_row (r_ID row) s1 = (Inr x, s')"
    by (auto simp: bindp_Inr)
  have "r_ID row = roleID \<and> affected (\<lambda>(_, k). k = roleID) (db_membershipRoles s) = 0 \<and> (\<exists>es. s1 = s\<lparr>db_events := es\<rparr>)"
    using checks unfolding delete_role_checks_def
    by (auto simp: bindp_Inr query_eq raised_eq only_row_eq RefuseRoleInUse_def ok_def dest!: lockOrganization_eq only_row_in recordEnt_events
        split: if_splits)
  then obtain es where e: "r_ID row = roleID" "\<And>k r. (k, r) \<in> set (db_membershipRoles s) \<Longrightarrow> r \<noteq> roleID" "s1 = s\<lparr>db_events := es\<rparr>"
    by (auto simp: affected_def filter_empty_conv)
  obtain ms where ms: "is_owner_row s org ms" using owned by (auto simp: owned_rows_iff)
  show "owned_rows s' org"
    using del e ms by (intro owner_stays[OF ms, of ms])
      (force simp: delete_role_row_def ok_def refuse_def role_columns_def is_owner_row_def split: if_splits)+
qed

section \<open>Steps\<close>

text \<open>What the rest of the program does to the accounts, as far as organizations can tell: rows are added and changed, none is
  taken away, and a live account stays live.\<close>

definition accounts_kept :: "PgTables \<Rightarrow> PgUsers \<Rightarrow> bool" where
  "accounts_kept s accounts \<longleftrightarrow> distinct (map u_ID (pt_users accounts)) \<and>
     (\<forall>u \<in> set (db_users s). \<exists>u' \<in> set (pt_users accounts). u_ID u' = u_ID u \<and> (\<not> UserIsDeleted u \<longrightarrow> \<not> UserIsDeleted u'))"

inductive db_step :: "PgTables \<Rightarrow> PgTables \<Rightarrow> bool" where
  Accounts: "accounts_kept s accounts \<Longrightarrow> db_step s (s\<lparr>db_accounts := accounts\<rparr>)"
| UpdateOrganization: "db_step s (snd (PgUpdateOrganization c orgID name s))"
| DeleteOrganization: "db_step s (snd (PgDeleteOrganization c orgID s))"
| CreateOrganization: "db_step s (snd (PgCreateOrganization c org defs s))"
| AddMember: "db_step s (snd (PgAddMember c orgID userID roleIDs invitedBy at s))"
| SetMemberStatus:
    "db_step s (snd (PgSetMemberStatus c orgID memberID status at (RefuseLastOwnerLoss (\<not> GrantsPermissions status)) s))"
| RemoveMember: "db_step s (snd (PgRemoveMember c orgID memberID action (RefuseLastOwnerLoss True) s))"
| ReplaceMemberRoles:
    "(\<not> losing \<Longrightarrow> \<forall>r \<in> set (db_roles s). r_OrganizationID r = orgID \<and> r_Key r = RoleOwner \<longrightarrow> r_ID r \<in> set roleIDs) \<Longrightarrow>
       db_step s (snd (PgReplaceMemberRoles c orgID memberID roleIDs (RefuseLastOwnerLoss losing) s))"
| CreateRole: "db_step s (snd (PgCreateRole c orgID role keys s))"
| UpdateRole: "db_step s (snd (PgUpdateRole c orgID roleID name description s))"
| DeleteRole: "db_step s (snd (PgDeleteRole c orgID roleID RefuseRoleInUse s))"
| ReplaceRolePermissions: "db_step s (snd (PgReplaceRolePermissions c orgID roleID keys s))"
| GrantSystemRole: "db_step s (snd (PgGrantSystemRole c userID key grantedBy s))"
| RevokeSystemRole: "db_step s (snd (PgRevokeSystemRole c userID key s))"
| InviteMember: "db_step s (snd (PgInviteMember c orgID email hash roleIDs invitedBy expiresAt at s))"
| AcceptInvitation: "db_step s (snd (PgAcceptInvitation c invitationID userID at s))"
| DeclineInvitation: "db_step s (snd (PgDeclineInvitation c invitationID s))"
| WithdrawInvitation: "db_step s (snd (PgWithdrawInvitation c orgID invitationID s))"
| ReissueInvitation: "db_step s (snd (PgReissueInvitation c orgID invitationID hash expiresAt s))"

lemma kept_state: "keeps P m \<Longrightarrow> P s \<Longrightarrow> P (snd (m s))"
  by (simp add: keeps_def)

lemma accounts_kept_wf: "accounts_kept s accounts \<Longrightarrow> db_wf s \<Longrightarrow> db_wf (s\<lparr>db_accounts := accounts\<rparr>)"
proof -
  assume kept: "accounts_kept s accounts" and wf: "db_wf s"
  have "u_ID ` set (db_users s) \<subseteq> u_ID ` set (pt_users accounts)"
    using kept unfolding accounts_kept_def by (metis image_eqI image_subsetI)
  then have "members_ok (map u_ID (pt_users accounts)) (map org_ID (db_orgs s)) (member_keys s)"
    using kept wf by (auto simp: accounts_kept_def db_wf_def members_ok_def)
  then show ?thesis using wf by (simp add: db_wf_def key_lists db_users_def)
qed

lemma accounts_kept_owned: "accounts_kept s accounts \<Longrightarrow> owned_rows s orgID \<Longrightarrow> owned_rows (s\<lparr>db_accounts := accounts\<rparr>) orgID"
proof -
  assume kept: "accounts_kept s accounts" and "owned_rows s orgID"
  then obtain ms where ms: "is_owner_row s orgID ms" by (auto simp: owned_rows_iff)
  then obtain u where "u \<in> set (db_users s)" "u_ID u = ms_UserID ms" "\<not> UserIsDeleted u"
    by (auto simp: is_owner_row_def liveUser_def)
  then obtain u' where "u' \<in> set (pt_users accounts)" "u_ID u' = ms_UserID ms" "\<not> UserIsDeleted u'"
    using kept unfolding accounts_kept_def by metis
  then have "is_owner_row (s\<lparr>db_accounts := accounts\<rparr>) orgID ms"
    using ms by (auto simp: is_owner_row_def liveUser_def db_users_def holds_owner_role_def)
  then show ?thesis by (auto simp: owned_rows_iff)
qed

lemma db_step_wf: "db_step s s' \<Longrightarrow> db_wf s \<Longrightarrow> db_wf s'"
  by (induction rule: db_step.induct) (blast intro: accounts_kept_wf methods_keep[THEN kept_state])+

lemma grown_state: "(\<And>s0. keeps (grown s0) m) \<Longrightarrow> owned_rows s orgID \<Longrightarrow> owned_rows (snd (m s)) orgID"
  by (rule grown_owned[OF kept_state[of "grown s" m s]]) simp_all

lemma db_step_owned: "db_step s s' \<Longrightarrow> db_wf s \<Longrightarrow> owned_rows s orgID \<Longrightarrow> owned_rows s' orgID"
proof (induction rule: db_step.induct)
  case (Accounts s accounts)
  then show ?case by (simp add: accounts_kept_owned)
next
  case (ReplaceMemberRoles losing s)
  then show ?case by (intro ReplaceMemberRoles_rows)
qed (blast intro: SetMemberStatus_rows RemoveMember_rows DeleteRole_rows
      methods_grow[THEN grown_state] other_methods_grow[THEN grown_state])+

lemma db_steps_keep: "db_step\<^sup>*\<^sup>* s s' \<Longrightarrow> db_wf s \<Longrightarrow> db_wf s' \<and> (owned_rows s orgID \<longrightarrow> owned_rows s' orgID)"
  by (induction rule: rtranclp_induct) (auto dest: db_step_wf db_step_owned)

section \<open>Counting owners\<close>

text \<open>The listing's count, over three joins, and the rule's, over one query with sub-selects, are one number.\<close>

lemma activeOwners_rows: "db_wf s \<Longrightarrow> activeOwners s orgID = int (length (owner_rows orgID s))"
proof -
  assume wf: "db_wf s"
  let ?ids = "concat (map (\<lambda>(memberID, roleID).
       map ms_ID (filter (\<lambda>ms. ms_ID ms = memberID \<and> ms_OrganizationID ms = orgID \<and> ms_Status ms = MembershipActive \<and>
         liveUser s ms \<and> (\<exists>r \<in> set (db_roles s). r_ID r = roleID \<and> r_Key r = ''owner'')) (db_memberships s)))
       (db_membershipRoles s))"
  have dist: "distinct (map ms_ID (owner_rows orgID s))"
    unfolding owner_rows_def
    using wf by (intro distinct_filter_map) (simp add: db_wf_def members_ok_def member_keys_def comp_def)
  define own where "own roleID \<longleftrightarrow> (\<exists>r \<in> set (db_roles s). r_ID r = roleID \<and> r_Key r = ''owner'')" for roleID
  have counted: "k \<in> set ?ids \<longleftrightarrow> (\<exists>ms. is_owner_row s orgID ms \<and> ms_ID ms = k)" for k
  proof
    assume "k \<in> set ?ids"
    then obtain roleID ms where "(k, roleID) \<in> set (db_membershipRoles s)" "ms \<in> set (db_memberships s)" "ms_ID ms = k"
      "ms_OrganizationID ms = orgID" "ms_Status ms = MembershipActive" "liveUser s ms" "own roleID"
      by (auto simp: own_def)
    then show "\<exists>ms. is_owner_row s orgID ms \<and> ms_ID ms = k"
      by (auto simp: is_owner_row_def holds_owner_role_def RoleOwner_def own_def)
  next
    assume "\<exists>ms. is_owner_row s orgID ms \<and> ms_ID ms = k"
    then obtain roleID ms where row: "(k, roleID) \<in> set (db_membershipRoles s)" "ms \<in> set (db_memberships s)" "ms_ID ms = k"
      "ms_OrganizationID ms = orgID" "ms_Status ms = MembershipActive" "liveUser s ms" "own roleID"
      by (auto simp: is_owner_row_def holds_owner_role_def RoleOwner_def own_def)
    show "k \<in> set ?ids"
      unfolding set_concat set_map UN_iff image_image
      by (rule bexI[OF _ row(1)]) (use row(2-) in \<open>auto simp: own_def\<close>)
  qed
  have "k \<in> ms_ID ` set (owner_rows orgID s) \<longleftrightarrow> (\<exists>ms. is_owner_row s orgID ms \<and> ms_ID ms = k)" for k
    by (auto simp: set_owner_rows image_iff)
  with counted have same: "set ?ids = ms_ID ` set (owner_rows orgID s)" by (intro set_eqI) (simp only:)
  have "length (keep_first [] ?ids) = card (set (keep_first [] ?ids))"
    by (rule distinct_card[symmetric], rule distinct_keep_first) (rule distinct.simps(1)[THEN iffD2, OF TrueI])
  also have "set (keep_first [] ?ids) = set (map ms_ID (owner_rows orgID s))"
    unfolding set_keep_first same by (simp only: set_map set_simps Un_empty_left)
  also have "card (set (map ms_ID (owner_rows orgID s))) = length (owner_rows orgID s)"
    using distinct_card[OF dist] by (simp only: length_map)
  finally show ?thesis unfolding activeOwners_def by (simp only:)
qed

end
