(* ===== verification/Pg_Orgs_Properties.thy ===== *)
theory Pg_Orgs_Properties
  imports Pg_Machine Demo_Store Demo_Users
begin

text \<open>
  What the program guarantees about organizations when it runs on Postgres: authorization is what the rows say, authority is
  not exceeded, the last owner stays, an invitation becomes what it promised; shown on a small database of the same content as the
  in-memory demonstration store.
\<close>

section \<open>A small database\<close>

definition pg_demo_user :: "nat \<Rightarrow> string \<Rightarrow> User" where
  "pg_demo_user k email = demo_user\<lparr>u_ID := UUID k, u_Email := email\<rparr>"

definition pg_demo :: PgTables where
  "pg_demo = NewPgTables
     \<lparr>db_accounts := NewPgUsers\<lparr>pt_users := [pg_demo_user 10 ''al@x.io'', pg_demo_user 11 ''bo@x.io'', pg_demo_user 12 ''eve@x.io'']\<rparr>,
      db_orgs := [\<lparr>org_ID = demo_org, org_DeletedAt = None, org_IsProtected = False, org_Slug = ''acme'', org_Name = ''Acme''\<rparr>],
      db_memberships := [demo_member demo_owner 10, demo_member demo_admin 11],
      db_roles := [demo_role 4 RoleOwner True, demo_role 5 RoleAdmin True, demo_role 6 ''auditor'' False],
      db_rolePermissions := [(UUID 4, PermOrganizationDelete), (UUID 4, PermMembersRemove), (UUID 4, PermMembersRolesAssign),
        (UUID 5, PermMembersRemove), (UUID 5, PermMembersRolesAssign), (UUID 6, PermMembersRemove)],
      db_membershipRoles := [(demo_owner, UUID 4), (demo_admin, UUID 5)],
      db_systemRoles := [\<lparr>usr_UserID = UUID 10, usr_RoleKey = RolePlatformAdmin, usr_GrantedBy = None, usr_CreatedAt = 100\<rparr>],
      db_invitations := [demo_invitation], db_invitationRoles := [(UUID 7, UUID 5)]\<rparr>"

lemmas pg_demo_defs = pg_demo_def NewPgTables_def NewPgUsers_def pg_demo_user_def demo_user_def demo_member_def demo_role_def
  demo_invitation_def demo_org_def demo_owner_def demo_admin_def

lemma pg_demo_wf: "db_wf pg_demo"
proof -
  have "PermOrganizationDelete \<noteq> PermMembersRemove" "PermOrganizationDelete \<noteq> PermMembersRolesAssign"
    "PermMembersRemove \<noteq> PermMembersRolesAssign"
    by code_simp+
  then show ?thesis
    by (simp add: db_wf_def parts_ok key_lists db_users_def pg_demo_defs role_key_defs)
qed

section \<open>Authorization\<close>

lemma pg_keys_rows:
  "pg_active s u org \<and> key \<in> pg_keys s u org \<longleftrightarrow>
     (\<exists>ms roleID. ms \<in> set (db_memberships s) \<and> ms_UserID ms = u \<and> ms_OrganizationID ms = org \<and>
        ms_Status ms = MembershipActive \<and> liveUser s ms \<and> (\<exists>o' \<in> set (live_orgs s). org_ID o' = org) \<and>
        (ms_ID ms, roleID) \<in> set (db_membershipRoles s) \<and> (roleID, key) \<in> set (db_rolePermissions s))"
  unfolding pg_active_def pg_keys_def active_rows_def set_filter mem_Collect_eq by blast

text \<open>C3. Over the Postgres tables, a request is authorized exactly when the rows say so: an organization's permission by
  an active membership of a live account in a live organization with a role that carries it, the installation's by the
  platform role of a live account.\<close>

theorem postgres_authorizes_exactly:
  assumes "db_wf s"
  shows "(\<exists>g. Authorize pg_authz_repo req s = Inr g) \<longleftrightarrow>
    (rq_Permission req \<in> set (InScope ScopeOrganization) \<and> rq_Org req \<noteq> uuid_Nil \<and>
       (\<exists>ms roleID. ms \<in> set (db_memberships s) \<and> ms_UserID ms = rq_Actor req \<and> ms_OrganizationID ms = rq_Org req \<and>
          ms_Status ms = MembershipActive \<and> liveUser s ms \<and> (\<exists>o' \<in> set (live_orgs s). org_ID o' = rq_Org req) \<and>
          (ms_ID ms, roleID) \<in> set (db_membershipRoles s) \<and> (roleID, rq_Permission req) \<in> set (db_rolePermissions s))) \<or>
    (rq_Permission req \<in> set (InScope ScopeSystem) \<and> rq_Org req = uuid_Nil \<and> RolePlatformAdmin \<in> pg_system_keys s (rq_Actor req))"
  unfolding pg_authz.authorized_iff[OF assms, of req] pg_keys_rows by (rule refl)

lemma pg_demo_live: "liveUser pg_demo (demo_member demo_admin 11)" "live_orgs pg_demo = db_orgs pg_demo"
  by (simp_all add: liveUser_def db_users_def live_orgs_def UserIsDeleted_def OrganizationIsDeleted_def pg_demo_defs)

lemma postgres_authorizes_exactly_witness:
  "\<exists>g. Authorize pg_authz_repo \<lparr>rq_Actor = UUID 11, rq_Org = demo_org, rq_Permission = PermMembersRemove\<rparr> pg_demo = Inr g"
proof -
  have "demo_member demo_admin 11 \<in> set (db_memberships pg_demo)" "(demo_admin, UUID 5) \<in> set (db_membershipRoles pg_demo)"
    "(UUID 5, PermMembersRemove) \<in> set (db_rolePermissions pg_demo)" "\<exists>o' \<in> set (live_orgs pg_demo). org_ID o' = demo_org"
    unfolding pg_demo_live by (simp_all add: pg_demo_def)
  then show ?thesis
    using postgres_authorizes_exactly[OF pg_demo_wf, of "\<lparr>rq_Actor = UUID 11, rq_Org = demo_org, rq_Permission = PermMembersRemove\<rparr>"]
      pg_demo_live(1) demo_known by (force simp: demo_member_def demo_org_def)
qed

section \<open>Authority\<close>

text \<open>C9. On Postgres too, assigning roles cannot escalate or reach up: when \<open>SetMemberRoles\<close> goes through, every permission
  of every role the member's rows then name is held by the caller, and unless the member is the caller, so was everything
  known they held before.\<close>

theorem postgres_no_escalation:
  assumes "db_wf s" "SetMemberRoles pg_orgs c g mid ids s = (Inr mb, s')"
  shows "(\<forall>k \<in> pg_member_keys s' (OrganizationID g) mid. Known k \<and> Has g k) \<and>
    (pg_member_user s (OrganizationID g) mid = Some (Actor g) \<or>
     (\<forall>k \<in> pg_member_keys s (OrganizationID g) mid. Known k \<longrightarrow> Has g k))"
  using pg_authority.SetMemberRoles_no_escalation[OF assms] by blast

lemma postgres_no_escalation_witness:
  "\<exists>mb s'. SetMemberRoles pg_orgs (demo_call 20) owner_grant demo_admin [UUID 6] pg_demo = (Inr mb, s') \<and>
     (\<forall>k \<in> pg_member_keys s' (OrganizationID owner_grant) demo_admin. Has owner_grant k)"
proof -
  have "succeeds (SetMemberRoles pg_orgs (demo_call 20) owner_grant demo_admin [UUID 6] pg_demo)" by code_simp
  then show ?thesis by (rule succeedsE) (use postgres_no_escalation[OF pg_demo_wf] in blast)
qed

section \<open>The last owner\<close>

text \<open>C6. No run of the repository's methods on Postgres, in any order and between any changes to accounts that delete
  none, takes an organization's last owner away: the rule counts the rows of active memberships whose account is live and that
  hold the owner role. Nor does any break one of the keys and references \<open>db_wf\<close> lists, which are those of memberships, roles,
  role permissions, assignments and invitations; that slugs and invitation tokens are unique and that a role's organization exists
  are not among them.\<close>

theorem postgres_last_owner_kept:
  assumes "db_step\<^sup>*\<^sup>* s s'" "db_wf s" "owner_rows org s \<noteq> []"
  shows "db_wf s' \<and> owner_rows org s' \<noteq> []"
  using db_steps_keep[OF assms(1,2), of org] assms(3) by (simp add: owned_rows_def)

lemma postgres_last_owner_kept_witness:
  "owner_rows demo_org (snd (PgRemoveMember (demo_call 20) demo_org demo_owner ActionMemberRemoved (RefuseLastOwnerLoss True) pg_demo)) \<noteq> []"
proof -
  let ?p = "PgRemoveMember (demo_call 20) demo_org demo_owner ActionMemberRemoved (RefuseLastOwnerLoss True)"
  have "owner_rows demo_org pg_demo \<noteq> []" by code_simp
  moreover have "db_step\<^sup>*\<^sup>* pg_demo (snd (?p pg_demo))" by (rule r_into_rtranclp, rule db_step.RemoveMember)
  ultimately show ?thesis using postgres_last_owner_kept[OF _ pg_demo_wf, of "snd (?p pg_demo)" demo_org] by blast
qed

text \<open>C38. The two places of the Postgres code that count owners, a listing over three joins and a guard over one query
  with sub-selects, count the same rows: the listing of organizations without an owner, taken whole, has exactly the
  live organizations for which the guard finds none.\<close>

theorem postgres_owner_counts_agree:
  assumes "db_wf s" "PgAllOrganizations \<lparr>of_WithoutOwner = True\<rparr> (int (length (db_orgs s))) 0 s = Inr out"
  shows "set out = {\<lparr>os_Organization = o', os_Owners = 0\<rparr> | o'. o' \<in> set (live_orgs s) \<and> owner_rows (org_ID o') s = []}"
proof -
  let ?found = "rev (sort_key org_ID (filter (\<lambda>o'. \<not> OrganizationIsDeleted o' \<and> (True \<longrightarrow> activeOwners s (org_ID o') = 0)) (db_orgs s)))"
  have "length ?found \<le> length (db_orgs s)" by (simp add: length_filter_le)
  then have "take (length (db_orgs s)) ?found = ?found" by (rule take_all)
  then have "out = map (\<lambda>o'. \<lparr>os_Organization = o', os_Owners = activeOwners s (org_ID o')\<rparr>) ?found"
    using assms(2) by (simp add: PgAllOrganizations_def sql_page_def)
  then show ?thesis by (auto simp: live_orgs_def activeOwners_rows[OF assms(1)])
qed

lemma postgres_owner_counts_agree_witness:
  "PgAllOrganizations \<lparr>of_WithoutOwner = True\<rparr> (int (length (db_orgs pg_demo))) 0 pg_demo = Inr []"
proof -
  obtain out where out: "PgAllOrganizations \<lparr>of_WithoutOwner = True\<rparr> (int (length (db_orgs pg_demo))) 0 pg_demo = Inr out"
    by (simp add: PgAllOrganizations_def sql_page_def)
  have "owner_rows demo_org pg_demo \<noteq> []" by code_simp
  then have "set out = {}"
    using postgres_owner_counts_agree[OF pg_demo_wf out] by (auto simp: live_orgs_def pg_demo_def)
  then show ?thesis using out by simp
qed

section \<open>Invitations\<close>

lemma read_invitation_ok:
  "read_invitation k s = Inr v \<Longrightarrow> \<exists>row. filter (\<lambda>i. inv_ID i = k) (db_invitations s) = [row] \<and> iv_ID v = inv_ID row \<and> iv_Email v = inv_Email row"
  by (auto simp: read_invitation_def only_row_eq split: sum.splits)

lemma only_row_first: "first_row rows = Inr r \<Longrightarrow> r \<in> set rows"
  by (cases rows) auto

text \<open>The row an invitation's token stands for, open and in time.\<close>

lemma PgInvitationByToken_ok:
  assumes "PgInvitationByToken hash now s = Inr v" "now \<noteq> zero_time"
  shows "\<exists>row \<in> set (db_invitations s). inv_TokenHash row = hash \<and> InvitationPending now row \<and> iv_ID v = inv_ID row \<and> iv_Email v = inv_Email row"
proof -
  obtain row where row: "row \<in> set (db_invitations s)" "inv_TokenHash row = hash" "inv_AcceptedAt row = None" "now < inv_ExpiresAt row"
    "read_invitation (inv_ID row) s = Inr v"
    using assms by (auto simp: PgInvitationByToken_def split: sum.splits dest!: only_row_first)
  obtain row' where row': "filter (\<lambda>i. inv_ID i = inv_ID row) (db_invitations s) = [row']" "iv_ID v = inv_ID row'" "iv_Email v = inv_Email row'"
    using read_invitation_ok[OF row(5)] by blast
  have "row \<in> set (filter (\<lambda>i. inv_ID i = inv_ID row) (db_invitations s))" using row(1) by simp
  then have "row' = row" unfolding row'(1) by simp
  then show ?thesis using row row' by (auto simp: InvitationPending_def)
qed

lemma pg_pendingInvitation:
  "pendingInvitation pg_orgs c token s = Inr v \<Longrightarrow> PgInvitationByToken (HashInvitationToken token) (c_now c ClockService) s = Inr v"
  by (auto simp: pendingInvitation_def Let_def pg_directory_def split: sum.splits if_splits)

text \<open>A handler that only renames errors lets a result through.\<close>

lemma attempt_passes:
  "attempt p f s = (Inr y, t) \<Longrightarrow> (\<And>e s y t. f (Inl e) s \<noteq> (Inr y, t)) \<Longrightarrow> (\<And>x. f (Inr x) = ok x) \<Longrightarrow> p s = (Inr y, t)"
  by (cases "fst (p s)") (auto simp: attempt_eq ok_def)

lemma PgAcceptInvitation_run:
  assumes "db_wf s" "PgAcceptInvitation c k u at s = (Inr x, s')"
  obtains inv row ids es where "inv \<in> set (db_invitations s)" "inv_ID inv = k" "inv_AcceptedAt inv = None"
    "\<exists>o' \<in> set (live_orgs s). org_ID o' = inv_OrganizationID inv" "ms_UserID row = u" "ms_OrganizationID row = inv_OrganizationID inv"
    "ms_Status row = MembershipActive" "ms_JoinedAt row = Some at" "ms_InvitedBy row = inv_InvitedBy inv"
    "ms_ID row \<notin> set (map ms_ID (db_memberships s))"
    "(u, inv_OrganizationID inv) \<notin> set (map (\<lambda>m. (ms_UserID m, ms_OrganizationID m)) (db_memberships s))"
    "set ids = {r. (k, r) \<in> set (db_invitationRoles s)}"
    "s' = s\<lparr>db_memberships := db_memberships s @ [row], db_membershipRoles := db_membershipRoles s @ map (Pair (ms_ID row)) ids,
      db_invitations := set_where (\<lambda>i. inv_ID i = k) (\<lambda>i. i\<lparr>inv_AcceptedAt := Some at\<rparr>) (db_invitations s), db_events := es\<rparr>"
proof -
  from assms(2) obtain inv s0 where open': "open_invitation (\<lambda>i. inv_ID i = k) s = (Inr inv, s0)"
    and rest: "bindp (query (\<lambda>s. if affected (\<lambda>o'. org_ID o' = inv_OrganizationID inv) (live_orgs s) = 0
             then Inl (Raised orgs_not_found) else Inr ())) (\<lambda>_.
        bindp (query (\<lambda>s. Inr (map snd (filter (\<lambda>(i, _). i = k) (db_invitationRoles s))))) (\<lambda>roleIDs.
        bindp (attempt (insert_membership c (MembershipActivate at
               \<lparr>ms_ID = uuid_Nil, ms_UserID = u, ms_OrganizationID = inv_OrganizationID inv, ms_Status = MembershipOther [],
                ms_InvitedBy = inv_InvitedBy inv, ms_JoinedAt = None\<rparr>)) (\<lambda>r. case r of
             Inl e \<Rightarrow> if isUniqueViolation e then refuse (Raised (OrgsErr ErrAlreadyMember)) else refuse e
           | Inr row \<Rightarrow> ok row)) (\<lambda>created.
        bindp (assignMembershipRoles (inv_OrganizationID inv) (ms_ID created) roleIDs) (\<lambda>_.
        bindp (update_invitation (inv_ID inv) (\<lambda>i. i\<lparr>inv_AcceptedAt := Some at\<rparr>)) (\<lambda>_.
        recordEnt c (no_entry\<lparr>ev_OrganizationID := Some (inv_OrganizationID inv), ev_SubjectID := Some u,
          ev_Action := ActionMemberAccepted\<rparr>)))))) s0 = (Inr x, s')"
    unfolding PgAcceptInvitation_def tx_ran by (auto simp: bindp_Inr)
  have s0: "s0 = s" using open' by (auto simp: open_invitation_def query_eq)
  have inv: "inv \<in> set (db_invitations s)" "inv_ID inv = k" "inv_AcceptedAt inv = None"
    using hoareD[OF hoare_open_invitation[of "\<lambda>t. t = s"] refl open'] by auto
  let ?roleIDs = "map snd (filter (\<lambda>(i, _). i = k) (db_invitationRoles s))"
  let ?ms = "MembershipActivate at \<lparr>ms_ID = uuid_Nil, ms_UserID = u, ms_OrganizationID = inv_OrganizationID inv,
    ms_Status = MembershipOther [], ms_InvitedBy = inv_InvitedBy inv, ms_JoinedAt = None\<rparr>"
  obtain row s1 s2 s3 where live: "affected (\<lambda>o'. org_ID o' = inv_OrganizationID inv) (live_orgs s) \<noteq> 0"
    and tried: "attempt (insert_membership c ?ms) (\<lambda>r. case r of
             Inl e \<Rightarrow> if isUniqueViolation e then refuse (Raised (OrgsErr ErrAlreadyMember)) else refuse e
           | Inr row \<Rightarrow> ok row) s = (Inr row, s1)"
    and assigned: "assignMembershipRoles (inv_OrganizationID inv) (ms_ID row) ?roleIDs s1 = (Inr (), s2)"
    and spent: "update_invitation k (\<lambda>i. i\<lparr>inv_AcceptedAt := Some at\<rparr>) s2 = (Inr (), s3)"
    and entry: "recordEnt c (no_entry\<lparr>ev_OrganizationID := Some (inv_OrganizationID inv), ev_SubjectID := Some u,
          ev_Action := ActionMemberAccepted\<rparr>) s3 = (Inr x, s')"
    using rest inv(2) unfolding s0 bindp_Inr query_eq by (auto split: if_splits)
  have ins: "insert_membership c ?ms s = (Inr row, s1)"
    by (rule attempt_passes[OF tried]) (simp_all add: refuse_def)
  note row = insert_membership_run[OF ins]
  have wf1: "db_wf s1" using hoareD[OF hoare_insert_membership assms(1) ins] by simp
  obtain ids where ids: "set ids = set ?roleIDs" "s2 = s1\<lparr>db_membershipRoles := db_membershipRoles s1 @ map (Pair (ms_ID row)) ids\<rparr>"
    using assignMembershipRoles_run[OF wf1 assigned] by blast
  obtain es where s': "s' = s3\<lparr>db_events := db_events s3 @ es\<rparr>" using recordEnt_events[OF entry] by blast
  have s3: "s3 = s2\<lparr>db_invitations := set_where (\<lambda>i. inv_ID i = k) (\<lambda>i. i\<lparr>inv_AcceptedAt := Some at\<rparr>) (db_invitations s2)\<rparr>"
    using spent by (auto simp: update_invitation_def Let_def ok_def refuse_def split: if_splits)
  have offered: "set ids = {r. (k, r) \<in> set (db_invitationRoles s)}" unfolding ids(1) by force
  show thesis
    by (rule that[of inv row ids "db_events s @ es", OF inv _ _ _ _ _ _ _ _ offered])
      (use inv live row ids(2) in \<open>auto simp: s' s3 affected_def filter_empty_conv MembershipActivate_def Let_def\<close>)
qed

text \<open>C12. An invitation becomes exactly the membership it promised, once. When accepting goes through on Postgres, the token
  was that of an open, unexpired invitation to a live organization, addressed to the accepting account's own address; the
  account, which had no membership there, has an active one with the invitation's roles; and whoever takes the
  invitation up again finds none.\<close>

theorem postgres_accepted_as_promised:
  assumes "db_wf s" "c_now c ClockService \<noteq> zero_time" "AcceptInvitation pg_orgs lu c u email token s = (Inr (), s')"
  shows "\<exists>i ms. i \<in> set (db_invitations s) \<and> inv_TokenHash i = HashInvitationToken token \<and>
    InvitationPending (c_now c ClockService) i \<and> inv_Email i = normalizeEmail lu email \<and>
    (\<exists>o' \<in> set (live_orgs s). org_ID o' = inv_OrganizationID i) \<and>
    (u, inv_OrganizationID i) \<notin> set (map (\<lambda>m. (ms_UserID m, ms_OrganizationID m)) (db_memberships s)) \<and>
    ms \<in> set (db_memberships s') \<and> ms_UserID ms = u \<and> ms_OrganizationID ms = inv_OrganizationID i \<and>
    ms_Status ms = MembershipActive \<and>
    {r. (ms_ID ms, r) \<in> set (db_membershipRoles s')} = {r. (inv_ID i, r) \<in> set (db_invitationRoles s)} \<and>
    (\<forall>c' u' at'. PgAcceptInvitation c' (inv_ID i) u' at' s' = (Inl orgs_not_found, s'))"
proof -
  obtain v where v: "pendingInvitation pg_orgs c token s = Inr v" "iv_Email v = normalizeEmail lu email"
    and acc: "PgAcceptInvitation c (iv_ID v) u (c_now c ClockService2) s = (Inr (), s')"
    using assms(3) by (auto simp: AcceptInvitation_def prog_simps pg_directory_def split: if_splits)
  obtain i where i: "i \<in> set (db_invitations s)" "inv_TokenHash i = HashInvitationToken token"
    "InvitationPending (c_now c ClockService) i" "iv_ID v = inv_ID i" "iv_Email v = inv_Email i"
    using PgInvitationByToken_ok[OF pg_pendingInvitation[OF v(1)] assms(2)] by blast
  obtain inv row ids es where run: "inv \<in> set (db_invitations s)" "inv_ID inv = inv_ID i"
    "\<exists>o' \<in> set (live_orgs s). org_ID o' = inv_OrganizationID inv" "ms_UserID row = u" "ms_OrganizationID row = inv_OrganizationID inv"
    "ms_Status row = MembershipActive" "ms_ID row \<notin> set (map ms_ID (db_memberships s))"
    "(u, inv_OrganizationID inv) \<notin> set (map (\<lambda>m. (ms_UserID m, ms_OrganizationID m)) (db_memberships s))"
    "set ids = {r. (inv_ID i, r) \<in> set (db_invitationRoles s)}"
    "s' = s\<lparr>db_memberships := db_memberships s @ [row], db_membershipRoles := db_membershipRoles s @ map (Pair (ms_ID row)) ids,
      db_invitations := set_where (\<lambda>j. inv_ID j = inv_ID i) (\<lambda>j. j\<lparr>inv_AcceptedAt := Some (c_now c ClockService2)\<rparr>) (db_invitations s),
      db_events := es\<rparr>"
    by (rule PgAcceptInvitation_run[OF assms(1) acc[unfolded i(4)]]) (rule that, assumption+)
  have "distinct (map inv_ID (db_invitations s))"
    using assms(1) by (simp add: db_wf_def offered_ok_def invite_keys_def comp_def)
  then have same: "inv = i" using run(1,2) i(1) by (auto simp: distinct_map inj_on_def)
  have "(ms_ID row, r) \<notin> set (db_membershipRoles s)" for r
    using assms(1) run(7) by (force simp: db_wf_def assigned_ok_def member_keys_def)
  then have roles: "{r. (ms_ID row, r) \<in> set (db_membershipRoles s')} = {r. (inv_ID i, r) \<in> set (db_invitationRoles s)}"
    using run(9) by (auto simp: run(10))
  have none: "filter (\<lambda>j. inv_ID j = inv_ID i \<and> inv_AcceptedAt j = None) (db_invitations s') = []"
    by (auto simp: run(10) filter_empty_conv set_where_def)
  have again: "PgAcceptInvitation c' (inv_ID i) u' at' s' = (Inl orgs_not_found, s')" for c' u' at'
    by (simp add: PgAcceptInvitation_def translate_run withEntTx_def bindp_def open_invitation_def query_def none translateOrgError_def)
  have "row \<in> set (db_memberships s')" by (simp add: run(10))
  then show ?thesis
    using i run(3-6,8) roles again v(2) unfolding same by (intro exI[of _ i] exI[of _ row]) (simp only: simp_thms)
qed

lemma postgres_accepted_as_promised_witness:
  "\<exists>s'. AcceptInvitation pg_orgs id (demo_call 20) (UUID 12) ''eve@x.io'' ''tok'' pg_demo = (Inr (), s') \<and>
     (\<exists>ms \<in> set (db_memberships s'). ms_UserID ms = UUID 12 \<and> ms_Status ms = MembershipActive)"
proof -
  have "succeeds (AcceptInvitation pg_orgs id (demo_call 20) (UUID 12) ''eve@x.io'' ''tok'' pg_demo)" by code_simp
  moreover have "c_now (demo_call 20) ClockService \<noteq> zero_time" by code_simp
  ultimately show ?thesis
    by (elim succeedsE) (use postgres_accepted_as_promised[OF pg_demo_wf] in fastforce)
qed

end
