(* ===== verification/Pg_Files.thy ===== *)
theory Pg_Files
  imports Pg_Wf Files_Stores
begin

text \<open>
  The file repository over Postgres, \<open>internal/store/repositories/file.go\<close>: documents of an organization, files of an
  account, and the pointer an account keeps to its photo, statement by statement. An account's photo is a foreign key
  that a deleted file sets to nothing, with a unique index of its own (\<open>migrations/20260819095153_files.sql\<close>).
\<close>

section \<open>The table\<close>

record FileTables =
  ft_db :: PgTables
  ft_files :: "File list"

type_synonym 'a fsql = "(FileTables, ent_failure, 'a) prog"
type_synonym 'a fdprog = "(FileTables, err, 'a) prog"

text \<open>A statement on the other tables.\<close>

definition on_db :: "'a dsql \<Rightarrow> 'a fsql" where
  "on_db p s = (case p (ft_db s) of (x, db) \<Rightarrow> (x, s\<lparr>ft_db := db\<rparr>))"

definition live_account_rows :: "FileTables \<Rightarrow> User list" where
  "live_account_rows s = live_users (db_accounts (ft_db s))"

definition scan_statuses :: "string list" where
  "scan_statuses = [''skipped'', ''clean'', ''unavailable'']"

text \<open>The rules of the fields; an optional field may be empty.\<close>

definition file_fields_ok :: "File \<Rightarrow> bool" where
  "file_fields_ok row \<longleftrightarrow> field_ok 255 (fl_OriginalName row) \<and> length (fl_DeclaredType row) \<le> 127 \<and>
     field_ok 127 (fl_DetectedType row) \<and> field_ok 64 (fl_Sha256 row) \<and> field_ok 512 (fl_StorageKey row) \<and>
     field_ok 64 (fl_EncryptionKeyID row) \<and> fl_ScanStatus row \<in> set scan_statuses \<and> length (fl_ScanEngine row) \<le> 64"

definition insert_file :: "Call \<Rightarrow> File \<Rightarrow> File fsql" where
  "insert_file c file s =
     (let row = file\<lparr>fl_ID := (if fl_ID file \<noteq> uuid_Nil then fl_ID file else c_newID c DrawFile),
            fl_CreatedAt := c_now c ClockRow, fl_UpdatedAt := c_now c ClockRow\<rparr> in
      if \<not> file_fields_ok row then refuse (FieldInvalid ''files'') s
      else if fl_ID row \<in> set (map fl_ID (ft_files s)) then refuse (PgError pgUniqueViolation) s
      else if (case fl_OrganizationID row of None \<Rightarrow> False | Some orgID \<Rightarrow> \<not> org_row_exists orgID (ft_db s))
      then refuse (PgError pgForeignKeyViolation) s
      else ok row (s\<lparr>ft_files := ft_files s @ [row]\<rparr>))"

text \<open>
  \<open>DELETE FROM files WHERE \<dots>\<close>: the accounts that point at a deleted file point at nothing, deleted accounts
  included.
\<close>

definition clear_photos :: "uuid set \<Rightarrow> PgTables \<Rightarrow> PgTables" where
  "clear_photos gone db =
     db\<lparr>db_accounts := (db_accounts db)\<lparr>pt_users := set_where (\<lambda>u. \<exists>f \<in> gone. u_AvatarID u = Some f)
       (\<lambda>u. u\<lparr>u_AvatarID := None\<rparr>) (pt_users (db_accounts db))\<rparr>\<rparr>"

definition delete_files :: "(File \<Rightarrow> bool) \<Rightarrow> nat fsql" where
  "delete_files P s =
     ok (affected P (ft_files s))
       (s\<lparr>ft_files := filter (\<lambda>row. \<not> P row) (ft_files s),
          ft_db := clear_photos (fl_ID ` set (filter P (ft_files s))) (ft_db s)\<rparr>)"

text \<open>
  \<open>UPDATE users SET avatar_id = \<dots>\<close> of one live account: the unique indexes, then the foreign key.
\<close>

definition photos_unique :: "User list \<Rightarrow> bool" where
  "photos_unique rows \<longleftrightarrow> distinct (List.map_filter u_AvatarID rows)"

definition set_photo :: "uuid \<Rightarrow> uuid option \<Rightarrow> nat fsql" where
  "set_photo userID photo s =
     (let P = (\<lambda>u. u_ID u = userID \<and> \<not> UserIsDeleted u);
          accounts = db_accounts (ft_db s);
          rows = set_where P (\<lambda>u. u\<lparr>u_AvatarID := photo\<rparr>) (pt_users accounts);
          n = affected P (pt_users accounts) in
      if \<not> users_unique rows \<or> \<not> photos_unique rows then refuse (PgError pgUniqueViolation) s
      else if n \<noteq> 0 \<and> (case photo of None \<Rightarrow> False | Some f \<Rightarrow> f \<notin> fl_ID ` set (ft_files s))
      then refuse (PgError pgForeignKeyViolation) s
      else ok n (s\<lparr>ft_db := (ft_db s)\<lparr>db_accounts := accounts\<lparr>pt_users := rows\<rparr>\<rparr>\<rparr>))"

section \<open>Errors\<close>

definition translateFileError :: "string \<Rightarrow> ent_failure \<Rightarrow> err" where
  "translateFileError op e =
     (if isNotFound e then files_not_found
      else if isForeignKeyViolation e then files_not_found
      else case e of Raised e \<Rightarrow> e | _ \<Rightarrow> DriverErr (''store: '' @ op))"

section \<open>Documents of an organization\<close>

definition PgFile :: "uuid \<Rightarrow> uuid \<Rightarrow> FileTables \<Rightarrow> err + File" where
  "PgFile orgID fileID s =
     (case only_row (filter (\<lambda>row. fl_ID row = fileID \<and> fl_OrganizationID row = Some orgID) (ft_files s)) of
        Inl e \<Rightarrow> Inl (translateFileError ''file'' e)
      | Inr row \<Rightarrow> Inr row)"

definition PgFiles :: "uuid \<Rightarrow> int \<Rightarrow> int \<Rightarrow> FileTables \<Rightarrow> err + File list" where
  "PgFiles orgID limit offset s =
     (case limit_rows limit offset (rev (sort_key fl_ID (filter (\<lambda>row. fl_OrganizationID row = Some orgID) (ft_files s)))) of
        Inl e \<Rightarrow> Inl (translateFileError ''files'' e)
      | Inr rows \<Rightarrow> Inr rows)"

text \<open>The pointer's row is completed from the one that was created.\<close>

definition PgCreateFile :: "Call \<Rightarrow> uuid \<Rightarrow> File \<Rightarrow> File fdprog" where
  "PgCreateFile c orgID file =
     (let file = file\<lparr>fl_OrganizationID := Some orgID\<rparr> in
      translate (translateFileError ''create file'') (withEntTx
        (bindp (insert_file c file) (\<lambda>created.
         let file = file\<lparr>fl_ID := fl_ID created, fl_CreatedAt := fl_CreatedAt created, fl_UpdatedAt := fl_UpdatedAt created\<rparr> in
         bindp (on_db (recordEnt c (no_entry\<lparr>ev_OrganizationID := Some orgID, ev_SubjectID := Some (fl_ID file),
           ev_Action := ActionFileUploaded, ev_Detail := fl_OriginalName file\<rparr>))) (\<lambda>_. ok file)))))"

definition PgDeleteFile :: "Call \<Rightarrow> uuid \<Rightarrow> uuid \<Rightarrow> unit fdprog" where
  "PgDeleteFile c orgID fileID =
     translate (translateFileError ''delete file'') (withEntTx
       (bindp (query (\<lambda>s. only_row (filter (\<lambda>row. fl_ID row = fileID \<and> fl_OrganizationID row = Some orgID) (ft_files s)))) (\<lambda>row.
        bindp (delete_files (\<lambda>other. fl_ID other = fl_ID row)) (\<lambda>n.
        if n = 0 then refuse RowNotFound
        else on_db (recordEnt c (no_entry\<lparr>ev_OrganizationID := Some orgID, ev_SubjectID := Some fileID,
               ev_Action := ActionFileDeleted, ev_Detail := fl_OriginalName row\<rparr>))))))"

section \<open>Files of an account\<close>

definition PgCreateAccountFile :: "Call \<Rightarrow> File \<Rightarrow> File fdprog" where
  "PgCreateAccountFile c file =
     (let file = file\<lparr>fl_OrganizationID := None\<rparr> in
      translate (translateFileError ''create account file'')
        (bindp (insert_file c file) (\<lambda>created.
         ok (file\<lparr>fl_ID := fl_ID created, fl_CreatedAt := fl_CreatedAt created, fl_UpdatedAt := fl_UpdatedAt created\<rparr>))))"

definition PgAccountFile :: "uuid \<Rightarrow> FileTables \<Rightarrow> err + File" where
  "PgAccountFile fileID s =
     (case only_row (filter (\<lambda>row. fl_ID row = fileID \<and> fl_OrganizationID row = None) (ft_files s)) of
        Inl e \<Rightarrow> Inl (translateFileError ''account file'' e)
      | Inr row \<Rightarrow> Inr row)"

definition PgDeleteAccountFile :: "uuid \<Rightarrow> unit fdprog" where
  "PgDeleteAccountFile fileID =
     bindp (translate (translateFileError ''delete account file'')
       (delete_files (\<lambda>row. fl_ID row = fileID \<and> fl_OrganizationID row = None))) (\<lambda>n.
     if n = 0 then refuse files_not_found else ok ())"

text \<open>The live account, as the three methods look it up.\<close>

definition live_account :: "uuid \<Rightarrow> FileTables \<Rightarrow> ent_failure + User" where
  "live_account userID s = only_row (filter (\<lambda>u. u_ID u = userID) (live_account_rows s))"

definition PgAttachAvatar :: "uuid \<Rightarrow> uuid \<Rightarrow> uuid fdprog" where
  "PgAttachAvatar userID fileID =
     translate (\<lambda>e. if e = Raised user_not_found then user_not_found else translateFileError ''attach avatar'' e) (withEntTx
       (attempt (query (live_account userID)) (\<lambda>r. case r of
          Inl e \<Rightarrow> if isNotFound e then refuse (Raised user_not_found) else refuse e
        | Inr u \<Rightarrow>
            bindp (query (\<lambda>s. only_row (filter (\<lambda>row. fl_ID row = fileID \<and> fl_OrganizationID row = None) (ft_files s)))) (\<lambda>_.
            let previous = (case u_AvatarID u of None \<Rightarrow> uuid_Nil | Some previous \<Rightarrow> previous) in
            bindp (set_photo userID (Some fileID)) (\<lambda>n.
            if n = 0 then refuse (Raised user_not_found) else ok previous)))))"

definition PgDetachAvatar :: "uuid \<Rightarrow> uuid fdprog" where
  "PgDetachAvatar userID s =
     (case live_account userID s of
        Inl e \<Rightarrow> refuse (if isNotFound e then user_not_found else translateFileError ''detach avatar'' e) s
      | Inr u \<Rightarrow>
          (case u_AvatarID u of
             None \<Rightarrow> refuse files_not_found s
           | Some previous \<Rightarrow>
               bindp (translate (translateFileError ''detach avatar'') (set_photo userID None)) (\<lambda>n.
               if n = 0 then refuse user_not_found else ok previous) s))"

definition PgAvatarFile :: "uuid \<Rightarrow> FileTables \<Rightarrow> err + File" where
  "PgAvatarFile userID s =
     (case live_account userID s of
        Inl e \<Rightarrow> Inl (if isNotFound e then user_not_found else translateFileError ''avatar file'' e)
      | Inr u \<Rightarrow>
          (case u_AvatarID u of None \<Rightarrow> Inl files_not_found | Some fileID \<Rightarrow> PgAccountFile fileID s))"

definition pg_files :: "FileTables FilesRepository" where
  "pg_files = \<lparr>fr_File = PgFile, fr_Files = PgFiles, fr_CreateFile = PgCreateFile, fr_DeleteFile = PgDeleteFile\<rparr>"

definition pg_account_files :: "FileTables AccountFiles" where
  "pg_account_files = \<lparr>af_CreateAccountFile = PgCreateAccountFile, af_AccountFile = PgAccountFile,
     af_DeleteAccountFile = PgDeleteAccountFile, af_AttachAvatar = PgAttachAvatar,
     af_DetachAvatar = PgDetachAvatar, af_AvatarFile = PgAvatarFile\<rparr>"

section \<open>What the statements do\<close>

definition file_row :: "FileTables \<Rightarrow> uuid \<Rightarrow> File option" where
  "file_row s = map_of (map (\<lambda>row. (fl_ID row, row)) (ft_files s))"

definition file_keys :: "FileTables \<Rightarrow> bool" where
  "file_keys s \<longleftrightarrow> distinct (map fl_ID (ft_files s))"

definition photo_row :: "FileTables \<Rightarrow> uuid \<Rightarrow> uuid option" where
  "photo_row s userID = (case live_account userID s of Inl _ \<Rightarrow> None | Inr u \<Rightarrow> u_AvatarID u)"

lemma filter_by_key:
  "distinct (map fl_ID rows) \<Longrightarrow> filter (\<lambda>row. fl_ID row = f \<and> P row) rows =
     (case map_of (map (\<lambda>row. (fl_ID row, row)) rows) f of None \<Rightarrow> [] | Some row \<Rightarrow> if P row then [row] else [])"
proof (induction rows)
  case (Cons row rows)
  show ?case
  proof (cases "fl_ID row = f")
    case True
    then have "filter (\<lambda>row. fl_ID row = f \<and> P row) rows = []" using Cons.prems by (auto simp: filter_empty_conv) (metis image_eqI)
    then show ?thesis using True by simp
  qed (use Cons in simp)
qed simp

lemma insert_file_run:
  "insert_file c file s = (Inr row, s') \<Longrightarrow> s' = s\<lparr>ft_files := ft_files s @ [row]\<rparr> \<and> fl_ID row \<notin> fl_ID ` set (ft_files s) \<and>
     (\<exists>at. row = file\<lparr>fl_ID := (if fl_ID file \<noteq> uuid_Nil then fl_ID file else c_newID c DrawFile),
        fl_CreatedAt := at, fl_UpdatedAt := at\<rparr>)"
  "insert_file c file s = (Inl e, s') \<Longrightarrow> s' = s"
  by (auto simp: insert_file_def Let_def ok_def refuse_def split: if_splits option.splits)

lemma on_db_run: "on_db p s = (r, s') \<longleftrightarrow> (\<exists>db. p (ft_db s) = (r, db) \<and> s' = s\<lparr>ft_db := db\<rparr>)"
  by (auto simp: on_db_def split: prod.splits)

lemma file_row_add: "fl_ID row \<notin> fl_ID ` set (ft_files s) \<Longrightarrow>
    file_row (s\<lparr>ft_files := ft_files s @ [row]\<rparr>) = (file_row s)(fl_ID row \<mapsto> row)"
proof -
  let ?old = "map_of (map (\<lambda>row. (fl_ID row, row)) (ft_files s))"
  assume "fl_ID row \<notin> fl_ID ` set (ft_files s)"
  then have "dom [fl_ID row \<mapsto> row] \<inter> dom ?old = {}" by (auto simp: dom_map_of_conv_image_fst)
  then have "[fl_ID row \<mapsto> row] ++ ?old = ?old ++ [fl_ID row \<mapsto> row]" by (rule map_add_comm)
  also have "\<dots> = ?old(fl_ID row \<mapsto> row)" by simp
  finally have "[fl_ID row \<mapsto> row] ++ ?old = ?old(fl_ID row \<mapsto> row)" .
  moreover have "file_row (s\<lparr>ft_files := ft_files s @ [row]\<rparr>) = [fl_ID row \<mapsto> row] ++ ?old"
    by (simp add: file_row_def)
  ultimately show ?thesis by (simp only: file_row_def)
qed

text \<open>Creating a file adds its row and at most one entry to the trail, or changes nothing.\<close>

lemma PgCreateFile_run:
  assumes "PgCreateFile c orgID file s = (Inr row, s')"
  obtains es at where
    "s' = s\<lparr>ft_files := ft_files s @ [row], ft_db := (ft_db s)\<lparr>db_events := db_events (ft_db s) @ es\<rparr>\<rparr>"
    "length es \<le> 1" "fl_ID row \<notin> fl_ID ` set (ft_files s)"
    "row = file\<lparr>fl_ID := (if fl_ID file \<noteq> uuid_Nil then fl_ID file else c_newID c DrawFile),
       fl_OrganizationID := Some orgID, fl_CreatedAt := at, fl_UpdatedAt := at\<rparr>"
proof -
  let ?file = "file\<lparr>fl_OrganizationID := Some orgID\<rparr>"
  obtain created s1 where ins: "insert_file c ?file s = (Inr created, s1)" and
    row: "row = ?file\<lparr>fl_ID := fl_ID created, fl_CreatedAt := fl_CreatedAt created, fl_UpdatedAt := fl_UpdatedAt created\<rparr>"
    and entry: "on_db (recordEnt c (no_entry\<lparr>ev_OrganizationID := Some orgID, ev_SubjectID := Some (fl_ID row),
      ev_Action := ActionFileUploaded, ev_Detail := fl_OriginalName row\<rparr>)) s1 = (Inr (), s')"
    using assms by (auto simp: PgCreateFile_def Let_def translate_eq withEntTx_eq bindp_Inr ok_eq)
  obtain at where s1: "s1 = s\<lparr>ft_files := ft_files s @ [created]\<rparr>" "fl_ID created \<notin> fl_ID ` set (ft_files s)" and
    created: "created = ?file\<lparr>fl_ID := (if fl_ID file \<noteq> uuid_Nil then fl_ID file else c_newID c DrawFile),
      fl_CreatedAt := at, fl_UpdatedAt := at\<rparr>" using insert_file_run(1)[OF ins] by (cases "fl_ID file = uuid_Nil") auto
  have same: "row = created" by (simp add: row created)
  obtain es where es: "s' = s1\<lparr>ft_db := (ft_db s1)\<lparr>db_events := db_events (ft_db s1) @ es\<rparr>\<rparr>" "length es \<le> 1"
    using entry recordEnt_events unfolding on_db_run by blast
  have "s' = s\<lparr>ft_files := ft_files s @ [row], ft_db := (ft_db s)\<lparr>db_events := db_events (ft_db s) @ es\<rparr>\<rparr>"
    by (simp add: es(1) s1(1) same)
  then show ?thesis using that[of es at] es(2) s1(2) by (simp add: same) (simp add: created)
qed

lemma PgCreateFile_fails: "PgCreateFile c orgID file s = (Inl e, s') \<Longrightarrow> s' = s"
  by (auto simp: PgCreateFile_def Let_def translate_eq withEntTx_eq)

interpretation documents: file_creation pg_files file_keys file_row photo_row
proof unfold_locales
  fix s :: FileTables and org f
  assume "file_keys s"
  then show "fr_File pg_files org f s =
      (case file_row s f of Some row \<Rightarrow> if fl_OrganizationID row = Some org then Inr row else Inl files_not_found
       | None \<Rightarrow> Inl files_not_found)"
    by (simp add: pg_files_def PgFile_def filter_by_key[of _ f "\<lambda>row. fl_OrganizationID row = Some org"] file_keys_def
        file_row_def translateFileError_def split: option.split)
next
  fix s s' :: FileTables and c org sent row
  assume keys: "file_keys s" and id: "fl_ID sent \<noteq> uuid_Nil" and "fr_CreateFile pg_files c org sent s = (Inr row, s')"
  then have "PgCreateFile c org sent s = (Inr row, s')" by (simp add: pg_files_def)
  then obtain es at where run: "s' = s\<lparr>ft_files := ft_files s @ [row], ft_db := (ft_db s)\<lparr>db_events := db_events (ft_db s) @ es\<rparr>\<rparr>"
    "fl_ID row \<notin> fl_ID ` set (ft_files s)" and
    row: "row = sent\<lparr>fl_ID := fl_ID sent, fl_OrganizationID := Some org, fl_CreatedAt := at, fl_UpdatedAt := at\<rparr>"
    using id by (elim PgCreateFile_run) simp
  have "fl_ID row = fl_ID sent" by (simp add: row)
  then have "file_row s' = (file_row s)(fl_ID sent \<mapsto> row)"
    using file_row_add[OF run(2)] by (simp add: run(1) file_row_def)
  moreover have "file_keys s'" using keys run(2) by (simp add: run(1) file_keys_def)
  moreover have "photo_row s' = photo_row s"
    by (simp add: run(1) photo_row_def fun_eq_iff live_account_def live_account_rows_def)
  moreover have "row = sent\<lparr>fl_OrganizationID := Some org, fl_CreatedAt := at, fl_UpdatedAt := at\<rparr>" by (simp add: row)
  ultimately show "file_keys s' \<and> file_row s' = (file_row s)(fl_ID sent \<mapsto> row) \<and> photo_row s' = photo_row s \<and>
      (\<exists>created updated. row = sent\<lparr>fl_OrganizationID := Some org, fl_CreatedAt := created, fl_UpdatedAt := updated\<rparr>)"
    by blast
next
  fix s s' :: FileTables and c org sent e
  assume "file_keys s" "fr_CreateFile pg_files c org sent s = (Inl e, s')"
  then show "file_keys s' \<and> file_row s' = file_row s \<and> photo_row s' = photo_row s"
    using PgCreateFile_fails[of c org sent s e s'] by (simp add: pg_files_def)
qed

section \<open>The service over both\<close>

definition pg_on_disk :: "(uuid \<Rightarrow> string) \<Rightarrow> string \<Rightarrow> (FileTables, Disk) FileService \<Rightarrow> (FileTables, Disk) FileService" where
  "pg_on_disk str root S = \<lparr>sf_repo = pg_files, sf_blobs = local_blobs str root, sf_account = pg_account_files,
     sf_scanner = sf_scanner S, sf_settings = sf_settings S, sf_allowed = sf_allowed S,
     sf_avatarAllowed = sf_avatarAllowed S, sf_libs = sf_libs S\<rparr>"

interpretation pg_pipe: photo_pipeline "local_blobs str root" "\<lambda>_. uuid_text str" no_faults
    "\<lambda>d k. map_of (dk_files d) (disk_path str root k)" pg_files pg_account_files file_keys file_row photo_row "pg_on_disk str root S"
  by unfold_locales (simp_all add: pg_on_disk_def)

end
