(* ===== verification/Pg_Files_Properties.thy ===== *)
theory Pg_Files_Properties
  imports Pg_Files Files_Properties
begin

text \<open>
  The files component over Postgres and the disk, where every step after the checks can fail: what a refused upload and a
  refused photo leave, and that what went in is read back.
\<close>

section \<open>A service whose organization is not there\<close>

definition demo_pg_files :: "(FileTables, Disk) FileService" where
  "demo_pg_files = \<lparr>sf_repo = pg_files, sf_blobs = local_blobs (\<lambda>_. []) [], sf_account = pg_account_files,
     sf_scanner = NopScanner, sf_settings = demo_settings, sf_allowed = [''text/plain''],
     sf_avatarAllowed = [''image/gif''], sf_libs = demo_file_libs\<rparr>"

definition demo_tables :: FileTables where
  "demo_tables = \<lparr>ft_db = NewPgTables, ft_files = []\<rparr>"

lemma demo_pg_sel:
  "sf_settings (pg_on_disk str root demo_pg_files) = demo_settings" "sf_allowed (pg_on_disk str root demo_pg_files) = [''text/plain'']"
  "sf_avatarAllowed (pg_on_disk str root demo_pg_files) = [''image/gif'']" "sf_scanner (pg_on_disk str root demo_pg_files) = NopScanner"
  "sf_libs (pg_on_disk str root demo_pg_files) = demo_file_libs" "st_MaxBytes demo_settings = 100" "st_AvatarMaxBytes demo_settings = 100"
  by (simp_all add: pg_on_disk_def demo_pg_files_def demo_settings_def)

definition demo_fields :: "preparedUpload \<Rightarrow> bool" where
  "demo_fields prep \<longleftrightarrow> field_ok 255 (pu_name prep) \<and> length (pu_declared prep) \<le> 127 \<and> field_ok 127 (pu_detected prep) \<and>
     field_ok 64 (pu_sha256 prep) \<and> so_Status (pu_scan prep) = ''skipped'' \<and> so_Engine (pu_scan prep) = []"

lemma demo_pg_prepare:
  "\<exists>prep. prepare (pg_on_disk str root demo_pg_files) demo_upload_call ''notes.txt'' ''text/plain'' ''hello'' 100 [''text/plain''] =
     Inr prep \<and> demo_fields prep"
  "\<exists>prep. prepare (pg_on_disk str root demo_pg_files) demo_upload_call ''me.gif'' ''image/gif'' ''GIF89a'' 100 [''image/gif''] =
     Inr prep \<and> demo_fields prep"
  using length_hex_encode[of "sha256 ''hello''"] length_hex_encode[of "sha256 ''GIF89a''"]
  by (auto simp: prepare_def demo_pg_sel demo_settings_def demo_checks demo_photo_checks extension_check_def demo_fields_def field_ok_def
      scan_def NopScanner_def Seal_def gcm_def keySize_def nonceSize_def demo_key_def demo_upload_call_def ScanSkipped_def Let_def
      simp del: length_hex_encode)

lemma demo_put: "\<exists>d. put_at (local_blobs demo_str root) k x demo_disk = (Inr (key_at demo_str k), d)"
  by (simp add: local_at replace_file_def prog_defs os_MkdirAll_def os_WriteFile_def os_Rename_def demo_disk_def Let_def amap_simps)

text \<open>The file is written, and the row is refused: no organization has that identifier.\<close>

lemma demo_no_organization:
  assumes "demo_fields prep" "field_ok 512 key"
  shows "PgCreateFile demo_upload_call org (row_of (pg_on_disk str root demo_pg_files) f (Some org) actor prep key) demo_tables =
    (Inl files_not_found, demo_tables)"
proof -
  have "length (KeyID demo_key) = 16" by (simp add: KeyID_def)
  then have "field_ok 64 (KeyID demo_key)" by (auto simp: field_ok_def)
  then show ?thesis
    using assms
    by (simp add: PgCreateFile_def insert_file_def Let_def translate_run withEntTx_def bindp_def refuse_def row_of_def demo_pg_sel
        file_fields_ok_def demo_fields_def scan_statuses_def demo_settings_def demo_tables_def NewPgTables_def org_row_exists_def translateFileError_def
        isForeignKeyViolation_def isNotFound_def)
qed

abbreviation demo_pg_upload :: "(FileTables \<times> Disk, err, File) prog" where
  "demo_pg_upload \<equiv> Upload (pg_on_disk demo_str ''/data'' demo_pg_files) demo_upload_call (UUID 1) (UUID 2)
     ''notes.txt'' ''text/plain'' ''hello''"

lemma demo_pg_refused: "\<exists>d. demo_pg_upload (demo_tables, demo_disk) = (Inl files_not_found, (demo_tables, d))"
proof -
  let ?k = "(Some (UUID 1), c_newID demo_upload_call DrawFile)"
  obtain prep where prep: "prepare (pg_on_disk demo_str ''/data'' demo_pg_files) demo_upload_call ''notes.txt'' ''text/plain''
      ''hello'' 100 [''text/plain''] = Inr prep" "demo_fields prep" using demo_pg_prepare(1) by blast
  obtain d where put: "put_at (local_blobs demo_str ''/data'') ?k (pu_ciphertext prep) demo_disk = (Inr (key_at demo_str ?k), d)"
    using demo_put by blast
  have "field_ok 512 (key_at demo_str ?k)"
    by (simp add: field_ok_def key_at_def blobKey_def demo_str_def demo_upload_call_def demo_call_def)
  from demo_no_organization[OF prep(2) this, of "UUID 1"] put prep(1) show ?thesis
    by (simp add: Upload_def demo_pg_sel pg_pipe.connected at_simps bindp_def attempt_def on_blobs_def on_rows_def pg_files_def
        refuse_def Let_def split: prod.split)
qed

section \<open>All or nothing\<close>

text \<open>C31. An upload that is refused leaves nothing behind, whichever check, system call or statement refused it. The
  tables are as before, entries of the trail included. Every path on disk that another row may point at reads as before. The
  path of the file that was refused is empty when it was empty, although the file is written before its row: when the
  row is refused the file is removed again, and stays only if the system call that removes it fails too. (Temporary files
  are not spoken of.)\<close>

theorem refused_upload_leaves_nothing:
  assumes "Upload (pg_on_disk str root S) c org actor filename declared content (s, d) = (Inl e, (s', d'))"
    and "uuid_text str"
  shows "s' = s \<and>
    (\<forall>k. k \<noteq> (Some org, c_newID c DrawFile) \<longrightarrow>
       map_of (dk_files d') (disk_path str root k) = map_of (dk_files d) (disk_path str root k)) \<and>
    (\<forall>path. path = disk_path str root (Some org, c_newID c DrawFile) \<longrightarrow>
       map_of (dk_files d) path = None \<longrightarrow> \<not> dk_fault d SysRemove path \<longrightarrow> map_of (dk_files d') path = None)"
  using assms(1)
proof (cases rule: pg_pipe.upload_refused)
  case 1
  then show ?thesis by simp
next
  case (2 x)
  from disk.put_fails[OF assms(2) 2(2)] have "map_of (dk_files d') (disk_path str root k) = map_of (dk_files d) (disk_path str root k)" for k
    by meson
  then show ?thesis using 2(1) by simp
next
  case (3 x key d1 row)
  have "s' = s" using 3(2) by (simp add: pg_files_def PgCreateFile_fails)
  then show ?thesis by (simp add: put_undone[OF assms(2) 3(1,3)])
qed

lemma refused_upload_leaves_nothing_witness:
  "\<exists>d. demo_pg_upload (demo_tables, demo_disk) = (Inl files_not_found, (demo_tables, d)) \<and>
     map_of (dk_files d) (disk_path demo_str ''/data'' (Some (UUID 1), c_newID demo_upload_call DrawFile)) = None"
proof -
  obtain d where up: "demo_pg_upload (demo_tables, demo_disk) = (Inl files_not_found, (demo_tables, d))"
    using demo_pg_refused by blast
  then show ?thesis
    using refused_upload_leaves_nothing[OF up demo_str_text] by (simp add: demo_disk_def)
qed

section \<open>Photos\<close>

text \<open>The foreign key of the accounts: a photo that is pointed at is there.\<close>

definition photos_exist :: "FileTables \<Rightarrow> bool" where
  "photos_exist s \<longleftrightarrow> (\<forall>u \<in> set (pt_users (db_accounts (ft_db s))). \<forall>f. u_AvatarID u = Some f \<longrightarrow> f \<in> fl_ID ` set (ft_files s))"

text \<open>A row that was just inserted is deleted again: the table is as it was, and nobody's photo is lost.\<close>

lemma created_then_deleted:
  assumes ref: "photos_exist s" and run: "PgCreateAccountFile c file s = (Inr row, s1)"
  shows "snd (PgDeleteAccountFile (fl_ID row) s1) = s"
proof -
  obtain created where ins: "insert_file c (file\<lparr>fl_OrganizationID := None\<rparr>) s = (Inr created, s1)" and id: "fl_ID row = fl_ID created"
    using run by (auto simp: PgCreateAccountFile_def Let_def translate_eq bindp_Inr ok_eq)
  have s1: "s1 = s\<lparr>ft_files := ft_files s @ [created]\<rparr>" "fl_ID created \<notin> fl_ID ` set (ft_files s)" "fl_OrganizationID created = None"
    using insert_file_run(1)[OF ins] by auto
  let ?P = "\<lambda>other. fl_ID other = fl_ID row \<and> fl_OrganizationID other = None"
  have others: "\<not> ?P other" if "other \<in> set (ft_files s)" for other using that s1(2) id by (metis image_eqI)
  have rows: "filter (\<lambda>other. \<not> ?P other) (ft_files s1) = ft_files s" "filter ?P (ft_files s1) = [created]"
    using others s1(3) id by (simp_all add: s1(1) filter_id_conv filter_empty_conv)
  have "u_AvatarID u \<noteq> Some (fl_ID created)" if "u \<in> set (pt_users (db_accounts (ft_db s)))" for u
    using ref that s1(2) unfolding photos_exist_def by blast
  then have "clear_photos {fl_ID created} (ft_db s) = ft_db s"
    by (simp add: clear_photos_def set_where_def map_idI)
  then have "delete_files ?P s1 = (Inr 1, s)"
    unfolding delete_files_def rows affected_def by (simp add: ok_def s1(1))
  then show ?thesis
    by (simp add: PgDeleteAccountFile_def bindp_def translate_run ok_def)
qed

lemma PgAttachAvatar_fails: "PgAttachAvatar u f s = (Inl e, s') \<Longrightarrow> s' = s"
  by (auto simp: PgAttachAvatar_def translate_eq withEntTx_eq)

lemma PgCreateAccountFile_fails: "PgCreateAccountFile c file s = (Inl e, s') \<Longrightarrow> s' = s"
  by (auto simp: PgCreateAccountFile_def Let_def translate_eq bindp_Inl ok_def dest: insert_file_run(2))

text \<open>C39. A photo that is refused leaves nothing behind either, and every account keeps the photo it had. The photo's
  file is written first, then its row, and then the account is pointed at it; whichever of the steps is refused, those
  before it are undone: the tables are as before, every other path on disk reads as before, and the photo's own path is empty
  when it was, unless the system call that removes it fails too.\<close>

theorem refused_photo_leaves_nothing:
  assumes "SetAvatar (pg_on_disk str root S) c u filename declared content (s, d) = (Inl e, (s', d'))"
    and "uuid_text str" "photos_exist s"
  shows "s' = s \<and>
    (\<forall>k. k \<noteq> (None, c_newID c DrawFile) \<longrightarrow>
       map_of (dk_files d') (disk_path str root k) = map_of (dk_files d) (disk_path str root k)) \<and>
    (\<forall>path. path = disk_path str root (None, c_newID c DrawFile) \<longrightarrow>
       map_of (dk_files d) path = None \<longrightarrow> \<not> dk_fault d SysRemove path \<longrightarrow> map_of (dk_files d') path = None)"
  using assms(1)
proof (cases rule: pg_pipe.set_avatar_stages)
  case (2 x e' d1)
  from disk.put_fails[OF assms(2) 2(2)] have "map_of (dk_files d1) (disk_path str root k) = map_of (dk_files d) (disk_path str root k)" for k
    by meson
  then show ?thesis using 2(3) by simp
next
  case (3 prep k d1 e' s1)
  have "s' = s" using 3(4,5) by (simp add: pg_account_files_def PgCreateAccountFile_fails)
  moreover have "d' = snd (remove_at (local_blobs str root) (None, c_newID c DrawFile) d1)" using 3(5) by simp
  ultimately show ?thesis by (simp add: put_undone[OF assms(2) 3(3)])
next
  case (4 prep k d1 row s1 e' s2)
  have "s2 = s1" using 4(5) by (simp add: pg_account_files_def PgAttachAvatar_fails)
  then have "s' = s" using created_then_deleted[OF assms(3)] 4(4,6) by (simp add: pg_account_files_def)
  moreover have "d' = snd (remove_at (local_blobs str root) (None, c_newID c DrawFile) d1)" using 4(6) by simp
  ultimately show ?thesis by (simp add: put_undone[OF assms(2) 4(3)])
qed simp_all

text \<open>No account has the identifier: the file and its row are there before the account is asked for.\<close>

abbreviation demo_pg_photo :: "(FileTables \<times> Disk, err, File) prog" where
  "demo_pg_photo \<equiv> SetAvatar (pg_on_disk demo_str ''/data'' demo_pg_files) demo_upload_call (UUID 10) ''me.gif'' ''image/gif'' ''GIF89a''"

lemma demo_photo_row:
  assumes "demo_fields prep" "field_ok 512 key" "f \<noteq> uuid_Nil"
  shows "\<exists>row. PgCreateAccountFile demo_upload_call (row_of (pg_on_disk str root demo_pg_files) f None u prep key) demo_tables =
    (Inr row, demo_tables\<lparr>ft_files := [row]\<rparr>) \<and> fl_ID row = f \<and> fl_OrganizationID row = None"
proof -
  have "length (KeyID demo_key) = 16" by (simp add: KeyID_def)
  then have "field_ok 64 (KeyID demo_key)" by (auto simp: field_ok_def)
  then show ?thesis
    using assms
    by (simp add: PgCreateAccountFile_def insert_file_def Let_def translate_run bindp_def ok_def row_of_def demo_pg_sel
        file_fields_ok_def demo_fields_def scan_statuses_def demo_settings_def demo_tables_def)
qed

lemma demo_pg_photo_refused: "\<exists>d. demo_pg_photo (demo_tables, demo_disk) = (Inl user_not_found, (demo_tables, d))"
proof -
  let ?k = "(None, c_newID demo_upload_call DrawFile)"
  obtain prep where prep: "prepare (pg_on_disk demo_str ''/data'' demo_pg_files) demo_upload_call ''me.gif'' ''image/gif''
      ''GIF89a'' 100 [''image/gif''] = Inr prep" "demo_fields prep" using demo_pg_prepare(2) by blast
  obtain d where put: "put_at (local_blobs demo_str ''/data'') ?k (pu_ciphertext prep) demo_disk = (Inr (key_at demo_str ?k), d)"
    using demo_put by blast
  have "field_ok 512 (key_at demo_str ?k)"
    by (simp add: field_ok_def key_at_def accountKey_def demo_str_def demo_upload_call_def demo_call_def)
  from demo_photo_row[OF prep(2) this demo_upload_fresh(1)] obtain row where
    create: "PgCreateAccountFile demo_upload_call (row_of (pg_on_disk demo_str ''/data'' demo_pg_files) (c_newID demo_upload_call DrawFile)
      None (UUID 10) prep (key_at demo_str ?k)) demo_tables = (Inr row, demo_tables\<lparr>ft_files := [row]\<rparr>)" by blast
  have attach: "PgAttachAvatar (UUID 10) (fl_ID row) (demo_tables\<lparr>ft_files := [row]\<rparr>) =
      (Inl user_not_found, demo_tables\<lparr>ft_files := [row]\<rparr>)"
    by (simp add: PgAttachAvatar_def translate_run withEntTx_def attempt_def query_def live_account_def live_account_rows_def live_users_def
        demo_tables_def NewPgTables_def NewPgUsers_def refuse_def isNotFound_def)
  have "photos_exist demo_tables" by (simp add: photos_exist_def demo_tables_def NewPgTables_def NewPgUsers_def)
  from created_then_deleted[OF this create] obtain q where
    "PgDeleteAccountFile (fl_ID row) (demo_tables\<lparr>ft_files := [row]\<rparr>) = (q, demo_tables)" by (metis prod.collapse)
  then show ?thesis
    using create attach put prep(1)
    by (simp add: SetAvatar_def demo_pg_sel pg_pipe.wired at_simps bindp_def attempt_def on_blobs_def on_rows_def pg_account_files_def
        refuse_def Let_def split: prod.split)
qed

lemma refused_photo_leaves_nothing_witness:
  "\<exists>d. demo_pg_photo (demo_tables, demo_disk) = (Inl user_not_found, (demo_tables, d)) \<and>
     map_of (dk_files d) (disk_path demo_str ''/data'' (None, c_newID demo_upload_call DrawFile)) = None"
proof -
  obtain d where run: "demo_pg_photo (demo_tables, demo_disk) = (Inl user_not_found, (demo_tables, d))"
    using demo_pg_photo_refused by blast
  have "photos_exist demo_tables" by (simp add: photos_exist_def demo_tables_def NewPgTables_def NewPgUsers_def)
  then show ?thesis
    using refused_photo_leaves_nothing[OF run demo_str_text] run by (simp add: demo_disk_def)
qed

section \<open>Reading back\<close>

text \<open>
  What the in-memory rows promise holds of these: what was uploaded is what is downloaded, and to every other organization
  the file is not there.
\<close>

lemma postgres_uploaded_is_downloaded:
  assumes "Upload (pg_on_disk str root S) c org actor filename declared content (s, d) = (Inr row, (s', d'))"
    and "uuid_text str" "no_faults d" "file_keys s" "c_newID c DrawFile \<noteq> uuid_Nil"
  shows "Content (pg_on_disk str root S) org (fl_ID row) (s', d') = Inr (row, content)"
  by (rule pg_pipe.content_after_upload[OF assms(1,4,2,3,5)])

lemma postgres_files_of_others:
  assumes "file_keys s" "\<And>row. file_row s fileID = Some row \<Longrightarrow> fl_OrganizationID row \<noteq> Some org"
  shows "Content (pg_on_disk str root S) org fileID (s, d) = Inl files_not_found"
    and "FilesDelete (pg_on_disk str root S) c org fileID (s, d) = (Inl files_not_found, (s, d))"
  using pg_pipe.foreign_file(2,3)[where r = s and f = fileID and org = org, OF assms] by blast+

section \<open>Names of more bytes than runes\<close>

text \<open>
  The service counts the characters of a name, the column's rule its bytes: a name of 128 accented letters is fine for the
  one and refused by the other as an unexpected error.
\<close>

fun accents :: "nat \<Rightarrow> string" where
  "accents 0 = []"
| "accents (Suc n) = CHR 0xC3 # CHR 0xA9 # accents n"

lemma accents_bytes: "length (accents n) = 2 * n" "set (accents n) \<subseteq> {CHR 0xC3, CHR 0xA9}"
  by (induction n) auto

lemma accents_width: "rune_width (CHR 0xC3 # CHR 0xA9 # s) = 2"
  by (cases "CHR 0xC3 # CHR 0xA9 # s" rule: rune_width.cases) (simp_all add: byte_in_def)

lemma accents_runes: "rune_count (accents n) = n" "all_runes (unicode_print (\<lambda>_. True)) (accents n)"
  by (induction n)
    (simp_all add: rune_count.simps[of "CHR 0xC3 # s" for s] all_runes_step[of "CHR 0xC3 # s" for s] rune_ok_def rune_value_def accents_width numeral_2_eq_2
      unicode_print_def)

lemma accents_last: "accents (Suc n) = accents n @ [CHR 0xC3, CHR 0xA9]"
  by (induction n) simp_all

lemma accents_trim: "trim_space (accents (Suc (Suc n))) = accents (Suc (Suc n))"
proof -
  have left: "trim_left (accents (Suc (Suc n))) = accents (Suc (Suc n))"
    by (simp add: ascii_space_def space2_def space3_def byte_in_def)
  have "rev (accents (Suc (Suc n))) = CHR 0xA9 # CHR 0xC3 # CHR 0xA9 # CHR 0xC3 # rev (accents n)"
    by (simp only: accents_last rev_append) simp
  then have "trim_left_rev (rev (accents (Suc (Suc n)))) = rev (accents (Suc (Suc n)))"
    by (simp add: ascii_space_def space2_def space3_def byte_in_def del: accents.simps)
  then show ?thesis unfolding trim_space_def left by simp
qed

lemma accents_base: "path_base (accents (Suc n)) = accents (Suc n)"
proof -
  have "c \<noteq> CHR ''/''" if "c \<in> set (accents (Suc n))" for c using accents_bytes(2)[of "Suc n"] that by auto
  then have "takeWhile (\<lambda>c. c \<noteq> CHR ''/'') (rev (accents (Suc n))) = rev (accents (Suc n))"
    by (simp add: takeWhile_eq_all_conv del: accents.simps)
  moreover have "dropWhile (\<lambda>c. c = CHR ''/'') (rev (accents (Suc n))) = rev (accents (Suc n))"
    by (simp only: accents_last rev_append) simp
  ultimately show ?thesis by (simp only: path_base_def Let_def rev_rev_ident) simp
qed

lemma long_file_name: "sanitizeName demo_file_libs (accents 128) = Inr (accents 128)"
proof -
  have n: "(128 :: nat) = Suc (Suc 126)" by simp
  have "map (\<lambda>c. if c = CHR 0x5C then CHR ''/'' else c) (accents 128) = accents 128"
    using accents_bytes(2)[of 128] by (intro map_idI) auto
  moreover have "path_base (accents 128) = accents 128" "trim_space (accents 128) = accents 128"
    unfolding n by (simp_all only: accents_base accents_trim)
  moreover have "accents 128 \<noteq> []" "accents 128 \<noteq> ''.''" "accents 128 \<noteq> ''..''"
    using accents_bytes(1)[of 128] by (auto simp del: accents.simps dest: arg_cong[of _ _ length])
  ultimately show ?thesis
    by (simp add: sanitizeName_def accents_runes demo_libs_sel FilesMaxNameLength_def del: accents.simps)
qed

lemma long_file_name_refused:
  assumes "fl_OriginalName file = accents 128"
  shows "PgCreateFile c org file s = (Inl (DriverErr ''store: create file''), s)"
proof -
  have "length (fl_OriginalName file) = 256" by (simp add: assms accents_bytes)
  then have "\<not> field_ok 255 (fl_OriginalName file)" by (simp add: field_ok_def)
  then show ?thesis
    by (simp add: PgCreateFile_def insert_file_def Let_def translate_run withEntTx_def bindp_def refuse_def file_fields_ok_def
        translateFileError_def isForeignKeyViolation_def isNotFound_def)
qed

end
