(* ===== verification/Pg_Divergences.thy ===== *)
theory Pg_Divergences
  imports Pg_Orgs_Properties Orgs_Memory
begin

text \<open>
  Where the organization repository on Postgres does something its comments do not say, or that the in-memory one does not
  do: each as a lemma over the definitions the properties are about.
\<close>

section \<open>Inviting again\<close>

text \<open>
  The index on organization and address covers invitations that are accepted. Whoever joined by an invitation and was
  removed or left cannot be invited back: the answer is \<open>ErrAlreadyMember\<close>, although they are none.
\<close>

lemma invited_once:
  assumes "i \<in> set (db_invitations s)" "inv_OrganizationID i = orgID" "inv_Email i = email"
    and "trim_space email \<noteq> []" "trim_space hash \<noteq> []" "field_ok 255 email" "field_ok 64 hash"
  shows "PgInviteMember c orgID email hash roleIDs invitedBy expiresAt at s = (Inl (OrgsErr ErrAlreadyMember), s)"
proof (cases "address_is_member orgID email s")
  case True
  then show ?thesis by (simp add: PgInviteMember_def bindp_def translate_run withEntTx_def query_def translateOrgError_def)
next
  case False
  have "\<exists>i \<in> set (db_invitations s). inv_OrganizationID i = orgID \<and> inv_Email i = email" using assms(1-3) by blast
  then show ?thesis using False assms(4-)
    by (simp add: PgInviteMember_def bindp_def translate_run withEntTx_def query_def translateOrgError_def attempt_def
        insert_invitation_def InvitationValidate_def refuse_def Let_def)
qed

text \<open>On the demonstration stores: accepted, removed, and invited again, which the in-memory store lets through.\<close>

definition came_and_went :: "'s OrgsService \<Rightarrow> ('s, err, unit) prog" where
  "came_and_went S =
     bindp (AcceptInvitation S id (demo_call 20) (UUID 12) ''eve@x.io'' ''tok'') (\<lambda>_.
     RemoveMember S (demo_call 40) owner_grant (UUID 26))"

lemma not_invited_back:
  "\<exists>s. came_and_went pg_orgs pg_demo = (Inr (), s) \<and> (\<forall>ms \<in> set (db_memberships s). ms_UserID ms \<noteq> UUID 12) \<and>
     PgInviteMember c demo_org ''eve@x.io'' ''fresh'' [UUID 5] (UUID 10) 9000 3000 s = (Inl (OrgsErr ErrAlreadyMember), s)"
proof -
  have "case came_and_went pg_orgs pg_demo of (Inl _, _) \<Rightarrow> False
    | (Inr _, s) \<Rightarrow> (\<forall>ms \<in> set (db_memberships s). ms_UserID ms \<noteq> UUID 12) \<and>
        (\<exists>i \<in> set (db_invitations s). inv_OrganizationID i = demo_org \<and> inv_Email i = ''eve@x.io'')"
    by code_simp
  then obtain s i where run: "came_and_went pg_orgs pg_demo = (Inr (), s)" "\<forall>ms \<in> set (db_memberships s). ms_UserID ms \<noteq> UUID 12"
    and i: "i \<in> set (db_invitations s)" "inv_OrganizationID i = demo_org" "inv_Email i = ''eve@x.io''"
    by (auto split: prod.splits sum.splits)
  have "trim_space ''eve@x.io'' \<noteq> []" "trim_space ''fresh'' \<noteq> []" "field_ok 255 ''eve@x.io''" "field_ok 64 ''fresh''"
    by code_simp+
  then show ?thesis using invited_once[OF i] run by blast
qed

lemma invited_back_in_memory:
  "succeeds (bindp (came_and_went mem_orgs) (\<lambda>_.
     AuthzInviteMember (demo_call 60) demo_org ''eve@x.io'' ''fresh'' [UUID 5] (UUID 10) 9000 3000) demo)"
  by code_simp

section \<open>Retired accounts\<close>

text \<open>
  The count behind \<open>InviteMember\<close> finds memberships of retired accounts: a predicate over an edge does not pass through
  the interceptor, as the comment at \<open>liveUser\<close> says and the one there does not.
\<close>

lemma retired_address_occupied:
  assumes "ms \<in> set (db_memberships s)" "ms_OrganizationID ms = orgID" "u \<in> set (db_users s)" "u_ID u = ms_UserID ms"
    and "u_Email u = email" "UserIsDeleted u"
  shows "PgInviteMember c orgID email hash roleIDs invitedBy expiresAt at s = (Inl (OrgsErr ErrAlreadyMember), s)"
proof -
  have "address_is_member orgID email s" using assms(1-5) by (auto simp: address_is_member_def)
  then show ?thesis by (simp add: PgInviteMember_def bindp_def translate_run withEntTx_def query_def translateOrgError_def)
qed

text \<open>
  \<open>AddMember\<close> of a retired account answers \<open>ErrNotFound\<close> and leaves the membership behind: the foreign key sees the
  row, and only the read after the commit asks whether it is live.
\<close>

lemma retired_account_added:
  assumes "user_row_exists userID (db_accounts s)" "\<And>u. u \<in> set (db_users s) \<Longrightarrow> u_ID u = userID \<Longrightarrow> UserIsDeleted u"
    and "org_row_exists orgID s" "userID \<noteq> uuid_Nil" "c_newID c DrawMembership \<notin> ms_ID ` set (db_memberships s)"
    and "\<And>ms. ms \<in> set (db_memberships s) \<Longrightarrow> ms_OrganizationID ms = orgID \<Longrightarrow> ms_UserID ms \<noteq> userID"
    and "ActorIsZero (ActorFrom (c_actor c))"
  shows "\<exists>ms. PgAddMember c orgID userID [] uuid_Nil at s = (Inl orgs_not_found, s\<lparr>db_memberships := db_memberships s @ [ms]\<rparr>) \<and>
    ms_UserID ms = userID \<and> ms_OrganizationID ms = orgID \<and> ms_Status ms = MembershipActive"
proof -
  define ms where "ms = \<lparr>ms_ID = c_newID c DrawMembership, ms_UserID = userID, ms_OrganizationID = orgID,
    ms_Status = MembershipActive, ms_InvitedBy = None, ms_JoinedAt = Some at\<rparr>"
  let ?s = "s\<lparr>db_memberships := db_memberships s @ [ms]\<rparr>"
  let ?m = "MembershipActivate at \<lparr>ms_ID = uuid_Nil, ms_UserID = userID, ms_OrganizationID = orgID,
    ms_Status = MembershipActive, ms_InvitedBy = None, ms_JoinedAt = None\<rparr>"
  have row: "?m\<lparr>ms_ID := c_newID c DrawMembership\<rparr> = ms"
    by (simp add: ms_def MembershipActivate_def)
  have "\<not> (\<exists>other \<in> set (db_memberships s). ms_UserID other = userID \<and> ms_OrganizationID other = orgID)"
    using assms(6) by blast
  then have ins: "insert_membership c ?m s = (Inr ms, ?s)"
    unfolding insert_membership_def Let_def row
    using assms(1,3,4,5) by (auto simp: ms_def MembershipValidate_def ok_def)
  have fresh: "ms_ID m \<noteq> c_newID c DrawMembership" if "m \<in> set (db_memberships s)" for m
    using that assms(5) by (metis image_eqI)
  have "\<not> liveUser ?s ms" using assms(2) by (auto simp: liveUser_def db_users_def ms_def)
  then have "filter (\<lambda>m. (ms_OrganizationID m = orgID \<and> ms_ID m = ms_ID ms) \<and> liveUser ?s m) (db_memberships ?s) = []"
    using fresh by (auto simp: filter_empty_conv ms_def)
  then have "memberRows (\<lambda>m. ms_OrganizationID m = orgID \<and> ms_ID m = ms_ID ms) ?s = []"
    by (simp only: memberRows_def map_filter_simps) (simp add: List.map_filter_def)
  then have gone: "PgMember orgID (ms_ID ms) ?s = Inl orgs_not_found"
    by (simp add: PgMember_def first_member_def)
  have "PgAddMember c orgID userID [] uuid_Nil at s = (Inl orgs_not_found, ?s)"
    using ins gone assms(7)
    by (simp add: PgAddMember_def Let_def bindp_def translate_run withEntTx_def attempt_def assignMembershipRoles_def ownedRoleIDs_def
        query_def recordEnt_def ok_def)
  then show ?thesis by (auto simp: ms_def)
qed

section \<open>Deleted organizations\<close>

text \<open>
  \<open>HasOrganization\<close> does not leave out deleted organizations, so the listing of an address's invitations reads one of those
  too and fails as a whole: one deleted organization hides every other invitation.
\<close>

lemma unreadable_ends_listing:
  "row \<in> set rows \<Longrightarrow> read_invitation (inv_ID row) s = Inl e \<Longrightarrow> \<exists>e. read_invitations rows s = Inl e"
  by (induction rows) (auto split: sum.split)

lemma deleted_organization_hides_invitations:
  assumes "db_wf s" "i \<in> set (db_invitations s)" "inv_Email i = email" "inv_AcceptedAt i = None" "now < inv_ExpiresAt i"
    and "\<And>o'. o' \<in> set (live_orgs s) \<Longrightarrow> org_ID o' \<noteq> inv_OrganizationID i"
  shows "\<exists>e. PgInvitationsForEmail email now s = Inl e"
proof -
  have "distinct (map inv_ID (db_invitations s))"
    using assms(1) by (simp add: db_wf_def offered_ok_def invite_keys_def comp_def)
  then have inj: "inv_ID j = inv_ID i \<longleftrightarrow> j = i" if "j \<in> set (db_invitations s)" for j
    using that assms(2) by (auto simp: distinct_map inj_on_def)
  have "filter (\<lambda>o'. org_ID o' = inv_OrganizationID i) (live_orgs s) = []" using assms(6) by (simp add: filter_empty_conv)
  moreover have "j = i" if "only_row (filter (\<lambda>j. inv_ID j = inv_ID i) (db_invitations s)) = Inr j" for j
    using that inj by (auto simp: only_row_eq dest: only_row_in)
  ultimately obtain e where "read_invitation (inv_ID i) s = Inl e"
    by (cases "only_row (filter (\<lambda>j. inv_ID j = inv_ID i) (db_invitations s))") (auto simp: read_invitation_def)
  then show ?thesis
    unfolding PgInvitationsForEmail_def using assms(2-5) by (intro unreadable_ends_listing[of i]) auto
qed

section \<open>A role deleted under an assignment\<close>

text \<open>
  The lock that \<open>DeleteRole\<close> takes against concurrent assignments is not one \<open>AddMember\<close> takes: between its count of the
  holders and its delete, a member can be added with the role. The delete then takes the assignment away that the
  count was to protect, and the member is left without a role.
\<close>

lemma assignment_lost:
  "case delete_role_checks (demo_call 20) demo_org (UUID 6) RefuseRoleInUse pg_demo of
     (Inl _, _) \<Rightarrow> False
   | (Inr row, s1) \<Rightarrow> (case PgAddMember (demo_call 40) demo_org (UUID 12) [UUID 6] uuid_Nil 2000 s1 of
       (Inl _, _) \<Rightarrow> False
     | (Inr mb, s2) \<Rightarrow> (case delete_role_row (r_ID row) s2 of
         (Inl _, _) \<Rightarrow> False
       | (Inr _, s3) \<Rightarrow> mb_Roles mb \<noteq> [] \<and> fst (PgDeleteRole (demo_call 60) demo_org (UUID 6) RefuseRoleInUse s2) = Inl (OrgsErr ErrRoleInUse) \<and>
           roles_of_member s3 (mb_ID mb) = []))"
  by code_simp

end
