(* ===== verification/Spec2Isabelle.thy ===== *)
theory Spec2Isabelle
  imports Authz_Properties Orgs_Properties Orgs_Lifecycle Users_Properties Users_Recovery API_Properties Files_Properties Config_Properties Seed_Memory Pg_Properties Divergences
    Pg_Orgs_Properties Pg_Files_Properties Pg_Divergences
begin

text \<open>
  A verification library for the multi-tenant service under \<open>src/\<close>: accounts, organizations,
  memberships and roles, files, and the HTTP edge that lets requests in.

  \<^bold>\<open>The program.\<close> A request reaches \<open>internal/api\<close>, whose middleware finds the caller's address, charges
  a rate limiter, reads the bearer token (\<open>internal/auth\<close>), looks the account and the device up
  (\<open>internal/domain/user\<close>) and asks whether the caller's stored roles carry the permission the
  operation is declared with (\<open>internal/domain/authz\<close>). The handler then calls the account service or
  the organization service (\<open>internal/domain/orgs\<close>), which hold the rules, over repository interfaces.
  The interfaces are implemented on Postgres and, for tests and as the written-down contract, in
  memory (\<open>internal/store/repositories/memory\<close>), under one mutex per store: a store call is atomic,
  a service call is a sequence of store calls between which others may run.

  \<^bold>\<open>Foundations.\<close> \<open>Prelude\<close>: programs that pass a state and may fail (\<open>prog\<close>; every error return and
  panic is a value \<open>Inl\<close>), association lists under update, the named collections of rules.
  \<open>Runs\<close>: a relation of single steps and its runs. \<open>Errors\<close>: the packages' sentinel errors as one
  type. \<open>Go_Strings\<close>, \<open>Go_Crypto\<close>, \<open>Go_Net\<close>, \<open>Go_Encoding\<close>, \<open>Go_JSON\<close>: what the code uses of
  the standard library, as definitions that compute: UTF-8 lengths, \<open>TrimSpace\<close>, SHA-256 and HMAC on
  32-bit words, parsing and printing of addresses, base64, integers in decimal, JSON.
  \<open>Calls\<close>: what one call takes from outside (context, clock, drawn identifiers, random bytes).

  \<^bold>\<open>Data.\<close> \<open>Entities\<close>: the rows and the hand-written rules on them (\<open>internal/store/ent/*_rules.go\<close>).
  \<open>Permissions\<close>, \<open>Shipped_Roles\<close>: the permission catalog and the roles every installation has.

  \<^bold>\<open>Authorization.\<close> \<open>Authz\<close>: requests, grants, the two authority rules, \<open>Authorize\<close> and \<open>Snapshot\<close>, over
  the repository as a record of functions. \<open>Memory_Authz\<close>: the in-memory store, invitations included.
  \<open>Authz_Wf\<close>: its invariant (unique keys, resolved references) kept by every operation.
  \<open>Authz_Steps\<close>, \<open>Authz_Machine\<close>: every store call as a step of a transition system, with what no run
  changes. \<open>Authz_Memory\<close>: the decision restated over the store's rows.

  \<^bold>\<open>Organizations.\<close> \<open>Orgs_Types\<close>, \<open>Orgs_Service\<close>: the service, over three interfaces. \<open>Orgs_Contract\<close>:
  what the service relies on, as locales, and the bounds on authority proved once inside them.
  \<open>Orgs_Memory\<close>: their interpretation on the in-memory store. \<open>Orgs_Runs\<close>: every service call is a
  run of store calls. \<open>Scoped_Ops\<close>: calls confined to one organization.

  \<^bold>\<open>Accounts.\<close> \<open>Memory_Users\<close>: the in-memory account store. \<open>User_Service\<close>: sign-in, second factor,
  password reset and change, e-mail change, devices. \<open>Users_Steps\<close>: the store's invariant and what only
  moves forward (session epochs, revocations, spent codes) as rule inductions over its steps.
  \<open>Users_Runs\<close>, \<open>Users_Contract\<close>, \<open>Users_Memory\<close>: as for organizations.

  \<^bold>\<open>The edge.\<close> \<open>Auth_Token\<close>: signing and reading tokens, byte for byte. \<open>API_Gate\<close>: the tables of
  operations and the two middlewares that admit a request. \<open>API_Memory\<close>: the gate over the two
  in-memory stores. \<open>API_Edge\<close>: the caller's address, the limiter's routes, the body limit, CORS.
  \<open>API_Problem\<close>: which answer an error becomes.

  \<^bold>\<open>Accounts on Postgres.\<close> \<open>Pg_Tables\<close>, \<open>Pg_Users\<close>: the deployed account repository
  (\<open>internal/store/repositories/user.go\<close>, \<open>user_sign_in.go\<close>, \<open>user_email_change.go\<close>), statement by statement over tables, with
  its transactions, unique indexes, soft delete and field rules. \<open>Pg_Refinement\<close>, \<open>Pg_Codes\<close>: it does what the in-memory
  store does, one lemma per method under a relation between tables and maps. \<open>Pg_Contract\<close>: it keeps the contract of
  \<open>Users_Contract\<close>, so the service's properties hold over it. \<open>Users_Recovery\<close>: a lost password can be replaced.

  \<^bold>\<open>Organizations on Postgres.\<close> \<open>Pg_Orgs\<close>, \<open>Pg_Roles\<close>, \<open>Pg_Invitations\<close>: the deployed repositories of organizations, members,
  roles, invitations, the audit trail and authorization (\<open>internal/store/repositories/orgs.go\<close>, \<open>invitations.go\<close>, \<open>audit.go\<close>,
  \<open>authz.go\<close>), in the same manner; the rows are those of \<open>Entities\<close>, the join tables are pairs. \<open>Pg_Wf\<close>: keys and
  references, kept by every method, by a logic of the runs that return. \<open>Pg_Authority\<close>: the contracts of \<open>Authz\<close> and
  \<open>Orgs_Contract\<close> hold over the tables, so the bounds on authority do. \<open>Pg_Machine\<close>: the methods as a step relation and the
  last owner under it.

  \<^bold>\<open>Files.\<close> \<open>Go_Bytes\<close>, \<open>Go_MIME\<close>, \<open>Go_AES\<close>: the rest of the standard library the uploads use, content sniffing and
  AES-GCM included. \<open>Files_Sniff\<close>, \<open>Files_Service\<close>: \<open>internal/domain/files\<close>. \<open>Files_Memory\<close>, \<open>Files_Scanner\<close>: the rows in
  memory, the blobs in memory and on disk over system calls that may fail, and the scanner's protocol
  (\<open>internal/filestore\<close>). \<open>Files_Contract\<close>, \<open>Files_Stores\<close>: what the service relies on, as locales that build on each other (a
  store of blobs, the creation of rows, all of the rows, the two joined in uploads and in photos), and that these stores keep it.
  \<open>Pg_Files\<close>: the deployed repository of files (\<open>internal/store/repositories/file.go\<close>), whose statements can refuse a row after
  its file was written, the case the service's clean-up is for.

  \<^bold>\<open>Configuration and seeder.\<close> \<open>Go_Parse\<close>, \<open>Config\<close>: every setting, how it is read and validated
  (\<open>internal/config\<close>), and what \<open>cmd/api\<close> hands on. \<open>Seed\<close>, \<open>Seed_Memory\<close>: when the development seeder refuses to run, and
  that its \<open>Reset\<close> returns and deletes nothing but what is its own (\<open>internal/seed\<close>).

  \<^bold>\<open>What is shown.\<close> \<open>Authz_Properties\<close>, \<open>Orgs_Properties\<close>, \<open>Orgs_Lifecycle\<close>, \<open>Users_Properties\<close>,
  \<open>Users_Recovery\<close>, \<open>Pg_Properties\<close>, \<open>Pg_Orgs_Properties\<close>, \<open>API_Properties\<close>, \<open>Files_Properties\<close>, \<open>Pg_Files_Properties\<close>, \<open>Config_Properties\<close> and \<open>Seed_Memory\<close> hold the properties, each next to a concrete instance of its hypotheses; the
  small stores of \<open>Demo_Store\<close> and \<open>Demo_Users\<close> serve as these instances. The properties
  are of four sorts: what a single call decides, on every branch; what it can at most give away
  (no authority beyond the caller's, no code spent twice); what holds of all runs of the stores,
  in any interleaving (the last owner, the isolation of tenants, the audit trail, the well-formedness
  of the tables, an ended session); and round trips. \<open>Divergences\<close> and \<open>Pg_Divergences\<close> hold what the code
  does against its documents.

  \<^bold>\<open>Bounds and fuel.\<close> Go's \<open>int\<close> is modelled by \<open>int\<close> where the code only compares and pages with it,
  the counters that could wrap being bounded by what is stored. The JSON reader recurses on fuel twice
  the length of its input and one more, which suffices for every input (\<open>json_fuel\<close> in \<open>Go_JSON\<close>), and keeps
  the library's nesting bound of 10000. \<open>decode_chunks\<close> reads at most as many chunks as it has bytes. The guard of the
  seeder reads pages on fuel 5, after which its own limit of rows has ended it (\<open>foreign_scan_fuel\<close>). The loops of the
  seeder's \<open>Reset\<close> are partial functions, whose value \<open>None\<close> is not returning; \<open>Reset_ends\<close> rules it out under the
  locale \<open>resettable\<close>, and \<open>reset_terminates\<close> on the in-memory stores. The other loops are structural or have a measure.

  \<^bold>\<open>Parameters.\<close> Code outside \<open>src/\<close> is an argument: bcrypt and the Unicode case table (\<open>Libs\<close>),
  \<open>uuid.Parse\<close> and \<open>uuid.UUID.String\<close> (\<open>UuidText\<close>), the archive reader and the Unicode tables of file names (\<open>FileLibs\<close>),
  \<open>url.Parse\<close>, \<open>strconv.ParseFloat\<close>, the rounding of fractional durations and the case table of the configuration
  (\<open>ConfigLibs\<close>), the negotiation of a language; a property that needs one of them to behave says so in its hypotheses,
  with a witness that satisfies them. Of Postgres and the generated client the model has what the repository relies on:
  a table is the list of its rows, a statement is one step, a transaction that fails is undone as a whole, an index or a
  foreign key refuses a row with the code the repository asks for. A connection that fails, and statements of other
  transactions between those of one, are left out, except where \<open>Divergences\<close> and \<open>Pg_Divergences\<close> spell such an order out.
  Text is ordered by its bytes, where a database may be set up with another collation; addresses are kept as their text.
  The columns \<open>label\<close>, \<open>country\<close> and \<open>updated_at\<close>, which no rule reads, are left out too.

  Runs of the files service (\<open>stored_files_open\<close>) and the seeder's \<open>Reset\<close> are spoken of over the in-memory rows only.

  \<^bold>\<open>Not modelled.\<close> The generated client itself. The handlers and schemas of \<open>internal/api/v1\<close>, which bind the services to a web framework. Start-up,
  telemetry, logging, translations and mail delivery, which are input and output. The token bucket of the limiter,
  which counts in floating point. The fixtures of the in-memory stores and the seeder's plan, which draws its data at random.
\<close>

end
